(* ===== verification/Prelude.thy ===== *)
theory Prelude
  imports Complex_Main "HOL-Library.Multiset" "HOL-Library.AList" "HOL-Library.List_Lexorder"
    "HOL-Library.Char_ord"
begin

text \<open>
  What every component theory shares: the standard-library operations of the source language
  that the modelled code calls (string methods, insertion-ordered maps, stable sorting, decimal
  printing), the generic lemmas about them, the interfaces that the components' stores and
  comparators implement, and the collections of rewrite rules the component proofs use.

  Strings are lists of code units (HOL \<open>char\<close>s). A \<open>Map\<close> of the source is an association
  list in insertion order; \<open>set\<close> is \<^theory_text>\<open>AList.update\<close> (in place, or at the end for a new key) and
  \<open>delete\<close> is \<^theory_text>\<open>AList.delete\<close>.
\<close>

named_theorems js_string "rewrite rules for the string methods of the source language"
named_theorems store_simps "lookup after update and removal in the stores of the model"

section \<open>Strings\<close>

definition is_ws :: "char \<Rightarrow> bool" where
  "is_ws c = (let n = (of_char c :: nat) in (9 \<le> n \<and> n \<le> 13) \<or> n = 32 \<or> n = 160)"

definition is_digit :: "char \<Rightarrow> bool" where
  "is_digit c = (let n = (of_char c :: nat) in 48 \<le> n \<and> n \<le> 57)"

definition is_lower :: "char \<Rightarrow> bool" where
  "is_lower c = (let n = (of_char c :: nat) in 97 \<le> n \<and> n \<le> 122)"

definition is_upper :: "char \<Rightarrow> bool" where
  "is_upper c = (let n = (of_char c :: nat) in 65 \<le> n \<and> n \<le> 90)"

definition is_alnum :: "char \<Rightarrow> bool" where
  "is_alnum c = (is_digit c \<or> is_lower c \<or> is_upper c)"

text \<open>\<open>s.trim()\<close>.\<close>

definition js_trim :: "string \<Rightarrow> string" where
  "js_trim s = rev (dropWhile is_ws (rev (dropWhile is_ws s)))"

definition to_lower_char :: "char \<Rightarrow> char" where
  "to_lower_char c = (if is_upper c then char_of (of_char c + 32 :: nat) else c)"

definition to_upper_char :: "char \<Rightarrow> char" where
  "to_upper_char c = (if is_lower c then char_of (of_char c - 32 :: nat) else c)"

text \<open>\<open>s.toLowerCase()\<close> and \<open>s.toUpperCase()\<close>, on the ASCII letters.\<close>

definition to_lower :: "string \<Rightarrow> string" where
  "to_lower = map to_lower_char"

definition to_upper :: "string \<Rightarrow> string" where
  "to_upper = map to_upper_char"

text \<open>\<open>s.startsWith(p)\<close>, \<open>s.endsWith(p)\<close>.\<close>

definition starts_with :: "string \<Rightarrow> string \<Rightarrow> bool" where
  "starts_with s p = (take (length p) s = p)"

definition ends_with :: "string \<Rightarrow> string \<Rightarrow> bool" where
  "ends_with s p = starts_with (rev s) (rev p)"

text \<open>\<open>s.indexOf(c)\<close> and \<open>s.lastIndexOf(c)\<close> for one character; \<open>None\<close> is \<open>-1\<close>.\<close>

fun index_of :: "char \<Rightarrow> string \<Rightarrow> nat option" where
  "index_of c [] = None"
| "index_of c (x # xs) = (if x = c then Some 0 else map_option Suc (index_of c xs))"

definition last_index_of :: "char \<Rightarrow> string \<Rightarrow> nat option" where
  "last_index_of c s = map_option (\<lambda>i. length s - 1 - i) (index_of c (rev s))"

text \<open>\<open>s.split(c)\<close> for one character, and \<open>parts.join(sep)\<close>.\<close>

fun split_on :: "char \<Rightarrow> string \<Rightarrow> string list" where
  "split_on c [] = [[]]"
| "split_on c (x # xs) =
     (if x = c then [] # split_on c xs
      else (case split_on c xs of [] \<Rightarrow> [[x]] | p # ps \<Rightarrow> (x # p) # ps))"

fun join_with :: "string \<Rightarrow> string list \<Rightarrow> string" where
  "join_with sep [] = []"
| "join_with sep [p] = p"
| "join_with sep (p # q # ps) = p @ sep @ join_with sep (q # ps)"

lemma split_on_nonempty [simp]: "split_on c s \<noteq> []"
  by (induction s) (auto split: list.splits)

lemma join_with_Cons_Cons [simp]: "join_with sep ((x # p) # ps) = x # join_with sep (p # ps)"
  by (cases ps) simp_all

lemma join_with_Nil_Cons: "ps \<noteq> [] \<Longrightarrow> join_with sep ([] # ps) = sep @ join_with sep ps"
  by (cases ps) simp_all

lemma join_split_on [js_string]: "join_with [c] (split_on c s) = s"
  by (induction s) (auto simp: join_with_Nil_Cons split: list.splits)

lemma split_on_no_sep: "p \<in> set (split_on c s) \<Longrightarrow> c \<notin> set p"
proof (induction s arbitrary: p)
  case (Cons x xs)
  show ?case
  proof (cases "split_on c xs")
    case (Cons q qs)
    then show ?thesis using Cons.IH Cons.prems by (auto split: if_splits)
  qed simp
qed simp

lemma split_on_no_occ: "c \<notin> set s \<Longrightarrow> split_on c s = [s]"
  by (induction s) auto

lemma index_of_None [simp]: "index_of c s = None \<longleftrightarrow> c \<notin> set s"
  by (induction s) auto

lemma index_of_Some:
  "index_of c s = Some i \<Longrightarrow>
     i < length s \<and> s ! i = c \<and> c \<notin> set (take i s) \<and> s = take i s @ c # drop (Suc i) s"
proof (induction s arbitrary: i)
  case (Cons x xs)
  then show ?case by (cases "x = c") auto
qed simp

lemma index_of_append_sep: "c \<notin> set a \<Longrightarrow> index_of c (a @ c # b) = Some (length a)"
  by (induction a) auto

lemma last_index_of_None [simp]: "last_index_of c s = None \<longleftrightarrow> c \<notin> set s"
  by (simp add: last_index_of_def)

lemma last_index_of_append_sep:
  "c \<notin> set b \<Longrightarrow> last_index_of c (a @ c # b) = Some (length a)"
  by (simp add: last_index_of_def index_of_append_sep)

lemma last_index_of_Some:
  assumes "last_index_of c s = Some i"
  shows "s = take i s @ c # drop (Suc i) s \<and> c \<notin> set (drop (Suc i) s) \<and> i < length s"
proof -
  from assms obtain j where j: "index_of c (rev s) = Some j" and i: "i = length s - 1 - j"
    by (auto simp: last_index_of_def)
  from index_of_Some [OF j] have jl: "j < length s"
    and eq: "rev s = take j (rev s) @ c # drop (Suc j) (rev s)"
    and nin: "c \<notin> set (take j (rev s))"
    by auto
  from eq have "s = rev (drop (Suc j) (rev s)) @ c # rev (take j (rev s))"
    by (metis append.assoc append_Cons append_Nil rev.simps(2) rev_append rev_rev_ident)
  moreover have "length (rev (drop (Suc j) (rev s))) = i"
    using jl i by simp
  ultimately have "take i s = rev (drop (Suc j) (rev s))" and "drop (Suc i) s = rev (take j (rev s))"
    and "i < length s"
    using jl i by (simp_all add: rev_take rev_drop Suc_diff_Suc)
  with nin \<open>s = rev (drop (Suc j) (rev s)) @ c # rev (take j (rev s))\<close> show ?thesis
    by (metis set_rev)
qed

lemma starts_with_append [simp]: "starts_with (p @ s) p"
  by (simp add: starts_with_def)

lemma starts_with_iff: "starts_with s p \<longleftrightarrow> (\<exists>r. s = p @ r)"
  by (auto simp: starts_with_def) (metis append_take_drop_id)

lemma ends_with_iff: "ends_with s p \<longleftrightarrow> (\<exists>r. s = r @ p)"
proof
  assume "ends_with s p"
  then obtain r where "rev s = rev p @ r" by (auto simp: ends_with_def starts_with_iff)
  then have "s = rev r @ p" by (metis rev_append rev_rev_ident)
  then show "\<exists>r. s = r @ p" ..
qed (auto simp: ends_with_def)

lemma js_trim_no_ws: "\<forall>c \<in> set s. \<not> is_ws c \<Longrightarrow> js_trim s = s"
proof -
  assume a: "\<forall>c \<in> set s. \<not> is_ws c"
  then have "dropWhile is_ws s = s" and "dropWhile is_ws (rev s) = rev s"
    using hd_in_set [of s] hd_in_set [of "rev s"] by (auto simp: dropWhile_eq_self_iff)
  then show ?thesis by (simp add: js_trim_def)
qed

lemma set_js_trim: "set (js_trim s) \<subseteq> set s"
  by (auto simp: js_trim_def dest!: set_dropWhileD)

lemma length_js_trim: "length (js_trim s) \<le> length s"
  unfolding js_trim_def
  by (metis le_trans length_dropWhile_le length_rev)

section \<open>Decimal numerals\<close>

definition digit_char :: "nat \<Rightarrow> char" where
  "digit_char d = char_of (48 + d)"

definition digit_val :: "char \<Rightarrow> nat" where
  "digit_val c = of_char c - 48"

fun show_nat :: "nat \<Rightarrow> string" where
  "show_nat n = (if n < 10 then [digit_char n] else show_nat (n div 10) @ [digit_char (n mod 10)])"

declare show_nat.simps [simp del]

definition show_int :: "int \<Rightarrow> string" where
  "show_int i = (if i < 0 then CHR ''-'' # show_nat (nat (- i)) else show_nat (nat i))"

text \<open>\<open>parseInt(s, 10)\<close> on a string of decimal digits.\<close>

definition parse_nat :: "string \<Rightarrow> nat" where
  "parse_nat s = foldl (\<lambda>n c. 10 * n + digit_val c) 0 s"

lemma digit_val_char [simp]: "d < 10 \<Longrightarrow> digit_val (digit_char d) = d"
  by (simp add: digit_val_def digit_char_def)

lemma is_digit_char [simp]: "d < 10 \<Longrightarrow> is_digit (digit_char d)"
  by (simp add: is_digit_def digit_char_def)

lemma parse_nat_snoc: "parse_nat (s @ [c]) = 10 * parse_nat s + digit_val c"
  by (simp add: parse_nat_def)

lemma parse_show_nat [js_string, simp]: "parse_nat (show_nat n) = n"
proof (induction n rule: show_nat.induct)
  case (1 n)
  show ?case
  proof (cases "n < 10")
    case True
    then show ?thesis by (subst show_nat.simps) (simp add: parse_nat_def)
  next
    case False
    with 1 show ?thesis by (subst show_nat.simps) (simp add: parse_nat_snoc)
  qed
qed

lemma show_nat_digits: "\<forall>c \<in> set (show_nat n). is_digit c"
proof (induction n rule: show_nat.induct)
  case (1 n)
  then show ?case by (cases "n < 10") (subst show_nat.simps, simp)+
qed

lemma show_nat_nonempty [simp]: "show_nat n \<noteq> []"
  by (subst show_nat.simps) simp

lemma show_nat_inject [simp]: "show_nat m = show_nat n \<longleftrightarrow> m = n"
  by (metis parse_show_nat)

section \<open>Numbers\<close>

text \<open>
  A number of the source: a finite value (read as a rational), an infinity or \<open>NaN\<close>.
  \<open>diff_sign a b\<close> is the sign of \<open>a - b\<close>, which is exact for finite doubles, with 0 where the
  difference is 0 or \<open>NaN\<close> (the two falsy results).
\<close>

datatype js_num = JNum rat | JInf | JNegInf | JNaN

fun is_finite_num :: "js_num \<Rightarrow> bool" where
  "is_finite_num (JNum _) = True"
| "is_finite_num _ = False"

fun diff_sign :: "js_num \<Rightarrow> js_num \<Rightarrow> int" where
  "diff_sign (JNum a) (JNum b) = (if a < b then -1 else if a = b then 0 else 1)"
| "diff_sign JNaN _ = 0"
| "diff_sign _ JNaN = 0"
| "diff_sign JInf JInf = 0"
| "diff_sign JNegInf JNegInf = 0"
| "diff_sign JInf _ = 1"
| "diff_sign _ JInf = -1"
| "diff_sign JNegInf _ = -1"
| "diff_sign _ JNegInf = 1"

section \<open>Collation\<close>

text \<open>
  \<open>a.localeCompare(b)\<close> in the root collation on ASCII: whitespace, then punctuation and symbols
  in the collation's order, digits, letters; letters compare first without case, then lower case
  before upper case; control characters are ignored. A code unit above ASCII sorts after them.
\<close>

definition punct_order :: string where
  "punct_order = map char_of [95, 45, 44, 59, 58, 33, 63, 46, 39, 34, 40, 41, 91, 93, 123, 125,
     64, 42, 47, 92, 38, 35, 37, 96, 94, 43, 60, 61, 62, 124, 126, 36 :: nat]"

definition primary_weight :: "char \<Rightarrow> nat" where
  "primary_weight c =
     (let n = (of_char c :: nat) in
      if 9 \<le> n \<and> n \<le> 13 then n - 8
      else if n = 32 then 6
      else if is_digit c then 100 + n
      else if is_alnum c then 200 + of_char (to_lower_char c)
      else if 128 \<le> n then 400 + n
      else (case index_of c punct_order of Some i \<Rightarrow> 7 + i | None \<Rightarrow> 0))"

definition collation_key :: "string \<Rightarrow> nat list \<times> nat list" where
  "collation_key s =
     (let cs = filter (\<lambda>c. primary_weight c \<noteq> 0) s in
      (map primary_weight cs, map (\<lambda>c. if is_upper c then 1 else 0) cs))"

definition key_le :: "nat list \<times> nat list \<Rightarrow> nat list \<times> nat list \<Rightarrow> bool" where
  "key_le a b = (fst a < fst b \<or> (fst a = fst b \<and> snd a \<le> snd b))"

definition locale_compare :: "string \<Rightarrow> string \<Rightarrow> int" where
  "locale_compare a b =
     (let x = collation_key a; y = collation_key b in
      if x = y then 0 else if key_le x y then -1 else 1)"

lemma key_le_total: "key_le a b \<or> key_le b a"
  by (auto simp: key_le_def)

lemma key_le_antisym: "key_le a b \<Longrightarrow> key_le b a \<Longrightarrow> a = b"
  by (cases a; cases b) (auto simp: key_le_def)

lemma key_le_trans: "key_le a b \<Longrightarrow> key_le b c \<Longrightarrow> key_le a c"
  by (auto simp: key_le_def intro: less_trans)

lemma locale_compare_le_iff [js_string]:
  "locale_compare a b \<le> 0 \<longleftrightarrow> key_le (collation_key a) (collation_key b)"
  using key_le_total [of "collation_key a" "collation_key a"] by (auto simp: locale_compare_def Let_def)

section \<open>Insertion-ordered maps\<close>

text \<open>
  The interface of a keyed store, with the laws its clients use: reading after writing and
  after removing, and an invariant every operation keeps. The source's \<open>Map\<close> implements it.
\<close>

locale keyed_store =
  fixes get :: "'k \<Rightarrow> 's \<Rightarrow> 'v option"
    and put :: "'k \<Rightarrow> 'v \<Rightarrow> 's \<Rightarrow> 's"
    and del :: "'k \<Rightarrow> 's \<Rightarrow> 's"
    and invar :: "'s \<Rightarrow> bool"
  assumes get_put: "invar s \<Longrightarrow> get k (put j v s) = (if k = j then Some v else get k s)"
    and get_del: "invar s \<Longrightarrow> get k (del j s) = (if k = j then None else get k s)"
    and invar_put: "invar s \<Longrightarrow> invar (put j v s)"
    and invar_del: "invar s \<Longrightarrow> invar (del j s)"
begin

text \<open>A read-modify-write of one key: nothing happens when the key is absent.\<close>

definition modify :: "'k \<Rightarrow> ('v \<Rightarrow> 'v) \<Rightarrow> 's \<Rightarrow> 's" where
  "modify k f s = (case get k s of None \<Rightarrow> s | Some v \<Rightarrow> put k (f v) s)"

lemma invar_modify: "invar s \<Longrightarrow> invar (modify k f s)"
  by (simp add: modify_def invar_put split: option.split)

lemma get_modify:
  "invar s \<Longrightarrow> get j (modify k f s) = (if j = k then map_option f (get k s) else get j s)"
  by (simp add: modify_def get_put split: option.split)

lemma invar_fold_put: "invar s \<Longrightarrow> invar (fold (\<lambda>(k, v). put k v) kvs s)"
  by (induction kvs arbitrary: s) (auto simp: invar_put)

lemma get_fold_put:
  "invar s \<Longrightarrow>
     get k (fold (\<lambda>(j, v). put j v) kvs s) =
       (case map_of (rev kvs) k of Some v \<Rightarrow> Some v | None \<Rightarrow> get k s)"
proof (induction kvs arbitrary: s)
  case (Cons kv kvs)
  obtain j v where kv: "kv = (j, v)" by fastforce
  show ?case
    using Cons.IH [OF invar_put [OF Cons.prems]] Cons.prems
    by (simp add: kv get_put map_add_def split: option.split)
qed simp

end

definition js_map_ok :: "('k \<times> 'v) list \<Rightarrow> bool" where
  "js_map_ok m = distinct (map fst m)"

definition js_get :: "'k \<Rightarrow> ('k \<times> 'v) list \<Rightarrow> 'v option" where
  "js_get k m = map_of m k"

interpretation js_map: keyed_store js_get AList.update AList.delete js_map_ok
proof (unfold_locales, goal_cases)
  case (1 s k j v)
  then show ?case by (simp add: js_get_def update_conv')
next
  case (2 s k j)
  then show ?case by (simp add: js_get_def delete_conv')
next
  case (3 s j v)
  then show ?case by (simp add: js_map_ok_def distinct_update)
next
  case (4 s j)
  then show ?case by (simp add: js_map_ok_def distinct_delete)
qed

lemma js_get_update [store_simps]:
  "js_get k (AList.update j v m) = (if k = j then Some v else js_get k m)"
  by (simp add: js_get_def update_conv')

lemma js_get_delete [store_simps]:
  "js_get k (AList.delete j m) = (if k = j then None else js_get k m)"
  by (simp add: js_get_def delete_conv')

lemma js_get_Nil [simp]: "js_get k [] = None"
  by (simp add: js_get_def)

lemma js_map_ok_Nil [simp]: "js_map_ok []"
  by (simp add: js_map_ok_def)

lemma js_get_Some_in: "js_get k m = Some v \<Longrightarrow> (k, v) \<in> set m"
  by (simp add: js_get_def map_of_SomeD)

lemma js_get_eq_Some_iff: "js_map_ok m \<Longrightarrow> js_get k m = Some v \<longleftrightarrow> (k, v) \<in> set m"
  by (simp add: js_get_def js_map_ok_def)

lemma js_get_eq_None_iff: "js_get k m = None \<longleftrightarrow> k \<notin> fst ` set m"
  by (simp add: js_get_def map_of_eq_None_iff)

section \<open>Stable sorting by a comparator\<close>

text \<open>
  \<open>xs.sort(cmp)\<close> is stable; \<open>le a b\<close> stands for \<open>cmp(a, b) <= 0\<close>. The comparator has to be a
  total preorder on the elements compared (those with \<open>ok\<close>: a comparator that subtracts numbers
  is not one on \<open>NaN\<close>) for the result to be ordered; that is the contract below.
\<close>

fun js_insert :: "('a \<Rightarrow> 'a \<Rightarrow> bool) \<Rightarrow> 'a \<Rightarrow> 'a list \<Rightarrow> 'a list" where
  "js_insert le x [] = [x]"
| "js_insert le x (y # ys) = (if le x y then x # y # ys else y # js_insert le x ys)"

definition js_sort :: "('a \<Rightarrow> 'a \<Rightarrow> bool) \<Rightarrow> 'a list \<Rightarrow> 'a list" where
  "js_sort le xs = foldr (js_insert le) xs []"

lemma mset_js_insert [simp]: "mset (js_insert le x ys) = add_mset x (mset ys)"
  by (induction ys) auto

lemma mset_js_sort [simp]: "mset (js_sort le xs) = mset xs"
  by (induction xs) (simp_all add: js_sort_def)

lemma set_js_sort [simp]: "set (js_sort le xs) = set xs"
  by (metis mset_js_sort set_mset_mset)

lemma length_js_sort [simp]: "length (js_sort le xs) = length xs"
  by (metis mset_js_sort size_mset)

lemma distinct_js_sort [simp]: "distinct (js_sort le xs) = distinct xs"
  by (metis mset_js_sort mset_eq_imp_distinct_iff)

lemma js_sort_Nil [simp]: "js_sort le [] = []"
  by (simp add: js_sort_def)

lemma js_sort_Cons: "js_sort le (x # xs) = js_insert le x (js_sort le xs)"
  by (simp add: js_sort_def)

lemma js_sort_eq_Nil [simp]: "js_sort le xs = [] \<longleftrightarrow> xs = []"
  by (metis length_0_conv length_js_sort)

locale comparator =
  fixes ok :: "'a \<Rightarrow> bool"
    and le :: "'a \<Rightarrow> 'a \<Rightarrow> bool"
  assumes total: "ok x \<Longrightarrow> ok y \<Longrightarrow> le x y \<or> le y x"
    and trans: "ok x \<Longrightarrow> ok y \<Longrightarrow> ok z \<Longrightarrow> le x y \<Longrightarrow> le y z \<Longrightarrow> le x z"
begin

lemma sorted_insert:
  "list_all ok (x # ys) \<Longrightarrow> sorted_wrt le ys \<Longrightarrow> sorted_wrt le (js_insert le x ys)"
proof (induction ys)
  case (Cons y ys)
  have set_ins: "set (js_insert le x ys) = insert x (set ys)"
    by (metis mset_js_insert set_mset_add_mset_insert set_mset_mset)
  show ?case
  proof (cases "le x y")
    case True
    with Cons.prems have "\<forall>z \<in> set ys. le x z"
      using trans [of x y] by (simp add: list_all_iff)
    with True Cons.prems show ?thesis by simp
  next
    case False
    with Cons.prems total [of x y] have "le y x" by simp
    with False Cons show ?thesis by (simp add: set_ins)
  qed
qed simp

lemma sorted_sort: "list_all ok xs \<Longrightarrow> sorted_wrt le (js_sort le xs)"
proof (induction xs)
  case (Cons x xs)
  have "list_all ok (x # js_sort le xs)" using Cons.prems by (simp add: list_all_iff)
  with Cons show ?case by (simp add: js_sort_Cons sorted_insert)
qed simp

lemma sort_head_least:
  "list_all ok xs \<Longrightarrow> js_sort le xs = y # ys \<Longrightarrow> x \<in> set xs \<Longrightarrow> le y x"
proof -
  assume ok: "list_all ok xs" and eq: "js_sort le xs = y # ys" and x: "x \<in> set xs"
  have "set (y # ys) = set xs" by (metis eq set_js_sort)
  with x ok have "x = y \<or> x \<in> set ys" and "ok y" by (auto simp: list_all_iff)
  with sorted_sort [OF ok] eq total [of y y] show "le y x" by auto
qed

lemma sort_sorted: "sorted_wrt le xs \<Longrightarrow> js_sort le xs = xs"
proof (induction xs)
  case (Cons x xs)
  then show ?case by (cases xs) (simp_all add: js_sort_Cons)
qed simp

end

section \<open>Running a check over a list\<close>

text \<open>
  A loop that stops at its first error: \<open>Inl\<close> is the error thrown, \<open>Inr\<close> the final state.
\<close>

fun fold_result :: "('a \<Rightarrow> 's \<Rightarrow> 'e + 's) \<Rightarrow> 'a list \<Rightarrow> 's \<Rightarrow> 'e + 's" where
  "fold_result f [] s = Inr s"
| "fold_result f (x # xs) s = (case f x s of Inl e \<Rightarrow> Inl e | Inr s' \<Rightarrow> fold_result f xs s')"

lemma fold_result_invariant:
  assumes "\<And>x s s'. x \<in> set xs \<Longrightarrow> P s \<Longrightarrow> f x s = Inr s' \<Longrightarrow> P s'"
    and "P s" and "fold_result f xs s = Inr t"
  shows "P t"
  using assms by (induction xs arbitrary: s) (auto split: sum.splits)

lemma fold_result_append:
  "fold_result f (xs @ ys) s =
     (case fold_result f xs s of Inl e \<Rightarrow> Inl e | Inr s' \<Rightarrow> fold_result f ys s')"
  by (induction xs arbitrary: s) (auto split: sum.splits)

end
