(* ===== verification/LifecycleRegistry.thy ===== *)
theory LifecycleRegistry
  imports Prelude
begin

text \<open>
  The registry of tenant-lifecycle hooks (\<open>tenant-lifecycle/registry/registry.ts\<close>, \<open>types.ts\<close>,
  \<open>feature-flags.ts\<close>): the hook record, registration with its validation and duplicate check,
  and the topological sort of the hooks of one transition. The sort is Kahn's algorithm over
  in-degree and adjacency maps, as in the source; its loop is a recursive function that is proved
  to terminate on every state. A hook's \<open>run\<close> acts on an abstract world \<open>'w\<close> (database, cluster,
  external providers).
\<close>

named_theorems registry_simps "the graph maps of the topological sort"

section \<open>Types\<close>

datatype transition = Active | Suspended | Archived | Restored | Deleted

fun transition_str :: "transition \<Rightarrow> string" where
  "transition_str Active = ''active''"
| "transition_str Suspended = ''suspended''"
| "transition_str Archived = ''archived''"
| "transition_str Restored = ''restored''"
| "transition_str Deleted = ''deleted''"

datatype hook_status = HOk | HNoop | HRetry | HFailed

record hook_envelope =
  env_title :: string
  env_detail :: "string option"
  env_remediation :: "string list option"
  env_raw :: "string option"

text \<open>What \<open>await hook.run(ctx)\<close> does: return a result, or throw (an \<open>Error\<close> with its name,
  message and stack, or some other value, given as its string).\<close>

datatype hook_outcome =
    Returned hook_status "hook_envelope option"
  | ThrewError string string "string option"
  | ThrewOther string

record hook_ctx =
  ctx_tenant :: string
  ctx_namespace :: string
  ctx_transition_id :: string
  ctx_transition :: transition
  ctx_attempt :: int

record 'w lifecycle_hook =
  hook_ref :: nat
  hname :: string
  transitions :: "transition list"
  order :: js_num
  blocking :: string
  max_attempts :: "int option"
  backoff_ms :: "(int \<Rightarrow> int) option"
  after :: "string list option"
  hrun :: "hook_ctx \<Rightarrow> 'w \<Rightarrow> hook_outcome \<times> 'w"

definition DEFAULT_MAX_ATTEMPTS :: int where
  "DEFAULT_MAX_ATTEMPTS = 5"

definition DEFAULT_BACKOFF_MS :: "int \<Rightarrow> int" where
  "DEFAULT_BACKOFF_MS attempt =
     (let base = 5000 * 2 ^ nat (max 0 (attempt - 1)) in min base (5 * 60 * 1000))"

section \<open>Registration\<close>

datatype registry_code = DUPLICATE_NAME | CYCLIC_AFTER | UNKNOWN_AFTER | INVALID_HOOK

datatype registry_error = LifecycleRegistryError registry_code string

type_synonym 'w registry = "(string \<times> 'w lifecycle_hook) list"

fun num_str_nonfinite :: "js_num \<Rightarrow> string" where
  "num_str_nonfinite JInf = ''Infinity''"
| "num_str_nonfinite JNegInf = ''-Infinity''"
| "num_str_nonfinite _ = ''NaN''"

definition validate_hook :: "'w lifecycle_hook \<Rightarrow> registry_error + unit" where
  "validate_hook h =
     (if hname h = [] \<or> length (hname h) > 64 then
        Inl (LifecycleRegistryError INVALID_HOOK
          (''hook.name must be 1..64 chars (got '' @ show_nat (length (hname h)) @ '')''))
      else if \<not> is_finite_num (order h) then
        Inl (LifecycleRegistryError INVALID_HOOK
          (''hook.order must be finite (got '' @ num_str_nonfinite (order h) @ '')''))
      else if length (transitions h) = 0 then
        Inl (LifecycleRegistryError INVALID_HOOK
          (''hook '' @ [CHR 0x27] @ hname h @ [CHR 0x27] @ '' must declare at least one transition''))
      else if blocking h \<noteq> ''abort'' \<and> blocking h \<noteq> ''continue'' then
        Inl (LifecycleRegistryError INVALID_HOOK
          (''hook '' @ [CHR 0x27] @ hname h @ [CHR 0x27] @ '' has invalid blocking policy ''
            @ [CHR 0x27] @ blocking h @ [CHR 0x27]))
      else Inr ())"

definition register_lifecycle_hook ::
  "'w lifecycle_hook \<Rightarrow> 'w registry \<Rightarrow> registry_error + 'w registry" where
  "register_lifecycle_hook h reg =
     (case validate_hook h of
        Inl e \<Rightarrow> Inl e
      | Inr _ \<Rightarrow>
          (case js_get (hname h) reg of
             Some existing \<Rightarrow>
               if hook_ref existing = hook_ref h then Inr reg
               else Inl (LifecycleRegistryError DUPLICATE_NAME
                 (''lifecycle hook '' @ [CHR 0x27] @ hname h @ [CHR 0x27]
                   @ '' is already registered with a different definition''))
           | None \<Rightarrow> Inr (AList.update (hname h) h reg)))"

definition list_hooks :: "'w registry \<Rightarrow> 'w lifecycle_hook list" where
  "list_hooks reg = map snd reg"

section \<open>Topological sort\<close>

text \<open>\<open>a.order - b.order || a.name.localeCompare(b.name)\<close>\<close>

definition hook_cmp :: "'w lifecycle_hook \<Rightarrow> 'w lifecycle_hook \<Rightarrow> int" where
  "hook_cmp a b =
     (let d = diff_sign (order a) (order b) in
      if d \<noteq> 0 then d else locale_compare (hname a) (hname b))"

definition hook_le :: "'w lifecycle_hook \<Rightarrow> 'w lifecycle_hook \<Rightarrow> bool" where
  "hook_le a b = (hook_cmp a b \<le> 0)"

definition by_order :: "transition \<Rightarrow> 'w lifecycle_hook list \<Rightarrow> 'w lifecycle_hook list" where
  "by_order t all = js_sort hook_le (filter (\<lambda>h. t \<in> set (transitions h)) all)"

definition deps_of :: "'w lifecycle_hook \<Rightarrow> string list" where
  "deps_of h = (case after h of None \<Rightarrow> [] | Some ds \<Rightarrow> ds)"

type_synonym degrees = "(string \<times> int) list"
type_synonym adjacency = "(string \<times> string list) list"

definition deg_of :: "string \<Rightarrow> degrees \<Rightarrow> int" where
  "deg_of n deg = (case js_get n deg of None \<Rightarrow> 0 | Some d \<Rightarrow> d)"

definition adj_of :: "string \<Rightarrow> adjacency \<Rightarrow> string list" where
  "adj_of n adj = (case js_get n adj of None \<Rightarrow> [] | Some xs \<Rightarrow> xs)"

definition init_graph :: "'w lifecycle_hook list \<Rightarrow> degrees \<times> adjacency" where
  "init_graph hs =
     fold (\<lambda>h (deg, adj). (AList.update (hname h) 0 deg, AList.update (hname h) [] adj)) hs ([], [])"

text \<open>One declared dependency: \<open>dep\<close> must be in this transition's set; the edge is recorded.\<close>

definition add_dep ::
  "transition \<Rightarrow> string list \<Rightarrow> string \<Rightarrow> string \<Rightarrow> degrees \<times> adjacency
     \<Rightarrow> registry_error + degrees \<times> adjacency" where
  "add_dep t in_subset name dep g =
     (if dep \<notin> set in_subset then
        Inl (LifecycleRegistryError UNKNOWN_AFTER
          (''hook '' @ [CHR 0x27] @ name @ [CHR 0x27] @ '' declares after '' @ [CHR 0x27] @ dep
            @ [CHR 0x27] @ '' but '' @ [CHR 0x27] @ dep @ [CHR 0x27] @ '' isn'' @ [CHR 0x27]
            @ ''t registered for transition '' @ [CHR 0x27] @ transition_str t @ [CHR 0x27]))
      else
        Inr (AList.update name (deg_of name (fst g) + 1) (fst g),
             AList.update dep (adj_of dep (snd g) @ [name]) (snd g)))"

definition build_graph ::
  "transition \<Rightarrow> 'w lifecycle_hook list \<Rightarrow> registry_error + degrees \<times> adjacency" where
  "build_graph t hs =
     fold_result (\<lambda>h. fold_result (add_dep t (map hname hs) (hname h)) (deps_of h)) hs (init_graph hs)"

text \<open>The inner loop of Kahn's algorithm: lower the successors' in-degrees, queue those at 0.\<close>

fun relax :: "string list \<Rightarrow> degrees \<times> string list \<Rightarrow> degrees \<times> string list" where
  "relax [] s = s"
| "relax (x # xs) (deg, ready) =
     (let d = deg_of x deg - 1; deg' = AList.update x d deg in
      relax xs (deg', if d = 0 then ready @ [x] else ready))"

definition pos_count :: "degrees \<Rightarrow> nat" where
  "pos_count deg = length (filter (\<lambda>(_, d). 0 < d) deg)"

lemma pos_count_lower:
  "pos_count (AList.update x (deg_of x deg - 1) deg) + (if deg_of x deg = 1 then 1 else 0)
     \<le> pos_count deg"
proof (induction deg)
  case (Cons p deg)
  obtain y d where p: "p = (y, d)" by fastforce
  from Cons show ?case
    by (cases "x = y") (auto simp: p pos_count_def deg_of_def js_get_def)
qed (simp add: pos_count_def deg_of_def)

lemma relax_measure:
  "pos_count (fst (relax xs (deg, ready))) + length (snd (relax xs (deg, ready)))
     \<le> pos_count deg + length ready"
proof (induction xs arbitrary: deg ready)
  case (Cons x xs)
  let ?deg = "AList.update x (deg_of x deg - 1) deg"
  let ?ready = "if deg_of x deg - 1 = 0 then ready @ [x] else ready"
  have "pos_count ?deg + length ?ready \<le> pos_count deg + length ready"
    using pos_count_lower [of x deg] by auto
  with Cons.IH [of ?deg ?ready] show ?case by (simp add: Let_def)
qed simp

text \<open>
  The outer loop. Each round takes one name off the queue; what it queues, it takes out of the
  positive in-degrees, so their number plus the queue's length goes down.
\<close>

function kahn ::
  "(string \<Rightarrow> string \<Rightarrow> bool) \<Rightarrow> adjacency \<Rightarrow> degrees \<Rightarrow> string list \<Rightarrow> string list \<Rightarrow> string list"
where
  "kahn le adj deg ready out =
     (case js_sort le ready of
        [] \<Rightarrow> out
      | next_name # rest \<Rightarrow>
          (case relax (adj_of next_name adj) (deg, rest) of
             (deg', ready') \<Rightarrow> kahn le adj deg' ready' (out @ [next_name])))"
  by pat_completeness auto
termination
proof (relation "measure (\<lambda>(le, adj, deg, ready, out). pos_count deg + length ready)", goal_cases)
  case (2 le adj deg ready out next_name rest deg' ready')
  have "length ready = Suc (length rest)"
    using arg_cong [OF 2(1), of length] by simp
  moreover have "pos_count deg' + length ready' \<le> pos_count deg + length rest"
    using relax_measure [of "adj_of next_name adj" deg rest] 2(2) by (metis fst_conv snd_conv)
  ultimately show ?case by simp
qed simp

declare kahn.simps [simp del]

definition by_name :: "'w lifecycle_hook list \<Rightarrow> (string \<times> 'w lifecycle_hook) list" where
  "by_name hs = fold (\<lambda>h. AList.update (hname h) h) hs []"

definition name_le :: "(string \<times> 'w lifecycle_hook) list \<Rightarrow> string \<Rightarrow> string \<Rightarrow> bool" where
  "name_le names a b =
     (case (js_get a names, js_get b names) of
        (Some ha, Some hb) \<Rightarrow> hook_le ha hb
      | _ \<Rightarrow> True)"

definition topo_sort_for_transition ::
  "transition \<Rightarrow> 'w lifecycle_hook list \<Rightarrow> registry_error + 'w lifecycle_hook list" where
  "topo_sort_for_transition t all =
     (let sorted = by_order t all in
      case build_graph t sorted of
        Inl e \<Rightarrow> Inl e
      | Inr (deg, adj) \<Rightarrow>
          (let ready = map hname (filter (\<lambda>h. deg_of (hname h) deg = 0) sorted);
               names = by_name sorted;
               out = List.map_filter (\<lambda>n. js_get n names) (kahn (name_le names) adj deg ready [])
           in if length out \<noteq> length sorted then
                Inl (LifecycleRegistryError CYCLIC_AFTER
                  (''cycle in lifecycle hook '' @ [CHR 0x27] @ ''after'' @ [CHR 0x27]
                    @ '' graph for transition '' @ [CHR 0x27] @ transition_str t @ [CHR 0x27] @ '': ''
                    @ join_with '', ''
                        (filter (\<lambda>n. n \<notin> set (map hname out)) (map hname sorted))))
              else Inr out))"

section \<open>Kill switches (\<open>feature-flags.ts\<close>)\<close>

datatype flag_value = Legacy | Hook

definition FLAGS :: "(string \<times> string \<times> flag_value) list" where
  "FLAGS =
     [(''dns-zone-cleanup'', ''LIFECYCLE_HOOK_DNS_ZONE_CLEANUP'', Hook),
      (''tenant-bundles-bundle-cleanup'', ''LIFECYCLE_HOOK_BACKUPS_V2_CLEANUP'', Hook),
      (''cluster-scoped-refs-cleanup'', ''LIFECYCLE_HOOK_CLUSTER_SCOPED_REFS'', Hook)]"

text \<open>\<open>process_env\<close> is the process environment, \<open>overrides\<close> the map of test overrides.\<close>

definition is_hook_authoritative ::
  "(string \<times> flag_value) list \<Rightarrow> (string \<Rightarrow> string option) \<Rightarrow> string \<Rightarrow> bool" where
  "is_hook_authoritative overrides process_env nm =
     (case js_get nm overrides of
        Some v \<Rightarrow> v = Hook
      | None \<Rightarrow>
          (case js_get nm FLAGS of
             None \<Rightarrow> False
           | Some (var, dflt) \<Rightarrow>
               (let raw = to_lower (js_trim (case process_env var of Some v \<Rightarrow> v | None \<Rightarrow> [])) in
                if raw = ''hook'' then True
                else if raw = ''legacy'' \<or> raw = ''disable'' then False
                else dflt = Hook)))"

definition set_hook_flag ::
  "string \<Rightarrow> flag_value option \<Rightarrow> (string \<times> flag_value) list \<Rightarrow> (string \<times> flag_value) list" where
  "set_hook_flag nm v overrides =
     (case v of None \<Rightarrow> AList.delete nm overrides | Some f \<Rightarrow> AList.update nm f overrides)"

end
