(* ===== verification/LifecycleDispatcher.thy ===== *)
theory LifecycleDispatcher
  imports LifecycleRegistry
begin

text \<open>
  The dispatcher of one tenant transition (\<open>tenant-lifecycle/registry/dispatcher.ts\<close>) over the
  two tables it writes, \<open>tenant_lifecycle_transitions\<close> and \<open>tenant_lifecycle_hook_runs\<close>
  (\<open>db/schema.ts\<close>), the calls it makes to the task tracker, and the abstract world the hooks act on.
  Every \<open>new Date()\<close> reads the clock of the environment and every \<open>randomUUID()\<close> its supply of
  ids. Statements of the database are assumed not to fail; a hook's throw and a throw of the
  topological sort are branches of the model.
\<close>

section \<open>The tables\<close>

datatype transition_state = TRunning | TCompleted | TFailedPartial | TFailedBlocking

datatype run_state = RPending | RRunning | ROk | RNoop | RFailed

record transition_row =
  tr_id :: string
  tr_tenant :: string
  tr_kind :: transition
  tr_from :: "string option"
  tr_to :: string
  tr_user :: "string option"
  tr_state :: transition_state
  tr_started :: int
  tr_completed :: "int option"
  tr_namespace :: "string option"
  tr_detail :: "(string \<times> string) list option"

record hook_run_row =
  hr_id :: string
  hr_transition :: string
  hr_hook :: string
  hr_order :: nat
  hr_blocking :: string
  hr_state :: run_state
  hr_attempts :: int
  hr_max :: int
  hr_error :: "hook_envelope option"
  hr_started :: "int option"
  hr_completed :: "int option"
  hr_next :: "int option"

datatype task_event =
    TaskStart string string string "string option"
  | TaskFinish string string "string option" "string option"

record 'w lstate =
  trs :: "transition_row list"
  runs :: "hook_run_row list"
  tasks :: "task_event list"
  world :: 'w
  ticks :: nat
  ids :: nat

record env =
  env_uuid :: "nat \<Rightarrow> string"
  env_clock :: "nat \<Rightarrow> int"

text \<open>\<open>new Date()\<close> and \<open>randomUUID()\<close>\<close>

definition read_clock :: "env \<Rightarrow> 'w lstate \<Rightarrow> int \<times> 'w lstate" where
  "read_clock env s = (env_clock env (ticks s), s\<lparr>ticks := Suc (ticks s)\<rparr>)"

definition fresh_uuid :: "env \<Rightarrow> 'w lstate \<Rightarrow> string \<times> 'w lstate" where
  "fresh_uuid env s = (env_uuid env (ids s), s\<lparr>ids := Suc (ids s)\<rparr>)"

definition update_tr :: "string \<Rightarrow> (transition_row \<Rightarrow> transition_row) \<Rightarrow> 'w lstate \<Rightarrow> 'w lstate" where
  "update_tr i f s = s\<lparr>trs := map (\<lambda>r. if tr_id r = i then f r else r) (trs s)\<rparr>"

definition update_run :: "string \<Rightarrow> (hook_run_row \<Rightarrow> hook_run_row) \<Rightarrow> 'w lstate \<Rightarrow> 'w lstate" where
  "update_run i f s = s\<lparr>runs := map (\<lambda>r. if hr_id r = i then f r else r) (runs s)\<rparr>"

section \<open>Options and results\<close>

record 'w dispatch_options =
  o_tenant :: string
  o_namespace :: string
  o_transition :: transition
  o_from :: "string option"
  o_to :: string
  o_user :: "string option"
  o_detail :: "(string \<times> string) list option"
  o_skip :: bool
  o_hooks :: "'w lifecycle_hook list option"
  o_parent_task :: "string option"

record dispatch_result =
  d_id :: string
  d_state :: transition_state
  d_attempted :: nat
  d_ok :: nat
  d_failed :: nat

definition envelope_from_error :: "hook_outcome \<Rightarrow> hook_envelope option" where
  "envelope_from_error out =
     (case out of
        ThrewError nm msg stack \<Rightarrow>
          Some \<lparr>env_title = (if nm = [] then ''Hook failed'' else nm), env_detail = Some msg, env_remediation = None,
                env_raw = Some (case stack of Some st \<Rightarrow> st | None \<Rightarrow> msg)\<rparr>
      | ThrewOther str \<Rightarrow>
          Some \<lparr>env_title = ''Hook failed'', env_detail = Some str, env_remediation = None,
            env_raw = Some str\<rparr>
      | Returned _ e \<Rightarrow> e)"

text \<open>The \<open>HookResult\<close> after the \<open>try\<close>/\<open>catch\<close> around \<open>hook.run\<close>.\<close>

definition hook_result :: "hook_outcome \<Rightarrow> hook_status \<times> hook_envelope option" where
  "hook_result out =
     (case out of
        Returned st e \<Rightarrow> (st, e)
      | _ \<Rightarrow> (HFailed, envelope_from_error out))"

section \<open>Steps of a dispatch\<close>

fun triggering_user :: "'w dispatch_options \<Rightarrow> string option" where
  "triggering_user opts =
     (case o_user opts of Some u \<Rightarrow> (if u = [] then None else Some u) | None \<Rightarrow> None)"

definition insert_parent ::
  "'w dispatch_options \<Rightarrow> string \<Rightarrow> int \<Rightarrow> 'w lstate \<Rightarrow> 'w lstate" where
  "insert_parent opts tid now s =
     s\<lparr>trs := trs s @ [\<lparr>tr_id = tid, tr_tenant = o_tenant opts, tr_kind = o_transition opts,
         tr_from = o_from opts, tr_to = o_to opts, tr_user = o_user opts, tr_state = TRunning,
         tr_started = now, tr_completed = None, tr_namespace = Some (o_namespace opts),
         tr_detail = o_detail opts\<rparr>],
       tasks := (case triggering_user opts of
           Some u \<Rightarrow> tasks s @ [TaskStart tid u (o_tenant opts) (o_parent_task opts)]
         | None \<Rightarrow> tasks s)\<rparr>"

definition hook_max :: "'w lifecycle_hook \<Rightarrow> int" where
  "hook_max h = (case max_attempts h of Some m \<Rightarrow> m | None \<Rightarrow> DEFAULT_MAX_ATTEMPTS)"

definition hook_backoff :: "'w lifecycle_hook \<Rightarrow> int \<Rightarrow> int" where
  "hook_backoff h = (case backoff_ms h of Some f \<Rightarrow> f | None \<Rightarrow> DEFAULT_BACKOFF_MS)"

fun insert_runs :: "env \<Rightarrow> string \<Rightarrow> nat \<Rightarrow> 'w lifecycle_hook list \<Rightarrow> 'w lstate \<Rightarrow> 'w lstate" where
  "insert_runs env tid i [] s = s"
| "insert_runs env tid i (h # hs) s =
     (case fresh_uuid env s of (rid, s1) \<Rightarrow>
        insert_runs env tid (Suc i) hs
          (s1\<lparr>runs := runs s1 @ [\<lparr>hr_id = rid, hr_transition = tid, hr_hook = hname h, hr_order = i,
             hr_blocking = blocking h, hr_state = RPending, hr_attempts = 0, hr_max = hook_max h,
             hr_error = None, hr_started = None, hr_completed = None, hr_next = None\<rparr>]\<rparr>))"

definition make_ctx :: "'w dispatch_options \<Rightarrow> string \<Rightarrow> int \<Rightarrow> hook_ctx" where
  "make_ctx opts tid attempt =
     \<lparr>ctx_tenant = o_tenant opts, ctx_namespace = o_namespace opts, ctx_transition_id = tid,
      ctx_transition = o_transition opts, ctx_attempt = attempt\<rparr>"

record counts =
  c_ok :: nat
  c_failed :: nat
  c_aborted :: bool

text \<open>One iteration of the sequential loop over the hooks.\<close>

definition dispatch_hook ::
  "env \<Rightarrow> 'w dispatch_options \<Rightarrow> string \<Rightarrow> 'w lifecycle_hook \<Rightarrow> 'w lstate \<times> counts
     \<Rightarrow> 'w lstate \<times> counts" where
  "dispatch_hook env opts tid h sc =
     (case sc of (s, c) \<Rightarrow>
        (case find (\<lambda>r. hr_hook r = hname h) (filter (\<lambda>r. hr_transition r = tid) (runs s)) of
           None \<Rightarrow> (s, c)
         | Some row \<Rightarrow>
             if c_aborted c then (s, c)
             else
               (let attempt = hr_attempts row + 1;
                    (started, s1) = read_clock env s;
                    s2 = update_run (hr_id row)
                      (\<lambda>r. r\<lparr>hr_state := RRunning, hr_attempts := attempt, hr_started := Some started\<rparr>) s1;
                    (out, w) = hrun h (make_ctx opts tid attempt) (world s2);
                    s3 = s2\<lparr>world := w\<rparr>;
                    (status, envelope) = hook_result out;
                    (completed, s4) = read_clock env s3
                in if status = HOk \<or> status = HNoop then
                     (update_run (hr_id row)
                        (\<lambda>r. r\<lparr>hr_state := (if status = HOk then ROk else RNoop),
                              hr_completed := Some completed, hr_error := None, hr_next := None\<rparr>) s4,
                      c\<lparr>c_ok := Suc (c_ok c)\<rparr>)
                   else
                     (let retryable = (status = HRetry \<and> attempt < hook_max h);
                          (next_at, s5) =
                            (if retryable
                             then (case read_clock env s4 of (now, s') \<Rightarrow>
                                     (Some (now + hook_backoff h attempt), s'))
                             else (None, s4))
                      in (update_run (hr_id row)
                            (\<lambda>r. r\<lparr>hr_state := RFailed, hr_completed := Some completed,
                                  hr_error := envelope, hr_next := next_at\<rparr>) s5,
                          c\<lparr>c_failed := Suc (c_failed c),
                            c_aborted := (c_aborted c \<or> blocking h = ''abort'')\<rparr>)))))"

definition final_state :: "counts \<Rightarrow> transition_state" where
  "final_state c =
     (if c_aborted c then TFailedBlocking
      else if c_failed c > 0 then TFailedPartial
      else TCompleted)"

definition state_str :: "transition_state \<Rightarrow> string" where
  "state_str st = (case st of TRunning \<Rightarrow> ''running'' | TCompleted \<Rightarrow> ''completed''
     | TFailedPartial \<Rightarrow> ''failed_partial'' | TFailedBlocking \<Rightarrow> ''failed_blocking'')"

definition complete_tr :: "env \<Rightarrow> string \<Rightarrow> transition_state \<Rightarrow> 'w lstate \<Rightarrow> 'w lstate" where
  "complete_tr env tid st s =
     (case read_clock env s of (now, s1) \<Rightarrow>
        update_tr tid (\<lambda>r. r\<lparr>tr_state := st, tr_completed := Some now\<rparr>) s1)"

definition mirror_task :: "'w dispatch_options \<Rightarrow> string \<Rightarrow> counts \<Rightarrow> 'w lstate \<Rightarrow> 'w lstate" where
  "mirror_task opts tid c s =
     (case triggering_user opts of
        None \<Rightarrow> s
      | Some _ \<Rightarrow>
          s\<lparr>tasks := tasks s @ [TaskFinish tid
              (if final_state c = TCompleted then ''succeeded'' else ''failed'')
              (if c_failed c > 0
               then Some (show_nat (c_ok c) @ ''/'' @ show_nat (c_ok c + c_failed c) @ '' hooks succeeded'')
               else None)
              (if final_state c = TCompleted then None
               else Some (''Transition ended in state '' @ state_str (final_state c)))]\<rparr>)"

text \<open>
  \<open>runTransition\<close>. The state is returned in the error case too: when the topological sort throws,
  the parent row has already been written.
\<close>

definition run_transition ::
  "env \<Rightarrow> 'w registry \<Rightarrow> 'w dispatch_options \<Rightarrow> 'w lstate
     \<Rightarrow> (registry_error + dispatch_result) \<times> 'w lstate" where
  "run_transition env reg opts s0 =
     (let (tid, s1) = fresh_uuid env s0;
          (now, s2) = read_clock env s1;
          s3 = insert_parent opts tid now s2
      in case (case o_hooks opts of
                 Some hs \<Rightarrow> Inr hs
               | None \<Rightarrow> topo_sort_for_transition (o_transition opts) (list_hooks reg)) of
           Inl e \<Rightarrow> (Inl e, s3)
         | Inr hooks \<Rightarrow>
             if hooks = [] then
               (Inr \<lparr>d_id = tid, d_state = TCompleted, d_attempted = 0, d_ok = 0, d_failed = 0\<rparr>,
                complete_tr env tid TCompleted s3)
             else
               (let s4 = insert_runs env tid 0 hooks s3
                in if o_skip opts then
                     (Inr \<lparr>d_id = tid, d_state = TRunning, d_attempted = 0, d_ok = 0, d_failed = 0\<rparr>, s4)
                   else
                     (case fold (dispatch_hook env opts tid) hooks
                             (s4, \<lparr>c_ok = 0, c_failed = 0, c_aborted = False\<rparr>) of
                        (s5, c) \<Rightarrow>
                          (Inr \<lparr>d_id = tid, d_state = final_state c,
                                d_attempted = c_ok c + c_failed c, d_ok = c_ok c, d_failed = c_failed c\<rparr>,
                           mirror_task opts tid c (complete_tr env tid (final_state c) s5)))))"

end
