(* ===== verification/LifecycleOrder.thy ===== *)
theory LifecycleOrder
  imports LifecycleRegistry
begin

text \<open>
  Correctness of the hook registry: the registry invariant and the topological sort. The
  in-degree and adjacency maps represent the list of declared edges; Kahn's loop keeps the
  invariant \<open>kahn_inv\<close> (distinct output, in-degrees count the edges from names not yet output,
  the queue holds exactly the names whose dependencies are done, every name comes after its
  dependencies and is least among the names that were ready), and its final state gives the
  properties of the sort.
\<close>

section \<open>The registry invariant\<close>

definition registry_ok :: "'w registry \<Rightarrow> bool" where
  "registry_ok reg = (js_map_ok reg \<and> (\<forall>(n, h) \<in> set reg. hname h = n \<and> validate_hook h = Inr ()))"

lemma registry_ok_register:
  assumes "registry_ok reg" and "register_lifecycle_hook h reg = Inr reg'"
  shows "registry_ok reg'"
proof -
  have upd: "set (AList.update k v m) \<subseteq> insert (k, v) (set m)" for k :: string and v :: "'a lifecycle_hook" and m
    by (induction m) auto
  show ?thesis
    using assms upd [of "hname h" h reg]
    by (auto simp: registry_ok_def register_lifecycle_hook_def js_map_ok_def distinct_update
        split: sum.splits option.splits if_splits)
qed

lemma registry_ok_names: "registry_ok reg \<Longrightarrow> map hname (list_hooks reg) = map fst reg"
  by (auto simp: registry_ok_def list_hooks_def)

lemma registry_ok_distinct: "registry_ok reg \<Longrightarrow> distinct (map hname (list_hooks reg))"
  by (simp add: registry_ok_names) (simp add: registry_ok_def js_map_ok_def)

lemma registry_ok_finite:
  "registry_ok reg \<Longrightarrow> h \<in> set (list_hooks reg) \<Longrightarrow> is_finite_num (order h)"
  by (auto simp: registry_ok_def list_hooks_def validate_hook_def split: if_splits)

section \<open>The comparator\<close>

lemma diff_sign_finite:
  "is_finite_num a \<Longrightarrow> is_finite_num b \<Longrightarrow>
     \<exists>x y. a = JNum x \<and> b = JNum y \<and> diff_sign a b = (if x < y then -1 else if x = y then 0 else 1)"
  by (cases a; cases b) auto

lemma hook_le_finite:
  assumes "order a = JNum x" and "order b = JNum y"
  shows "hook_le a b \<longleftrightarrow>
    x < y \<or> (x = y \<and> key_le (collation_key (hname a)) (collation_key (hname b)))"
  using assms by (auto simp: hook_le_def hook_cmp_def js_string)

interpretation hook_order: comparator "\<lambda>h. is_finite_num (order h)" hook_le
proof (unfold_locales, goal_cases)
  case (1 a b)
  then obtain x y where "order a = JNum x" "order b = JNum y"
    by (metis is_finite_num.elims(2))
  then show ?case
    using key_le_total [of "collation_key (hname a)" "collation_key (hname b)"]
    by (auto simp: hook_le_finite)
next
  case (2 a b c)
  then obtain x y z where "order a = JNum x" "order b = JNum y" "order c = JNum z"
    by (metis is_finite_num.elims(2))
  then show ?case
    using 2(4,5) key_le_trans [of "collation_key (hname a)" "collation_key (hname b)" "collation_key (hname c)"]
    by (auto simp: hook_le_finite)
qed

lemma set_by_order [simp]: "set (by_order t all) = {h \<in> set all. t \<in> set (transitions h)}"
  by (auto simp: by_order_def)

lemma mset_by_order: "mset (by_order t all) = filter_mset (\<lambda>h. t \<in> set (transitions h)) (mset all)"
  by (simp add: by_order_def)

lemma by_order_sorted:
  "\<forall>h \<in> set all. is_finite_num (order h) \<Longrightarrow> sorted_wrt hook_le (by_order t all)"
  unfolding by_order_def by (rule hook_order.sorted_sort) (simp add: list_all_iff)

lemma distinct_by_order: "distinct (map hname all) \<Longrightarrow> distinct (map hname (by_order t all))"
proof -
  assume "distinct (map hname all)"
  then have "distinct (map hname (filter (\<lambda>h. t \<in> set (transitions h)) all))"
    by (rule distinct_map_filter)
  then show ?thesis
    by (simp add: by_order_def distinct_map)
qed

section \<open>The graph maps represent the declared edges\<close>

definition edges :: "'w lifecycle_hook list \<Rightarrow> (string \<times> string) list" where
  "edges hs = concat (map (\<lambda>h. map (\<lambda>d. (d, hname h)) (deps_of h)) hs)"

definition graph_rep :: "degrees \<times> adjacency \<Rightarrow> (string \<times> string) list \<Rightarrow> bool" where
  "graph_rep g es =
     ((\<forall>x. deg_of x (fst g) = int (length (filter (\<lambda>e. snd e = x) es)))
      \<and> (\<forall>x. adj_of x (snd g) = map snd (filter (\<lambda>e. fst e = x) es)))"

lemma deg_of_update [registry_simps]:
  "deg_of x (AList.update y d deg) = (if x = y then d else deg_of x deg)"
  by (simp add: deg_of_def store_simps)

lemma adj_of_update [registry_simps]:
  "adj_of x (AList.update y xs adj) = (if x = y then xs else adj_of x adj)"
  by (simp add: adj_of_def store_simps)

lemma graph_rep_init: "graph_rep (init_graph hs) []"
proof -
  have "graph_rep g [] \<Longrightarrow> graph_rep (fold (\<lambda>h (deg, adj).
      (AList.update (hname h) 0 deg, AList.update (hname h) [] adj)) hs g) []" for g
    by (induction hs arbitrary: g) (auto simp: graph_rep_def registry_simps split: prod.splits)
  moreover have "graph_rep ([], []) []"
    by (simp add: graph_rep_def deg_of_def adj_of_def)
  ultimately show ?thesis by (simp add: init_graph_def)
qed

lemma graph_rep_add_dep:
  "graph_rep g es \<Longrightarrow> dep \<in> set names \<Longrightarrow>
     \<exists>g'. add_dep t names n dep g = Inr g' \<and> graph_rep g' (es @ [(dep, n)])"
  by (auto simp: add_dep_def graph_rep_def registry_simps)

lemma graph_rep_add_deps:
  "graph_rep g es \<Longrightarrow> set ds \<subseteq> set names \<Longrightarrow>
     \<exists>g'. fold_result (add_dep t names n) ds g = Inr g' \<and> graph_rep g' (es @ map (\<lambda>d. (d, n)) ds)"
proof (induction ds arbitrary: g es)
  case (Cons d ds)
  then obtain g1 where "add_dep t names n d g = Inr g1" and "graph_rep g1 (es @ [(d, n)])"
    using graph_rep_add_dep [of g es d names t n] by auto
  with Cons.IH [of g1 "es @ [(d, n)]"] Cons.prems(2) show ?case by simp
qed simp

lemma build_graph_ok:
  assumes "\<forall>h \<in> set hs. set (deps_of h) \<subseteq> hname ` set hs"
  shows "\<exists>g. build_graph t hs = Inr g \<and> graph_rep g (edges hs)"
proof -
  have "graph_rep g es \<Longrightarrow> set ks \<subseteq> set hs \<Longrightarrow>
      \<exists>g'. fold_result (\<lambda>h. fold_result (add_dep t (map hname hs) (hname h)) (deps_of h)) ks g = Inr g'
        \<and> graph_rep g' (es @ edges ks)" for ks g es
  proof (induction ks arbitrary: g es)
    case Nil
    then show ?case by (simp add: edges_def)
  next
    case (Cons k ks)
    then have "set (deps_of k) \<subseteq> set (map hname hs)" using assms by auto
    from graph_rep_add_deps [OF Cons.prems(1) this, of t "hname k"] obtain g1
      where g1: "fold_result (add_dep t (map hname hs) (hname k)) (deps_of k) g = Inr g1"
        and r1: "graph_rep g1 (es @ map (\<lambda>d. (d, hname k)) (deps_of k))"
      by blast
    from Cons.IH [OF r1] Cons.prems(2) g1 show ?case by (simp add: edges_def)
  qed
  from this [OF graph_rep_init order_refl, of hs] show ?thesis by (simp add: build_graph_def)
qed

lemma add_deps_unknown:
  "\<not> set ds \<subseteq> set names \<Longrightarrow>
     \<exists>m. fold_result (add_dep t names n) ds g = Inl (LifecycleRegistryError UNKNOWN_AFTER m)"
  by (induction ds arbitrary: g) (auto simp: add_dep_def)

lemma add_deps_error:
  "fold_result (add_dep t names n) ds g = Inl e \<Longrightarrow>
     \<exists>m. e = LifecycleRegistryError UNKNOWN_AFTER m"
  by (induction ds arbitrary: g) (auto simp: add_dep_def split: if_splits)

lemma build_graph_unknown:
  assumes "\<exists>h \<in> set hs. \<not> set (deps_of h) \<subseteq> hname ` set hs"
  shows "\<exists>m. build_graph t hs = Inl (LifecycleRegistryError UNKNOWN_AFTER m)"
proof -
  have "\<exists>h \<in> set ks. \<not> set (deps_of h) \<subseteq> hname ` set hs \<Longrightarrow>
      \<exists>m. fold_result (\<lambda>h. fold_result (add_dep t (map hname hs) (hname h)) (deps_of h)) ks g
        = Inl (LifecycleRegistryError UNKNOWN_AFTER m)" for ks g
  proof (induction ks arbitrary: g)
    case (Cons k ks)
    show ?case
    proof (cases "fold_result (add_dep t (map hname hs) (hname k)) (deps_of k) g")
      case (Inl e)
      with add_deps_error [OF Inl] show ?thesis by auto
    next
      case (Inr g')
      then have "set (deps_of k) \<subseteq> set (map hname hs)"
        using add_deps_unknown [of "deps_of k" "map hname hs" t "hname k" g] by auto
      with Cons Inr show ?thesis by auto
    qed
  qed simp
  from this [OF assms] show ?thesis by (simp add: build_graph_def)
qed

section \<open>Kahn's loop\<close>

lemma relax_deg:
  "deg_of x (fst (relax xs (deg, ready))) = deg_of x deg - int (count_list xs x)"
  by (induction xs arbitrary: deg ready) (auto simp: registry_simps Let_def)

lemma relax_ready:
  assumes "\<And>x. int (count_list xs x) \<le> deg_of x deg"
    and "distinct ready" and "\<forall>x \<in> set ready. deg_of x deg \<le> 0"
  shows "distinct (snd (relax xs (deg, ready))) \<and>
    set (snd (relax xs (deg, ready)))
      = set ready \<union> {x \<in> set xs. deg_of x deg = int (count_list xs x)}"
  using assms
proof (induction xs arbitrary: deg ready)
  case (Cons x xs)
  let ?deg = "AList.update x (deg_of x deg - 1) deg"
  let ?ready = "if deg_of x deg - 1 = 0 then ready @ [x] else ready"
  have le: "int (count_list xs y) \<le> deg_of y ?deg" for y
    using Cons.prems(1) [of y] by (auto simp: registry_simps split: if_splits)
  have x_pos: "1 \<le> deg_of x deg" using Cons.prems(1) [of x] by simp
  then have x_new: "x \<notin> set ready" using Cons.prems(3) by force
  have IH: "distinct (snd (relax xs (?deg, ?ready))) \<and>
      set (snd (relax xs (?deg, ?ready)))
        = set ?ready \<union> {y \<in> set xs. deg_of y ?deg = int (count_list xs y)}"
    using Cons.prems(2,3) x_new by (intro Cons.IH le) (auto simp: registry_simps)
  have "set ?ready \<union> {y \<in> set xs. deg_of y ?deg = int (count_list xs y)}
      = set ready \<union> {y \<in> set (x # xs). deg_of y deg = int (count_list (x # xs) y)}"
    using le [of x] x_pos count_list_0_iff [of xs x] by (auto simp: registry_simps)
  with IH show ?case by (simp add: Let_def)
qed simp

definition undone :: "(string \<times> string) list \<Rightarrow> string list \<Rightarrow> string \<Rightarrow> nat" where
  "undone es out x = length (filter (\<lambda>e. snd e = x \<and> fst e \<notin> set out) es)"

definition deps_done :: "(string \<times> string) list \<Rightarrow> string set \<Rightarrow> string \<Rightarrow> bool" where
  "deps_done es done x = (\<forall>(d, y) \<in> set es. y = x \<longrightarrow> d \<in> done)"

text \<open>What the output list must satisfy: dependencies first, and least among the ready names.\<close>

definition greedy_topo ::
  "(string \<Rightarrow> string \<Rightarrow> bool) \<Rightarrow> (string \<times> string) list \<Rightarrow> string set \<Rightarrow> string list \<Rightarrow> bool" where
  "greedy_topo le es names out =
     (\<forall>i < length out. deps_done es (set (take i out)) (out ! i) \<and>
       (\<forall>y \<in> names. y \<notin> set (take i out) \<and> deps_done es (set (take i out)) y \<longrightarrow> le (out ! i) y))"

definition kahn_inv ::
  "(string \<Rightarrow> string \<Rightarrow> bool) \<Rightarrow> (string \<times> string) list \<Rightarrow> string set \<Rightarrow> degrees \<Rightarrow> string list
     \<Rightarrow> string list \<Rightarrow> bool" where
  "kahn_inv le es names deg ready out =
     (distinct (out @ ready) \<and> set (out @ ready) \<subseteq> names
      \<and> (\<forall>x. deg_of x deg = int (undone es out x))
      \<and> (\<forall>x \<in> names. x \<in> set (out @ ready) \<longleftrightarrow> undone es out x = 0)
      \<and> greedy_topo le es names out)"

lemma undone_0_iff: "undone es out x = 0 \<longleftrightarrow> deps_done es (set out) x"
  by (auto simp: undone_def deps_done_def filter_empty_conv)

lemma undone_snoc:
  assumes "n \<notin> set out"
  shows "undone es out x
    = undone es (out @ [n]) x + count_list (map snd (filter (\<lambda>e. fst e = n) es)) x"
  using assms by (induction es) (auto simp: undone_def)

lemma greedy_topo_snoc:
  assumes "greedy_topo le es names out" and "deps_done es (set out) n"
    and "\<And>y. y \<in> names \<Longrightarrow> y \<notin> set out \<Longrightarrow> deps_done es (set out) y \<Longrightarrow> le n y"
  shows "greedy_topo le es names (out @ [n])"
  using assms by (auto simp: greedy_topo_def nth_append less_Suc_eq)

lemma kahn_step:
  assumes cmp: "comparator (\<lambda>x. x \<in> names) le"
    and inv: "kahn_inv le es names deg ready out"
    and es: "set (map snd es) \<subseteq> names"
    and adj: "\<And>x. adj_of x adj = map snd (filter (\<lambda>e. fst e = x) es)"
    and next_name: "js_sort le ready = n # rest"
    and relaxed: "relax (adj_of n adj) (deg, rest) = (deg', ready')"
  shows "kahn_inv le es names deg' ready' (out @ [n])"
proof -
  let ?succ = "map snd (filter (\<lambda>e. fst e = n) es)"
  have dist: "distinct (out @ ready)" and sub: "set (out @ ready) \<subseteq> names"
    and deg: "\<And>x. deg_of x deg = int (undone es out x)"
    and iff: "\<And>x. x \<in> names \<Longrightarrow> x \<in> set (out @ ready) \<longleftrightarrow> undone es out x = 0"
    and topo: "greedy_topo le es names out"
    using inv by (auto simp: kahn_inv_def)
  have set_ready: "set ready = insert n (set rest)" by (metis next_name set_js_sort list.set(2))
  have "distinct (n # rest)" by (metis dist distinct_append distinct_js_sort next_name)
  then have n_rest: "n \<notin> set rest" "distinct rest" by auto
  have n_out: "n \<notin> set out" using dist set_ready by auto
  have n_done: "undone es out n = 0" using iff [of n] sub set_ready by auto
  note snoc = undone_snoc [OF n_out, of es]
  have deg': "deg_of x deg' = int (undone es (out @ [n]) x)" for x
    using relax_deg [of x ?succ deg rest] relaxed deg [of x] snoc [of x] adj by simp
  have enough: "int (count_list ?succ x) \<le> deg_of x deg" for x
    using snoc [of x] deg [of x] by simp
  have "\<forall>x \<in> set rest. deg_of x deg \<le> 0"
  proof
    fix x assume "x \<in> set rest"
    then have "x \<in> names" "x \<in> set (out @ ready)" using sub set_ready by auto
    then show "deg_of x deg \<le> 0" using iff deg by simp
  qed
  from relax_ready [OF enough n_rest(2) this]
  have "distinct ready' \<and> set ready' = set rest \<union> {x \<in> set ?succ. deg_of x deg = int (count_list ?succ x)}"
    using relaxed adj by simp
  then have rd: "distinct ready'"
    and rs: "set ready' = set rest \<union> {x \<in> set ?succ. undone es out x = count_list ?succ x}"
    using deg by auto
  have succ_pos: "x \<in> set ?succ \<Longrightarrow> 0 < undone es out x" for x
    using snoc [of x] count_list_0_iff [of ?succ x] by simp
  have fresh: "x \<in> set ?succ \<Longrightarrow> x \<notin> set (out @ ready)" for x
    using succ_pos [of x] iff [of x] es by auto
  show ?thesis
    unfolding kahn_inv_def
  proof (intro conjI allI ballI)
    have "x \<notin> set (out @ [n])" if "x \<in> set ready'" for x
    proof (cases "x \<in> set rest")
      case True
      then have "x \<notin> set out" using dist set_ready by fastforce
      with True n_rest(1) show ?thesis by auto
    next
      case False
      with that rs have "x \<in> set ?succ" by blast
      from fresh [OF this] set_ready show ?thesis by auto
    qed
    moreover have "distinct (out @ [n])" using dist n_out by simp
    ultimately show "distinct ((out @ [n]) @ ready')"
      using rd unfolding distinct_append [of "out @ [n]"] by blast
    have "set ?succ \<subseteq> names" using es by auto
    then show "set ((out @ [n]) @ ready') \<subseteq> names"
      unfolding set_append using rs sub set_ready by simp blast
    show "deg_of x deg' = int (undone es (out @ [n]) x)" for x by (rule deg')
    show "x \<in> set ((out @ [n]) @ ready') \<longleftrightarrow> undone es (out @ [n]) x = 0" if "x \<in> names" for x
      using iff [OF that] snoc [of x] rs set_ready succ_pos [of x] count_list_0_iff [of ?succ x] by auto
    show "greedy_topo le es names (out @ [n])"
    proof (rule greedy_topo_snoc [OF topo])
      show "deps_done es (set out) n" using n_done by (simp add: undone_0_iff)
      fix y assume y: "y \<in> names" "y \<notin> set out" "deps_done es (set out) y"
      then have "y \<in> set ready" using iff [of y] by (auto simp: undone_0_iff)
      then show "le n y"
        using comparator.sort_head_least [OF cmp _ next_name] sub by (auto simp: list_all_iff)
    qed
  qed
qed

lemma kahn_inv_kahn:
  assumes "comparator (\<lambda>x. x \<in> names) le" and "set (map snd es) \<subseteq> names"
    and "\<And>x. adj_of x adj = map snd (filter (\<lambda>e. fst e = x) es)"
    and "kahn_inv le es names deg ready out"
  shows "\<exists>deg'. kahn_inv le es names deg' [] (kahn le adj deg ready out)"
  using assms
proof (induction le adj deg ready out rule: kahn.induct)
  case (1 le adj deg ready out)
  show ?case
  proof (cases "js_sort le ready")
    case Nil
    then have "ready = []" and "kahn le adj deg ready out = out"
      by (simp, simp add: kahn.simps [of le adj deg ready out] del: js_sort_eq_Nil)
    with 1(5) show ?thesis by auto
  next
    case (Cons n rest)
    obtain deg' ready' where r: "relax (adj_of n adj) (deg, rest) = (deg', ready')" by fastforce
    have "kahn_inv le es names deg' ready' (out @ [n])"
      using kahn_step [OF 1(2,5,3,4) Cons r] .
    from 1(1) [OF Cons r [symmetric] 1(2,3,4) this]
    show ?thesis using Cons r by (simp add: kahn.simps [of le adj deg ready out])
  qed
qed

section \<open>The sort\<close>

lemma js_get_by_name:
  assumes "distinct (map hname hs)"
  shows "js_get n (by_name hs) = map_of (map (\<lambda>h. (hname h, h)) hs) n"
proof -
  have "by_name hs = fold (\<lambda>(k, v). AList.update k v) (map (\<lambda>h. (hname h, h)) hs) []"
    by (simp add: by_name_def fold_map comp_def)
  moreover have "distinct (map fst (map (\<lambda>h. (hname h, h)) hs))"
    using assms by (simp add: comp_def)
  moreover from this have "map_of (rev (map (\<lambda>h. (hname h, h)) hs)) = map_of (map (\<lambda>h. (hname h, h)) hs)"
    by (subst map_of_inject_set) (simp_all add: rev_map distinct_map)
  ultimately show ?thesis
    using js_map.get_fold_put [of "[]" n "map (\<lambda>h. (hname h, h)) hs"]
    by (simp split: option.splits)
qed

lemma js_get_by_name_Some:
  "distinct (map hname hs) \<Longrightarrow> js_get n (by_name hs) = Some h \<longleftrightarrow> h \<in> set hs \<and> hname h = n"
  by (simp add: js_get_by_name comp_def map_of_eq_Some_iff) auto

lemma map_filter_by_name:
  assumes "distinct (map hname hs)" and "set ns \<subseteq> hname ` set hs"
  shows "map hname (List.map_filter (\<lambda>n. js_get n (by_name hs)) ns) = ns
    \<and> set (List.map_filter (\<lambda>n. js_get n (by_name hs)) ns) \<subseteq> set hs"
  using assms(2)
proof (induction ns)
  case (Cons n ns)
  then obtain h where h: "h \<in> set hs" "hname h = n" by auto
  then have "js_get n (by_name hs) = Some h" using js_get_by_name_Some [OF assms(1)] by simp
  with Cons h show ?case by (simp add: List.map_filter_simps)
qed (simp add: List.map_filter_simps)

lemma name_le_comparator:
  assumes d: "distinct (map hname hs)" and f: "\<forall>h \<in> set hs. is_finite_num (order h)"
  shows "comparator (\<lambda>x. x \<in> hname ` set hs) (name_le (by_name hs))"
proof -
  have le: "name_le (by_name hs) (hname a) (hname b) = hook_le a b"
    if "a \<in> set hs" "b \<in> set hs" for a b
  proof -
    have "js_get (hname a) (by_name hs) = Some a" "js_get (hname b) (by_name hs) = Some b"
      using that by (simp_all add: js_get_by_name_Some [OF d])
    then show ?thesis by (simp add: name_le_def)
  qed
  show ?thesis
  proof (unfold_locales, goal_cases)
    case (1 x y)
    then obtain a b where "x = hname a" "y = hname b" "a \<in> set hs" "b \<in> set hs" by auto
    then show ?case using le hook_order.total [of a b] f by simp
  next
    case (2 x y z)
    then obtain a b c where "x = hname a" "y = hname b" "z = hname c"
      "a \<in> set hs" "b \<in> set hs" "c \<in> set hs" by auto
    then show ?case using 2(4,5) le hook_order.trans [of a b c] f by simp
  qed
qed

text \<open>What the sort promises: the hooks of the transition, once each; every hook after the hooks
  it names in \<open>after\<close>; and at every place the least hook that could come there.\<close>

definition topo_spec :: "'w lifecycle_hook list \<Rightarrow> 'w lifecycle_hook list \<Rightarrow> bool" where
  "topo_spec hs out =
     (mset out = mset hs
      \<and> (\<forall>i < length out. set (deps_of (out ! i)) \<subseteq> hname ` set (take i out)
           \<and> (\<forall>h \<in> set (drop i out). set (deps_of h) \<subseteq> hname ` set (take i out) \<longrightarrow> hook_le (out ! i) h)))"

lemma set_edges: "set (edges hs) = {(d, hname h) | d h. h \<in> set hs \<and> d \<in> set (deps_of h)}"
  by (auto simp: edges_def)

lemma deps_done_edges:
  assumes "distinct (map hname hs)" and "h \<in> set hs"
  shows "deps_done (edges hs) A (hname h) \<longleftrightarrow> set (deps_of h) \<subseteq> A"
proof -
  have "h' = h" if "h' \<in> set hs" "hname h' = hname h" for h'
    using that assms by (simp add: distinct_map inj_on_def)
  then show ?thesis using assms(2) by (auto simp: deps_done_def set_edges)
qed

lemma topo_run:
  fixes hs :: "'w lifecycle_hook list"
  assumes d: "distinct (map hname hs)" and f: "\<forall>h \<in> set hs. is_finite_num (order h)"
    and known: "\<forall>h \<in> set hs. set (deps_of h) \<subseteq> hname ` set hs"
    and g: "graph_rep (deg, adj) (edges hs)"
  obtains ns deg' where
    "kahn (name_le (by_name hs)) adj deg (map hname (filter (\<lambda>h. deg_of (hname h) deg = 0) hs)) [] = ns"
    and "kahn_inv (name_le (by_name hs)) (edges hs) (hname ` set hs) deg' [] ns"
proof -
  let ?ready = "map hname (filter (\<lambda>h. deg_of (hname h) deg = 0) hs)"
  have "kahn_inv (name_le (by_name hs)) (edges hs) (hname ` set hs) deg ?ready []"
    using distinct_map_filter [OF d] g
    by (auto simp: kahn_inv_def greedy_topo_def undone_def graph_rep_def)
  moreover have "set (map snd (edges hs)) \<subseteq> hname ` set hs" by (auto simp: set_edges)
  moreover have "\<And>x. adj_of x adj = map snd (filter (\<lambda>e. fst e = x) (edges hs))"
    using g by (simp add: graph_rep_def)
  ultimately obtain deg' where
    "kahn_inv (name_le (by_name hs)) (edges hs) (hname ` set hs) deg' []
      (kahn (name_le (by_name hs)) adj deg ?ready [])"
    using kahn_inv_kahn [OF name_le_comparator [OF d f]] by blast
  then show ?thesis by (rule that [OF refl])
qed

lemma topo_spec_of_kahn:
  assumes d: "distinct (map hname hs)"
    and inv: "kahn_inv (name_le (by_name hs)) (edges hs) (hname ` set hs) deg' [] ns"
    and len: "length ns = length hs"
    and out: "out = List.map_filter (\<lambda>n. js_get n (by_name hs)) ns"
  shows "topo_spec hs out"
proof -
  have ns: "distinct ns" "set ns \<subseteq> hname ` set hs"
    and greedy: "greedy_topo (name_le (by_name hs)) (edges hs) (hname ` set hs) ns"
    using inv by (auto simp: kahn_inv_def)
  have names: "map hname out = ns" and sub: "set out \<subseteq> set hs"
    using map_filter_by_name [OF d ns(2)] out by auto
  have dout: "distinct out" using names ns(1) by (metis distinct_map)
  have lout: "length out = length hs" using names len by (metis length_map)
  have "distinct hs" using d by (simp add: distinct_map)
  then have seteq: "set out = set hs"
    using sub dout lout by (metis card_subset_eq distinct_card finite_set)
  have step: "set (deps_of (out ! i)) \<subseteq> hname ` set (take i out)
      \<and> (\<forall>h \<in> set (drop i out). set (deps_of h) \<subseteq> hname ` set (take i out) \<longrightarrow> hook_le (out ! i) h)"
    if i: "i < length out" for i
  proof -
    have pre: "set (take i ns) = hname ` set (take i out)" and nth: "ns ! i = hname (out ! i)"
      using i names by (metis list.set_map take_map, metis nth_map)
    have oi: "out ! i \<in> set hs" using i seteq by (metis nth_mem)
    have gi: "deps_done (edges hs) (set (take i ns)) (ns ! i)"
      and least: "\<And>y. y \<in> hname ` set hs \<Longrightarrow> y \<notin> set (take i ns) \<Longrightarrow>
        deps_done (edges hs) (set (take i ns)) y \<Longrightarrow> name_le (by_name hs) (ns ! i) y"
      using greedy i lout len by (auto simp: greedy_topo_def)
    have "hook_le (out ! i) h"
      if h: "h \<in> set (drop i out)" and dh: "set (deps_of h) \<subseteq> hname ` set (take i out)" for h
    proof -
      have hh: "h \<in> set hs" using h seteq by (metis in_set_dropD)
      have "hname h \<in> set (drop i ns)" using h names by (metis drop_map image_eqI list.set_map)
      then have "hname h \<notin> set (take i ns)"
        using ns(1) set_take_disj_set_drop_if_distinct [of ns i i] by auto
      then have "name_le (by_name hs) (ns ! i) (hname h)"
        using least hh dh deps_done_edges [OF d hh] pre by auto
      moreover have "js_get (ns ! i) (by_name hs) = Some (out ! i)"
        "js_get (hname h) (by_name hs) = Some h"
        using oi hh nth by (simp_all add: js_get_by_name_Some [OF d])
      ultimately show ?thesis by (simp add: name_le_def)
    qed
    then show ?thesis using gi deps_done_edges [OF d oi] pre nth by auto
  qed
  have "mset out = mset hs"
    using dout \<open>distinct hs\<close> seteq set_eq_iff_mset_eq_distinct by blast
  with step show ?thesis by (simp add: topo_spec_def)
qed

section \<open>The outcomes of the sort\<close>

text \<open>Names left over lie on a cycle; an order of all names leaves no cycle.\<close>

lemma leftover_cycle:
  assumes known: "\<forall>h \<in> set hs. set (deps_of h) \<subseteq> hname ` set hs"
    and inv: "kahn_inv le (edges hs) (hname ` set hs) deg' [] ns"
    and left: "set ns \<noteq> hname ` set hs"
  shows "\<not> acyclic (set (edges hs))"
proof
  assume "acyclic (set (edges hs))"
  then have wf: "wf (set (edges hs))" by (simp add: finite_acyclic_wf)
  let ?rest = "hname ` set hs - set ns"
  have "?rest \<noteq> {}" using left inv by (auto simp: kahn_inv_def)
  then obtain x where x: "x \<in> ?rest" and least: "\<And>y. (y, x) \<in> set (edges hs) \<Longrightarrow> y \<notin> ?rest"
    using wf by (metis wf_eq_minimal ex_in_conv)
  have "\<not> deps_done (edges hs) (set ns) x"
    using inv x by (auto simp: kahn_inv_def undone_0_iff)
  then obtain d where "(d, x) \<in> set (edges hs)" "d \<notin> set ns" by (auto simp: deps_done_def)
  moreover from this known have "d \<in> hname ` set hs" by (auto simp: set_edges)
  ultimately show False using least [of d] by auto
qed

lemma greedy_acyclic:
  assumes "greedy_topo le es names ns" and "distinct ns" and sub: "snd ` set es \<subseteq> set ns"
  shows "acyclic (set es)"
proof -
  have step: "\<exists>i j. i < j \<and> j < length ns \<and> ns ! i = d \<and> ns ! j = x" if "(d, x) \<in> set es" for d x
  proof -
    from that sub obtain j where j: "j < length ns" "ns ! j = x"
      by (metis image_eqI in_set_conv_nth snd_conv subsetD)
    with assms(1) that have "d \<in> set (take j ns)" by (auto simp: greedy_topo_def deps_done_def)
    then obtain i where "i < j" "ns ! i = d" by (auto simp: in_set_conv_nth)
    with j show ?thesis by blast
  qed
  have "\<exists>i j. i < j \<and> j < length ns \<and> ns ! i = a \<and> ns ! j = b" if "(a, b) \<in> (set es)\<^sup>+" for a b
    using that
  proof (induction rule: trancl_induct)
    case (step b c)
    from step.IH obtain i j where ij: "i < j" "j < length ns" "ns ! i = a" "ns ! j = b" by blast
    from \<open>(b, c) \<in> set es\<close> obtain k l where kl: "k < l" "l < length ns" "ns ! k = b" "ns ! l = c"
      using \<open>\<And>x d. (d, x) \<in> set es \<Longrightarrow> \<exists>i j. i < j \<and> j < length ns \<and> ns ! i = d \<and> ns ! j = x\<close> by blast
    from ij kl have "k = j" using assms(2) nth_eq_iff_index_eq [of ns k j] by simp
    with ij kl show ?case by (metis less_trans)
  qed (use step in blast)
  then show ?thesis
    using assms(2) by (auto simp: acyclic_def nth_eq_iff_index_eq) (metis less_irrefl less_trans nth_eq_iff_index_eq)
qed

lemma topo_sort_cases:
  assumes d: "distinct (map hname all)" and f: "\<forall>h \<in> set all. is_finite_num (order h)"
    and known: "\<forall>h \<in> set (by_order t all). set (deps_of h) \<subseteq> hname ` set (by_order t all)"
  shows "if acyclic (set (edges (by_order t all)))
    then \<exists>out. topo_sort_for_transition t all = Inr out \<and> topo_spec (by_order t all) out
    else \<exists>m. topo_sort_for_transition t all = Inl (LifecycleRegistryError CYCLIC_AFTER m)"
proof -
  let ?hs = "by_order t all"
  have dh: "distinct (map hname ?hs)" by (rule distinct_by_order [OF d])
  have fh: "\<forall>h \<in> set ?hs. is_finite_num (order h)" using f by auto
  obtain deg adj where g: "build_graph t ?hs = Inr (deg, adj)" "graph_rep (deg, adj) (edges ?hs)"
    using build_graph_ok [OF known, of t] by fastforce
  obtain ns deg' where ns: "kahn (name_le (by_name ?hs)) adj deg
        (map hname (filter (\<lambda>h. deg_of (hname h) deg = 0) ?hs)) [] = ns"
    and inv: "kahn_inv (name_le (by_name ?hs)) (edges ?hs) (hname ` set ?hs) deg' [] ns"
    using topo_run [OF dh fh known g(2)] by blast
  define out where "out = List.map_filter (\<lambda>n. js_get n (by_name ?hs)) ns"
  have sub: "set ns \<subseteq> hname ` set ?hs" and dn: "distinct ns" using inv by (auto simp: kahn_inv_def)
  have names: "map hname out = ns" using map_filter_by_name [OF dh sub] out_def by simp
  have lens: "length out = length ns" by (metis length_map names)
  have full: "set ns = hname ` set ?hs \<longleftrightarrow> length ns = length ?hs"
    using dn dh sub by (metis card_subset_eq distinct_card finite_imageI finite_set length_map list.set_map)
  have res: "topo_sort_for_transition t all =
      (if length ns \<noteq> length ?hs
       then Inl (LifecycleRegistryError CYCLIC_AFTER (''cycle in lifecycle hook '' @ [CHR 0x27] @ ''after'' @ [CHR 0x27]
                    @ '' graph for transition '' @ [CHR 0x27] @ transition_str t @ [CHR 0x27] @ '': ''
                    @ join_with '', ''
                        (filter (\<lambda>n. n \<notin> set (map hname out)) (map hname ?hs))))
       else Inr out)"
    using g(1) ns lens by (simp add: topo_sort_for_transition_def Let_def out_def)
  show ?thesis
  proof (cases "length ns = length ?hs")
    case True
    then have "snd ` set (edges ?hs) \<subseteq> set ns" using full by (auto simp: set_edges)
    then have "acyclic (set (edges ?hs))"
      using greedy_acyclic inv dn by (metis kahn_inv_def)
    then show ?thesis using res True topo_spec_of_kahn [OF dh inv True out_def] by simp
  next
    case False
    then have "\<not> acyclic (set (edges ?hs))" using leftover_cycle [OF known inv] full by blast
    then show ?thesis using res False by simp
  qed
qed

lemma topo_sort_unknown:
  assumes "\<exists>h \<in> set (by_order t all). \<not> set (deps_of h) \<subseteq> hname ` set (by_order t all)"
  shows "\<exists>m. topo_sort_for_transition t all = Inl (LifecycleRegistryError UNKNOWN_AFTER m)"
  using build_graph_unknown [OF assms, of t] by (auto simp: topo_sort_for_transition_def Let_def)

end
