(* ===== verification/LifecycleRun.thy ===== *)
theory LifecycleRun
  imports LifecycleDispatcher LifecycleOrder
begin

text \<open>
  What a dispatch promises, stated without tables: \<open>spec_run\<close> runs the hooks one after the
  other on the world, stops at the first failing hook whose policy is \<open>abort\<close>, and says for each
  hook what its row must show. The dispatcher's table-driven loop is proved to refine it.
\<close>

section \<open>The abstract run\<close>

text \<open>Name, state, attempts and whether another attempt is scheduled: what a row shows.\<close>

type_synonym run_view = "string \<times> run_state \<times> int \<times> bool"

definition view_of :: "hook_run_row \<Rightarrow> run_view" where
  "view_of r = (hr_hook r, hr_state r, hr_attempts r, hr_next r \<noteq> None)"

definition pending_view :: "'w lifecycle_hook \<Rightarrow> run_view" where
  "pending_view h = (hname h, RPending, 0, False)"

definition done_view :: "'w lifecycle_hook \<Rightarrow> hook_status \<Rightarrow> run_view" where
  "done_view h st =
     (hname h,
      (if st = HOk then ROk else if st = HNoop then RNoop else RFailed), 1,
      st = HRetry \<and> 1 < hook_max h)"

fun spec_run ::
  "'w dispatch_options \<Rightarrow> string \<Rightarrow> 'w lifecycle_hook list \<Rightarrow> 'w \<Rightarrow> run_view list \<times> counts \<times> 'w"
where
  "spec_run opts tid [] w = ([], \<lparr>c_ok = 0, c_failed = 0, c_aborted = False\<rparr>, w)"
| "spec_run opts tid (h # hs) w =
     (case hrun h (make_ctx opts tid 1) w of (out, w') \<Rightarrow>
        (let st = fst (hook_result out) in
         if st = HOk \<or> st = HNoop then
           (case spec_run opts tid hs w' of (vs, c, w'') \<Rightarrow>
              (done_view h st # vs, c\<lparr>c_ok := Suc (c_ok c)\<rparr>, w''))
         else if blocking h = ''abort'' then
           (done_view h st # map pending_view hs, \<lparr>c_ok = 0, c_failed = 1, c_aborted = True\<rparr>, w')
         else
           (case spec_run opts tid hs w' of (vs, c, w'') \<Rightarrow>
              (done_view h st # vs, c\<lparr>c_failed := Suc (c_failed c)\<rparr>, w''))))"

definition add_counts :: "counts \<Rightarrow> counts \<Rightarrow> counts" where
  "add_counts a b = \<lparr>c_ok = c_ok a + c_ok b, c_failed = c_failed a + c_failed b,
     c_aborted = (c_aborted a \<or> c_aborted b)\<rparr>"

lemma length_spec_run: "length (fst (spec_run opts tid hs w)) = length hs"
  by (induction hs arbitrary: w) (auto simp: Let_def split: prod.splits, (metis fst_conv)+)

lemma spec_run_names: "map fst (fst (spec_run opts tid hs w)) = map hname hs"
  by (induction hs arbitrary: w)
    (auto simp: Let_def done_view_def pending_view_def comp_def split: prod.splits, (metis fst_conv)+)

section \<open>The loop refines the abstract run\<close>

definition rows_ok :: "string \<Rightarrow> string list \<Rightarrow> hook_run_row list \<Rightarrow> bool" where
  "rows_ok tid names rows =
     (map hr_hook rows = names \<and> (\<forall>r \<in> set rows. hr_transition r = tid) \<and> distinct (map hr_id rows))"

definition foreign :: "string \<Rightarrow> string set \<Rightarrow> hook_run_row list \<Rightarrow> bool" where
  "foreign tid rids rows = (\<forall>r \<in> set rows. hr_transition r \<noteq> tid \<and> hr_id r \<notin> rids)"

lemma fold_aborted:
  "c_aborted c \<Longrightarrow> fold (dispatch_hook env opts tid) hs (s, c) = (s, c)"
  by (induction hs) (auto simp: dispatch_hook_def split: option.splits)

lemma world_lemmas [simp]:
  "world (update_run i f s) = world s" "runs (snd (read_clock env s)) = runs s"
  "world (snd (read_clock env s)) = world s" "trs (update_run i f s) = trs s"
  "trs (snd (read_clock env s)) = trs s" "tasks (update_run i f s) = tasks s"
  "tasks (snd (read_clock env s)) = tasks s"
  by (simp_all add: update_run_def read_clock_def)

lemma update_run_middle:
  assumes "runs s = xs @ r # ys" and "\<forall>x \<in> set (xs @ ys). hr_id x \<noteq> hr_id r"
  shows "runs (update_run (hr_id r) f s) = xs @ f r # ys"
  using assms by (auto simp: update_run_def intro!: map_idI)

lemma find_own_row:
  assumes "foreign tid A old" and "\<forall>x \<in> set done_rows. hr_hook x \<noteq> hr_hook r" and "hr_transition r = tid"
  shows "find (\<lambda>x. hr_hook x = hr_hook r) (filter (\<lambda>x. hr_transition x = tid) (old @ done_rows @ r # rest)) = Some r"
proof -
  have "filter (\<lambda>x. hr_transition x = tid) old = []" using assms(1) by (simp add: foreign_def filter_empty_conv)
  moreover have "find (\<lambda>x. hr_hook x = hr_hook r) (xs @ r # zs) = Some r"
    if "\<forall>x \<in> set xs. hr_hook x \<noteq> hr_hook r" for xs zs
    using that by (induction xs) auto
  moreover have "\<forall>x \<in> set (filter (\<lambda>x. hr_transition x = tid) done_rows). hr_hook x \<noteq> hr_hook r"
    using assms(2) by auto
  ultimately show ?thesis using assms(3) by simp
qed

lemma pending_views:
  "map hr_hook rs = map hname hs \<Longrightarrow>
     \<forall>r \<in> set rs. hr_attempts r = 0 \<and> hr_state r = RPending \<and> hr_next r = None \<Longrightarrow>
     map view_of rs = map pending_view hs"
proof (induction rs arbitrary: hs)
  case (Cons r rs)
  then show ?case by (cases hs) (auto simp: view_of_def pending_view_def)
qed simp

text \<open>One iteration on the row it finds: the row changes to what the abstract run says.\<close>

lemma dispatch_hook_step:
  assumes rows: "runs s = xs @ r # ys" and rid: "\<forall>x \<in> set (xs @ ys). hr_id x \<noteq> hr_id r"
    and found: "find (\<lambda>x. hr_hook x = hname h) (filter (\<lambda>x. hr_transition x = tid) (runs s)) = Some r"
    and fresh: "hr_attempts r = 0" "hr_hook r = hname h" and na: "\<not> c_aborted c"
    and run: "hrun h (make_ctx opts tid 1) (world s) = (out, w)"
  defines "st \<equiv> fst (hook_result out)"
  shows "\<exists>s' r'. dispatch_hook env opts tid h (s, c)
      = (s', if st = HOk \<or> st = HNoop then c\<lparr>c_ok := Suc (c_ok c)\<rparr>
             else c\<lparr>c_failed := Suc (c_failed c), c_aborted := (blocking h = ''abort'')\<rparr>)
    \<and> runs s' = xs @ r' # ys \<and> view_of r' = done_view h st \<and> hr_id r' = hr_id r
    \<and> hr_transition r' = hr_transition r \<and> world s' = w \<and> trs s' = trs s \<and> tasks s' = tasks s"
proof -
  have upd: "map (\<lambda>x. if hr_id x = hr_id r then g x else x) xs = xs"
    "map (\<lambda>x. if hr_id x = hr_id r then g x else x) ys = ys" for g
    using rid by (auto intro!: map_idI)
  obtain e where res: "hook_result out = (st, e)" by (metis st_def surjective_pairing)
  show ?thesis
    using found fresh na run rows res
    by (cases st) (auto simp: dispatch_hook_def read_clock_def update_run_def upd view_of_def
        done_view_def Let_def)
qed

lemma dispatch_loop:
  assumes "runs s = old @ done_rows @ rest" and "foreign tid (hr_id ` set (done_rows @ rest)) old"
    and "rows_ok tid (map hr_hook done_rows @ map hname hs) (done_rows @ rest)"
    and "distinct (map hr_hook done_rows @ map hname hs)"
    and "\<forall>r \<in> set rest. hr_attempts r = 0 \<and> hr_state r = RPending \<and> hr_next r = None"
    and "length rest = length hs" and "\<not> c_aborted c"
    and "spec_run opts tid hs (world s) = (vs, c', w')"
  shows "\<exists>s' rest'. fold (dispatch_hook env opts tid) hs (s, c) = (s', add_counts c c')
    \<and> runs s' = old @ done_rows @ rest' \<and> map view_of rest' = vs
    \<and> (\<forall>r \<in> set rest'. hr_transition r = tid)
    \<and> world s' = w' \<and> trs s' = trs s \<and> tasks s' = tasks s"
  using assms
proof (induction hs arbitrary: s c done_rows rest vs c' w')
  case Nil
  then show ?case by (auto simp: add_counts_def)
next
  case (Cons h hs)
  from Cons.prems(6) obtain r rs where rest: "rest = r # rs" and len: "length rs = length hs"
    by (cases rest) auto
  have names: "map hr_hook rest = map hname (h # hs)"
    using Cons.prems(3,6) by (simp add: rows_ok_def)
  then have rh: "hr_hook r = hname h" and rsn: "map hr_hook rs = map hname hs" by (simp_all add: rest)
  have rt: "hr_transition r = tid" using Cons.prems(3) by (simp add: rows_ok_def rest)
  have rid: "\<forall>x \<in> set ((old @ done_rows) @ rs). hr_id x \<noteq> hr_id r"
  proof
    fix x assume x: "x \<in> set ((old @ done_rows) @ rs)"
    have "\<forall>x \<in> set old. hr_id x \<noteq> hr_id r" using Cons.prems(2) by (simp add: rest foreign_def)
    moreover have "hr_id r \<notin> hr_id ` set (done_rows @ rs)"
      using Cons.prems(3) unfolding rows_ok_def rest by (simp add: image_Un)
    ultimately show "hr_id x \<noteq> hr_id r" using x by (metis Un_iff append.assoc image_eqI set_append)
  qed
  have "hname h \<notin> hr_hook ` set done_rows" using Cons.prems(4) by simp
  then have fresh_name: "\<forall>x \<in> set done_rows. hr_hook x \<noteq> hr_hook r" unfolding rh by (metis image_eqI)
  have rows: "runs s = (old @ done_rows) @ r # rs" using Cons.prems(1) by (simp add: rest)
  have found: "find (\<lambda>x. hr_hook x = hname h) (filter (\<lambda>x. hr_transition x = tid) (runs s)) = Some r"
    using find_own_row [OF Cons.prems(2) fresh_name rt, of rs] rows rh by simp
  obtain out w where run: "hrun h (make_ctx opts tid 1) (world s) = (out, w)" by fastforce
  define st where "st = fst (hook_result out)"
  define c1 where "c1 = (if st = HOk \<or> st = HNoop then c\<lparr>c_ok := Suc (c_ok c)\<rparr>
     else c\<lparr>c_failed := Suc (c_failed c), c_aborted := (blocking h = ''abort'')\<rparr>)"
  have "hr_attempts r = 0" using Cons.prems(5) rest by simp
  from dispatch_hook_step [OF rows rid found this rh Cons.prems(7) run, of env] obtain s1 r1
    where s1: "dispatch_hook env opts tid h (s, c) = (s1, c1)"
      and r1: "runs s1 = (old @ done_rows) @ r1 # rs" "view_of r1 = done_view h st"
        "hr_id r1 = hr_id r" "hr_transition r1 = tid"
      and w1: "world s1 = w" "trs s1 = trs s" "tasks s1 = tasks s"
    unfolding st_def [symmetric] c1_def [symmetric] rt by blast
  have r1h: "hr_hook r1 = hname h" using r1(2) by (simp add: view_of_def done_view_def)
  show ?case
  proof (cases "c_aborted c1")
    case True
    then have failing: "\<not> (st = HOk \<or> st = HNoop)" "blocking h = ''abort''"
      using Cons.prems(7) by (auto simp: c1_def split: if_splits)
    have views: "map view_of rs = map pending_view hs"
      using pending_views [OF rsn] Cons.prems(5) rest by simp
    have spec: "vs = done_view h st # map pending_view hs" "w' = w"
      "c' = \<lparr>c_ok = 0, c_failed = 1, c_aborted = True\<rparr>"
      using Cons.prems(8) run failing by (auto simp: st_def [symmetric] Let_def)
    have "add_counts c c' = c1" using failing Cons.prems(7) by (simp add: spec(3) add_counts_def c1_def)
    moreover have "\<forall>r \<in> set (r1 # rs). hr_transition r = tid"
      using r1(4) Cons.prems(3) by (simp add: rows_ok_def rest)
    ultimately show ?thesis
      using s1 fold_aborted [OF True] r1 views spec w1
      by (intro exI [of _ s1] exI [of _ "r1 # rs"]) simp
  next
    case False
    obtain vs2 c2 w2 where rec: "spec_run opts tid hs w = (vs2, c2, w2)" by (metis prod_cases3)
    have spec: "vs = done_view h st # vs2" "w' = w2"
      "c' = (if st = HOk \<or> st = HNoop then c2\<lparr>c_ok := Suc (c_ok c2)\<rparr> else c2\<lparr>c_failed := Suc (c_failed c2)\<rparr>)"
      using Cons.prems(7,8) run rec False by (auto simp: st_def [symmetric] Let_def c1_def split: if_splits)
    have "\<exists>s' rest'. fold (dispatch_hook env opts tid) hs (s1, c1) = (s', add_counts c1 c2)
      \<and> runs s' = old @ (done_rows @ [r1]) @ rest' \<and> map view_of rest' = vs2
      \<and> (\<forall>r \<in> set rest'. hr_transition r = tid) \<and> world s' = w2 \<and> trs s' = trs s1 \<and> tasks s' = tasks s1"
    proof (rule Cons.IH)
      show "runs s1 = old @ (done_rows @ [r1]) @ rs" using r1 by simp
      show "foreign tid (hr_id ` set ((done_rows @ [r1]) @ rs)) old"
        using Cons.prems(2) r1(3) by (simp add: rest)
      show "rows_ok tid (map hr_hook (done_rows @ [r1]) @ map hname hs) ((done_rows @ [r1]) @ rs)"
        using Cons.prems(3) r1 r1h rest rsn by (auto simp: rows_ok_def)
      show "distinct (map hr_hook (done_rows @ [r1]) @ map hname hs)"
        using Cons.prems(4) r1h by simp
      show "\<forall>r \<in> set rs. hr_attempts r = 0 \<and> hr_state r = RPending \<and> hr_next r = None"
        using Cons.prems(5) rest by simp
    qed (use len False rec w1 in simp_all)
    then obtain s' rest' where fin: "fold (dispatch_hook env opts tid) hs (s1, c1) = (s', add_counts c1 c2)"
      "runs s' = old @ done_rows @ r1 # rest'" "map view_of rest' = vs2"
      "\<forall>r \<in> set rest'. hr_transition r = tid" "world s' = w2" "trs s' = trs s" "tasks s' = tasks s"
      using w1 by auto
    have "add_counts c1 c2 = add_counts c c'"
      using False Cons.prems(7) by (auto simp: add_counts_def c1_def spec(3))
    with fin s1 r1 spec show ?thesis by (intro exI [of _ s'] exI [of _ "r1 # rest'"]) auto
  qed
qed

section \<open>A whole transition\<close>

text \<open>The promise of \<open>randomUUID\<close>: no id of the supply repeats or is already in the tables.\<close>

definition fresh_ids :: "env \<Rightarrow> 'w lstate \<Rightarrow> bool" where
  "fresh_ids env s =
     (inj (env_uuid env)
      \<and> (\<forall>n \<ge> ids s. (\<forall>r \<in> set (runs s). hr_id r \<noteq> env_uuid env n \<and> hr_transition r \<noteq> env_uuid env n)
           \<and> (\<forall>r \<in> set (trs s). tr_id r \<noteq> env_uuid env n)))"

lemma insert_runs_rows:
  "\<exists>new. runs (insert_runs env tid i hs s) = runs s @ new \<and> map hr_hook new = map hname hs
     \<and> map hr_id new = map (env_uuid env) [ids s..<ids s + length hs]
     \<and> (\<forall>r \<in> set new. hr_transition r = tid \<and> hr_attempts r = 0 \<and> hr_state r = RPending \<and> hr_next r = None)
     \<and> world (insert_runs env tid i hs s) = world s \<and> trs (insert_runs env tid i hs s) = trs s
     \<and> tasks (insert_runs env tid i hs s) = tasks s"
proof (induction hs arbitrary: i s)
  case (Cons h hs)
  define r where "r = \<lparr>hr_id = env_uuid env (ids s), hr_transition = tid, hr_hook = hname h,
    hr_order = i, hr_blocking = blocking h, hr_state = RPending, hr_attempts = 0, hr_max = hook_max h,
    hr_error = None, hr_started = None, hr_completed = None, hr_next = None\<rparr>"
  define s1 where "s1 = s\<lparr>ids := Suc (ids s), runs := runs s @ [r]\<rparr>"
  from Cons.IH [of "Suc i" s1] obtain new where new:
    "runs (insert_runs env tid (Suc i) hs s1) = runs s1 @ new" "map hr_hook new = map hname hs"
    "map hr_id new = map (env_uuid env) [ids s1..<ids s1 + length hs]"
    "\<forall>r \<in> set new. hr_transition r = tid \<and> hr_attempts r = 0 \<and> hr_state r = RPending \<and> hr_next r = None"
    "world (insert_runs env tid (Suc i) hs s1) = world s1" "trs (insert_runs env tid (Suc i) hs s1) = trs s1"
    "tasks (insert_runs env tid (Suc i) hs s1) = tasks s1"
    by blast
  have eq: "insert_runs env tid i (h # hs) s = insert_runs env tid (Suc i) hs s1"
    by (simp add: fresh_uuid_def s1_def r_def)
  have "[ids s..<ids s + length (h # hs)] = ids s # [Suc (ids s)..<Suc (ids s) + length hs]"
    by (simp add: upt_conv_Cons del: upt_Suc)
  with new show ?case
    unfolding eq by (intro exI [of _ "r # new"]) (auto simp: s1_def r_def simp del: upt_Suc)
qed simp

lemma complete_tr_fields [simp]:
  "runs (complete_tr env tid st s) = runs s" "world (complete_tr env tid st s) = world s"
  "runs (mirror_task opts tid c s) = runs s" "world (mirror_task opts tid c s) = world s"
  "trs (mirror_task opts tid c s) = trs s"
  by (simp_all add: complete_tr_def read_clock_def update_tr_def mirror_task_def split: option.split)

lemma complete_tr_own:
  assumes "trs s = old @ [r]" and "tr_id r = tid" and "\<forall>x \<in> set old. tr_id x \<noteq> tid"
  shows "filter (\<lambda>x. tr_id x \<noteq> tid) (trs (complete_tr env tid st s)) = old"
    and "map tr_state (filter (\<lambda>x. tr_id x = tid) (trs (complete_tr env tid st s))) = [st]"
proof -
  have "map (\<lambda>x. if tr_id x = tid then f x else x) old = old" for f
    using assms(3) by (auto intro!: map_idI)
  moreover have "filter (\<lambda>x. tr_id x \<noteq> tid) old = old" "filter (\<lambda>x. tr_id x = tid) old = []"
    using assms(3) by (simp_all add: filter_empty_conv)
  ultimately show "filter (\<lambda>x. tr_id x \<noteq> tid) (trs (complete_tr env tid st s)) = old"
    and "map tr_state (filter (\<lambda>x. tr_id x = tid) (trs (complete_tr env tid st s))) = [st]"
    using assms(1,2) by (simp_all add: complete_tr_def read_clock_def update_tr_def)
qed

text \<open>What the tables show after a transition that ran: its rows, and nothing else changed.\<close>

definition transition_outcome ::
  "string \<Rightarrow> run_view list \<Rightarrow> counts \<Rightarrow> 'w \<Rightarrow> 'w lstate \<Rightarrow> 'w lstate \<Rightarrow> bool" where
  "transition_outcome tid vs c w s s' =
     (map view_of (filter (\<lambda>r. hr_transition r = tid) (runs s')) = vs
      \<and> filter (\<lambda>r. hr_transition r \<noteq> tid) (runs s') = runs s
      \<and> map tr_state (filter (\<lambda>r. tr_id r = tid) (trs s')) = [final_state c]
      \<and> filter (\<lambda>r. tr_id r \<noteq> tid) (trs s') = trs s
      \<and> world s' = w)"

lemma run_transition_hooks:
  assumes fresh: "fresh_ids env s" and d: "distinct (map hname hooks)" and ne: "hooks \<noteq> []"
    and noskip: "\<not> o_skip opts"
    and hooks: "(case o_hooks opts of Some hs \<Rightarrow> Inr hs
        | None \<Rightarrow> topo_sort_for_transition (o_transition opts) (list_hooks reg)) = Inr hooks"
    and spec: "spec_run opts (env_uuid env (ids s)) hooks (world s) = (vs, c, w)"
  shows "\<exists>s'. run_transition env reg opts s
      = (Inr \<lparr>d_id = env_uuid env (ids s), d_state = final_state c, d_attempted = c_ok c + c_failed c,
             d_ok = c_ok c, d_failed = c_failed c\<rparr>, s')
    \<and> transition_outcome (env_uuid env (ids s)) vs c w s s'"
proof -
  let ?tid = "env_uuid env (ids s)"
  define s3 where "s3 = insert_parent opts ?tid (env_clock env (ticks s))
     (s\<lparr>ids := Suc (ids s), ticks := Suc (ticks s)\<rparr>)"
  have s3: "runs s3 = runs s" "world s3 = world s" "ids s3 = Suc (ids s)"
    by (simp_all add: s3_def insert_parent_def)
  obtain p where p: "trs s3 = trs s @ [p]" "tr_id p = ?tid"
    by (simp add: s3_def insert_parent_def)
  define s4 where "s4 = insert_runs env ?tid 0 hooks s3"
  from insert_runs_rows [of env ?tid 0 hooks s3] obtain new where new:
    "runs s4 = runs s3 @ new" "map hr_hook new = map hname hooks"
    "map hr_id new = map (env_uuid env) [ids s3..<ids s3 + length hooks]"
    "\<forall>r \<in> set new. hr_transition r = ?tid \<and> hr_attempts r = 0 \<and> hr_state r = RPending \<and> hr_next r = None"
    "world s4 = world s3" "trs s4 = trs s3"
    unfolding s4_def by blast
  have inj: "inj (env_uuid env)" and nold: "\<And>n r. ids s \<le> n \<Longrightarrow> r \<in> set (runs s) \<Longrightarrow>
      hr_id r \<noteq> env_uuid env n \<and> hr_transition r \<noteq> env_uuid env n"
    and ntr: "\<forall>x \<in> set (trs s). tr_id x \<noteq> ?tid"
    using fresh by (auto simp: fresh_ids_def)
  have new_ids: "hr_id ` set new = env_uuid env ` {ids s3..<ids s3 + length hooks}"
    using new(3) by (metis list.set_map set_upt)
  have "foreign ?tid (hr_id ` set ([] @ new)) (runs s3)"
    using nold s3 new_ids by (force simp: foreign_def)
  moreover have "distinct (map hr_id new)"
    unfolding new(3) by (simp add: distinct_map inj_on_subset [OF inj])
  then have "rows_ok ?tid (map hr_hook [] @ map hname hooks) ([] @ new)"
    using new by (simp add: rows_ok_def)
  moreover have "length new = length hooks" using new(2) by (metis length_map)
  ultimately obtain s5 rest where fin:
    "fold (dispatch_hook env opts ?tid) hooks (s4, \<lparr>c_ok = 0, c_failed = 0, c_aborted = False\<rparr>)
      = (s5, add_counts \<lparr>c_ok = 0, c_failed = 0, c_aborted = False\<rparr> c)"
    "runs s5 = runs s3 @ [] @ rest" "map view_of rest = vs" "\<forall>r \<in> set rest. hr_transition r = ?tid"
    "world s5 = w" "trs s5 = trs s4"
    using dispatch_loop [of s4 "runs s3" "[]" new ?tid hooks
        "\<lparr>c_ok = 0, c_failed = 0, c_aborted = False\<rparr>" opts vs c w env] new d spec s3
    by auto
  have c0: "add_counts \<lparr>c_ok = 0, c_failed = 0, c_aborted = False\<rparr> c = c"
    by (simp add: add_counts_def)
  let ?s6 = "complete_tr env ?tid (final_state c) s5"
  have run: "run_transition env reg opts s
      = (Inr \<lparr>d_id = ?tid, d_state = final_state c, d_attempted = c_ok c + c_failed c,
             d_ok = c_ok c, d_failed = c_failed c\<rparr>, mirror_task opts ?tid c ?s6)"
    using hooks ne noskip fin(1) c0
    by (simp add: run_transition_def fresh_uuid_def read_clock_def s3_def [symmetric] s4_def [symmetric])
  have "filter (\<lambda>r. hr_transition r = ?tid) (runs s) = []" "filter (\<lambda>r. hr_transition r \<noteq> ?tid) (runs s) = runs s"
    "filter (\<lambda>r. hr_transition r = ?tid) rest = rest" "filter (\<lambda>r. hr_transition r \<noteq> ?tid) rest = []"
    using nold [of "ids s"] fin(4) by (auto simp: filter_empty_conv)
  then have "transition_outcome ?tid vs c w s (mirror_task opts ?tid c ?s6)"
    using fin new(6) p complete_tr_own [of s5 "trs s" p ?tid env "final_state c", OF _ p(2) ntr] s3
    by (simp add: transition_outcome_def)
  with run show ?thesis by blast
qed

lemma spec_run_aborted:
  assumes "spec_run opts tid hs w = (vs, c, w')" and "c_aborted c"
  shows "\<exists>i < length hs. blocking (hs ! i) = ''abort'' \<and> fst (snd (vs ! i)) = RFailed
    \<and> (\<forall>j < i. fst (snd (vs ! j)) \<noteq> RPending)
    \<and> (\<forall>j < length hs. i < j \<longrightarrow> vs ! j = pending_view (hs ! j))"
  using assms
proof (induction hs arbitrary: w vs c)
  case (Cons h hs)
  obtain out w1 where run: "hrun h (make_ctx opts tid 1) w = (out, w1)" by fastforce
  define st where "st = fst (hook_result out)"
  obtain vs2 c2 w2 where rec: "spec_run opts tid hs w1 = (vs2, c2, w2)" by (metis prod_cases3)
  show ?case
  proof (cases "\<not> (st = HOk \<or> st = HNoop) \<and> blocking h = ''abort''")
    case True
    then have "vs = done_view h st # map pending_view hs" "fst (snd (done_view h st)) = RFailed"
      using Cons.prems(1) run by (auto simp: st_def [symmetric] Let_def done_view_def)
    then show ?thesis using True by (intro exI [of _ 0]) (auto simp: nth_Cons')
  next
    case False
    then have "vs = done_view h st # vs2" "c_aborted c2" "w' = w2"
      using Cons.prems run rec by (auto simp: st_def [symmetric] Let_def split: if_splits)
    moreover from this rec Cons.IH [of w1 vs2 c2] obtain i where "i < length hs"
      "blocking (hs ! i) = ''abort''" "fst (snd (vs2 ! i)) = RFailed"
      "\<forall>j < i. fst (snd (vs2 ! j)) \<noteq> RPending"
      "\<forall>j < length hs. i < j \<longrightarrow> vs2 ! j = pending_view (hs ! j)" by auto
    moreover have "fst (snd (done_view h st)) \<noteq> RPending" by (simp add: done_view_def)
    ultimately show ?thesis by (intro exI [of _ "Suc i"]) (auto simp: nth_Cons')
  qed
qed simp

lemma spec_run_not_aborted:
  assumes "spec_run opts tid hs w = (vs, c, w')" and "\<not> c_aborted c"
  shows "c_ok c = length (filter (\<lambda>v. fst (snd v) \<in> {ROk, RNoop}) vs)"
    and "c_failed c = length (filter (\<lambda>v. fst (snd v) = RFailed) vs)"
    and "\<forall>v \<in> set vs. fst (snd v) \<noteq> RPending"
    and "c_ok c + c_failed c = length hs"
proof -
  have "c_ok c = length (filter (\<lambda>v. fst (snd v) \<in> {ROk, RNoop}) vs)
    \<and> c_failed c = length (filter (\<lambda>v. fst (snd v) = RFailed) vs)
    \<and> (\<forall>v \<in> set vs. fst (snd v) \<noteq> RPending) \<and> c_ok c + c_failed c = length hs"
    using assms
  proof (induction hs arbitrary: w vs c)
    case (Cons h hs)
    obtain out w1 where run: "hrun h (make_ctx opts tid 1) w = (out, w1)" by fastforce
    define st where "st = fst (hook_result out)"
    obtain vs2 c2 w2 where rec: "spec_run opts tid hs w1 = (vs2, c2, w2)" by (metis prod_cases3)
    have na: "\<not> c_aborted c2" and eqs: "vs = done_view h st # vs2" "w' = w2"
      "c = (if st = HOk \<or> st = HNoop then c2\<lparr>c_ok := Suc (c_ok c2)\<rparr> else c2\<lparr>c_failed := Suc (c_failed c2)\<rparr>)"
      using Cons.prems run rec by (auto simp: st_def [symmetric] Let_def split: if_splits)
    have "fst (snd (done_view h st)) = (if st = HOk then ROk else if st = HNoop then RNoop else RFailed)"
      by (simp add: done_view_def)
    with Cons.IH [of w1 vs2 c2] rec eqs na show ?case by auto
  qed simp
  then show "c_ok c = length (filter (\<lambda>v. fst (snd v) \<in> {ROk, RNoop}) vs)"
    and "c_failed c = length (filter (\<lambda>v. fst (snd v) = RFailed) vs)"
    and "\<forall>v \<in> set vs. fst (snd v) \<noteq> RPending"
    and "c_ok c + c_failed c = length hs" by blast+
qed

end
