(* ===== verification/LifecycleScheduler.thy ===== *)
theory LifecycleScheduler
  imports LifecycleDispatcher
begin

text \<open>
  The retry scheduler (\<open>tenant-lifecycle/scheduler.ts\<close>): the per-hook circuit breakers, one retry
  tick over the failed rows that are due, and the re-evaluation of the parent transition. The
  query's \<open>LIMIT 50\<close> takes the first rows in table order. The lookup of a tenant's namespace in
  the \<open>tenants\<close> table is a parameter \<open>tenant_ns\<close> (\<open>None\<close>: no row, or the query threw and was
  swallowed).
\<close>

definition CIRCUIT_BREAKER_FAILURES :: nat where
  "CIRCUIT_BREAKER_FAILURES = 5"

definition CIRCUIT_BREAKER_WINDOW_MS :: int where
  "CIRCUIT_BREAKER_WINDOW_MS = 10 * 60 * 1000"

definition CIRCUIT_BREAKER_COOLOFF_MS :: int where
  "CIRCUIT_BREAKER_COOLOFF_MS = 10 * 60 * 1000"

record breaker_state =
  recent_failures :: "int list"
  open_until :: int

type_synonym breakers = "(string \<times> breaker_state) list"

definition record_failure_at :: "int \<Rightarrow> string \<Rightarrow> breakers \<Rightarrow> breakers" where
  "record_failure_at now hook_name bs =
     (let st = (case js_get hook_name bs of
                  Some b \<Rightarrow> b
                | None \<Rightarrow> \<lparr>recent_failures = [], open_until = 0\<rparr>);
          recent = filter (\<lambda>t. now - t < CIRCUIT_BREAKER_WINDOW_MS) (recent_failures st) @ [now];
          st1 = st\<lparr>recent_failures := recent\<rparr>;
          st2 = (if length recent \<ge> CIRCUIT_BREAKER_FAILURES
                 then st1\<lparr>open_until := now + CIRCUIT_BREAKER_COOLOFF_MS\<rparr> else st1)
      in AList.update hook_name st2 bs)"

definition record_success :: "string \<Rightarrow> breakers \<Rightarrow> breakers" where
  "record_success hook_name bs =
     (case js_get hook_name bs of
        None \<Rightarrow> bs
      | Some b \<Rightarrow> AList.update hook_name (b\<lparr>recent_failures := [], open_until := 0\<rparr>) bs)"

definition is_breaker_open_at :: "int \<Rightarrow> string \<Rightarrow> breakers \<Rightarrow> bool" where
  "is_breaker_open_at now hook_name bs =
     (case js_get hook_name bs of None \<Rightarrow> False | Some b \<Rightarrow> open_until b > now)"

definition reset_breaker_for_hook :: "int \<Rightarrow> string \<Rightarrow> breakers \<Rightarrow> bool \<times> breakers" where
  "reset_breaker_for_hook now hook_name bs =
     (case js_get hook_name bs of
        None \<Rightarrow> (False, bs)
      | Some b \<Rightarrow> (open_until b > now,
          AList.update hook_name (b\<lparr>recent_failures := [], open_until := 0\<rparr>) bs))"

text \<open>The tables, the breakers, and the admin notifications the tick asked for.\<close>

record 'w sched =
  sst :: "'w lstate"
  breakers :: breakers
  notices :: "(string \<times> string \<times> hook_envelope option) list"

record tick_counts =
  t_succeeded :: nat
  t_retried :: nat
  t_permanent :: nat
  t_skipped :: nat

definition with_clock :: "env \<Rightarrow> 'w sched \<Rightarrow> int \<times> 'w sched" where
  "with_clock env s = (case read_clock env (sst s) of (t, st) \<Rightarrow> (t, s\<lparr>sst := st\<rparr>))"

definition upd_run :: "string \<Rightarrow> (hook_run_row \<Rightarrow> hook_run_row) \<Rightarrow> 'w sched \<Rightarrow> 'w sched" where
  "upd_run i f s = s\<lparr>sst := update_run i f (sst s)\<rparr>"

text \<open>\<open>isBreakerOpen\<close> reads the clock only when the hook has a breaker.\<close>

definition is_breaker_open :: "env \<Rightarrow> string \<Rightarrow> 'w sched \<Rightarrow> bool \<times> 'w sched" where
  "is_breaker_open env hook_name s =
     (case js_get hook_name (breakers s) of
        None \<Rightarrow> (False, s)
      | Some _ \<Rightarrow> (case with_clock env s of
          (now, s') \<Rightarrow> (is_breaker_open_at now hook_name (breakers s'), s')))"

definition record_failure :: "env \<Rightarrow> string \<Rightarrow> 'w sched \<Rightarrow> 'w sched" where
  "record_failure env hook_name s =
     (case with_clock env s of
        (now, s') \<Rightarrow> s'\<lparr>breakers := record_failure_at now hook_name (breakers s')\<rparr>)"

section \<open>One tick\<close>

definition due :: "int \<Rightarrow> hook_run_row \<Rightarrow> bool" where
  "due now r =
     (hr_state r = RFailed \<and> (case hr_next r of Some t \<Rightarrow> t \<le> now | None \<Rightarrow> False)
      \<and> hr_attempts r < hr_max r)"

definition candidates :: "int \<Rightarrow> 'w sched \<Rightarrow> hook_run_row list" where
  "candidates now s = take 50 (filter (due now) (runs (sst s)))"

text \<open>The \<open>HookResult\<close> after the \<open>try\<close>/\<open>catch\<close> of the retry.\<close>

definition retry_result :: "hook_outcome \<Rightarrow> hook_status \<times> hook_envelope option" where
  "retry_result out =
     (case out of
        Returned st e \<Rightarrow> (st, e)
      | ThrewError nm msg stack \<Rightarrow>
          (HFailed, Some \<lparr>env_title = ''Hook threw on retry'', env_detail = Some msg, env_remediation = None,
             env_raw = Some (case stack of Some st \<Rightarrow> st | None \<Rightarrow> msg)\<rparr>)
      | ThrewOther str \<Rightarrow>
          (HFailed, Some \<lparr>env_title = ''Hook threw on retry'', env_detail = Some str, env_remediation = None,
             env_raw = Some str\<rparr>))"

text \<open>\<open>parent.namespace ?? ''\<close>, with the fallback to the tenants table when it is empty.\<close>

definition retry_namespace ::
  "(string \<Rightarrow> 'w \<Rightarrow> string option) \<Rightarrow> transition_row \<Rightarrow> 'w \<Rightarrow> string" where
  "retry_namespace tenant_ns p w =
     (let ns = (case tr_namespace p of Some n \<Rightarrow> n | None \<Rightarrow> []) in
      if ns = [] then (case tenant_ns (tr_tenant p) w of Some n \<Rightarrow> n | None \<Rightarrow> []) else ns)"

text \<open>After a success: the parent completes when no failed and no pending row is left.\<close>

definition reevaluate :: "string \<Rightarrow> int \<Rightarrow> 'w sched \<Rightarrow> 'w sched" where
  "reevaluate tid completed s =
     (if (\<exists>r \<in> set (runs (sst s)). hr_transition r = tid \<and> hr_state r = RFailed)
         \<or> (\<exists>r \<in> set (runs (sst s)). hr_transition r = tid \<and> hr_state r = RPending)
      then s
      else s\<lparr>sst := update_tr tid (\<lambda>r. r\<lparr>tr_state := TCompleted, tr_completed := Some completed\<rparr>) (sst s)\<rparr>)"

definition attempt_hook ::
  "env \<Rightarrow> (string \<Rightarrow> 'w \<Rightarrow> string option) \<Rightarrow> 'w lifecycle_hook \<Rightarrow> hook_run_row \<Rightarrow> transition_row
     \<Rightarrow> 'w sched \<times> tick_counts \<Rightarrow> 'w sched \<times> tick_counts" where
  "attempt_hook env tenant_ns h row p sc =
     (case sc of (s, c) \<Rightarrow>
        (let attempt = hr_attempts row + 1;
             (started, s1) = with_clock env s;
             s2 = upd_run (hr_id row)
               (\<lambda>r. r\<lparr>hr_state := RRunning, hr_attempts := attempt, hr_started := Some started\<rparr>) s1;
             ctx = \<lparr>ctx_tenant = tr_tenant p, ctx_namespace = retry_namespace tenant_ns p (world (sst s2)),
                    ctx_transition_id = tr_id p, ctx_transition = tr_kind p, ctx_attempt = attempt\<rparr>;
             (out, w) = hrun h ctx (world (sst s2));
             s3 = s2\<lparr>sst := (sst s2)\<lparr>world := w\<rparr>\<rparr>;
             (status, envelope) = retry_result out;
             (completed, s4) = with_clock env s3
         in if status = HOk \<or> status = HNoop then
              (let s5 = upd_run (hr_id row)
                     (\<lambda>r. r\<lparr>hr_state := (if status = HOk then ROk else RNoop),
                           hr_completed := Some completed, hr_error := None, hr_next := None\<rparr>)
                     (s4\<lparr>breakers := record_success (hname h) (breakers s4)\<rparr>)
               in (reevaluate (tr_id p) completed s5, c\<lparr>t_succeeded := Suc (t_succeeded c)\<rparr>))
            else
              (let s5 = record_failure env (hname h) s4;
                   retryable = (status = HRetry \<and>
                     attempt < (case max_attempts h of Some m \<Rightarrow> m | None \<Rightarrow> hr_max row));
                   s6 = (if retryable then s5
                         else s5\<lparr>notices := notices s5 @ [(hname h, tr_id p, envelope)]\<rparr>);
                   (next_at, s7) =
                     (if retryable
                      then (case with_clock env s6 of (now, s') \<Rightarrow> (Some (now + hook_backoff h attempt), s'))
                      else (None, s6));
                   s8 = upd_run (hr_id row)
                     (\<lambda>r. r\<lparr>hr_state := RFailed, hr_completed := Some completed, hr_error := envelope,
                           hr_next := next_at\<rparr>) s7
               in (s8, if retryable then c\<lparr>t_retried := Suc (t_retried c)\<rparr>
                       else c\<lparr>t_permanent := Suc (t_permanent c)\<rparr>))))"

definition retry_row ::
  "env \<Rightarrow> (string \<Rightarrow> 'w \<Rightarrow> string option) \<Rightarrow> (string \<times> 'w lifecycle_hook) list \<Rightarrow> hook_run_row
     \<Rightarrow> 'w sched \<times> tick_counts \<Rightarrow> 'w sched \<times> tick_counts" where
  "retry_row env tenant_ns hooks_by_name row sc =
     (case sc of (s, c) \<Rightarrow>
        (case js_get (hr_hook row) hooks_by_name of
           None \<Rightarrow>
             (upd_run (hr_id row)
                (\<lambda>r. r\<lparr>hr_state := RFailed, hr_next := None,
                      hr_error := Some \<lparr>env_title = ''Hook un-registered'',
                        env_detail = Some (''No hook named '' @ [CHR 0x27] @ hr_hook row @ [CHR 0x27]),
                        env_remediation = None, env_raw = None\<rparr>\<rparr>) s,
              c\<lparr>t_permanent := Suc (t_permanent c)\<rparr>)
         | Some h \<Rightarrow>
             (case is_breaker_open env (hname h) s of (opened, s1) \<Rightarrow>
                if opened then (s1, c\<lparr>t_skipped := Suc (t_skipped c)\<rparr>)
                else
                  (case find (\<lambda>t. tr_id t = hr_transition row) (trs (sst s1)) of
                     None \<Rightarrow>
                       (upd_run (hr_id row) (\<lambda>r. r\<lparr>hr_state := RFailed, hr_next := None\<rparr>) s1,
                        c\<lparr>t_permanent := Suc (t_permanent c)\<rparr>)
                   | Some p \<Rightarrow> attempt_hook env tenant_ns h row p (s1, c)))))"

definition run_retry_tick ::
  "env \<Rightarrow> (string \<Rightarrow> 'w \<Rightarrow> string option) \<Rightarrow> 'w registry \<Rightarrow> 'w sched
     \<Rightarrow> (nat \<times> tick_counts) \<times> 'w sched" where
  "run_retry_tick env tenant_ns reg s =
     (let hooks_by_name = by_name (list_hooks reg);
          (now, s1) = with_clock env s;
          cs = candidates now s1
      in case fold (retry_row env tenant_ns hooks_by_name) cs
                (s1, \<lparr>t_succeeded = 0, t_retried = 0, t_permanent = 0, t_skipped = 0\<rparr>) of
           (s2, c) \<Rightarrow> ((length cs, c), s2))"

text \<open>\<open>tagBulkOpOnLatestTransition\<close> (\<open>bulk-tag.ts\<close>): the latest transition of the tenant gets
  \<open>bulkOpId\<close> in its detail. \<open>ORDER BY started_at DESC LIMIT 1\<close>: the first row with the greatest
  start.\<close>

definition latest_transition :: "string \<Rightarrow> 'w lstate \<Rightarrow> transition_row option" where
  "latest_transition tenant s =
     (case js_sort (\<lambda>a b. tr_started a \<ge> tr_started b) (filter (\<lambda>t. tr_tenant t = tenant) (trs s)) of
        [] \<Rightarrow> None
      | t # _ \<Rightarrow> Some t)"

definition tag_bulk_op :: "string \<Rightarrow> string \<Rightarrow> 'w lstate \<Rightarrow> string option \<times> 'w lstate" where
  "tag_bulk_op tenant bulk_id s =
     (case latest_transition tenant s of
        None \<Rightarrow> (None, s)
      | Some t \<Rightarrow>
          (let detail = AList.update ''bulkOpId'' bulk_id
                 (case tr_detail t of Some d \<Rightarrow> d | None \<Rightarrow> [])
           in (Some (tr_id t), update_tr (tr_id t) (\<lambda>r. r\<lparr>tr_detail := Some detail\<rparr>) s)))"

end
