(* ===== verification/LifecycleSystem.thy ===== *)
theory LifecycleSystem
  imports LifecycleRun LifecycleScheduler
begin

text \<open>
  The lifecycle tables as a state machine: the steps are whole dispatches, retry ticks, bulk tags
  and breaker resets in any order, by any registry, options, clock and hook behaviour. The
  invariant ties the two tables together (ids, attempt budgets, a completed transition has only
  succeeded rows) and holds in every reachable state.
\<close>

section \<open>Frames\<close>

definition row_key :: "hook_run_row \<Rightarrow> string \<times> string \<times> int" where
  "row_key r = (hr_id r, hr_transition r, hr_max r)"

definition row_keys :: "'w lstate \<Rightarrow> (string \<times> string \<times> int) list" where
  "row_keys s = map row_key (runs s)"

lemma row_keys_update_run:
  "(\<And>r. row_key (f r) = row_key r) \<Longrightarrow> row_keys (update_run i f s) = row_keys s"
  by (simp add: row_keys_def update_run_def)

lemma row_keys_read_clock [simp]: "row_keys (snd (read_clock env s)) = row_keys s"
  by (simp add: row_keys_def read_clock_def)

lemma dispatch_hook_frame:
  "row_keys (fst (dispatch_hook env opts tid h (s, c))) = row_keys s
   \<and> ids (fst (dispatch_hook env opts tid h (s, c))) = ids s
   \<and> trs (fst (dispatch_hook env opts tid h (s, c))) = trs s"
  by (auto simp: dispatch_hook_def row_keys_def row_key_def update_run_def read_clock_def Let_def
      split: option.splits prod.splits)

lemma dispatch_loop_frame:
  "row_keys (fst (fold (dispatch_hook env opts tid) hs sc)) = row_keys (fst sc)
   \<and> ids (fst (fold (dispatch_hook env opts tid) hs sc)) = ids (fst sc)
   \<and> trs (fst (fold (dispatch_hook env opts tid) hs sc)) = trs (fst sc)"
proof (induction hs arbitrary: sc)
  case (Cons h hs)
  then show ?case using dispatch_hook_frame [of env opts tid h "fst sc" "snd sc"] by simp
qed simp

lemma insert_runs_ids: "ids (insert_runs env tid i hs s) = ids s + length hs"
  by (induction hs arbitrary: i s) (simp_all add: fresh_uuid_def)

lemma complete_tr_frame [simp]:
  "row_keys (complete_tr env tid st s) = row_keys s" "ids (complete_tr env tid st s) = ids s"
  "row_keys (mirror_task opts tid c s) = row_keys s" "ids (mirror_task opts tid c s) = ids s"
  "map tr_id (trs (complete_tr env tid st s)) = map tr_id (trs s)"
  by (simp_all add: row_keys_def complete_tr_def read_clock_def update_tr_def mirror_task_def
      split: option.split)

section \<open>The invariant\<close>

definition ids_inv :: "env \<Rightarrow> 'w lstate \<Rightarrow> bool" where
  "ids_inv env s =
     (inj (env_uuid env)
      \<and> distinct (map hr_id (runs s)) \<and> hr_id ` set (runs s) \<subseteq> env_uuid env ` {..<ids s}
      \<and> hr_transition ` set (runs s) \<subseteq> env_uuid env ` {..<ids s}
      \<and> distinct (map tr_id (trs s)) \<and> tr_id ` set (trs s) \<subseteq> env_uuid env ` {..<ids s})"

definition rows_settled :: "'w lstate \<Rightarrow> bool" where
  "rows_settled s =
     (\<forall>r \<in> set (runs s). hr_state r \<noteq> RRunning \<and> 0 \<le> hr_attempts r \<and> hr_attempts r \<le> max 1 (hr_max r))"

definition completed_ok :: "'w lstate \<Rightarrow> bool" where
  "completed_ok s =
     (\<forall>t \<in> set (trs s). tr_state t = TCompleted \<longrightarrow>
        (\<forall>r \<in> set (runs s). hr_transition r = tr_id t \<longrightarrow> hr_state r \<in> {ROk, RNoop}))"

definition lifecycle_inv :: "env \<Rightarrow> 'w lstate \<Rightarrow> bool" where
  "lifecycle_inv env s = (ids_inv env s \<and> rows_settled s \<and> completed_ok s)"

lemma ids_inv_fresh: "ids_inv env s \<Longrightarrow> fresh_ids env s"
proof -
  assume inv: "ids_inv env s"
  then have new: "x \<noteq> env_uuid env n" if "x \<in> env_uuid env ` {..<ids s}" "ids s \<le> n" for x n
    using that by (auto simp: ids_inv_def dest: injD)
  from inv show ?thesis
    unfolding fresh_ids_def ids_inv_def using new by (metis image_subset_iff)
qed

section \<open>A dispatch keeps it\<close>

definition view_good :: "counts \<Rightarrow> run_view \<Rightarrow> bool" where
  "view_good c v =
     (fst (snd v) \<noteq> RRunning \<and> 0 \<le> fst (snd (snd v)) \<and> fst (snd (snd v)) \<le> 1
      \<and> (final_state c = TCompleted \<longrightarrow> fst (snd v) \<in> {ROk, RNoop}))"

lemma spec_run_views:
  assumes "spec_run opts tid hs w = (vs, c, w')"
  shows "\<forall>v \<in> set vs. view_good c v"
  using assms
proof (induction hs arbitrary: w vs c w')
  case (Cons h hs)
  obtain out w1 where run: "hrun h (make_ctx opts tid 1) w = (out, w1)" by fastforce
  define st where "st = fst (hook_result out)"
  obtain vs2 c2 w2 where rec: "spec_run opts tid hs w1 = (vs2, c2, w2)" by (metis prod_cases3)
  show ?case
  proof (cases "\<not> (st = HOk \<or> st = HNoop) \<and> blocking h = ''abort''")
    case True
    then have "vs = done_view h st # map pending_view hs" "c_aborted c"
      using Cons.prems run by (auto simp: st_def [symmetric] Let_def)
    then show ?thesis using True by (auto simp: view_good_def done_view_def pending_view_def final_state_def)
  next
    case False
    then have eqs: "vs = done_view h st # vs2"
      "c = (if st = HOk \<or> st = HNoop then c2\<lparr>c_ok := Suc (c_ok c2)\<rparr> else c2\<lparr>c_failed := Suc (c_failed c2)\<rparr>)"
      using Cons.prems run rec by (auto simp: st_def [symmetric] Let_def split: if_splits)
    have fin: "final_state c = TCompleted \<Longrightarrow> final_state c2 = TCompleted \<and> (st = HOk \<or> st = HNoop)"
      by (auto simp: eqs(2) final_state_def split: if_splits)
    then have "view_good c (done_view h st)" by (auto simp: view_good_def done_view_def)
    moreover have "view_good c2 v \<Longrightarrow> view_good c v" for v using fin by (auto simp: view_good_def)
    ultimately show ?thesis using Cons.IH [OF rec] unfolding eqs(1) by simp
  qed
qed simp

text \<open>Two states that agree outside one transition, whose own rows are settled and, if it completed,
  all succeeded.\<close>

lemma inv_of_outcome:
  assumes inv: "rows_settled s" "completed_ok s"
    and runs': "filter (\<lambda>r. hr_transition r \<noteq> tid) (runs s') = runs s"
    and trs': "filter (\<lambda>r. tr_id r \<noteq> tid) (trs s') = trs s"
    and own: "\<forall>r \<in> set (runs s'). hr_transition r = tid \<longrightarrow>
        hr_state r \<noteq> RRunning \<and> 0 \<le> hr_attempts r \<and> hr_attempts r \<le> 1"
    and own_tr: "\<forall>t \<in> set (trs s'). tr_id t = tid \<and> tr_state t = TCompleted \<longrightarrow>
        (\<forall>r \<in> set (runs s'). hr_transition r = tid \<longrightarrow> hr_state r \<in> {ROk, RNoop})"
  shows "(rows_settled s' \<and> completed_ok s') \<and> filter (\<lambda>r. hr_transition r \<noteq> tid) (runs s') = runs s"
proof (rule conjI [OF conjI runs'])
  have old: "r \<in> set (runs s)" if "r \<in> set (runs s')" "hr_transition r \<noteq> tid" for r
    using that unfolding runs' [symmetric] by simp
  have old_tr: "t \<in> set (trs s)" if "t \<in> set (trs s')" "tr_id t \<noteq> tid" for t
    using that unfolding trs' [symmetric] by simp
  show "rows_settled s'"
    using inv(1) own old by (force simp: rows_settled_def)
  show "completed_ok s'"
    unfolding completed_ok_def
  proof (intro ballI impI)
    fix t r
    assume t: "t \<in> set (trs s')" "tr_state t = TCompleted" and r: "r \<in> set (runs s')" "hr_transition r = tr_id t"
    show "hr_state r \<in> {ROk, RNoop}"
      using own_tr t r old [OF r(1)] old_tr [OF t(1)] inv(2) unfolding completed_ok_def
      by (cases "tr_id t = tid") auto
  qed
qed

lemma ids_inv_extend:
  assumes inv: "ids_inv env s"
    and keys: "row_keys s' = row_keys s @ new"
    and new: "map fst new = map (env_uuid env) [Suc (ids s)..<ids s']" "\<forall>k \<in> set new. fst (snd k) = env_uuid env (ids s)"
    and trs': "map tr_id (trs s') = map tr_id (trs s) @ [env_uuid env (ids s)]"
    and ids': "ids s < ids s'"
  shows "ids_inv env s'"
proof -
  have inj: "inj (env_uuid env)" using inv by (simp add: ids_inv_def)
  have rid: "map hr_id (runs s') = map hr_id (runs s) @ map (env_uuid env) [Suc (ids s)..<ids s']"
  proof -
    have "map fst (row_keys s') = map hr_id (runs s')" "map fst (row_keys s) = map hr_id (runs s)"
      by (simp_all add: row_keys_def row_key_def comp_def)
    then show ?thesis using keys new(1) by (metis map_append)
  qed
  have rtr: "map hr_transition (runs s') = map hr_transition (runs s) @ map (fst \<circ> snd) new"
  proof -
    have "map (fst \<circ> snd) (row_keys s') = map hr_transition (runs s')"
      "map (fst \<circ> snd) (row_keys s) = map hr_transition (runs s)"
      by (simp_all add: row_keys_def row_key_def comp_def)
    then show ?thesis using keys by (metis map_append)
  qed
  have mem: "env_uuid env i \<in> env_uuid env ` {..<n} \<longleftrightarrow> i < n" for i n
    using inj by (auto dest: injD)
  have "set (map hr_id (runs s')) \<subseteq> env_uuid env ` {..<ids s'}" and "distinct (map hr_id (runs s'))"
    and "set (map hr_transition (runs s')) \<subseteq> env_uuid env ` {..<ids s'}"
    and "set (map tr_id (trs s')) \<subseteq> env_uuid env ` {..<ids s'}" and "distinct (map tr_id (trs s'))"
  proof -
    have sub: "x \<in> env_uuid env ` {..<ids s} \<Longrightarrow> x \<in> env_uuid env ` {..<ids s'}" for x
      using ids' by auto
    have own: "env_uuid env (ids s) \<in> env_uuid env ` {..<ids s'}" using ids' by simp
    from inv have olds: "set (map hr_id (runs s)) \<subseteq> env_uuid env ` {..<ids s}"
      "set (map hr_transition (runs s)) \<subseteq> env_uuid env ` {..<ids s}"
      "set (map tr_id (trs s)) \<subseteq> env_uuid env ` {..<ids s}"
      by (simp_all add: ids_inv_def)
    have "set (map (env_uuid env) [Suc (ids s)..<ids s']) \<subseteq> env_uuid env ` {..<ids s'}" by auto
    then show "set (map hr_id (runs s')) \<subseteq> env_uuid env ` {..<ids s'}"
      unfolding rid set_append using olds(1) sub by blast
    have "set (map (fst \<circ> snd) new) \<subseteq> {env_uuid env (ids s)}" using new(2) by auto
    then show "set (map hr_transition (runs s')) \<subseteq> env_uuid env ` {..<ids s'}"
      unfolding rtr set_append using olds(2) sub own by blast
    show "set (map tr_id (trs s')) \<subseteq> env_uuid env ` {..<ids s'}"
      unfolding trs' set_append using olds(3) sub own by (simp, blast)
    have "distinct (map (env_uuid env) [Suc (ids s)..<ids s'])"
      using inj_on_subset [OF inj subset_UNIV] by (simp add: distinct_map)
    moreover have "set (map hr_id (runs s)) \<inter> set (map (env_uuid env) [Suc (ids s)..<ids s']) = {}"
    proof -
      have "x \<notin> set (map hr_id (runs s))" if "x \<in> set (map (env_uuid env) [Suc (ids s)..<ids s'])" for x
      proof -
        from that obtain n where n: "x = env_uuid env n" "\<not> n < ids s" by auto
        then have "x \<notin> env_uuid env ` {..<ids s}" by (simp only: mem simp_thms)
        then show ?thesis using olds(1) by blast
      qed
      then show ?thesis by blast
    qed
    ultimately show "distinct (map hr_id (runs s'))"
      unfolding rid distinct_append using inv by (simp add: ids_inv_def)
    have "env_uuid env (ids s) \<notin> set (map tr_id (trs s))"
      using olds(3) mem [of "ids s" "ids s"] by blast
    then show "distinct (map tr_id (trs s'))"
      unfolding trs' using inv by (simp add: ids_inv_def)
  qed
  with inj show ?thesis by (simp add: ids_inv_def)
qed

lemma topo_sort_result:
  assumes reg: "registry_ok reg" and ok: "topo_sort_for_transition t (list_hooks reg) = Inr out"
  shows "topo_spec (by_order t (list_hooks reg)) out"
proof -
  let ?hs = "by_order t (list_hooks reg)"
  have known: "\<forall>h \<in> set ?hs. set (deps_of h) \<subseteq> hname ` set ?hs"
    using topo_sort_unknown [of t "list_hooks reg"] ok by fastforce
  show ?thesis
    using topo_sort_cases [OF registry_ok_distinct [OF reg] _ known] registry_ok_finite [OF reg] ok
    by (auto split: if_splits)
qed

lemma topo_sort_distinct:
  assumes reg: "registry_ok reg" and ok: "topo_sort_for_transition t (list_hooks reg) = Inr out"
  shows "distinct (map hname out)"
proof -
  have "mset (map hname out) = mset (map hname (by_order t (list_hooks reg)))"
    using topo_sort_result [OF assms] by (simp add: topo_spec_def)
  moreover have "distinct (map hname (by_order t (list_hooks reg)))"
    using registry_ok_distinct [OF reg] by (rule distinct_by_order)
  ultimately show ?thesis by (metis mset_eq_imp_distinct_iff)
qed

lemma insert_runs_keys:
  "\<exists>new. row_keys (insert_runs env tid i hs s) = row_keys s @ new
     \<and> map fst new = map (env_uuid env) [ids s..<ids s + length hs] \<and> (\<forall>k \<in> set new. fst (snd k) = tid)"
proof -
  from insert_runs_rows [of env tid i hs s] obtain new where
    "runs (insert_runs env tid i hs s) = runs s @ new"
    "map hr_id new = map (env_uuid env) [ids s..<ids s + length hs]" "\<forall>r \<in> set new. hr_transition r = tid"
    by blast
  then show ?thesis
    by (intro exI [of _ "map row_key new"]) (auto simp: row_keys_def row_key_def comp_def)
qed

text \<open>Whatever branch a dispatch takes, it adds rows of the one fresh transition only.\<close>

lemma run_transition_keys:
  assumes run: "run_transition env reg opts s = (res, s')"
  shows "\<exists>new. row_keys s' = row_keys s @ new \<and> map fst new = map (env_uuid env) [Suc (ids s)..<ids s']
    \<and> (\<forall>k \<in> set new. fst (snd k) = env_uuid env (ids s))
    \<and> map tr_id (trs s') = map tr_id (trs s) @ [env_uuid env (ids s)] \<and> ids s < ids s'"
proof -
  let ?tid = "env_uuid env (ids s)"
  define s3 where "s3 = insert_parent opts ?tid (env_clock env (ticks s))
     (s\<lparr>ids := Suc (ids s), ticks := Suc (ticks s)\<rparr>)"
  have s3: "row_keys s3 = row_keys s" "ids s3 = Suc (ids s)" "map tr_id (trs s3) = map tr_id (trs s) @ [?tid]"
    by (simp_all add: s3_def insert_parent_def row_keys_def)
  let ?sorted = "case o_hooks opts of Some hs \<Rightarrow> Inr hs
     | None \<Rightarrow> topo_sort_for_transition (o_transition opts) (list_hooks reg)"
  show ?thesis
  proof (cases ?sorted)
    case (Inl e)
    then have "s' = s3"
      using run by (simp add: run_transition_def fresh_uuid_def read_clock_def s3_def [symmetric])
    then show ?thesis using s3 by simp
  next
    case (Inr hooks)
    show ?thesis
    proof (cases "hooks = []")
      case True
      then have "s' = complete_tr env ?tid TCompleted s3"
        using run Inr by (simp add: run_transition_def fresh_uuid_def read_clock_def s3_def [symmetric])
      then show ?thesis using s3 by simp
    next
      case False
      define s4 where "s4 = insert_runs env ?tid 0 hooks s3"
      from insert_runs_keys [of env ?tid 0 hooks s3] obtain new where new:
        "row_keys s4 = row_keys s3 @ new" "map fst new = map (env_uuid env) [ids s3..<ids s3 + length hooks]"
        "\<forall>k \<in> set new. fst (snd k) = ?tid" unfolding s4_def by blast
      have s4: "ids s4 = ids s3 + length hooks" "map tr_id (trs s4) = map tr_id (trs s3)"
        using insert_runs_rows [of env ?tid 0 hooks s3] by (auto simp: s4_def insert_runs_ids)
      define loop where "loop = fold (dispatch_hook env opts ?tid) hooks
        (s4, \<lparr>c_ok = 0, c_failed = 0, c_aborted = False\<rparr>)"
      have "s' = s4 \<or> s' = mirror_task opts ?tid (snd loop)
          (complete_tr env ?tid (final_state (snd loop)) (fst loop))"
        using run Inr False
        by (auto simp: run_transition_def fresh_uuid_def read_clock_def s3_def [symmetric]
            s4_def [symmetric] loop_def [symmetric] split: if_splits prod.splits)
      moreover have "row_keys (fst loop) = row_keys s4 \<and> ids (fst loop) = ids s4 \<and> trs (fst loop) = trs s4"
        unfolding loop_def using dispatch_loop_frame [of env opts ?tid hooks] by simp
      ultimately have "row_keys s' = row_keys s4 \<and> ids s' = ids s4 \<and> map tr_id (trs s') = map tr_id (trs s4)"
        by auto
      then show ?thesis using new s3 s4 by (intro exI [of _ new]) simp
    qed
  qed
qed

definition opts_ok :: "'w dispatch_options \<Rightarrow> bool" where
  "opts_ok opts = (case o_hooks opts of None \<Rightarrow> True | Some hs \<Rightarrow> distinct (map hname hs))"

text \<open>The new parent row and pending rows do not disturb the settled part.\<close>

lemma inv_of_new_rows:
  assumes inv: "lifecycle_inv env s"
    and runs': "runs s' = runs s @ new" and new: "\<forall>r \<in> set new. hr_transition r = env_uuid env (ids s)
      \<and> hr_attempts r = 0 \<and> hr_state r = RPending"
    and trs': "trs s' = trs s @ [p]" "tr_id p = env_uuid env (ids s)"
    and st: "tr_state p = TCompleted \<Longrightarrow> new = []"
  shows "(rows_settled s' \<and> completed_ok s')
    \<and> filter (\<lambda>r. hr_transition r \<noteq> env_uuid env (ids s)) (runs s') = runs s"
proof (rule inv_of_outcome [where tid = "env_uuid env (ids s)"])
  have fresh: "fresh_ids env s" using inv by (simp add: lifecycle_inv_def ids_inv_fresh)
  then have old: "\<forall>r \<in> set (runs s). hr_transition r \<noteq> env_uuid env (ids s)"
    "\<forall>r \<in> set (trs s). tr_id r \<noteq> env_uuid env (ids s)"
    by (auto simp: fresh_ids_def)
  show "rows_settled s" "completed_ok s" using inv by (simp_all add: lifecycle_inv_def)
  show "filter (\<lambda>r. hr_transition r \<noteq> env_uuid env (ids s)) (runs s') = runs s"
    using new old by (simp add: runs' filter_empty_conv)
  show "filter (\<lambda>r. tr_id r \<noteq> env_uuid env (ids s)) (trs s') = trs s"
    using old by (simp add: trs')
  show "\<forall>r \<in> set (runs s'). hr_transition r = env_uuid env (ids s) \<longrightarrow>
      hr_state r \<noteq> RRunning \<and> 0 \<le> hr_attempts r \<and> hr_attempts r \<le> 1"
    using new old by (auto simp: runs')
  show "\<forall>t \<in> set (trs s'). tr_id t = env_uuid env (ids s) \<and> tr_state t = TCompleted \<longrightarrow>
      (\<forall>r \<in> set (runs s'). hr_transition r = env_uuid env (ids s) \<longrightarrow> hr_state r \<in> {ROk, RNoop})"
    using old st by (auto simp: runs' trs')
qed

lemma inv_of_run:
  assumes inv: "lifecycle_inv env s"
    and spec: "spec_run opts (env_uuid env (ids s)) hooks w0 = (vs, c, w)"
    and out: "transition_outcome (env_uuid env (ids s)) vs c w s s'"
  shows "(rows_settled s' \<and> completed_ok s')
    \<and> filter (\<lambda>r. hr_transition r \<noteq> env_uuid env (ids s)) (runs s') = runs s"
proof (rule inv_of_outcome [where tid = "env_uuid env (ids s)"])
  let ?own = "filter (\<lambda>r. hr_transition r = env_uuid env (ids s)) (runs s')"
  let ?own_tr = "filter (\<lambda>t. tr_id t = env_uuid env (ids s)) (trs s')"
  show "rows_settled s" "completed_ok s" using inv by (simp_all add: lifecycle_inv_def)
  show "filter (\<lambda>r. hr_transition r \<noteq> env_uuid env (ids s)) (runs s') = runs s"
    "filter (\<lambda>r. tr_id r \<noteq> env_uuid env (ids s)) (trs s') = trs s"
    using out by (simp_all add: transition_outcome_def)
  have good: "view_good c (view_of r)" if "r \<in> set ?own" for r
  proof -
    have "set vs = view_of ` set ?own" using out unfolding transition_outcome_def by (metis list.set_map)
    then show ?thesis using spec_run_views [OF spec] that by blast
  qed
  have st: "tr_state t = final_state c" if "t \<in> set ?own_tr" for t
  proof -
    have "tr_state ` set ?own_tr = {final_state c}"
      using out unfolding transition_outcome_def by (metis list.set_map list.simps(15) empty_set)
    then show ?thesis using that by blast
  qed
  show "\<forall>r \<in> set (runs s'). hr_transition r = env_uuid env (ids s) \<longrightarrow>
      hr_state r \<noteq> RRunning \<and> 0 \<le> hr_attempts r \<and> hr_attempts r \<le> 1"
    using good by (auto simp: view_good_def view_of_def)
  show "\<forall>t \<in> set (trs s'). tr_id t = env_uuid env (ids s) \<and> tr_state t = TCompleted \<longrightarrow>
      (\<forall>r \<in> set (runs s'). hr_transition r = env_uuid env (ids s) \<longrightarrow> hr_state r \<in> {ROk, RNoop})"
    using good st by (simp add: view_good_def view_of_def) metis
qed

lemma complete_last_row:
  assumes "trs s = old @ [p]" and "tr_id p = tid" and "\<forall>x \<in> set old. tr_id x \<noteq> tid"
  shows "\<exists>p'. trs (complete_tr env tid st s) = old @ [p'] \<and> tr_id p' = tid \<and> tr_state p' = st"
proof -
  have "map (\<lambda>x. if tr_id x = tid then f x else x) old = old" for f
    using assms(3) by (auto intro!: map_idI)
  then show ?thesis using assms by (simp add: complete_tr_def read_clock_def update_tr_def)
qed

lemma run_transition_inv:
  assumes inv: "lifecycle_inv env s" and reg: "registry_ok reg" and opts: "opts_ok opts"
    and run: "run_transition env reg opts s = (res, s')"
  shows "lifecycle_inv env s' \<and> filter (\<lambda>r. hr_transition r \<noteq> env_uuid env (ids s)) (runs s') = runs s"
proof -
  let ?tid = "env_uuid env (ids s)"
  have fresh: "fresh_ids env s" using inv by (simp add: lifecycle_inv_def ids_inv_fresh)
  have "ids_inv env s'"
    using run_transition_keys [OF run] ids_inv_extend [of env s s'] inv
    by (auto simp: lifecycle_inv_def)
  moreover have "(rows_settled s' \<and> completed_ok s')
      \<and> filter (\<lambda>r. hr_transition r \<noteq> ?tid) (runs s') = runs s"
  proof -
    define s3 where "s3 = insert_parent opts ?tid (env_clock env (ticks s))
       (s\<lparr>ids := Suc (ids s), ticks := Suc (ticks s)\<rparr>)"
    obtain p where s3: "trs s3 = trs s @ [p]" "tr_id p = ?tid" "tr_state p = TRunning" "runs s3 = runs s"
      by (simp add: s3_def insert_parent_def)
    let ?sorted = "case o_hooks opts of Some hs \<Rightarrow> Inr hs
       | None \<Rightarrow> topo_sort_for_transition (o_transition opts) (list_hooks reg)"
    show ?thesis
    proof (cases ?sorted)
      case (Inl e)
      then have "s' = s3"
        using run by (simp add: run_transition_def fresh_uuid_def read_clock_def s3_def [symmetric])
      then show ?thesis using inv_of_new_rows [OF inv, of s' "[]" p] s3 by simp
    next
      case (Inr hooks)
      then have d: "distinct (map hname hooks)"
        using opts topo_sort_distinct [OF reg] by (auto simp: opts_ok_def split: option.splits)
      consider "hooks = []" | "hooks \<noteq> []" "o_skip opts" | "hooks \<noteq> []" "\<not> o_skip opts" by blast
      then show ?thesis
      proof cases
        case 1
        then have s': "s' = complete_tr env ?tid TCompleted s3"
          using run Inr by (simp add: run_transition_def fresh_uuid_def read_clock_def s3_def [symmetric])
        have "\<forall>x \<in> set (trs s). tr_id x \<noteq> ?tid" using fresh by (auto simp: fresh_ids_def)
        then obtain p' where "trs s' = trs s @ [p']" "tr_id p' = ?tid"
          using complete_last_row [OF s3(1,2)] s' by blast
        then show ?thesis using inv_of_new_rows [OF inv, of s' "[]" p'] s3(4) s' by simp
      next
        case 2
        then have s': "s' = insert_runs env ?tid 0 hooks s3"
          using run Inr by (simp add: run_transition_def fresh_uuid_def read_clock_def s3_def [symmetric])
        from insert_runs_rows [of env ?tid 0 hooks s3] s3 s' obtain new where
          "runs s' = runs s @ new" "trs s' = trs s @ [p]"
          "\<forall>r \<in> set new. hr_transition r = ?tid \<and> hr_attempts r = 0 \<and> hr_state r = RPending"
          by auto
        then show ?thesis using inv_of_new_rows [OF inv, of s' new p] s3 by simp
      next
        case 3
        obtain vs c w where spec: "spec_run opts ?tid hooks (world s) = (vs, c, w)" by (metis prod_cases3)
        from run_transition_hooks [OF fresh d 3 Inr spec] run
        have "transition_outcome ?tid vs c w s s'" by auto
        then show ?thesis by (rule inv_of_run [OF inv spec])
      qed
    qed
  qed
  ultimately show ?thesis by (simp add: lifecycle_inv_def)
qed

section \<open>A retry tick keeps it\<close>

text \<open>What one candidate's retry may do to one row of the table.\<close>

definition step_row :: "hook_run_row \<Rightarrow> hook_run_row \<Rightarrow> hook_run_row \<Rightarrow> bool" where
  "step_row row r r' =
     (r' = r \<or> (hr_id r = hr_id row \<and> row_key r' = row_key r \<and> hr_state r' \<in> {RFailed, ROk, RNoop}
        \<and> hr_attempts r' \<in> {hr_attempts r, hr_attempts row + 1}))"

definition retry_effect :: "hook_run_row \<Rightarrow> 'w lstate \<Rightarrow> 'w lstate \<Rightarrow> bool" where
  "retry_effect row s s' =
     (list_all2 (step_row row) (runs s) (runs s') \<and> ids s' = ids s
      \<and> (trs s' = trs s
         \<or> (\<exists>t0. trs s' = map (\<lambda>t. if tr_id t = hr_transition row
                 then t\<lparr>tr_state := TCompleted, tr_completed := Some t0\<rparr> else t) (trs s))
           \<and> (\<forall>r \<in> set (runs s'). hr_transition r = hr_transition row \<longrightarrow> hr_state r \<notin> {RFailed, RPending})))"

lemma step_row_map:
  assumes "\<And>r. row_key (f r) = row_key r" "\<And>r. hr_state (f r) \<in> {RFailed, ROk, RNoop}"
    "\<And>r. hr_attempts (f r) = hr_attempts r \<or> hr_attempts (f r) = hr_attempts row + 1"
  shows "list_all2 (step_row row) xs (map (\<lambda>r. if hr_id r = hr_id row then f r else r) xs)"
  using assms by (induction xs) (auto simp: step_row_def)

lemma step_row_refl [simp]: "list_all2 (step_row row) xs xs"
  by (rule list.rel_refl) (simp add: step_row_def)

lemma update_run_twice:
  assumes "\<And>r. hr_id (f r) = hr_id r"
  shows "map (\<lambda>r. if hr_id r = i then g r else r) (map (\<lambda>r. if hr_id r = i then f r else r) xs)
    = map (\<lambda>r. if hr_id r = i then g (f r) else r) xs"
  using assms by (induction xs) auto

lemma sst_lemmas [simp]:
  "runs (sst (snd (with_clock env s))) = runs (sst s)" "trs (sst (snd (with_clock env s))) = trs (sst s)"
  "ids (sst (snd (with_clock env s))) = ids (sst s)"
  "breakers (snd (with_clock env s)) = breakers s" "notices (snd (with_clock env s)) = notices s"
  by (simp_all add: with_clock_def read_clock_def)

lemma retry_effect_failed:
  assumes "runs (sst s') = map (\<lambda>r. if hr_id r = hr_id row then f r else r) (runs (sst s))"
    "trs (sst s') = trs (sst s)" "ids (sst s') = ids (sst s)"
    "\<And>r. row_key (f r) = row_key r" "\<And>r. hr_state (f r) \<in> {RFailed, ROk, RNoop}"
    "\<And>r. hr_attempts (f r) = hr_attempts r \<or> hr_attempts (f r) = hr_attempts row + 1"
  shows "retry_effect row (sst s) (sst s')"
  using assms step_row_map [of f row] by (simp add: retry_effect_def)

lemma reevaluate_effect:
  assumes "list_all2 (step_row row) (runs (sst s)) (runs (sst s1))"
    "trs (sst s1) = trs (sst s)" "ids (sst s1) = ids (sst s)" and "tid = hr_transition row"
  shows "retry_effect row (sst s) (sst (reevaluate tid t0 s1))"
  using assms by (auto simp: reevaluate_def retry_effect_def update_tr_def)

lemma attempt_hook_effect:
  assumes tid: "tr_id p = hr_transition row"
    and eq: "attempt_hook env tenant_ns h row p (s, c) = (s', c')"
  shows "retry_effect row (sst s) (sst s')"
proof -
  define t0 where "t0 = env_clock env (ticks (sst s))"
  define f1 :: "hook_run_row \<Rightarrow> hook_run_row" where "f1 = (\<lambda>r. r\<lparr>hr_state := RRunning, hr_attempts := hr_attempts row + 1,
      hr_started := Some t0\<rparr>)"
  obtain s1 where clk: "with_clock env s = (t0, s1)"
    by (simp add: with_clock_def read_clock_def t0_def)
  define s2 where "s2 = upd_run (hr_id row) f1 s1"
  define ctx where "ctx = \<lparr>ctx_tenant = tr_tenant p, ctx_namespace = retry_namespace tenant_ns p (world (sst s2)),
     ctx_transition_id = tr_id p, ctx_transition = tr_kind p, ctx_attempt = hr_attempts row + 1\<rparr>"
  obtain out w where run: "hrun h ctx (world (sst s2)) = (out, w)" by fastforce
  obtain st e where res: "retry_result out = (st, e)" by fastforce
  define s4 where "s4 = snd (with_clock env (s2\<lparr>sst := (sst s2)\<lparr>world := w\<rparr>\<rparr>))"
  define done_at where "done_at = env_clock env (ticks (sst s2))"
  have s1: "runs (sst s1) = runs (sst s)" "trs (sst s1) = trs (sst s)" "ids (sst s1) = ids (sst s)"
    using clk by (metis sst_lemmas(1-3) snd_conv)+
  have clk2: "with_clock env (s2\<lparr>sst := (sst s2)\<lparr>world := w\<rparr>\<rparr>) = (done_at, s4)"
    by (simp add: with_clock_def read_clock_def done_at_def s4_def)
  have s4: "runs (sst s4) = map (\<lambda>r. if hr_id r = hr_id row then f1 r else r) (runs (sst s))"
    "trs (sst s4) = trs (sst s)" "ids (sst s4) = ids (sst s)"
    by (simp_all add: s4_def s2_def upd_run_def update_run_def s1)
  have keeps: "hr_id (f1 r) = hr_id r" for r by (simp add: f1_def)
  have eff: "retry_effect row (sst s) (sst x)"
    if "runs (sst x) = map (\<lambda>r. if hr_id r = hr_id row then g r else r) (runs (sst s4))"
      "trs (sst x) = trs (sst s)" "ids (sst x) = ids (sst s)" "\<And>r. row_key (g r) = row_key r"
      "\<And>r. hr_state (g r) \<in> {RFailed, ROk, RNoop}" "\<And>r. hr_attempts (g r) = hr_attempts r" for x g
    using that unfolding s4(1) update_run_twice [of f1, OF keeps]
    by (intro retry_effect_failed [where f = "\<lambda>r. g (f1 r)"]) (auto simp: f1_def row_key_def)
  show ?thesis
  proof (cases "st = HOk \<or> st = HNoop")
    case True
    define g :: "hook_run_row \<Rightarrow> hook_run_row" where "g = (\<lambda>r. r\<lparr>hr_state := (if st = HOk then ROk else RNoop),
        hr_completed := Some done_at, hr_error := None, hr_next := None\<rparr>)"
    define s5 where "s5 = upd_run (hr_id row) g (s4\<lparr>breakers := record_success (hname h) (breakers s4)\<rparr>)"
    have "s' = reevaluate (tr_id p) done_at s5"
      using eq clk clk2 run res True
      by (simp add: attempt_hook_def f1_def [symmetric] s2_def [symmetric] ctx_def [symmetric]
          g_def [symmetric] s5_def [symmetric] Let_def)
    moreover have "retry_effect row (sst s) (sst s5)"
      by (rule eff [of s5 g]) (auto simp: s5_def upd_run_def update_run_def g_def row_key_def s4(2,3))
    ultimately show ?thesis
      using reevaluate_effect [of row s s5 "tr_id p" done_at] tid s4
      by (auto simp: retry_effect_def s5_def upd_run_def)
  next
    case False
    define ret where "ret = (st = HRetry \<and>
      hr_attempts row + 1 < (case max_attempts h of Some m \<Rightarrow> m | None \<Rightarrow> hr_max row))"
    define g :: "int option \<Rightarrow> hook_run_row \<Rightarrow> hook_run_row" where "g = (\<lambda>n. \<lambda>r. r\<lparr>hr_state := RFailed, hr_completed := Some done_at,
        hr_error := e, hr_next := n\<rparr>)"
    define s6 where "s6 = (if ret then record_failure env (hname h) s4
        else (record_failure env (hname h) s4)\<lparr>notices := notices (record_failure env (hname h) s4) @ [(hname h, tr_id p, e)]\<rparr>)"
    obtain n s7 where s7: "(if ret then (case with_clock env s6 of (now, x) \<Rightarrow>
        (Some (now + hook_backoff h (hr_attempts row + 1)), x)) else (None, s6)) = (n, s7)"
      by (meson surj_pair)
    have "s' = upd_run (hr_id row) (g n) s7"
      using eq clk clk2 run res False s7 [unfolded s6_def]
      by (cases ret) (simp_all add: attempt_hook_def f1_def [symmetric] s2_def [symmetric]
          ctx_def [symmetric] g_def ret_def [symmetric] Let_def split: prod.splits)
    moreover have "runs (sst s7) = runs (sst s4)" "trs (sst s7) = trs (sst s4)" "ids (sst s7) = ids (sst s4)"
      using s7 by (cases ret; auto simp: s6_def record_failure_def with_clock_def read_clock_def)+
    ultimately obtain x where x: "s' = upd_run (hr_id row) (g n) x" "runs (sst x) = runs (sst s4)"
      "trs (sst x) = trs (sst s4)" "ids (sst x) = ids (sst s4)" by blast
    show ?thesis
      unfolding x(1)
      by (rule eff [of _ "g n"]) (auto simp: upd_run_def update_run_def g_def row_key_def s4(2,3) x)
  qed
qed

lemma retry_row_effect:
  assumes "retry_row env tenant_ns by_hook row (s, c) = (s', c')"
  shows "retry_effect row (sst s) (sst s')"
proof (cases "js_get (hr_hook row) by_hook")
  case None
  show ?thesis
    by (rule retry_effect_failed [where f = "\<lambda>r. r\<lparr>hr_state := RFailed, hr_next := None,
        hr_error := Some \<lparr>env_title = ''Hook un-registered'',
          env_detail = Some (''No hook named '' @ [CHR 0x27] @ hr_hook row @ [CHR 0x27]), env_remediation = None, env_raw = None\<rparr>\<rparr>"])
      (use assms None in \<open>auto simp: retry_row_def upd_run_def update_run_def row_key_def\<close>)
next
  case (Some h)
  obtain opened s1 where op: "is_breaker_open env (hname h) s = (opened, s1)" by fastforce
  then have s1: "runs (sst s1) = runs (sst s)" "trs (sst s1) = trs (sst s)" "ids (sst s1) = ids (sst s)"
    by (auto simp: is_breaker_open_def with_clock_def read_clock_def split: option.splits prod.splits)
  show ?thesis
  proof (cases opened)
    case True
    then show ?thesis using assms Some op s1 by (auto simp: retry_row_def retry_effect_def)
  next
    case False
    show ?thesis
    proof (cases "find (\<lambda>t. tr_id t = hr_transition row) (trs (sst s1))")
      case None
      show ?thesis
        by (rule retry_effect_failed [where f = "\<lambda>r. r\<lparr>hr_state := RFailed, hr_next := None\<rparr>"])
          (use assms Some op False None s1 in \<open>auto simp: retry_row_def upd_run_def update_run_def row_key_def\<close>)
    next
      case (Some p)
      then have "tr_id p = hr_transition row" by (auto simp: find_Some_iff)
      moreover have "attempt_hook env tenant_ns h row p (s1, c) = (s', c')"
        using assms \<open>js_get (hr_hook row) by_hook = Some h\<close> op False Some by (simp add: retry_row_def)
      ultimately have "retry_effect row (sst s1) (sst s')" by (rule attempt_hook_effect)
      then show ?thesis using s1 by (simp add: retry_effect_def)
    qed
  qed
qed

lemma row_unique:
  "lifecycle_inv env s \<Longrightarrow> r \<in> set (runs s) \<Longrightarrow> r' \<in> set (runs s) \<Longrightarrow> hr_id r = hr_id r' \<Longrightarrow> r = r'"
  by (auto simp: lifecycle_inv_def ids_inv_def distinct_map dest: inj_onD)

lemma step_row_key: "step_row row r r' \<Longrightarrow> row_key r' = row_key r"
  by (auto simp: step_row_def)

lemma list_all2_row_keys: "list_all2 P (runs s) (runs s') \<Longrightarrow> (\<And>r r'. P r r' \<Longrightarrow> row_key r' = row_key r)
    \<Longrightarrow> row_keys s' = row_keys s"
  unfolding row_keys_def by (induction rule: list_all2_induct) auto

lemma ids_inv_frame:
  assumes "ids_inv env s" "row_keys s' = row_keys s" "map tr_id (trs s') = map tr_id (trs s)" "ids s' = ids s"
  shows "ids_inv env s'"
proof -
  have "map hr_id (runs s') = map hr_id (runs s)" "map hr_transition (runs s') = map hr_transition (runs s)"
    using arg_cong [OF assms(2), of "map fst"] arg_cong [OF assms(2), of "map (fst \<circ> snd)"]
    by (simp_all add: row_keys_def row_key_def comp_def)
  moreover from this have "hr_id ` set (runs s') = hr_id ` set (runs s)"
    "hr_transition ` set (runs s') = hr_transition ` set (runs s)"
    by (metis list.set_map)+
  moreover from assms(3) have "tr_id ` set (trs s') = tr_id ` set (trs s)" by (metis list.set_map)
  ultimately show ?thesis using assms(1,3,4) by (simp add: ids_inv_def)
qed

lemma retry_effect_inv:
  assumes inv: "lifecycle_inv env s" and row: "row \<in> set (runs s)" "hr_state row = RFailed"
    "hr_attempts row < hr_max row" and eff: "retry_effect row s s'"
  shows "lifecycle_inv env s'"
proof -
  have rel: "list_all2 (step_row row) (runs s) (runs s')" using eff by (simp add: retry_effect_def)
  have uniq: "r = row" if "r \<in> set (runs s)" "hr_id r = hr_id row" for r
    using row_unique [OF inv that(1) row(1) that(2)] .
  have pre: "\<exists>r \<in> set (runs s). step_row row r r'" if "r' \<in> set (runs s')" for r'
    using rel that by (metis in_set_conv_nth list_all2_conv_all_nth)
  have "map tr_id (trs s') = map tr_id (trs s)"
    using eff by (auto simp: retry_effect_def)
  moreover have "ids s' = ids s" using eff by (simp add: retry_effect_def)
  moreover have "row_keys s' = row_keys s"
    using rel step_row_key by (rule list_all2_row_keys)
  ultimately have "ids_inv env s'"
    using inv ids_inv_frame by (auto simp: lifecycle_inv_def)
  moreover have settled: "rows_settled s'"
    unfolding rows_settled_def
  proof
    fix r' assume r': "r' \<in> set (runs s')"
    from pre [OF r'] obtain r where r: "r \<in> set (runs s)" "step_row row r r'" by blast
    have old: "hr_state r \<noteq> RRunning \<and> 0 \<le> hr_attempts r \<and> hr_attempts r \<le> max 1 (hr_max r)"
      using inv r(1) by (simp add: lifecycle_inv_def rows_settled_def)
    show "hr_state r' \<noteq> RRunning \<and> 0 \<le> hr_attempts r' \<and> hr_attempts r' \<le> max 1 (hr_max r')"
    proof (cases "r' = r")
      case False
      then have "r = row" using r uniq by (auto simp: step_row_def)
      then show ?thesis using r(2) old row(3) by (auto simp: step_row_def row_key_def)
    qed (use old in simp)
  qed
  moreover have "completed_ok s'"
    unfolding completed_ok_def
  proof (intro ballI impI)
    fix t r' assume t: "t \<in> set (trs s')" "tr_state t = TCompleted"
      and r': "r' \<in> set (runs s')" "hr_transition r' = tr_id t"
    from pre [OF r'(1)] obtain r where r: "r \<in> set (runs s)" "step_row row r r'" by blast
    have same_tr: "hr_transition r' = hr_transition r" using step_row_key [OF r(2)] by (simp add: row_key_def)
    have nrun: "hr_state r' \<noteq> RRunning" using settled r'(1) by (simp add: rows_settled_def)
    show "hr_state r' \<in> {ROk, RNoop}"
    proof (cases "t \<in> set (trs s)")
      case True
      then have ok: "hr_state r \<in> {ROk, RNoop}"
        using inv t(2) r(1) r'(2) same_tr by (simp add: lifecycle_inv_def completed_ok_def)
      then have "r \<noteq> row" using row(2) by auto
      then have "r' = r" using r uniq by (auto simp: step_row_def)
      then show ?thesis using ok by simp
    next
      case False
      then have "tr_id t = hr_transition row"
        and "\<forall>r \<in> set (runs s'). hr_transition r = hr_transition row \<longrightarrow> hr_state r \<notin> {RFailed, RPending}"
        using eff t(1) by (auto simp: retry_effect_def split: if_splits)
      then show ?thesis using r' nrun by (cases "hr_state r'") auto
    qed
  qed
  ultimately show ?thesis by (simp add: lifecycle_inv_def)
qed

text \<open>What a whole tick over the candidates \<open>cs\<close> may do to a row: only a candidate changes, it is
  attempted at most once and keeps its keys.\<close>

definition tick_row :: "hook_run_row list \<Rightarrow> hook_run_row \<Rightarrow> hook_run_row \<Rightarrow> bool" where
  "tick_row cs r r' =
     (row_key r' = row_key r \<and> (r \<notin> set cs \<longrightarrow> r' = r) \<and> hr_attempts r' \<le> hr_attempts r + 1)"

lemma step_row_tick:
  assumes "lifecycle_inv env s" "row \<in> set (runs s)" "list_all2 (step_row row) (runs s) rs"
  shows "list_all2 (tick_row [row]) (runs s) rs"
proof -
  have uniq: "r = row" if "r \<in> set (runs s)" "hr_id r = hr_id row" for r
    using row_unique [OF assms(1) that(1) assms(2) that(2)] .
  show ?thesis
    using assms(3)
  proof (rule list.rel_mono_strong)
    fix r r' assume "r \<in> set (runs s)" "step_row row r r'"
    then show "tick_row [row] r r'" using uniq [of r] by (cases "r' = r") (auto simp: step_row_def tick_row_def)
  qed
qed

lemma tick_row_trans:
  assumes "list_all2 (tick_row [row]) xs ys" and "list_all2 (tick_row cs) ys zs"
    and "hr_id row \<notin> hr_id ` set cs"
  shows "list_all2 (tick_row (row # cs)) xs zs"
proof (rule list_all2_trans [OF _ assms(1,2)])
  fix a b c assume ab: "tick_row [row] a b" and bc: "tick_row cs b c"
  show "tick_row (row # cs) a c"
  proof (cases "a = row")
    case True
    then have "hr_id b = hr_id row" using ab by (simp add: tick_row_def row_key_def)
    then have "b \<notin> set cs" using assms(3) by (metis image_eqI)
    then show ?thesis using ab bc True by (auto simp: tick_row_def)
  qed (use ab bc in \<open>auto simp: tick_row_def\<close>)
qed

lemma retry_fold_inv:
  assumes "lifecycle_inv env (sst s)"
    and "\<forall>row \<in> set cs. row \<in> set (runs (sst s)) \<and> hr_state row = RFailed \<and> hr_attempts row < hr_max row"
    and "distinct (map hr_id cs)"
    and "fold (retry_row env tenant_ns by_hook) cs (s, c) = (s', c')"
  shows "lifecycle_inv env (sst s') \<and> list_all2 (tick_row cs) (runs (sst s)) (runs (sst s'))"
  using assms
proof (induction cs arbitrary: s c)
  case Nil
  then show ?case by (auto simp: tick_row_def intro: list.rel_refl)
next
  case (Cons row cs)
  obtain s1 c1 where one: "retry_row env tenant_ns by_hook row (s, c) = (s1, c1)" by fastforce
  have eff: "retry_effect row (sst s) (sst s1)" using one by (rule retry_row_effect)
  have row: "row \<in> set (runs (sst s))" "hr_state row = RFailed" "hr_attempts row < hr_max row"
    using Cons.prems(2) by simp_all
  have inv1: "lifecycle_inv env (sst s1)" using retry_effect_inv [OF Cons.prems(1) row eff] .
  have rel: "list_all2 (step_row row) (runs (sst s)) (runs (sst s1))" using eff by (simp add: retry_effect_def)
  have "\<forall>x \<in> set cs. x \<in> set (runs (sst s1)) \<and> hr_state x = RFailed \<and> hr_attempts x < hr_max x"
  proof
    fix x assume x: "x \<in> set cs"
    then have "x \<in> set (runs (sst s))" "hr_id x \<noteq> hr_id row"
      using Cons.prems(2,3) by (auto simp: image_iff)
    then have "x \<in> set (runs (sst s1))"
      using rel by (auto simp: list_all2_conv_all_nth in_set_conv_nth step_row_def)
    then show "x \<in> set (runs (sst s1)) \<and> hr_state x = RFailed \<and> hr_attempts x < hr_max x"
      using Cons.prems(2) x by simp
  qed
  from Cons.IH [OF inv1 this] Cons.prems(3,4) one
  have "lifecycle_inv env (sst s') \<and> list_all2 (tick_row cs) (runs (sst s1)) (runs (sst s'))" by simp
  then show ?case
    using tick_row_trans [OF step_row_tick [OF Cons.prems(1) row(1) rel]] Cons.prems(3) by simp
qed

lemma run_retry_tick_inv:
  assumes inv: "lifecycle_inv env (sst s)" and tick: "run_retry_tick env tenant_ns reg s = (res, s')"
  shows "lifecycle_inv env (sst s')
    \<and> list_all2 (tick_row (candidates (env_clock env (ticks (sst s))) s)) (runs (sst s)) (runs (sst s'))"
proof -
  let ?now = "env_clock env (ticks (sst s))"
  obtain s1 where clk: "with_clock env s = (?now, s1)" by (simp add: with_clock_def read_clock_def)
  then have s1: "runs (sst s1) = runs (sst s)" "trs (sst s1) = trs (sst s)" "ids (sst s1) = ids (sst s)"
    by (metis sst_lemmas(1-3) snd_conv)+
  have cs: "candidates ?now s1 = candidates ?now s" by (simp add: candidates_def s1)
  have inv1: "lifecycle_inv env (sst s1)"
    using inv s1 by (simp add: lifecycle_inv_def ids_inv_def rows_settled_def completed_ok_def)
  obtain s2 c2 where fold: "fold (retry_row env tenant_ns (by_name (list_hooks reg))) (candidates ?now s1)
      (s1, \<lparr>t_succeeded = 0, t_retried = 0, t_permanent = 0, t_skipped = 0\<rparr>) = (s2, c2)" by fastforce
  have "s' = s2" using tick clk fold by (simp add: run_retry_tick_def Let_def)
  moreover have "\<forall>row \<in> set (candidates ?now s1). row \<in> set (runs (sst s1)) \<and> hr_state row = RFailed
      \<and> hr_attempts row < hr_max row"
    by (auto simp: candidates_def due_def dest!: in_set_takeD)
  moreover have "distinct (map hr_id (candidates ?now s1))"
    using inv1 unfolding candidates_def take_map [symmetric]
    by (intro distinct_take distinct_map_filter) (simp add: lifecycle_inv_def ids_inv_def)
  ultimately show ?thesis using retry_fold_inv [OF inv1 _ _ fold] s1 cs by simp
qed

section \<open>Accounting\<close>

definition t_total :: "tick_counts \<Rightarrow> nat" where
  "t_total c = t_succeeded c + t_retried c + t_permanent c + t_skipped c"

lemma attempt_hook_total: "t_total (snd (attempt_hook env tenant_ns h row p (s, c))) = Suc (t_total c)"
  by (auto simp: attempt_hook_def t_total_def Let_def split: prod.splits)

lemma retry_row_total: "t_total (snd (retry_row env tenant_ns by_hook row sc)) = Suc (t_total (snd sc))"
proof (cases sc)
  case (Pair s c)
  show ?thesis
    using attempt_hook_total [of env tenant_ns _ row _ _ c]
    by (auto simp: Pair retry_row_def t_total_def split: option.splits prod.splits)
qed

lemma retry_fold_total:
  "t_total (snd (fold (retry_row env tenant_ns by_hook) cs sc)) = length cs + t_total (snd sc)"
  by (induction cs arbitrary: sc) (simp_all add: retry_row_total)

section \<open>The step relation\<close>

definition empty_sched :: "'w \<Rightarrow> 'w sched" where
  "empty_sched w = \<lparr>sst = \<lparr>trs = [], runs = [], tasks = [], world = w, ticks = 0, ids = 0\<rparr>,
     breakers = [], notices = []\<rparr>"

inductive lstep :: "env \<Rightarrow> 'w sched \<Rightarrow> 'w sched \<Rightarrow> bool" for env where
  dispatch: "registry_ok reg \<Longrightarrow> opts_ok opts \<Longrightarrow> run_transition env reg opts (sst s) = (res, st)
     \<Longrightarrow> lstep env s (s\<lparr>sst := st\<rparr>)"
| retry_tick: "run_retry_tick env tenant_ns reg s = (res, s') \<Longrightarrow> lstep env s s'"
| bulk_tag: "tag_bulk_op tenant bulk (sst s) = (res, st) \<Longrightarrow> lstep env s (s\<lparr>sst := st\<rparr>)"
| breaker_reset: "reset_breaker_for_hook now h (breakers s) = (res, bs) \<Longrightarrow> lstep env s (s\<lparr>breakers := bs\<rparr>)"
| outside: "lstep env s (s\<lparr>sst := (sst s)\<lparr>world := w\<rparr>\<rparr>)"

inductive_cases lstep_cases: "lstep env s s'"

inductive reachable :: "env \<Rightarrow> 'w sched \<Rightarrow> bool" for env where
  init: "reachable env (empty_sched w)"
| step: "reachable env s \<Longrightarrow> lstep env s s' \<Longrightarrow> reachable env s'"

lemma tag_bulk_op_inv:
  assumes inv: "lifecycle_inv env s" and tag: "tag_bulk_op tenant bulk s = (res, s')"
  shows "lifecycle_inv env s'"
proof (cases "latest_transition tenant s")
  case (Some t)
  let ?f = "\<lambda>r. if tr_id r = tr_id t then r\<lparr>tr_detail := Some (AList.update ''bulkOpId'' bulk
      (case tr_detail t of Some d \<Rightarrow> d | None \<Rightarrow> []))\<rparr> else r"
  have s': "runs s' = runs s" "ids s' = ids s" "trs s' = map ?f (trs s)"
    using tag Some by (auto simp: tag_bulk_op_def update_tr_def Let_def)
  have "map tr_id (trs s') = map tr_id (trs s)" unfolding s' by simp
  then have "ids_inv env s'"
    using inv s' by (intro ids_inv_frame [of env s s']) (simp_all add: lifecycle_inv_def row_keys_def)
  moreover have "rows_settled s'" using inv s'(1) by (simp add: lifecycle_inv_def rows_settled_def)
  moreover have "completed_ok s'"
    using inv unfolding completed_ok_def s' lifecycle_inv_def by fastforce
  ultimately show ?thesis by (simp add: lifecycle_inv_def)
qed (use inv tag in \<open>simp add: tag_bulk_op_def\<close>)

lemma lstep_inv: "lstep env s s' \<Longrightarrow> lifecycle_inv env (sst s) \<Longrightarrow> lifecycle_inv env (sst s')"
proof (erule lstep_cases, goal_cases)
  case (1 reg opts res st)
  then show ?case by (auto dest: run_transition_inv)
next
  case (2 tenant_ns reg res)
  then show ?case using run_retry_tick_inv by blast
next
  case (3 tenant bulk res st)
  then show ?case using tag_bulk_op_inv by auto
qed (simp_all add: lifecycle_inv_def ids_inv_def rows_settled_def completed_ok_def)

lemma run_transition_keeps_rows:
  assumes "lifecycle_inv env s" "registry_ok reg" "opts_ok opts" "run_transition env reg opts s = (res, s')"
    and "r \<in> set (runs s)"
  shows "r \<in> set (runs s')"
proof -
  have "r \<in> set (filter (\<lambda>r. hr_transition r \<noteq> env_uuid env (ids s)) (runs s'))"
    using run_transition_inv [OF assms(1-4)] assms(5) by simp
  then show ?thesis by simp
qed

lemma list_all2_tick_keeps:
  "list_all2 (tick_row cs) xs ys \<Longrightarrow> r \<in> set xs \<Longrightarrow> r \<notin> set cs \<Longrightarrow> r \<in> set ys"
  by (induction rule: list_all2_induct) (auto simp: tick_row_def)

lemma candidate_failed: "r \<in> set (candidates now s) \<Longrightarrow> hr_state r = RFailed"
  by (auto simp: candidates_def due_def dest!: in_set_takeD)

text \<open>Only a retry tick changes a row that exists, and then only a failed one.\<close>

lemma lstep_keeps_row:
  "lstep env s s' \<Longrightarrow> lifecycle_inv env (sst s) \<Longrightarrow> r \<in> set (runs (sst s)) \<Longrightarrow> hr_state r \<noteq> RFailed
     \<Longrightarrow> r \<in> set (runs (sst s'))"
proof (erule lstep_cases, goal_cases)
  case (1 reg opts res st)
  then show ?case using run_transition_keeps_rows by auto
next
  case (2 tenant_ns reg res)
  then show ?case using run_retry_tick_inv list_all2_tick_keeps candidate_failed by blast
next
  case (3 tenant bulk res st)
  then have "runs st = runs (sst s)"
    by (auto simp: tag_bulk_op_def update_tr_def Let_def split: option.splits)
  with 3 show ?case by simp
qed simp_all

lemma lsteps_keep_row:
  "(lstep env)\<^sup>*\<^sup>* s s' \<Longrightarrow> lifecycle_inv env (sst s) \<Longrightarrow> r \<in> set (runs (sst s)) \<Longrightarrow> hr_state r \<noteq> RFailed
     \<Longrightarrow> r \<in> set (runs (sst s')) \<and> lifecycle_inv env (sst s')"
  by (induction rule: rtranclp_induct) (auto intro: lstep_keeps_row lstep_inv)

lemma init_inv: "inj (env_uuid env) \<Longrightarrow> lifecycle_inv env (sst (empty_sched w))"
  by (simp add: empty_sched_def lifecycle_inv_def ids_inv_def rows_settled_def completed_ok_def)

lemma reachable_inv: "reachable env s \<Longrightarrow> inj (env_uuid env) \<Longrightarrow> lifecycle_inv env (sst s)"
  by (induction rule: reachable.induct) (auto intro: init_inv lstep_inv)

section \<open>The circuit breaker\<close>

text \<open>What a breaker promises: it is open for the cool-off after the fifth failure inside the
  window, a success or a reset closes it, and other hooks are not touched.\<close>

definition window_failures :: "int \<Rightarrow> string \<Rightarrow> breakers \<Rightarrow> int list" where
  "window_failures now h bs =
     (case js_get h bs of None \<Rightarrow> []
      | Some b \<Rightarrow> filter (\<lambda>t. now - t < CIRCUIT_BREAKER_WINDOW_MS) (recent_failures b))"

lemma record_failure_get:
  "js_get h (record_failure_at now h bs) =
     Some \<lparr>recent_failures = window_failures now h bs @ [now],
           open_until = (if length (window_failures now h bs) \<ge> 4 then now + CIRCUIT_BREAKER_COOLOFF_MS
             else case js_get h bs of None \<Rightarrow> 0 | Some b \<Rightarrow> open_until b)\<rparr>"
  by (auto simp: record_failure_at_def window_failures_def js_get_update CIRCUIT_BREAKER_FAILURES_def
      Let_def split: option.split)

lemma record_failure_other [store_simps]:
  "h \<noteq> g \<Longrightarrow> js_get h (record_failure_at now g bs) = js_get h bs"
  by (simp add: record_failure_at_def js_get_update Let_def)

lemma record_success_closes: "\<not> is_breaker_open_at now h (record_success h bs) \<or> now < 0"
  by (auto simp: record_success_def is_breaker_open_at_def js_get_update split: option.split)

text \<open>An open breaker: the candidate's retry changes no row, no transition and not the world.\<close>

lemma retry_row_open:
  assumes "js_get (hr_hook row) by_hook = Some h"
    and "is_breaker_open_at (env_clock env (ticks (sst s))) (hname h) (breakers s)"
  shows "\<exists>s'. retry_row env tenant_ns by_hook row (s, c) = (s', c\<lparr>t_skipped := Suc (t_skipped c)\<rparr>)
    \<and> runs (sst s') = runs (sst s) \<and> trs (sst s') = trs (sst s) \<and> world (sst s') = world (sst s)"
  using assms
  by (auto simp: retry_row_def is_breaker_open_def is_breaker_open_at_def with_clock_def read_clock_def
      split: option.splits)

end
