(* ===== verification/LifecycleProps.thy ===== *)
theory LifecycleProps
  imports LifecycleSystem
begin

text \<open>
  What the lifecycle engine guarantees, and what it does not: the properties of the registry, the
  dispatcher, the retry tick and the circuit breaker, each with an instance on a concrete registry
  of three hooks.
\<close>

section \<open>A concrete registry\<close>

definition ex_hook :: "nat \<Rightarrow> string \<Rightarrow> int \<Rightarrow> string \<Rightarrow> string list \<Rightarrow> hook_status \<Rightarrow> nat lifecycle_hook" where
  "ex_hook ref n ord policy deps st =
     \<lparr>hook_ref = ref, hname = n, transitions = [Suspended], order = JNum (of_int ord), blocking = policy,
      max_attempts = None, backoff_ms = None, after = Some deps, hrun = (\<lambda>ctx w. (Returned st None, Suc w))\<rparr>"

definition ex_reg :: "nat registry" where
  "ex_reg = [(''b'', ex_hook 1 ''b'' 10 ''continue'' [''a''] HOk), (''a'', ex_hook 0 ''a'' 20 ''abort'' [] HRetry),
     (''c'', ex_hook 2 ''c'' 30 ''continue'' [''b''] HOk)]"

definition ex_env :: env where
  "ex_env = \<lparr>env_uuid = (\<lambda>n. replicate n (CHR ''u'')), env_clock = int\<rparr>"

definition ex_opts :: "nat dispatch_options" where
  "ex_opts = \<lparr>o_tenant = ''t1'', o_namespace = ''ns'', o_transition = Suspended, o_from = None,
     o_to = ''suspended'', o_user = Some ''admin'', o_detail = None, o_skip = False, o_hooks = None,
     o_parent_task = None\<rparr>"

lemma ex_reg_ok: "registry_ok ex_reg"
  by (simp add: registry_ok_def ex_reg_def ex_hook_def js_map_ok_def validate_hook_def)

lemma ex_env_inj: "inj (env_uuid ex_env)"
proof (rule injI)
  fix x y assume "env_uuid ex_env x = env_uuid ex_env y"
  then have "length (replicate x (CHR ''u'')) = length (replicate y (CHR ''u''))" by (simp add: ex_env_def)
  then show "x = y" by simp
qed

definition ex_sorted :: "nat lifecycle_hook list" where
  "ex_sorted = [ex_hook 0 ''a'' 20 ''abort'' [] HRetry, ex_hook 1 ''b'' 10 ''continue'' [''a''] HOk,
     ex_hook 2 ''c'' 30 ''continue'' [''b''] HOk]"

lemma ex_reg_names:
  "(case topo_sort_for_transition Suspended (list_hooks ex_reg) of Inr hs \<Rightarrow> map hname hs | Inl _ \<Rightarrow> [])
     = [''a'', ''b'', ''c'']"
  by code_simp

lemma ex_reg_sorted: "topo_sort_for_transition Suspended (list_hooks ex_reg) = Inr ex_sorted"
proof -
  obtain out where out: "topo_sort_for_transition Suspended (list_hooks ex_reg) = Inr out"
    and names: "map hname out = [''a'', ''b'', ''c'']"
    using ex_reg_names by (auto split: sum.splits)
  have "set out \<subseteq> set (list_hooks ex_reg)"
    using topo_sort_result [OF ex_reg_ok out] by (auto simp: topo_spec_def dest!: mset_eq_setD)
  then have "set out \<subseteq> set ex_sorted"
    by (simp add: list_hooks_def ex_reg_def ex_sorted_def insert_commute)
  then have "out = ex_sorted"
    using names by (auto simp: ex_sorted_def ex_hook_def map_eq_Cons_conv)
  then show ?thesis using out by simp
qed

section \<open>Registry and ordering\<close>

text \<open>Registering a hook keeps the registry well formed (unique names, every stored hook valid);
  it succeeds exactly when the hook is valid and its name is free or already held by the same
  object, it then makes the hook the one found under its name, and no other name is affected.\<close>

theorem register_hook_correct:
  assumes "registry_ok reg"
  shows "case register_lifecycle_hook h reg of
      Inr reg' \<Rightarrow> registry_ok reg' \<and> validate_hook h = Inr ()
        \<and> (\<exists>h'. js_get (hname h) reg' = Some h' \<and> hook_ref h' = hook_ref h)
        \<and> (\<forall>n. n \<noteq> hname h \<longrightarrow> js_get n reg' = js_get n reg)
    | Inl (LifecycleRegistryError code _) \<Rightarrow>
        (code = INVALID_HOOK \<and> validate_hook h \<noteq> Inr ())
        \<or> (code = DUPLICATE_NAME \<and> (\<exists>h'. js_get (hname h) reg = Some h' \<and> hook_ref h' \<noteq> hook_ref h))"
proof (cases "register_lifecycle_hook h reg")
  case (Inr reg')
  then show ?thesis
    using registry_ok_register [OF assms Inr]
    by (auto simp: register_lifecycle_hook_def js_get_update split: sum.splits option.splits if_splits)
next
  case (Inl e)
  have "code = INVALID_HOOK" if "validate_hook h = Inl (LifecycleRegistryError code m)" for code m
    using that by (auto simp: validate_hook_def split: if_splits)
  then show ?thesis
    using Inl by (cases e) (auto simp: register_lifecycle_hook_def split: sum.splits option.splits if_splits)
qed

theorem register_hook_correct_witness:
  "registry_ok ex_reg \<and> (\<exists>reg'. register_lifecycle_hook (ex_hook 9 ''d'' 1 ''abort'' [] HOk) ex_reg = Inr reg' \<and> registry_ok reg')"
proof -
  have "\<exists>reg'. register_lifecycle_hook (ex_hook 9 ''d'' 1 ''abort'' [] HOk) ex_reg = Inr reg'"
    by (simp add: register_lifecycle_hook_def validate_hook_def ex_hook_def ex_reg_def js_get_def)
  then show ?thesis
    using register_hook_correct [OF ex_reg_ok, of "ex_hook 9 ''d'' 1 ''abort'' [] HOk"] ex_reg_ok by auto
qed

text \<open>C18: The order a transition runs its hooks in. The sort returns a permutation of the hooks that
  subscribe to the transition in which every hook comes after all the hooks named in its \<open>after\<close>
  list and, among the hooks whose dependencies are met, the one with the least (order, name) comes
  first; it fails exactly when some dependency names no subscribed hook (UNKNOWN_AFTER) or, all
  being known, when the dependency relation has a cycle (CYCLIC_AFTER).\<close>

theorem topo_sort_correct:
  assumes "registry_ok reg"
  shows "let hs = by_order t (list_hooks reg);
      known = (\<forall>h \<in> set hs. set (deps_of h) \<subseteq> hname ` set hs)
    in case topo_sort_for_transition t (list_hooks reg) of
        Inr out \<Rightarrow> known \<and> acyclic (set (edges hs)) \<and> topo_spec hs out
      | Inl (LifecycleRegistryError code _) \<Rightarrow>
          if known then code = CYCLIC_AFTER \<and> \<not> acyclic (set (edges hs)) else code = UNKNOWN_AFTER"
proof (cases "\<forall>h \<in> set (by_order t (list_hooks reg)). set (deps_of h) \<subseteq> hname ` set (by_order t (list_hooks reg))")
  case True
  with topo_sort_cases [OF registry_ok_distinct [OF assms] _ True] registry_ok_finite [OF assms] show ?thesis
    by (auto simp: Let_def split: if_splits)
next
  case False
  then have "\<exists>h \<in> set (by_order t (list_hooks reg)).
      \<not> set (deps_of h) \<subseteq> hname ` set (by_order t (list_hooks reg))" by blast
  from topo_sort_unknown [OF this] obtain m where
    "topo_sort_for_transition t (list_hooks reg) = Inl (LifecycleRegistryError UNKNOWN_AFTER m)" by blast
  with False show ?thesis by (simp add: Let_def)
qed

theorem topo_sort_correct_witness:
  "registry_ok ex_reg \<and> topo_spec (by_order Suspended (list_hooks ex_reg)) ex_sorted
     \<and> acyclic (set (edges (by_order Suspended (list_hooks ex_reg))))"
  using topo_sort_correct [OF ex_reg_ok, of Suspended] ex_reg_ok ex_reg_sorted by (simp add: Let_def)

section \<open>One dispatch\<close>

text \<open>C22: A dispatch does to the tables exactly what the abstract sequential run says: the parent row
  ends in the state the counts determine, its hook rows show for each hook the outcome, the one
  attempt and whether a retry is scheduled, no other row of either table changes, and the caller
  gets the same counts.\<close>

theorem run_transition_refines:
  assumes "lifecycle_inv env s" and "registry_ok reg" and "opts_ok opts" and "\<not> o_skip opts"
    and "(case o_hooks opts of Some hs \<Rightarrow> Inr hs
        | None \<Rightarrow> topo_sort_for_transition (o_transition opts) (list_hooks reg)) = Inr hooks"
    and "hooks \<noteq> []"
    and "spec_run opts (env_uuid env (ids s)) hooks (world s) = (vs, c, w)"
  shows "\<exists>s'. run_transition env reg opts s
      = (Inr \<lparr>d_id = env_uuid env (ids s), d_state = final_state c, d_attempted = c_ok c + c_failed c,
             d_ok = c_ok c, d_failed = c_failed c\<rparr>, s')
    \<and> transition_outcome (env_uuid env (ids s)) vs c w s s'"
proof (rule run_transition_hooks)
  show "fresh_ids env s" using assms(1) by (simp add: lifecycle_inv_def ids_inv_fresh)
  show "distinct (map hname hooks)"
    using assms(2,3,5) topo_sort_distinct by (auto simp: opts_ok_def split: option.splits)
qed (use assms in auto)

lemma ex_state_inv: "lifecycle_inv ex_env (sst (empty_sched (0 :: nat)))"
  by (rule init_inv [OF ex_env_inj])

lemma ex_opts_ok: "opts_ok ex_opts" "\<not> o_skip ex_opts" "o_hooks ex_opts = None" "o_transition ex_opts = Suspended"
  by (simp_all add: opts_ok_def ex_opts_def)

lemma ex_spec_run: "spec_run ex_opts (env_uuid ex_env 0) ex_sorted (0 :: nat)
    = ([(''a'', RFailed, 1, True), (''b'', RPending, 0, False), (''c'', RPending, 0, False)],
       \<lparr>c_ok = 0, c_failed = 1, c_aborted = True\<rparr>, 1)"
  by (simp add: ex_sorted_def ex_hook_def hook_result_def done_view_def pending_view_def hook_max_def
      DEFAULT_MAX_ATTEMPTS_def)

theorem run_transition_refines_witness:
  "\<exists>s'. run_transition ex_env ex_reg ex_opts (sst (empty_sched 0))
      = (Inr \<lparr>d_id = [], d_state = TFailedBlocking, d_attempted = 1, d_ok = 0, d_failed = 1\<rparr>, s')
    \<and> world s' = 1"
proof -
  have s0: "ids (sst (empty_sched (0 :: nat))) = 0" "world (sst (empty_sched (0 :: nat))) = 0"
    by (simp_all add: empty_sched_def)
  have uid: "env_uuid ex_env 0 = []" by (simp add: ex_env_def)
  have "ex_sorted \<noteq> []" by (simp add: ex_sorted_def)
  from run_transition_refines [OF ex_state_inv ex_reg_ok ex_opts_ok(1,2) _ this, unfolded s0, OF _ ex_spec_run]
    ex_reg_sorted ex_opts_ok
  show ?thesis by (auto simp: uid final_state_def transition_outcome_def)
qed

text \<open>A blocking failure stops the run where it happened. When a transition ends in
  \<open>failed_blocking\<close>, some hook with policy \<open>abort\<close> failed, every hook before it was run, and every
  hook after it was not: its row is still pending, with no attempt and no retry time.\<close>

theorem blocking_failure_stops:
  assumes "lifecycle_inv env s" and "registry_ok reg" and "opts_ok opts" and "\<not> o_skip opts"
    and "(case o_hooks opts of Some hs \<Rightarrow> Inr hs
        | None \<Rightarrow> topo_sort_for_transition (o_transition opts) (list_hooks reg)) = Inr hooks"
    and "run_transition env reg opts s = (Inr res, s')" and "d_state res = TFailedBlocking"
  shows "let rows = map view_of (filter (\<lambda>r. hr_transition r = d_id res) (runs s')) in
    length rows = length hooks
    \<and> (\<exists>i < length hooks. blocking (hooks ! i) = ''abort'' \<and> fst (snd (rows ! i)) = RFailed
        \<and> (\<forall>j < i. fst (snd (rows ! j)) \<noteq> RPending)
        \<and> (\<forall>j < length hooks. i < j \<longrightarrow> rows ! j = (hname (hooks ! j), RPending, 0, False)))"
proof -
  obtain vs c w where spec: "spec_run opts (env_uuid env (ids s)) hooks (world s) = (vs, c, w)"
    by (metis prod_cases3)
  have d: "distinct (map hname hooks)"
    using assms(2,3,5) topo_sort_distinct by (auto simp: opts_ok_def split: option.splits)
  have fresh: "fresh_ids env s" using assms(1) by (simp add: lifecycle_inv_def ids_inv_fresh)
  have ne: "hooks \<noteq> []"
  proof
    assume "hooks = []"
    then show False
      using assms(5-7) by (auto simp: run_transition_def fresh_uuid_def read_clock_def Let_def)
  qed
  from run_transition_hooks [OF fresh d ne assms(4,5) spec] assms(6,7)
  have res: "d_id res = env_uuid env (ids s)" "c_aborted c"
    and out: "transition_outcome (env_uuid env (ids s)) vs c w s s'"
    by (auto simp: final_state_def split: if_splits)
  have "length vs = length hooks" using length_spec_run [of opts _ hooks "world s"] spec by (metis fst_conv)
  with spec_run_aborted [OF spec res(2)] out show ?thesis
    by (simp add: Let_def res(1) transition_outcome_def pending_view_def)
qed

theorem blocking_failure_stops_witness:
  "\<exists>res s'. run_transition ex_env ex_reg ex_opts (sst (empty_sched 0)) = (Inr res, s')
     \<and> d_state res = TFailedBlocking
     \<and> length (filter (\<lambda>r. hr_transition r = d_id res) (runs s')) = 3"
proof -
  have s0: "ids (sst (empty_sched (0 :: nat))) = 0" "world (sst (empty_sched (0 :: nat))) = 0"
    by (simp_all add: empty_sched_def)
  have ne: "ex_sorted \<noteq> []" and d: "distinct (map hname ex_sorted)" by (simp_all add: ex_sorted_def ex_hook_def)
  have hooks: "(case o_hooks ex_opts of Some hs \<Rightarrow> Inr hs
     | None \<Rightarrow> topo_sort_for_transition (o_transition ex_opts) (list_hooks ex_reg)) = Inr ex_sorted"
    using ex_reg_sorted ex_opts_ok by simp
  have "fresh_ids ex_env (sst (empty_sched (0 :: nat)))"
    using ex_state_inv by (simp add: lifecycle_inv_def ids_inv_fresh)
  from run_transition_hooks [OF this d ne ex_opts_ok(2) hooks, unfolded s0, OF ex_spec_run]
  obtain res s' where run: "run_transition ex_env ex_reg ex_opts (sst (empty_sched (0 :: nat))) = (Inr res, s')"
    "d_state res = TFailedBlocking" by (auto simp: final_state_def)
  from blocking_failure_stops [OF ex_state_inv ex_reg_ok ex_opts_ok(1,2) hooks run] run
  show ?thesis by (auto simp: Let_def ex_sorted_def)
qed

text \<open>When the sort throws, the parent row has already been written: the dispatch returns the error
  and leaves behind one more transition, in state \<open>running\<close> with no completion time, a started task for
  a triggering user that nothing finishes, and no hook row for a later tick to retry.\<close>

theorem sort_error_leaves_running:
  assumes "o_hooks opts = None"
    and "topo_sort_for_transition (o_transition opts) (list_hooks reg) = Inl e"
  shows "\<exists>s' p. run_transition env reg opts s = (Inl e, s')
    \<and> trs s' = trs s @ [p] \<and> tr_id p = env_uuid env (ids s) \<and> tr_state p = TRunning \<and> tr_completed p = None
    \<and> runs s' = runs s \<and> world s' = world s
    \<and> tasks s' = tasks s @ (case triggering_user opts of None \<Rightarrow> []
         | Some u \<Rightarrow> [TaskStart (tr_id p) u (o_tenant opts) (o_parent_task opts)])"
  using assms
  by (auto simp: run_transition_def fresh_uuid_def read_clock_def insert_parent_def Let_def split: option.split)

definition ex_bad_reg :: "nat registry" where
  "ex_bad_reg = [(''b'', ex_hook 1 ''b'' 10 ''continue'' [''zz''] HOk)]"

lemma ex_bad_sort: "\<exists>e. topo_sort_for_transition Suspended (list_hooks ex_bad_reg) = Inl e"
  using topo_sort_unknown [of Suspended "list_hooks ex_bad_reg"]
  by (auto simp: ex_bad_reg_def list_hooks_def ex_hook_def deps_of_def)

theorem sort_error_leaves_running_witness:
  "\<exists>e s' p. run_transition ex_env ex_bad_reg ex_opts (sst (empty_sched 0)) = (Inl e, s')
     \<and> trs s' = [p] \<and> tr_state p = TRunning"
proof -
  obtain e where e: "topo_sort_for_transition Suspended (list_hooks ex_bad_reg) = Inl e" using ex_bad_sort ..
  then have "topo_sort_for_transition (o_transition ex_opts) (list_hooks ex_bad_reg) = Inl e" by (simp add: ex_opts_ok)
  from sort_error_leaves_running [OF ex_opts_ok(3) this, of ex_env "sst (empty_sched 0)"]
  show ?thesis by (auto simp: empty_sched_def)
qed

section \<open>Every reachable state\<close>

text \<open>C23: In every state reachable from empty tables by dispatches, retry ticks, bulk tags, breaker
  resets and outside changes of the world, in any order: ids are unique and come from the supply, no
  hook row is left running, attempts stay within the row's budget (one attempt is always made), and
  a completed transition has only rows that ended ok or noop.\<close>

theorem reachable_lifecycle_inv:
  assumes "reachable env s" and "inj (env_uuid env)"
  shows "lifecycle_inv env (sst s)"
  using assms by (rule reachable_inv)

lemma ex_dispatched:
  obtains res st where "run_transition ex_env ex_reg ex_opts (sst (empty_sched (0 :: nat))) = (Inr res, st)"
    "transition_outcome [] [(''a'', RFailed, 1, True), (''b'', RPending, 0, False), (''c'', RPending, 0, False)]
       \<lparr>c_ok = 0, c_failed = 1, c_aborted = True\<rparr> 1 (sst (empty_sched (0 :: nat))) st"
    "reachable ex_env ((empty_sched (0 :: nat))\<lparr>sst := st\<rparr>)"
proof -
  have s0: "ids (sst (empty_sched (0 :: nat))) = 0" "world (sst (empty_sched (0 :: nat))) = 0"
    by (simp_all add: empty_sched_def)
  have uid: "env_uuid ex_env 0 = []" by (simp add: ex_env_def)
  have ne: "ex_sorted \<noteq> []" and d: "distinct (map hname ex_sorted)" by (simp_all add: ex_sorted_def ex_hook_def)
  have hooks: "(case o_hooks ex_opts of Some hs \<Rightarrow> Inr hs
     | None \<Rightarrow> topo_sort_for_transition (o_transition ex_opts) (list_hooks ex_reg)) = Inr ex_sorted"
    using ex_reg_sorted ex_opts_ok by simp
  have "fresh_ids ex_env (sst (empty_sched (0 :: nat)))"
    using ex_state_inv by (simp add: lifecycle_inv_def ids_inv_fresh)
  from run_transition_hooks [OF this d ne ex_opts_ok(2) hooks, unfolded s0, OF ex_spec_run]
  obtain res st where run: "run_transition ex_env ex_reg ex_opts (sst (empty_sched (0 :: nat))) = (Inr res, st)"
    and out: "transition_outcome [] [(''a'', RFailed, 1, True), (''b'', RPending, 0, False), (''c'', RPending, 0, False)]
       \<lparr>c_ok = 0, c_failed = 1, c_aborted = True\<rparr> 1 (sst (empty_sched (0 :: nat))) st"
    unfolding uid by auto
  have "lstep ex_env (empty_sched 0) ((empty_sched (0 :: nat))\<lparr>sst := st\<rparr>)"
    using ex_reg_ok ex_opts_ok(1) run by (rule lstep.dispatch)
  then have "reachable ex_env ((empty_sched (0 :: nat))\<lparr>sst := st\<rparr>)"
    by (rule reachable.step [OF reachable.init])
  with that run out show ?thesis by blast
qed

theorem reachable_lifecycle_inv_witness:
  "\<exists>s :: nat sched. reachable ex_env s \<and> length (runs (sst s)) = 3 \<and> lifecycle_inv ex_env (sst s)"
proof -
  obtain res st where st: "transition_outcome [] [(''a'', RFailed, 1, True), (''b'', RPending, 0, False), (''c'', RPending, 0, False)]
       \<lparr>c_ok = 0, c_failed = 1, c_aborted = True\<rparr> 1 (sst (empty_sched (0 :: nat))) st"
    "reachable ex_env ((empty_sched (0 :: nat))\<lparr>sst := st\<rparr>)" using ex_dispatched by metis
  have "length (filter (\<lambda>r. hr_transition r = []) (runs st)) = 3"
    using st(1) unfolding transition_outcome_def by (metis length_map length_Cons list.size(3) numeral_3_eq_3)
  moreover have "length (filter (\<lambda>r. hr_transition r \<noteq> []) (runs st)) = 0"
    using st(1) by (simp add: transition_outcome_def empty_sched_def)
  ultimately have "length (runs st) = 3"
    using sum_length_filter_compl [of "\<lambda>r. hr_transition r = []" "runs st"] by simp
  with reachable_lifecycle_inv [OF st(2) ex_env_inj] st(2) show ?thesis by auto
qed

text \<open>C24: A pending row is never picked up again. Once a reachable state has a row left pending (after
  a blocking failure), no sequence of dispatches, ticks, tags and resets ever changes that row, and
  its transition is never completed; the comments of the dispatcher and of the hook types say the
  scheduler resumes it.\<close>

theorem pending_rows_are_stuck:
  assumes "reachable env s" and "inj (env_uuid env)"
    and "r \<in> set (runs (sst s))" and "hr_state r = RPending" and "(lstep env)\<^sup>*\<^sup>* s s'"
  shows "r \<in> set (runs (sst s'))
    \<and> (\<forall>t \<in> set (trs (sst s')). tr_id t = hr_transition r \<longrightarrow> tr_state t \<noteq> TCompleted)"
proof -
  have "r \<in> set (runs (sst s')) \<and> lifecycle_inv env (sst s')"
    using lsteps_keep_row [OF assms(5) reachable_inv [OF assms(1,2)] assms(3)] assms(4) by simp
  with assms(4) show ?thesis unfolding lifecycle_inv_def completed_ok_def by fastforce
qed

theorem pending_rows_are_stuck_witness:
  "\<exists>(s :: nat sched) r s'. reachable ex_env s \<and> r \<in> set (runs (sst s)) \<and> hr_state r = RPending
     \<and> lstep ex_env s s' \<and> r \<in> set (runs (sst s'))"
proof -
  obtain res st where st: "transition_outcome [] [(''a'', RFailed, 1, True), (''b'', RPending, 0, False), (''c'', RPending, 0, False)]
       \<lparr>c_ok = 0, c_failed = 1, c_aborted = True\<rparr> 1 (sst (empty_sched (0 :: nat))) st"
    "reachable ex_env ((empty_sched (0 :: nat))\<lparr>sst := st\<rparr>)" using ex_dispatched by metis
  let ?s = "(empty_sched (0 :: nat))\<lparr>sst := st\<rparr>"
  have "set (map view_of (filter (\<lambda>r. hr_transition r = []) (runs st)))
      = set [(''a'', RFailed, 1, True), (''b'', RPending, 0, False), (''c'', RPending, 0, False)]"
    using st(1) by (simp only: transition_outcome_def)
  then have "(''b'', RPending, 0, False) \<in> view_of ` set (filter (\<lambda>r. hr_transition r = []) (runs st))" by simp
  then obtain r where r: "r \<in> set (runs (sst ?s))" "hr_state r = RPending" by (auto simp: view_of_def)
  have "lstep ex_env ?s (?s\<lparr>sst := (sst ?s)\<lparr>world := 7\<rparr>\<rparr>)" by (rule lstep.outside)
  with pending_rows_are_stuck [OF st(2) ex_env_inj r r_into_rtranclp, OF this] st(2) r show ?thesis by blast
qed

section \<open>A retry tick\<close>

text \<open>A tick handles at most 50 rows and accounts for each of them exactly once (succeeded, retried
  later, failed for good, or skipped by an open breaker); rows that are not candidates are left
  exactly as they were, and a candidate is attempted at most once and keeps its ids and its budget.\<close>

theorem tick_accounts_and_touches_only_candidates:
  assumes "lifecycle_inv env (sst s)" and "run_retry_tick env tenant_ns reg s = ((n, c), s')"
  shows "n \<le> 50 \<and> t_succeeded c + t_retried c + t_permanent c + t_skipped c = n
    \<and> list_all2 (tick_row (candidates (env_clock env (ticks (sst s))) s)) (runs (sst s)) (runs (sst s'))"
proof -
  obtain s1 where clk: "with_clock env s = (env_clock env (ticks (sst s)), s1)"
    by (simp add: with_clock_def read_clock_def)
  let ?cs = "candidates (env_clock env (ticks (sst s))) s1"
  let ?c0 = "\<lparr>t_succeeded = 0, t_retried = 0, t_permanent = 0, t_skipped = 0\<rparr>"
  have "n = length ?cs \<and> c = snd (fold (retry_row env tenant_ns (by_name (list_hooks reg))) ?cs (s1, ?c0))"
    using assms(2) clk by (auto simp: run_retry_tick_def Let_def split: prod.splits)
  moreover have "length ?cs \<le> 50" by (simp add: candidates_def)
  ultimately show ?thesis
    using retry_fold_total [of env tenant_ns "by_name (list_hooks reg)" ?cs "(s1, ?c0)"]
      run_retry_tick_inv [OF assms] by (simp add: t_total_def)
qed

theorem tick_accounts_and_touches_only_candidates_witness:
  "\<exists>n c s'. run_retry_tick ex_env (\<lambda>_ _. None) ex_reg (empty_sched (0 :: nat)) = ((n, c), s') \<and> n = 0
     \<and> t_succeeded c = 0 \<and> runs (sst s') = []"
proof -
  obtain n c s' where tick: "run_retry_tick ex_env (\<lambda>_ _. None) ex_reg (empty_sched (0 :: nat)) = ((n, c), s')"
    by (metis prod_cases3 surj_pair)
  have "n = 0" using tick
    by (auto simp: run_retry_tick_def candidates_def empty_sched_def with_clock_def read_clock_def Let_def)
  moreover have "runs (sst (empty_sched (0 :: nat))) = []" by (simp add: empty_sched_def)
  ultimately show ?thesis
    using tick_accounts_and_touches_only_candidates [OF ex_state_inv tick] tick by auto
qed

text \<open>The retry that succeeds last completes the transition. When the hook of a candidate whose
  breaker is closed returns \<open>ok\<close> or \<open>noop\<close> and every other row of its transition is settled, the
  row ends \<open>ok\<close> or \<open>noop\<close>, the transition is completed, and the hook's breaker forgets its
  failures.\<close>

definition settled_state :: "run_state \<Rightarrow> bool" where
  "settled_state st = (st \<noteq> RFailed \<and> st \<noteq> RPending)"

theorem last_retry_completes:
  assumes "js_get (hr_hook row) by_hook = Some h" and "is_breaker_open env (hname h) s = (False, s0)"
    and "find (\<lambda>t. tr_id t = hr_transition row) (trs (sst s)) = Some p"
    and "\<And>ctx w. fst (hrun h ctx w) = Returned st e" and "st = HOk \<or> st = HNoop"
    and "\<forall>r \<in> set (runs (sst s)). hr_transition r = tr_id p \<and> hr_id r \<noteq> hr_id row \<longrightarrow> settled_state (hr_state r)"
    and "retry_row env tenant_ns by_hook row (s, c) = (s', c')"
  shows "c' = c\<lparr>t_succeeded := Suc (t_succeeded c)\<rparr>
    \<and> (\<forall>r \<in> set (runs (sst s')). hr_id r = hr_id row \<longrightarrow>
          hr_state r = (if st = HOk then ROk else RNoop) \<and> hr_attempts r = hr_attempts row + 1 \<and> hr_next r = None)
    \<and> (\<forall>t \<in> set (trs (sst s')). tr_id t = tr_id p \<longrightarrow> tr_state t = TCompleted \<and> tr_completed t \<noteq> None)
    \<and> (\<forall>b. js_get (hname h) (breakers s') = Some b \<longrightarrow> recent_failures b = [] \<and> open_until b = 0)"
proof -
  have s0: "runs (sst s0) = runs (sst s)" "trs (sst s0) = trs (sst s)"
    using assms(2) by (auto simp: is_breaker_open_def with_clock_def read_clock_def split: option.splits)
  define t0 where "t0 = env_clock env (ticks (sst s0))"
  obtain s1 where clk: "with_clock env s0 = (t0, s1)" by (simp add: with_clock_def read_clock_def t0_def)
  have s1: "runs (sst s1) = runs (sst s)" "trs (sst s1) = trs (sst s)"
    using clk s0 by (metis sst_lemmas snd_conv)+
  define s2 where "s2 = upd_run (hr_id row)
    (\<lambda>r. r\<lparr>hr_state := RRunning, hr_attempts := hr_attempts row + 1, hr_started := Some t0\<rparr>) s1"
  define ctx where "ctx = \<lparr>ctx_tenant = tr_tenant p, ctx_namespace = retry_namespace tenant_ns p (world (sst s2)),
     ctx_transition_id = tr_id p, ctx_transition = tr_kind p, ctx_attempt = hr_attempts row + 1\<rparr>"
  obtain w where run: "hrun h ctx (world (sst s2)) = (Returned st e, w)"
    using assms(4) by (metis prod.collapse)
  obtain t1 s4 where clk2: "with_clock env (s2\<lparr>sst := (sst s2)\<lparr>world := w\<rparr>\<rparr>) = (t1, s4)" by fastforce
  then have s4: "runs (sst s4) = runs (sst s2)" "trs (sst s4) = trs (sst s)"
    using s1 by (auto simp: with_clock_def read_clock_def s2_def upd_run_def)
  define f :: "hook_run_row \<Rightarrow> hook_run_row" where
    "f = (\<lambda>r. r\<lparr>hr_state := (if st = HOk then ROk else RNoop), hr_completed := Some t1,
      hr_error := None, hr_next := None\<rparr>)"
  define s5 where "s5 = upd_run (hr_id row) f (s4\<lparr>breakers := record_success (hname h) (breakers s4)\<rparr>)"
  have s': "s' = reevaluate (tr_id p) t1 s5" "c' = c\<lparr>t_succeeded := Suc (t_succeeded c)\<rparr>"
    using assms(1,2,3,5,7) s0 clk clk2 run
    by (simp_all add: retry_row_def attempt_hook_def s2_def [symmetric] ctx_def [symmetric] retry_result_def
        f_def s5_def Let_def)
  have rows: "\<forall>r \<in> set (runs (sst s5)).
      (hr_id r = hr_id row \<longrightarrow> hr_state r = (if st = HOk then ROk else RNoop)
         \<and> hr_attempts r = hr_attempts row + 1 \<and> hr_next r = None)
      \<and> (hr_transition r = tr_id p \<longrightarrow> settled_state (hr_state r))"
    using assms(5,6) s1
    by (auto simp: s5_def upd_run_def update_run_def s4 s2_def f_def settled_state_def)
  then have s5: "sst s' = update_tr (tr_id p) (\<lambda>r. r\<lparr>tr_state := TCompleted, tr_completed := Some t1\<rparr>) (sst s5)"
    "breakers s' = breakers s5"
    unfolding s'(1) by (auto simp: reevaluate_def settled_state_def)
  have "\<forall>b. js_get (hname h) (breakers s5) = Some b \<longrightarrow> recent_failures b = [] \<and> open_until b = 0"
    by (auto simp: s5_def upd_run_def record_success_def js_get_update split: option.split)
  moreover have "runs (update_tr (tr_id p) g (sst s5)) = runs (sst s5)" for g by (simp add: update_tr_def)
  ultimately show ?thesis using rows s5 s'(2) by (auto simp: update_tr_def)
qed

definition ex_failed :: "nat sched" where
  "ex_failed = \<lparr>sst = \<lparr>
      trs = [\<lparr>tr_id = ''T'', tr_tenant = ''t1'', tr_kind = Suspended, tr_from = None, tr_to = ''suspended'',
        tr_user = None, tr_state = TFailedPartial, tr_started = 0, tr_completed = Some 1,
        tr_namespace = Some ''ns'', tr_detail = None\<rparr>],
      runs = [\<lparr>hr_id = ''R'', hr_transition = ''T'', hr_hook = ''b'', hr_order = 0, hr_blocking = ''continue'',
        hr_state = RFailed, hr_attempts = 1, hr_max = 5, hr_error = None, hr_started = Some 0,
        hr_completed = Some 1, hr_next = Some 2\<rparr>],
      tasks = [], world = 0, ticks = 0, ids = 0\<rparr>, breakers = [], notices = []\<rparr>"

theorem last_retry_completes_witness:
  "\<exists>s' c'. retry_row ex_env (\<lambda>_ _. None) (by_name (list_hooks ex_reg)) (hd (runs (sst ex_failed)))
       (ex_failed, \<lparr>t_succeeded = 0, t_retried = 0, t_permanent = 0, t_skipped = 0\<rparr>) = (s', c')
     \<and> t_succeeded c' = 1 \<and> (\<forall>t \<in> set (trs (sst s')). tr_id t = ''T'' \<longrightarrow> tr_state t = TCompleted)"
proof -
  let ?row = "hd (runs (sst ex_failed))"
  let ?c = "\<lparr>t_succeeded = 0, t_retried = 0, t_permanent = 0, t_skipped = 0\<rparr>"
  let ?h = "ex_hook 1 ''b'' 10 ''continue'' [''a''] HOk"
  let ?p = "hd (trs (sst ex_failed))"
  obtain s' c' where run: "retry_row ex_env (\<lambda>_ _. None) (by_name (list_hooks ex_reg)) ?row (ex_failed, ?c) = (s', c')"
    by fastforce
  have 1: "js_get (hr_hook ?row) (by_name (list_hooks ex_reg)) = Some ?h"
    by (simp add: ex_failed_def by_name_def list_hooks_def ex_reg_def ex_hook_def js_get_def)
  have 2: "is_breaker_open ex_env (hname ?h) ex_failed = (False, ex_failed)"
    by (simp add: is_breaker_open_def ex_failed_def)
  have 3: "find (\<lambda>t. tr_id t = hr_transition ?row) (trs (sst ex_failed)) = Some ?p"
    by (simp add: ex_failed_def)
  have 4: "fst (hrun ?h ctx w) = Returned HOk None" for ctx w by (simp add: ex_hook_def)
  have 5: "\<forall>r \<in> set (runs (sst ex_failed)). hr_transition r = tr_id ?p \<and> hr_id r \<noteq> hr_id ?row
      \<longrightarrow> settled_state (hr_state r)" by (simp add: ex_failed_def)
  from last_retry_completes [OF 1 2 3 4 _ 5 run] run show ?thesis by (auto simp: ex_failed_def)
qed

section \<open>The circuit breaker\<close>

abbreviation record_failures :: "string \<Rightarrow> int list \<Rightarrow> breakers \<Rightarrow> breakers" where
  "record_failures h ts bs \<equiv> fold (\<lambda>t. record_failure_at t h) ts bs"

lemma record_failures_recent:
  assumes "sorted ts" and "ts \<noteq> []" and "last ts - CIRCUIT_BREAKER_WINDOW_MS \<le> m"
  shows "\<exists>b. js_get h (record_failures h ts bs) = Some b
    \<and> length (filter (\<lambda>u. m < u) ts) \<le> length (filter (\<lambda>u. m < u) (recent_failures b))
    \<and> (length (recent_failures b) \<ge> 5 \<longrightarrow> open_until b = last ts + CIRCUIT_BREAKER_COOLOFF_MS)"
  using assms
proof (induction ts rule: rev_induct)
  case (snoc t ts)
  let ?bs = "record_failures h ts bs"
  have get: "js_get h (record_failures h (ts @ [t]) bs) = Some \<lparr>recent_failures = window_failures t h ?bs @ [t],
      open_until = (if length (window_failures t h ?bs) \<ge> 4 then t + CIRCUIT_BREAKER_COOLOFF_MS
        else case js_get h ?bs of None \<Rightarrow> 0 | Some b \<Rightarrow> open_until b)\<rparr>"
    by (simp add: record_failure_get)
  have "length (filter (\<lambda>u. m < u) ts) \<le> length (filter (\<lambda>u. m < u) (window_failures t h ?bs))"
  proof (cases "ts = []")
    case False
    have "last ts - CIRCUIT_BREAKER_WINDOW_MS \<le> m"
      using snoc.prems False by (auto simp: sorted_append) (smt (verit) last_in_set)
    then obtain b where b: "js_get h ?bs = Some b"
      "length (filter (\<lambda>u. m < u) ts) \<le> length (filter (\<lambda>u. m < u) (recent_failures b))"
      using snoc.IH snoc.prems(1) False by (auto simp: sorted_append)
    have "filter (\<lambda>u. m < u) (window_failures t h ?bs) = filter (\<lambda>u. m < u) (recent_failures b)"
      using snoc.prems(3) by (auto simp: window_failures_def b(1) intro!: filter_cong)
    with b(2) show ?thesis by simp
  qed simp
  with get show ?case by simp
qed simp

text \<open>Five failures of a hook inside the ten-minute window open its breaker for the ten minutes
  after the last of them, whatever happened before; the breakers of other hooks do not change.\<close>

theorem breaker_opens_on_burst:
  assumes "sorted ts" and "5 \<le> length ts" and "last ts - hd ts < CIRCUIT_BREAKER_WINDOW_MS"
    and "now < last ts + CIRCUIT_BREAKER_COOLOFF_MS"
  shows "is_breaker_open_at now h (record_failures h ts bs)
    \<and> (g \<noteq> h \<longrightarrow> js_get g (record_failures h ts bs) = js_get g bs)"
proof
  have ne: "ts \<noteq> []" using assms(2) by auto
  have all: "\<forall>u \<in> set ts. last ts - CIRCUIT_BREAKER_WINDOW_MS < u"
  proof
    fix u assume "u \<in> set ts"
    then have "hd ts \<le> u" using assms(1) ne by (cases ts) auto
    then show "last ts - CIRCUIT_BREAKER_WINDOW_MS < u" using assms(3) by linarith
  qed
  from record_failures_recent [OF assms(1) ne order_refl, of h bs] obtain b where
    b: "js_get h (record_failures h ts bs) = Some b"
    "length (filter (\<lambda>u. last ts - CIRCUIT_BREAKER_WINDOW_MS < u) ts)
       \<le> length (filter (\<lambda>u. last ts - CIRCUIT_BREAKER_WINDOW_MS < u) (recent_failures b))"
    "length (recent_failures b) \<ge> 5 \<longrightarrow> open_until b = last ts + CIRCUIT_BREAKER_COOLOFF_MS" by blast
  have eq: "filter (\<lambda>u. last ts - CIRCUIT_BREAKER_WINDOW_MS < u) ts = ts" using all by simp
  have "length ts \<le> length (recent_failures b)"
    using b(2) unfolding eq by (rule le_trans) (rule length_filter_le)
  then show "is_breaker_open_at now h (record_failures h ts bs)"
    using b assms(2,4) by (simp add: is_breaker_open_at_def)
  show "g \<noteq> h \<longrightarrow> js_get g (record_failures h ts bs) = js_get g bs"
    by (induction ts arbitrary: bs) (simp_all add: record_failure_other)
qed

theorem breaker_opens_on_burst_witness:
  "is_breaker_open_at 1000 ''b'' (record_failures ''b'' [1, 2, 3, 4, 5] [])"
  using breaker_opens_on_burst [of "[1, 2, 3, 4, 5]" 1000 "''b''" "[]" "''c''"]
  by (simp add: CIRCUIT_BREAKER_WINDOW_MS_def CIRCUIT_BREAKER_COOLOFF_MS_def)

text \<open>While the breaker of its hook is open, a candidate is skipped: no row, no transition and
  nothing of the world changes, and the candidate stays due for the next tick.\<close>

theorem open_breaker_skips:
  assumes "js_get (hr_hook row) by_hook = Some h" and "row \<in> set (runs (sst s))" and "due now row"
    and "is_breaker_open_at (env_clock env (ticks (sst s))) (hname h) (breakers s)"
    and "retry_row env tenant_ns by_hook row (s, c) = (s', c')"
  shows "c' = c\<lparr>t_skipped := Suc (t_skipped c)\<rparr> \<and> runs (sst s') = runs (sst s)
    \<and> trs (sst s') = trs (sst s) \<and> world (sst s') = world (sst s) \<and> row \<in> set (filter (due now) (runs (sst s')))"
  using retry_row_open [OF assms(1,4), of tenant_ns c] assms(2,3,5) by auto

theorem open_breaker_skips_witness:
  "\<exists>s' c'. retry_row ex_env (\<lambda>_ _. None) (by_name (list_hooks ex_reg)) (hd (runs (sst ex_failed)))
      (ex_failed\<lparr>breakers := [(''b'', \<lparr>recent_failures = [], open_until = 9\<rparr>)]\<rparr>,
       \<lparr>t_succeeded = 0, t_retried = 0, t_permanent = 0, t_skipped = 0\<rparr>) = (s', c') \<and> t_skipped c' = 1"
proof -
  let ?row = "hd (runs (sst ex_failed))"
  let ?c = "\<lparr>t_succeeded = 0, t_retried = 0, t_permanent = 0, t_skipped = 0\<rparr>"
  let ?h = "ex_hook 1 ''b'' 10 ''continue'' [''a''] HOk"
  let ?s = "ex_failed\<lparr>breakers := [(''b'', \<lparr>recent_failures = [], open_until = 9\<rparr>)]\<rparr>"
  obtain s' c' where run: "retry_row ex_env (\<lambda>_ _. None) (by_name (list_hooks ex_reg)) ?row (?s, ?c) = (s', c')"
    by fastforce
  have 1: "js_get (hr_hook ?row) (by_name (list_hooks ex_reg)) = Some ?h"
    by (simp add: ex_failed_def by_name_def list_hooks_def ex_reg_def ex_hook_def js_get_def)
  have 2: "?row \<in> set (runs (sst ?s))" "due 3 ?row" by (simp_all add: ex_failed_def due_def)
  have 3: "is_breaker_open_at (env_clock ex_env (ticks (sst ?s))) (hname ?h) (breakers ?s)"
    by (simp add: is_breaker_open_at_def ex_failed_def ex_env_def ex_hook_def js_get_def)
  from open_breaker_skips [OF 1 2 3 run] run show ?thesis by auto
qed

end
