(* ===== verification/SqlSplitter.thy ===== *)
theory SqlSplitter
  imports Prelude
begin

text \<open>
  The statement splitter of the migration runner (\<open>db/sql-splitter.ts\<close>). The scanner is the code's
  loop on the remaining input; the specification is a list of lexical pieces with their rendering.
\<close>

section \<open>The scanner\<close>

text \<open>The code keeps \<open>dollarTag\<close> beside the mode; it is \<open>$name$\<close> exactly while the mode is
  \<open>dollar-quote\<close>, so the mode carries the name here.\<close>

datatype mode = Normal | LineComment | BlockComment | SingleQuote | DoubleQuote | DollarQuote string

definition SQ :: char where "SQ = CHR 0x27"
definition DQ :: char where "DQ = CHR 0x22"
definition NL :: char where "NL = CHR 0x0A"

definition is_tag_char :: "char \<Rightarrow> bool" where
  "is_tag_char c = (is_alnum c \<or> c = CHR ''_'')"

definition dollar_tag :: "string \<Rightarrow> string" where
  "dollar_tag n = CHR ''$'' # n @ ''$''"

text \<open>The look-ahead at a \<open>$\<close>: the tag name, when a closing \<open>$\<close> follows it.\<close>

definition tag_name :: "string \<Rightarrow> string option" where
  "tag_name rest =
     (let n = takeWhile is_tag_char rest in
      if starts_with (drop (length n) rest) ''$'' then Some n else None)"

definition push_trimmed :: "string \<Rightarrow> string list \<Rightarrow> string list" where
  "push_trimmed current stmts =
     (let t = js_trim current in if length t > 0 then stmts @ [t] else stmts)"

function split_loop :: "mode \<Rightarrow> string \<Rightarrow> string list \<Rightarrow> string \<Rightarrow> string list" where
  "split_loop m cur stmts [] = push_trimmed cur stmts"
| "split_loop Normal cur stmts (c # rest) =
     (if c = CHR ''-'' \<and> starts_with rest ''-'' then split_loop LineComment cur stmts (drop 1 rest)
      else if c = CHR ''/'' \<and> starts_with rest ''*'' then split_loop BlockComment cur stmts (drop 1 rest)
      else if c = SQ then split_loop SingleQuote (cur @ [c]) stmts rest
      else if c = DQ then split_loop DoubleQuote (cur @ [c]) stmts rest
      else if c = CHR ''$'' \<and> tag_name rest \<noteq> None then
        (let n = the (tag_name rest) in
         split_loop (DollarQuote n) (cur @ dollar_tag n) stmts (drop (Suc (length n)) rest))
      else if c = CHR '';'' then split_loop Normal [] (push_trimmed cur stmts) rest
      else split_loop Normal (cur @ [c]) stmts rest)"
| "split_loop LineComment cur stmts (c # rest) =
     (if c = NL then split_loop Normal (cur @ [NL]) stmts rest
      else split_loop LineComment cur stmts rest)"
| "split_loop BlockComment cur stmts (c # rest) =
     (if c = CHR ''*'' \<and> starts_with rest ''/'' then split_loop Normal cur stmts (drop 1 rest)
      else split_loop BlockComment cur stmts rest)"
| "split_loop SingleQuote cur stmts (c # rest) =
     (if c = SQ then
        (if starts_with rest [SQ] then split_loop SingleQuote (cur @ [c, SQ]) stmts (drop 1 rest)
         else split_loop Normal (cur @ [c]) stmts rest)
      else split_loop SingleQuote (cur @ [c]) stmts rest)"
| "split_loop DoubleQuote cur stmts (c # rest) =
     (if c = DQ then
        (if starts_with rest [DQ] then split_loop DoubleQuote (cur @ [c, DQ]) stmts (drop 1 rest)
         else split_loop Normal (cur @ [c]) stmts rest)
      else split_loop DoubleQuote (cur @ [c]) stmts rest)"
| "split_loop (DollarQuote n) cur stmts (c # rest) =
     (if c = CHR ''$'' \<and> starts_with (c # rest) (dollar_tag n) then
        split_loop Normal (cur @ dollar_tag n) stmts (drop (length (dollar_tag n)) (c # rest))
      else split_loop (DollarQuote n) (cur @ [c]) stmts rest)"
  by pat_completeness auto
termination
  by (relation "measure (\<lambda>(m, cur, stmts, rest). length rest)") (auto simp: dollar_tag_def)

definition split_sql_statements :: "string \<Rightarrow> string list" where
  "split_sql_statements sql = split_loop Normal [] [] sql"

section \<open>Lexical pieces\<close>

datatype piece =
    Plain char
  | LineC string
  | BlockC string
  | QuotedS string
  | QuotedD string
  | Dollar string string
  | Semi

text \<open>A quoted body is rendered with its quote doubled.\<close>

fun escape :: "char \<Rightarrow> string \<Rightarrow> string" where
  "escape q [] = []"
| "escape q (c # cs) = (if c = q then q # q # escape q cs else c # escape q cs)"

fun render :: "piece \<Rightarrow> string" where
  "render (Plain c) = [c]"
| "render (LineC s) = ''--'' @ s @ [NL]"
| "render (BlockC s) = ''/*'' @ s @ ''*/''"
| "render (QuotedS s) = SQ # escape SQ s @ [SQ]"
| "render (QuotedD s) = DQ # escape DQ s @ [DQ]"
| "render (Dollar n s) = dollar_tag n @ s @ dollar_tag n"
| "render Semi = '';''"

definition render_all :: "piece list \<Rightarrow> string" where
  "render_all ps = concat (map render ps)"

text \<open>What of a piece reaches the statement: comments vanish, a line comment leaves its newline.\<close>

fun kept :: "piece \<Rightarrow> string" where
  "kept (LineC s) = [NL]"
| "kept (BlockC s) = []"
| "kept p = render p"

fun statements_from :: "string \<Rightarrow> piece list \<Rightarrow> string list" where
  "statements_from cur [] = push_trimmed cur []"
| "statements_from cur (Semi # ps) = push_trimmed cur [] @ statements_from [] ps"
| "statements_from cur (p # ps) = statements_from (cur @ kept p) ps"

text \<open>The pieces a rendering is read back as: no plain character that would start another piece, no
  comment or dollar body that closes early, no quote directly after a quoted piece.\<close>

fun occurs :: "string \<Rightarrow> string \<Rightarrow> bool" where
  "occurs p [] = (p = [])"
| "occurs p (c # cs) = (starts_with (c # cs) p \<or> occurs p cs)"

fun closes_early :: "string \<Rightarrow> string \<Rightarrow> bool" where
  "closes_early tag [] = False"
| "closes_early tag (c # cs) = (starts_with ((c # cs) @ tag) tag \<or> closes_early tag cs)"

fun piece_ok :: "piece \<Rightarrow> string \<Rightarrow> bool" where
  "piece_ok (Plain c) rest =
     (c \<noteq> SQ \<and> c \<noteq> DQ \<and> c \<noteq> CHR '';'' \<and> \<not> (c = CHR ''-'' \<and> starts_with rest ''-'')
      \<and> \<not> (c = CHR ''/'' \<and> starts_with rest ''*'') \<and> \<not> (c = CHR ''$'' \<and> tag_name rest \<noteq> None))"
| "piece_ok (LineC s) rest = (NL \<notin> set s)"
| "piece_ok (BlockC s) rest = (\<not> occurs ''*/'' s)"
| "piece_ok (QuotedS s) rest = (\<not> starts_with rest [SQ])"
| "piece_ok (QuotedD s) rest = (\<not> starts_with rest [DQ])"
| "piece_ok (Dollar n s) rest = (list_all is_tag_char n \<and> \<not> closes_early (dollar_tag n) s)"
| "piece_ok Semi rest = True"

fun pieces_ok :: "piece list \<Rightarrow> bool" where
  "pieces_ok [] = True"
| "pieces_ok (p # ps) = (piece_ok p (render_all ps) \<and> pieces_ok ps)"

section \<open>The scanner reads the pieces\<close>

named_theorems scan "one step of the scanner per piece"

lemma sql_chars [simp]:
  "SQ \<noteq> DQ" "DQ \<noteq> SQ" "SQ \<noteq> NL" "SQ \<noteq> CHR ''-''" "SQ \<noteq> CHR ''/''" "SQ \<noteq> CHR ''$''" "SQ \<noteq> CHR '';''"
  "DQ \<noteq> CHR ''-''" "DQ \<noteq> CHR ''/''" "DQ \<noteq> CHR ''$''" "DQ \<noteq> CHR '';''"
  "CHR '';'' \<noteq> SQ" "CHR '';'' \<noteq> DQ" "CHR ''$'' \<noteq> SQ" "CHR ''$'' \<noteq> DQ"
  "CHR ''-'' \<noteq> SQ" "CHR ''/'' \<noteq> SQ"
  by (simp_all add: SQ_def DQ_def NL_def)

lemma starts_with_Cons [simp]: "starts_with (x # xs) (y # ys) = (x = y \<and> starts_with xs ys)"
  by (auto simp: starts_with_def)

lemma starts_with_Nil [simp]: "starts_with xs []" "starts_with [] (y # ys) = False"
  by (simp_all add: starts_with_def)

lemma scan_line [scan]:
  "NL \<notin> set s \<Longrightarrow> split_loop LineComment cur stmts (s @ NL # rest) = split_loop Normal (cur @ [NL]) stmts rest"
  by (induction s) auto

lemma scan_block [scan]:
  "\<not> occurs ''*/'' s \<Longrightarrow>
     split_loop BlockComment cur stmts (s @ CHR ''*'' # CHR ''/'' # rest) = split_loop Normal cur stmts rest"
proof (induction s)
  case (Cons c s)
  have "\<not> (c = CHR ''*'' \<and> starts_with (s @ CHR ''*'' # CHR ''/'' # rest) ''/'')"
    using Cons.prems by (cases s) auto
  then show ?case using Cons by auto
qed simp

lemma scan_single [scan]:
  "\<not> starts_with rest [SQ] \<Longrightarrow>
     split_loop SingleQuote cur stmts (escape SQ s @ SQ # rest)
       = split_loop Normal (cur @ escape SQ s @ [SQ]) stmts rest"
  by (induction s arbitrary: cur) auto

lemma scan_double [scan]:
  "\<not> starts_with rest [DQ] \<Longrightarrow>
     split_loop DoubleQuote cur stmts (escape DQ s @ DQ # rest)
       = split_loop Normal (cur @ escape DQ s @ [DQ]) stmts rest"
  by (induction s arbitrary: cur) auto

lemma starts_with_append_long: "length p \<le> length a \<Longrightarrow> starts_with (a @ b) p = starts_with a p"
  by (simp add: starts_with_def)

lemma scan_dollar [scan]:
  "\<not> closes_early (dollar_tag n) s \<Longrightarrow>
     split_loop (DollarQuote n) cur stmts (s @ dollar_tag n @ rest)
       = split_loop Normal (cur @ s @ dollar_tag n) stmts rest"
proof (induction s arbitrary: cur)
  case Nil
  have "dollar_tag n @ rest = CHR ''$'' # n @ ''$'' @ rest" by (simp add: dollar_tag_def)
  then show ?case using starts_with_append [of "n @ ''$''" rest] by (simp add: dollar_tag_def)
next
  case (Cons c s)
  have "\<not> starts_with ((c # s) @ dollar_tag n @ rest) (dollar_tag n)"
    using Cons.prems starts_with_append_long [of "dollar_tag n" "(c # s) @ dollar_tag n" rest] by simp
  then show ?case using Cons by simp
qed

lemma takeWhile_tag: "list_all is_tag_char n \<Longrightarrow> takeWhile is_tag_char (n @ CHR ''$'' # rest) = n"
proof -
  have "\<not> is_tag_char (CHR ''$'')" by (simp add: is_tag_char_def is_alnum_def is_digit_def is_lower_def is_upper_def)
  moreover assume "list_all is_tag_char n"
  ultimately show ?thesis by (simp add: list_all_iff takeWhile_append)
qed

lemma tag_name_found: "list_all is_tag_char n \<Longrightarrow> tag_name (n @ CHR ''$'' # rest) = Some n"
  by (simp add: tag_name_def takeWhile_tag)

lemma scan_piece:
  assumes "piece_ok p rest"
  shows "split_loop Normal cur stmts (render p @ rest) =
    (if p = Semi then split_loop Normal [] (push_trimmed cur stmts) rest
     else split_loop Normal (cur @ kept p) stmts rest)"
  using assms
proof (cases p)
  case (Dollar n s)
  then have "split_loop Normal cur stmts (render p @ rest)
      = split_loop (DollarQuote n) (cur @ dollar_tag n) stmts (s @ dollar_tag n @ rest)"
    using assms tag_name_found [of n "s @ dollar_tag n @ rest"]
    by (simp add: dollar_tag_def)
  then show ?thesis using assms Dollar by (simp add: scan)
qed (auto simp: scan)

lemma push_trimmed_acc: "push_trimmed cur stmts = stmts @ push_trimmed cur []"
  by (simp add: push_trimmed_def Let_def)

lemma statements_from_Cons: "p \<noteq> Semi \<Longrightarrow> statements_from cur (p # ps) = statements_from (cur @ kept p) ps"
  by (cases p) simp_all

lemma split_loop_pieces:
  "pieces_ok ps \<Longrightarrow> split_loop Normal cur stmts (render_all ps) = stmts @ statements_from cur ps"
proof (induction ps arbitrary: cur stmts)
  case Nil
  show ?case using push_trimmed_acc [of cur stmts] by (simp add: render_all_def)
next
  case (Cons p ps)
  then have ok: "piece_ok p (render_all ps)" and IH: "\<And>cur stmts. split_loop Normal cur stmts (render_all ps)
      = stmts @ statements_from cur ps" by simp_all
  have "render_all (p # ps) = render p @ render_all ps" by (simp add: render_all_def)
  then show ?case
    using scan_piece [OF ok, of cur stmts] push_trimmed_acc [of cur stmts]
    by (cases "p = Semi") (simp_all add: IH statements_from_Cons)
qed

text \<open>The splitter reads a migration the way its lexical structure says. For any sequence of plain
  characters, comments, quoted strings, quoted identifiers, dollar-quoted blocks and terminators whose
  rendering is unambiguous, splitting the rendered text gives exactly the statements between the
  terminators: comments dropped (a line comment leaves its newline), quoted and dollar-quoted text
  kept character by character, semicolons inside any of them ignored, the statements trimmed and the
  empty ones left out.\<close>

theorem split_render:
  assumes "pieces_ok ps"
  shows "split_sql_statements (render_all ps) = statements_from [] ps"
  using split_loop_pieces [OF assms, of "[]" "[]"] by (simp add: split_sql_statements_def)

theorem split_render_witness:
  "split_sql_statements (render_all [Plain (CHR ''a''), QuotedS [CHR '';'', SQ], BlockC '' ; '', Semi, Plain (CHR '' ''),
      LineC ''x;'', Dollar ''f'' ''b;c'', Semi])
    = [CHR ''a'' # SQ # CHR '';'' # [SQ, SQ, SQ], ''$f$b;c$f$'']"
proof -
  have "pieces_ok [Plain (CHR ''a''), QuotedS [CHR '';'', SQ], BlockC '' ; '', Semi, Plain (CHR '' ''),
      LineC ''x;'', Dollar ''f'' ''b;c'', Semi]" by code_simp
  from split_render [OF this] show ?thesis
    by (simp add: SQ_def NL_def dollar_tag_def push_trimmed_def js_trim_def is_ws_def)
qed

text \<open>A block comment separates nothing. Whatever the two names around it, the splitter joins them
  into one word, where SQL reads a comment as white space: the statement that reaches the database is
  another one.\<close>

theorem block_comment_joins_words:
  assumes "list_all is_tag_char a" and "list_all is_tag_char b" and "a \<noteq> []" and "\<not> occurs ''*/'' s"
  shows "split_sql_statements (a @ ''/*'' @ s @ ''*/'' @ b) = [a @ b]"
proof -
  have tag: "c \<noteq> SQ \<and> c \<noteq> DQ \<and> c \<noteq> CHR '';'' \<and> c \<noteq> CHR ''-'' \<and> c \<noteq> CHR ''/'' \<and> c \<noteq> CHR ''$'' \<and> \<not> is_ws c"
    if "is_tag_char c" for c
    using that by (auto simp: is_tag_char_def is_alnum_def is_digit_def is_lower_def is_upper_def is_ws_def
        SQ_def DQ_def Let_def)
  let ?ps = "map Plain a @ BlockC s # map Plain b"
  have plain: "pieces_ok (map Plain xs @ ps)" if "list_all is_tag_char xs" "pieces_ok ps" for xs ps
    using that tag by (induction xs) auto
  have "pieces_ok (map Plain b)" using plain [OF assms(2), of "[]"] by simp
  then have ok: "pieces_ok ?ps" by (intro plain assms(1)) (simp add: assms(4))
  have from_plain: "statements_from cur (map Plain xs @ ps) = statements_from (cur @ xs) ps" for cur xs ps
    by (induction xs arbitrary: cur) simp_all
  have "render_all ?ps = a @ ''/*'' @ s @ ''*/'' @ b"
    by (simp add: render_all_def comp_def concat_map_singleton)
  moreover have "statements_from [] ?ps = push_trimmed (a @ b) []"
    using from_plain [of "[]" a "BlockC s # map Plain b"] from_plain [of a b "[]"] by simp
  moreover have "js_trim (a @ b) = a @ b"
    using assms(1,2) tag by (intro js_trim_no_ws) (auto simp: list_all_iff)
  ultimately show ?thesis
    using split_loop_pieces [OF ok, of "[]" "[]"] assms(3)
    by (simp add: split_sql_statements_def push_trimmed_def Let_def)
qed

theorem block_comment_joins_words_witness:
  "split_sql_statements ''DROP/* old */TABLE'' = [''DROPTABLE'']"
proof -
  have "list_all is_tag_char ''DROP''" "list_all is_tag_char ''TABLE''" "\<not> occurs ''*/'' '' old ''"
    by code_simp+
  from block_comment_joins_words [OF this(1,2) _ this(3)] show ?thesis by simp
qed

end
