(* ===== verification/JsRegex.thy ===== *)
theory JsRegex
  imports Prelude
begin

text \<open>
  The regular expressions of the source. \<open>rx_m\<close> lists the ways an expression can match a prefix
  of the input, in the order the language's backtracking matcher tries them (greedy repetition,
  left alternative first), each with the rest of the input and the captured groups; the first
  entry is the match the source sees. \<open>rx_full\<close> is \<open>/^...$/.exec\<close>, \<open>rx_search\<close> an unanchored
  \<open>exec\<close>. A repetition stops after an iteration that consumes nothing, as in the language.

  For expressions without look-ahead the matcher is proved to accept exactly the language of
  the expression, so every name and token rule of the components can be read as a set of strings.
\<close>

datatype rx =
    REps
  | RCls "char \<Rightarrow> bool"
  | RSeq rx rx
  | RAlt rx rx
  | RStar rx
  | RUpTo nat rx
  | RGrp nat rx
  | RLook rx

type_synonym caps = "(nat \<times> string) list"
type_synonym rx_fun = "string \<Rightarrow> caps \<Rightarrow> (string \<times> caps) list"

text \<open>At most \<open>n\<close> further greedy iterations of \<open>f\<close>, each of which must consume something.\<close>

primrec iter_m :: "nat \<Rightarrow> rx_fun \<Rightarrow> rx_fun" where
  "iter_m 0 f s c = [(s, c)]"
| "iter_m (Suc n) f s c =
     concat (map (\<lambda>(s', c'). if length s' < length s then iter_m n f s' c' else []) (f s c))
       @ [(s, c)]"

primrec rx_m :: "rx \<Rightarrow> rx_fun" where
  "rx_m REps s c = [(s, c)]"
| "rx_m (RCls p) s c = (case s of [] \<Rightarrow> [] | x # xs \<Rightarrow> if p x then [(xs, c)] else [])"
| "rx_m (RSeq a b) s c = concat (map (\<lambda>(s', c'). rx_m b s' c') (rx_m a s c))"
| "rx_m (RAlt a b) s c = rx_m a s c @ rx_m b s c"
| "rx_m (RStar a) s c = iter_m (length s) (rx_m a) s c"
| "rx_m (RUpTo n a) s c = iter_m n (rx_m a) s c"
| "rx_m (RGrp n a) s c =
     map (\<lambda>(s', c'). (s', (n, take (length s - length s') s) # c')) (rx_m a s c)"
| "rx_m (RLook a) s c = (case rx_m a s c of [] \<Rightarrow> [] | (_, c') # _ \<Rightarrow> [(s, c')])"

text \<open>\<open>/^r$/.exec(s)\<close>: the captures of the first match that reaches the end of the input.\<close>

definition rx_full :: "rx \<Rightarrow> string \<Rightarrow> caps option" where
  "rx_full r s =
     (case filter (\<lambda>(s', _). s' = []) (rx_m r s []) of [] \<Rightarrow> None | (_, c) # _ \<Rightarrow> Some c)"

definition rx_test :: "rx \<Rightarrow> string \<Rightarrow> bool" where
  "rx_test r s = (rx_full r s \<noteq> None)"

text \<open>\<open>/r/.exec(s)\<close>: the first position that matches; the rest after the match and its captures.\<close>

fun rx_search :: "rx \<Rightarrow> string \<Rightarrow> (string \<times> caps) option" where
  "rx_search r s =
     (case rx_m r s [] of
        m # _ \<Rightarrow> Some m
      | [] \<Rightarrow> (case s of [] \<Rightarrow> None | _ # xs \<Rightarrow> rx_search r xs))"

declare rx_search.simps [simp del]

definition cap :: "nat \<Rightarrow> caps \<Rightarrow> string option" where
  "cap n c = map_of c n"

section \<open>Building expressions\<close>

definition r_chr :: "char \<Rightarrow> rx" where
  "r_chr x = RCls (\<lambda>c. c = x)"

definition r_set :: "string \<Rightarrow> rx" where
  "r_set xs = RCls (\<lambda>c. c \<in> set xs)"

definition r_not :: "string \<Rightarrow> rx" where
  "r_not xs = RCls (\<lambda>c. c \<notin> set xs)"

fun r_str :: "string \<Rightarrow> rx" where
  "r_str [] = REps"
| "r_str (x # xs) = RSeq (r_chr x) (r_str xs)"

definition r_opt :: "rx \<Rightarrow> rx" where
  "r_opt r = RUpTo 1 r"

definition r_plus :: "rx \<Rightarrow> rx" where
  "r_plus r = RSeq r (RStar r)"

fun r_times :: "nat \<Rightarrow> rx \<Rightarrow> rx" where
  "r_times 0 r = REps"
| "r_times (Suc n) r = RSeq r (r_times n r)"

abbreviation r_digit :: rx where
  "r_digit \<equiv> RCls is_digit"

section \<open>The language of an expression\<close>

inductive_set star_of :: "string set \<Rightarrow> string set" for A where
  star_nil: "[] \<in> star_of A"
| star_app: "u \<in> A \<Longrightarrow> v \<in> star_of A \<Longrightarrow> u @ v \<in> star_of A"

primrec upto_of :: "nat \<Rightarrow> string set \<Rightarrow> string set" where
  "upto_of 0 A = {[]}"
| "upto_of (Suc n) A = insert [] {u @ v | u v. u \<in> A \<and> v \<in> upto_of n A}"

primrec lang :: "rx \<Rightarrow> string set" where
  "lang REps = {[]}"
| "lang (RCls p) = {[c] | c. p c}"
| "lang (RSeq a b) = {u @ v | u v. u \<in> lang a \<and> v \<in> lang b}"
| "lang (RAlt a b) = lang a \<union> lang b"
| "lang (RStar a) = star_of (lang a)"
| "lang (RUpTo n a) = upto_of n (lang a)"
| "lang (RGrp n a) = lang a"
| "lang (RLook a) = {}"

primrec no_look :: "rx \<Rightarrow> bool" where
  "no_look REps = True"
| "no_look (RCls p) = True"
| "no_look (RSeq a b) = (no_look a \<and> no_look b)"
| "no_look (RAlt a b) = (no_look a \<and> no_look b)"
| "no_look (RStar a) = no_look a"
| "no_look (RUpTo n a) = no_look a"
| "no_look (RGrp n a) = no_look a"
| "no_look (RLook a) = False"

lemma star_of_nonempty_step:
  "u \<in> star_of A \<Longrightarrow> u \<noteq> [] \<Longrightarrow> \<exists>v w. u = v @ w \<and> v \<noteq> [] \<and> v \<in> A \<and> w \<in> star_of A"
  by (induction rule: star_of.induct) (metis append_Nil)+

lemma upto_of_mono: "u \<in> upto_of n A \<Longrightarrow> u \<in> upto_of (Suc n) A"
proof (induction n arbitrary: u)
  case (Suc n)
  then consider "u = []" | v w where "u = v @ w" "v \<in> A" "w \<in> upto_of n A" by auto
  then show ?case
  proof cases
    case 2
    with Suc.IH [of w] have "w \<in> upto_of (Suc n) A" by simp
    with 2 show ?thesis by (subst upto_of.simps) blast
  qed simp
qed simp

lemma upto_of_nonempty_step:
  "u \<in> upto_of (Suc n) A \<Longrightarrow> u \<noteq> [] \<Longrightarrow> \<exists>v w. u = v @ w \<and> v \<noteq> [] \<and> v \<in> A \<and> w \<in> upto_of n A"
proof (induction n arbitrary: u)
  case (Suc n)
  from Suc.prems obtain v w where u: "u = v @ w" and v: "v \<in> A" and w: "w \<in> upto_of (Suc n) A"
    by auto
  show ?case
  proof (cases "v = []")
    case True
    with Suc.IH [OF w] u Suc.prems(2) show ?thesis
      by (metis append_Nil upto_of_mono)
  qed (use u v w in blast)
qed auto

section \<open>The matcher accepts the language\<close>

text \<open>
  \<open>matches f A\<close>: the ways \<open>f\<close> can go on are exactly the ways to split off a word of \<open>A\<close>.
\<close>

definition matches :: "rx_fun \<Rightarrow> string set \<Rightarrow> bool" where
  "matches f A = (\<forall>s c s'. s' \<in> fst ` set (f s c) \<longleftrightarrow> (\<exists>u \<in> A. s = u @ s'))"

lemma iter_m_sound:
  assumes "matches f A" and "s' \<in> fst ` set (iter_m n f s c)"
  shows "(\<exists>u \<in> star_of A. s = u @ s') \<and> (\<exists>u \<in> upto_of n A. s = u @ s')"
  using assms(2)
proof (induction n arbitrary: s c)
  case 0
  then show ?case by (auto intro: star_nil)
next
  case (Suc n)
  then obtain e where "(s', e) \<in> set (iter_m (Suc n) f s c)" by (auto simp del: iter_m.simps)
  then consider "s' = s"
    | t d where "(t, d) \<in> set (f s c)" "(s', e) \<in> set (iter_m n f t d)"
    by (auto split: if_splits)
  then show ?case
  proof cases
    case 1
    then show ?thesis by (auto intro: star_nil)
  next
    case (2 t d)
    from assms(1) 2(1) obtain v where v: "v \<in> A" "s = v @ t"
      unfolding matches_def by (metis fst_conv image_eqI)
    moreover from 2(2) have "s' \<in> fst ` set (iter_m n f t d)" by (metis fst_conv image_eqI)
    from Suc.IH [OF this] obtain x y where "x \<in> star_of A" "t = x @ s'" "y \<in> upto_of n A" "t = y @ s'"
      by blast
    ultimately show ?thesis
      by (auto intro!: bexI [where x = "v @ x"] star_app)
  qed
qed

lemma iter_m_step:
  assumes f: "matches f A" and v: "v \<in> A" "v \<noteq> []"
    and IH: "\<And>c. s' \<in> fst ` set (iter_m n f (w @ s') c)"
  shows "s' \<in> fst ` set (iter_m (Suc n) f (v @ w @ s') c)"
proof -
  from f v(1) have "w @ s' \<in> fst ` set (f (v @ w @ s') c)"
    unfolding matches_def by blast
  then obtain d where d: "(w @ s', d) \<in> set (f (v @ w @ s') c)" by auto
  from IH [of d] obtain e where e: "(s', e) \<in> set (iter_m n f (w @ s') d)" by auto
  have "(s', e) \<in> set (iter_m (Suc n) f (v @ w @ s') c)"
    using d e v(2) by (auto intro!: bexI [where x = "(w @ s', d)"])
  then show ?thesis by (metis fst_conv image_eqI)
qed

lemma iter_m_self: "s \<in> fst ` set (iter_m n f s c)"
  by (cases n) (auto intro: image_eqI [where x = "(s, c)"])

lemma iter_m_upto:
  assumes "matches f A" and "u \<in> upto_of n A"
  shows "s' \<in> fst ` set (iter_m n f (u @ s') c)"
  using assms(2)
proof (induction n arbitrary: u c)
  case (Suc n)
  show ?case
  proof (cases "u = []")
    case False
    with upto_of_nonempty_step [OF Suc.prems] obtain v w
      where "u = v @ w" "v \<noteq> []" "v \<in> A" "w \<in> upto_of n A" by blast
    with Suc.IH iter_m_step [OF assms(1)] show ?thesis by simp
  qed (use iter_m_self in simp)
qed simp

lemma iter_m_star:
  assumes "matches f A"
  shows "u \<in> star_of A \<Longrightarrow> length u \<le> n \<Longrightarrow> s' \<in> fst ` set (iter_m n f (u @ s') c)"
proof (induction n arbitrary: u c)
  case 0
  then show ?case by simp
next
  case (Suc n)
  show ?case
  proof (cases "u = []")
    case False
    with star_of_nonempty_step [OF Suc.prems(1)] obtain v w
      where vw: "u = v @ w" "v \<noteq> []" "v \<in> A" "w \<in> star_of A" by blast
    then have "length w \<le> n" using Suc.prems(2) by (cases v) auto
    with vw Suc.IH iter_m_step [OF assms] show ?thesis by simp
  qed (use iter_m_self in simp)
qed

lemma matches_lang: "no_look r \<Longrightarrow> matches (rx_m r) (lang r)"
proof (induction r)
  case REps
  then show ?case by (auto simp: matches_def)
next
  case (RCls p)
  then show ?case by (auto simp: matches_def split: list.splits)
next
  case (RSeq a b)
  then have a: "matches (rx_m a) (lang a)" and b: "matches (rx_m b) (lang b)" by auto
  show ?case
    unfolding matches_def
  proof (intro allI iffI)
    fix s c s'
    assume "s' \<in> fst ` set (rx_m (RSeq a b) s c)"
    then obtain t d where "(t, d) \<in> set (rx_m a s c)" "s' \<in> fst ` set (rx_m b t d)" by force
    with a b obtain u v where "u \<in> lang a" "s = u @ t" "v \<in> lang b" "t = v @ s'"
      unfolding matches_def by (metis fst_conv image_eqI)
    then show "\<exists>u \<in> lang (RSeq a b). s = u @ s'"
      by (auto intro!: bexI [where x = "u @ v"])
  next
    fix s c s'
    assume "\<exists>u \<in> lang (RSeq a b). s = u @ s'"
    then obtain u v where uv: "u \<in> lang a" "v \<in> lang b" "s = u @ v @ s'" by auto
    with a have "v @ s' \<in> fst ` set (rx_m a s c)" unfolding matches_def by blast
    then obtain d where d: "(v @ s', d) \<in> set (rx_m a s c)" by auto
    from b uv(2) have "s' \<in> fst ` set (rx_m b (v @ s') d)" unfolding matches_def by blast
    with d show "s' \<in> fst ` set (rx_m (RSeq a b) s c)" by force
  qed
next
  case (RAlt a b)
  then show ?case unfolding matches_def by (auto simp: image_Un)
next
  case (RStar a)
  then have a: "matches (rx_m a) (lang a)" by simp
  show ?case
    unfolding matches_def using iter_m_sound [OF a] iter_m_star [OF a]
    by (metis length_append le_add1 lang.simps(5) rx_m.simps(5))
next
  case (RUpTo n a)
  then have a: "matches (rx_m a) (lang a)" by simp
  show ?case
    unfolding matches_def using iter_m_sound [OF a] iter_m_upto [OF a]
    by (metis lang.simps(6) rx_m.simps(6))
next
  case (RGrp n a)
  then show ?case unfolding matches_def by (auto simp: image_image case_prod_beta)
next
  case (RLook a)
  then show ?case by simp
qed

theorem rx_test_lang: "no_look r \<Longrightarrow> rx_test r s \<longleftrightarrow> s \<in> lang r"
proof -
  assume "no_look r"
  from matches_lang [OF this] have "[] \<in> fst ` set (rx_m r s []) \<longleftrightarrow> s \<in> lang r"
    unfolding matches_def by auto
  moreover have "rx_test r s \<longleftrightarrow> [] \<in> fst ` set (rx_m r s [])"
    by (auto simp: rx_test_def rx_full_def filter_empty_conv split: list.splits)
      (metis (mono_tags) case_prodD filter_eq_Cons_iff fst_conv image_eqI in_set_conv_decomp)
  ultimately show ?thesis by simp
qed

section \<open>Reading languages\<close>

lemma star_of_chars: "star_of {[c] | c. p c} = {s. \<forall>c \<in> set s. p c}"
proof (intro set_eqI iffI CollectI)
  fix s assume "s \<in> star_of {[c] | c. p c}"
  then show "\<forall>c \<in> set s. p c" by (induction rule: star_of.induct) auto
next
  fix s assume "s \<in> {s. \<forall>c \<in> set s. p c}"
  then show "s \<in> star_of {[c] | c. p c}"
  proof (induction s)
    case (Cons x xs)
    then show ?case using star_app [of "[x]" _ xs] by simp
  qed (simp add: star_nil)
qed

lemma upto_of_chars: "upto_of n {[c] | c. p c} = {s. length s \<le> n \<and> (\<forall>c \<in> set s. p c)}"
proof (induction n)
  case (Suc n)
  show ?case
  proof (intro set_eqI iffI)
    fix s assume "s \<in> {s. length s \<le> Suc n \<and> (\<forall>c \<in> set s. p c)}"
    then show "s \<in> upto_of (Suc n) {[c] | c. p c}"
    proof (cases s)
      case (Cons x xs)
      with \<open>s \<in> _\<close> Suc have "xs \<in> upto_of n {[c] | c. p c}" and "p x" by auto
      then have "[x] @ xs \<in> upto_of (Suc n) {[c] | c. p c}" by (subst upto_of.simps) blast
      with Cons show ?thesis by simp
    qed simp
  qed (use Suc in auto)
qed auto

lemma no_look_builders [simp]:
  "no_look (r_chr x)" "no_look (r_set xs)" "no_look (r_not xs)" "no_look (r_str xs)"
  "no_look (r_opt r) = no_look r" "no_look (r_plus r) = no_look r"
  by (simp_all add: r_chr_def r_set_def r_not_def r_opt_def r_plus_def) (induction xs, auto simp: r_chr_def)

lemma lang_r_chr [simp]: "lang (r_chr x) = {[x]}"
  by (auto simp: r_chr_def)

lemma lang_r_str [simp]: "lang (r_str xs) = {xs}"
  by (induction xs) auto

lemma lang_r_opt [simp]: "lang (r_opt r) = insert [] (lang r)"
  by (simp add: r_opt_def)

lemma lang_RStar_cls [simp]: "lang (RStar (RCls p)) = {s. \<forall>c \<in> set s. p c}"
  by (simp add: star_of_chars)

lemma lang_RUpTo_cls [simp]: "lang (RUpTo n (RCls p)) = {s. length s \<le> n \<and> (\<forall>c \<in> set s. p c)}"
  by (simp add: upto_of_chars)

lemma lang_r_plus_cls [simp]: "lang (r_plus (RCls p)) = {s. s \<noteq> [] \<and> (\<forall>c \<in> set s. p c)}"
  unfolding r_plus_def
  by (auto simp: star_of_chars) (metis append_Cons append_Nil list.exhaust list.set_intros)

end
