(* ===== verification/ImageRef.thy ===== *)
theory ImageRef
  imports JsRegex "HOL-Library.Sublist"
begin

text \<open>
  OCI image references (\<open>custom-deployments/image-reference.ts\<close>) and the canonical form the storage
  module compares images by (\<open>storage/image-ref-utils.ts\<close>).
\<close>

section \<open>Regular expressions\<close>

definition r_hex :: rx where
  "r_hex = RCls (\<lambda>c. is_digit c \<or> c \<in> set ''abcdef'')"

definition DIGEST_RE :: rx where
  "DIGEST_RE = RSeq (r_str ''sha256:'') (r_times 64 r_hex)"

definition TAG_RE :: rx where
  "TAG_RE = RSeq (RCls (\<lambda>c. is_alnum c \<or> c = CHR ''_''))
     (RUpTo 127 (RCls (\<lambda>c. is_alnum c \<or> c \<in> set ''_.-'')))"

definition r_lower_digit :: rx where
  "r_lower_digit = RCls (\<lambda>c. is_lower c \<or> is_digit c)"

definition REPO_SEGMENT_RE :: rx where
  "REPO_SEGMENT_RE = RSeq (r_plus r_lower_digit)
     (RStar (RSeq (RAlt (r_set ''._'') (RAlt (r_str ''__'') (r_plus (r_chr (CHR ''-''))))) (r_plus r_lower_digit)))"

section \<open>The parser\<close>

record parsed_image =
  registry_host :: string
  repository :: string
  ptag :: "string option"
  digest :: "string option"

definition includes_char :: "string \<Rightarrow> char \<Rightarrow> bool" where
  "includes_char s c = (c \<in> set s)"

text \<open>\<open>indexOf\<close> and \<open>lastIndexOf\<close> as the code compares them, \<open>-1\<close> when absent.\<close>

definition idx :: "nat option \<Rightarrow> int" where
  "idx i = (case i of None \<Rightarrow> -1 | Some n \<Rightarrow> int n)"

text \<open>The three cuts: the digest after the last \<open>@\<close>, the tag after the last \<open>:\<close> that follows the
  last \<open>/\<close>, then the host. A rejected part is \<open>None\<close>.\<close>

definition split_digest :: "string \<Rightarrow> (string \<times> string option) option" where
  "split_digest input =
     (case last_index_of (CHR ''@'') input of
        None \<Rightarrow> Some (input, None)
      | Some at_idx \<Rightarrow>
          (let digest_part = drop (Suc at_idx) input in
           if \<not> rx_test DIGEST_RE digest_part then None
           else Some (take at_idx input, Some digest_part)))"

definition split_tag :: "string \<Rightarrow> (string \<times> string option) option" where
  "split_tag before_digest =
     (let last_slash = idx (last_index_of (CHR ''/'') before_digest);
          last_colon = idx (last_index_of (CHR '':'') before_digest) in
      if last_colon > last_slash then
        (let tag_part = drop (Suc (nat last_colon)) before_digest in
         if \<not> rx_test TAG_RE tag_part then None
         else Some (take (nat last_colon) before_digest, Some tag_part))
      else Some (before_digest, None))"

definition looks_like_host :: "string \<Rightarrow> bool" where
  "looks_like_host first =
     (includes_char first (CHR ''.'') \<or> includes_char first (CHR '':'') \<or> first = ''localhost'')"

definition split_host :: "string \<Rightarrow> (string \<times> string) option" where
  "split_host before_tag =
     (case index_of (CHR ''/'') before_tag of
        None \<Rightarrow>
          (if \<not> rx_test REPO_SEGMENT_RE before_tag then None
           else Some (''docker.io'', ''library/'' @ before_tag))
      | Some first_slash \<Rightarrow>
          (let first = take first_slash before_tag;
               rest = drop (Suc first_slash) before_tag;
               hr = (if looks_like_host first then (first, rest) else (''docker.io'', before_tag)) in
           if list_all (rx_test REPO_SEGMENT_RE) (split_on (CHR ''/'') (snd hr)) then Some hr else None))"

definition parse_input :: "string \<Rightarrow> parsed_image option" where
  "parse_input input =
     (case split_digest input of
        None \<Rightarrow> None
      | Some (before_digest, dg) \<Rightarrow>
          (case split_tag before_digest of
             None \<Rightarrow> None
           | Some (before_tag, tg) \<Rightarrow>
               (case split_host before_tag of
                  None \<Rightarrow> None
                | Some (host, repo) \<Rightarrow>
                    Some \<lparr>registry_host = host, repository = repo, ptag = tg, digest = dg\<rparr>)))"

definition parse_image_reference :: "string \<Rightarrow> parsed_image option" where
  "parse_image_reference raw =
     (if raw = [] then None
      else (let input = js_trim raw in
            if length input = 0 \<or> length input > 500 then None else parse_input input))"

text \<open>\<open>ref.digest\<close> and \<open>ref.tag\<close> are tested for truth: an empty string counts as absent.\<close>

definition truthy :: "string option \<Rightarrow> bool" where
  "truthy s = (case s of None \<Rightarrow> False | Some t \<Rightarrow> t \<noteq> [])"

definition is_pinned_reference :: "parsed_image \<Rightarrow> bool" where
  "is_pinned_reference r =
     (if truthy (digest r) then True
      else if \<not> truthy (ptag r) then False
      else if ptag r = Some ''latest'' then False
      else True)"

definition suffix_of :: "string option \<Rightarrow> string option \<Rightarrow> string" where
  "suffix_of tg dg = (if truthy tg then CHR '':'' # the tg else []) @ (if truthy dg then CHR ''@'' # the dg else [])"

definition format_image_reference :: "parsed_image \<Rightarrow> string" where
  "format_image_reference r =
     registry_host r @ CHR ''/'' # repository r @ suffix_of (ptag r) (digest r)"

section \<open>The canonical form of the storage module\<close>

definition slash_count :: "string \<Rightarrow> nat" where
  "slash_count ref = length (filter (\<lambda>c. c = CHR ''/'') ref)"

definition canonical_image_ref :: "string \<Rightarrow> string" where
  "canonical_image_ref ref =
     (if ref = [] then ref
      else if starts_with ref ''sha256:'' then ref
      else if slash_count ref = 0 then ''docker.io/library/'' @ ref
      else if slash_count ref = 1 then
        (let head = take (the (index_of (CHR ''/'') ref)) ref in
         if \<not> (includes_char head (CHR ''.'') \<or> includes_char head (CHR '':'') \<or> head = ''localhost'')
         then ''docker.io/'' @ ref else ref)
      else ref)"

section \<open>Alphabets\<close>

text \<open>The characters an expression can consume bound its language.\<close>

primrec alphabet :: "rx \<Rightarrow> char \<Rightarrow> bool" where
  "alphabet REps c = False"
| "alphabet (RCls p) c = p c"
| "alphabet (RSeq a b) c = (alphabet a c \<or> alphabet b c)"
| "alphabet (RAlt a b) c = (alphabet a c \<or> alphabet b c)"
| "alphabet (RStar a) c = alphabet a c"
| "alphabet (RUpTo n a) c = alphabet a c"
| "alphabet (RGrp n a) c = alphabet a c"
| "alphabet (RLook a) c = False"

lemma star_of_alphabet: "u \<in> star_of A \<Longrightarrow> (\<And>v. v \<in> A \<Longrightarrow> \<forall>c \<in> set v. P c) \<Longrightarrow> \<forall>c \<in> set u. P c"
  by (induction rule: star_of.induct) auto

lemma upto_of_alphabet: "u \<in> upto_of n A \<Longrightarrow> (\<And>v. v \<in> A \<Longrightarrow> \<forall>c \<in> set v. P c) \<Longrightarrow> \<forall>c \<in> set u. P c"
  by (induction n arbitrary: u) auto

lemma lang_alphabet: "s \<in> lang r \<Longrightarrow> \<forall>c \<in> set s. alphabet r c"
proof (induction r arbitrary: s)
  case (RSeq a b)
  then obtain u v where "s = u @ v" "u \<in> lang a" "v \<in> lang b" by auto
  with RSeq.IH show ?case by fastforce
next
  case (RAlt a b)
  then show ?case by fastforce
next
  case (RStar a)
  show ?case
  proof (rule star_of_alphabet)
    show "s \<in> star_of (lang a)" using RStar.prems by simp
  qed (simp add: RStar.IH)
next
  case (RUpTo n a)
  show ?case
  proof (rule upto_of_alphabet)
    show "s \<in> upto_of n (lang a)" using RUpTo.prems by simp
  qed (simp add: RUpTo.IH)
qed auto

lemma rx_test_alphabet: "rx_test r s \<Longrightarrow> no_look r \<Longrightarrow> \<forall>c \<in> set s. alphabet r c"
  using rx_test_lang lang_alphabet by blast

lemma no_look_image [simp]: "no_look DIGEST_RE" "no_look TAG_RE" "no_look REPO_SEGMENT_RE"
proof -
  have t: "no_look r \<Longrightarrow> no_look (r_times n r)" for n r by (induction n) simp_all
  show "no_look DIGEST_RE" by (simp add: DIGEST_RE_def r_hex_def t)
qed (simp_all add: TAG_RE_def REPO_SEGMENT_RE_def r_lower_digit_def r_plus_def r_set_def r_chr_def)

lemma class_facts:
  "is_alnum c \<Longrightarrow> c \<notin> {CHR ''/'', CHR '':'', CHR ''@''} \<and> \<not> is_ws c"
  "is_lower c \<or> is_digit c \<Longrightarrow> is_alnum c"
  by (auto simp: is_alnum_def is_digit_def is_lower_def is_upper_def is_ws_def Let_def)

lemma tag_chars: "rx_test TAG_RE t \<Longrightarrow> t \<noteq> [] \<and> (\<forall>c \<in> set t. c \<notin> {CHR ''/'', CHR '':'', CHR ''@''} \<and> \<not> is_ws c)"
proof
  assume t: "rx_test TAG_RE t"
  then have "t \<in> lang TAG_RE" by (simp add: rx_test_lang)
  then show "t \<noteq> []" by (auto simp: TAG_RE_def)
  have "alphabet TAG_RE c \<Longrightarrow> is_alnum c \<or> c \<in> set ''_.-''" for c by (auto simp: TAG_RE_def)
  with rx_test_alphabet [OF t] class_facts(1)
  show "\<forall>c \<in> set t. c \<notin> {CHR ''/'', CHR '':'', CHR ''@''} \<and> \<not> is_ws c"
    by (fastforce simp: is_ws_def)
qed

lemma digest_chars: "rx_test DIGEST_RE d \<Longrightarrow> d \<noteq> [] \<and> (\<forall>c \<in> set d. c \<notin> {CHR ''/'', CHR ''@''} \<and> \<not> is_ws c)"
proof
  assume d: "rx_test DIGEST_RE d"
  then have "d \<in> lang DIGEST_RE" by (simp add: rx_test_lang)
  then show "d \<noteq> []" unfolding DIGEST_RE_def by auto
  have t: "alphabet (r_times n r) c \<Longrightarrow> alphabet r c" for n r c by (induction n) auto
  have h: "alphabet r_hex c \<Longrightarrow> is_alnum c" for c
    by (auto simp: r_hex_def is_alnum_def is_lower_def)
  have "alphabet DIGEST_RE c \<Longrightarrow> c \<in> set ''sha256:'' \<or> is_alnum c" for c
    using t [of 64 r_hex c] h [of c] by (auto simp: DIGEST_RE_def r_chr_def)
  with rx_test_alphabet [OF d] class_facts(1)
  show "\<forall>c \<in> set d. c \<notin> {CHR ''/'', CHR ''@''} \<and> \<not> is_ws c"
    by (fastforce simp: is_ws_def)
qed

lemma segment_chars:
  "rx_test REPO_SEGMENT_RE p \<Longrightarrow> p \<noteq> [] \<and> (\<forall>c \<in> set p. c \<notin> {CHR ''/'', CHR '':'', CHR ''@''} \<and> \<not> is_ws c)"
proof
  assume p: "rx_test REPO_SEGMENT_RE p"
  then have "p \<in> lang REPO_SEGMENT_RE" by (simp add: rx_test_lang)
  then show "p \<noteq> []" by (auto simp: REPO_SEGMENT_RE_def r_lower_digit_def)
  have "alphabet REPO_SEGMENT_RE c \<Longrightarrow> is_alnum c \<or> c \<in> set ''._-''" for c
    by (auto simp: REPO_SEGMENT_RE_def r_lower_digit_def r_plus_def r_set_def r_chr_def is_alnum_def)
  with rx_test_alphabet [OF p] class_facts(1)
  show "\<forall>c \<in> set p. c \<notin> {CHR ''/'', CHR '':'', CHR ''@''} \<and> \<not> is_ws c"
    by (fastforce simp: is_ws_def)
qed

lemma set_split_on: "set s \<subseteq> insert c (\<Union> (set ` set (split_on c s)))"
  by (induction s) (auto split: list.splits, blast)

lemma repo_chars:
  assumes "list_all (rx_test REPO_SEGMENT_RE) (split_on (CHR ''/'') r)"
  shows "r \<noteq> [] \<and> (\<forall>c \<in> set r. c \<notin> {CHR '':'', CHR ''@''} \<and> \<not> is_ws c)"
proof
  show "r \<noteq> []" using assms segment_chars [of "[]"] by auto
  have slash: "\<not> is_ws (CHR ''/'')" by (simp add: is_ws_def)
  have "c = CHR ''/'' \<or> (\<exists>p \<in> set (split_on (CHR ''/'') r). c \<in> set p)" if "c \<in> set r" for c
    using set_split_on [of r "CHR ''/''"] that by auto
  then show "\<forall>c \<in> set r. c \<notin> {CHR '':'', CHR ''@''} \<and> \<not> is_ws c"
    using assms segment_chars slash by (fastforce simp: list_all_iff)
qed

lemma split_on_append_sep: "c \<notin> set a \<Longrightarrow> split_on c (a @ c # b) = a # split_on c b"
  by (induction a) auto

section \<open>What the three cuts mean\<close>

definition opt_suffix :: "char \<Rightarrow> string option \<Rightarrow> string" where
  "opt_suffix c x = (case x of None \<Rightarrow> [] | Some t \<Rightarrow> c # t)"

lemma split_digest_iff:
  "split_digest input = Some (b, dg) \<longleftrightarrow>
     input = b @ opt_suffix (CHR ''@'') dg \<and> (case dg of None \<Rightarrow> CHR ''@'' \<notin> set b | Some d \<Rightarrow> rx_test DIGEST_RE d)"
proof (cases "last_index_of (CHR ''@'') input")
  case None
  then have "CHR ''@'' \<notin> set input" by simp
  then show ?thesis unfolding split_digest_def None by (auto simp: opt_suffix_def split: option.splits)
next
  case (Some i)
  from last_index_of_Some [OF Some] have i: "input = take i input @ CHR ''@'' # drop (Suc i) input"
    "CHR ''@'' \<notin> set (drop (Suc i) input)" by auto
  show ?thesis
  proof
    assume "split_digest input = Some (b, dg)"
    then show "input = b @ opt_suffix (CHR ''@'') dg
        \<and> (case dg of None \<Rightarrow> CHR ''@'' \<notin> set b | Some d \<Rightarrow> rx_test DIGEST_RE d)"
      unfolding split_digest_def Some using i(1) by (auto simp: opt_suffix_def Let_def split: if_splits)
  next
    assume r: "input = b @ opt_suffix (CHR ''@'') dg
        \<and> (case dg of None \<Rightarrow> CHR ''@'' \<notin> set b | Some d \<Rightarrow> rx_test DIGEST_RE d)"
    show "split_digest input = Some (b, dg)"
    proof (cases dg)
      case None
      then have "last_index_of (CHR ''@'') input = None" using r by (simp add: opt_suffix_def)
      with Some show ?thesis by (simp del: last_index_of_None)
    next
      case (Some d)
      then have d: "rx_test DIGEST_RE d" "input = b @ CHR ''@'' # d" using r by (simp_all add: opt_suffix_def)
      then have "last_index_of (CHR ''@'') input = Some (length b)"
        using last_index_of_append_sep [of "CHR ''@''" d b] digest_chars [OF d(1)] by auto
      then show ?thesis using d Some by (simp add: split_digest_def)
    qed
  qed
qed

lemma index_of_append_no: "c \<notin> set a \<Longrightarrow> index_of c (a @ b) = map_option (\<lambda>i. length a + i) (index_of c b)"
proof (induction a)
  case Nil
  show ?case by (cases "index_of c b") (simp_all del: index_of_None)
next
  case (Cons x a)
  then show ?case by (cases "index_of c b") (auto simp del: index_of_None)
qed

lemma last_index_of_append_no:
  assumes "c \<notin> set b"
  shows "last_index_of c (a @ b) = last_index_of c a"
proof (cases "index_of c (rev a)")
  case (Some i)
  then have "i < length a" using index_of_Some [OF Some] by simp
  then show ?thesis using assms Some by (simp add: last_index_of_def index_of_append_no)
next
  case None
  then show ?thesis unfolding last_index_of_def rev_append using assms
    by (subst index_of_append_no) (simp_all only: set_rev None option.map not_False_eq_True)
qed

lemma idx_less: "idx (last_index_of c s) < int (length s)"
  using last_index_of_Some [of c s] by (auto simp: idx_def split: option.split)

lemma split_tag_iff:
  "split_tag b = Some (bt, tg) \<longleftrightarrow>
     b = bt @ opt_suffix (CHR '':'') tg
     \<and> (case tg of None \<Rightarrow> idx (last_index_of (CHR '':'') bt) \<le> idx (last_index_of (CHR ''/'') bt)
          | Some t \<Rightarrow> rx_test TAG_RE t)"
proof
  assume split: "split_tag b = Some (bt, tg)"
  show "b = bt @ opt_suffix (CHR '':'') tg
     \<and> (case tg of None \<Rightarrow> idx (last_index_of (CHR '':'') bt) \<le> idx (last_index_of (CHR ''/'') bt)
          | Some t \<Rightarrow> rx_test TAG_RE t)"
  proof (cases "idx (last_index_of (CHR '':'') b) > idx (last_index_of (CHR ''/'') b)")
    case True
    then obtain n where n: "last_index_of (CHR '':'') b = Some n"
      by (cases "last_index_of (CHR '':'') b") (auto simp: idx_def split: option.splits)
    then have "b = take n b @ CHR '':'' # drop (Suc n) b" using last_index_of_Some [OF n] by simp
    then show ?thesis using split True n
      by (auto simp: split_tag_def Let_def idx_def opt_suffix_def split: if_splits)
  next
    case False
    then show ?thesis using split by (auto simp: split_tag_def Let_def opt_suffix_def)
  qed
next
  assume r: "b = bt @ opt_suffix (CHR '':'') tg
     \<and> (case tg of None \<Rightarrow> idx (last_index_of (CHR '':'') bt) \<le> idx (last_index_of (CHR ''/'') bt)
          | Some t \<Rightarrow> rx_test TAG_RE t)"
  show "split_tag b = Some (bt, tg)"
  proof (cases tg)
    case None
    then show ?thesis using r by (simp add: split_tag_def opt_suffix_def)
  next
    case (Some t)
    then have t: "rx_test TAG_RE t" "b = bt @ CHR '':'' # t" using r by (simp_all add: opt_suffix_def)
    then have "last_index_of (CHR '':'') b = Some (length bt)"
      using last_index_of_append_sep [of "CHR '':''" t bt] tag_chars [OF t(1)] by auto
    moreover have "last_index_of (CHR ''/'') b = last_index_of (CHR ''/'') bt"
      unfolding t(2) using tag_chars [OF t(1)] by (intro last_index_of_append_no) auto
    ultimately show ?thesis
      using t Some idx_less [of "CHR ''/''" bt] by (simp add: split_tag_def idx_def)
  qed
qed

lemma split_host_Some:
  assumes "split_host bt = Some (h, r)"
  shows "looks_like_host h \<and> CHR ''/'' \<notin> set h \<and> list_all (rx_test REPO_SEGMENT_RE) (split_on (CHR ''/'') r)
    \<and> (bt = h @ CHR ''/'' # r \<or> h = ''docker.io'' \<and> (r = bt \<and> CHR ''/'' \<in> set bt \<or> r = ''library/'' @ bt \<and> CHR ''/'' \<notin> set bt))"
proof (cases "index_of (CHR ''/'') bt")
  case None
  then have ns: "CHR ''/'' \<notin> set bt" by simp
  have "h = ''docker.io''" "r = ''library/'' @ bt" "rx_test REPO_SEGMENT_RE bt"
    using assms unfolding split_host_def None by (auto split: if_splits)
  moreover have "rx_test REPO_SEGMENT_RE ''library''" by code_simp
  moreover have "split_on (CHR ''/'') (''library/'' @ bt) = [''library'', bt]"
    using split_on_append_sep [of "CHR ''/''" "''library''" bt] split_on_no_occ [OF ns] by simp
  ultimately show ?thesis using ns by (simp add: looks_like_host_def includes_char_def)
next
  case (Some i)
  then have i: "bt = take i bt @ CHR ''/'' # drop (Suc i) bt" "CHR ''/'' \<notin> set (take i bt)"
    using index_of_Some [OF Some] by auto
  then have "CHR ''/'' \<in> set bt" by (metis in_set_conv_decomp)
  then show ?thesis
  proof (cases "looks_like_host (take i bt)")
    case True
    then have "h = take i bt" "r = drop (Suc i) bt" "list_all (rx_test REPO_SEGMENT_RE) (split_on (CHR ''/'') r)"
      using assms unfolding split_host_def Some by (auto simp: Let_def split: if_splits)
    then show ?thesis using i True by simp
  next
    case False
    then have "h = ''docker.io''" "r = bt" "list_all (rx_test REPO_SEGMENT_RE) (split_on (CHR ''/'') r)"
      using assms unfolding split_host_def Some by (auto simp: Let_def split: if_splits)
    then show ?thesis using \<open>CHR ''/'' \<in> set bt\<close> by (simp add: looks_like_host_def includes_char_def)
  qed
qed

lemma split_host_normal:
  assumes "looks_like_host h" and "CHR ''/'' \<notin> set h" and "list_all (rx_test REPO_SEGMENT_RE) (split_on (CHR ''/'') r)"
  shows "split_host (h @ CHR ''/'' # r) = Some (h, r)"
  using assms index_of_append_sep [of "CHR ''/''" h r] by (simp add: split_host_def Let_def)

section \<open>Parsed references\<close>

text \<open>What every parsed reference satisfies, and what suffices to parse its printed form back.\<close>

definition image_ok :: "parsed_image \<Rightarrow> bool" where
  "image_ok r =
     (looks_like_host (registry_host r) \<and> CHR ''/'' \<notin> set (registry_host r)
      \<and> (digest r = None \<longrightarrow> CHR ''@'' \<notin> set (registry_host r))
      \<and> list_all (rx_test REPO_SEGMENT_RE) (split_on (CHR ''/'') (repository r))
      \<and> (case ptag r of None \<Rightarrow> True | Some t \<Rightarrow> rx_test TAG_RE t)
      \<and> (case digest r of None \<Rightarrow> True | Some d \<Rightarrow> rx_test DIGEST_RE d))"

lemma parse_input_Some:
  assumes "parse_input input = Some r"
  obtains b bt where "split_digest input = Some (b, digest r)" "split_tag b = Some (bt, ptag r)"
    "split_host bt = Some (registry_host r, repository r)"
  using assms by (auto simp: parse_input_def split: option.splits)

lemma parse_input_ok: "parse_input input = Some r \<Longrightarrow> image_ok r"
proof -
  assume "parse_input input = Some r"
  then obtain b bt where p: "split_digest input = Some (b, digest r)" "split_tag b = Some (bt, ptag r)"
    "split_host bt = Some (registry_host r, repository r)" by (rule parse_input_Some)
  note d = p(1) [unfolded split_digest_iff] and t = p(2) [unfolded split_tag_iff] and h = split_host_Some [OF p(3)]
  have "CHR ''@'' \<notin> set (registry_host r)" if "digest r = None"
  proof -
    have "CHR ''@'' \<notin> set bt" using d t that by auto
    then show ?thesis using h by auto
  qed
  then show "image_ok r" using d t h by (auto simp: image_ok_def split: option.splits)
qed

lemma opt_suffix_truthy:
  "(case x of None \<Rightarrow> True | Some t \<Rightarrow> t \<noteq> []) \<Longrightarrow> (if truthy x then c # the x else []) = opt_suffix c x"
  by (auto simp: truthy_def opt_suffix_def split: option.splits)

lemma suffix_of_ok:
  assumes "image_ok r"
  shows "suffix_of (ptag r) (digest r) = opt_suffix (CHR '':'') (ptag r) @ opt_suffix (CHR ''@'') (digest r)"
  unfolding suffix_of_def using assms tag_chars digest_chars
  by (intro arg_cong2 [where f = append] opt_suffix_truthy) (auto simp: image_ok_def split: option.splits)

lemma parse_format_input:
  assumes ok: "image_ok r"
  shows "parse_input (format_image_reference r) = Some r"
proof -
  let ?bt = "registry_host r @ CHR ''/'' # repository r"
  let ?b = "?bt @ opt_suffix (CHR '':'') (ptag r)"
  have repo: "\<forall>c \<in> set (repository r). c \<notin> {CHR '':'', CHR ''@''}"
    using ok repo_chars [of "repository r"] by (auto simp: image_ok_def)
  have tag: "rx_test TAG_RE t" if "ptag r = Some t" for t using ok that by (simp add: image_ok_def)
  have host: "split_host ?bt = Some (registry_host r, repository r)"
    using ok by (intro split_host_normal) (auto simp: image_ok_def)
  have colon: "idx (last_index_of (CHR '':'') ?bt) \<le> idx (last_index_of (CHR ''/'') ?bt)"
  proof -
    have "last_index_of (CHR '':'') (registry_host r @ (CHR ''/'' # repository r)) = last_index_of (CHR '':'') (registry_host r)"
      using repo by (intro last_index_of_append_no) auto
    moreover have "CHR ''/'' \<in> set ?bt" by simp
    then obtain k where k: "last_index_of (CHR ''/'') ?bt = Some k" using last_index_of_None by blast
    moreover have "length (registry_host r) \<le> k"
    proof (rule ccontr)
      assume "\<not> length (registry_host r) \<le> k"
      then have "CHR ''/'' \<in> set (drop (Suc k) ?bt)" by simp
      then show False using last_index_of_Some [OF k] by blast
    qed
    ultimately show ?thesis using idx_less [of "CHR '':''" "registry_host r"] by (simp add: idx_def)
  qed
  have tagged: "split_tag ?b = Some (?bt, ptag r)"
    unfolding split_tag_iff using colon tag by (auto split: option.split)
  have "CHR ''@'' \<notin> set ?b" if "digest r = None"
  proof -
    have "CHR ''@'' \<notin> set (opt_suffix (CHR '':'') (ptag r))"
    proof (cases "ptag r")
      case (Some t)
      then show ?thesis using tag_chars [OF tag [OF Some]] by (auto simp: opt_suffix_def)
    qed (simp add: opt_suffix_def)
    then show ?thesis using ok repo that by (auto simp: image_ok_def)
  qed
  then have "split_digest (?b @ opt_suffix (CHR ''@'') (digest r)) = Some (?b, digest r)"
    unfolding split_digest_iff using ok by (auto simp: image_ok_def split: option.splits)
  then show ?thesis
    using tagged host by (simp add: parse_input_def format_image_reference_def suffix_of_ok [OF ok])
qed

lemma js_trim_fix: "s \<noteq> [] \<Longrightarrow> \<not> is_ws (hd s) \<Longrightarrow> \<not> is_ws (last s) \<Longrightarrow> js_trim s = s"
proof -
  assume s: "s \<noteq> []" "\<not> is_ws (hd s)" "\<not> is_ws (last s)"
  then have "dropWhile is_ws s = s" "dropWhile is_ws (rev s) = rev s"
    by (auto simp: dropWhile_eq_self_iff hd_rev)
  then show ?thesis by (simp add: js_trim_def)
qed

lemma hd_js_trim: "js_trim s \<noteq> [] \<Longrightarrow> \<not> is_ws (hd (js_trim s))"
proof -
  let ?t = "dropWhile is_ws s"
  assume ne: "js_trim s \<noteq> []"
  have "suffix (dropWhile is_ws (rev ?t)) (rev ?t)" by (rule suffix_dropWhile)
  then obtain u where "rev ?t = u @ dropWhile is_ws (rev ?t)" by (auto simp: suffix_def)
  then have t: "?t = js_trim s @ rev u" by (metis js_trim_def rev_append rev_rev_ident)
  then have "?t \<noteq> []" using ne by simp
  then have "\<not> is_ws (hd ?t)" by (rule hd_dropWhile)
  then show ?thesis using t ne by simp
qed

lemma format_trimmed:
  assumes ok: "image_ok r" and h: "\<not> is_ws (hd (registry_host r))"
  shows "js_trim (format_image_reference r) = format_image_reference r"
proof (rule js_trim_fix)
  have hne: "registry_host r \<noteq> []" using ok by (auto simp: image_ok_def looks_like_host_def includes_char_def)
  have rne: "repository r \<noteq> []" "\<not> is_ws (last (repository r))"
    using ok repo_chars [of "repository r"] by (auto simp: image_ok_def)
  have tag: "t \<noteq> [] \<and> \<not> is_ws (last t)" if "ptag r = Some t" for t
    using ok that tag_chars [of t] by (auto simp: image_ok_def)
  have dig: "d \<noteq> [] \<and> \<not> is_ws (last d)" if "digest r = Some d" for d
    using ok that digest_chars [of d] by (auto simp: image_ok_def)
  show "format_image_reference r \<noteq> []" by (simp add: format_image_reference_def)
  show "\<not> is_ws (hd (format_image_reference r))" using h hne by (simp add: format_image_reference_def)
  show "\<not> is_ws (last (format_image_reference r))"
    unfolding format_image_reference_def suffix_of_ok [OF ok]
    using rne tag dig by (cases "digest r"; cases "ptag r") (auto simp: opt_suffix_def)
qed

lemma parse_image_reference_Some:
  assumes "parse_image_reference raw = Some r"
  shows "parse_input (js_trim raw) = Some r \<and> image_ok r \<and> js_trim (format_image_reference r) = format_image_reference r"
proof -
  have p: "parse_input (js_trim raw) = Some r" and ne: "js_trim raw \<noteq> []"
    using assms by (auto simp: parse_image_reference_def Let_def split: if_splits)
  then have ok: "image_ok r" by (simp add: parse_input_ok)
  from p obtain b bt where s: "split_digest (js_trim raw) = Some (b, digest r)" "split_tag b = Some (bt, ptag r)"
    "split_host bt = Some (registry_host r, repository r)" by (rule parse_input_Some)
  have eq: "js_trim raw = bt @ opt_suffix (CHR '':'') (ptag r) @ opt_suffix (CHR ''@'') (digest r)"
    using s(1) [unfolded split_digest_iff] s(2) [unfolded split_tag_iff] by simp
  have hne: "registry_host r \<noteq> []" using ok by (auto simp: image_ok_def looks_like_host_def includes_char_def)
  have "\<not> is_ws (hd (registry_host r))"
  proof (cases "registry_host r = ''docker.io''")
    case False
    then have "hd (registry_host r) = hd (js_trim raw)" using split_host_Some [OF s(3)] eq hne by auto
    then show ?thesis using hd_js_trim [OF ne] by simp
  qed (simp add: is_ws_def)
  with p ok format_trimmed show ?thesis by blast
qed

text \<open>C39: Printing a parsed image reference and parsing the result gives the same reference back, as
  long as the printed form stays within the parser's limit of 500 characters: the normalised host, the
  repository, the tag and the digest survive, so the printed form can serve as a cache key.\<close>

theorem image_ref_roundtrip:
  assumes "parse_image_reference raw = Some r" and "length (format_image_reference r) \<le> 500"
  shows "parse_image_reference (format_image_reference r) = Some r"
  using parse_image_reference_Some [OF assms(1)] parse_format_input [of r] assms(2)
  by (simp add: parse_image_reference_def) (simp add: format_image_reference_def)

theorem image_ref_roundtrip_witness:
  "parse_image_reference ''docker.io/library/nginx:1.27'' =
     Some \<lparr>registry_host = ''docker.io'', repository = ''library/nginx'', ptag = Some ''1.27'', digest = None\<rparr>"
proof -
  let ?r = "\<lparr>registry_host = ''docker.io'', repository = ''library/nginx'', ptag = Some ''1.27'', digest = None\<rparr>"
  have "parse_image_reference '' nginx:1.27'' = Some ?r" by code_simp
  moreover have f: "format_image_reference ?r = ''docker.io/library/nginx:1.27''" by code_simp
  ultimately show ?thesis using image_ref_roundtrip [of "'' nginx:1.27''" ?r] unfolding f by simp
qed

text \<open>The printed form identifies the reference: two strings the parser accepts share a printed form
  exactly when they denote the same host, repository, tag and digest.\<close>

theorem image_ref_key_injective:
  assumes "parse_image_reference a = Some r" and "parse_image_reference b = Some q"
  shows "format_image_reference r = format_image_reference q \<longleftrightarrow> r = q"
  using parse_image_reference_Some [OF assms(1)] parse_image_reference_Some [OF assms(2)] parse_format_input
  by (metis option.inject)

theorem image_ref_key_injective_witness:
  "format_image_reference \<lparr>registry_host = ''docker.io'', repository = ''library/nginx'', ptag = None, digest = None\<rparr>
     \<noteq> format_image_reference \<lparr>registry_host = ''docker.io'', repository = ''owner/nginx'', ptag = None, digest = None\<rparr>"
proof -
  let ?r = "\<lparr>registry_host = ''docker.io'', repository = ''library/nginx'', ptag = None, digest = None\<rparr>"
  let ?q = "\<lparr>registry_host = ''docker.io'', repository = ''owner/nginx'', ptag = None, digest = None\<rparr>"
  have "parse_image_reference ''nginx'' = Some ?r" "parse_image_reference ''owner/nginx'' = Some ?q" by code_simp+
  from image_ref_key_injective [OF this] show ?thesis by simp
qed

text \<open>The storage module's canonical form is the parser's printed form, for every accepted reference
  with no surrounding white space, at most one slash and no leading \<open>sha256:\<close>, so a catalog entry and
  the name a node reports are compared as the same string; and canonicalising twice changes nothing.\<close>

theorem canonical_is_printed_form:
  assumes "parse_image_reference ref = Some r" and "js_trim ref = ref" and "slash_count ref \<le> 1"
    and "\<not> starts_with ref ''sha256:''"
  shows "canonical_image_ref ref = format_image_reference r
    \<and> canonical_image_ref (canonical_image_ref x) = canonical_image_ref x"
proof
  from parse_image_reference_Some [OF assms(1)] assms(2) have p: "parse_input ref = Some r" and ok: "image_ok r"
    by simp_all
  from p obtain b bt where s: "split_digest ref = Some (b, digest r)" "split_tag b = Some (bt, ptag r)"
    "split_host bt = Some (registry_host r, repository r)" by (rule parse_input_Some)
  let ?sfx = "opt_suffix (CHR '':'') (ptag r) @ opt_suffix (CHR ''@'') (digest r)"
  have eq: "ref = bt @ ?sfx"
    using s(1) [unfolded split_digest_iff] s(2) [unfolded split_tag_iff] by simp
  have "CHR ''/'' \<notin> set (opt_suffix (CHR '':'') (ptag r))" "CHR ''/'' \<notin> set (opt_suffix (CHR ''@'') (digest r))"
    using ok tag_chars digest_chars by (auto simp: image_ok_def opt_suffix_def split: option.splits)
  then have nosl: "CHR ''/'' \<notin> set ?sfx" by simp
  have fmt: "format_image_reference r = registry_host r @ CHR ''/'' # repository r @ ?sfx"
    by (simp add: format_image_reference_def suffix_of_ok [OF ok])
  have cnt: "slash_count ref = slash_count bt"
  proof -
    have "filter (\<lambda>c. c = CHR ''/'') x = []" if "CHR ''/'' \<notin> set x" for x
      using that by (auto simp: filter_empty_conv)
    from this [OF nosl] show ?thesis by (subst eq) (simp add: slash_count_def)
  qed
  have ne: "ref \<noteq> []" using assms(1) by (auto simp: parse_image_reference_def)
  note h = split_host_Some [OF s(3)]
  show "canonical_image_ref ref = format_image_reference r"
  proof (cases "CHR ''/'' \<in> set bt")
    case False
    then have "slash_count ref = 0" unfolding cnt by (auto simp: slash_count_def filter_empty_conv)
    moreover have "registry_host r = ''docker.io''" "repository r = ''library/'' @ bt" using h False by auto
    ultimately show ?thesis using ne assms(4) fmt eq by (simp add: canonical_image_ref_def)
  next
    case True
    then have "slash_count ref \<noteq> 0" unfolding cnt by (auto simp: slash_count_def filter_empty_conv)
    then have one: "slash_count ref = 1" using assms(3) by simp
    obtain i where i: "index_of (CHR ''/'') bt = Some i" using True index_of_None by blast
    have b: "bt = take i bt @ CHR ''/'' # drop (Suc i) bt" "CHR ''/'' \<notin> set (take i bt)" "i < length bt"
      using index_of_Some [OF i] by auto
    have "index_of (CHR ''/'') (take i bt @ CHR ''/'' # (drop (Suc i) bt @ ?sfx)) = Some (length (take i bt))"
      using b(2) by (rule index_of_append_sep)
    moreover have "take i bt @ CHR ''/'' # (drop (Suc i) bt @ ?sfx) = ref" using b(1) eq by (metis append.assoc append_Cons)
    ultimately have ir: "index_of (CHR ''/'') ref = Some i" using b(3) by simp
    have head: "take i ref = take i bt" using b(3) eq by simp
    have canon: "canonical_image_ref ref = (if looks_like_host (take i bt) then ref else ''docker.io/'' @ ref)"
      using ne assms(4) one ir head by (simp add: canonical_image_ref_def looks_like_host_def)
    show ?thesis
    proof (cases "looks_like_host (take i bt)")
      case True
      then have "registry_host r = take i bt" "repository r = drop (Suc i) bt"
        using s(3) unfolding split_host_def i by (auto simp: Let_def split: if_splits)
      then have "format_image_reference r = bt @ ?sfx" using fmt b(1) by (metis append.assoc append_Cons)
      then show ?thesis using canon True eq by simp
    next
      case False
      then have "registry_host r = ''docker.io''" "repository r = bt"
        using s(3) unfolding split_host_def i by (auto simp: Let_def split: if_splits)
      then show ?thesis using canon False fmt eq by simp
    qed
  qed
  show "canonical_image_ref (canonical_image_ref x) = canonical_image_ref x"
    by (auto simp: canonical_image_ref_def slash_count_def Let_def)
qed

theorem canonical_is_printed_form_witness:
  "canonical_image_ref ''owner/app:1'' = ''docker.io/owner/app:1''"
proof -
  let ?r = "\<lparr>registry_host = ''docker.io'', repository = ''owner/app'', ptag = Some ''1'', digest = None\<rparr>"
  have 1: "parse_image_reference ''owner/app:1'' = Some ?r" by code_simp
  have 2: "js_trim ''owner/app:1'' = ''owner/app:1''" "slash_count ''owner/app:1'' \<le> 1"
    "\<not> starts_with ''owner/app:1'' ''sha256:''" by code_simp+
  have "format_image_reference ?r = ''docker.io/owner/app:1''" by code_simp
  with canonical_is_printed_form [OF 1 2] show ?thesis by simp
qed

end
