(* ===== verification/Semver.thy ===== *)
theory Semver
  imports JsRegex
begin

text \<open>
  Version tags (\<open>custom-deployments/semver-compare.ts\<close>): parsing, the comparison, the severity of an
  update and the choice of the newest stable tag. The numbers of a tag are read exactly (the source's
  \<open>parseInt\<close> is exact below 2 to the 53).
\<close>

record semver =
  major :: nat
  minor :: nat
  patch :: nat
  pre :: "string option"

definition SEMVER_RE :: rx where
  "SEMVER_RE =
     RSeq (r_opt (r_chr (CHR ''v'')))
       (RSeq (RGrp 1 (r_plus r_digit)) (RSeq (r_chr (CHR ''.''))
       (RSeq (RGrp 2 (r_plus r_digit)) (RSeq (r_chr (CHR ''.''))
       (RSeq (RGrp 3 (r_plus r_digit))
         (r_opt (RSeq (r_set ''-.'')
           (RGrp 4 (r_plus (RCls (\<lambda>c. is_alnum c \<or> c = CHR ''.'' \<or> c = CHR ''-'')))))))))))"

definition parse_semver :: "string \<Rightarrow> semver option" where
  "parse_semver tag =
     (if tag = [] then None
      else (case rx_full SEMVER_RE (js_trim tag) of
          None \<Rightarrow> None
        | Some m \<Rightarrow> Some \<lparr>major = parse_nat (the (cap 1 m)), minor = parse_nat (the (cap 2 m)),
            patch = parse_nat (the (cap 3 m)), pre = cap 4 m\<rparr>))"

text \<open>JavaScript compares strings by code unit, from the left, a proper prefix first: the list order.\<close>

definition compare_semver :: "semver \<Rightarrow> semver \<Rightarrow> int" where
  "compare_semver a b =
     (if major a \<noteq> major b then int (major a) - int (major b)
      else if minor a \<noteq> minor b then int (minor a) - int (minor b)
      else if patch a \<noteq> patch b then int (patch a) - int (patch b)
      else if pre a = pre b then 0
      else (case (pre a, pre b) of
          (None, _) \<Rightarrow> 1
        | (_, None) \<Rightarrow> -1
        | (Some x, Some y) \<Rightarrow> if x < y then -1 else 1))"

datatype bump_severity = NoUpdate | PatchBump | MinorBump | MajorBump | UnknownBump

definition classify_bump :: "semver \<Rightarrow> semver \<Rightarrow> bump_severity" where
  "classify_bump current latest =
     (if major latest > major current then MajorBump
      else if major latest < major current then NoUpdate
      else if minor latest > minor current then MinorBump
      else if minor latest < minor current then NoUpdate
      else if patch latest > patch current then PatchBump
      else if patch latest < patch current then NoUpdate
      else NoUpdate)"

fun pick_from :: "(string \<times> semver) option \<Rightarrow> string list \<Rightarrow> semver \<Rightarrow> (string \<times> semver) option" where
  "pick_from best [] current = best"
| "pick_from best (raw # tags) current =
     (case parse_semver raw of
        None \<Rightarrow> pick_from best tags current
      | Some v \<Rightarrow>
          if pre v \<noteq> None then pick_from best tags current
          else if compare_semver v current \<le> 0 then pick_from best tags current
          else if (case best of None \<Rightarrow> True | Some (_, bv) \<Rightarrow> compare_semver v bv > 0)
          then pick_from (Some (raw, v)) tags current
          else pick_from best tags current)"

definition pick_latest_stable :: "string list \<Rightarrow> semver \<Rightarrow> (string \<times> semver) option" where
  "pick_latest_stable tags current = pick_from None tags current"

section \<open>The comparison is a linear order\<close>

instantiation semver_ext :: (linorder) linorder
begin

definition pre_le :: "string option \<Rightarrow> string option \<Rightarrow> bool" where
  "pre_le p q = (case q of None \<Rightarrow> True | Some y \<Rightarrow> (case p of None \<Rightarrow> False | Some x \<Rightarrow> x \<le> y))"

definition less_eq_semver_ext :: "'a semver_ext \<Rightarrow> 'a semver_ext \<Rightarrow> bool" where
  "less_eq_semver_ext a b =
     (major a < major b \<or> major a = major b \<and> (minor a < minor b \<or> minor a = minor b \<and>
       (patch a < patch b \<or> patch a = patch b \<and> (pre a \<noteq> pre b \<and> pre_le (pre a) (pre b)
         \<or> pre a = pre b \<and> semver.more a \<le> semver.more b))))"

definition less_semver_ext :: "'a semver_ext \<Rightarrow> 'a semver_ext \<Rightarrow> bool" where
  "less_semver_ext a b = (a \<le> b \<and> \<not> b \<le> (a :: 'a semver_ext))"

instance
proof
  have pre: "pre_le p p" "pre_le p q \<Longrightarrow> pre_le q p \<Longrightarrow> p = q" "pre_le p q \<Longrightarrow> pre_le q s \<Longrightarrow> pre_le p s"
    "pre_le p q \<or> pre_le q p" for p q s
    by (auto simp: pre_le_def split: option.splits)
  fix a b c :: "'a semver_ext"
  show "(a < b) = (a \<le> b \<and> \<not> b \<le> a)" by (simp add: less_semver_ext_def)
  show "a \<le> a" by (simp add: less_eq_semver_ext_def)
  show "a \<le> b \<Longrightarrow> b \<le> c \<Longrightarrow> a \<le> c"
    unfolding less_eq_semver_ext_def using pre(2,3) by (smt (verit) order_trans less_trans)
  show "a \<le> b \<Longrightarrow> b \<le> a \<Longrightarrow> a = b"
    unfolding less_eq_semver_ext_def using pre(2) by (auto intro: semver.equality)
  show "a \<le> b \<or> b \<le> a"
    unfolding less_eq_semver_ext_def using pre(4) [of "pre a" "pre b"] linear by (metis linorder_neqE_nat)
qed

end

lemma compare_semver_le: "compare_semver a b \<le> 0 \<longleftrightarrow> a \<le> (b :: semver)"
  by (auto simp: compare_semver_def less_eq_semver_ext_def pre_le_def split: option.splits)

lemma compare_semver_sign: "compare_semver b a = 0 \<longleftrightarrow> a = b" "compare_semver a b > 0 \<longleftrightarrow> compare_semver b a < 0"
  by (auto simp: compare_semver_def split: option.splits intro: semver.equality)

lemma compare_semver_gt: "compare_semver a b > 0 \<longleftrightarrow> b < (a :: semver)"
  using compare_semver_le [of a b] by (auto simp: not_le)

section \<open>The choice of a tag\<close>

text \<open>The comparison is a linear order on versions: numbers before pre-release, a pre-release below
  the release of the same numbers, equal only for equal versions.\<close>

theorem compare_semver_linear:
  "(compare_semver a b > 0 \<longleftrightarrow> compare_semver b a < 0) \<and> (compare_semver a b = 0 \<longleftrightarrow> a = b)
   \<and> (compare_semver a b \<le> 0 \<and> compare_semver b c \<le> 0 \<longrightarrow> compare_semver a c \<le> 0)
   \<and> compare_semver (a\<lparr>pre := Some p\<rparr>) (a\<lparr>pre := None\<rparr>) < 0"
proof -
  have "compare_semver (a\<lparr>pre := Some p\<rparr>) (a\<lparr>pre := None\<rparr>) < 0" by (simp add: compare_semver_def)
  then show ?thesis
    using compare_semver_sign [of a b] compare_semver_sign [of b a] order_trans [of a b c] by (auto simp: compare_semver_le)
qed

theorem compare_semver_linear_witness:
  "compare_semver \<lparr>major = 1, minor = 0, patch = 0, pre = Some ''rc1''\<rparr> \<lparr>major = 2, minor = 0, patch = 0, pre = None\<rparr> \<le> 0"
  using compare_semver_linear [of "\<lparr>major = 1, minor = 0, patch = 0, pre = Some ''rc1''\<rparr>"
      "\<lparr>major = 1, minor = 0, patch = 0, pre = None\<rparr>" "\<lparr>major = 2, minor = 0, patch = 0, pre = None\<rparr>"]
  by (simp add: compare_semver_def)

definition stable_tag :: "string \<Rightarrow> semver \<Rightarrow> bool" where
  "stable_tag t v = (parse_semver t = Some v \<and> pre v = None)"

lemma pick_from_spec:
  assumes "case best of None \<Rightarrow> True | Some (t, v) \<Rightarrow> stable_tag t v \<and> current < v"
  shows "case pick_from best tags current of
      None \<Rightarrow> best = None \<and> (\<forall>t \<in> set tags. \<forall>v. stable_tag t v \<longrightarrow> v \<le> current)
    | Some (t, v) \<Rightarrow> (best = Some (t, v) \<or> t \<in> set tags) \<and> stable_tag t v \<and> current < v
        \<and> (case best of None \<Rightarrow> True | Some (_, bv) \<Rightarrow> bv \<le> v)
        \<and> (\<forall>t' \<in> set tags. \<forall>v'. stable_tag t' v' \<longrightarrow> v' \<le> v)"
  using assms
proof (induction tags arbitrary: best)
  case Nil
  then show ?case by (auto split: option.splits)
next
  case (Cons raw tags)
  show ?case
  proof (cases "\<exists>v. stable_tag raw v \<and> current < v \<and> (case best of None \<Rightarrow> True | Some (_, bv) \<Rightarrow> bv < v)")
    case True
    then obtain v where v: "stable_tag raw v" "current < v" "case best of None \<Rightarrow> True | Some (_, bv) \<Rightarrow> bv < v" by blast
    then have step: "pick_from best (raw # tags) current = pick_from (Some (raw, v)) tags current"
      by (auto simp: stable_tag_def compare_semver_gt compare_semver_le not_le split: option.splits)
    show ?thesis
      using Cons.IH [of "Some (raw, v)"] v unfolding step
      by (auto simp: stable_tag_def split: option.splits)
  next
    case False
    then have step: "pick_from best (raw # tags) current = pick_from best tags current"
      by (auto simp: stable_tag_def compare_semver_gt compare_semver_le not_le split: option.splits)
    have raw: "v \<le> current \<or> (\<exists>t bv. best = Some (t, bv) \<and> v \<le> bv)" if "stable_tag raw v" for v
      using False that by (auto simp: not_less split: option.splits)
    show ?thesis
      using Cons.IH [OF Cons.prems] raw unfolding step by (fastforce split: option.splits)
  qed
qed

text \<open>The update checker suggests the newest stable tag. The choice is empty exactly when no stable
  tag of the list is newer than the current version; otherwise it is a tag of the list, stable, newer
  than the current version, and no stable tag of the list is newer than it.\<close>

theorem pick_latest_stable_max:
  "case pick_latest_stable tags current of
      None \<Rightarrow> (\<forall>t \<in> set tags. \<forall>v. stable_tag t v \<longrightarrow> v \<le> current)
    | Some (t, v) \<Rightarrow> t \<in> set tags \<and> stable_tag t v \<and> current < v
        \<and> (\<forall>t' \<in> set tags. \<forall>v'. stable_tag t' v' \<longrightarrow> v' \<le> v)"
  using pick_from_spec [where best = None and current = current and tags = tags] by (auto simp: pick_latest_stable_def split: option.splits)

theorem pick_latest_stable_max_witness:
  "pick_latest_stable [''1.2.0'', ''latest'', ''v1.10.0'', ''2.0.0-rc1''] \<lparr>major = 1, minor = 2, patch = 0, pre = None\<rparr>
     = Some (''v1.10.0'', \<lparr>major = 1, minor = 10, patch = 0, pre = None\<rparr>)
   \<and> \<lparr>major = 1, minor = 2, patch = 0, pre = None\<rparr> < (\<lparr>major = 1, minor = 10, patch = 0, pre = None\<rparr> :: semver)"
proof -
  let ?c = "\<lparr>major = 1, minor = 2, patch = 0, pre = None\<rparr>"
  have "pick_latest_stable [''1.2.0'', ''latest'', ''v1.10.0'', ''2.0.0-rc1''] ?c
    = Some (''v1.10.0'', \<lparr>major = 1, minor = 10, patch = 0, pre = None\<rparr>)" by code_simp
  with pick_latest_stable_max [of "[''1.2.0'', ''latest'', ''v1.10.0'', ''2.0.0-rc1'']" ?c] show ?thesis by simp
qed

text \<open>A suggested update is classified \<open>no-update\<close> exactly when it is the release of the current
  pre-release (the same three numbers); the comment of the version record calls that step a patch.\<close>

theorem suggested_release_of_prerelease_is_no_update:
  assumes "pick_latest_stable tags current = Some (t, v)"
  shows "(classify_bump current v = NoUpdate \<longleftrightarrow>
      (major v = major current \<and> minor v = minor current \<and> patch v = patch current))
    \<and> (classify_bump current v = NoUpdate \<longrightarrow> pre current \<noteq> None \<and> pre v = None)"
proof
  have v: "current < v" "pre v = None"
    using pick_from_spec [where best = None and current = current and tags = tags] assms by (auto simp: pick_latest_stable_def stable_tag_def)
  then have gt: "compare_semver v current > 0" by (simp add: compare_semver_gt)
  show "(classify_bump current v = NoUpdate) =
    (major v = major current \<and> minor v = minor current \<and> patch v = patch current)"
    using gt by (auto simp: classify_bump_def compare_semver_def split: if_splits)
  show "classify_bump current v = NoUpdate \<longrightarrow> pre current \<noteq> None \<and> pre v = None"
    using gt v(2) by (cases "pre current") (auto simp: classify_bump_def compare_semver_def split: if_splits)
qed

theorem suggested_release_of_prerelease_is_no_update_witness:
  "pick_latest_stable [''1.0.0''] \<lparr>major = 1, minor = 0, patch = 0, pre = Some ''rc2''\<rparr>
     = Some (''1.0.0'', \<lparr>major = 1, minor = 0, patch = 0, pre = None\<rparr>)
   \<and> classify_bump \<lparr>major = 1, minor = 0, patch = 0, pre = Some ''rc2''\<rparr> \<lparr>major = 1, minor = 0, patch = 0, pre = None\<rparr> = NoUpdate"
proof -
  have "pick_latest_stable [''1.0.0''] \<lparr>major = 1, minor = 0, patch = 0, pre = Some ''rc2''\<rparr>
     = Some (''1.0.0'', \<lparr>major = 1, minor = 0, patch = 0, pre = None\<rparr>)" by code_simp
  with suggested_release_of_prerelease_is_no_update [OF this] show ?thesis by simp
qed

end
