(* ===== verification/WafEvaluator.thy ===== *)
theory WafEvaluator
  imports Prelude
begin

text \<open>
  The WAF auto-ban evaluator (\<open>crowdsec-autoban/evaluator.ts\<close>): one decision per source address of a
  batch of WAF events, and the duration of a ban. Durations are computed exactly, as rationals.
\<close>

section \<open>Rows, configuration and decisions\<close>

record waf_row =
  w_id :: string
  w_created :: int
  w_ip :: "string option"
  w_host :: string
  w_rule :: string
  w_sev :: string
  w_tenant :: "string option"

record autoban_config =
  enabled :: bool
  window_seconds :: nat
  event_threshold :: nat
  min_severity :: string
  initial_ban :: string
  backoff_multiplier :: rat
  max_ban :: string
  excluded_rules :: "string list"
  include_tenant_routes :: bool

datatype autoban_outcome =
    Banned | SkippedAlreadyBanned | SkippedExcludedRule | SkippedBelowThreshold | SkippedAllowlisted | BanFailed

record autoban_decision =
  d_ip :: string
  d_host :: "string option"
  d_rules :: "string list"
  d_count :: nat
  d_outcome :: autoban_outcome
  d_duration :: "string option"
  d_detail :: "string option"

definition SEVERITY_RANK :: "(string \<times> nat) list" where
  "SEVERITY_RANK = [(''info'', 0), (''warning'', 1), (''critical'', 2)]"

definition rank_or :: "nat \<Rightarrow> string \<Rightarrow> nat" where
  "rank_or d s = (case js_get s SEVERITY_RANK of Some r \<Rightarrow> r | None \<Rightarrow> d)"

definition passes_severity :: "string \<Rightarrow> string \<Rightarrow> bool" where
  "passes_severity row_sev min_sev = (rank_or 0 row_sev \<ge> rank_or 1 min_sev)"

section \<open>Durations\<close>

definition unit_ms :: "char \<Rightarrow> nat" where
  "unit_ms u = (if u = CHR ''s'' then 1000 else if u = CHR ''m'' then 60000
     else if u = CHR ''h'' then 3600000 else 86400000)"

text \<open>The loop over \<open>/(\d+)([smhd])/g\<close>: every run of digits that a unit follows directly.\<close>

function parse_duration_ms :: "string \<Rightarrow> nat" where
  "parse_duration_ms [] = 0"
| "parse_duration_ms (c # cs) =
     (if \<not> is_digit c then parse_duration_ms cs
      else (case dropWhile is_digit (c # cs) of
          [] \<Rightarrow> 0
        | u # rest \<Rightarrow>
            if u \<in> set ''smhd'' then
              parse_nat (takeWhile is_digit (c # cs)) * unit_ms u + parse_duration_ms rest
            else parse_duration_ms rest))"
  by pat_completeness auto
termination
proof (relation "measure length", goal_cases)
  case (3 c cs u rest)
  then have "length (u # rest) \<le> length (c # cs)" by (metis length_dropWhile_le)
  then show ?case by simp
next
  case (4 c cs u rest)
  then have "length (u # rest) \<le> length (c # cs)" by (metis length_dropWhile_le)
  then show ?case by simp
qed simp_all

definition is_multiple :: "rat \<Rightarrow> rat \<Rightarrow> bool" where
  "is_multiple x k = (of_int \<lfloor>x / k\<rfloor> = x / k)"

definition ms_to_crowdsec_duration :: "rat \<Rightarrow> string" where
  "ms_to_crowdsec_duration ms =
     (if ms \<le> 0 then ''1m''
      else if is_multiple ms 86400000 then show_int \<lfloor>ms / 86400000\<rfloor> @ ''d''
      else if is_multiple ms 3600000 then show_int \<lfloor>ms / 3600000\<rfloor> @ ''h''
      else if is_multiple ms 60000 then show_int \<lfloor>ms / 60000\<rfloor> @ ''m''
      else show_int (max 1 \<lfloor>ms / 1000 + 1 / 2\<rfloor>) @ ''s'')"

definition compute_ban_duration :: "autoban_config \<Rightarrow> nat \<Rightarrow> string" where
  "compute_ban_duration config past_bans =
     (let base_ms = of_nat (parse_duration_ms (initial_ban config));
          cap_ms = of_nat (parse_duration_ms (max_ban config));
          scaled = base_ms * backoff_multiplier config ^ past_bans in
      ms_to_crowdsec_duration (min scaled cap_ms))"

section \<open>The batch\<close>

record group =
  g_rules :: "string list"
  g_count :: nat
  g_severity :: nat
  g_qualifying :: nat
  g_host :: "string option"
  g_tenant :: bool

definition empty_group :: group where
  "empty_group = \<lparr>g_rules = [], g_count = 0, g_severity = 0, g_qualifying = 0, g_host = None, g_tenant = False\<rparr>"

definition set_add :: "string \<Rightarrow> string list \<Rightarrow> string list" where
  "set_add x xs = (if x \<in> set xs then xs else xs @ [x])"

definition add_event :: "autoban_config \<Rightarrow> waf_row \<Rightarrow> group \<Rightarrow> group" where
  "add_event config e g =
     (let g1 = g\<lparr>g_count := g_count g + 1, g_rules := set_add (w_rule e) (g_rules g),
               g_host := (if w_host e \<noteq> [] then Some (w_host e) else g_host g),
               g_tenant := (g_tenant g \<or> w_tenant e \<noteq> None)\<rparr> in
      if \<not> passes_severity (w_sev e) (min_severity config) then g1
      else (let g2 = g1\<lparr>g_severity := g_severity g1 + 1\<rparr> in
            if w_rule e \<in> set (excluded_rules config) then g2
            else g2\<lparr>g_qualifying := g_qualifying g2 + 1\<rparr>))"

definition group_event :: "autoban_config \<Rightarrow> waf_row \<Rightarrow> (string \<times> group) list \<Rightarrow> (string \<times> group) list" where
  "group_event config e groups =
     (case w_ip e of
        None \<Rightarrow> groups
      | Some ip \<Rightarrow>
          if ip = [] then groups
          else AList.update ip (add_event config e (case js_get ip groups of Some g \<Rightarrow> g | None \<Rightarrow> empty_group)) groups)"

definition only_tenant_routes :: "waf_row list \<Rightarrow> string \<Rightarrow> group \<Rightarrow> bool" where
  "only_tenant_routes events ip g =
     (g_tenant g \<and> \<not> (\<exists>i \<in> set (g_rules g). \<exists>e \<in> set events. w_ip e = Some ip \<and> w_rule e = i \<and> w_tenant e = None))"

definition decide_group ::
  "waf_row list \<Rightarrow> autoban_config \<Rightarrow> string set \<Rightarrow> (string \<Rightarrow> nat option) \<Rightarrow> string \<times> group
     \<Rightarrow> autoban_decision option" where
  "decide_group events config recently_banned past_bans_per_ip ig =
     (case ig of (ip, g) \<Rightarrow>
        (let rules = sort (g_rules g);
             base = (\<lambda>out dur det. \<lparr>d_ip = ip, d_host = g_host g, d_rules = rules, d_count = g_count g,
                        d_outcome = out, d_duration = dur, d_detail = det\<rparr>)
         in if only_tenant_routes events ip g \<and> \<not> include_tenant_routes config then None
            else if ip \<in> recently_banned then
              Some (base SkippedAlreadyBanned None (Some ''in-process LRU shows recent ban''))
            else if g_severity g > 0 \<and> g_qualifying g = 0 then
              Some (base SkippedExcludedRule None
                (Some (''all '' @ show_nat (g_severity g) @ '' severity-passing events matched excluded rule(s): ''
                   @ join_with '','' rules)))
            else if g_qualifying g < event_threshold config then
              Some (base SkippedBelowThreshold None
                (Some (show_nat (g_qualifying g) @ ''/'' @ show_nat (event_threshold config) @ '' qualifying events'')))
            else
              (let past = (case past_bans_per_ip ip of Some n \<Rightarrow> n | None \<Rightarrow> 0) in
               Some (base Banned (Some (compute_ban_duration config past))
                 (if past > 0 then Some (''repeat offender ('' @ show_nat past @ '' prior bans in 24h)'') else None)))))"

definition evaluate_waf_batch ::
  "waf_row list \<Rightarrow> autoban_config \<Rightarrow> string set \<Rightarrow> (string \<Rightarrow> nat option) \<Rightarrow> autoban_decision list" where
  "evaluate_waf_batch events config recently_banned past_bans_per_ip =
     (if \<not> enabled config \<or> length events = 0 then []
      else List.map_filter (decide_group events config recently_banned past_bans_per_ip)
             (fold (group_event config) events []))"

section \<open>What a group knows\<close>

definition of_ip :: "string \<Rightarrow> waf_row list \<Rightarrow> waf_row list" where
  "of_ip ip events = filter (\<lambda>e. w_ip e = Some ip) events"

definition severe :: "autoban_config \<Rightarrow> waf_row \<Rightarrow> bool" where
  "severe config e = passes_severity (w_sev e) (min_severity config)"

definition qualifying :: "autoban_config \<Rightarrow> waf_row \<Rightarrow> bool" where
  "qualifying config e = (severe config e \<and> w_rule e \<notin> set (excluded_rules config))"

fun last_host :: "waf_row list \<Rightarrow> string option" where
  "last_host es = (case filter (\<lambda>e. w_host e \<noteq> []) es of [] \<Rightarrow> None | _ \<Rightarrow> Some (w_host (last (filter (\<lambda>e. w_host e \<noteq> []) es))))"

definition summary :: "autoban_config \<Rightarrow> waf_row list \<Rightarrow> group" where
  "summary config es =
     \<lparr>g_rules = fold (\<lambda>e. set_add (w_rule e)) es [], g_count = length es,
      g_severity = length (filter (severe config) es), g_qualifying = length (filter (qualifying config) es),
      g_host = last_host es, g_tenant = (\<exists>e \<in> set es. w_tenant e \<noteq> None)\<rparr>"

lemma add_event_summary: "add_event config e (summary config es) = summary config (es @ [e])"
  by (auto simp: add_event_def summary_def severe_def qualifying_def Let_def split: list.splits)

lemma summary_Nil [simp]: "summary config [] = empty_group"
  by (simp add: summary_def empty_group_def)

definition groups_of :: "autoban_config \<Rightarrow> waf_row list \<Rightarrow> (string \<times> group) list \<Rightarrow> bool" where
  "groups_of config events gs =
     (js_map_ok gs \<and> (\<forall>ip. js_get ip gs = (if ip \<noteq> [] \<and> of_ip ip events \<noteq> []
        then Some (summary config (of_ip ip events)) else None)))"

lemma groups_of_step:
  assumes "groups_of config events gs"
  shows "groups_of config (events @ [e]) (group_event config e gs)"
proof (cases "\<exists>ip. w_ip e = Some ip \<and> ip \<noteq> []")
  case True
  then obtain ip where ip: "w_ip e = Some ip" "ip \<noteq> []" by blast
  let ?g = "case js_get ip gs of Some g \<Rightarrow> g | None \<Rightarrow> empty_group"
  have g: "?g = summary config (of_ip ip events)"
    using assms ip by (auto simp: groups_of_def)
  have "group_event config e gs = AList.update ip (summary config (of_ip ip (events @ [e]))) gs"
    using ip g by (simp add: group_event_def add_event_summary of_ip_def)
  then show ?thesis
    using assms ip by (auto simp: groups_of_def js_get_update js_map.invar_put of_ip_def)
next
  case False
  then have "group_event config e gs = gs" "\<And>ip. ip \<noteq> [] \<Longrightarrow> of_ip ip (events @ [e]) = of_ip ip events"
    by (auto simp: group_event_def of_ip_def split: option.splits)
  with assms show ?thesis unfolding groups_of_def by metis
qed

lemma groups_of_fold: "groups_of config events (fold (group_event config) events [])"
proof (induction events rule: rev_induct)
  case Nil
  show ?case by (simp add: groups_of_def of_ip_def)
next
  case (snoc e events)
  then show ?case using groups_of_step by simp
qed

lemma set_rules: "set (fold (\<lambda>e. set_add (w_rule e)) es rs) = set rs \<union> w_rule ` set es"
  by (induction es arbitrary: rs) (auto simp: set_add_def)

lemma only_tenant_routes_summary:
  "of_ip ip events \<noteq> [] \<Longrightarrow>
     only_tenant_routes events ip (summary config (of_ip ip events)) = (\<forall>e \<in> set (of_ip ip events). w_tenant e \<noteq> None)"
  by (fastforce simp: only_tenant_routes_def summary_def set_rules of_ip_def filter_empty_conv)

section \<open>Properties of the evaluator\<close>

definition bannable :: "waf_row list \<Rightarrow> autoban_config \<Rightarrow> string set \<Rightarrow> string \<Rightarrow> bool" where
  "bannable events config recent ip =
     (let es = of_ip ip events in
      es \<noteq> [] \<and> ip \<noteq> [] \<and> ip \<notin> recent
      \<and> ((\<exists>e \<in> set es. w_tenant e = None) \<or> include_tenant_routes config)
      \<and> length (filter (qualifying config) es) \<ge> event_threshold config
      \<and> (filter (severe config) es = [] \<or> filter (qualifying config) es \<noteq> []))"

lemma map_filter_ips:
  assumes "\<And>i g d. (i, g) \<in> set gs \<Longrightarrow> f (i, g) = Some d \<Longrightarrow> d_ip d = i" and "js_map_ok gs"
  shows "distinct (map d_ip (List.map_filter f gs))"
  using assms
proof (induction gs)
  case (Cons x gs)
  obtain i g where x: "x = (i, g)" by fastforce
  have IH: "distinct (map d_ip (List.map_filter f gs))"
    using Cons.prems(2) by (intro Cons.IH) (auto simp: js_map_ok_def intro: Cons.prems(1))
  have "d_ip d \<noteq> i" if "d \<in> set (List.map_filter f gs)" for d
  proof -
    from that obtain j h where jh: "(j, h) \<in> set gs" "f (j, h) = Some d" by (auto simp: List.map_filter_def)
    then have "d_ip d = j" using Cons.prems(1) [of j h d] by simp
    moreover have "j \<noteq> i" using Cons.prems(2) jh(1) by (force simp: js_map_ok_def x)
    ultimately show ?thesis by simp
  qed
  then show ?case
    using IH Cons.prems(1) [of i g] by (auto simp: x map_filter_simps split: option.split)
qed (simp add: map_filter_simps)

lemma decide_group_ip: "decide_group events config recent past (ip, g) = Some d \<Longrightarrow> d_ip d = ip"
  by (auto simp: decide_group_def Let_def split: if_splits)

lemma decide_group_banned:
  assumes "of_ip ip events \<noteq> []" and "ip \<noteq> []"
  shows "(\<exists>d. decide_group events config recent past (ip, summary config (of_ip ip events)) = Some d \<and> d_outcome d = Banned)
    \<longleftrightarrow> bannable events config recent ip"
  using assms only_tenant_routes_summary [OF assms(1), of config]
  by (auto simp: decide_group_def bannable_def Let_def summary_def not_less)

lemma decide_group_duration:
  "decide_group events config recent past (ip, g) = Some d \<Longrightarrow> d_outcome d = Banned \<Longrightarrow>
     d_duration d = Some (compute_ban_duration config (case past ip of Some n \<Rightarrow> n | None \<Rightarrow> 0))"
  by (auto simp: decide_group_def Let_def split: if_splits)

lemma evaluate_set:
  "enabled config \<Longrightarrow> d \<in> set (evaluate_waf_batch events config recent past) \<longleftrightarrow>
     (\<exists>ip. ip \<noteq> [] \<and> of_ip ip events \<noteq> []
        \<and> decide_group events config recent past (ip, summary config (of_ip ip events)) = Some d)"
proof -
  assume en: "enabled config"
  let ?gs = "fold (group_event config) events []"
  have gs: "groups_of config events ?gs" by (rule groups_of_fold)
  have mem: "(ip, g) \<in> set ?gs \<longleftrightarrow> ip \<noteq> [] \<and> of_ip ip events \<noteq> [] \<and> g = summary config (of_ip ip events)" for ip g
    using gs js_get_eq_Some_iff [of ?gs ip g] by (auto simp: groups_of_def split: if_splits)
  have "d \<in> set (List.map_filter f gs) \<longleftrightarrow> (\<exists>ip g. (ip, g) \<in> set gs \<and> f (ip, g) = Some d)"
    for f :: "string \<times> group \<Rightarrow> autoban_decision option" and gs
    by (force simp: List.map_filter_def)
  then show ?thesis using en mem by (auto simp: evaluate_waf_batch_def of_ip_def)
qed

text \<open>The evaluator bans an address exactly when it should. With auto-ban enabled, a batch yields a
  ban for an address if and only if the address is not empty, some event of it came through an admin host
  (or tenant routes are included), it was not banned recently, and at least the threshold of its events
  (and at least one, when it has severe events) pass the severity floor without being excluded; the ban's
  length is the one computed from the past bans, and an address gets at most one decision.\<close>

theorem evaluator_bans_exactly:
  assumes "enabled config"
  shows "((\<exists>d \<in> set (evaluate_waf_batch events config recent past). d_ip d = ip \<and> d_outcome d = Banned)
      \<longleftrightarrow> bannable events config recent ip)
    \<and> (\<forall>d \<in> set (evaluate_waf_batch events config recent past). d_outcome d = Banned \<longrightarrow>
        d_duration d = Some (compute_ban_duration config (case past (d_ip d) of Some n \<Rightarrow> n | None \<Rightarrow> 0)))
    \<and> distinct (map d_ip (evaluate_waf_batch events config recent past))"
proof (intro conjI)
  show "(\<exists>d \<in> set (evaluate_waf_batch events config recent past). d_ip d = ip \<and> d_outcome d = Banned)
      \<longleftrightarrow> bannable events config recent ip"
  proof
    assume "\<exists>d \<in> set (evaluate_waf_batch events config recent past). d_ip d = ip \<and> d_outcome d = Banned"
    then show "bannable events config recent ip"
      unfolding Bex_def evaluate_set [OF assms] using decide_group_banned decide_group_ip by metis
  next
    assume b: "bannable events config recent ip"
    then have ne: "of_ip ip events \<noteq> []" "ip \<noteq> []" by (auto simp: bannable_def Let_def)
    with b obtain d where d: "decide_group events config recent past (ip, summary config (of_ip ip events)) = Some d"
      "d_outcome d = Banned" using decide_group_banned by blast
    then show "\<exists>d \<in> set (evaluate_waf_batch events config recent past). d_ip d = ip \<and> d_outcome d = Banned"
      unfolding Bex_def evaluate_set [OF assms] using ne decide_group_ip [OF d(1)] by blast
  qed
  show "\<forall>d \<in> set (evaluate_waf_batch events config recent past). d_outcome d = Banned \<longrightarrow>
      d_duration d = Some (compute_ban_duration config (case past (d_ip d) of Some n \<Rightarrow> n | None \<Rightarrow> 0))"
    unfolding Ball_def evaluate_set [OF assms] using decide_group_duration decide_group_ip by metis
  have "js_map_ok (fold (group_event config) events [])" using groups_of_fold by (simp add: groups_of_def)
  then show "distinct (map d_ip (evaluate_waf_batch events config recent past))"
    unfolding evaluate_waf_batch_def by (auto intro!: map_filter_ips dest: decide_group_ip)
qed

definition ex_config :: autoban_config where
  "ex_config = \<lparr>enabled = True, window_seconds = 300, event_threshold = 2, min_severity = ''critical'',
     initial_ban = ''1h'', backoff_multiplier = 4, max_ban = ''7d'', excluded_rules = [''949110''],
     include_tenant_routes = False\<rparr>"

definition ex_event :: "string \<Rightarrow> string \<Rightarrow> string option \<Rightarrow> waf_row" where
  "ex_event i rule tenant = \<lparr>w_id = i, w_created = 0, w_ip = Some ''1.2.3.4'', w_host = ''admin.example'',
     w_rule = rule, w_sev = ''critical'', w_tenant = tenant\<rparr>"

theorem evaluator_bans_exactly_witness:
  "\<exists>d \<in> set (evaluate_waf_batch [ex_event ''1'' ''930100'' None, ex_event ''2'' ''941100'' None] ex_config {} (\<lambda>_. Some 1)).
     d_ip d = ''1.2.3.4'' \<and> d_outcome d = Banned \<and> d_duration d = Some ''4h''"
proof -
  let ?es = "[ex_event ''1'' ''930100'' None, ex_event ''2'' ''941100'' None]"
  have b: "bannable ?es ex_config {} ''1.2.3.4''" by code_simp
  have ms: "parse_duration_ms ''1h'' = 3600000" "parse_duration_ms ''7d'' = 604800000"
    by (simp_all add: is_digit_def parse_nat_def digit_val_def unit_ms_def)
  have "show_int 4 = ''4''" by code_simp
  moreover have "\<lfloor>1 / 6 :: rat\<rfloor> = 0" by (simp add: floor_eq_iff)
  ultimately have dur: "compute_ban_duration ex_config 1 = ''4h''"
    using ms by (simp add: compute_ban_duration_def ex_config_def ms_to_crowdsec_duration_def is_multiple_def Let_def
        del: parse_duration_ms.simps)
  have "enabled ex_config" by (simp add: ex_config_def)
  note result = evaluator_bans_exactly [OF this, of ?es "{}" "\<lambda>_. Some 1" "''1.2.3.4''"]
  from result [THEN conjunct1] b obtain d where
    d: "d \<in> set (evaluate_waf_batch ?es ex_config {} (\<lambda>_. Some 1))" "d_ip d = ''1.2.3.4''" "d_outcome d = Banned" by blast
  from bspec [OF result [THEN conjunct2, THEN conjunct1] d(1)] d(3)
  have "d_duration d = Some ''4h''" by (simp only: simp_thms option.case dur)
  with d show ?thesis by blast
qed

section \<open>Durations read back\<close>

lemma parse_duration_single:
  "u \<in> set ''smhd'' \<Longrightarrow> parse_duration_ms (show_nat n @ [u]) = n * unit_ms u"
proof -
  assume u: "u \<in> set ''smhd''"
  then have nd: "\<not> is_digit u" by (auto simp: is_digit_def)
  have ds: "\<forall>c \<in> set (show_nat n). is_digit c" by (rule show_nat_digits)
  obtain c cs where c: "show_nat n = c # cs" using show_nat_nonempty [of n] by (cases "show_nat n") auto
  have "dropWhile is_digit (show_nat n @ [u]) = [u]" "takeWhile is_digit (show_nat n @ [u]) = show_nat n"
    using ds nd by (simp_all add: dropWhile_append3 takeWhile_append)
  then have dt: "dropWhile is_digit (c # cs @ [u]) = [u]" "takeWhile is_digit (c # cs @ [u]) = show_nat n"
    unfolding c by simp_all
  have "is_digit c" using ds c by simp
  then show ?thesis
    unfolding c append_Cons parse_duration_ms.simps(2) dt using u by (simp only: list.case if_True not_True_eq_False if_False parse_duration_ms.simps(1) c [symmetric] parse_show_nat add_0_right)
qed

lemma parse_duration_thousand: "1000 dvd parse_duration_ms d"
proof (induction d rule: parse_duration_ms.induct)
  case (2 c cs)
  have "1000 dvd unit_ms u" for u by (simp add: unit_ms_def)
  with 2 show ?case by (auto split: list.splits)
qed simp

lemma is_multiple_nat: "k > 0 \<Longrightarrow> is_multiple (of_nat m) (of_nat k) \<longleftrightarrow> k dvd m"
proof -
  assume k: "k > 0"
  have "is_multiple (of_nat m) (of_nat k) \<longleftrightarrow> (of_nat (m div k) :: rat) = of_nat m / of_nat k"
    by (simp add: is_multiple_def floor_divide_of_nat_eq)
  also have "\<dots> \<longleftrightarrow> (of_nat (m div k * k) :: rat) = of_nat m"
    using k by (simp add: eq_divide_eq)
  also have "\<dots> \<longleftrightarrow> m div k * k = m" by (simp only: of_nat_eq_iff)
  finally show ?thesis by (metis dvd_div_mult_self dvd_triv_right)
qed

lemma duration_of_ms:
  assumes "1000 dvd m" and "m > 0"
  shows "parse_duration_ms (ms_to_crowdsec_duration (of_nat m)) = m"
proof -
  have fl: "show_int \<lfloor>(of_nat m :: rat) / of_nat k\<rfloor> = show_nat (m div k)" for k
    by (simp add: floor_divide_of_nat_eq show_int_def)
  have unit: "parse_duration_ms (show_nat (m div k) @ [u]) = m"
    if "k dvd m" "u \<in> set ''smhd''" "unit_ms u = k" for k u
    using parse_duration_single [OF that(2), of "m div k"] that by simp
  note mult = is_multiple_nat [of 86400000 m] is_multiple_nat [of 3600000 m] is_multiple_nat [of 60000 m]
  have sec: "max 1 \<lfloor>(of_nat m :: rat) / 1000 + 1 / 2\<rfloor> = int (m div 1000)"
  proof -
    obtain q where q: "m = 1000 * q" using assms(1) by blast
    have "\<lfloor>(of_nat m :: rat) / 1000 + 1 / 2\<rfloor> = int q" by (simp add: q floor_eq_iff)
    then show ?thesis using assms(2) q by simp
  qed
  have "show_int (int (m div 1000)) = show_nat (m div 1000)" by (simp add: show_int_def)
  then show ?thesis
    using assms fl [of 86400000] fl [of 3600000] fl [of 60000] mult sec
      unit [of 86400000 "CHR ''d''"] unit [of 3600000 "CHR ''h''"] unit [of 60000 "CHR ''m''"] unit [of 1000 "CHR ''s''"]
    by (simp add: ms_to_crowdsec_duration_def unit_ms_def del: parse_duration_ms.simps)
qed

text \<open>The ban lengths escalate as configured and never pass the cap: with a whole multiplier, the
  duration written for an address with \<open>n\<close> past bans, read back, is the initial duration times the
  multiplier to the \<open>n\<close>, or the cap when that is smaller, or one minute when the result would be zero.\<close>

theorem ban_duration_escalates:
  assumes "backoff_multiplier config = of_nat k"
  shows "parse_duration_ms (compute_ban_duration config n) =
    (let m = min (parse_duration_ms (initial_ban config) * k ^ n) (parse_duration_ms (max_ban config)) in
     if m = 0 then 60000 else m)"
proof -
  let ?m = "min (parse_duration_ms (initial_ban config) * k ^ n) (parse_duration_ms (max_ban config))"
  have "compute_ban_duration config n = ms_to_crowdsec_duration (of_nat ?m)"
    by (simp add: compute_ban_duration_def assms of_nat_min)
  moreover have "1000 dvd ?m"
    using parse_duration_thousand [of "initial_ban config"] parse_duration_thousand [of "max_ban config"]
    by (simp add: min_def)
  moreover have "parse_duration_ms ''1m'' = 60000"
    by (simp add: is_digit_def parse_nat_def digit_val_def unit_ms_def)
  then have "parse_duration_ms (ms_to_crowdsec_duration (of_nat 0)) = 60000"
    by (simp add: ms_to_crowdsec_duration_def del: parse_duration_ms.simps)
  ultimately show ?thesis using duration_of_ms [of ?m] by (cases "?m = 0") (simp_all add: Let_def)
qed

theorem ban_duration_escalates_witness:
  "parse_duration_ms (compute_ban_duration ex_config 2) = 57600000"
proof -
  have ms: "parse_duration_ms ''1h'' = 3600000" "parse_duration_ms ''7d'' = 604800000"
    by (simp_all add: is_digit_def parse_nat_def digit_val_def unit_ms_def)
  have "backoff_multiplier ex_config = of_nat 4" by (simp add: ex_config_def)
  from ban_duration_escalates [OF this, of 2] ms show ?thesis
    by (simp add: ex_config_def Let_def del: parse_duration_ms.simps)
qed

end
