(* ===== verification/AutobanScheduler.thy ===== *)
theory AutobanScheduler
  imports WafEvaluator
begin

text \<open>
  The auto-ban tick (\<open>crowdsec-autoban/scheduler.ts\<close>, \<open>runOnce\<close>) over the WAF log, the watermark and
  the audit table. CrowdSec is outside: the allowlist check and the ban itself are parameters acting on
  an abstract world; a ban that throws gives its message. All clock reads of one tick see one time, and
  ids compare in code-unit order, which is the database's order on ids of one alphabet and shape.
\<close>

definition MAX_BATCH :: nat where
  "MAX_BATCH = 1000"

record autoban_run =
  r_at :: int
  r_ip :: string
  r_host :: "string option"
  r_rules :: "string list"
  r_count :: nat
  r_window :: nat
  r_duration :: string
  r_outcome :: autoban_outcome
  r_detail :: "string option"

record 'w autoban_state =
  waf_logs :: "waf_row list"
  watermark :: "string option"
  config_of :: autoban_config
  ab_runs :: "autoban_run list"
  crowdsec :: 'w

record 'w crowdsec_api =
  in_allowlist :: "string \<Rightarrow> 'w \<Rightarrow> bool"
  add_ban :: "string \<Rightarrow> string \<Rightarrow> string \<Rightarrow> 'w \<Rightarrow> string option \<times> 'w"

text \<open>The rows after the watermark in id order; without one, the newest row alone.\<close>

definition new_waf_events_since :: "waf_row list \<Rightarrow> string option \<Rightarrow> waf_row list \<times> string option" where
  "new_waf_events_since logs wm =
     (let rows = (case wm of
            Some w \<Rightarrow> if w \<noteq> [] then take MAX_BATCH (sort_key w_id (filter (\<lambda>r. w < w_id r) logs))
              else take 1 (rev (sort_key w_id logs))
          | None \<Rightarrow> take 1 (rev (sort_key w_id logs)))
      in if length rows = 0 then ([], None) else (rows, Some (w_id (last rows))))"

definition recently_banned_ips :: "int \<Rightarrow> autoban_run list \<Rightarrow> string set" where
  "recently_banned_ips now rs =
     set (map r_ip (filter (\<lambda>r. r_outcome r = Banned \<and> r_at r > now - 5 * 60000) rs))"

definition past_bans_per_ip :: "int \<Rightarrow> string list \<Rightarrow> autoban_run list \<Rightarrow> string \<Rightarrow> nat option" where
  "past_bans_per_ip now candidate_ips rs ip =
     (if candidate_ips = [] then None
      else (let n = length (filter (\<lambda>r. r_outcome r = Banned \<and> r_at r > now - 24 * 3600000 \<and> r_ip r = ip) rs) in
            if ip \<in> set candidate_ips \<and> n > 0 then Some n else None))"

definition insert_run ::
  "int \<Rightarrow> autoban_decision \<Rightarrow> string \<Rightarrow> autoban_outcome \<Rightarrow> string option \<Rightarrow> 'w autoban_state \<Rightarrow> 'w autoban_state" where
  "insert_run now d dur out det s =
     s\<lparr>ab_runs := ab_runs s @ [\<lparr>r_at = now, r_ip = d_ip d, r_host = d_host d, r_rules = d_rules d,
        r_count = d_count d, r_window = window_seconds (config_of s), r_duration = dur, r_outcome = out,
        r_detail = det\<rparr>]\<rparr>"

definition duration_or :: "autoban_decision \<Rightarrow> string" where
  "duration_or d = (case d_duration d of Some t \<Rightarrow> t | None \<Rightarrow> ''1h'')"

definition ban_reason :: "autoban_decision \<Rightarrow> string" where
  "ban_reason d = ''auto-ban:'' @ ''rules '' @ join_with '','' (d_rules d) @ '' count '' @ show_nat (d_count d)"

definition act_on :: "'w crowdsec_api \<Rightarrow> int \<Rightarrow> autoban_decision \<Rightarrow> 'w autoban_state \<Rightarrow> 'w autoban_state" where
  "act_on api now d s =
     (if d_outcome d \<noteq> Banned then insert_run now d ''0s'' (d_outcome d) (d_detail d) s
      else if in_allowlist api (d_ip d) (crowdsec s) then
        insert_run now d ''0s'' SkippedAllowlisted (Some ''IP is in CrowdSec allowlist (or check unavailable)'') s
      else
        (case add_ban api (d_ip d) (duration_or d) (ban_reason d) (crowdsec s) of
           (None, w) \<Rightarrow> insert_run now d (duration_or d) Banned (d_detail d) (s\<lparr>crowdsec := w\<rparr>)
         | (Some msg, w) \<Rightarrow>
             insert_run now d (duration_or d) BanFailed (Some (take 500 msg)) (s\<lparr>crowdsec := w\<rparr>)))"

definition run_once :: "'w crowdsec_api \<Rightarrow> int \<Rightarrow> 'w autoban_state \<Rightarrow> 'w autoban_state" where
  "run_once api now s =
     (let config = config_of s;
          (events, last_id) = new_waf_events_since (waf_logs s) (watermark s)
      in if length events = 0 then s
         else
           (let s1 = (case last_id of Some i \<Rightarrow> if i \<noteq> [] then s\<lparr>watermark := Some i\<rparr> else s | None \<Rightarrow> s)
            in if \<not> enabled config then s1
               else
                 (let evaluable = filter (\<lambda>e. (case w_ip e of None \<Rightarrow> False
                        | Some ip \<Rightarrow> ip \<noteq> [] \<and> ip \<noteq> ''0.0.0.0'')) events
                  in if length evaluable = 0 then s1
                     else
                       (let recent = recently_banned_ips now (ab_runs s1);
                            ips = remdups (map (\<lambda>e. the (w_ip e)) evaluable);
                            past = past_bans_per_ip now ips (ab_runs s1)
                        in fold (act_on api now) (evaluate_waf_batch evaluable config recent past) s1))))"

section \<open>The tables as a state machine\<close>

text \<open>Ticks at growing times, new WAF rows, pruning, configuration changes and outside changes of CrowdSec.\<close>

inductive ab_step :: "'w crowdsec_api \<Rightarrow> int \<times> 'w autoban_state \<Rightarrow> int \<times> 'w autoban_state \<Rightarrow> bool" for api where
  tick: "t \<le> t' \<Longrightarrow> ab_step api (t, s) (t', run_once api t' s)"
| log: "ab_step api (t, s) (t, s\<lparr>waf_logs := rows\<rparr>)"
| reconfigure: "ab_step api (t, s) (t, s\<lparr>config_of := c\<rparr>)"
| external: "ab_step api (t, s) (t, s\<lparr>crowdsec := w\<rparr>)"

inductive_cases ab_step_cases: "ab_step api ts ts'"

definition batch_of :: "'w autoban_state \<Rightarrow> waf_row list" where
  "batch_of s = fst (new_waf_events_since (waf_logs s) (watermark s))"

lemma insert_run_frame [simp]:
  "waf_logs (insert_run now d dur out det s) = waf_logs s" "watermark (insert_run now d dur out det s) = watermark s"
  "config_of (insert_run now d dur out det s) = config_of s"
  by (simp_all add: insert_run_def)

lemma act_on_frame [simp]:
  "waf_logs (act_on api now d s) = waf_logs s" "watermark (act_on api now d s) = watermark s"
  "config_of (act_on api now d s) = config_of s"
  by (simp_all add: act_on_def split: prod.split option.split)

lemma fold_act_on_frame [simp]:
  "watermark (fold (act_on api now) ds s) = watermark s" "waf_logs (fold (act_on api now) ds s) = waf_logs s"
  by (induction ds arbitrary: s) simp_all

lemma batch_above:
  "w \<noteq> [] \<Longrightarrow> r \<in> set (fst (new_waf_events_since logs (Some w))) \<Longrightarrow> w < w_id r"
  by (auto simp: new_waf_events_since_def Let_def dest!: in_set_takeD split: if_splits)

lemma last_id_batch:
  assumes "new_waf_events_since logs wm = (rows, lid)" and "rows \<noteq> []"
  shows "\<exists>r \<in> set rows. lid = Some (w_id r)"
  using assms by (auto simp: new_waf_events_since_def Let_def split: if_splits intro!: bexI [of _ "last rows"])

lemma run_once_watermark:
  assumes "watermark s = Some w" and "w \<noteq> []"
  shows "\<exists>w'. watermark (run_once api now s) = Some w' \<and> w' \<noteq> [] \<and> w \<le> w'"
proof -
  obtain events last_id where ev: "new_waf_events_since (waf_logs s) (watermark s) = (events, last_id)" by fastforce
  show ?thesis
  proof (cases "events = []")
    case True
    then show ?thesis using assms ev by (auto simp: run_once_def)
  next
    case False
    from last_id_batch [OF ev this] obtain r where r: "r \<in> set events" "last_id = Some (w_id r)" by blast
    then have "w < w_id r" using batch_above [OF assms(2), of r "waf_logs s"] ev assms(1) by simp
    moreover have "watermark (run_once api now s) = (if w_id r \<noteq> [] then Some (w_id r) else watermark s)"
      using ev False r by (simp add: run_once_def Let_def)
    ultimately show ?thesis using assms by (auto intro: less_imp_le)
  qed
qed

lemma ab_step_watermark:
  assumes "ab_step api ts ts'" and "watermark (snd ts) = Some w" and "w \<noteq> []"
  shows "\<exists>w'. watermark (snd ts') = Some w' \<and> w' \<noteq> [] \<and> w \<le> w'"
  using assms(1)
proof (rule ab_step_cases, goal_cases)
  case (1 t t' s)
  then show ?case using run_once_watermark [of s w api t'] assms(2,3) by simp
qed (use assms(2,3) in auto)

lemma ab_steps_watermark:
  assumes "(ab_step api)\<^sup>*\<^sup>* ts ts'" and "watermark (snd ts) = Some w" and "w \<noteq> []"
  shows "\<exists>w'. watermark (snd ts') = Some w' \<and> w' \<noteq> [] \<and> w \<le> w'"
  using assms(1)
proof (induction rule: rtranclp_induct)
  case base
  then show ?case using assms(2,3) by auto
next
  case (step ts1 ts2)
  then obtain w1 where w1: "watermark (snd ts1) = Some w1" "w1 \<noteq> []" "w \<le> w1" by blast
  from ab_step_watermark [OF step.hyps(2) w1(1,2)] w1(3) show ?case by (auto intro: order_trans)
qed

text \<open>C40: A WAF event whose id does not sort after the watermark is never evaluated. Whatever ticks,
  inserts, prunings and configuration changes follow, no later batch contains a row with such an id: the
  ids are random (\<open>randomUUID\<close>), so as the watermark only rises, ever more new events are skipped.\<close>

theorem events_below_watermark_are_never_evaluated:
  assumes "(ab_step api)\<^sup>*\<^sup>* (t, s) (t', s')" and "watermark s = Some w" and "w \<noteq> []" and "w_id r \<le> w"
  shows "r \<notin> set (batch_of s')"
proof
  assume r: "r \<in> set (batch_of s')"
  from ab_steps_watermark [OF assms(1)] assms(2,3) obtain w' where
    w': "watermark s' = Some w'" "w' \<noteq> []" "w \<le> w'" by auto
  from batch_above [OF w'(2), of r "waf_logs s'"] r w'(1) have "w' < w_id r" by (simp add: batch_of_def)
  with assms(4) w'(3) show False by simp
qed

theorem events_below_watermark_are_never_evaluated_witness:
  "\<exists>(api :: unit crowdsec_api) s r. watermark s = Some ''b'' \<and> r \<in> set (waf_logs s)
     \<and> w_id r = ''a'' \<and> r \<notin> set (batch_of (run_once api 7 s))"
proof -
  let ?r = "ex_event ''a'' ''930100'' None"
  let ?s = "\<lparr>waf_logs = [?r], watermark = Some ''b'', config_of = ex_config, ab_runs = [], crowdsec = ()\<rparr>"
  let ?api = "\<lparr>in_allowlist = (\<lambda>_ _. False), add_ban = (\<lambda>_ _ _ w. (None, w))\<rparr> :: unit crowdsec_api"
  have "ab_step ?api (0, ?s) (7, run_once ?api 7 ?s)" by (rule ab_step.tick) simp
  then have steps: "(ab_step ?api)\<^sup>*\<^sup>* (0, ?s) (7, run_once ?api 7 ?s)" by (rule r_into_rtranclp)
  have "w_id ?r \<le> ''b''" by (simp add: ex_event_def)
  from events_below_watermark_are_never_evaluated [OF steps _ _ this]
  have "?r \<notin> set (batch_of (run_once ?api 7 ?s))" by simp
  moreover have "w_id ?r = ''a''" by (simp add: ex_event_def)
  ultimately show ?thesis by (metis autoban_state.select_convs(1,2) list.set_intros(1))
qed

section \<open>Spacing of the bans\<close>

definition spaced :: "autoban_run list \<Rightarrow> bool" where
  "spaced rs = sorted_wrt (\<lambda>a b. r_outcome a = Banned \<and> r_outcome b = Banned \<and> r_ip a = r_ip b
      \<longrightarrow> r_at b - r_at a \<ge> 5 * 60000) rs"

definition acted :: "int \<Rightarrow> autoban_decision \<Rightarrow> autoban_run \<Rightarrow> bool" where
  "acted now d r = (r_ip r = d_ip d \<and> r_at r = now \<and> (r_outcome r = Banned \<longrightarrow> d_outcome d = Banned))"

lemma act_on_runs: "\<exists>r. ab_runs (act_on api now d s) = ab_runs s @ [r] \<and> acted now d r"
  by (auto simp: act_on_def insert_run_def acted_def split: prod.split option.split)

lemma fold_act_on_runs:
  "\<exists>new. ab_runs (fold (act_on api now) ds s) = ab_runs s @ new \<and> list_all2 (acted now) ds new"
proof (induction ds arbitrary: s)
  case (Cons d ds)
  obtain r where r: "ab_runs (act_on api now d s) = ab_runs s @ [r]" "acted now d r" using act_on_runs by blast
  obtain new where new: "ab_runs (fold (act_on api now) ds (act_on api now d s)) = ab_runs (act_on api now d s) @ new"
    "list_all2 (acted now) ds new" using Cons.IH by blast
  show ?case by (intro exI [of _ "r # new"]) (simp add: r new)
qed simp

lemma acted_spaced:
  assumes "list_all2 (acted now) ds new" and "distinct (map d_ip ds)"
  shows "spaced new"
  using assms
proof (induction rule: list_all2_induct)
  case (Cons d ds r new)
  have "r_ip x \<noteq> r_ip r" if "x \<in> set new" for x
  proof -
    from that Cons.hyps(2) obtain d' where "d' \<in> set ds" "acted now d' x"
      by (metis in_set_conv_nth list_all2_conv_all_nth)
    moreover from this have "d_ip d' \<noteq> d_ip d" using Cons.prems by (metis distinct.simps(2) image_eqI list.set_map list.simps(9))
    ultimately show ?thesis using Cons.hyps(1) by (auto simp: acted_def)
  qed
  then have "\<forall>x \<in> set new. r_ip r \<noteq> r_ip x" by metis
  moreover have "spaced new" using Cons by simp
  ultimately show ?case by (auto simp: spaced_def)
qed (simp add: spaced_def)

lemma recent_not_banned:
  assumes "d \<in> set (evaluate_waf_batch events config recent past)" and "d_outcome d = Banned"
  shows "d_ip d \<notin> recent"
proof -
  have "enabled config" using assms(1) by (auto simp: evaluate_waf_batch_def split: if_splits)
  then show ?thesis
    using assms evaluate_set [of config d events recent past]
    by (auto simp: decide_group_def Let_def split: if_splits)
qed

lemma evaluate_distinct: "distinct (map d_ip (evaluate_waf_batch events config recent past))"
proof -
  have "js_map_ok (fold (group_event config) events [])" using groups_of_fold by (simp add: groups_of_def)
  then show ?thesis
    unfolding evaluate_waf_batch_def by (auto intro!: map_filter_ips dest: decide_group_ip)
qed

definition bans_inv :: "int \<times> 'w autoban_state \<Rightarrow> bool" where
  "bans_inv ts = (spaced (ab_runs (snd ts)) \<and> (\<forall>r \<in> set (ab_runs (snd ts)). r_at r \<le> fst ts))"

lemma act_all_inv:
  assumes inv: "bans_inv (t, s)" and t: "t \<le> now"
  shows "bans_inv (now, fold (act_on api now)
    (evaluate_waf_batch events config (recently_banned_ips now (ab_runs s)) past) s)"
proof -
  let ?ds = "evaluate_waf_batch events config (recently_banned_ips now (ab_runs s)) past"
  from fold_act_on_runs [of api now ?ds s] obtain new where
    new: "ab_runs (fold (act_on api now) ?ds s) = ab_runs s @ new" "list_all2 (acted now) ?ds new" by blast
  have "spaced new" using acted_spaced [OF new(2) evaluate_distinct] .
  moreover have "r_at b - r_at a \<ge> 5 * 60000"
    if "a \<in> set (ab_runs s)" "b \<in> set new" "r_outcome a = Banned" "r_outcome b = Banned" "r_ip a = r_ip b" for a b
  proof -
    from that(2) new(2) obtain d where d: "d \<in> set ?ds" "acted now d b"
      by (metis in_set_conv_nth list_all2_conv_all_nth)
    then have "r_ip a \<notin> recently_banned_ips now (ab_runs s)"
      using recent_not_banned [OF d(1)] that(4,5) by (simp add: acted_def)
    then have "\<not> r_at a > now - 5 * 60000" using that(1,3) by (auto simp: recently_banned_ips_def)
    then show ?thesis using d(2) by (simp add: acted_def)
  qed
  moreover have "\<forall>r \<in> set new. r_at r = now"
    using new(2) by (auto simp: list_all2_conv_all_nth in_set_conv_nth acted_def)
  ultimately show ?thesis
    using inv t by (force simp: bans_inv_def new(1) spaced_def sorted_wrt_append)
qed

lemma run_once_inv: "bans_inv (t, s) \<Longrightarrow> t \<le> now \<Longrightarrow> bans_inv (now, run_once api now s)"
proof -
  assume inv: "bans_inv (t, s)" and t: "t \<le> now"
  have same: "bans_inv (now, s')" if "ab_runs s' = ab_runs s" for s'
    using inv t that by (force simp: bans_inv_def)
  have wm: "bans_inv (t, s\<lparr>watermark := m\<rparr>)" for m using inv by (simp add: bans_inv_def)
  show ?thesis
    unfolding run_once_def Let_def
    using same act_all_inv [OF inv t] act_all_inv [OF wm t]
    by (auto split: prod.splits option.splits)
qed

lemma ab_step_inv: "ab_step api ts ts' \<Longrightarrow> bans_inv ts \<Longrightarrow> bans_inv ts'"
proof (erule ab_step_cases, goal_cases)
  case (1 t t' s)
  then show ?case using run_once_inv by blast
qed (simp_all add: bans_inv_def)

text \<open>An address is never banned twice within five minutes. In every state reachable from an empty
  audit table by ticks at non-decreasing times and any change of the log, the configuration and CrowdSec,
  two recorded bans of one address are at least five minutes apart.\<close>

theorem bans_are_spaced:
  assumes "(ab_step api)\<^sup>*\<^sup>* (t, s) (t', s')" and "ab_runs s = []"
  shows "sorted_wrt (\<lambda>a b. r_outcome a = Banned \<and> r_outcome b = Banned \<and> r_ip a = r_ip b
      \<longrightarrow> r_at b - r_at a \<ge> 5 * 60000) (ab_runs s')"
proof -
  have "bans_inv (t, s)" using assms(2) by (simp add: bans_inv_def spaced_def)
  with assms(1) have "bans_inv (t', s')"
    by (induction rule: rtranclp_induct) (auto intro: ab_step_inv)
  then show ?thesis by (simp add: bans_inv_def spaced_def)
qed

theorem bans_are_spaced_witness:
  "\<exists>(api :: unit crowdsec_api) s. ab_runs s = [] \<and> length (waf_logs s) = 2
     \<and> sorted_wrt (\<lambda>a b. r_outcome a = Banned \<and> r_outcome b = Banned \<and> r_ip a = r_ip b
          \<longrightarrow> r_at b - r_at a \<ge> 5 * 60000) (ab_runs (run_once api 9 (run_once api 7 s)))"
proof -
  let ?s = "\<lparr>waf_logs = [ex_event ''b'' ''930100'' None, ex_event ''c'' ''930100'' None], watermark = Some ''a'',
    config_of = ex_config, ab_runs = [], crowdsec = ()\<rparr>"
  let ?api = "\<lparr>in_allowlist = (\<lambda>_ _. False), add_ban = (\<lambda>_ _ _ w. (None, w))\<rparr> :: unit crowdsec_api"
  have "ab_step ?api (0, ?s) (7, run_once ?api 7 ?s)" by (rule ab_step.tick) simp
  moreover have "ab_step ?api (7, run_once ?api 7 ?s) (9, run_once ?api 9 (run_once ?api 7 ?s))"
    by (rule ab_step.tick) simp
  ultimately have steps: "(ab_step ?api)\<^sup>*\<^sup>* (0, ?s) (9, run_once ?api 9 (run_once ?api 7 ?s))"
    by (meson converse_rtranclp_into_rtranclp rtranclp.rtrancl_refl)
  have "ab_runs ?s = [] \<and> length (waf_logs ?s) = 2" by simp
  with bans_are_spaced [OF steps] show ?thesis by blast
qed

end
