(* ===== verification/WafScraper.thy ===== *)
theory WafScraper
  imports JsRegex
begin

text \<open>
  The WAF log scraper (\<open>ingress-routes/waf-log-scraper.ts\<close>): the parsing of ModSecurity lines, the two
  passes that resolve host names and addresses, the insertion into \<open>waf_logs\<close> and the pruning. The pods
  and their logs are an input; a log read may fail, statements of the database are assumed not to.
\<close>

definition MAX_LOGS_PER_ROUTE :: nat where "MAX_LOGS_PER_ROUTE = 50"
definition MAX_LOGS_FOR_ADMIN_HOSTS :: nat where "MAX_LOGS_FOR_ADMIN_HOSTS = 500"
definition MAX_REQUEST_URI_LEN :: nat where "MAX_REQUEST_URI_LEN = 2048"
definition MAX_MESSAGE_LEN :: nat where "MAX_MESSAGE_LEN = 500"

definition truncate_to :: "string \<Rightarrow> nat \<Rightarrow> string" where
  "truncate_to s n = (if length s \<le> n then s else take n s)"

section \<open>Lines\<close>

text \<open>\<open>line.indexOf(needle)\<close>: the rest after the first occurrence.\<close>

fun after_first :: "string \<Rightarrow> string \<Rightarrow> string option" where
  "after_first needle [] = (if needle = [] then Some [] else None)"
| "after_first needle (c # cs) =
     (if starts_with (c # cs) needle then Some (drop (length needle) (c # cs)) else after_first needle cs)"

definition dq :: string where "dq = [CHR 0x22]"

definition extract_json_field :: "string \<Rightarrow> string \<Rightarrow> string option" where
  "extract_json_field line key =
     (case after_first (dq @ key @ dq @ '':'' @ dq) line of
        None \<Rightarrow> None
      | Some rest \<Rightarrow>
          (case index_of (CHR 0x22) rest of
             None \<Rightarrow> None
           | Some n \<Rightarrow> if n > 512 then None else Some (take n rest)))"

definition contains :: "string \<Rightarrow> string \<Rightarrow> bool" where
  "contains s needle = (after_first needle s \<noteq> None)"

record waf_event =
  e_uid :: string
  e_rule :: string
  e_sev :: string
  e_msg :: string
  e_uri :: string
  e_method :: string
  e_ip :: string
  e_host :: string

definition r_quoted :: "string \<Rightarrow> rx \<Rightarrow> rx" where
  "r_quoted key body = RSeq (r_str (''['' @ key @ '' '' @ dq)) (RSeq (RGrp 1 body) (r_str (dq @ '']'')))"

definition r_digits :: rx where "r_digits = r_plus r_digit"
definition r_no_quote :: rx where "r_no_quote = r_plus (r_not dq)"
definition r_word :: rx where "r_word = r_plus (RCls (\<lambda>c. is_alnum c \<or> c = CHR ''_''))"
definition r_until_comma :: rx where "r_until_comma = r_plus (r_not '','')"

definition SERVER_RE :: rx where "SERVER_RE = RSeq (r_str ''server: '') (RGrp 1 r_until_comma)"
definition TENANT_RE :: rx where "TENANT_RE = RSeq (r_str ''tenant: '') (RGrp 1 r_until_comma)"
definition REQUEST_RE :: rx where
  "REQUEST_RE = RSeq (r_str (''request: '' @ dq)) (RSeq (RGrp 1 r_word) (RSeq (r_chr (CHR '' ''))
     (RGrp 2 (r_plus (r_not '' '')))))"
definition SCORE_RE :: rx where "SCORE_RE = RSeq (r_str ''Total Score: '') (RGrp 1 r_digits)"

definition match1 :: "rx \<Rightarrow> string \<Rightarrow> string option" where
  "match1 r line = (case rx_search r line of None \<Rightarrow> None | Some (_, c) \<Rightarrow> cap 1 c)"

definition or_else :: "'a option \<Rightarrow> 'a \<Rightarrow> 'a" where
  "or_else x d = (case x of Some v \<Rightarrow> v | None \<Rightarrow> d)"

definition parse_modsecurity_line :: "int \<Rightarrow> string \<Rightarrow> waf_event option" where
  "parse_modsecurity_line now line =
     (if \<not> contains line ''ModSecurity'' then None
      else (case match1 (r_quoted ''id'' r_digits) line of
          None \<Rightarrow> None
        | Some rule \<Rightarrow>
            if rule = ''980170'' \<or> rule = ''980130'' then None
            else
              (let msg = match1 (r_quoted ''msg'' r_no_quote) line;
                   uid = match1 (r_quoted ''unique_id'' r_no_quote) line;
                   req = rx_search REQUEST_RE line;
                   tenant = match1 TENANT_RE line;
                   host = (case match1 SERVER_RE line of Some h \<Rightarrow> Some h
                     | None \<Rightarrow> match1 (r_quoted ''hostname'' r_no_quote) line);
                   sev_num = (case match1 (r_quoted ''severity'' r_digits) line of
                     Some d \<Rightarrow> parse_nat d | None \<Rightarrow> 5);
                   severity = (if sev_num \<le> 2 then ''critical'' else if sev_num \<le> 4 then ''warning'' else ''info'');
                   message = or_else msg ''WAF event'';
                   message' = (case match1 SCORE_RE message of Some n \<Rightarrow> ''Score: '' @ n | None \<Rightarrow> message)
               in Some \<lparr>e_uid = (case uid of Some u \<Rightarrow> u @ '':'' @ rule | None \<Rightarrow> show_int now @ '':'' @ rule),
                    e_rule = rule, e_sev = severity, e_msg = message',
                    e_uri = (case req of Some (_, c) \<Rightarrow> the (cap 2 c) | None \<Rightarrow> ''/''),
                    e_method = (case req of Some (_, c) \<Rightarrow> the (cap 1 c) | None \<Rightarrow> ''GET''),
                    e_ip = or_else tenant ''0.0.0.0'', e_host = or_else host []\<rparr>)))"

section \<open>The two passes\<close>

record pass1 =
  p_parsed :: "waf_event list"
  p_host :: "(string \<times> string) list"
  p_xf :: "(string \<times> string) list"
  p_real :: "(string \<times> string) list"

definition uid_prefix :: "waf_event \<Rightarrow> string" where
  "uid_prefix e = hd (split_on (CHR '':'') (e_uid e))"

definition set_if :: "bool \<Rightarrow> string \<Rightarrow> string \<Rightarrow> (string \<times> string) list \<Rightarrow> (string \<times> string) list" where
  "set_if b k v m = (if b then AList.update k v m else m)"

definition scan_line :: "int \<Rightarrow> string \<Rightarrow> pass1 \<Rightarrow> pass1" where
  "scan_line now line p =
     (if length line > 0 \<and> hd line = CHR 0x7B \<and> contains line (dq @ ''transaction'' @ dq) then
        (let xf = extract_json_field line ''X-Forwarded-Host'';
             real = extract_json_field line ''X-Real-Ip'';
             uid = extract_json_field line ''unique_id''
         in (case uid of
               None \<Rightarrow> p
             | Some u \<Rightarrow>
                 if u = [] then p
                 else p\<lparr>p_xf := set_if (or_else xf [] \<noteq> []) u (or_else xf []) (p_xf p),
                        p_real := set_if (or_else real [] \<noteq> []) u (or_else real []) (p_real p)\<rparr>))
      else (case parse_modsecurity_line now line of
          None \<Rightarrow> p
        | Some e \<Rightarrow>
            (let k = uid_prefix e;
                 server = match1 SERVER_RE line;
                 m1 = set_if (or_else server [] \<noteq> []) k (or_else server []) (p_host p);
                 m2 = set_if (e_ip e \<noteq> ''0.0.0.0'') (k @ '':ip'') (e_ip e) m1;
                 m3 = set_if (e_uri e \<noteq> ''/'') (k @ '':uri'') (e_uri e) m2;
                 m4 = set_if (e_method e \<noteq> ''GET'') (k @ '':method'') (e_method e) m3
             in p\<lparr>p_parsed := p_parsed p @ [e], p_host := m4\<rparr>)))"

text \<open>\<open>a || b\<close> on strings: the first that is present and not empty.\<close>

definition truthy_or :: "string option \<Rightarrow> string \<Rightarrow> string" where
  "truthy_or a b = (case a of Some s \<Rightarrow> if s \<noteq> [] then s else b | None \<Rightarrow> b)"

definition resolve_event :: "pass1 \<Rightarrow> waf_event \<Rightarrow> waf_event option" where
  "resolve_event p e =
     (let k = uid_prefix e;
          host = truthy_or (js_get k (p_xf p)) (truthy_or (js_get k (p_host p)) (e_host e))
      in if host = [] \<or> host = ''127.0.0.1'' then None
         else Some (e\<lparr>e_host := host,
           e_ip := truthy_or (js_get k (p_real p))
             (if e_ip e \<noteq> ''0.0.0.0'' then e_ip e else truthy_or (js_get (k @ '':ip'') (p_host p)) ''0.0.0.0''),
           e_uri := (if e_uri e \<noteq> ''/'' then e_uri e else truthy_or (js_get (k @ '':uri'') (p_host p)) ''/''),
           e_method := (if e_method e \<noteq> ''GET'' then e_method e
             else truthy_or (js_get (k @ '':method'') (p_host p)) ''GET'')\<rparr>))"

fun resolve_all :: "pass1 \<Rightarrow> string list \<Rightarrow> waf_event list \<Rightarrow> waf_event list" where
  "resolve_all p seen [] = []"
| "resolve_all p seen (e # es) =
     (if e_uid e \<in> set seen then resolve_all p seen es
      else (case resolve_event p e of
          None \<Rightarrow> resolve_all p (e_uid e # seen) es
        | Some r \<Rightarrow> r # resolve_all p (e_uid e # seen) es))"

definition events_of_log :: "int \<Rightarrow> string \<Rightarrow> waf_event list" where
  "events_of_log now log_output =
     (let p = fold (scan_line now) (split_on (CHR 0x0A) log_output)
            \<lparr>p_parsed = [], p_host = [], p_xf = [], p_real = []\<rparr>
      in resolve_all p [] (p_parsed p))"

section \<open>The table\<close>

record waf_log =
  l_id :: string
  l_route :: "string option"
  l_tenant :: "string option"
  l_host :: string
  l_rule :: string
  l_sev :: string
  l_msg :: string
  l_uri :: string
  l_method :: string
  l_ip :: string
  l_at :: int

record ingress_route =
  ir_id :: string
  ir_host :: string
  ir_domain :: string

record waf_db =
  db_logs :: "waf_log list"
  db_routes :: "ingress_route list"
  db_domains :: "(string \<times> string) list"
  db_ids :: nat

datatype pod_read = LogOk string | LogNotText | LogErr string

record scrape_result =
  s_scraped :: nat
  s_inserted :: nat
  s_errors :: "string list"

definition route_map :: "ingress_route list \<Rightarrow> (string \<times> ingress_route) list" where
  "route_map routes = fold (\<lambda>r. AList.update (ir_host r) r) routes []"

definition tenant_map :: "(string \<times> string) list \<Rightarrow> string list \<Rightarrow> (string \<times> string) list" where
  "tenant_map domains domain_ids =
     fold (\<lambda>(i, t). AList.update i t) (filter (\<lambda>(i, _). i \<in> set domain_ids) domains) []"

definition insert_event ::
  "(nat \<Rightarrow> string) \<Rightarrow> int \<Rightarrow> (string \<times> ingress_route) list \<Rightarrow> (string \<times> string) list \<Rightarrow> waf_event
     \<Rightarrow> waf_db \<Rightarrow> waf_db" where
  "insert_event uuid now rmap tmap e db =
     (let route = js_get (e_host e) rmap;
          tenant = (case route of None \<Rightarrow> None | Some r \<Rightarrow> js_get (ir_domain r) tmap)
      in db\<lparr>db_logs := db_logs db @ [\<lparr>l_id = uuid (db_ids db), l_route = map_option ir_id route, l_tenant = tenant,
             l_host = truncate_to (e_host e) 255, l_rule = e_rule e, l_sev = e_sev e,
             l_msg = truncate_to (e_msg e) MAX_MESSAGE_LEN, l_uri = truncate_to (e_uri e) MAX_REQUEST_URI_LEN,
             l_method = e_method e, l_ip = e_ip e, l_at = now\<rparr>],
           db_ids := Suc (db_ids db)\<rparr>)"

text \<open>Keep the newest \<open>n\<close> rows of one route (of the admin hosts for \<open>None\<close>).\<close>

definition prune_bucket :: "nat \<Rightarrow> string option \<Rightarrow> waf_db \<Rightarrow> waf_db" where
  "prune_bucket n rid db =
     (let rows = filter (\<lambda>l. l_route l = rid) (db_logs db) in
      if length rows > n then
        (let keep_ids = map l_id (take n (js_sort (\<lambda>a b. l_at a \<ge> l_at b) rows)) in
         if length keep_ids > 0 then
           db\<lparr>db_logs := filter (\<lambda>l. \<not> (l_route l = rid \<and> l_id l \<notin> set keep_ids)) (db_logs db)\<rparr>
         else db)
      else db)"

definition log_output_of :: "pod_read list \<Rightarrow> string \<times> string list" where
  "log_output_of reads =
     fold (\<lambda>r (out, errs). case r of
         LogOk s \<Rightarrow> (out @ s @ [CHR 0x0A], errs)
       | LogErr m \<Rightarrow> (out, errs @ [''Pod log read failed: '' @ m])
       | LogNotText \<Rightarrow> (out, errs)) reads ([], [])"

text \<open>Steps 3 to 5: routes and tenants of the host names, the insertions, the two prunings.\<close>

definition store_events :: "(nat \<Rightarrow> string) \<Rightarrow> int \<Rightarrow> waf_event list \<Rightarrow> waf_db \<Rightarrow> waf_db" where
  "store_events uuid now events db =
     (let hostnames = remdups (map e_host events);
          routes = filter (\<lambda>r. ir_host r \<in> set hostnames) (db_routes db);
          rmap = route_map routes;
          tmap = tenant_map (db_domains db) (remdups (map ir_domain routes));
          db1 = fold (insert_event uuid now rmap tmap) events db;
          db2 = fold (\<lambda>r. prune_bucket MAX_LOGS_PER_ROUTE (Some (ir_id r))) routes db1
      in if \<exists>e \<in> set events. js_get (e_host e) rmap = None
         then prune_bucket MAX_LOGS_FOR_ADMIN_HOSTS None db2 else db2)"

text \<open>\<open>scrapeWafLogs\<close>: the pods listing (\<open>Inl\<close> when it throws), the resulting counts, the pod-found flag
  (unchanged, \<open>None\<close>, when the listing throws) and the database.\<close>

definition scrape_waf_logs ::
  "(nat \<Rightarrow> string) \<Rightarrow> int \<Rightarrow> string + (string option \<times> pod_read) list \<Rightarrow> waf_db
     \<Rightarrow> scrape_result \<times> bool option \<times> waf_db" where
  "scrape_waf_logs uuid now pods db =
     (case pods of
        Inl m \<Rightarrow> (\<lparr>s_scraped = 0, s_inserted = 0, s_errors = [''Failed to list modsec-crs pods: '' @ m]\<rparr>, None, db)
      | Inr items \<Rightarrow>
          (let named = filter (\<lambda>(n, _). or_else n [] \<noteq> []) items in
           if length named = 0 then (\<lparr>s_scraped = 0, s_inserted = 0, s_errors = []\<rparr>, Some False, db)
           else
             (let (out, errors) = log_output_of (map snd named);
                  events = events_of_log now out
              in if length events = 0 then (\<lparr>s_scraped = 0, s_inserted = 0, s_errors = []\<rparr>, Some True, db)
                 else
                   (\<lparr>s_scraped = length events, s_inserted = length events, s_errors = errors\<rparr>, Some True,
                    store_events uuid now events db))))"

section \<open>One cycle\<close>

lemma resolve_all_spec:
  "distinct (map e_uid (resolve_all p seen es))
   \<and> (\<forall>r \<in> set (resolve_all p seen es). e_uid r \<notin> set seen \<and> e_host r \<noteq> [] \<and> e_host r \<noteq> ''127.0.0.1'')"
proof (induction es arbitrary: seen)
  case (Cons e es)
  have keep: "e_uid r = e_uid e \<and> e_host r \<noteq> [] \<and> e_host r \<noteq> ''127.0.0.1''"
    if "resolve_event p e = Some r" for r
    using that by (auto simp: resolve_event_def Let_def split: if_splits)
  show ?case
  proof (cases "e_uid e \<in> set seen")
    case True
    then show ?thesis using Cons.IH [of seen] by simp
  next
    case False
    note IH = Cons.IH [of "e_uid e # seen"]
    show ?thesis
    proof (cases "resolve_event p e")
      case None
      then show ?thesis using IH False by simp
    next
      case (Some r)
      from keep [OF Some] False IH show ?thesis by (auto simp: Some)
    qed
  qed
qed simp

text \<open>Within one cycle every ModSecurity match is taken once: the events found in the logs have
  pairwise different keys (the line's unique id and rule), and each carries a host name that is neither
  empty nor the loopback address.\<close>

theorem cycle_events_are_distinct:
  "distinct (map e_uid (events_of_log now out))
   \<and> e_host ` set (events_of_log now out) \<inter> {[], ''127.0.0.1''} = {}"
proof -
  let ?p = "fold (scan_line now) (split_on (CHR 0x0A) out) \<lparr>p_parsed = [], p_host = [], p_xf = [], p_real = []\<rparr>"
  have "events_of_log now out = resolve_all ?p [] (p_parsed ?p)" by (simp add: events_of_log_def Let_def)
  then show ?thesis using resolve_all_spec [of ?p "[]" "p_parsed ?p"] by auto
qed

text \<open>The rows a cycle inserts, without their id and time.\<close>

definition row_of :: "(string \<times> ingress_route) list \<Rightarrow> (string \<times> string) list \<Rightarrow> waf_event \<Rightarrow> waf_log" where
  "row_of rmap tmap e = hd (db_logs (insert_event (\<lambda>_. []) 0 rmap tmap e
     \<lparr>db_logs = [], db_routes = [], db_domains = [], db_ids = 0\<rparr>))"

definition strip :: "waf_log \<Rightarrow> waf_log" where
  "strip l = l\<lparr>l_id := [], l_at := 0\<rparr>"

lemma insert_events:
  "\<exists>new. db_logs (fold (insert_event uuid now rmap tmap) es db) = db_logs db @ new
     \<and> map strip new = map (row_of rmap tmap) es \<and> map l_id new = map uuid [db_ids db..<db_ids db + length es]
     \<and> db_ids (fold (insert_event uuid now rmap tmap) es db) = db_ids db + length es
     \<and> db_routes (fold (insert_event uuid now rmap tmap) es db) = db_routes db
     \<and> db_domains (fold (insert_event uuid now rmap tmap) es db) = db_domains db"
proof (induction es arbitrary: db)
  case (Cons e es)
  let ?db = "insert_event uuid now rmap tmap e db"
  obtain r where r: "db_logs ?db = db_logs db @ [r]" "strip r = row_of rmap tmap e" "l_id r = uuid (db_ids db)"
    and ids: "db_ids ?db = Suc (db_ids db)" "db_routes ?db = db_routes db" "db_domains ?db = db_domains db"
    by (simp add: insert_event_def row_of_def strip_def Let_def)
  obtain new where new: "db_logs (fold (insert_event uuid now rmap tmap) es ?db) = db_logs ?db @ new"
    "map strip new = map (row_of rmap tmap) es" "map l_id new = map uuid [db_ids ?db..<db_ids ?db + length es]"
    "db_ids (fold (insert_event uuid now rmap tmap) es ?db) = db_ids ?db + length es"
    "db_routes (fold (insert_event uuid now rmap tmap) es ?db) = db_routes ?db"
    "db_domains (fold (insert_event uuid now rmap tmap) es ?db) = db_domains ?db" using Cons.IH by blast
  have "[db_ids db..<db_ids db + length (e # es)] = db_ids db # [Suc (db_ids db)..<Suc (db_ids db) + length es]"
    by (simp add: upt_conv_Cons del: upt_Suc)
  then show ?case
    by (intro exI [of _ "r # new"]) (simp add: r new ids del: upt_Suc)
qed simp

section \<open>Pruning\<close>

interpretation newest: comparator "\<lambda>_. True" "\<lambda>a b. l_at a \<ge> l_at b"
  by unfold_locales auto

definition bucket :: "string option \<Rightarrow> waf_db \<Rightarrow> waf_log list" where
  "bucket rid db = filter (\<lambda>l. l_route l = rid) (db_logs db)"

lemma prune_bucket_subset: "set (db_logs (prune_bucket n rid db)) \<subseteq> set (db_logs db)"
  by (auto simp: prune_bucket_def Let_def)

lemma prune_bucket_other: "rid \<noteq> rid' \<Longrightarrow> bucket rid' (prune_bucket n rid db) = bucket rid' db"
  by (auto simp: prune_bucket_def bucket_def Let_def intro!: filter_cong)

lemma distinct_map_filter_ids: "distinct (map l_id xs) \<Longrightarrow> distinct (map l_id (filter P xs))"
  by (rule distinct_map_filter)

lemma prune_bucket_ids: "distinct (map l_id (db_logs db)) \<Longrightarrow> distinct (map l_id (db_logs (prune_bucket n rid db)))"
  by (auto simp: prune_bucket_def Let_def intro: distinct_map_filter)

lemma prune_bucket_bound:
  assumes ids: "distinct (map l_id (db_logs db))" and n: "n > 0"
  shows "length (bucket rid (prune_bucket n rid db)) \<le> n
    \<and> (\<forall>k \<in> set (bucket rid (prune_bucket n rid db)). \<forall>r \<in> set (bucket rid db).
         r \<notin> set (bucket rid (prune_bucket n rid db)) \<longrightarrow> l_at r \<le> l_at k)"
proof (cases "length (bucket rid db) > n")
  case False
  then show ?thesis by (simp add: prune_bucket_def bucket_def)
next
  case True
  let ?rows = "bucket rid db"
  let ?srt = "js_sort (\<lambda>a b. l_at a \<ge> l_at b) ?rows"
  let ?keep = "map l_id (take n ?srt)"
  have ne: "length ?keep > 0" using True n by simp
  then have "db_logs (prune_bucket n rid db)
      = filter (\<lambda>l. \<not> (l_route l = rid \<and> l_id l \<notin> set ?keep)) (db_logs db)"
    using True by (simp add: prune_bucket_def bucket_def Let_def)
  then have b: "bucket rid (prune_bucket n rid db) = filter (\<lambda>l. l_id l \<in> set ?keep) ?rows"
    by (auto simp: bucket_def intro!: filter_cong)
  have rows_ids: "distinct (map l_id ?rows)" using ids by (auto simp: bucket_def intro: distinct_map_filter)
  have "card (l_id ` set (filter (\<lambda>l. l_id l \<in> set ?keep) ?rows)) \<le> card (set ?keep)"
    by (intro card_mono) auto
  also have "\<dots> \<le> n" using card_length [of ?keep] by simp
  finally have "length (filter (\<lambda>l. l_id l \<in> set ?keep) ?rows) \<le> n"
    using distinct_map_filter [OF rows_ids, of "\<lambda>l. l_id l \<in> set ?keep"]
    by (metis distinct_card length_map list.set_map)
  moreover have "l_at r \<le> l_at k" if k: "k \<in> set ?rows" "l_id k \<in> set ?keep" and r: "r \<in> set ?rows" "l_id r \<notin> set ?keep" for k r
  proof -
    have srt: "sorted_wrt (\<lambda>a b. l_at a \<ge> l_at b) (take n ?srt @ drop n ?srt)"
      using newest.sorted_sort [of ?rows] by (simp add: list_all_iff)
    from k(2) obtain k' where k': "k' \<in> set (take n ?srt)" "l_id k' = l_id k" by auto
    then have "k' \<in> set ?rows" by (metis in_set_takeD set_js_sort)
    then have "k' = k" using k(1) k'(2) rows_ids by (auto simp: distinct_map dest: inj_onD)
    moreover have "r \<in> set (take n ?srt) \<union> set (drop n ?srt)"
      using r(1) by (metis append_take_drop_id set_append set_js_sort)
    then have "r \<in> set (drop n ?srt)" using r(2) by auto
    moreover have "\<forall>x \<in> set (take n ?srt). \<forall>y \<in> set (drop n ?srt). l_at x \<ge> l_at y"
      using srt unfolding sorted_wrt_append by blast
    ultimately show ?thesis using k'(1) by blast
  qed
  ultimately show ?thesis unfolding b by auto
qed

lemma prune_fold:
  assumes "distinct (map l_id (db_logs db))" and "n > 0"
  shows "distinct (map l_id (db_logs (fold (\<lambda>r. prune_bucket n (Some (ir_id r))) rs db)))
    \<and> (\<forall>r \<in> set rs. length (bucket (Some (ir_id r)) (fold (\<lambda>r. prune_bucket n (Some (ir_id r))) rs db)) \<le> n)
    \<and> bucket None (fold (\<lambda>r. prune_bucket n (Some (ir_id r))) rs db) = bucket None db"
  using assms
proof (induction rs rule: rev_induct)
  case (snoc r rs)
  let ?db = "fold (\<lambda>r. prune_bucket n (Some (ir_id r))) rs db"
  have IH: "distinct (map l_id (db_logs ?db))" "\<forall>r \<in> set rs. length (bucket (Some (ir_id r)) ?db) \<le> n"
    "bucket None ?db = bucket None db" using snoc by auto
  let ?db' = "prune_bucket n (Some (ir_id r)) ?db"
  have "length (bucket (Some (ir_id x)) ?db') \<le> n" if "x \<in> set (rs @ [r])" for x
  proof (cases "ir_id x = ir_id r")
    case True
    then show ?thesis using prune_bucket_bound [OF IH(1) assms(2)] by simp
  next
    case False
    then have "x \<in> set rs" using that by auto
    then show ?thesis using IH(2) False by (simp add: prune_bucket_other)
  qed
  then show ?case using prune_bucket_ids [OF IH(1)] IH(3) by (simp add: prune_bucket_other)
qed simp

text \<open>The database after a cycle that found events.\<close>

definition events_of_pods :: "int \<Rightarrow> (string option \<times> pod_read) list \<Rightarrow> waf_event list" where
  "events_of_pods now items =
     events_of_log now (fst (log_output_of (map snd (filter (\<lambda>(n, _). or_else n [] \<noteq> []) items))))"

section \<open>A concrete log\<close>

definition ex_log :: string where
  "ex_log = ''ModSecurity: [id '' @ dq @ ''7'' @ dq @ ''] [unique_id '' @ dq @ ''u'' @ dq @ ''], server: h,''"

definition ex_items :: "(string option \<times> pod_read) list" where
  "ex_items = [(Some ''p'', LogOk ex_log)]"

lemma ex_log_events: "map e_uid (events_of_pods 0 ex_items) = [''u:7'']"
  by code_simp

definition ex_db :: waf_db where
  "ex_db = \<lparr>db_logs = [], db_routes = [], db_domains = [], db_ids = 0\<rparr>"

definition ex_uuid :: "nat \<Rightarrow> string" where
  "ex_uuid n = replicate n (CHR ''u'')"

lemma ex_uuid_inj: "inj ex_uuid"
proof (rule injI)
  fix x y assume "ex_uuid x = ex_uuid y"
  then have "length (ex_uuid x) = length (ex_uuid y)" by simp
  then show "x = y" by (simp add: ex_uuid_def)
qed

lemma ex_scrape:
  obtains res db1 where "scrape_waf_logs u 0 (Inr ex_items) db = (res, Some True, db1)" "s_scraped res = 1" "s_inserted res = 1"
proof -
  have "length (events_of_pods 0 ex_items) = 1" using ex_log_events by (metis length_map length_Cons list.size(3) One_nat_def)
  then have "length (events_of_log 0 (fst (log_output_of (map snd ex_items)))) = 1"
    by (simp add: events_of_pods_def ex_items_def or_else_def)
  moreover obtain a b where ab: "log_output_of [LogOk ex_log] = (a, b)" by fastforce
  ultimately have "events_of_log 0 a \<noteq> []" "length (events_of_log 0 a) = 1" by (auto simp: ex_items_def)
  then have "scrape_waf_logs u 0 (Inr ex_items) db
    = (\<lparr>s_scraped = 1, s_inserted = 1, s_errors = b\<rparr>, Some True, store_events u 0 (events_of_log 0 a) db)"
    by (simp add: scrape_waf_logs_def ex_items_def or_else_def ab)
  then show ?thesis by (rule that) simp_all
qed

text \<open>The table stays bounded. After a cycle that read events, every route of an event's host has at
  most 50 rows, and when some event belongs to no route the rows of the admin hosts are at most 500.\<close>

theorem scrape_bounds:
  assumes "distinct (map l_id (db_logs db))" and "inj uuid"
    and "l_id ` set (db_logs db) \<subseteq> uuid ` {..<db_ids db}"
    and "scrape_waf_logs uuid now (Inr items) db = (res, found, db')" and "s_scraped res > 0"
  shows "(\<forall>e \<in> set (events_of_pods now items). \<forall>r \<in> set (db_routes db).
        ir_host r = e_host e \<longrightarrow> length (bucket (Some (ir_id r)) db') \<le> MAX_LOGS_PER_ROUTE)
    \<and> ((\<exists>e \<in> set (events_of_pods now items). \<forall>r \<in> set (db_routes db). ir_host r \<noteq> e_host e)
        \<longrightarrow> length (bucket None db') \<le> MAX_LOGS_FOR_ADMIN_HOSTS)"
proof -
  let ?named = "filter (\<lambda>(n, _). or_else n [] \<noteq> []) items"
  obtain out errors where log: "log_output_of (map snd ?named) = (out, errors)" by fastforce
  let ?es = "events_of_log now out"
  have ne: "?named \<noteq> []" "?es \<noteq> []"
    using assms(4,5) log by (auto simp: scrape_waf_logs_def Let_def split: if_splits)
  let ?routes = "filter (\<lambda>r. ir_host r \<in> set (remdups (map e_host ?es))) (db_routes db)"
  define rmap where "rmap = route_map ?routes"
  define tmap where "tmap = tenant_map (db_domains db) (remdups (map ir_domain ?routes))"
  define db1 where "db1 = fold (insert_event uuid now rmap tmap) ?es db"
  define db2 where "db2 = fold (\<lambda>r. prune_bucket MAX_LOGS_PER_ROUTE (Some (ir_id r))) ?routes db1"
  have db': "db' = (if \<exists>e \<in> set ?es. js_get (e_host e) rmap = None
      then prune_bucket MAX_LOGS_FOR_ADMIN_HOSTS None db2 else db2)"
  proof -
    have "db' = store_events uuid now ?es db" using assms(4) ne log by (simp add: scrape_waf_logs_def Let_def)
    then show ?thesis unfolding store_events_def Let_def db2_def db1_def rmap_def tmap_def .
  qed
  have evs: "events_of_pods now items = ?es" by (simp add: events_of_pods_def log)
  obtain new where new: "db_logs db1 = db_logs db @ new" "map l_id new = map uuid [db_ids db..<db_ids db + length ?es]"
    using insert_events [of uuid now rmap tmap ?es db] unfolding db1_def by blast
  have "distinct (map l_id new)" unfolding new(2) using inj_on_subset [OF assms(2) subset_UNIV] by (simp add: distinct_map)
  moreover have "l_id ` set (db_logs db) \<inter> l_id ` set new = {}"
  proof -
    have "l_id ` set new = uuid ` {db_ids db..<db_ids db + length ?es}" using new(2) by (metis list.set_map set_upt)
    moreover have "uuid ` {..<db_ids db} \<inter> uuid ` {db_ids db..<db_ids db + length ?es} = {}"
      using assms(2) by (auto dest: injD)
    ultimately show ?thesis using assms(3) by blast
  qed
  ultimately have ids1: "distinct (map l_id (db_logs db1))" using assms(1) by (simp add: new(1))
  have b2: "distinct (map l_id (db_logs db2))"
    "\<forall>r \<in> set ?routes. length (bucket (Some (ir_id r)) db2) \<le> MAX_LOGS_PER_ROUTE"
    using prune_fold [OF ids1, of MAX_LOGS_PER_ROUTE ?routes]
    by (simp_all only: db2_def MAX_LOGS_PER_ROUTE_def) simp_all
  have "length (bucket (Some (ir_id r)) db') \<le> MAX_LOGS_PER_ROUTE"
    if "e \<in> set ?es" "r \<in> set (db_routes db)" "ir_host r = e_host e" for e r
  proof -
    have "r \<in> set ?routes" using that by auto
    then have "length (bucket (Some (ir_id r)) db2) \<le> MAX_LOGS_PER_ROUTE" using b2(2) by blast
    then show ?thesis by (simp add: db' prune_bucket_other)
  qed
  moreover have "length (bucket None db') \<le> MAX_LOGS_FOR_ADMIN_HOSTS"
    if "e \<in> set ?es" "\<forall>r \<in> set (db_routes db). ir_host r \<noteq> e_host e" for e
  proof -
    have keys: "js_get h (fold (\<lambda>r. AList.update (ir_host r) r) rs m) = None"
      if "\<forall>r \<in> set rs. ir_host r \<noteq> h" "js_get h m = None" for h rs m
      using that by (induction rs arbitrary: m) (auto simp: js_get_update)
    have "js_get (e_host e) rmap = None" unfolding rmap_def route_map_def using that by (intro keys) auto
    then have "db' = prune_bucket MAX_LOGS_FOR_ADMIN_HOSTS None db2" using that(1) db' by auto
    then show ?thesis using prune_bucket_bound [OF b2(1), of MAX_LOGS_FOR_ADMIN_HOSTS None]
      by (simp add: MAX_LOGS_FOR_ADMIN_HOSTS_def)
  qed
  ultimately show ?thesis unfolding evs by blast
qed

theorem scrape_bounds_witness:
  "\<exists>res f db'. scrape_waf_logs ex_uuid 0 (Inr ex_items) ex_db = (res, f, db') \<and> s_scraped res = 1
     \<and> length (bucket None db') \<le> 500"
proof -
  obtain res db1 where r: "scrape_waf_logs ex_uuid 0 (Inr ex_items) ex_db = (res, Some True, db1)" "s_scraped res = 1"
    by (rule ex_scrape)
  have "distinct (map l_id (db_logs ex_db))" "l_id ` set (db_logs ex_db) \<subseteq> ex_uuid ` {..<db_ids ex_db}"
    by (simp_all add: ex_db_def)
  from scrape_bounds [OF this(1) ex_uuid_inj this(2) r(1)] r(2)
  have "(\<exists>e \<in> set (events_of_pods 0 ex_items). \<forall>x \<in> set (db_routes ex_db). ir_host x \<noteq> e_host e)
      \<longrightarrow> length (bucket None db1) \<le> MAX_LOGS_FOR_ADMIN_HOSTS" by simp
  moreover have "events_of_pods 0 ex_items \<noteq> []" using ex_log_events by (metis list.map_disc_iff list.distinct(1))
  then obtain e where "e \<in> set (events_of_pods 0 ex_items)" by (meson list.set_sel(1))
  moreover have "db_routes ex_db = []" by (simp add: ex_db_def)
  ultimately have "length (bucket None db1) \<le> 500" by (auto simp: MAX_LOGS_FOR_ADMIN_HOSTS_def)
  with r show ?thesis by blast
qed

lemma prune_small: "length (db_logs db) \<le> n \<Longrightarrow> prune_bucket n rid db = db"
proof -
  assume "length (db_logs db) \<le> n"
  then have "\<not> length (filter (\<lambda>l. l_route l = rid) (db_logs db)) > n"
    using length_filter_le [of "\<lambda>l. l_route l = rid" "db_logs db"] by linarith
  then show ?thesis by (simp add: prune_bucket_def Let_def)
qed

definition stored_row :: "waf_event list \<Rightarrow> waf_db \<Rightarrow> waf_event \<Rightarrow> waf_log" where
  "stored_row events db =
     (let routes = filter (\<lambda>r. ir_host r \<in> set (remdups (map e_host events))) (db_routes db) in
      row_of (route_map routes) (tenant_map (db_domains db) (remdups (map ir_domain routes))))"

lemma store_small:
  assumes "length (db_logs db) + length events \<le> MAX_LOGS_PER_ROUTE"
  shows "\<exists>new. db_logs (store_events uuid now events db) = db_logs db @ new
    \<and> map strip new = map (stored_row events db) events
    \<and> db_routes (store_events uuid now events db) = db_routes db
    \<and> db_domains (store_events uuid now events db) = db_domains db"
proof -
  let ?routes = "filter (\<lambda>r. ir_host r \<in> set (remdups (map e_host events))) (db_routes db)"
  define rmap where "rmap = route_map ?routes"
  define tmap where "tmap = tenant_map (db_domains db) (remdups (map ir_domain ?routes))"
  define db1 where "db1 = fold (insert_event uuid now rmap tmap) events db"
  from insert_events [of uuid now rmap tmap events db] obtain new where
    new: "db_logs db1 = db_logs db @ new" "map strip new = map (row_of rmap tmap) events"
      "db_routes db1 = db_routes db" "db_domains db1 = db_domains db" unfolding db1_def by blast
  then have len: "length (db_logs db1) \<le> MAX_LOGS_PER_ROUTE"
    using assms by (metis length_append length_map)
  then have "fold (\<lambda>r. prune_bucket MAX_LOGS_PER_ROUTE (Some (ir_id r))) rs db1 = db1" for rs :: "ingress_route list"
    by (induction rs) (simp_all add: prune_small)
  moreover have "prune_bucket MAX_LOGS_FOR_ADMIN_HOSTS None db1 = db1"
    using len by (intro prune_small) (simp add: MAX_LOGS_FOR_ADMIN_HOSTS_def MAX_LOGS_PER_ROUTE_def)
  ultimately have "store_events uuid now events db = db1"
    unfolding store_events_def Let_def rmap_def [symmetric] tmap_def [symmetric] db1_def [symmetric] by simp
  moreover have "stored_row events db = row_of rmap tmap"
    unfolding stored_row_def Let_def rmap_def tmap_def ..
  ultimately show ?thesis using new by auto
qed

text \<open>Nothing stops an event from being stored twice. The cycles read overlapping stretches of the
  logs (35 seconds every 30); when two cycles read the same events, the second stores all of them again,
  equal to the first rows except for the random id and the time, although the comment promises that
  duplicates are skipped by their unique id. The auto-ban evaluator counts both copies.\<close>

theorem rescrape_stores_duplicates:
  assumes "scrape_waf_logs uuid now (Inr items) db = (res, found, db1)"
    and "scrape_waf_logs uuid now' (Inr items) db1 = (res', found', db2)"
    and "events_of_pods now' items = events_of_pods now items" and "s_scraped res > 0"
    and "length (db_logs db) + 2 * length (events_of_pods now items) \<le> MAX_LOGS_PER_ROUTE"
  shows "s_inserted res' = s_inserted res \<and> (\<exists>new new'. db_logs db2 = db_logs db @ new @ new'
    \<and> length new = s_inserted res \<and> map strip new' = map strip new)"
proof -
  let ?es = "events_of_pods now items"
  have one: "s_scraped res = length ?es \<and> s_inserted res = length ?es \<and> db1 = store_events uuid now ?es db"
    using assms(1,4) by (auto simp: scrape_waf_logs_def events_of_pods_def Let_def split: if_splits prod.splits)
  then have ne: "?es \<noteq> []" using assms(4) by auto
  have "filter (\<lambda>(n, _). or_else n [] \<noteq> []) items \<noteq> []"
    using assms(1,4) by (auto simp: scrape_waf_logs_def Let_def)
  then have two: "s_inserted res' = length ?es \<and> db2 = store_events uuid now' ?es db1"
    using assms(2,3) ne by (auto simp: scrape_waf_logs_def events_of_pods_def Let_def split: if_splits prod.splits)
  from store_small [of db ?es uuid now] assms(5) one obtain new where
    new: "db_logs db1 = db_logs db @ new" "map strip new = map (stored_row ?es db) ?es"
      "db_routes db1 = db_routes db" "db_domains db1 = db_domains db" by auto
  have len: "length new = length ?es" using new(2) by (metis length_map)
  from store_small [of db1 ?es uuid now'] assms(5) two new(1) len obtain new' where
    new': "db_logs db2 = db_logs db1 @ new'" "map strip new' = map (stored_row ?es db1) ?es" by auto
  have "stored_row ?es db1 = stored_row ?es db" unfolding stored_row_def new(3,4) ..
  then have "map strip new' = map strip new" using new(2) new'(2) by simp
  then show ?thesis using one two new(1) new'(1) len by (metis append.assoc)
qed

theorem rescrape_stores_duplicates_witness:
  "\<exists>res f db1 res' f' db2 new new'. scrape_waf_logs ex_uuid 0 (Inr ex_items) ex_db = (res, f, db1)
     \<and> scrape_waf_logs ex_uuid 0 (Inr ex_items) db1 = (res', f', db2)
     \<and> db_logs db2 = new @ new' \<and> length new = 1 \<and> map strip new' = map strip new"
proof -
  obtain res db1 where r: "scrape_waf_logs ex_uuid 0 (Inr ex_items) ex_db = (res, Some True, db1)"
    "s_scraped res = 1" "s_inserted res = 1" by (rule ex_scrape)
  obtain res' f' db2 where r': "scrape_waf_logs ex_uuid 0 (Inr ex_items) db1 = (res', f', db2)" by (metis prod_cases3)
  have "length (events_of_pods 0 ex_items) = 1" using ex_log_events by (metis length_map length_Cons list.size(3) One_nat_def)
  then have "length (db_logs ex_db) + 2 * length (events_of_pods 0 ex_items) \<le> MAX_LOGS_PER_ROUTE"
    by (simp add: ex_db_def MAX_LOGS_PER_ROUTE_def)
  from rescrape_stores_duplicates [OF r(1) r' refl _ this] r(2,3)
  obtain new new' where "db_logs db2 = db_logs ex_db @ new @ new'" "length new = 1" "map strip new' = map strip new" by auto
  then have "db_logs db2 = new @ new'" "length new = 1" "map strip new' = map strip new" by (simp_all add: ex_db_def)
  with r(1) r' show ?thesis by blast
qed

text \<open>Failed log reads can be lost. When the cycle finds no event, it reports no error, even if the
  log of every pod could not be read.\<close>

theorem read_errors_are_lost:
  assumes "\<forall>x \<in> set items. \<exists>n m. x = (Some n, LogErr m) \<and> n \<noteq> []"
  shows "\<exists>res f. scrape_waf_logs uuid now (Inr items) db = (res, f, db) \<and> s_errors res = [] \<and> s_scraped res = 0
    \<and> f = Some (items \<noteq> [])"
proof -
  have named: "filter (\<lambda>(n, _). or_else n [] \<noteq> []) items = items"
    using assms by (auto simp: or_else_def filter_id_conv)
  have loop: "fst (fold (\<lambda>r (out, errs). case r of LogOk s \<Rightarrow> (out @ s @ [CHR 0x0A], errs)
       | LogErr m \<Rightarrow> (out, errs @ [''Pod log read failed: '' @ m]) | LogNotText \<Rightarrow> (out, errs)) rs (o0, e0)) = o0"
    if "\<forall>r \<in> set rs. \<exists>m. r = LogErr m" for rs o0 e0
    using that by (induction rs arbitrary: e0) auto
  have "\<forall>r \<in> set (map snd items). \<exists>m. r = LogErr m" using assms by fastforce
  then have out: "fst (log_output_of (map snd items)) = []"
    unfolding log_output_of_def by (rule loop)
  have "parse_modsecurity_line now [] = None" by (simp add: parse_modsecurity_line_def contains_def)
  then have "events_of_log now [] = []" by (simp add: events_of_log_def scan_line_def)
  then have "events_of_log now (fst (log_output_of (map snd items))) = []" unfolding out .
  moreover obtain o1 e1 where "log_output_of (map snd items) = (o1, e1)" by fastforce
  ultimately show ?thesis
    unfolding scrape_waf_logs_def sum.case Let_def named by (cases "items = []") simp_all
qed

theorem read_errors_are_lost_witness:
  "\<exists>res f. scrape_waf_logs (\<lambda>_. []) 0 (Inr [(Some ''p'', LogErr ''x'')])
      \<lparr>db_logs = [], db_routes = [], db_domains = [], db_ids = 0\<rparr>
    = (res, f, \<lparr>db_logs = [], db_routes = [], db_domains = [], db_ids = 0\<rparr>) \<and> s_errors res = []"
proof -
  have "\<forall>x \<in> set [(Some ''p'', LogErr ''x'')]. \<exists>n m. x = (Some n, LogErr m) \<and> n \<noteq> []" by simp
  from read_errors_are_lost [OF this] show ?thesis by blast
qed

end
