(* ===== verification/JsValue.thy ===== *)
theory JsValue
  imports JsRegex
begin

text \<open>
  The dynamically typed values a YAML document is loaded into (\<open>yaml.load\<close> under the JSON schema),
  and what the source does with them: \<open>typeof\<close> tests, \<open>String(v)\<close>, \<open>parseInt\<close>, property lookup.

  Numbers are exact rationals, the infinities and \<open>NaN\<close>; the rounding of doubles is not modelled.
  An object is the list of its own entries in enumeration order. A lookup on an object the source
  writes as \<open>{}\<close> also finds the members of \<open>Object.prototype\<close>: \<open>Inherited\<close>.
\<close>

datatype jv =
    JNull
  | JBool bool
  | JNumV js_num
  | JStr string
  | JArr "jv list"
  | JObj "(string \<times> jv) list"

section \<open>Property lookup\<close>

datatype 'a lookup = Own 'a | Inherited | Absent

definition object_proto :: "string list" where
  "object_proto = [''constructor'', ''__defineGetter__'', ''__defineSetter__'', ''hasOwnProperty'',
     ''__lookupGetter__'', ''__lookupSetter__'', ''isPrototypeOf'', ''propertyIsEnumerable'',
     ''toString'', ''valueOf'', ''toLocaleString'', ''__proto__'']"

definition obj_get :: "string \<Rightarrow> (string \<times> 'a) list \<Rightarrow> 'a lookup" where
  "obj_get k m = (case map_of m k of Some v \<Rightarrow> Own v
     | None \<Rightarrow> if k \<in> set object_proto then Inherited else Absent)"

text \<open>\<open>m[k]\<close> as a condition, when own values are objects.\<close>

definition obj_has :: "string \<Rightarrow> (string \<times> 'a) list \<Rightarrow> bool" where
  "obj_has k m = (k \<in> fst ` set m \<or> k \<in> set object_proto)"

text \<open>\<open>m[k] = v\<close>; assigning a string to \<open>__proto__\<close> does nothing.\<close>

definition obj_set :: "string \<Rightarrow> 'a \<Rightarrow> (string \<times> 'a) list \<Rightarrow> (string \<times> 'a) list" where
  "obj_set k v m = (if k = ''__proto__'' then m else AList.update k v m)"

definition field :: "string \<Rightarrow> (string \<times> jv) list \<Rightarrow> jv option" where
  "field k m = map_of m k"

lemma obj_get_simps:
  "obj_get k m = Own v \<longleftrightarrow> map_of m k = Some v"
  "obj_get k m = Absent \<longleftrightarrow> map_of m k = None \<and> k \<notin> set object_proto"
  "obj_get k m = Inherited \<longleftrightarrow> map_of m k = None \<and> k \<in> set object_proto"
  by (auto simp: obj_get_def split: option.splits)

lemma keys_obj_set: "fst ` set (obj_set k v m) = (if k = ''__proto__'' then fst ` set m else insert k (fst ` set m))"
  by (auto simp: obj_set_def dom_update)

section \<open>Numbers as strings\<close>

fun frac_digits :: "nat \<Rightarrow> rat \<Rightarrow> string" where
  "frac_digits 0 q = []"
| "frac_digits (Suc n) q =
     (if q = 0 then [] else digit_char (nat \<lfloor>10 * q\<rfloor>) # frac_digits n (10 * q - of_int \<lfloor>10 * q\<rfloor>))"

text \<open>\<open>String(n)\<close>: the decimal expansion, to at most 17 fractional digits.\<close>

definition show_num :: "js_num \<Rightarrow> string" where
  "show_num n =
     (case n of
        JNaN \<Rightarrow> ''NaN'' | JInf \<Rightarrow> ''Infinity'' | JNegInf \<Rightarrow> ''-Infinity''
      | JNum q \<Rightarrow>
          (let a = \<bar>q\<bar>; fl = a - of_int \<lfloor>a\<rfloor> in
           (if q < 0 then ''-'' else []) @ show_nat (nat \<lfloor>a\<rfloor>)
             @ (if fl = 0 then [] else CHR ''.'' # frac_digits 17 fl)))"

text \<open>\<open>parseInt(s, 10)\<close>: white space, a sign, the longest run of digits; \<open>None\<close> is \<open>NaN\<close>.\<close>

definition parse_int :: "string \<Rightarrow> int option" where
  "parse_int s =
     (let t = dropWhile is_ws s;
          neg = (t \<noteq> [] \<and> hd t = CHR ''-'');
          u = (if t \<noteq> [] \<and> hd t \<in> set ''+-'' then tl t else t);
          ds = takeWhile is_digit u in
      if ds = [] then None else Some (if neg then - int (parse_nat ds) else int (parse_nat ds)))"

text \<open>\<open>parseFloat\<close> on digits with an optional fraction.\<close>

definition parse_dec :: "string \<Rightarrow> rat" where
  "parse_dec s =
     (let ip = takeWhile is_digit s; fp = takeWhile is_digit (tl (dropWhile is_digit s)) in
      of_nat (parse_nat ip) + of_nat (parse_nat fp) / 10 ^ length fp)"

section \<open>\<open>String(v)\<close>\<close>

fun seq_opt :: "'a option list \<Rightarrow> 'a list option" where
  "seq_opt [] = Some []"
| "seq_opt (x # xs) = (case x of None \<Rightarrow> None | Some y \<Rightarrow> map_option ((#) y) (seq_opt xs))"

text \<open>
  \<open>None\<close> is the \<open>TypeError\<close> an object raises whose own \<open>toString\<close> (never callable in a loaded
  document) hides the inherited one. \<open>null\<close> is empty inside an array.
\<close>

fun string_of :: "jv \<Rightarrow> string option" where
  "string_of JNull = Some ''null''"
| "string_of (JBool b) = Some (if b then ''true'' else ''false'')"
| "string_of (JNumV n) = Some (show_num n)"
| "string_of (JStr s) = Some s"
| "string_of (JArr xs) =
     map_option (join_with '','') (seq_opt (map (\<lambda>x. if x = JNull then Some [] else string_of x) xs))"
| "string_of (JObj m) = (if ''toString'' \<in> fst ` set m then None else Some ''[object Object]'')"

text \<open>No object inside the value has a key \<open>toString\<close>.\<close>

fun printable :: "jv \<Rightarrow> bool" where
  "printable (JArr xs) = (\<forall>x \<in> set xs. printable x)"
| "printable (JObj m) = (''toString'' \<notin> fst ` set m \<and> (\<forall>kv \<in> set m. printable (snd kv)))"
| "printable _ = True"

lemma seq_opt_Some_iff: "(\<exists>ys. seq_opt xs = Some ys) \<longleftrightarrow> None \<notin> set xs"
  by (induction xs) (auto split: option.splits)

lemma seq_opt_eq_None [simp]: "seq_opt xs = None \<longleftrightarrow> None \<in> set xs"
  by (induction xs) (auto split: option.splits)

lemma seq_opt_SomeD: "seq_opt xs = Some ys \<Longrightarrow> xs = map Some ys"
  by (induction xs arbitrary: ys) (auto split: option.splits)

lemma string_of_printable: "printable v \<Longrightarrow> string_of v \<noteq> None"
proof (induction v rule: string_of.induct)
  case (5 xs)
  have a: "x \<in> set xs \<Longrightarrow> x \<noteq> JNull \<Longrightarrow> string_of x \<noteq> None" for x
    using 5 by simp
  have "None \<notin> set (map (\<lambda>x. if x = JNull then Some [] else string_of x) xs)"
    using a by (auto simp del: not_None_eq) metis
  then show ?case by (simp del: set_map)
qed auto

lemma printable_field: "printable (JObj m) \<Longrightarrow> field k m = Some v \<Longrightarrow> printable v"
  by (auto simp: field_def dest!: map_of_SomeD)

section \<open>Comparison and rounding\<close>

text \<open>\<open>a < b\<close>, false when either side is \<open>NaN\<close>; and \<open>Math.floor\<close>.\<close>

fun num_less :: "js_num \<Rightarrow> js_num \<Rightarrow> bool" where
  "num_less (JNum a) (JNum b) = (a < b)"
| "num_less JNegInf b = (b \<noteq> JNaN \<and> b \<noteq> JNegInf)"
| "num_less a JInf = (a \<noteq> JNaN \<and> a \<noteq> JInf)"
| "num_less _ _ = False"

fun num_floor :: "js_num \<Rightarrow> js_num" where
  "num_floor (JNum q) = JNum (of_int \<lfloor>q\<rfloor>)"
| "num_floor n = n"

section \<open>Files and lines\<close>

text \<open>\<open>files?.[name]\<close>.\<close>

definition file_lookup :: "(string \<times> string) list option \<Rightarrow> string \<Rightarrow> string lookup" where
  "file_lookup files name = (case files of None \<Rightarrow> Absent | Some m \<Rightarrow> obj_get name m)"

text \<open>\<open>s.split(/\r?\n/)\<close>.\<close>

definition drop_cr :: "string \<Rightarrow> string" where
  "drop_cr s = (if s \<noteq> [] \<and> last s = CHR 0x0D then butlast s else s)"

definition split_lines :: "string \<Rightarrow> string list" where
  "split_lines s = (let ps = split_on (CHR 0x0A) s in map drop_cr (butlast ps) @ [last ps])"

text \<open>\<open>Buffer.byteLength(s, 'utf8')\<close> of code units below 256.\<close>

definition utf8_length :: "string \<Rightarrow> nat" where
  "utf8_length s = sum_list (map (\<lambda>c. if (of_char c :: nat) < 128 then 1 else 2) s)"

text \<open>\<open>Buffer.from(s, 'utf8').toString('base64')\<close>.\<close>

definition utf8_bytes :: "string \<Rightarrow> nat list" where
  "utf8_bytes s = concat (map (\<lambda>c. let n = of_char c in if n < 128 then [n] else [192 + n div 64, 128 + n mod 64]) s)"

definition b64_char :: "nat \<Rightarrow> char" where
  "b64_char n = char_of (if n < 26 then 65 + n else if n < 52 then 71 + n else if n < 62 then n - 4 else if n = 62 then 43 else 47)"

fun b64 :: "nat list \<Rightarrow> string" where
  "b64 [] = []"
| "b64 [a] = [b64_char (a div 4), b64_char ((a mod 4) * 16), CHR ''='', CHR ''='']"
| "b64 [a, b] = [b64_char (a div 4), b64_char ((a mod 4) * 16 + b div 16), b64_char ((b mod 16) * 4), CHR ''='']"
| "b64 (a # b # c # rest) =
     [b64_char (a div 4), b64_char ((a mod 4) * 16 + b div 16), b64_char ((b mod 16) * 4 + c div 64), b64_char (c mod 64)] @ b64 rest"

definition base64 :: "string \<Rightarrow> string" where
  "base64 s = b64 (utf8_bytes s)"

section \<open>Depth\<close>

text \<open>The nesting depth of a value, and \<open>Math.max\<close> over a list from a start value.\<close>

definition max_list :: "nat \<Rightarrow> nat list \<Rightarrow> nat" where
  "max_list m xs = fold max xs m"

fun jv_depth :: "jv \<Rightarrow> nat" where
  "jv_depth (JArr xs) = max_list 0 (map (\<lambda>x. Suc (jv_depth x)) xs)"
| "jv_depth (JObj m) = max_list 0 (map (\<lambda>kv. Suc (jv_depth (snd kv))) m)"
| "jv_depth _ = 0"

lemma max_list_le: "max_list m xs \<le> b \<longleftrightarrow> m \<le> b \<and> (\<forall>x \<in> set xs. x \<le> b)"
  unfolding max_list_def by (induction xs arbitrary: m) auto

end
