(* ===== verification/CustomSpec.thy ===== *)
theory CustomSpec
  imports JsValue
begin

text \<open>
  The normalized specification of a custom deployment (\<open>api-contracts/custom-deployments.ts\<close>): the
  records both input paths produce, the name rules, and the issues the parser and the validator
  report. The text of an issue (\<open>message\<close>, \<open>hint\<close>) is for display and is not modelled.
\<close>

section \<open>Issues\<close>

datatype severity = SevError | SevWarning | SevInfo

record issue =
  i_severity :: severity
  i_code :: string
  i_path :: string

abbreviation err :: "string \<Rightarrow> string \<Rightarrow> issue" where
  "err c p \<equiv> \<lparr>i_severity = SevError, i_code = c, i_path = p\<rparr>"

abbreviation warn :: "string \<Rightarrow> string \<Rightarrow> issue" where
  "warn c p \<equiv> \<lparr>i_severity = SevWarning, i_code = c, i_path = p\<rparr>"

abbreviation info :: "string \<Rightarrow> string \<Rightarrow> issue" where
  "info c p \<equiv> \<lparr>i_severity = SevInfo, i_code = c, i_path = p\<rparr>"

definition is_error :: "issue \<Rightarrow> bool" where
  "is_error i = (i_severity i = SevError)"

definition no_errors :: "issue list \<Rightarrow> bool" where
  "no_errors is = (\<not> (\<exists>i \<in> set is. is_error i))"

named_theorems issue_simps "when a list of issues holds no error"

lemma is_error_simps [simp]: "is_error (err c p)" "\<not> is_error (warn c p)" "\<not> is_error (info c p)"
  by (simp_all add: is_error_def)

lemma no_errors_simps [issue_simps]:
  "no_errors []"
  "no_errors (i # is) \<longleftrightarrow> \<not> is_error i \<and> no_errors is"
  "no_errors (xs @ ys) \<longleftrightarrow> no_errors xs \<and> no_errors ys"
  "no_errors (concat iss) \<longleftrightarrow> (\<forall>is \<in> set iss. no_errors is)"
  by (auto simp: no_errors_def)

lemma no_errors_if [issue_simps]: "no_errors (if b then is else []) \<longleftrightarrow> (b \<longrightarrow> no_errors is)"
  by (auto simp: no_errors_def)

lemma no_errors_map [issue_simps]: "no_errors (map f xs) \<longleftrightarrow> (\<forall>x \<in> set xs. \<not> is_error (f x))"
  by (auto simp: no_errors_def)

section \<open>Name rules\<close>

definition r_name_char :: rx where
  "r_name_char = RCls (\<lambda>c. is_lower c \<or> is_digit c \<or> c = CHR ''-'')"

definition r_lower_num :: rx where
  "r_lower_num = RCls (\<lambda>c. is_lower c \<or> is_digit c)"

definition CUSTOM_NAME_RE :: rx where
  "CUSTOM_NAME_RE = RSeq r_lower_num (r_opt (RSeq (RUpTo 61 r_name_char) r_lower_num))"

definition PORT_NAME_RE :: rx where
  "PORT_NAME_RE = RSeq (RLook (RSeq (RStar (RCls (\<lambda>c. c \<notin> {CHR 0x0A, CHR 0x0D}))) (RCls is_lower)))
     (RSeq r_lower_num (r_opt (RSeq (RUpTo 13 r_name_char) r_lower_num)))"

definition VOLUME_NAME_RE :: rx where
  "VOLUME_NAME_RE = RSeq (RCls is_lower)
     (RUpTo 62 (RCls (\<lambda>c. is_lower c \<or> is_digit c \<or> c \<in> set ''_-'')))"

definition ALLOWED_CAP_ADD :: "string list" where
  "ALLOWED_CAP_ADD = [''NET_BIND_SERVICE'']"

definition ALLOWED_SYSCTLS :: "string list" where
  "ALLOWED_SYSCTLS = [''net.ipv4.ip_unprivileged_port_start'']"

definition CUSTOM_SPEC_VERSION :: int where
  "CUSTOM_SPEC_VERSION = 1"

text \<open>\<open>RESERVED_CONTAINER_PATH_RE.test(p)\<close>.\<close>

definition reserved_container_path :: "string \<Rightarrow> bool" where
  "reserved_container_path p =
     (\<exists>root \<in> {''/proc'', ''/sys'', ''/dev'', ''/run/secrets'', ''/var/run/secrets''}.
        p = root \<or> starts_with p (root @ ''/''))"

section \<open>The specification\<close>

record custom_port =
  container_port :: js_num
  port_name :: string
  protocol :: string
  expose_as_service :: bool
  ingress_eligible :: bool

datatype mount_kind = MVolume | MConfigMap | MSecret

text \<open>A mount created before kinds existed has none.\<close>

record volume_mount =
  vm_kind :: "mount_kind option"
  vm_name :: string
  container_path :: string
  vm_read_only :: bool

record custom_env =
  env_name :: string
  env_value :: "string option"
  value_from_secret :: "string option"
  value_from_config_map :: "string option"

datatype probe =
    HttpGet string js_num string "(string \<times> string) list option"
  | TcpSocket js_num
  | Exec "string list"

record health_check =
  hc_probe :: probe
  period_seconds :: js_num
  timeout_seconds :: js_num
  initial_delay_seconds :: js_num
  failure_threshold :: js_num
  success_threshold :: js_num

record tmpfs_mount =
  tmpfs_path :: string
  size_mi :: nat

record resources_spec =
  cpu_request :: string
  memory_request :: string
  cpu_limit :: "string option"
  memory_limit :: "string option"

text \<open>\<open>RInherited\<close> is the method of \<open>Object.prototype\<close> that a lookup in a table may return.\<close>

datatype restart_policy = Always | OnFailure | Never | RInherited

record custom_service =
  svc_image :: string
  svc_command :: "string list option"
  svc_entrypoint :: "string list option"
  svc_env :: "custom_env list"
  svc_ports :: "custom_port list"
  volume_mounts :: "volume_mount list"
  svc_resources :: resources_spec
  svc_health :: "health_check option"
  svc_restart :: restart_policy
  run_as_user :: "int option"
  run_as_group :: "int option"
  working_dir :: "string option"
  read_only_root :: bool
  svc_tmpfs :: "tmpfs_mount list"
  cap_add :: "string list"
  svc_sysctls :: "(string \<times> string) list option"
  stop_grace_seconds :: "js_num option"
  depends_on :: "string list"
  svc_labels :: "(string \<times> string) list option"

record inline_file =
  file_name :: string
  file_content :: string
  file_mode :: nat

datatype source_mode = SimpleMode | ComposeMode

record custom_spec =
  spec_version :: int
  source_mode :: source_mode
  services :: "(string \<times> custom_service) list"
  spec_volumes :: "(string \<times> string option) list"
  config_maps :: "inline_file list"
  spec_secrets :: "inline_file list"
  allow_root :: bool
  pull_credential_id :: "string option"

section \<open>The name rules as sets of strings\<close>

lemma no_look_names [simp]: "no_look CUSTOM_NAME_RE" "no_look VOLUME_NAME_RE"
  by (simp_all add: CUSTOM_NAME_RE_def VOLUME_NAME_RE_def r_name_char_def r_lower_num_def)

lemma custom_name_chars:
  assumes "rx_test CUSTOM_NAME_RE s"
  shows "s \<noteq> [] \<and> length s \<le> 63 \<and> (\<forall>c \<in> set s. is_lower c \<or> is_digit c \<or> c = CHR ''-'')"
proof -
  have "s \<in> lang CUSTOM_NAME_RE" using assms by (simp add: rx_test_lang)
  then show ?thesis by (auto simp: CUSTOM_NAME_RE_def r_name_char_def r_lower_num_def upto_of_chars)
qed

lemma volume_name_chars:
  assumes "rx_test VOLUME_NAME_RE s"
  shows "s \<noteq> [] \<and> length s \<le> 63 \<and> is_lower (hd s)
    \<and> (\<forall>c \<in> set s. is_lower c \<or> is_digit c \<or> c = CHR ''_'' \<or> c = CHR ''-'')"
proof -
  have "s \<in> lang VOLUME_NAME_RE" using assms by (simp add: rx_test_lang)
  then show ?thesis by (auto simp: VOLUME_NAME_RE_def upto_of_chars)
qed

end
