(* ===== verification/ComposeParser.thy ===== *)
theory ComposeParser
  imports CustomSpec ImageRef "HOL-Library.Monad_Syntax"
begin

text \<open>
  The compose parser (\<open>custom-deployments/compose-parser.ts\<close>), one definition per field parser. Each
  returns its value and the issues it appends, in order. Where the code can raise a \<open>TypeError\<close>
  (\<open>String(v)\<close> on an object with an own \<open>toString\<close>, a file name that names a member of
  \<open>Object.prototype\<close>) the result is an option and \<open>None\<close> is the exception. \<open>yaml.load\<close> is a
  parameter of the model.
\<close>

type_synonym 'a parsed = "('a \<times> issue list) option"
type_synonym env_files = "(string \<times> string) list option"

definition MAX_SERVICES :: nat where
  "MAX_SERVICES = 10"

definition MAX_YAML_DEPTH :: nat where
  "MAX_YAML_DEPTH = 16"

definition MAX_INLINE_CONFIG_BYTES :: nat where
  "MAX_INLINE_CONFIG_BYTES = 1024 * 1024"

text \<open>A loop whose iterations each contribute values and issues.\<close>

definition collect :: "('a list \<times> issue list) list \<Rightarrow> 'a list \<times> issue list" where
  "collect rs = (concat (map fst rs), concat (map snd rs))"

definition collect_opt :: "('a list \<times> issue list) option list \<Rightarrow> 'a list parsed" where
  "collect_opt rs = map_option collect (seq_opt rs)"

definition at_path :: "string \<Rightarrow> nat \<Rightarrow> string" where
  "at_path path i = path @ ''['' @ show_nat i @ '']''"

section \<open>Field parsers\<close>

definition parse_string_array :: "jv option \<Rightarrow> string \<Rightarrow> string list option parsed" where
  "parse_string_array raw path =
     (case raw of
        None \<Rightarrow> Some (None, [])
      | Some (JStr _) \<Rightarrow> Some (None, [err ''COMPOSE_STRING_FORM_REJECTED'' path])
      | Some (JArr xs) \<Rightarrow> map_option (\<lambda>ss. (Some ss, [])) (seq_opt (map string_of xs))
      | Some _ \<Rightarrow> Some (None, [err ''COMPOSE_FIELD_TYPE'' path]))"

definition literal_env :: "string \<Rightarrow> string \<Rightarrow> custom_env" where
  "literal_env k v = \<lparr>env_name = k, env_value = Some v, value_from_secret = None, value_from_config_map = None\<rparr>"

definition env_entry :: "string \<Rightarrow> jv \<Rightarrow> custom_env list \<times> issue list" where
  "env_entry path entry =
     (case entry of
        JStr s \<Rightarrow>
          (case index_of (CHR ''='') s of
             None \<Rightarrow> ([], [warn ''COMPOSE_ENV_HOST_INHERIT'' path])
           | Some eq \<Rightarrow> ([literal_env (take eq s) (drop (Suc eq) s)], []))
      | _ \<Rightarrow> ([], [err ''COMPOSE_ENV_INVALID'' path]))"

definition parse_environment :: "jv \<Rightarrow> string \<Rightarrow> custom_env list parsed" where
  "parse_environment raw path =
     (case raw of
        JObj m \<Rightarrow>
          map_option (\<lambda>es. (es, []))
            (seq_opt (map (\<lambda>(k, v). map_option (literal_env k) (if v = JNull then Some [] else string_of v)) m))
      | JArr xs \<Rightarrow> Some (collect (map (env_entry path) xs))
      | _ \<Rightarrow> Some ([], [err ''COMPOSE_FIELD_TYPE'' path]))"

definition env_line :: "string \<Rightarrow> string \<Rightarrow> custom_env list \<times> issue list" where
  "env_line path line =
     (let trimmed = js_trim line in
      if length trimmed = 0 \<or> starts_with trimmed ''#'' then ([], [])
      else (case index_of (CHR ''='') trimmed of
              None \<Rightarrow> ([], [warn ''COMPOSE_ENV_FILE_INVALID_LINE'' path])
            | Some eq \<Rightarrow> ([literal_env (js_trim (take eq trimmed)) (js_trim (drop (Suc eq) trimmed))], [])))"

definition env_file_entry :: "env_files \<Rightarrow> string \<Rightarrow> jv \<Rightarrow> custom_env list parsed" where
  "env_file_entry files path fname =
     (case fname of
        JStr f \<Rightarrow>
          (case file_lookup files f of
             Absent \<Rightarrow> Some ([], [err ''COMPOSE_ENV_FILE_MISSING'' path])
           | Inherited \<Rightarrow> None
           | Own content \<Rightarrow> Some (collect (map (env_line path) (split_lines content))))
      | _ \<Rightarrow> Some ([], []))"

definition parse_env_files :: "jv \<Rightarrow> env_files \<Rightarrow> string \<Rightarrow> custom_env list parsed" where
  "parse_env_files raw files path =
     (case raw of
        JStr _ \<Rightarrow> collect_opt (map (env_file_entry files path) [raw])
      | JArr xs \<Rightarrow> collect_opt (map (env_file_entry files path) xs)
      | _ \<Rightarrow> Some ([], [err ''COMPOSE_FIELD_TYPE'' path]))"

section \<open>Ports\<close>

definition r_ci :: "string \<Rightarrow> rx" where
  "r_ci s = foldr (\<lambda>c. RSeq (RCls (\<lambda>d. to_lower_char d = c))) s REps"

definition PORT_RE :: rx where
  "PORT_RE = RSeq (r_opt (RSeq (r_plus (r_not '':'')) (r_chr (CHR '':''))))
     (RSeq (RGrp 1 (r_plus r_digit))
       (RSeq (r_opt (RSeq (r_chr (CHR '':'')) (RGrp 2 (r_plus r_digit))))
         (r_opt (RSeq (r_chr (CHR ''/'')) (RGrp 3 (RAlt (r_ci ''tcp'') (RAlt (r_ci ''udp'') (r_ci ''sctp''))))))))"

definition synthesise_port_name :: "js_num \<Rightarrow> nat \<Rightarrow> string \<Rightarrow> string" where
  "synthesise_port_name port i proto =
     (let base = ''p'' @ show_num port in
      if i = 0 then base else take 15 (base @ to_lower proto))"

definition exposed_port :: "js_num \<Rightarrow> string \<Rightarrow> string \<Rightarrow> custom_port" where
  "exposed_port port name proto =
     \<lparr>container_port = port, port_name = name, protocol = proto, expose_as_service = True, ingress_eligible = False\<rparr>"

definition port_entry :: "string \<Rightarrow> nat \<times> jv \<Rightarrow> custom_port list \<times> issue list" where
  "port_entry path ie =
     (let i = fst ie; invalid = ([], [err ''COMPOSE_PORT_INVALID'' (at_path path i)]) in
      case snd ie of
        JStr s \<Rightarrow>
          (case rx_full PORT_RE s of
             None \<Rightarrow> invalid
           | Some m \<Rightarrow>
               (let port = JNum (of_nat (parse_nat (case cap 2 m of Some g \<Rightarrow> g | None \<Rightarrow> the (cap 1 m))));
                    proto = to_upper (case cap 3 m of Some g \<Rightarrow> g | None \<Rightarrow> ''TCP'') in
                ([exposed_port port (synthesise_port_name port i proto) proto], [])))
      | JObj e \<Rightarrow>
          (case field ''target'' e of
             Some (JNumV target) \<Rightarrow>
               (let proto = (case field ''protocol'' e of Some (JStr p) \<Rightarrow> to_upper p | _ \<Rightarrow> ''TCP'');
                    name = (case field ''name'' e of
                              Some (JStr n) \<Rightarrow> if rx_test PORT_NAME_RE n then n else synthesise_port_name target i proto
                            | _ \<Rightarrow> synthesise_port_name target i proto) in
                ([exposed_port target name proto], []))
           | _ \<Rightarrow> invalid)
      | _ \<Rightarrow> invalid)"

definition parse_ports :: "jv option \<Rightarrow> string \<Rightarrow> custom_port list \<times> issue list" where
  "parse_ports raw path =
     (case raw of
        None \<Rightarrow> ([], [])
      | Some (JArr xs) \<Rightarrow> collect (map (port_entry path) (List.enumerate 0 xs))
      | Some _ \<Rightarrow> ([], [err ''COMPOSE_FIELD_TYPE'' path]))"

section \<open>Volume mounts\<close>

definition volume_entry :: "string \<Rightarrow> nat \<times> jv \<Rightarrow> volume_mount list parsed" where
  "volume_entry path ie =
     (let p = at_path path (fst ie);
          mount = (\<lambda>s t ro. [\<lparr>vm_kind = Some MVolume, vm_name = s, container_path = t, vm_read_only = ro\<rparr>]) in
      case snd ie of
        JStr s \<Rightarrow>
          (let parts = split_on (CHR '':'') s in
           if length parts < 2 then Some ([], [err ''COMPOSE_VOLUME_INVALID'' p])
           else (let source = parts ! 0; target = parts ! 1 in
             if starts_with source ''/'' \<or> starts_with source ''.''
             then Some ([], [err ''BIND_MOUNT_NOT_PERMITTED'' p])
             else if \<not> rx_test VOLUME_NAME_RE source then Some ([], [err ''VOLUME_NAME_INVALID'' p])
             else Some (mount source target (length parts > 2 \<and> parts ! 2 = ''ro''), [])))
      | JObj e \<Rightarrow>
          do {
            type \<leftarrow> (case field ''type'' e of None \<Rightarrow> Some ''volume'' | Some JNull \<Rightarrow> Some ''volume'' | Some v \<Rightarrow> string_of v);
            (if type \<noteq> ''volume''
             then Some ([], [err (if type = ''bind'' then ''BIND_MOUNT_NOT_PERMITTED'' else ''COMPOSE_FIELD_REJECTED'')
                               (p @ ''.type'')])
             else (case (field ''source'' e, field ''target'' e) of
                     (Some (JStr source), Some (JStr target)) \<Rightarrow>
                       (if \<not> rx_test VOLUME_NAME_RE source then Some ([], [err ''VOLUME_NAME_INVALID'' p])
                        else Some (mount source target (field ''read_only'' e = Some (JBool True)), []))
                   | _ \<Rightarrow> Some ([], [err ''COMPOSE_VOLUME_INVALID'' p])))
          }
      | _ \<Rightarrow> Some ([], [err ''COMPOSE_VOLUME_INVALID'' p]))"

definition parse_volume_mounts :: "jv option \<Rightarrow> string \<Rightarrow> volume_mount list parsed" where
  "parse_volume_mounts raw path =
     (case raw of
        None \<Rightarrow> Some ([], [])
      | Some (JArr xs) \<Rightarrow> collect_opt (map (volume_entry path) (List.enumerate 0 xs))
      | Some _ \<Rightarrow> Some ([], [err ''COMPOSE_FIELD_TYPE'' path]))"

section \<open>Health checks\<close>

definition DURATION_RE :: rx where
  "DURATION_RE = RSeq (RGrp 1 (RSeq (r_plus r_digit) (r_opt (RSeq (r_chr (CHR ''.'')) (r_plus r_digit)))))
     (r_opt (RGrp 2 (RAlt (r_str ''ms'') (RAlt (r_str ''s'') (RAlt (r_str ''m'') (r_str ''h''))))))"

definition unit_seconds :: "string option \<Rightarrow> rat" where
  "unit_seconds u = (if u = Some ''ms'' then 1 / 1000 else if u = Some ''m'' then 60 else if u = Some ''h'' then 3600 else 1)"

text \<open>\<open>None\<close> is \<open>null\<close>.\<close>

definition parse_duration_seconds :: "jv \<Rightarrow> js_num option" where
  "parse_duration_seconds raw =
     (case raw of
        JNumV n \<Rightarrow> Some (num_floor n)
      | JStr s \<Rightarrow>
          (case rx_full DURATION_RE (js_trim s) of
             None \<Rightarrow> None
           | Some m \<Rightarrow> Some (num_floor (JNum (parse_dec (the (cap 1 m)) * unit_seconds (cap 2 m)))))
      | _ \<Rightarrow> None)"

text \<open>\<open>resolvePositiveDuration\<close> and the start period; \<open>None\<close> is \<open>null\<close> after an error.\<close>

definition resolve_duration :: "jv option \<Rightarrow> string \<Rightarrow> js_num \<Rightarrow> js_num \<Rightarrow> js_num option \<times> issue list" where
  "resolve_duration raw path least dflt =
     (case raw of
        None \<Rightarrow> (Some dflt, [])
      | Some v \<Rightarrow>
          (case parse_duration_seconds v of
             Some n \<Rightarrow>
               (if \<not> is_finite_num n \<or> num_less n least then (None, [err ''COMPOSE_HEALTHCHECK_INVALID'' path])
                else (Some n, []))
           | None \<Rightarrow> (None, [err ''COMPOSE_HEALTHCHECK_INVALID'' path])))"

datatype test_result = TestNone | TestInvalid | TestCommand "string list"

text \<open>\<open>test\<close> as a command; the exception is \<open>None\<close>.\<close>

definition parse_test :: "jv option \<Rightarrow> test_result option" where
  "parse_test test =
     (case test of
        None \<Rightarrow> Some TestNone
      | Some (JStr s) \<Rightarrow> Some (if s = ''NONE'' then TestNone else TestCommand [''/bin/sh'', ''-c'', s])
      | Some (JArr (t # ts)) \<Rightarrow>
          do {
            head \<leftarrow> string_of t;
            (if head = ''CMD'' then map_option TestCommand (seq_opt (map string_of ts))
             else if head = ''CMD-SHELL'' then
               map_option (\<lambda>s. TestCommand [''/bin/sh'', ''-c'', s])
                 (case ts of [] \<Rightarrow> Some [] | JNull # _ \<Rightarrow> Some [] | v # _ \<Rightarrow> string_of v)
             else if head = ''NONE'' then Some TestNone
             else Some TestInvalid)
          }
      | Some _ \<Rightarrow> Some TestInvalid)"

definition parse_retries :: "jv option \<Rightarrow> js_num" where
  "parse_retries raw =
     (case raw of
        Some (JNumV (JNum q)) \<Rightarrow> if 1 \<le> q then JNum (min 20 (of_int \<lfloor>q\<rfloor>)) else JNum 3
      | _ \<Rightarrow> JNum 3)"

definition health_of_command :: "(string \<times> jv) list \<Rightarrow> string \<Rightarrow> string list \<Rightarrow> health_check option \<times> issue list" where
  "health_of_command raw path command =
     (if command = [] then (None, [err ''COMPOSE_HEALTHCHECK_INVALID'' (path @ ''.test'')])
      else
        (let (interval, is1) = resolve_duration (field ''interval'' raw) (path @ ''.interval'') (JNum 1) (JNum 10);
             (timeout, is2) = resolve_duration (field ''timeout'' raw) (path @ ''.timeout'') (JNum 1) (JNum 1) in
         case (interval, timeout) of
           (Some iv, Some tmo) \<Rightarrow>
             (let (start_period, is3) = resolve_duration (field ''start_period'' raw) (path @ ''.start_period'') (JNum 0) (JNum 0) in
              case start_period of
                None \<Rightarrow> (None, is1 @ is2 @ is3)
              | Some sp \<Rightarrow>
                  (Some \<lparr>hc_probe = Exec command, period_seconds = iv, timeout_seconds = tmo,
                         initial_delay_seconds = sp, failure_threshold = parse_retries (field ''retries'' raw),
                         success_threshold = JNum 1\<rparr>, is1 @ is2 @ is3))
         | _ \<Rightarrow> (None, is1 @ is2)))"

definition parse_healthcheck :: "jv option \<Rightarrow> string \<Rightarrow> health_check option parsed" where
  "parse_healthcheck raw path =
     (case raw of
        None \<Rightarrow> Some (None, [])
      | Some (JObj h) \<Rightarrow>
          (if field ''disable'' h = Some (JBool True) then Some (None, [])
           else do {
             test \<leftarrow> parse_test (field ''test'' h);
             (case test of
                TestNone \<Rightarrow> Some (None, [])
              | TestInvalid \<Rightarrow> Some (None, [err ''COMPOSE_HEALTHCHECK_INVALID'' (path @ ''.test'')])
              | TestCommand command \<Rightarrow> Some (health_of_command h path command))
           })
      | Some _ \<Rightarrow> Some (None, [err ''COMPOSE_HEALTHCHECK_INVALID'' path]))"

section \<open>Dependencies, tmpfs, labels\<close>

definition parse_depends_on :: "jv option \<Rightarrow> string \<Rightarrow> string list parsed" where
  "parse_depends_on raw path =
     (case raw of
        None \<Rightarrow> Some ([], [])
      | Some (JArr xs) \<Rightarrow> map_option (\<lambda>ss. (ss, [])) (seq_opt (map string_of xs))
      | Some (JObj m) \<Rightarrow> Some (map fst m, [])
      | Some _ \<Rightarrow> Some ([], [err ''COMPOSE_FIELD_TYPE'' path]))"

definition SIZE_RE :: rx where
  "SIZE_RE = RSeq (r_str ''size='') (RSeq (RGrp 1 (r_plus r_digit)) (r_opt (RGrp 2 (r_set ''mMgG''))))"

definition tmpfs_size :: "string option \<Rightarrow> nat" where
  "tmpfs_size opt =
     (if \<not> (opt \<noteq> None \<and> the opt \<noteq> []) then 64
      else (case rx_search SIZE_RE (the opt) of
              None \<Rightarrow> 64
            | Some (_, m) \<Rightarrow>
                (let n = parse_nat (the (cap 1 m)) in
                 if cap 2 m = Some ''g'' \<or> cap 2 m = Some ''G'' then n * 1024 else n)))"

definition tmpfs_entry :: "string \<Rightarrow> jv \<Rightarrow> tmpfs_mount list \<times> issue list" where
  "tmpfs_entry path entry =
     (case entry of
        JStr s \<Rightarrow>
          (let parts = split_on (CHR '':'') s; path_part = parts ! 0;
               opt_part = (if length parts > 1 then Some (parts ! 1) else None) in
           if \<not> starts_with path_part ''/'' then ([], [err ''COMPOSE_TMPFS_INVALID'' path])
           else ([\<lparr>tmpfs_path = path_part, size_mi = min (tmpfs_size opt_part) 256\<rparr>], []))
      | _ \<Rightarrow> ([], []))"

definition parse_tmpfs :: "jv option \<Rightarrow> string \<Rightarrow> tmpfs_mount list \<times> issue list" where
  "parse_tmpfs raw path =
     (case raw of
        None \<Rightarrow> ([], [])
      | Some (JStr s) \<Rightarrow> collect (map (tmpfs_entry path) [JStr s])
      | Some (JArr xs) \<Rightarrow> collect (map (tmpfs_entry path) xs)
      | Some _ \<Rightarrow> ([], [err ''COMPOSE_FIELD_TYPE'' path]))"

fun label_entries :: "(string \<times> string) list \<Rightarrow> jv list \<Rightarrow> (string \<times> string) list" where
  "label_entries out [] = out"
| "label_entries out (JStr entry # rest) =
     label_entries
       (case index_of (CHR ''='') entry of
          None \<Rightarrow> obj_set entry [] out
        | Some eq \<Rightarrow> obj_set (take eq entry) (drop (Suc eq) entry) out) rest"
| "label_entries out (_ # rest) = label_entries out rest"

definition parse_labels :: "jv \<Rightarrow> string \<Rightarrow> (string \<times> string) list option parsed" where
  "parse_labels raw path =
     (case raw of
        JObj m \<Rightarrow>
          map_option (\<lambda>kvs. (Some (fold (\<lambda>(k, v). obj_set k v) kvs []), []))
            (seq_opt (map (\<lambda>(k, v). map_option (Pair k) (string_of v)) m))
      | JArr xs \<Rightarrow> Some (Some (label_entries [] xs), [])
      | _ \<Rightarrow> Some (None, [err ''COMPOSE_FIELD_TYPE'' path]))"

section \<open>Configs and secrets\<close>

definition file_mount_entry :: "string \<Rightarrow> mount_kind \<Rightarrow> nat \<times> jv \<Rightarrow> volume_mount list \<times> issue list" where
  "file_mount_entry path kind ie =
     (let p = at_path path (fst ie);
          finish = (\<lambda>source target.
            if \<not> truthy target then ([], [err ''COMPOSE_FIELD_REJECTED'' p])
            else ([\<lparr>vm_kind = Some kind, vm_name = source, container_path = the target, vm_read_only = True\<rparr>], [])) in
      case snd ie of
        JStr s \<Rightarrow> finish s (if kind = MConfigMap then Some (''/'' @ s) else None)
      | JObj e \<Rightarrow>
          (case field ''source'' e of
             Some (JStr src) \<Rightarrow>
               (if src = [] then ([], [err ''COMPOSE_FIELD_TYPE'' (p @ ''.source'')])
                else
                  (let target = (case field ''target'' e of Some (JStr t) \<Rightarrow> Some t | _ \<Rightarrow> None) in
                   finish src (if \<not> truthy target \<and> kind = MConfigMap then Some (''/'' @ src) else target)))
           | _ \<Rightarrow> ([], [err ''COMPOSE_FIELD_TYPE'' (p @ ''.source'')]))
      | _ \<Rightarrow> ([], [err ''COMPOSE_FIELD_TYPE'' p]))"

definition parse_service_file_mounts :: "jv option \<Rightarrow> string \<Rightarrow> mount_kind \<Rightarrow> volume_mount list \<times> issue list" where
  "parse_service_file_mounts raw path kind =
     (case raw of
        None \<Rightarrow> ([], [])
      | Some (JArr xs) \<Rightarrow> collect (map (file_mount_entry path kind) (List.enumerate 0 xs))
      | Some _ \<Rightarrow> ([], [err ''COMPOSE_FIELD_TYPE'' path]))"

definition inline_file_entry ::
    "string \<Rightarrow> string \<Rightarrow> env_files \<Rightarrow> nat \<Rightarrow> string \<times> jv \<Rightarrow> inline_file list parsed" where
  "inline_file_entry top_key pre files mode nd =
     (let name = fst nd; p = top_key @ ''.'' @ name;
          finish = (\<lambda>content.
            if utf8_length content > MAX_INLINE_CONFIG_BYTES then ([], [err (pre @ ''_TOO_LARGE'') p])
            else ([\<lparr>file_name = name, file_content = content, file_mode = mode\<rparr>], [])) in
      if \<not> rx_test CUSTOM_NAME_RE name then Some ([], [err (pre @ ''_NAME_INVALID'') p])
      else (case snd nd of
              JObj d \<Rightarrow>
                (if field ''external'' d = Some (JBool True) then Some ([], [err ''COMPOSE_FIELD_REJECTED'' (p @ ''.external'')])
                 else (case (field ''content'' d, field ''file'' d) of
                         (Some (JStr c), _) \<Rightarrow> Some (finish c)
                       | (_, Some (JStr f)) \<Rightarrow>
                           (case file_lookup files f of
                              Absent \<Rightarrow> Some ([], [err (pre @ ''_FILE_MISSING'') (p @ ''.file'')])
                            | Inherited \<Rightarrow> None
                            | Own c \<Rightarrow> Some (finish c))
                       | _ \<Rightarrow> Some ([], [err (pre @ ''_BODY_REQUIRED'') p])))
            | _ \<Rightarrow> Some ([], [err (pre @ ''_BODY_REQUIRED'') p])))"

definition extract_inline_files ::
    "jv option \<Rightarrow> string \<Rightarrow> string \<Rightarrow> env_files \<Rightarrow> nat \<Rightarrow> inline_file list parsed" where
  "extract_inline_files raw top_key pre files mode =
     (case raw of
        None \<Rightarrow> Some ([], [])
      | Some (JObj m) \<Rightarrow> collect_opt (map (inline_file_entry top_key pre files mode) m)
      | Some _ \<Rightarrow> Some ([], [err (pre @ ''_FIELD_TYPE'') top_key]))"

end
