(* ===== verification/ComposeStack.thy ===== *)
theory ComposeStack
  imports ComposeParser
begin

text \<open>
  The compose parser above its field parsers: one service, the top level of the document, and
  \<open>parseCompose\<close> (\<open>custom-deployments/compose-parser.ts\<close>).
\<close>

section \<open>One service\<close>

definition REJECTED_FIELDS :: "string list" where
  "REJECTED_FIELDS = [''network_mode'', ''cgroup_parent'', ''pid'', ''ipc'', ''userns_mode'', ''extends'',
     ''build'', ''external_links'', ''links'', ''runtime'', ''devices'', ''cap_drop'', ''mac_address'', ''cpus'',
     ''mem_limit'', ''mem_reservation'', ''cpu_shares'']"

definition reject :: "string \<Rightarrow> string \<Rightarrow> issue" where
  "reject path fld = err ''COMPOSE_FIELD_REJECTED'' (path @ ''.'' @ fld)"

definition reject_fields :: "(string \<times> jv) list \<Rightarrow> string \<Rightarrow> issue list" where
  "reject_fields raw path =
     map (reject path) (filter (\<lambda>f. field f raw \<noteq> None) REJECTED_FIELDS)
     @ (if field ''privileged'' raw = Some (JBool True) then [reject path ''privileged''] else [])
     @ (if field ''init'' raw = Some (JBool True) then [warn ''COMPOSE_INIT_IGNORED'' (path @ ''.init'')] else [])"

text \<open>The loop over \<open>cap_add\<close> stops at the first entry that is not allowed.\<close>

fun cap_loop :: "string \<Rightarrow> jv list \<Rightarrow> string list \<times> issue list" where
  "cap_loop path [] = ([], [])"
| "cap_loop path (v # vs) =
     (case v of
        JStr c \<Rightarrow>
          (if c \<in> set ALLOWED_CAP_ADD then (let (cs, is) = cap_loop path vs in (c # cs, is))
           else ([], [reject path ''cap_add'']))
      | _ \<Rightarrow> ([], [reject path ''cap_add'']))"

definition parse_cap_add :: "jv option \<Rightarrow> string \<Rightarrow> string list \<times> issue list" where
  "parse_cap_add raw path = (case raw of Some (JArr xs) \<Rightarrow> cap_loop path xs | _ \<Rightarrow> ([], []))"

fun sysctl_loop :: "string \<Rightarrow> (string \<times> string) list \<Rightarrow> (string \<times> string) list \<Rightarrow> (string \<times> string) list \<times> issue list" where
  "sysctl_loop path out [] = (out, [])"
| "sysctl_loop path out ((k, v) # entries) =
     (if k \<notin> set ALLOWED_SYSCTLS then (out, [reject path ''sysctls''])
      else sysctl_loop path (obj_set k v out) entries)"

definition sysctl_entry :: "string \<Rightarrow> string \<times> string" where
  "sysctl_entry s = (let parts = split_on (CHR ''='') s in (hd parts, join_with ''='' (tl parts)))"

definition parse_sysctls :: "jv option \<Rightarrow> string \<Rightarrow> (string \<times> string) list parsed" where
  "parse_sysctls raw path =
     (case raw of
        Some (JObj m) \<Rightarrow>
          map_option (sysctl_loop path []) (seq_opt (map (\<lambda>(k, v). map_option (Pair k) (string_of v)) m))
      | Some (JArr xs) \<Rightarrow>
          Some (sysctl_loop path [] (concat (map (\<lambda>x. case x of JStr s \<Rightarrow> [sysctl_entry s] | _ \<Rightarrow> []) xs)))
      | _ \<Rightarrow> Some ([], []))"

text \<open>Inline entries win over those of the files.\<close>

definition parse_env_blocks :: "(string \<times> jv) list \<Rightarrow> env_files \<Rightarrow> string \<Rightarrow> custom_env list parsed" where
  "parse_env_blocks raw files path =
     do {
       (inl, is1) \<leftarrow> (case field ''environment'' raw of None \<Rightarrow> Some ([], [])
                      | Some v \<Rightarrow> parse_environment v (path @ ''.environment''));
       (from_files, is2) \<leftarrow> (case field ''env_file'' raw of None \<Rightarrow> Some ([], [])
                      | Some v \<Rightarrow> parse_env_files v files (path @ ''.env_file''));
       Some (inl @ filter (\<lambda>e. env_name e \<notin> env_name ` set inl) from_files, is1 @ is2)
     }"

definition RESTART_MAP :: "(string \<times> restart_policy) list" where
  "RESTART_MAP = [(''always'', Always), (''unless-stopped'', Always), (''on-failure'', OnFailure), (''no'', Never)]"

definition parse_restart :: "jv option \<Rightarrow> string \<Rightarrow> restart_policy parsed" where
  "parse_restart raw path =
     (case raw of
        None \<Rightarrow> Some (Always, [])
      | Some v \<Rightarrow>
          do {
            s \<leftarrow> string_of v;
            (case obj_get s RESTART_MAP of
               Own r \<Rightarrow> Some (r, [])
             | Inherited \<Rightarrow> Some (RInherited, [])
             | Absent \<Rightarrow> Some (Always, [err ''COMPOSE_RESTART_INVALID'' (path @ ''.restart'')]))
          })"

definition id_in_range :: "string \<Rightarrow> int option" where
  "id_in_range s = (case parse_int s of Some n \<Rightarrow> if 0 \<le> n \<and> n \<le> 65535 then Some n else None | None \<Rightarrow> None)"

definition parse_user :: "jv option \<Rightarrow> string \<Rightarrow> (int option \<times> int option) parsed" where
  "parse_user raw path =
     (case raw of
        None \<Rightarrow> Some ((None, None), [])
      | Some v \<Rightarrow>
          do {
            u \<leftarrow> string_of v;
            let parts = split_on (CHR '':'') u;
            let uid = id_in_range (parts ! 0);
            let gid = (if length parts > 1 then id_in_range (parts ! 1) else None);
            let bad = err ''COMPOSE_USER_INVALID'' (path @ ''.user'');
            Some ((uid, gid), (if uid = None then [bad] else [])
                              @ (if length parts > 1 \<and> gid = None then [bad] else []))
          })"

definition parse_stop_grace :: "jv option \<Rightarrow> string \<Rightarrow> js_num option \<times> issue list" where
  "parse_stop_grace raw path =
     (case raw of
        None \<Rightarrow> (None, [])
      | Some v \<Rightarrow>
          (let bad = (None, [err ''COMPOSE_STOP_GRACE_INVALID'' (path @ ''.stop_grace_period'')]) in
           case parse_duration_seconds v of
             None \<Rightarrow> bad
           | Some secs \<Rightarrow>
               (if num_less secs (JNum 0) \<or> num_less (JNum 300) secs then bad else (Some secs, []))))"

definition some_nonempty :: "'a list option \<Rightarrow> 'a list option" where
  "some_nonempty x = (case x of Some xs \<Rightarrow> if xs \<noteq> [] then Some xs else None | None \<Rightarrow> None)"

definition default_resources :: resources_spec where
  "default_resources = \<lparr>cpu_request = ''100m'', memory_request = ''128Mi'', cpu_limit = None, memory_limit = None\<rparr>"

definition parse_labels_field :: "(string \<times> jv) list \<Rightarrow> string \<Rightarrow> (string \<times> string) list option parsed" where
  "parse_labels_field raw path =
     (case field ''labels'' raw of None \<Rightarrow> Some (None, []) | Some v \<Rightarrow> parse_labels v (path @ ''.labels''))"

text \<open>The service once its image is known.\<close>

definition parse_service_body ::
    "string \<Rightarrow> (string \<times> jv) list \<Rightarrow> env_files \<Rightarrow> string \<Rightarrow> string list \<Rightarrow> (string \<times> string) list \<Rightarrow> custom_service parsed" where
  "parse_service_body path raw files img caps sysctls =
     do {
       (entrypoint, i1) \<leftarrow> parse_string_array (field ''entrypoint'' raw) (path @ ''.entrypoint'');
       (command, i2) \<leftarrow> parse_string_array (field ''command'' raw) (path @ ''.command'');
       (env, i3) \<leftarrow> parse_env_blocks raw files path;
       let (ports, i4) = parse_ports (field ''ports'' raw) (path @ ''.ports'');
       (mounts, i5) \<leftarrow> parse_volume_mounts (field ''volumes'' raw) (path @ ''.volumes'');
       (health, i6) \<leftarrow> parse_healthcheck (field ''healthcheck'' raw) (path @ ''.healthcheck'');
       (deps, i7) \<leftarrow> parse_depends_on (field ''depends_on'' raw) (path @ ''.depends_on'');
       (restart, i8) \<leftarrow> parse_restart (field ''restart'' raw) path;
       ((uid, gid), i9) \<leftarrow> parse_user (field ''user'' raw) path;
       let (tmpfs, i10) = parse_tmpfs (field ''tmpfs'' raw) (path @ ''.tmpfs'');
       let (stop_grace, i11) = parse_stop_grace (field ''stop_grace_period'' raw) path;
       (labels, i12) \<leftarrow> parse_labels_field raw path;
       let wd = (case field ''working_dir'' raw of Some (JStr w) \<Rightarrow> (if w = [] then None else Some w) | _ \<Rightarrow> None);
       let (cfg_mounts, i13) = parse_service_file_mounts (field ''configs'' raw) (path @ ''.configs'') MConfigMap;
       let (sec_mounts, i14) = parse_service_file_mounts (field ''secrets'' raw) (path @ ''.secrets'') MSecret;
       Some
         (\<lparr>svc_image = img, svc_command = some_nonempty command, svc_entrypoint = some_nonempty entrypoint,
           svc_env = env, svc_ports = ports, volume_mounts = mounts @ cfg_mounts @ sec_mounts,
           svc_resources = default_resources, svc_health = health, svc_restart = restart,
           run_as_user = uid, run_as_group = gid, working_dir = wd,
           read_only_root = (field ''read_only'' raw = Some (JBool True)), svc_tmpfs = tmpfs, cap_add = caps,
           svc_sysctls = (if sysctls \<noteq> [] then Some sysctls else None), stop_grace_seconds = stop_grace,
           depends_on = deps, svc_labels = labels\<rparr>,
          i1 @ i2 @ i3 @ i4 @ i5 @ i6 @ i7 @ i8 @ i9 @ i10 @ i11 @ i12 @ i13 @ i14)
     }"

definition parse_service :: "string \<Rightarrow> jv \<Rightarrow> env_files \<Rightarrow> custom_service option parsed" where
  "parse_service name raw files =
     (let path = ''services.'' @ name in
      case raw of
        JObj r \<Rightarrow>
          do {
            let rejected = reject_fields r path;
            let (caps, ic) = parse_cap_add (field ''cap_add'' r) path;
            (sysctls, is) \<leftarrow> parse_sysctls (field ''sysctls'' r) path;
            let before = rejected @ ic @ is;
            (case field ''image'' r of
               Some (JStr img) \<Rightarrow>
                 (if img = [] then Some (None, before @ [err ''COMPOSE_IMAGE_REQUIRED'' (path @ ''.image'')])
                  else map_option (\<lambda>(svc, ib). (Some svc, before @ ib)) (parse_service_body path r files img caps sysctls))
             | _ \<Rightarrow> Some (None, before @ [err ''COMPOSE_IMAGE_REQUIRED'' (path @ ''.image'')]))
          }
      | _ \<Rightarrow> Some (None, [err ''COMPOSE_SERVICE_NOT_MAP'' path]))"

section \<open>The document\<close>

definition object_depth_limit :: nat where
  "object_depth_limit = MAX_YAML_DEPTH + 1"

fun object_depth :: "jv \<Rightarrow> nat \<Rightarrow> nat" where
  "object_depth (JArr xs) current =
     (if current > object_depth_limit then current
      else max_list current (map (\<lambda>x. object_depth x (current + 1)) xs))"
| "object_depth (JObj m) current =
     (if current > object_depth_limit then current
      else max_list current (map (\<lambda>kv. object_depth (snd kv) (current + 1)) m))"
| "object_depth _ current = current"

definition known_top :: "string list" where
  "known_top = [''services'', ''volumes'', ''configs'', ''secrets'', ''networks'', ''version'']"

definition top_level_issues :: "(string \<times> jv) list \<Rightarrow> issue list" where
  "top_level_issues doc =
     (if field ''networks'' doc \<noteq> None then [warn ''COMPOSE_NETWORKS_IGNORED'' ''networks''] else [])
     @ map (err ''COMPOSE_UNKNOWN_TOP_LEVEL'')
         (filter (\<lambda>k. k \<notin> set known_top \<and> \<not> starts_with k ''x-'') (map fst doc))"

definition volume_decl :: "string \<times> jv \<Rightarrow> (string \<times> string option) list \<times> issue list" where
  "volume_decl nd =
     (let name = fst nd in
      if \<not> rx_test VOLUME_NAME_RE name then ([], [err ''VOLUME_NAME_INVALID'' (''volumes.'' @ name)])
      else if (case snd nd of JObj d \<Rightarrow> field ''external'' d = Some (JBool True) | _ \<Rightarrow> False)
      then ([], [err ''COMPOSE_FIELD_REJECTED'' (''volumes.'' @ name @ ''.external'')])
      else ([(name, None)], []))"

definition parse_volumes :: "jv option \<Rightarrow> (string \<times> string option) list \<times> issue list" where
  "parse_volumes raw =
     (case raw of
        None \<Rightarrow> ([], [])
      | Some (JObj m) \<Rightarrow> collect (map volume_decl m)
      | Some _ \<Rightarrow> ([], [err ''COMPOSE_VOLUMES_NOT_MAP'' ''volumes'']))"

definition service_entry :: "env_files \<Rightarrow> string \<times> jv \<Rightarrow> (string \<times> custom_service) list parsed" where
  "service_entry files nr =
     (if \<not> rx_test CUSTOM_NAME_RE (fst nr)
      then Some ([], [err ''COMPOSE_SERVICE_NAME_INVALID'' (''services.'' @ fst nr)])
      else map_option (\<lambda>(svc, is). (case svc of Some s \<Rightarrow> [(fst nr, s)] | None \<Rightarrow> [], is))
             (parse_service (fst nr) (snd nr) files))"

text \<open>Every mount, whatever its kind, declares a volume of its name unless there is one.\<close>

fun auto_declare :: "(string \<times> string option) list \<Rightarrow> (string \<times> string) list \<Rightarrow>
    (string \<times> string option) list \<times> issue list" where
  "auto_declare vols [] = (vols, [])"
| "auto_declare vols ((svc_name, vol) # uses) =
     (if obj_has vol vols then auto_declare vols uses
      else (let (vols', is) = auto_declare (vols @ [(vol, None)]) uses in
            (vols', info ''COMPOSE_VOLUME_AUTO_DECLARED'' (''services.'' @ svc_name @ ''.volumes'') # is)))"

definition mount_uses :: "(string \<times> custom_service) list \<Rightarrow> (string \<times> string) list" where
  "mount_uses svs = concat (map (\<lambda>(name, svc). map (\<lambda>vm. (name, vm_name vm)) (volume_mounts svc)) svs)"

definition parse_services :: "(string \<times> jv) list \<Rightarrow> (string \<times> jv) list \<Rightarrow> env_files \<Rightarrow> custom_spec option parsed" where
  "parse_services doc svs files =
     do {
       let (vols, i1) = parse_volumes (field ''volumes'' doc);
       (cfgs, i2) \<leftarrow> extract_inline_files (field ''configs'' doc) ''configs'' ''CONFIGMAP'' files 420;
       (secs, i3) \<leftarrow> extract_inline_files (field ''secrets'' doc) ''secrets'' ''SECRET'' files 256;
       (parsed_svs, i4) \<leftarrow> collect_opt (map (service_entry files) svs);
       (if parsed_svs = [] then Some (None, i1 @ i2 @ i3 @ i4)
        else
          (let (vols', i5) = auto_declare vols (mount_uses parsed_svs) in
           Some (Some \<lparr>spec_version = CUSTOM_SPEC_VERSION, source_mode = ComposeMode, services = parsed_svs,
                       spec_volumes = vols', config_maps = cfgs, spec_secrets = secs, allow_root = False,
                       pull_credential_id = None\<rparr>,
                 i1 @ i2 @ i3 @ i4 @ i5)))
     }"

definition parse_document :: "jv \<Rightarrow> env_files \<Rightarrow> custom_spec option parsed" where
  "parse_document doc files =
     (case doc of
        JObj d \<Rightarrow>
          (if object_depth doc 0 > MAX_YAML_DEPTH then Some (None, [err ''COMPOSE_TOO_DEEPLY_NESTED'' []])
           else
             (let top = top_level_issues d in
              case field ''services'' d of
                Some (JObj svs) \<Rightarrow>
                  (if length svs = 0 then Some (None, top @ [err ''COMPOSE_SERVICES_EMPTY'' ''services''])
                   else if length svs > MAX_SERVICES
                   then Some (None, top @ [err ''COMPOSE_TOO_MANY_SERVICES'' ''services''])
                   else map_option (\<lambda>(spec, is). (spec, top @ is)) (parse_services d svs files))
              | _ \<Rightarrow> Some (None, top @ [err ''COMPOSE_SERVICES_MISSING'' ''services''])))
      | _ \<Rightarrow> Some (None, [err ''COMPOSE_NOT_AN_OBJECT'' []]))"

text \<open>\<open>parseCompose\<close>: \<open>yaml_load\<close> returns \<open>None\<close> when it throws, which is caught.\<close>

definition parse_compose :: "(string \<Rightarrow> jv option) \<Rightarrow> string \<Rightarrow> env_files \<Rightarrow> custom_spec option parsed" where
  "parse_compose yaml_load compose_yaml files =
     (case yaml_load compose_yaml of
        None \<Rightarrow> Some (None, [err ''COMPOSE_YAML_PARSE_ERROR'' []])
      | Some doc \<Rightarrow> parse_document doc files)"

end
