(* ===== verification/SpecValidator.thy ===== *)
theory SpecValidator
  imports CustomSpec ImageRef
begin

text \<open>
  The semantic validator of custom deployments (\<open>custom-deployments/validator.ts\<close>), section by section
  in the order of the code, its depth-first search for dependency cycles, and the quantity
  comparisons. Every section only appends issues, so the result is their concatenation.
\<close>

section \<open>Context\<close>

datatype caller_role = SuperAdmin | Admin | TenantAdmin | TenantUser

record validator_ctx =
  caller_role :: caller_role
  warn_unpinned_tags :: bool
  single_service_only :: bool
  ctx_deployment_name :: "string option"

definition MAX_INGRESS_ELIGIBLE_PORTS_WARN :: nat where
  "MAX_INGRESS_ELIGIBLE_PORTS_WARN = 5"

definition MAX_DEPLOYMENT_NAME_WITH_SERVICES :: nat where
  "MAX_DEPLOYMENT_NAME_WITH_SERVICES = 47"

definition is_admin_role :: "caller_role \<Rightarrow> bool" where
  "is_admin_role r = (r = SuperAdmin \<or> r = Admin)"

section \<open>Quantities\<close>

definition k8sQty :: rx where
  "k8sQty = RSeq (RGrp 1 (RSeq (r_plus r_digit) (r_opt (RSeq (r_chr (CHR ''.'')) (r_plus r_digit)))))
     (r_opt (RGrp 2 (RAlt (r_str ''m'') (RAlt (r_str ''Ki'') (RAlt (r_str ''Mi'') (RAlt (r_str ''Gi'')
       (RAlt (r_str ''Ti'') (RAlt (r_str ''k'') (RAlt (r_str ''M'') (RAlt (r_str ''G'') (r_str ''T'')))))))))))"

text \<open>\<open>None\<close> is \<open>NaN\<close>.\<close>

definition cpu_to_millis :: "string \<Rightarrow> rat option" where
  "cpu_to_millis qty =
     (case rx_full k8sQty qty of
        None \<Rightarrow> None
      | Some m \<Rightarrow>
          (let n = parse_dec (the (cap 1 m)); unit = cap 2 m in
           if unit = Some ''m'' then Some n
           else if unit = None then Some (n * 1000)
           else None))"

definition mem_units :: "(string \<times> rat) list" where
  "mem_units = [(''k'', 1000), (''M'', 1000000), (''G'', 1000000000), (''T'', 1000000000000),
     (''Ki'', 1024), (''Mi'', 1048576), (''Gi'', 1073741824), (''Ti'', 1099511627776)]"

definition mem_to_bytes :: "string \<Rightarrow> rat option" where
  "mem_to_bytes qty =
     (case rx_full k8sQty qty of
        None \<Rightarrow> None
      | Some m \<Rightarrow>
          (let n = parse_dec (the (cap 1 m)) in
           case cap 2 m of
             None \<Rightarrow> Some n
           | Some unit \<Rightarrow> map_option (\<lambda>f. n * f) (map_of mem_units unit)))"

definition at_least :: "rat option \<Rightarrow> rat option \<Rightarrow> bool" where
  "at_least r l = (case (r, l) of (Some x, Some y) \<Rightarrow> x \<le> y | _ \<Rightarrow> True)"

definition cpu_limit_at_least_request :: "string \<Rightarrow> string \<Rightarrow> bool" where
  "cpu_limit_at_least_request request limit = at_least (cpu_to_millis request) (cpu_to_millis limit)"

definition memory_limit_at_least_request :: "string \<Rightarrow> string \<Rightarrow> bool" where
  "memory_limit_at_least_request request limit = at_least (mem_to_bytes request) (mem_to_bytes limit)"

section \<open>Cycle detection\<close>

text \<open>\<open>services[current]?.dependsOn ?? []\<close>; an inherited member has no \<open>dependsOn\<close>.\<close>

definition deps_of :: "(string \<times> custom_service) list \<Rightarrow> string \<Rightarrow> string list" where
  "deps_of svs current = (case map_of svs current of Some svc \<Rightarrow> depends_on svc | None \<Rightarrow> [])"

text \<open>
  \<open>hasCycle\<close>. The set \<open>visiting\<close> and the list \<open>path\<close> always hold the same names, and a call that
  returns false has restored both; so only the path is passed, and the result is the path at the
  moment a name was entered again, or \<open>None\<close> for false.
\<close>

function has_cycle :: "(string \<times> custom_service) list \<Rightarrow> string \<Rightarrow> string list \<Rightarrow> string list option"
  and try_deps :: "(string \<times> custom_service) list \<Rightarrow> string list \<Rightarrow> string list \<Rightarrow> string list option" where
  "has_cycle svs current path =
     (if current \<in> set path then Some path else try_deps svs (deps_of svs current) (path @ [current]))"
| "try_deps svs [] path = None"
| "try_deps svs (dep # deps) path =
     (case (if obj_has dep svs then has_cycle svs dep path else None) of
        Some p \<Rightarrow> Some p
      | None \<Rightarrow> try_deps svs deps path)"
  by pat_completeness auto

text \<open>Every nested call from a declared service enters one more of them; an undeclared name has no
  dependencies.\<close>

termination
proof (relation "inv_image (less_than <*lex*> less_than)
    (\<lambda>x. case x of Inl (svs, current, path) \<Rightarrow> (card (fst ` set svs - set path), 1)
        | Inr (svs, deps, path) \<Rightarrow> (card (fst ` set svs - set path), 2 * length deps))", goal_cases)
  case (2 svs current path)
  show ?case
  proof (cases "current \<in> fst ` set svs")
    case True
    then have "fst ` set svs - set (path @ [current]) \<subset> fst ` set svs - set path"
      using 2 by auto
    then have "card (fst ` set svs - set (path @ [current])) < card (fst ` set svs - set path)"
      by (intro psubset_card_mono) auto
    then show ?thesis by simp
  next
    case False
    then have "map_of svs current = None" by (simp add: map_of_eq_None_iff)
    moreover from False have "fst ` set svs - set (path @ [current]) = fst ` set svs - set path" by auto
    ultimately show ?thesis by (simp add: deps_of_def)
  qed
qed auto

declare has_cycle.simps [simp del]

text \<open>The loop over the start names stops at the first report, whose path blames the start.\<close>

fun cycle_issues :: "(string \<times> custom_service) list \<Rightarrow> string list \<Rightarrow> issue list" where
  "cycle_issues svs [] = []"
| "cycle_issues svs (start # rest) =
     (case has_cycle svs start [] of
        Some path \<Rightarrow>
          [err ''DEPENDS_ON_CYCLE''
             (''services.'' @ (case path of [] \<Rightarrow> start | p # _ \<Rightarrow> p) @ ''.dependsOn'')]
      | None \<Rightarrow> cycle_issues svs rest)"

section \<open>The sections of the validator\<close>

definition check_version :: "custom_spec \<Rightarrow> issue list" where
  "check_version spec =
     (if spec_version spec \<noteq> CUSTOM_SPEC_VERSION then [err ''SPEC_VERSION_UNSUPPORTED'' ''specVersion''] else [])"

definition check_service_count :: "validator_ctx \<Rightarrow> custom_spec \<Rightarrow> issue list" where
  "check_service_count ctx spec =
     (if single_service_only ctx \<and> length (services spec) \<noteq> 1
      then [err ''COMPOSE_NOT_SUPPORTED_YET'' ''services''] else [])"

definition check_root :: "custom_spec \<Rightarrow> issue list" where
  "check_root spec =
     concat (map (\<lambda>(name, svc).
       if (run_as_user svc = Some 0 \<or> run_as_group svc = Some 0) \<and> \<not> allow_root spec
       then [err ''ROOT_REQUIRES_ALLOW_ROOT'' (''services.'' @ name @ ''.runAsUser'')] else []) (services spec))"

definition check_allow_root :: "validator_ctx \<Rightarrow> custom_spec \<Rightarrow> issue list" where
  "check_allow_root ctx spec =
     (if allow_root spec \<and> \<not> is_admin_role (caller_role ctx) then [err ''ALLOW_ROOT_REQUIRES_ADMIN'' ''allowRoot''] else [])"

definition mount_kind_of :: "volume_mount \<Rightarrow> mount_kind" where
  "mount_kind_of vm = (case vm_kind vm of None \<Rightarrow> MVolume | Some k \<Rightarrow> k)"

definition check_mount :: "custom_spec \<Rightarrow> string \<Rightarrow> volume_mount \<Rightarrow> issue list" where
  "check_mount spec name vm =
     (let p = ''services.'' @ name @ ''.volumeMounts'' in
      case mount_kind_of vm of
        MConfigMap \<Rightarrow>
          (if vm_name vm \<notin> file_name ` set (config_maps spec) then [err ''CONFIGMAP_NOT_DECLARED'' p] else [])
      | MSecret \<Rightarrow>
          (if vm_name vm \<notin> file_name ` set (spec_secrets spec) then [err ''SECRET_NOT_DECLARED'' p] else [])
      | MVolume \<Rightarrow>
          (if vm_name vm \<notin> fst ` set (spec_volumes spec) then [err ''VOLUME_NOT_DECLARED'' p] else []))"

definition check_env :: "custom_spec \<Rightarrow> string \<Rightarrow> custom_env \<Rightarrow> issue list" where
  "check_env spec name e =
     (let p = ''services.'' @ name @ ''.env'' in
      (if truthy (value_from_secret e) \<and> the (value_from_secret e) \<notin> file_name ` set (spec_secrets spec)
       then [err ''ENV_SECRET_NOT_DECLARED'' p] else [])
      @ (if truthy (value_from_config_map e) \<and> the (value_from_config_map e) \<notin> file_name ` set (config_maps spec)
         then [err ''ENV_CONFIGMAP_NOT_DECLARED'' p] else []))"

definition check_dep :: "custom_spec \<Rightarrow> string \<Rightarrow> string \<Rightarrow> issue list" where
  "check_dep spec name dep =
     (let p = ''services.'' @ name @ ''.dependsOn'' in
      (if dep \<notin> fst ` set (services spec) then [err ''DEPENDS_ON_UNKNOWN_SERVICE'' p] else [])
      @ (if dep = name then [err ''DEPENDS_ON_SELF'' p] else []))"

fun check_port_names :: "string \<Rightarrow> string set \<Rightarrow> custom_port list \<Rightarrow> issue list" where
  "check_port_names name seen [] = []"
| "check_port_names name seen (p # ps) =
     (if port_name p \<in> seen then [err ''PORT_NAME_DUPLICATE'' (''services.'' @ name @ ''.ports'')] else [])
       @ check_port_names name (insert (port_name p) seen) ps"

definition check_resources :: "string \<Rightarrow> resources_spec \<Rightarrow> issue list" where
  "check_resources name r =
     (if truthy (cpu_limit r) \<and> \<not> cpu_limit_at_least_request (cpu_request r) (the (cpu_limit r))
      then [err ''CPU_LIMIT_BELOW_REQUEST'' (''services.'' @ name @ ''.resources.cpuLimit'')] else [])
     @ (if truthy (memory_limit r) \<and> \<not> memory_limit_at_least_request (memory_request r) (the (memory_limit r))
        then [err ''MEMORY_LIMIT_BELOW_REQUEST'' (''services.'' @ name @ ''.resources.memoryLimit'')] else [])"

definition check_image :: "validator_ctx \<Rightarrow> string \<Rightarrow> string \<Rightarrow> issue list" where
  "check_image ctx name img =
     (case parse_image_reference img of
        None \<Rightarrow> []
      | Some ref \<Rightarrow>
          (if warn_unpinned_tags ctx \<and> \<not> is_pinned_reference ref
           then [warn ''UNPINNED_TAG_ADVISORY'' (''services.'' @ name @ ''.image'')] else []))"

definition check_service :: "validator_ctx \<Rightarrow> custom_spec \<Rightarrow> string \<times> custom_service \<Rightarrow> issue list" where
  "check_service ctx spec ns =
     (let name = fst ns; svc = snd ns in
      concat (map (check_mount spec name) (volume_mounts svc))
      @ concat (map (check_env spec name) (svc_env svc))
      @ concat (map (check_dep spec name) (depends_on svc))
      @ check_port_names name {} (svc_ports svc)
      @ check_resources name (svc_resources svc)
      @ check_image ctx name (svc_image svc))"

text \<open>\<open>svc.ports.some((p) => p.exposeAsService)\<close>.\<close>

definition exposes_ports :: "custom_service \<Rightarrow> bool" where
  "exposes_ports svc = (\<exists>p \<in> set (svc_ports svc). expose_as_service p)"

definition check_names :: "validator_ctx \<Rightarrow> custom_spec \<Rightarrow> issue list" where
  "check_names ctx spec =
     (case ctx_deployment_name ctx of
        None \<Rightarrow> []
      | Some dn \<Rightarrow>
          (if \<exists>ns \<in> set (services spec). exposes_ports (snd ns) then
             (if single_service_only ctx then
                (if length dn > MAX_DEPLOYMENT_NAME_WITH_SERVICES
                 then [err ''DEPLOYMENT_NAME_TOO_LONG_FOR_SERVICE'' ''name''] else [])
              else
                concat (map (\<lambda>(name, svc).
                  if exposes_ports svc \<and> length dn + 1 + length name + 1 + 15 > 63
                  then [err ''MULTI_SERVICE_NAME_TOO_LONG'' (''services.'' @ name)] else []) (services spec)))
           else []))"

definition check_ingress :: "custom_spec \<Rightarrow> issue list" where
  "check_ingress spec =
     (if length (concat (map (\<lambda>ns. filter (\<lambda>p. ingress_eligible p \<and> expose_as_service p) (svc_ports (snd ns)))
           (services spec))) > MAX_INGRESS_ELIGIBLE_PORTS_WARN
      then [warn ''MANY_INGRESS_ELIGIBLE_PORTS'' ''services''] else [])"

fun assert_unique_names :: "string set \<Rightarrow> string list \<Rightarrow> string \<Rightarrow> string \<Rightarrow> issue list" where
  "assert_unique_names seen [] p c = []"
| "assert_unique_names seen (n # ns) p c =
     (if n \<in> seen then [err c p] else []) @ assert_unique_names (insert n seen) ns p c"

definition validation_issues :: "validator_ctx \<Rightarrow> custom_spec \<Rightarrow> issue list" where
  "validation_issues ctx spec =
     check_version spec
     @ check_service_count ctx spec
     @ check_root spec
     @ check_allow_root ctx spec
     @ concat (map (check_service ctx spec) (services spec))
     @ cycle_issues (services spec) (map fst (services spec))
     @ check_names ctx spec
     @ check_ingress spec
     @ assert_unique_names {} (map file_name (config_maps spec)) ''configMaps'' ''CONFIGMAP_NAME_DUPLICATE''
     @ assert_unique_names {} (map file_name (spec_secrets spec)) ''secrets'' ''SECRET_NAME_DUPLICATE''"

text \<open>\<open>validateCustomSpec\<close>: \<open>ok\<close> and the issues.\<close>

definition validate_custom_spec :: "custom_spec \<Rightarrow> validator_ctx \<Rightarrow> bool \<times> issue list" where
  "validate_custom_spec spec ctx =
     (let issues = validation_issues ctx spec in (no_errors issues, issues))"

section \<open>The search finds exactly the cycles\<close>

definition dep_graph :: "(string \<times> custom_service) list \<Rightarrow> (string \<times> string) set" where
  "dep_graph svs = {(a, d). d \<in> set (deps_of svs a)}"

lemma dep_graph_source: "(a, d) \<in> dep_graph svs \<Longrightarrow> a \<in> fst ` set svs"
  by (cases "map_of svs a") (auto simp: dep_graph_def deps_of_def dest!: map_of_SomeD intro: rev_image_eqI)

lemma dep_graph_trancl_source: "(a, d) \<in> (dep_graph svs)\<^sup>+ \<Longrightarrow> obj_has a svs"
  by (induction rule: converse_trancl_induct) (auto simp: obj_has_def dest: dep_graph_source)

lemma has_cycle_sound:
  "has_cycle svs current path = Some p \<Longrightarrow> \<forall>x \<in> set path. (x, current) \<in> (dep_graph svs)\<^sup>+ \<Longrightarrow>
     \<exists>n. (n, n) \<in> (dep_graph svs)\<^sup>+"
  "try_deps svs deps path = Some p \<Longrightarrow> \<forall>d \<in> set deps. \<forall>x \<in> set path. (x, d) \<in> (dep_graph svs)\<^sup>+ \<Longrightarrow>
     \<exists>n. (n, n) \<in> (dep_graph svs)\<^sup>+"
proof (induction svs current path and svs deps path arbitrary: p and p rule: has_cycle_try_deps.induct)
  case (1 svs current path)
  show ?case
  proof (cases "current \<in> set path")
    case True
    with 1 show ?thesis by blast
  next
    case False
    have "\<forall>d \<in> set (deps_of svs current). \<forall>x \<in> set (path @ [current]). (x, d) \<in> (dep_graph svs)\<^sup>+"
      using 1(3) by (auto simp: dep_graph_def intro: trancl_into_trancl)
    then show ?thesis using 1(1,2) False by (simp add: has_cycle.simps [of svs current])
  qed
next
  case (3 svs dep deps path)
  show ?case
  proof (cases "if obj_has dep svs then has_cycle svs dep path else None")
    case None
    then show ?thesis using 3 by simp
  next
    case (Some q)
    then show ?thesis using 3 by (simp split: if_splits)
  qed
qed simp

lemma has_cycle_complete:
  "has_cycle svs current path = None \<Longrightarrow> obj_has current svs \<Longrightarrow> \<forall>x \<in> set path. obj_has x svs \<Longrightarrow>
     (current, n) \<in> (dep_graph svs)\<^sup>* \<Longrightarrow> n \<notin> set path \<and> (n, n) \<notin> (dep_graph svs)\<^sup>+"
  "try_deps svs deps path = None \<Longrightarrow> \<forall>x \<in> set path. obj_has x svs \<Longrightarrow>
     d \<in> set deps \<Longrightarrow> (d, n) \<in> (dep_graph svs)\<^sup>* \<Longrightarrow> n \<notin> set path \<and> (n, n) \<notin> (dep_graph svs)\<^sup>+"
proof (induction svs current path and svs deps path arbitrary: n and d n rule: has_cycle_try_deps.induct)
  case (1 svs current path)
  from 1(2) have fresh: "current \<notin> set path" and t: "try_deps svs (deps_of svs current) (path @ [current]) = None"
    by (simp_all add: has_cycle.simps [of svs current] split: if_splits)
  have ob: "\<forall>x \<in> set (path @ [current]). obj_has x svs" using 1(3,4) by auto
  have dep: "n' \<notin> set (path @ [current]) \<and> (n', n') \<notin> (dep_graph svs)\<^sup>+"
    if "(current, d) \<in> dep_graph svs" "(d, n') \<in> (dep_graph svs)\<^sup>*" for d n'
    using 1(1) [OF fresh t ob _ that(2)] that(1) by (simp add: dep_graph_def)
  have cyc: "(current, current) \<notin> (dep_graph svs)\<^sup>+"
  proof
    assume "(current, current) \<in> (dep_graph svs)\<^sup>+"
    then obtain d where "(current, d) \<in> dep_graph svs" "(d, current) \<in> (dep_graph svs)\<^sup>*"
      by (meson tranclD)
    with dep show False by fastforce
  qed
  from 1(5) show ?case
  proof (cases rule: converse_rtranclE)
    case base
    with fresh cyc show ?thesis by simp
  next
    case (step d)
    with dep [of d n] show ?thesis by simp
  qed
next
  case (3 svs dep deps path)
  from 3(3) have h: "obj_has dep svs \<Longrightarrow> has_cycle svs dep path = None"
    and t: "try_deps svs deps path = None"
    by (auto split: option.splits if_splits)
  show ?case
  proof (cases "d = dep")
    case True
    show ?thesis
    proof (cases "obj_has dep svs")
      case True
      then show ?thesis using 3(1) [OF _ h [OF True] _ 3(4)] 3(6) \<open>d = dep\<close> by auto
    next
      case False
      have "n = dep"
        using 3(6) \<open>d = dep\<close> False dep_graph_trancl_source [of dep _ svs]
        by (metis rtranclD)
      moreover have "(dep, dep) \<notin> (dep_graph svs)\<^sup>+" using False dep_graph_trancl_source by blast
      ultimately show ?thesis using False 3(4) by blast
    qed
  next
    case False
    have "(if obj_has dep svs then has_cycle svs dep path else None) = None" using h by simp
    with False show ?thesis using 3(2) [OF _ t 3(4) _ 3(6)] 3(5) by auto
  qed
qed simp

lemma cycle_issues_none: "cycle_issues svs names = [] \<longleftrightarrow> (\<forall>n \<in> set names. has_cycle svs n [] = None)"
  by (induction names) (auto split: option.splits)

lemma cycle_issues_error: "no_errors (cycle_issues svs names) \<longleftrightarrow> cycle_issues svs names = []"
  by (induction names) (auto simp: issue_simps split: option.splits)

lemma cycle_issues_iff: "cycle_issues svs (map fst svs) = [] \<longleftrightarrow> acyclic (dep_graph svs)"
proof
  assume none: "cycle_issues svs (map fst svs) = []"
  show "acyclic (dep_graph svs)"
  proof (rule acyclicI, intro allI notI)
    fix n assume n: "(n, n) \<in> (dep_graph svs)\<^sup>+"
    then have "n \<in> fst ` set svs" by (metis dep_graph_source tranclD)
    then have "has_cycle svs n [] = None" "obj_has n svs"
      using none by (auto simp: cycle_issues_none obj_has_def)
    with has_cycle_complete(1) [of svs n "[]" n] n show False by simp
  qed
next
  assume "acyclic (dep_graph svs)"
  then have "has_cycle svs n [] = None" for n
    using has_cycle_sound(1) [of svs n "[]"] by (cases "has_cycle svs n []") (auto simp: acyclic_def)
  then show "cycle_issues svs (map fst svs) = []" by (simp add: cycle_issues_none)
qed

section \<open>What a valid specification is\<close>

text \<open>The contract, stated without issues, paths or search order.\<close>

definition mount_declared :: "custom_spec \<Rightarrow> volume_mount \<Rightarrow> bool" where
  "mount_declared spec vm =
     (vm_name vm \<in> (case mount_kind_of vm of MVolume \<Rightarrow> fst ` set (spec_volumes spec)
        | MConfigMap \<Rightarrow> file_name ` set (config_maps spec) | MSecret \<Rightarrow> file_name ` set (spec_secrets spec)))"

definition env_declared :: "custom_spec \<Rightarrow> custom_env \<Rightarrow> bool" where
  "env_declared spec e =
     ((truthy (value_from_secret e) \<longrightarrow> the (value_from_secret e) \<in> file_name ` set (spec_secrets spec))
      \<and> (truthy (value_from_config_map e) \<longrightarrow> the (value_from_config_map e) \<in> file_name ` set (config_maps spec)))"

definition limits_ok :: "resources_spec \<Rightarrow> bool" where
  "limits_ok r =
     ((truthy (cpu_limit r) \<longrightarrow> cpu_limit_at_least_request (cpu_request r) (the (cpu_limit r)))
      \<and> (truthy (memory_limit r) \<longrightarrow> memory_limit_at_least_request (memory_request r) (the (memory_limit r))))"

definition service_ok :: "custom_spec \<Rightarrow> custom_service \<Rightarrow> bool" where
  "service_ok spec svc =
     ((\<forall>vm \<in> set (volume_mounts svc). mount_declared spec vm)
      \<and> (\<forall>e \<in> set (svc_env svc). env_declared spec e)
      \<and> set (depends_on svc) \<subseteq> fst ` set (services spec)
      \<and> distinct (map port_name (svc_ports svc))
      \<and> limits_ok (svc_resources svc)
      \<and> ((run_as_user svc = Some 0 \<or> run_as_group svc = Some 0) \<longrightarrow> allow_root spec))"

definition names_fit :: "validator_ctx \<Rightarrow> custom_spec \<Rightarrow> bool" where
  "names_fit ctx spec =
     (\<forall>dn. ctx_deployment_name ctx = Some dn \<longrightarrow>
        (\<forall>ns \<in> set (services spec). exposes_ports (snd ns) \<longrightarrow>
           (if single_service_only ctx then length dn \<le> 47 else length dn + length (fst ns) \<le> 46)))"

definition spec_ok :: "validator_ctx \<Rightarrow> custom_spec \<Rightarrow> bool" where
  "spec_ok ctx spec =
     (spec_version spec = 1
      \<and> (single_service_only ctx \<longrightarrow> length (services spec) = 1)
      \<and> (allow_root spec \<longrightarrow> is_admin_role (caller_role ctx))
      \<and> (\<forall>ns \<in> set (services spec). service_ok spec (snd ns))
      \<and> acyclic (dep_graph (services spec))
      \<and> names_fit ctx spec
      \<and> distinct (map file_name (config_maps spec))
      \<and> distinct (map file_name (spec_secrets spec)))"

lemma check_port_names_iff [issue_simps]:
  "no_errors (check_port_names name seen ps) \<longleftrightarrow> distinct (map port_name ps) \<and> port_name ` set ps \<inter> seen = {}"
  by (induction ps arbitrary: seen) (auto simp: issue_simps)

lemma assert_unique_names_iff [issue_simps]:
  "no_errors (assert_unique_names seen ns p c) \<longleftrightarrow> distinct ns \<and> set ns \<inter> seen = {}"
  by (induction ns arbitrary: seen) (auto simp: issue_simps)

lemma check_mount_iff [issue_simps]: "no_errors (check_mount spec name vm) \<longleftrightarrow> mount_declared spec vm"
  by (simp add: check_mount_def mount_declared_def issue_simps split: mount_kind.split)

lemma check_env_iff [issue_simps]: "no_errors (check_env spec name e) \<longleftrightarrow> env_declared spec e"
  by (auto simp: check_env_def env_declared_def issue_simps Let_def)

lemma check_resources_iff [issue_simps]: "no_errors (check_resources name r) \<longleftrightarrow> limits_ok r"
  by (auto simp: check_resources_def limits_ok_def issue_simps)

lemma check_image_ok [issue_simps]: "no_errors (check_image ctx name img)"
  by (simp add: check_image_def issue_simps split: option.split)

lemma check_dep_iff [issue_simps]:
  "no_errors (check_dep spec name d) \<longleftrightarrow> d \<in> fst ` set (services spec) \<and> d \<noteq> name"
  by (auto simp: check_dep_def issue_simps Let_def)

lemma check_service_iff [issue_simps]:
  "no_errors (check_service ctx spec ns) \<longleftrightarrow>
     (\<forall>vm \<in> set (volume_mounts (snd ns)). mount_declared spec vm)
     \<and> (\<forall>e \<in> set (svc_env (snd ns)). env_declared spec e)
     \<and> (\<forall>d \<in> set (depends_on (snd ns)). d \<in> fst ` set (services spec) \<and> d \<noteq> fst ns)
     \<and> distinct (map port_name (svc_ports (snd ns))) \<and> limits_ok (svc_resources (snd ns))"
  by (auto simp: check_service_def issue_simps Let_def)

lemma check_root_iff [issue_simps]:
  "no_errors (check_root spec) \<longleftrightarrow>
     (\<forall>ns \<in> set (services spec). (run_as_user (snd ns) = Some 0 \<or> run_as_group (snd ns) = Some 0) \<longrightarrow> allow_root spec)"
  by (auto simp: check_root_def issue_simps split: prod.splits)

lemma check_names_iff [issue_simps]: "no_errors (check_names ctx spec) \<longleftrightarrow> names_fit ctx spec"
proof (cases "ctx_deployment_name ctx")
  case None
  then show ?thesis by (simp add: check_names_def names_fit_def issue_simps)
next
  case (Some dn)
  then show ?thesis
    by (auto simp: check_names_def names_fit_def issue_simps MAX_DEPLOYMENT_NAME_WITH_SERVICES_def
        split: prod.splits if_splits)
qed

text \<open>A self-dependency is a cycle, so the separate check for it never decides.\<close>

lemma acyclic_no_self:
  assumes "acyclic (dep_graph svs)" and "distinct (map fst svs)" and "ns \<in> set svs" and "d \<in> set (depends_on (snd ns))"
  shows "d \<noteq> fst ns"
proof
  assume "d = fst ns"
  from assms(2,3) have "map_of svs (fst ns) = Some (snd ns)" by (metis map_of_eq_Some_iff prod.collapse)
  with assms(4) \<open>d = fst ns\<close> have "(fst ns, fst ns) \<in> dep_graph svs"
    by (simp add: dep_graph_def deps_of_def)
  with assms(1) show False by (auto simp: acyclic_def)
qed

lemma validation_issues_iff:
  "distinct (map fst (services spec)) \<Longrightarrow> no_errors (validation_issues ctx spec) \<longleftrightarrow> spec_ok ctx spec"
  unfolding validation_issues_def issue_simps cycle_issues_error cycle_issues_iff
  by (auto simp: check_version_def check_service_count_def check_allow_root_def check_ingress_def issue_simps
      spec_ok_def service_ok_def CUSTOM_SPEC_VERSION_def subset_iff dest: acyclic_no_self)

end
