(* ===== verification/CustomDeployService.thy ===== *)
theory CustomDeployService
  imports ComposeStack SpecValidator
begin

text \<open>
  The orchestration of custom deployments (\<open>custom-deployments/service.ts\<close>): the rows of the
  \<open>deployments\<close> table with the pull credentials (\<open>pat-store.ts\<close>), and every operation that
  changes them. What the cluster, the key store and the YAML library answer is a parameter (\<open>env\<close>);
  a \<open>randomUUID\<close> is an argument. An operation returns the state it leaves also when it throws.
\<close>

section \<open>State\<close>

datatype row_source = CatalogRow | CustomRow

record deployment_row =
  d_id :: string
  d_tenant :: string
  d_source :: row_source
  d_name :: string
  d_spec :: "custom_spec option"
  d_cpu :: string
  d_memory :: string
  d_storage_path :: "string option"
  d_status :: string
  d_message :: "string option"
  d_error :: "string option"

record credential =
  cr_id :: string
  cr_registry :: string
  cr_username :: string
  cr_cipher :: string
  cr_last_four :: string

record deploy_world =
  d_rows :: "deployment_row list"
  d_creds :: "(string \<times> credential) list"
  d_tenants :: "(string \<times> string) list"

record deploy_settings =
  custom_enabled :: bool
  allow_compose :: bool
  allow_private :: bool
  warn_unpinned :: bool

text \<open>Errors: an \<open>ApiError\<close> with its code and status, or any other exception.\<close>

datatype deploy_error = ApiErr string nat | Thrown string

text \<open>The surroundings. \<open>apply_spec\<close> and \<open>delete_spec\<close> are the cluster calls of one deployment, \<open>None\<close>
  for success; \<open>decrypt\<close> is \<open>None\<close> when it throws.\<close>

record deploy_env =
  yaml_load :: "string \<Rightarrow> jv option"
  encryption_key :: string
  encrypt :: "string \<Rightarrow> string \<Rightarrow> string"
  decrypt :: "string \<Rightarrow> string \<Rightarrow> string option"
  put_secret :: "string \<Rightarrow> string \<Rightarrow> deploy_error option"
  drop_secret :: "string \<Rightarrow> deploy_error option"
  apply_spec :: "string \<Rightarrow> custom_spec \<Rightarrow> string option"
  delete_spec :: "string \<Rightarrow> string option"

type_synonym 'a outcome = "deploy_world \<times> (deploy_error + 'a)"

section \<open>Rows\<close>

definition get_custom_deployment :: "deploy_world \<Rightarrow> string \<Rightarrow> string \<Rightarrow> deploy_error + deployment_row" where
  "get_custom_deployment w tenant ident =
     (case filter (\<lambda>r. d_id r = ident \<and> d_tenant r = tenant \<and> d_source r = CustomRow) (d_rows w) of
        [] \<Rightarrow> Inl (ApiErr ''CUSTOM_DEPLOYMENT_NOT_FOUND'' 404)
      | r # _ \<Rightarrow> Inr r)"

definition list_custom_deployments :: "deploy_world \<Rightarrow> string \<Rightarrow> deployment_row list" where
  "list_custom_deployments w tenant = filter (\<lambda>r. d_tenant r = tenant \<and> d_source r = CustomRow) (d_rows w)"

definition update_rows :: "(deployment_row \<Rightarrow> bool) \<Rightarrow> (deployment_row \<Rightarrow> deployment_row) \<Rightarrow> deploy_world \<Rightarrow> deploy_world" where
  "update_rows p f w = w\<lparr>d_rows := map (\<lambda>r. if p r then f r else r) (d_rows w)\<rparr>"

definition load_tenant :: "deploy_world \<Rightarrow> string \<Rightarrow> deploy_error + string" where
  "load_tenant w tenant =
     (case map_of (d_tenants w) tenant of None \<Rightarrow> Inl (ApiErr ''CLIENT_NOT_FOUND'' 404) | Some ns \<Rightarrow> Inr ns)"

definition mark_failed :: "string \<Rightarrow> string \<Rightarrow> deploy_world \<Rightarrow> deploy_world" where
  "mark_failed ident e = update_rows (\<lambda>r. d_id r = ident) (\<lambda>r. r\<lparr>d_status := ''failed'', d_error := Some e\<rparr>)"

section \<open>Cluster apply\<close>

definition load_decrypted_token :: "deploy_env \<Rightarrow> deploy_world \<Rightarrow> string \<Rightarrow> deploy_error + string option" where
  "load_decrypted_token env w ident =
     (case map_of (d_creds w) ident of
        None \<Rightarrow> Inr None
      | Some c \<Rightarrow>
          (case decrypt env (cr_cipher c) (encryption_key env) of
             None \<Rightarrow> Inl (ApiErr ''PAT_DECRYPT_FAILED'' 500)
           | Some token \<Rightarrow> Inr (Some token)))"

definition deploy_to_cluster :: "deploy_env \<Rightarrow> deploy_world \<Rightarrow> string \<Rightarrow> custom_spec \<Rightarrow> unit outcome" where
  "deploy_to_cluster env w ident spec =
     (let apply_it =
        (case apply_spec env ident spec of
           None \<Rightarrow> (w, Inr ())
         | Some e \<Rightarrow> (mark_failed ident e w, Inl (Thrown e))) in
      if map_of (d_creds w) ident = None then apply_it
      else if encryption_key env = [] then (w, Inl (ApiErr ''ENCRYPTION_KEY_MISSING'' 500))
      else (case load_decrypted_token env w ident of
              Inl e \<Rightarrow> (w, Inl e)
            | Inr None \<Rightarrow> (w, Inl (ApiErr ''PAT_VANISHED'' 500))
            | Inr (Some token) \<Rightarrow>
                (case put_secret env ident token of
                   Some e \<Rightarrow> (w, Inl e)
                 | None \<Rightarrow> apply_it)))"

section \<open>Building and summing\<close>

record simple_input =
  si_name :: string
  si_image :: string
  si_command :: "string list option"
  si_entrypoint :: "string list option"
  si_env :: "custom_env list option"
  si_ports :: "custom_port list option"
  si_volumes :: "volume_mount list option"
  si_resources :: "resources_spec option"
  si_health :: "health_check option"
  si_restart :: "restart_policy option"
  si_run_as_user :: "int option"
  si_run_as_group :: "int option"
  si_read_only :: "bool option"
  si_pull_credential :: "string option"

definition or_else :: "'a option \<Rightarrow> 'a \<Rightarrow> 'a" where
  "or_else x d = (case x of Some v \<Rightarrow> v | None \<Rightarrow> d)"

definition build_spec_from_simple :: "simple_input \<Rightarrow> custom_spec" where
  "build_spec_from_simple i =
     \<lparr>spec_version = CUSTOM_SPEC_VERSION, source_mode = SimpleMode,
      services = [(si_name i,
        \<lparr>svc_image = si_image i, svc_command = si_command i, svc_entrypoint = si_entrypoint i,
         svc_env = or_else (si_env i) [], svc_ports = or_else (si_ports i) [],
         volume_mounts = or_else (si_volumes i) [],
         svc_resources = or_else (si_resources i) default_resources, svc_health = si_health i,
         svc_restart = or_else (si_restart i) Always, run_as_user = si_run_as_user i,
         run_as_group = si_run_as_group i, working_dir = None,
         read_only_root = or_else (si_read_only i) False, svc_tmpfs = [], cap_add = [], svc_sysctls = None,
         stop_grace_seconds = None, depends_on = [], svc_labels = None\<rparr>)],
      spec_volumes = fold (\<lambda>vm m. AList.update (vm_name vm) None m) (or_else (si_volumes i) []) [],
      config_maps = [], spec_secrets = [], allow_root = False, pull_credential_id = si_pull_credential i\<rparr>"

definition with_service_mutation :: "custom_spec \<Rightarrow> string \<Rightarrow> (custom_service \<Rightarrow> custom_service) \<Rightarrow> custom_spec" where
  "with_service_mutation spec name f =
     spec\<lparr>services := AList.update name (f (the (map_of (services spec) name))) (services spec)\<rparr>"

text \<open>\<open>Math.round\<close>, and \<open>n || d\<close>.\<close>

definition js_round :: "rat \<Rightarrow> nat" where
  "js_round q = nat \<lfloor>q + 1 / 2\<rfloor>"

definition or_default :: "nat \<Rightarrow> nat \<Rightarrow> nat" where
  "or_default n d = (if n = 0 then d else n)"

definition CPU_RE :: rx where
  "CPU_RE = RSeq (RGrp 1 (RSeq (r_plus r_digit) (r_opt (RSeq (r_chr (CHR ''.'')) (r_plus r_digit)))))
     (r_opt (RGrp 2 (r_chr (CHR ''m''))))"

definition parse_cpu_millis :: "string \<Rightarrow> nat" where
  "parse_cpu_millis qty =
     (case rx_full CPU_RE qty of
        None \<Rightarrow> 0
      | Some m \<Rightarrow>
          (let n = parse_dec (the (cap 1 m)) in
           if cap 2 m = Some ''m'' then js_round n else js_round (n * 1000)))"

definition MEM_RE :: rx where
  "MEM_RE = RSeq (RGrp 1 (RSeq (r_plus r_digit) (r_opt (RSeq (r_chr (CHR ''.'')) (r_plus r_digit)))))
     (r_opt (RGrp 2 (RAlt (r_str ''Ki'') (RAlt (r_str ''Mi'') (RAlt (r_str ''Gi'') (RAlt (r_str ''Ti'')
       (RAlt (r_str ''k'') (RAlt (r_str ''M'') (RAlt (r_str ''G'') (r_str ''T''))))))))))"

text \<open>The table has no entry for \<open>T\<close>, so a terabyte counts as a mebibyte.\<close>

definition mem_factors :: "(string \<times> rat) list" where
  "mem_factors = [('''', 1 / 1048576), (''k'', 1000 / 1048576), (''M'', 1000000 / 1048576),
     (''G'', 1000000000 / 1048576), (''Ki'', 1 / 1024), (''Mi'', 1), (''Gi'', 1024), (''Ti'', 1048576)]"

definition parse_mem_mi :: "string \<Rightarrow> nat" where
  "parse_mem_mi qty =
     (case rx_full MEM_RE qty of
        None \<Rightarrow> 0
      | Some m \<Rightarrow>
          (let n = parse_dec (the (cap 1 m)); unit = or_else (cap 2 m) [] in
           max 1 (js_round (n * or_else (map_of mem_factors unit) 1))))"

definition sum_resources :: "custom_spec \<Rightarrow> string \<times> string" where
  "sum_resources spec =
     (let cpu = sum_list (map (\<lambda>ns. parse_cpu_millis (cpu_request (svc_resources (snd ns)))) (services spec));
          mem = sum_list (map (\<lambda>ns. parse_mem_mi (memory_request (svc_resources (snd ns)))) (services spec)) in
      (show_nat (or_default cpu 100) @ ''m'', show_nat (or_default mem 128) @ ''Mi''))"

section \<open>Create\<close>

definition create_ctx :: "deploy_settings \<Rightarrow> caller_role \<Rightarrow> bool \<Rightarrow> string option \<Rightarrow> validator_ctx" where
  "create_ctx settings role single name =
     \<lparr>caller_role = role, warn_unpinned_tags = warn_unpinned settings, single_service_only = single,
      ctx_deployment_name = name\<rparr>"

definition validate_simple_spec :: "deploy_settings \<Rightarrow> simple_input \<Rightarrow> caller_role \<Rightarrow> bool \<times> issue list \<times> custom_spec" where
  "validate_simple_spec settings input role =
     (let spec = build_spec_from_simple input;
          (ok, issues) = validate_custom_spec spec (create_ctx settings role True (Some (si_name input))) in
      (ok, issues, spec))"

definition name_in_use :: "deploy_world \<Rightarrow> string \<Rightarrow> string \<Rightarrow> bool" where
  "name_in_use w tenant name = (\<exists>r \<in> set (d_rows w). d_tenant r = tenant \<and> d_name r = name)"

definition new_row :: "string \<Rightarrow> string \<Rightarrow> string \<Rightarrow> custom_spec \<Rightarrow> string \<Rightarrow> string \<Rightarrow> deployment_row" where
  "new_row ident tenant name spec cpu mem =
     \<lparr>d_id = ident, d_tenant = tenant, d_source = CustomRow, d_name = name, d_spec = Some spec,
      d_cpu = cpu, d_memory = mem, d_storage_path = Some (''custom-deployment/'' @ name),
      d_status = ''deploying'', d_message = None, d_error = None\<rparr>"

text \<open>The end of both create paths: insert the row, apply it, read it back.\<close>

definition insert_and_deploy :: "deploy_env \<Rightarrow> deploy_world \<Rightarrow> deployment_row \<Rightarrow> custom_spec \<Rightarrow> deployment_row outcome" where
  "insert_and_deploy env w r spec =
     (case deploy_to_cluster env (w\<lparr>d_rows := d_rows w @ [r]\<rparr>) (d_id r) spec of
        (w', Inl e) \<Rightarrow> (w', Inl e)
      | (w', Inr _) \<Rightarrow> (w', get_custom_deployment w' (d_tenant r) (d_id r)))"

definition create_simple_deployment ::
    "deploy_env \<Rightarrow> deploy_settings \<Rightarrow> deploy_world \<Rightarrow> string \<Rightarrow> string \<Rightarrow> simple_input \<Rightarrow> caller_role \<Rightarrow> deployment_row outcome" where
  "create_simple_deployment env settings w ident tenant input role =
     (if \<not> custom_enabled settings then (w, Inl (ApiErr ''CUSTOM_DEPLOYMENTS_DISABLED'' 403))
      else (case load_tenant w tenant of
        Inl e \<Rightarrow> (w, Inl e)
      | Inr _ \<Rightarrow>
          (let spec = build_spec_from_simple input in
           if \<not> fst (validate_custom_spec spec (create_ctx settings role True (Some (si_name input))))
           then (w, Inl (ApiErr ''CUSTOM_DEPLOYMENT_INVALID'' 422))
           else if name_in_use w tenant (si_name input) then (w, Inl (ApiErr ''DEPLOYMENT_NAME_IN_USE'' 409))
           else
             (let r = svc_resources (the (map_of (services spec) (si_name input))) in
              insert_and_deploy env w
                (new_row ident tenant (si_name input) spec (cpu_request r) (memory_request r)) spec))))"

record compose_input =
  co_name :: "string option"
  co_yaml :: string
  co_env_files :: env_files
  co_pull_credential :: "string option"

text \<open>The preview: \<open>ok\<close> is that of the validator alone.\<close>

definition validate_compose_spec ::
    "deploy_env \<Rightarrow> deploy_settings \<Rightarrow> compose_input \<Rightarrow> caller_role \<Rightarrow> deploy_error + bool \<times> issue list \<times> custom_spec option" where
  "validate_compose_spec env settings input role =
     (if \<not> allow_compose settings then Inl (ApiErr ''COMPOSE_DEPLOYMENTS_DISABLED'' 403)
      else (case parse_compose (yaml_load env) (co_yaml input) (co_env_files input) of
        None \<Rightarrow> Inl (Thrown ''TypeError'')
      | Some (None, issues) \<Rightarrow> Inr (False, issues, None)
      | Some (Some spec, issues) \<Rightarrow>
          (let (ok, semantic) = validate_custom_spec spec (create_ctx settings role False (co_name input)) in
           Inr (ok, issues @ semantic, Some spec))))"

definition create_compose_deployment ::
    "deploy_env \<Rightarrow> deploy_settings \<Rightarrow> deploy_world \<Rightarrow> string \<Rightarrow> string \<Rightarrow> compose_input \<Rightarrow> caller_role \<Rightarrow> deployment_row outcome" where
  "create_compose_deployment env settings w ident tenant input role =
     (if \<not> custom_enabled settings then (w, Inl (ApiErr ''CUSTOM_DEPLOYMENTS_DISABLED'' 403))
      else if \<not> allow_compose settings then (w, Inl (ApiErr ''COMPOSE_DEPLOYMENTS_DISABLED'' 403))
      else if \<not> truthy (co_name input) then (w, Inl (ApiErr ''MISSING_REQUIRED_FIELD'' 400))
      else (let name = the (co_name input) in
        case load_tenant w tenant of
          Inl e \<Rightarrow> (w, Inl e)
        | Inr _ \<Rightarrow>
            (case parse_compose (yaml_load env) (co_yaml input) (co_env_files input) of
               None \<Rightarrow> (w, Inl (Thrown ''TypeError''))
             | Some (None, issues) \<Rightarrow> (w, Inl (ApiErr ''CUSTOM_DEPLOYMENT_INVALID'' 422))
             | Some (Some spec, issues) \<Rightarrow>
                 (if \<not> fst (validate_custom_spec spec (create_ctx settings role False (Some name)))
                  then (w, Inl (ApiErr ''CUSTOM_DEPLOYMENT_INVALID'' 422))
                  else if name_in_use w tenant name then (w, Inl (ApiErr ''DEPLOYMENT_NAME_IN_USE'' 409))
                  else
                    (let totals = sum_resources spec;
                         final = (if truthy (co_pull_credential input)
                                  then spec\<lparr>pull_credential_id := co_pull_credential input\<rparr> else spec) in
                     insert_and_deploy env w (new_row ident tenant name final (fst totals) (snd totals)) final)))))"

section \<open>Update\<close>

record update_input =
  u_image :: "string option"
  u_env :: "custom_env list option"
  u_resources :: "resources_spec option"
  u_ports :: "custom_port list option"
  u_pull_credential :: "string option option"
  u_restart :: bool

text \<open>\<open>{...s.resources, ...patch}\<close>: an absent limit keeps the old one.\<close>

definition merge_resources :: "resources_spec \<Rightarrow> resources_spec \<Rightarrow> resources_spec" where
  "merge_resources old patch =
     \<lparr>cpu_request = cpu_request patch, memory_request = memory_request patch,
      cpu_limit = (case cpu_limit patch of None \<Rightarrow> cpu_limit old | l \<Rightarrow> l),
      memory_limit = (case memory_limit patch of None \<Rightarrow> memory_limit old | l \<Rightarrow> l)\<rparr>"

definition patch_service :: "string \<Rightarrow> update_input \<Rightarrow> custom_spec \<Rightarrow> custom_spec" where
  "patch_service name p spec =
     (let s1 = (case u_image p of None \<Rightarrow> spec | Some img \<Rightarrow> with_service_mutation spec name (svc_image_update (\<lambda>_. img)));
          s2 = (case u_env p of None \<Rightarrow> s1 | Some es \<Rightarrow> with_service_mutation s1 name (svc_env_update (\<lambda>_. es)));
          s3 = (case u_resources p of None \<Rightarrow> s2
                | Some r \<Rightarrow> with_service_mutation s2 name (\<lambda>s. s\<lparr>svc_resources := merge_resources (svc_resources s) r\<rparr>));
          s4 = (case u_ports p of None \<Rightarrow> s3 | Some ps \<Rightarrow> with_service_mutation s3 name (svc_ports_update (\<lambda>_. ps))) in
      case u_pull_credential p of None \<Rightarrow> s4 | Some c \<Rightarrow> s4\<lparr>pull_credential_id := c\<rparr>)"

definition touches_service :: "update_input \<Rightarrow> bool" where
  "touches_service p = (u_image p \<noteq> None \<or> u_env p \<noteq> None \<or> u_resources p \<noteq> None \<or> u_ports p \<noteq> None)"

definition needs_redeploy :: "update_input \<Rightarrow> bool" where
  "needs_redeploy p = (touches_service p \<or> u_pull_credential p \<noteq> None \<or> u_restart p)"

definition update_custom_deployment ::
    "deploy_env \<Rightarrow> deploy_settings \<Rightarrow> deploy_world \<Rightarrow> string \<Rightarrow> string \<Rightarrow> update_input \<Rightarrow> deployment_row outcome" where
  "update_custom_deployment env settings w tenant ident patch =
     (case get_custom_deployment w tenant ident of
        Inl e \<Rightarrow> (w, Inl e)
      | Inr current \<Rightarrow>
          (let spec = the (d_spec current); is_compose = (source_mode spec = ComposeMode) in
           case services spec of
             [] \<Rightarrow> (w, Inl (ApiErr ''CUSTOM_DEPLOYMENT_CORRUPT'' 500))
           | (name, _) # _ \<Rightarrow>
               (if touches_service patch \<and> is_compose then (w, Inl (ApiErr ''NOT_SUPPORTED_FOR_COMPOSE'' 400))
                else if \<not> needs_redeploy patch then (w, Inr current)
                else
                  (let next = patch_service name patch spec in
                   if \<not> fst (validate_custom_spec next (create_ctx settings Admin (\<not> is_compose) (Some (d_name current))))
                   then (w, Inl (ApiErr ''CUSTOM_DEPLOYMENT_INVALID'' 422))
                   else
                     (let res = svc_resources (the (map_of (services next) name));
                          totals = (if is_compose then sum_resources next else (cpu_request res, memory_request res));
                          w1 = update_rows (\<lambda>r. d_id r = ident)
                            (\<lambda>r. r\<lparr>d_spec := Some next, d_cpu := fst totals, d_memory := snd totals,
                                    d_status := ''deploying'', d_message := None, d_error := None\<rparr>) w in
                      case load_tenant w1 tenant of
                        Inl e \<Rightarrow> (w1, Inl e)
                      | Inr _ \<Rightarrow>
                          (case deploy_to_cluster env w1 ident next of
                             (w2, Inl e) \<Rightarrow> (w2, Inl e)
                           | (w2, Inr _) \<Rightarrow> (w2, get_custom_deployment w2 tenant ident)))))))"

definition upgrade_tag ::
    "deploy_env \<Rightarrow> deploy_settings \<Rightarrow> deploy_world \<Rightarrow> string \<Rightarrow> string \<Rightarrow> string \<Rightarrow> deployment_row outcome" where
  "upgrade_tag env settings w tenant ident img =
     update_custom_deployment env settings w tenant ident
       \<lparr>u_image = Some img, u_env = None, u_resources = None, u_ports = None, u_pull_credential = None, u_restart = False\<rparr>"

section \<open>Delete, credentials, the root flag\<close>

definition delete_custom_deployment_row :: "deploy_env \<Rightarrow> deploy_world \<Rightarrow> string \<Rightarrow> string \<Rightarrow> unit outcome" where
  "delete_custom_deployment_row env w tenant ident =
     (case get_custom_deployment w tenant ident of
        Inl e \<Rightarrow> (w, Inl e)
      | Inr current \<Rightarrow>
          (case load_tenant w tenant of
             Inl e \<Rightarrow> (w, Inl e)
           | Inr _ \<Rightarrow>
               (let w1 = update_rows (\<lambda>r. d_id r = ident) (\<lambda>r. r\<lparr>d_status := ''deleting''\<rparr>) w in
                case delete_spec env ident of
                  Some e \<Rightarrow> (mark_failed ident e w1, Inl (Thrown e))
                | None \<Rightarrow>
                    (case drop_secret env ident of
                       Some e \<Rightarrow> (mark_failed ident ''Failed to delete image pull Secret for deployment.'' w1, Inl e)
                     | None \<Rightarrow>
                         (w1\<lparr>d_creds := AList.delete ident (d_creds w1),
                             d_rows := filter (\<lambda>r. d_id r \<noteq> ident) (d_rows w1)\<rparr>, Inr ())))))"

record pat_submission =
  ps_registry :: string
  ps_username :: string
  ps_token :: string

text \<open>\<open>padStart(4, '*')\<close> of a token shorter than four characters, else its last four.\<close>

definition last_four :: "string \<Rightarrow> string" where
  "last_four t = (if length t \<ge> 4 then drop (length t - 4) t else replicate (4 - length t) (CHR ''*'') @ t)"

definition upsert_pull_credential ::
    "deploy_env \<Rightarrow> deploy_world \<Rightarrow> string \<Rightarrow> string \<Rightarrow> pat_submission \<Rightarrow> string \<Rightarrow> credential outcome" where
  "upsert_pull_credential env w fresh ident sub key =
     (if key = [] then (w, Inl (ApiErr ''ENCRYPTION_KEY_MISSING'' 500))
      else
        (let old = map_of (d_creds w) ident;
             c = \<lparr>cr_id = (case old of Some o' \<Rightarrow> cr_id o' | None \<Rightarrow> fresh), cr_registry = ps_registry sub,
                  cr_username = ps_username sub, cr_cipher = encrypt env (ps_token sub) key,
                  cr_last_four = last_four (ps_token sub)\<rparr> in
         (w\<lparr>d_creds := AList.update ident c (d_creds w)\<rparr>, Inr c)))"

definition attach_pull_credential ::
    "deploy_env \<Rightarrow> deploy_settings \<Rightarrow> deploy_world \<Rightarrow> string \<Rightarrow> string \<Rightarrow> string \<Rightarrow> pat_submission \<Rightarrow> string \<Rightarrow> credential outcome" where
  "attach_pull_credential env settings w fresh tenant ident sub key =
     (if \<not> allow_private settings then (w, Inl (ApiErr ''PRIVATE_REGISTRIES_DISABLED'' 403))
      else (case get_custom_deployment w tenant ident of
        Inl e \<Rightarrow> (w, Inl e)
      | Inr _ \<Rightarrow>
          (case upsert_pull_credential env w fresh ident sub key of
             (w1, Inl e) \<Rightarrow> (w1, Inl e)
           | (w1, Inr c) \<Rightarrow>
               (case load_tenant w1 tenant of
                  Inl e \<Rightarrow> (w1, Inl e)
                | Inr _ \<Rightarrow>
                    (case put_secret env ident (ps_token sub) of
                       Some e \<Rightarrow> (w1, Inl e)
                     | None \<Rightarrow> (w1, Inr c))))))"

definition revoke_pull_credential :: "deploy_env \<Rightarrow> deploy_world \<Rightarrow> string \<Rightarrow> string \<Rightarrow> unit outcome" where
  "revoke_pull_credential env w tenant ident =
     (case get_custom_deployment w tenant ident of
        Inl e \<Rightarrow> (w, Inl e)
      | Inr _ \<Rightarrow>
          (case load_tenant w tenant of
             Inl e \<Rightarrow> (w, Inl e)
           | Inr _ \<Rightarrow>
               (case drop_secret env ident of
                  Some e \<Rightarrow> (w, Inl e)
                | None \<Rightarrow> (w\<lparr>d_creds := AList.delete ident (d_creds w)\<rparr>, Inr ()))))"

definition set_allow_root :: "deploy_world \<Rightarrow> string \<Rightarrow> string \<Rightarrow> bool \<Rightarrow> deployment_row outcome" where
  "set_allow_root w tenant ident flag =
     (case get_custom_deployment w tenant ident of
        Inl e \<Rightarrow> (w, Inl e)
      | Inr current \<Rightarrow>
          (let next = (the (d_spec current))\<lparr>allow_root := flag\<rparr>;
               mine = (\<lambda>r. d_id r = ident \<and> d_tenant r = tenant \<and> d_source r = CustomRow);
               w1 = update_rows mine (\<lambda>r. r\<lparr>d_spec := Some next\<rparr>) w in
           case filter mine (d_rows w1) of
             [] \<Rightarrow> (w1, Inl (ApiErr ''CUSTOM_DEPLOYMENT_NOT_FOUND'' 404))
           | r # _ \<Rightarrow> (w1, Inr r)))"

end
