(* ===== verification/ComposeProps.thy ===== *)
theory ComposeProps
  imports ComposeStack SpecValidator
begin

text \<open>
  What the compose parser guarantees of every specification it returns, errors or not, when it
  returns at all, and where its results and the validator's meet.
\<close>

section \<open>Loops\<close>

lemma bind_SomeE: "Option.bind m f = Some y \<Longrightarrow> (\<And>x. m = Some x \<Longrightarrow> f x = Some y \<Longrightarrow> P) \<Longrightarrow> P"
  by (auto simp: bind_eq_Some_conv)

lemma collect_map_fst: "x \<in> set (fst (collect (map f xs))) \<Longrightarrow> \<exists>y \<in> set xs. x \<in> set (fst (f y))"
  by (auto simp: collect_def)

lemma collect_map_snd: "i \<in> set (snd (collect (map f xs))) \<longleftrightarrow> (\<exists>y \<in> set xs. i \<in> set (snd (f y)))"
  by (auto simp: collect_def)

lemma collect_opt_map:
  "collect_opt (map f xs) = Some r \<longleftrightarrow> (\<exists>g. (\<forall>x \<in> set xs. f x = Some (g x)) \<and> r = collect (map g xs))"
proof
  assume "collect_opt (map f xs) = Some r"
  then obtain ys where ys: "seq_opt (map f xs) = Some ys" "r = collect ys"
    by (auto simp: collect_opt_def)
  have "seq_opt (map f zs) = Some ws \<Longrightarrow> (\<forall>x \<in> set zs. f x = Some ((the \<circ> f) x)) \<and> ws = map (the \<circ> f) zs" for zs ws
    by (induction zs arbitrary: ws) (auto split: option.splits)
  from this [OF ys(1)] show "\<exists>g. (\<forall>x \<in> set xs. f x = Some (g x)) \<and> r = collect (map g xs)"
    using ys(2) by blast
next
  assume "\<exists>g. (\<forall>x \<in> set xs. f x = Some (g x)) \<and> r = collect (map g xs)"
  then obtain g where g: "\<forall>x \<in> set xs. f x = Some (g x)" "r = collect (map g xs)" by blast
  have "(\<forall>x \<in> set zs. f x = Some (g x)) \<Longrightarrow> seq_opt (map f zs) = Some (map g zs)" for zs
    by (induction zs) simp_all
  with g show "collect_opt (map f xs) = Some r" by (simp add: collect_opt_def)
qed

lemma collect_opt_fst:
  "collect_opt (map f xs) = Some (ys, is) \<Longrightarrow> y \<in> set ys \<Longrightarrow> \<exists>x \<in> set xs. \<exists>zs js. f x = Some (zs, js) \<and> y \<in> set zs"
  unfolding collect_opt_map
  by (auto simp: collect_def) (metis prod.collapse)

lemma collect_opt_snd:
  "collect_opt (map f xs) = Some (ys, is) \<Longrightarrow> x \<in> set xs \<Longrightarrow> f x = Some (zs, js) \<Longrightarrow> set js \<subseteq> set is"
  unfolding collect_opt_map by (auto simp: collect_def) force

section \<open>Mounts and volumes\<close>

text \<open>A volume mount names a volume by the platform's rule, so never a path of the host.\<close>

definition mount_ok :: "volume_mount \<Rightarrow> bool" where
  "mount_ok vm = (vm_kind vm = Some MVolume \<longrightarrow> rx_test VOLUME_NAME_RE (vm_name vm))"

lemma volume_entry_ok: "volume_entry path ie = Some (vms, is) \<Longrightarrow> vm \<in> set vms \<Longrightarrow> mount_ok vm"
  by (auto simp: volume_entry_def mount_ok_def Let_def split: jv.splits if_splits option.splits Option.bind_splits)

lemma parse_volume_mounts_ok: "parse_volume_mounts raw path = Some (vms, is) \<Longrightarrow> vm \<in> set vms \<Longrightarrow> mount_ok vm"
  unfolding parse_volume_mounts_def
  by (auto split: option.splits jv.splits dest!: collect_opt_fst dest: volume_entry_ok)

lemma file_mount_entry_ok:
  "vm \<in> set (fst (file_mount_entry path kind ie)) \<Longrightarrow> vm_kind vm = Some kind \<and> vm_read_only vm \<and> container_path vm \<noteq> []"
  by (auto simp: file_mount_entry_def Let_def truthy_def split: jv.splits if_splits option.splits)

lemma parse_service_file_mounts_ok:
  "vm \<in> set (fst (parse_service_file_mounts raw path kind)) \<Longrightarrow> vm_kind vm = Some kind \<and> vm_read_only vm"
  unfolding parse_service_file_mounts_def
  by (auto split: option.splits jv.splits dest!: collect_map_fst dest: file_mount_entry_ok)

lemma obj_has_mono: "set m \<subseteq> set m' \<Longrightarrow> obj_has k m \<Longrightarrow> obj_has k m'"
  by (auto simp: obj_has_def)

lemma auto_declare_spec:
  "auto_declare vols uses = (vols', is) \<Longrightarrow>
     (\<forall>u \<in> set uses. obj_has (snd u) vols') \<and> set vols \<subseteq> set vols'
     \<and> (\<forall>v \<in> set vols'. v \<in> set vols \<or> (v = (fst v, None) \<and> fst v \<in> snd ` set uses))"
proof (induction vols uses arbitrary: vols' "is" rule: auto_declare.induct)
  case (2 vols svc_name vol uses)
  show ?case
  proof (cases "obj_has vol vols")
    case True
    with 2(3) have "auto_declare vols uses = (vols', is)" by simp
    note ih = 2(1) [OF True this]
    then have "obj_has vol vols'" using obj_has_mono [OF _ True] by blast
    with ih show ?thesis by auto
  next
    case False
    obtain v i where a: "auto_declare (vols @ [(vol, None)]) uses = (v, i)" by fastforce
    from 2(3) False a have v: "vols' = v" by (simp add: Let_def)
    from 2(2) [OF False a] have ih:
      "\<forall>u \<in> set uses. obj_has (snd u) v" "set (vols @ [(vol, None)]) \<subseteq> set v"
      "\<forall>w \<in> set v. w \<in> set (vols @ [(vol, None)]) \<or> (w = (fst w, None) \<and> fst w \<in> snd ` set uses)"
      by blast+
    have "obj_has vol v" using ih(2) by (auto simp: obj_has_def intro: rev_image_eqI)
    with ih show ?thesis unfolding v by auto
  qed
qed simp

lemma auto_declare_distinct:
  "auto_declare vols uses = (vols', is) \<Longrightarrow> distinct (map fst vols) \<Longrightarrow> distinct (map fst vols')"
proof (induction vols uses arbitrary: vols' "is" rule: auto_declare.induct)
  case (2 vols svc_name vol uses)
  then show ?case by (auto simp: obj_has_def Let_def split: if_splits prod.splits)
qed simp

section \<open>Services\<close>

lemma cap_loop_allowed: "set (fst (cap_loop path xs)) \<subseteq> set ALLOWED_CAP_ADD"
  by (induction path xs rule: cap_loop.induct) (auto split: jv.splits prod.splits)

lemma sysctl_loop_allowed:
  "fst ` set out \<subseteq> set ALLOWED_SYSCTLS \<Longrightarrow> fst ` set (fst (sysctl_loop path out es)) \<subseteq> set ALLOWED_SYSCTLS"
  by (induction path out es rule: sysctl_loop.induct) (auto simp: keys_obj_set)

lemma sysctl_loop_nil: "sysctl_loop path [] es = (s, is) \<Longrightarrow> fst ` set s \<subseteq> set ALLOWED_SYSCTLS"
  using sysctl_loop_allowed [of "[]" path es] by simp

lemma parse_sysctls_allowed: "parse_sysctls raw path = Some (s, is) \<Longrightarrow> fst ` set s \<subseteq> set ALLOWED_SYSCTLS"
  unfolding parse_sysctls_def
  by (auto split: option.splits jv.splits simp del: sysctl_loop.simps dest!: sysctl_loop_nil)

lemma parse_user_range:
  "parse_user raw path = Some ((uid, gid), is) \<Longrightarrow>
     (\<forall>u. uid = Some u \<longrightarrow> 0 \<le> u \<and> u \<le> 65535) \<and> (\<forall>g. gid = Some g \<longrightarrow> 0 \<le> g \<and> g \<le> 65535)"
  by (auto simp: parse_user_def id_in_range_def Let_def split: option.splits if_splits Option.bind_splits)

lemma tmpfs_entry_ok: "t \<in> set (fst (tmpfs_entry path e)) \<Longrightarrow> starts_with (tmpfs_path t) ''/'' \<and> size_mi t \<le> 256"
  by (auto simp: tmpfs_entry_def Let_def split: jv.splits if_splits)

lemma tmpfs_ok:
  "t \<in> set (fst (parse_tmpfs raw path)) \<Longrightarrow> starts_with (tmpfs_path t) ''/'' \<and> size_mi t \<le> 256"
  unfolding parse_tmpfs_def
  by (auto split: option.splits jv.splits dest!: collect_map_fst simp del: list.map dest: tmpfs_entry_ok)

section \<open>Health checks\<close>

text \<open>What the kubelet requires of a probe.\<close>

definition health_ok :: "health_check \<Rightarrow> bool" where
  "health_ok h =
     ((\<exists>cmd. hc_probe h = Exec cmd \<and> cmd \<noteq> [])
      \<and> (\<exists>q \<ge> 1. period_seconds h = JNum q) \<and> (\<exists>q \<ge> 1. timeout_seconds h = JNum q)
      \<and> (\<exists>q \<ge> 0. initial_delay_seconds h = JNum q)
      \<and> (\<exists>q. 1 \<le> q \<and> q \<le> 20 \<and> failure_threshold h = JNum q))"

lemma resolve_duration_ok:
  "resolve_duration raw path (JNum l) (JNum d) = (Some n, is) \<Longrightarrow> l \<le> d \<Longrightarrow> \<exists>q \<ge> l. n = JNum q"
  by (cases n) (auto simp: resolve_duration_def split: option.splits if_splits)

lemma parse_retries_ok: "\<exists>q. 1 \<le> q \<and> q \<le> 20 \<and> parse_retries raw = JNum q"
  by (auto simp: parse_retries_def le_floor_iff split: option.splits jv.splits js_num.splits)

lemma health_of_command_ok:
  assumes "health_of_command raw path cmd = (Some h, is)"
  shows "health_ok h"
proof -
  obtain iv i1 tmo i2 sp i3 where
    r: "resolve_duration (field ''interval'' raw) (path @ ''.interval'') (JNum 1) (JNum 10) = (iv, i1)"
    "resolve_duration (field ''timeout'' raw) (path @ ''.timeout'') (JNum 1) (JNum 1) = (tmo, i2)"
    "resolve_duration (field ''start_period'' raw) (path @ ''.start_period'') (JNum 0) (JNum 0) = (sp, i3)"
    by (meson surj_pair)
  have h: "cmd \<noteq> []" "iv = Some (period_seconds h)" "tmo = Some (timeout_seconds h)"
    "sp = Some (initial_delay_seconds h)" "hc_probe h = Exec cmd" "failure_threshold h = parse_retries (field ''retries'' raw)"
    using assms unfolding health_of_command_def r by (auto split: if_splits option.splits)
  then show ?thesis
    using r resolve_duration_ok [of _ _ 1 10] resolve_duration_ok [of _ _ 1 1] resolve_duration_ok [of _ _ 0 0]
      parse_retries_ok [of "field ''retries'' raw"]
    unfolding health_ok_def by fastforce
qed

lemma parse_healthcheck_ok: "parse_healthcheck raw path = Some (Some h, is) \<Longrightarrow> health_ok h"
  unfolding parse_healthcheck_def
  by (auto split: option.splits jv.splits if_splits Option.bind_splits test_result.splits dest: health_of_command_ok)

section \<open>The specification the parser builds\<close>

definition service_wf :: "custom_service \<Rightarrow> bool" where
  "service_wf svc =
     (svc_image svc \<noteq> [] \<and> set (cap_add svc) \<subseteq> set ALLOWED_CAP_ADD
      \<and> (\<forall>m. svc_sysctls svc = Some m \<longrightarrow> fst ` set m \<subseteq> set ALLOWED_SYSCTLS)
      \<and> (\<forall>u. run_as_user svc = Some u \<longrightarrow> 0 \<le> u \<and> u \<le> 65535)
      \<and> (\<forall>g. run_as_group svc = Some g \<longrightarrow> 0 \<le> g \<and> g \<le> 65535)
      \<and> (\<forall>vm \<in> set (volume_mounts svc). mount_ok vm)
      \<and> (\<forall>t \<in> set (svc_tmpfs svc). starts_with (tmpfs_path t) ''/'' \<and> size_mi t \<le> 256)
      \<and> svc_resources svc = default_resources
      \<and> (\<forall>h. svc_health svc = Some h \<longrightarrow> health_ok h))"

lemma parse_service_body_wf:
  assumes "parse_service_body path raw files img caps sysctls = Some (svc, is)"
    and "img \<noteq> []" and "set caps \<subseteq> set ALLOWED_CAP_ADD" and "fst ` set sysctls \<subseteq> set ALLOWED_SYSCTLS"
  shows "service_wf svc"
proof -
  have t: "x \<in> set (fst (parse_tmpfs (field ''tmpfs'' raw) p)) \<Longrightarrow> starts_with (tmpfs_path x) ''/'' \<and> size_mi x \<le> 256" for x p
    by (rule tmpfs_ok)
  have f: "x \<in> set (fst (parse_service_file_mounts r p k)) \<Longrightarrow> k \<noteq> MVolume \<Longrightarrow> mount_ok x" for x r p k
    using parse_service_file_mounts_ok [of x r p k] by (auto simp: mount_ok_def)
  from assms(1) obtain uid gid mounts cfg sec tmpfs health i5 i6 i9 i10 i13 i14 where
    "parse_user (field ''user'' raw) path = Some ((uid, gid), i9)"
    "parse_volume_mounts (field ''volumes'' raw) (path @ ''.volumes'') = Some (mounts, i5)"
    "parse_healthcheck (field ''healthcheck'' raw) (path @ ''.healthcheck'') = Some (health, i6)"
    "parse_tmpfs (field ''tmpfs'' raw) (path @ ''.tmpfs'') = (tmpfs, i10)"
    "parse_service_file_mounts (field ''configs'' raw) (path @ ''.configs'') MConfigMap = (cfg, i13)"
    "parse_service_file_mounts (field ''secrets'' raw) (path @ ''.secrets'') MSecret = (sec, i14)"
    "svc_image svc = img" "cap_add svc = caps" "svc_sysctls svc = (if sysctls \<noteq> [] then Some sysctls else None)"
    "run_as_user svc = uid" "run_as_group svc = gid" "volume_mounts svc = mounts @ cfg @ sec"
    "svc_tmpfs svc = tmpfs" "svc_resources svc = default_resources" "svc_health svc = health"
    unfolding parse_service_body_def Let_def
    by (elim bind_SomeE) (clarsimp split: prod.split_asm elim!: bind_SomeE)
  with assms(2-4) show ?thesis
    using parse_user_range [of "field ''user'' raw" path uid gid i9]
      parse_volume_mounts_ok [of "field ''volumes'' raw"] t [of _ "path @ ''.tmpfs''"]
      f [of _ "field ''configs'' raw" "path @ ''.configs''" MConfigMap]
      f [of _ "field ''secrets'' raw" "path @ ''.secrets''" MSecret]
      parse_healthcheck_ok [of "field ''healthcheck'' raw"]
    unfolding service_wf_def by auto
qed

lemma parse_cap_add_allowed: "parse_cap_add raw path = (caps, is) \<Longrightarrow> set caps \<subseteq> set ALLOWED_CAP_ADD"
  by (auto simp: parse_cap_add_def split: option.splits jv.splits) (metis cap_loop_allowed fst_conv subset_iff)

lemma parse_service_SomeD:
  assumes "parse_service name raw files = Some (Some svc, is)"
  obtains r img caps ic sysctls ks ib where
    "raw = JObj r" "field ''image'' r = Some (JStr img)" "img \<noteq> []"
    "parse_cap_add (field ''cap_add'' r) (''services.'' @ name) = (caps, ic)"
    "parse_sysctls (field ''sysctls'' r) (''services.'' @ name) = Some (sysctls, ks)"
    "parse_service_body (''services.'' @ name) r files img caps sysctls = Some (svc, ib)"
    "is = reject_fields r (''services.'' @ name) @ ic @ ks @ ib"
  using assms unfolding parse_service_def Let_def
  by (auto split: jv.splits prod.splits option.splits if_splits elim!: bind_SomeE)

lemma parse_service_wf: "parse_service name raw files = Some (Some svc, is) \<Longrightarrow> service_wf svc"
  by (elim parse_service_SomeD) (metis parse_cap_add_allowed parse_sysctls_allowed parse_service_body_wf)

text \<open>What holds of a whole specification.\<close>

definition compose_spec_wf :: "custom_spec \<Rightarrow> bool" where
  "compose_spec_wf spec =
     (spec_version spec = 1 \<and> source_mode spec = ComposeMode \<and> \<not> allow_root spec \<and> pull_credential_id spec = None
      \<and> 1 \<le> length (services spec) \<and> length (services spec) \<le> 10
      \<and> (\<forall>ns \<in> set (services spec). rx_test CUSTOM_NAME_RE (fst ns) \<and> service_wf (snd ns)
           \<and> (\<forall>vm \<in> set (volume_mounts (snd ns)). obj_has (vm_name vm) (spec_volumes spec))))"

lemma service_entry_SomeD:
  "service_entry files nr = Some (svs, is) \<Longrightarrow> ns \<in> set svs \<Longrightarrow>
     svs = [ns] \<and> fst ns = fst nr \<and> rx_test CUSTOM_NAME_RE (fst ns) \<and> parse_service (fst nr) (snd nr) files = Some (Some (snd ns), is)"
  by (auto simp: service_entry_def split: if_splits option.splits)

lemma length_collect: "(\<And>x. x \<in> set xs \<Longrightarrow> length (fst (g x)) \<le> 1) \<Longrightarrow> length (fst (collect (map g xs))) \<le> length xs"
proof (induction xs)
  case (Cons x xs)
  then have "length (fst (g x)) \<le> 1" "length (fst (collect (map g xs))) \<le> length xs" by auto
  then show ?case by (simp add: collect_def)
qed (simp add: collect_def)

lemma service_entry_length: "service_entry files nr = Some r \<Longrightarrow> length (fst r) \<le> 1"
  by (auto simp: service_entry_def split: if_splits option.splits)

lemma parse_services_SomeD:
  assumes "parse_services doc svs files = Some (Some spec, is)"
  obtains vols i1 cfgs i2 secs i3 psvs i4 vols' i5 where
    "parse_volumes (field ''volumes'' doc) = (vols, i1)"
    "extract_inline_files (field ''configs'' doc) ''configs'' ''CONFIGMAP'' files 420 = Some (cfgs, i2)"
    "extract_inline_files (field ''secrets'' doc) ''secrets'' ''SECRET'' files 256 = Some (secs, i3)"
    "collect_opt (map (service_entry files) svs) = Some (psvs, i4)" "psvs \<noteq> []"
    "auto_declare vols (mount_uses psvs) = (vols', i5)"
    "spec = \<lparr>spec_version = CUSTOM_SPEC_VERSION, source_mode = ComposeMode, services = psvs,
             spec_volumes = vols', config_maps = cfgs, spec_secrets = secs, allow_root = False, pull_credential_id = None\<rparr>"
    "is = i1 @ i2 @ i3 @ i4 @ i5"
  using assms unfolding parse_services_def Let_def
  by (auto split: prod.splits if_splits elim!: bind_SomeE)

lemma parse_services_wf:
  assumes "parse_services doc svs files = Some (Some spec, is)" and "length svs \<le> 10"
  shows "compose_spec_wf spec"
proof -
  from assms(1) obtain psvs i4 vols i5 where
    p: "collect_opt (map (service_entry files) svs) = Some (psvs, i4)" "psvs \<noteq> []"
    "auto_declare vols (mount_uses psvs) = (spec_volumes spec, i5)" "services spec = psvs"
    and rest: "spec_version spec = 1" "source_mode spec = ComposeMode" "\<not> allow_root spec" "pull_credential_id spec = None"
    by (elim parse_services_SomeD) (auto simp: CUSTOM_SPEC_VERSION_def)
  have "length psvs \<le> length svs"
    using p(1) length_collect [of svs] service_entry_length unfolding collect_opt_map by (metis fst_conv)
  moreover have "rx_test CUSTOM_NAME_RE (fst ns) \<and> service_wf (snd ns)" if "ns \<in> set psvs" for ns
    using collect_opt_fst [OF p(1) that] service_entry_SomeD parse_service_wf by blast
  moreover have "obj_has (vm_name vm) (spec_volumes spec)" if "ns \<in> set psvs" "vm \<in> set (volume_mounts (snd ns))" for ns vm
  proof -
    have "(fst ns, vm_name vm) \<in> set (mount_uses psvs)" using that by (force simp: mount_uses_def)
    with auto_declare_spec [OF p(3)] show ?thesis by fastforce
  qed
  ultimately show ?thesis using rest p(2,4) assms(2) by (auto simp: compose_spec_wf_def Suc_le_eq)
qed

lemma parse_document_SomeD:
  assumes "parse_document doc files = Some (Some spec, is)"
  obtains d svs js where "doc = JObj d" "field ''services'' d = Some (JObj svs)" "1 \<le> length svs" "length svs \<le> 10"
    "object_depth doc 0 \<le> 16" "parse_services d svs files = Some (Some spec, js)" "is = top_level_issues d @ js"
  using assms unfolding parse_document_def Let_def
  by (auto simp: MAX_SERVICES_def MAX_YAML_DEPTH_def Suc_le_eq split: jv.splits if_splits option.splits)

lemma parse_compose_SomeD:
  assumes "parse_compose yl y files = Some (Some spec, is)"
  obtains doc where "yl y = Some doc" "parse_document doc files = Some (Some spec, is)"
  using assms by (auto simp: parse_compose_def split: option.splits)

end
