(* ===== verification/ComposeTotal.thy ===== *)
theory ComposeTotal
  imports ComposeProps
begin

text \<open>
  When the compose parser returns: the depth guard measures the nesting depth, and a document
  without the two kinds of names that raise a \<open>TypeError\<close> never makes it throw.
\<close>

section \<open>Depth\<close>

lemma max_list_shift: "c \<le> b \<Longrightarrow> c + max_list 0 xs \<le> b \<longleftrightarrow> (\<forall>x \<in> set xs. c + x \<le> b)"
  using max_list_le [of 0 xs "b - c"] by (auto simp: le_diff_conv2 add.commute)

lemma object_depth_le:
  "b \<le> object_depth_limit \<Longrightarrow> object_depth v c \<le> b \<longleftrightarrow> c + jv_depth v \<le> b"
proof (induction v c rule: object_depth.induct)
  case (1 xs c)
  show ?case
  proof (cases "c > object_depth_limit")
    case True
    with 1(2) show ?thesis by (simp del: jv_depth.simps)
  next
    case False
    have "object_depth (JArr xs) c \<le> b \<longleftrightarrow> c \<le> b \<and> (\<forall>x \<in> set xs. c + 1 + jv_depth x \<le> b)"
      using False 1 by (auto simp: max_list_le)
    also have "\<dots> \<longleftrightarrow> c + jv_depth (JArr xs) \<le> b"
      by (cases "c \<le> b") (auto simp: max_list_shift)
    finally show ?thesis .
  qed
next
  case (2 m c)
  show ?case
  proof (cases "c > object_depth_limit")
    case True
    with 2(2) show ?thesis by (simp del: jv_depth.simps)
  next
    case False
    have "object_depth (JObj m) c \<le> b \<longleftrightarrow> c \<le> b \<and> (\<forall>x \<in> set m. c + 1 + jv_depth (snd x) \<le> b)"
      using False 2 by (auto simp: max_list_le)
    also have "\<dots> \<longleftrightarrow> c + jv_depth (JObj m) \<le> b"
      by (cases "c \<le> b") (auto simp: max_list_shift)
    finally show ?thesis .
  qed
qed simp_all

section \<open>Exceptions\<close>

text \<open>The strings inside a value.\<close>

fun jv_strings :: "jv \<Rightarrow> string list" where
  "jv_strings (JStr s) = [s]"
| "jv_strings (JArr xs) = concat (map jv_strings xs)"
| "jv_strings (JObj m) = concat (map (\<lambda>kv. jv_strings (snd kv)) m)"
| "jv_strings _ = []"

text \<open>A document no exception can come from: no key \<open>toString\<close>, and no string that names a member of
  \<open>Object.prototype\<close> (or no file map to look it up in).\<close>

definition tame :: "env_files \<Rightarrow> jv \<Rightarrow> bool" where
  "tame files v = (printable v \<and> (files = None \<or> (\<forall>s \<in> set (jv_strings v). s \<notin> set object_proto)))"

lemma tame_field: "tame files (JObj m) \<Longrightarrow> field k m = Some v \<Longrightarrow> tame files v"
  by (auto simp: tame_def field_def dest!: map_of_SomeD)

lemma tame_elem: "tame files (JArr xs) \<Longrightarrow> x \<in> set xs \<Longrightarrow> tame files x"
  by (auto simp: tame_def)

lemma tame_entry: "tame files (JObj m) \<Longrightarrow> kv \<in> set m \<Longrightarrow> tame files (snd kv)"
  by (auto simp: tame_def)

lemma tame_string_of: "tame files v \<Longrightarrow> string_of v \<noteq> None"
  by (simp add: tame_def string_of_printable)

lemma tame_lookup: "tame files (JStr f) \<Longrightarrow> file_lookup files f \<noteq> Inherited"
  by (auto simp: tame_def file_lookup_def obj_get_simps split: option.splits)

lemma collect_opt_total: "(\<And>x. x \<in> set xs \<Longrightarrow> f x \<noteq> None) \<Longrightarrow> collect_opt (map f xs) \<noteq> None"
  by (auto simp: collect_opt_def) (metis option.distinct(1))

lemma seq_opt_total: "(\<And>x. x \<in> set xs \<Longrightarrow> f x \<noteq> None) \<Longrightarrow> seq_opt (map f xs) \<noteq> None"
  by auto (metis option.distinct(1))

section \<open>Parsers that do not throw on a tame value\<close>

lemma bind_not_None:
  fixes m :: "('a \<times> 'b) option"
  shows "m \<noteq> None \<Longrightarrow> (\<And>a b. f (a, b) \<noteq> None) \<Longrightarrow> Option.bind m f \<noteq> None"
  by (cases m) auto

lemma tame_strings: "tame files (JArr xs) \<Longrightarrow> seq_opt (map string_of xs) \<noteq> None"
  by (rule seq_opt_total) (metis tame_elem tame_string_of)

lemma tame_pair: "tame files (JObj m) \<Longrightarrow> (k, v) \<in> set m \<Longrightarrow> \<exists>s. string_of v = Some s"
  using tame_entry [of files m "(k, v)"] tame_string_of [of files v] by auto

lemma tame_pairs:
  "tame files (JObj m) \<Longrightarrow> seq_opt (map (\<lambda>(k, v). map_option (f k) (string_of v)) m) \<noteq> None"
  by (rule seq_opt_total) (auto dest: tame_pair)

lemma string_array_total: "(\<And>v. raw = Some v \<Longrightarrow> tame files v) \<Longrightarrow> parse_string_array raw path \<noteq> None"
  using tame_strings [of files] by (auto simp: parse_string_array_def simp del: seq_opt_eq_None split: option.splits jv.splits)

lemma environment_total: "tame files v \<Longrightarrow> parse_environment v path \<noteq> None"
proof (cases v)
  case (JObj m)
  assume t: "tame files v"
  have "seq_opt (map (\<lambda>(k, v). map_option (literal_env k) (if v = JNull then Some [] else string_of v)) m) \<noteq> None"
    by (rule seq_opt_total) (use t JObj in \<open>auto dest: tame_pair\<close>)
  then show ?thesis by (simp add: parse_environment_def JObj del: seq_opt_eq_None)
qed (simp_all add: parse_environment_def)

lemma env_files_total: "tame files v \<Longrightarrow> parse_env_files v files path \<noteq> None"
proof -
  assume t: "tame files v"
  have e: "tame files x \<Longrightarrow> env_file_entry files path x \<noteq> None" for x
    using tame_lookup [of files] by (auto simp: env_file_entry_def split: jv.splits lookup.splits)
  have "x \<in> set xs \<Longrightarrow> env_file_entry files path x \<noteq> None" if "v = JArr xs" for x xs
    using t that tame_elem e by blast
  then have "v = JArr xs \<Longrightarrow> collect_opt (map (env_file_entry files path) xs) \<noteq> None" for xs
    by (rule collect_opt_total)
  moreover have "collect_opt (map (env_file_entry files path) [v]) \<noteq> None"
    by (rule collect_opt_total) (use t e in simp)
  ultimately show ?thesis by (auto simp: parse_env_files_def simp del: list.map split: jv.splits)
qed

lemma env_blocks_total: "tame files (JObj raw) \<Longrightarrow> parse_env_blocks raw files path \<noteq> None"
proof -
  assume t: "tame files (JObj raw)"
  have "(case field ''environment'' raw of None \<Rightarrow> Some ([], []) | Some v \<Rightarrow> parse_environment v p) \<noteq> None" for p
    using tame_field [OF t] environment_total [of files] by (cases "field ''environment'' raw") simp_all
  moreover have "(case field ''env_file'' raw of None \<Rightarrow> Some ([], []) | Some v \<Rightarrow> parse_env_files v files p) \<noteq> None" for p
    using tame_field [OF t] env_files_total [of files] by (cases "field ''env_file'' raw") simp_all
  ultimately show ?thesis unfolding parse_env_blocks_def
    by (intro bind_not_None) (simp_all add: bind_not_None)
qed

lemma enumerate_snd: "ie \<in> set (List.enumerate n xs) \<Longrightarrow> snd ie \<in> set xs"
  by (cases ie) (auto simp: enumerate_eq_zip dest: set_zip_rightD)

lemma volume_mounts_total: "(\<And>v. raw = Some v \<Longrightarrow> tame files v) \<Longrightarrow> parse_volume_mounts raw path \<noteq> None"
proof -
  assume t: "\<And>v. raw = Some v \<Longrightarrow> tame files v"
  have e: "volume_entry path ie \<noteq> None" if "tame files (snd ie)" for ie
  proof (cases "snd ie")
    case (JObj e)
    then have "tame files v" if "field ''type'' e = Some v" for v
      using tame_field that \<open>tame files (snd ie)\<close> by simp
    then have "(case field ''type'' e of None \<Rightarrow> Some ''volume'' | Some JNull \<Rightarrow> Some ''volume'' | Some v \<Rightarrow> string_of v) \<noteq> None"
      using tame_string_of [of files] by (auto simp del: string_of.simps split: option.split jv.split)
    then obtain t where "(case field ''type'' e of None \<Rightarrow> Some ''volume'' | Some JNull \<Rightarrow> Some ''volume'' | Some v \<Rightarrow> string_of v) = Some t"
      by blast
    then show ?thesis unfolding volume_entry_def Let_def JObj jv.case by (auto split: option.split jv.split)
  qed (simp_all add: volume_entry_def Let_def)
  have "volume_entry path x \<noteq> None" if "x \<in> set (List.enumerate 0 xs)" "raw = Some (JArr xs)" for x xs
    using e [of x] tame_elem [OF t [OF that(2)]] enumerate_snd [OF that(1)] by blast
  then have "raw = Some (JArr xs) \<Longrightarrow> collect_opt (map (volume_entry path) (List.enumerate 0 xs)) \<noteq> None" for xs
    by (rule collect_opt_total)
  then show ?thesis by (auto simp: parse_volume_mounts_def split: option.splits jv.splits)
qed

lemma healthcheck_total: "(\<And>v. raw = Some v \<Longrightarrow> tame files v) \<Longrightarrow> parse_healthcheck raw path \<noteq> None"
proof -
  assume t: "\<And>v. raw = Some v \<Longrightarrow> tame files v"
  have p: "parse_test test \<noteq> None" if a: "\<And>v. test = Some v \<Longrightarrow> tame files v" for test
  proof (cases "\<exists>x xs. test = Some (JArr (x # xs))")
    case True
    then obtain x xs where x: "test = Some (JArr (x # xs))" by blast
    then have "tame files x" "\<forall>y \<in> set xs. tame files y" using a tame_elem by (metis list.set_intros)+
    moreover then have "seq_opt (map string_of xs) \<noteq> None" by (intro seq_opt_total) (metis tame_string_of)
    moreover have "(case xs of [] \<Rightarrow> Some [] | JNull # _ \<Rightarrow> Some [] | v # _ \<Rightarrow> string_of v) \<noteq> None"
      using \<open>\<forall>y \<in> set xs. tame files y\<close> tame_string_of [of files]
      by (cases xs) (auto simp del: string_of.simps split: jv.split)
    moreover obtain s where "string_of x = Some s" using \<open>tame files x\<close> tame_string_of by blast
    ultimately show ?thesis unfolding x parse_test_def by (auto simp del: seq_opt_eq_None string_of.simps)
  next
    case False
    then show ?thesis by (auto simp: parse_test_def split: option.split jv.split list.split)
  qed
  have "parse_test (field ''test'' h) \<noteq> None" if "raw = Some (JObj h)" for h
    using p t [OF that] tame_field by blast
  then show ?thesis by (auto simp: parse_healthcheck_def split: option.splits jv.splits test_result.splits)
qed

lemma depends_on_total: "(\<And>v. raw = Some v \<Longrightarrow> tame files v) \<Longrightarrow> parse_depends_on raw path \<noteq> None"
  using tame_strings [of files] by (auto simp: parse_depends_on_def simp del: seq_opt_eq_None split: option.splits jv.splits)

lemma restart_total: "(\<And>v. raw = Some v \<Longrightarrow> tame files v) \<Longrightarrow> parse_restart raw path \<noteq> None"
proof (cases raw)
  case (Some v)
  assume "\<And>v. raw = Some v \<Longrightarrow> tame files v"
  then obtain s where "string_of v = Some s" using Some tame_string_of by blast
  then show ?thesis by (cases "obj_get s RESTART_MAP") (simp_all add: parse_restart_def Some)
qed (simp add: parse_restart_def)

lemma user_total: "(\<And>v. raw = Some v \<Longrightarrow> tame files v) \<Longrightarrow> parse_user raw path \<noteq> None"
proof (cases raw)
  case (Some v)
  assume "\<And>v. raw = Some v \<Longrightarrow> tame files v"
  then obtain s where "string_of v = Some s" using Some tame_string_of by blast
  then show ?thesis by (simp add: parse_user_def Some Let_def)
qed (simp add: parse_user_def)

lemma sysctls_total: "(\<And>v. raw = Some v \<Longrightarrow> tame files v) \<Longrightarrow> parse_sysctls raw path \<noteq> None"
proof (cases "\<exists>m. raw = Some (JObj m)")
  case True
  assume "\<And>v. raw = Some v \<Longrightarrow> tame files v"
  with True obtain m where m: "raw = Some (JObj m)" "tame files (JObj m)" by blast
  then obtain z where "seq_opt (map (\<lambda>(k, v). map_option (Pair k) (string_of v)) m) = Some z"
    using tame_pairs [of files m Pair] by (auto simp del: seq_opt_eq_None)
  with m(1) show ?thesis by (simp add: parse_sysctls_def)
qed (auto simp: parse_sysctls_def split: option.split jv.split)

lemma labels_total: "tame files (JObj raw) \<Longrightarrow> parse_labels_field raw path \<noteq> None"
proof -
  assume t: "tame files (JObj raw)"
  have "tame files v \<Longrightarrow> parse_labels v p \<noteq> None" for v p
    using tame_pairs [of files] by (auto simp: parse_labels_def simp del: seq_opt_eq_None split: jv.splits)
  then show ?thesis using tame_field [OF t] by (auto simp: parse_labels_field_def split: option.split)
qed

lemma service_body_total:
  assumes "tame files (JObj raw)"
  shows "parse_service_body path raw files img caps sysctls \<noteq> None"
proof -
  note t = tame_field [OF assms]
  note parts = string_array_total [OF t] volume_mounts_total [OF t] healthcheck_total [OF t] depends_on_total [OF t]
    restart_total [OF t] user_total [OF t] env_blocks_total [OF assms] labels_total [OF assms]
  show ?thesis
    unfolding parse_service_body_def Let_def case_prod_beta
    by (intro bind_not_None parts) simp_all
qed

lemma service_total: "tame files raw \<Longrightarrow> parse_service name raw files \<noteq> None"
proof (cases raw)
  case (JObj r)
  assume "tame files raw"
  then have t: "tame files (JObj r)" using JObj by simp
  show ?thesis
    using sysctls_total [OF tame_field [OF t]] service_body_total [OF t]
    unfolding parse_service_def Let_def JObj jv.case case_prod_beta
    by (intro bind_not_None) (auto split: option.split jv.split)
qed (simp_all add: parse_service_def)

lemma service_entry_total: "tame files (snd nr) \<Longrightarrow> service_entry files nr \<noteq> None"
  using service_total [of files "snd nr" "fst nr"]
  by (cases "parse_service (fst nr) (snd nr) files") (auto simp: service_entry_def)

lemma inline_file_total: "tame files (snd nd) \<Longrightarrow> inline_file_entry top_key pre files mode nd \<noteq> None"
proof (cases "snd nd")
  case (JObj d)
  assume "tame files (snd nd)"
  then have "tame files (JObj d)" using JObj by simp
  then have "field ''file'' d = Some (JStr g) \<Longrightarrow> file_lookup files g \<noteq> Inherited" for g
    by (metis tame_field tame_lookup)
  then show ?thesis
    by (auto simp: inline_file_entry_def Let_def JObj split: option.split jv.split lookup.split)
qed (simp_all add: inline_file_entry_def Let_def)

lemma inline_files_total: "(\<And>v. raw = Some v \<Longrightarrow> tame files v) \<Longrightarrow> extract_inline_files raw top_key pre files mode \<noteq> None"
proof (cases "\<exists>m. raw = Some (JObj m)")
  case True
  assume "\<And>v. raw = Some v \<Longrightarrow> tame files v"
  with True obtain m where m: "raw = Some (JObj m)" "tame files (JObj m)" by blast
  have "collect_opt (map (inline_file_entry top_key pre files mode) m) \<noteq> None"
    by (rule collect_opt_total) (rule inline_file_total, rule tame_entry [OF m(2)])
  with m(1) show ?thesis by (simp add: extract_inline_files_def)
qed (auto simp: extract_inline_files_def split: option.split jv.split)

lemma services_total:
  assumes "tame files (JObj d)" and "tame files (JObj svs)"
  shows "parse_services d svs files \<noteq> None"
proof -
  have "collect_opt (map (service_entry files) svs) \<noteq> None"
    by (rule collect_opt_total) (rule service_entry_total, rule tame_entry [OF assms(2)])
  then show ?thesis
    using inline_files_total [OF tame_field [OF assms(1)]]
    unfolding parse_services_def Let_def case_prod_beta
    by (intro bind_not_None) auto
qed


text \<open>The parser is not total, although its comment says it never throws: an \<open>env_file\<close> that
  names a member of \<open>Object.prototype\<close> is looked up in the uploaded files, finds the inherited method
  and fails on its \<open>split\<close>. The exception leaves \<open>parseCompose\<close>.\<close>

theorem inherited_env_file_throws:
  assumes "yaml_load compose_yaml = Some (JObj d)" and "object_depth (JObj d) 0 \<le> MAX_YAML_DEPTH"
    and "field ''services'' d = Some (JObj svs)" and "length svs \<le> MAX_SERVICES"
    and "(name, JObj r) \<in> set svs" and "rx_test CUSTOM_NAME_RE name"
    and "field ''image'' r = Some (JStr img)" and "img \<noteq> []"
    and "field ''env_file'' r = Some (JStr f)" and "f \<in> set object_proto" and "f \<notin> fst ` set uploaded"
  shows "parse_compose yaml_load compose_yaml (Some uploaded) = None"
proof -
  have "file_lookup (Some uploaded) f = Inherited"
    using assms(10,11) by (simp add: file_lookup_def obj_get_simps map_of_eq_None_iff)
  then have "parse_env_files (JStr f) (Some uploaded) p = None" for p
    by (simp add: parse_env_files_def env_file_entry_def collect_opt_def)
  then have "parse_env_blocks r (Some uploaded) p = None" for p
    using assms(9) by (auto simp: parse_env_blocks_def bind_eq_None_conv split: prod.split)
  then have "parse_service_body p r (Some uploaded) img caps sysctls = None" for p caps sysctls
    by (auto simp: parse_service_body_def bind_eq_None_conv split: prod.split)
  then have "parse_service name (JObj r) (Some uploaded) = None"
    using assms(7,8) by (auto simp: parse_service_def Let_def bind_eq_None_conv split: prod.split)
  then have "service_entry (Some uploaded) (name, JObj r) = None"
    using assms(6) by (simp add: service_entry_def)
  then have "collect_opt (map (service_entry (Some uploaded)) svs) = None"
    using assms(5) by (auto simp: collect_opt_def intro: rev_image_eqI)
  then have "parse_services d svs (Some uploaded) = None"
    by (auto simp: parse_services_def Let_def bind_eq_None_conv split: prod.split)
  moreover have "length svs \<noteq> 0" using assms(5) by auto
  ultimately show ?thesis
    using assms(1-4) by (simp add: parse_compose_def parse_document_def Let_def del: object_depth.simps)
qed

section \<open>Witnesses\<close>

definition ex_service :: "(string \<times> jv) list" where
  "ex_service = [(''image'', JStr ''nginx:1.27''), (''env_file'', JStr ''constructor'')]"

definition ex_services :: "(string \<times> jv) list" where
  "ex_services = [(''web'', JObj ex_service)]"

definition ex_doc :: "(string \<times> jv) list" where
  "ex_doc = [(''services'', JObj ex_services)]"


theorem inherited_env_file_throws_witness:
  "parse_compose (\<lambda>y. Some (JObj ex_doc)) ''stack'' (Some []) = None"
proof (rule inherited_env_file_throws [where img = "''nginx:1.27''"])
  show "object_depth (JObj ex_doc) 0 \<le> MAX_YAML_DEPTH" by code_simp
  show "rx_test CUSTOM_NAME_RE ''web''" by code_simp
  show "''constructor'' \<in> set object_proto" by code_simp
  show "(''web'', JObj ex_service) \<in> set ex_services" by (simp add: ex_services_def)
qed (simp_all add: ex_doc_def ex_services_def ex_service_def field_def MAX_SERVICES_def)

end
