(* ===== verification/CustomDeployInv.thy ===== *)
theory CustomDeployInv
  imports CustomDeployService ComposeTotal
begin

text \<open>
  The invariant of the custom deployments over every sequence of operations: the identifiers and the
  names per tenant stay unique, and every stored specification still satisfies the contract of the
  validator, without the root exemption.
\<close>

section \<open>The invariant\<close>

definition stored_ctx :: "string \<Rightarrow> custom_spec \<Rightarrow> validator_ctx" where
  "stored_ctx name spec =
     \<lparr>caller_role = Admin, warn_unpinned_tags = False, single_service_only = (source_mode spec \<noteq> ComposeMode),
      ctx_deployment_name = Some name\<rparr>"

definition stored_ok :: "string \<Rightarrow> custom_spec \<Rightarrow> bool" where
  "stored_ok name spec =
     (spec_ok (stored_ctx name spec) (spec\<lparr>allow_root := False\<rparr>) \<and> distinct (map fst (services spec))
      \<and> services spec \<noteq> [])"

definition row_ok :: "deployment_row \<Rightarrow> bool" where
  "row_ok r = (d_source r = CustomRow \<longrightarrow> (\<exists>spec. d_spec r = Some spec \<and> stored_ok (d_name r) spec))"

definition deploy_inv :: "deploy_world \<Rightarrow> bool" where
  "deploy_inv w =
     (distinct (map d_id (d_rows w)) \<and> distinct (map (\<lambda>r. (d_tenant r, d_name r)) (d_rows w))
      \<and> (\<forall>r \<in> set (d_rows w). row_ok r))"

text \<open>What the invariant depends on.\<close>

definition core :: "deployment_row \<Rightarrow> string \<times> string \<times> row_source \<times> string \<times> custom_spec option" where
  "core r = (d_id r, d_tenant r, d_source r, d_name r, d_spec r)"

lemma core_eq:
  assumes "map core rs = map core rs'"
  shows "map d_id rs = map d_id rs'" "map (\<lambda>r. (d_tenant r, d_name r)) rs = map (\<lambda>r. (d_tenant r, d_name r)) rs'"
    "(\<forall>r \<in> set rs. row_ok r) = (\<forall>r \<in> set rs'. row_ok r)"
proof -
  have "map (f \<circ> core) rs = map (f \<circ> core) rs'" for f :: "_ \<Rightarrow> 'z"
    using assms by (metis list.map_comp)
  from this [of fst] this [of "\<lambda>(i, t, s, n, x). (t, n)"]
  show "map d_id rs = map d_id rs'" "map (\<lambda>r. (d_tenant r, d_name r)) rs = map (\<lambda>r. (d_tenant r, d_name r)) rs'"
    by (simp_all add: core_def comp_def)
  define ok where "ok = (\<lambda>(i :: string, t :: string, s, n, x). s = CustomRow \<longrightarrow> (\<exists>spec. x = Some spec \<and> stored_ok n spec))"
  have "row_ok r = ok (core r)" for r by (simp add: ok_def core_def row_ok_def)
  then have "(\<forall>r \<in> set qs. row_ok r) = (\<forall>c \<in> set (map core qs). ok c)" for qs by simp
  then show "(\<forall>r \<in> set rs. row_ok r) = (\<forall>r \<in> set rs'. row_ok r)" using assms by (simp only:)
qed

lemma deploy_inv_core: "map core (d_rows w) = map core (d_rows w') \<Longrightarrow> deploy_inv w = deploy_inv w'"
  using core_eq [of "d_rows w" "d_rows w'"] by (simp add: deploy_inv_def)

lemma core_update_rows:
  "(\<And>r. r \<in> set (d_rows w) \<Longrightarrow> p r \<Longrightarrow> core (f r) = core r) \<Longrightarrow>
     map core (d_rows (update_rows p f w)) = map core (d_rows w)"
  by (simp add: update_rows_def)

lemma core_mark_failed [simp]: "map core (d_rows (mark_failed ident e w)) = map core (d_rows w)"
  unfolding mark_failed_def by (rule core_update_rows) (simp add: core_def)

lemma core_deploy:
  "map core (d_rows (fst (deploy_to_cluster env w ident spec))) = map core (d_rows w)"
  by (simp add: deploy_to_cluster_def Let_def split: option.split sum.split)

section \<open>Validation establishes the stored contract\<close>

lemma dep_graph_allow_root [simp]: "services (spec\<lparr>allow_root := b\<rparr>) = services spec"
  by simp

lemma spec_ok_stored:
  assumes "spec_ok ctx spec" and "single_service_only ctx = (source_mode spec \<noteq> ComposeMode)"
    and "ctx_deployment_name ctx = Some name"
    and "\<forall>ns \<in> set (services spec). run_as_user (snd ns) \<noteq> Some 0 \<and> run_as_group (snd ns) \<noteq> Some 0"
  shows "spec_ok (stored_ctx name spec) (spec\<lparr>allow_root := False\<rparr>)"
  using assms
  by (simp add: spec_ok_def stored_ctx_def names_fit_def service_ok_def mount_declared_def env_declared_def
      cong: mount_kind.case_cong)

lemma spec_ok_no_root:
  "spec_ok ctx spec \<Longrightarrow> \<not> allow_root spec \<Longrightarrow> ns \<in> set (services spec) \<Longrightarrow>
     run_as_user (snd ns) \<noteq> Some 0 \<and> run_as_group (snd ns) \<noteq> Some 0"
  by (auto simp: spec_ok_def service_ok_def)

lemma stored_no_root:
  "stored_ok name spec \<Longrightarrow> ns \<in> set (services spec) \<Longrightarrow> run_as_user (snd ns) \<noteq> Some 0 \<and> run_as_group (snd ns) \<noteq> Some 0"
  unfolding stored_ok_def using spec_ok_no_root [of _ "spec\<lparr>allow_root := False\<rparr>" ns] by auto

lemma validated_stored:
  assumes "fst (validate_custom_spec spec ctx)" and "distinct (map fst (services spec))" and "services spec \<noteq> []"
    and "single_service_only ctx = (source_mode spec \<noteq> ComposeMode)" and "ctx_deployment_name ctx = Some name"
    and "\<forall>ns \<in> set (services spec). run_as_user (snd ns) \<noteq> Some 0 \<and> run_as_group (snd ns) \<noteq> Some 0"
  shows "stored_ok name spec"
  using assms spec_ok_stored [of ctx spec name]
  by (simp add: stored_ok_def validate_custom_spec_def validation_issues_iff Let_def)

lemma validated_stored_no_root_flag:
  assumes "fst (validate_custom_spec spec ctx)" and "distinct (map fst (services spec))" and "services spec \<noteq> []"
    and "single_service_only ctx = (source_mode spec \<noteq> ComposeMode)" and "ctx_deployment_name ctx = Some name"
    and "\<not> allow_root spec"
  shows "stored_ok name spec"
proof (rule validated_stored [OF assms(1-5)])
  have "spec_ok ctx spec" using assms(1,2) by (simp add: validate_custom_spec_def validation_issues_iff Let_def)
  then show "\<forall>ns \<in> set (services spec). run_as_user (snd ns) \<noteq> Some 0 \<and> run_as_group (snd ns) \<noteq> Some 0"
    using spec_ok_no_root assms(6) by blast
qed

lemma stored_ok_cong:
  "services s' = services s \<Longrightarrow> spec_volumes s' = spec_volumes s \<Longrightarrow> config_maps s' = config_maps s \<Longrightarrow>
   spec_secrets s' = spec_secrets s \<Longrightarrow> spec_version s' = spec_version s \<Longrightarrow> source_mode s' = source_mode s \<Longrightarrow>
     stored_ok name s' = stored_ok name s"
  by (simp add: stored_ok_def stored_ctx_def spec_ok_def names_fit_def service_ok_def mount_declared_def
      env_declared_def cong: mount_kind.case_cong)

section \<open>Patches keep the users\<close>

definition uids :: "(string \<times> custom_service) list \<Rightarrow> (string \<times> int option \<times> int option) list" where
  "uids svs = map (\<lambda>(n, s). (n, run_as_user s, run_as_group s)) svs"

lemma map_update_existing:
  "map_of m k = Some v0 \<Longrightarrow> g (k, v) = g (k, v0) \<Longrightarrow> map g (AList.update k v m) = map g m"
proof (induction m)
  case (Cons kv m)
  then show ?case by (cases kv) (auto split: if_splits)
qed simp

lemma uids_mutation:
  assumes "map_of (services spec) name \<noteq> None" and "\<And>s. run_as_user (f s) = run_as_user s \<and> run_as_group (f s) = run_as_group s"
  shows "uids (services (with_service_mutation spec name f)) = uids (services spec)"
  using assms(2) by (cases "map_of (services spec) name")
    (use assms(1) in \<open>auto simp: uids_def with_service_mutation_def intro!: map_update_existing\<close>)

lemma uids_keys: "map fst svs = map fst (uids svs)"
  by (simp add: uids_def case_prod_beta comp_def)

lemma uids_lookup: "uids svs = uids svs' \<Longrightarrow> map_of svs k \<noteq> None \<Longrightarrow> map_of svs' k \<noteq> None"
  by (metis list.set_map map_of_eq_None_iff uids_keys)

lemma uids_no_root:
  "uids svs = uids svs' \<Longrightarrow> \<forall>ns \<in> set svs. run_as_user (snd ns) \<noteq> Some 0 \<and> run_as_group (snd ns) \<noteq> Some 0 \<Longrightarrow>
     \<forall>ns \<in> set svs'. run_as_user (snd ns) \<noteq> Some 0 \<and> run_as_group (snd ns) \<noteq> Some 0"
proof -
  have "(\<forall>ns \<in> set xs. run_as_user (snd ns) \<noteq> Some 0 \<and> run_as_group (snd ns) \<noteq> Some 0)
      = (\<forall>(n, u, g) \<in> set (uids xs). u \<noteq> Some 0 \<and> g \<noteq> Some 0)" for xs
    by (auto simp: uids_def)
  then show "uids svs = uids svs' \<Longrightarrow> \<forall>ns \<in> set svs. run_as_user (snd ns) \<noteq> Some 0 \<and> run_as_group (snd ns) \<noteq> Some 0 \<Longrightarrow>
     \<forall>ns \<in> set svs'. run_as_user (snd ns) \<noteq> Some 0 \<and> run_as_group (snd ns) \<noteq> Some 0" by metis
qed

lemma mutation_mode [simp]:
  "source_mode (with_service_mutation spec name f) = source_mode spec"
  by (simp add: with_service_mutation_def)

lemma patch_service_keeps:
  assumes "map_of (services spec) name \<noteq> None"
  shows "uids (services (patch_service name p spec)) = uids (services spec)
    \<and> source_mode (patch_service name p spec) = source_mode spec"
proof -
  have step: "uids (services (case x of None \<Rightarrow> s | Some v \<Rightarrow> with_service_mutation s name (g v))) = uids (services spec)
      \<and> source_mode (case x of None \<Rightarrow> s | Some v \<Rightarrow> with_service_mutation s name (g v)) = source_mode spec"
    if "uids (services s) = uids (services spec) \<and> source_mode s = source_mode spec"
      and "\<And>v t. run_as_user (g v t) = run_as_user t \<and> run_as_group (g v t) = run_as_group t"
    for s and x :: "'z option" and g
    using that uids_mutation [of s name] uids_lookup [of "services spec" "services s"] assms
    by (cases x) (auto simp del: not_None_eq)
  show ?thesis
    unfolding patch_service_def Let_def
    by (cases "u_pull_credential p") (simp_all add: step)
qed

section \<open>The specification from YAML has distinct services\<close>

fun jv_wf :: "jv \<Rightarrow> bool" where
  "jv_wf (JArr xs) = (\<forall>x \<in> set xs. jv_wf x)"
| "jv_wf (JObj m) = (distinct (map fst m) \<and> (\<forall>kv \<in> set m. jv_wf (snd kv)))"
| "jv_wf _ = True"

text \<open>What is relied on of the YAML library: the objects it returns are objects, so have distinct keys.\<close>

definition yaml_wf :: "deploy_env \<Rightarrow> bool" where
  "yaml_wf env = (\<forall>y doc. yaml_load env y = Some doc \<longrightarrow> jv_wf doc)"

lemma collect_subkeys:
  "(\<And>x. x \<in> set xs \<Longrightarrow> fst (g x) = [] \<or> (\<exists>v. fst (g x) = [(fst x, v)])) \<Longrightarrow> distinct (map fst xs) \<Longrightarrow>
     distinct (map fst (fst (collect (map g xs)))) \<and> fst ` set (fst (collect (map g xs))) \<subseteq> fst ` set xs"
proof (induction xs)
  case (Cons x xs)
  define rest where "rest = fst (collect (map g xs))"
  have a: "distinct (map fst rest)" "fst ` set rest \<subseteq> fst ` set xs"
    using Cons by (simp_all add: rest_def)
  have b: "fst (collect (map g (x # xs))) = fst (g x) @ rest" by (simp add: collect_def rest_def)
  have c: "fst x \<notin> fst ` set rest" using Cons.prems(2) a(2) by auto
  show ?case
  proof (cases "fst (g x) = []")
    case True
    then show ?thesis unfolding b using a by auto
  next
    case False
    then obtain v where "fst (g x) = [(fst x, v)]" using Cons.prems(1) [of x] by auto
    then show ?thesis unfolding b using a c by auto
  qed
qed (simp add: collect_def)

lemma service_entry_keys:
  "service_entry files nr = Some r \<Longrightarrow> fst r = [] \<or> (\<exists>v. fst r = [(fst nr, v)])"
  by (auto simp: service_entry_def split: if_splits option.splits)

lemma parse_compose_distinct:
  assumes "parse_compose yl y files = Some (Some spec, is)" and "\<And>doc. yl y = Some doc \<Longrightarrow> jv_wf doc"
  shows "distinct (map fst (services spec)) \<and> services spec \<noteq> []"
proof -
  obtain doc d svs js where doc: "yl y = Some doc" "doc = JObj d" "field ''services'' d = Some (JObj svs)"
    and ps: "parse_services d svs files = Some (Some spec, js)"
    using assms(1) by (elim parse_compose_SomeD parse_document_SomeD) blast
  from assms(2) [OF doc(1)] doc(2) have "jv_wf (JObj d)" by simp
  then have dist: "distinct (map fst svs)" using doc(3) by (auto simp: field_def dest!: map_of_SomeD)
  obtain i4 where c: "collect_opt (map (service_entry files) svs) = Some (services spec, i4)" "services spec \<noteq> []"
    using ps by (elim parse_services_SomeD) auto
  from c(1) obtain g where "\<forall>x \<in> set svs. service_entry files x = Some (g x)" "(services spec, i4) = collect (map g svs)"
    unfolding collect_opt_map by blast
  with collect_subkeys [OF _ dist, of g] service_entry_keys [of files] have "distinct (map fst (services spec))"
    by (metis fst_conv)
  with c(2) show ?thesis by simp
qed

section \<open>Operations\<close>

text \<open>One operation of a tenant, or a change of the catalog's rows by the other module. The fresh
  identifier of a create is a random UUID, so no row has it.\<close>

inductive custom_step :: "string \<Rightarrow> deploy_world \<Rightarrow> deploy_world \<Rightarrow> bool" where
  create_simple: "ident \<notin> d_id ` set (d_rows w) \<Longrightarrow>
     custom_step tenant w (fst (create_simple_deployment env settings w ident tenant input role))"
| create_compose: "ident \<notin> d_id ` set (d_rows w) \<Longrightarrow> yaml_wf env \<Longrightarrow>
     custom_step tenant w (fst (create_compose_deployment env settings w ident tenant cinput role))"
| update_it: "custom_step tenant w (fst (update_custom_deployment env settings w tenant ident patch))"
| delete_it: "custom_step tenant w (fst (delete_custom_deployment_row env w tenant ident))"
| attach: "custom_step tenant w (fst (attach_pull_credential env settings w fresh tenant ident sub key))"
| revoke: "custom_step tenant w (fst (revoke_pull_credential env w tenant ident))"
| allow: "custom_step tenant w (fst (set_allow_root w tenant ident flag))"
| catalog_add: "d_source r = CatalogRow \<Longrightarrow> d_id r \<notin> d_id ` set (d_rows w) \<Longrightarrow> d_tenant r = tenant \<Longrightarrow>
     \<not> name_in_use w tenant (d_name r) \<Longrightarrow> custom_step tenant w (w\<lparr>d_rows := d_rows w @ [r]\<rparr>)"
| catalog_drop: "custom_step tenant w
     (w\<lparr>d_rows := filter (\<lambda>r. \<not> (d_source r = CatalogRow \<and> d_tenant r = tenant \<and> d_id r = ident)) (d_rows w)\<rparr>)"

inductive custom_reachable :: "deploy_world \<Rightarrow> bool" where
  start: "d_rows w = [] \<Longrightarrow> custom_reachable w"
| next_op: "custom_reachable w \<Longrightarrow> custom_step tenant w w' \<Longrightarrow> custom_reachable w'"

text \<open>What one operation of a tenant may do: the invariant stays, and the rows of every other tenant
  are exactly as before.\<close>

definition op_ok :: "string \<Rightarrow> deploy_world \<Rightarrow> deploy_world \<Rightarrow> bool" where
  "op_ok tenant w w' =
     (deploy_inv w' \<and> filter (\<lambda>r. d_tenant r \<noteq> tenant) (d_rows w') = filter (\<lambda>r. d_tenant r \<noteq> tenant) (d_rows w))"

lemma op_ok_refl: "deploy_inv w \<Longrightarrow> op_ok tenant w w"
  by (simp add: op_ok_def)

lemma op_ok_trans: "op_ok tenant w w1 \<Longrightarrow> op_ok tenant w1 w2 \<Longrightarrow> op_ok tenant w w2"
  by (simp add: op_ok_def)

lemma filter_map_if:
  "(\<And>r. r \<in> set rs \<Longrightarrow> p r \<Longrightarrow> \<not> q r \<and> \<not> q (f r)) \<Longrightarrow>
     filter q (map (\<lambda>r. if p r then f r else r) rs) = filter q rs"
  by (induction rs) auto

lemma filter_update_rows:
  "(\<And>r. r \<in> set (d_rows w) \<Longrightarrow> p r \<Longrightarrow> d_tenant r = tenant \<and> d_tenant (f r) = tenant) \<Longrightarrow>
     filter (\<lambda>r. d_tenant r \<noteq> tenant) (d_rows (update_rows p f w)) = filter (\<lambda>r. d_tenant r \<noteq> tenant) (d_rows w)"
  unfolding update_rows_def by (simp, rule filter_map_if) blast

text \<open>A change of the state of the row with a given identifier.\<close>

lemma by_id:
  assumes "deploy_inv w" and "r \<in> set (d_rows w)" and "r' \<in> set (d_rows w)" and "d_id r = d_id r'"
  shows "r = r'"
proof -
  have "inj_on d_id (set (d_rows w))" using assms(1) by (simp add: deploy_inv_def distinct_map)
  then show ?thesis using assms(2-4) by (simp add: inj_on_def)
qed

lemma get_custom_SomeD:
  "get_custom_deployment w tenant ident = Inr r \<Longrightarrow>
     r \<in> set (d_rows w) \<and> d_id r = ident \<and> d_tenant r = tenant \<and> d_source r = CustomRow"
  by (auto simp: get_custom_deployment_def split: list.splits dest!: filter_eq_ConsD)

lemma update_own_row:
  assumes "deploy_inv w" and "get_custom_deployment w tenant ident = Inr cur"
    and "d_id (f cur) = ident" "d_tenant (f cur) = tenant" "d_name (f cur) = d_name cur" "row_ok (f cur)"
  shows "op_ok tenant w (update_rows (\<lambda>r. d_id r = ident) f w)"
proof -
  note cur = get_custom_SomeD [OF assms(2)]
  have only: "r = cur" if "r \<in> set (d_rows w)" "d_id r = ident" for r
    using by_id [OF assms(1) that(1), of cur] cur that(2) by auto
  have eq: "(d_id r = ident) = (r = cur)" if "r \<in> set (d_rows w)" for r
    using only [OF that] cur by blast
  have rows: "d_rows (update_rows (\<lambda>r. d_id r = ident) f w) = map (\<lambda>r. if r = cur then f cur else r) (d_rows w)"
    by (simp add: update_rows_def eq cong: map_cong)
  have "map d_id (d_rows (update_rows (\<lambda>r. d_id r = ident) f w)) = map d_id (d_rows w)"
    using assms(3) cur by (simp add: rows)
  moreover have "map (\<lambda>r. (d_tenant r, d_name r)) (d_rows (update_rows (\<lambda>r. d_id r = ident) f w))
      = map (\<lambda>r. (d_tenant r, d_name r)) (d_rows w)"
    using assms(4,5) cur by (simp add: rows)
  moreover have "\<forall>r \<in> set (d_rows (update_rows (\<lambda>r. d_id r = ident) f w)). row_ok r"
    using assms(1,6) by (auto simp: rows deploy_inv_def)
  ultimately have "deploy_inv (update_rows (\<lambda>r. d_id r = ident) f w)"
    using assms(1) by (simp add: deploy_inv_def)
  moreover have "filter (\<lambda>r. d_tenant r \<noteq> tenant) (d_rows (update_rows (\<lambda>r. d_id r = ident) f w))
      = filter (\<lambda>r. d_tenant r \<noteq> tenant) (d_rows w)"
    by (rule filter_update_rows) (use only assms(4) cur in blast)
  ultimately show ?thesis by (simp add: op_ok_def)
qed

text \<open>A deploy attempt, whatever its result.\<close>

lemma core_op_ok:
  assumes "deploy_inv w" and "map core (d_rows w') = map core (d_rows w)"
    and "filter (\<lambda>r. d_tenant r \<noteq> tenant) (d_rows w') = filter (\<lambda>r. d_tenant r \<noteq> tenant) (d_rows w)"
  shows "op_ok tenant w w'"
  using assms deploy_inv_core [of w' w] by (simp add: op_ok_def)

lemma mark_failed_ok:
  assumes "deploy_inv w" and "r \<in> set (d_rows w)" and "d_id r = ident" and "d_tenant r = tenant"
  shows "op_ok tenant w (mark_failed ident e w)"
proof (rule core_op_ok [OF assms(1) core_mark_failed])
  show "filter (\<lambda>r. d_tenant r \<noteq> tenant) (d_rows (mark_failed ident e w)) = filter (\<lambda>r. d_tenant r \<noteq> tenant) (d_rows w)"
    unfolding mark_failed_def
  proof (rule filter_update_rows)
    fix q assume "q \<in> set (d_rows w)" "d_id q = ident"
    then have "q = r" using by_id [OF assms(1) _ assms(2), of q] assms(3) by simp
    then show "d_tenant q = tenant \<and> d_tenant (q\<lparr>d_status := ''failed'', d_error := Some e\<rparr>) = tenant"
      using assms(4) by simp
  qed
qed

lemma deploy_ok:
  assumes "deploy_inv w" and "r \<in> set (d_rows w)" and "d_id r = ident" and "d_tenant r = tenant"
  shows "op_ok tenant w (fst (deploy_to_cluster env w ident spec))"
  using mark_failed_ok [OF assms] op_ok_refl [OF assms(1)]
  by (simp add: deploy_to_cluster_def Let_def split: option.split sum.split)

lemma insert_row_inv:
  assumes "deploy_inv w" and "d_id r \<notin> d_id ` set (d_rows w)" and "\<not> name_in_use w (d_tenant r) (d_name r)" and "row_ok r"
  shows "op_ok (d_tenant r) w (w\<lparr>d_rows := d_rows w @ [r]\<rparr>)"
  using assms by (auto simp: op_ok_def deploy_inv_def name_in_use_def)

lemma insert_and_deploy_ok:
  assumes "deploy_inv w" and "d_id r \<notin> d_id ` set (d_rows w)" and "\<not> name_in_use w (d_tenant r) (d_name r)" and "row_ok r"
  shows "op_ok (d_tenant r) w (fst (insert_and_deploy env w r spec))"
proof -
  define w1 where "w1 = w\<lparr>d_rows := d_rows w @ [r]\<rparr>"
  have "op_ok (d_tenant r) w w1" unfolding w1_def by (rule insert_row_inv [OF assms])
  moreover from this have "op_ok (d_tenant r) w1 (fst (deploy_to_cluster env w1 (d_id r) spec))"
    by (intro deploy_ok) (simp_all add: op_ok_def w1_def)
  ultimately have "op_ok (d_tenant r) w (fst (deploy_to_cluster env w1 (d_id r) spec))"
    by (rule op_ok_trans)
  then show ?thesis
    by (cases "deploy_to_cluster env w1 (d_id r) spec")
      (simp add: insert_and_deploy_def flip: w1_def split: sum.split)
qed

lemma new_row_simps [simp]:
  "d_id (new_row i t n s c m) = i" "d_tenant (new_row i t n s c m) = t" "d_name (new_row i t n s c m) = n"
  "d_source (new_row i t n s c m) = CustomRow" "d_spec (new_row i t n s c m) = Some s"
  by (simp_all add: new_row_def)

lemma create_simple_ok:
  assumes "deploy_inv w" and "ident \<notin> d_id ` set (d_rows w)"
  shows "op_ok tenant w (fst (create_simple_deployment env settings w ident tenant input role))"
proof -
  let ?spec = "build_spec_from_simple input"
  have row: "row_ok (new_row ident tenant (si_name input) ?spec c m)"
    if "fst (validate_custom_spec ?spec (create_ctx settings role True (Some (si_name input))))" for c m
    unfolding row_ok_def using validated_stored_no_root_flag [OF that]
    by (simp add: create_ctx_def build_spec_from_simple_def)
  show ?thesis
    using insert_and_deploy_ok [OF assms(1), of "new_row ident tenant (si_name input) ?spec _ _"] row assms op_ok_refl [OF assms(1)]
    by (auto simp: create_simple_deployment_def Let_def split: sum.split)
qed

lemma create_compose_ok:
  assumes "deploy_inv w" and "ident \<notin> d_id ` set (d_rows w)" and "yaml_wf env"
  shows "op_ok tenant w (fst (create_compose_deployment env settings w ident tenant input role))"
proof -
  have stored: "stored_ok name spec"
    if p: "parse_compose (yaml_load env) (co_yaml input) (co_env_files input) = Some (Some spec, is)"
      and v: "fst (validate_custom_spec spec (create_ctx settings role False (Some name)))" for spec "is" name
  proof -
    have "\<not> allow_root spec" "source_mode spec = ComposeMode"
      using p by (auto elim!: parse_compose_SomeD parse_document_SomeD dest: parse_services_wf simp: compose_spec_wf_def)
    moreover have "distinct (map fst (services spec))" "services spec \<noteq> []"
      using parse_compose_distinct [OF p] assms(3) unfolding yaml_wf_def by blast+
    ultimately show ?thesis using validated_stored_no_root_flag [OF v] by (simp add: create_ctx_def)
  qed
  have pull: "stored_ok name (spec\<lparr>pull_credential_id := p\<rparr>) = stored_ok name spec" for name spec p
    by (rule stored_ok_cong) simp_all
  have row: "row_ok (new_row ident tenant name spec c m) = stored_ok name spec" for name spec c m
    by (simp add: row_ok_def)
  note ins = insert_and_deploy_ok [OF assms(1), of "new_row ident tenant _ _ _ _", simplified, unfolded row, OF assms(2)]
  show ?thesis
    by (auto simp: create_compose_deployment_def Let_def pull split: sum.split option.split
        intro!: ins op_ok_refl [OF assms(1)] intro: stored)
qed

lemma stored_patch:
  assumes "stored_ok name spec" and "services spec = (k, v) # rest"
    and "fst (validate_custom_spec (patch_service k p spec) ctx)"
    and "single_service_only ctx = (source_mode spec \<noteq> ComposeMode)" and "ctx_deployment_name ctx = Some name"
  shows "stored_ok name (patch_service k p spec)"
proof -
  let ?next = "patch_service k p spec"
  have keep: "uids (services ?next) = uids (services spec)" "source_mode ?next = source_mode spec"
    using patch_service_keeps [of spec k p] assms(2) by auto
  have "map fst (services ?next) = map fst (services spec)" by (simp add: uids_keys keep)
  then have "distinct (map fst (services ?next))" "services ?next \<noteq> []"
    using assms(1,2) by (auto simp: stored_ok_def)
  moreover have "\<forall>ns \<in> set (services ?next). run_as_user (snd ns) \<noteq> Some 0 \<and> run_as_group (snd ns) \<noteq> Some 0"
    by (rule uids_no_root [OF keep(1) [symmetric]]) (use stored_no_root [OF assms(1)] in blast)
  ultimately show ?thesis using validated_stored [OF assms(3)] assms(4,5) keep(2) by simp
qed

lemma row_ok_stored: "deploy_inv w \<Longrightarrow> get_custom_deployment w tenant ident = Inr cur \<Longrightarrow>
    \<exists>spec. d_spec cur = Some spec \<and> stored_ok (d_name cur) spec"
  using get_custom_SomeD [of w tenant ident cur] by (auto simp: deploy_inv_def row_ok_def)

lemma op_ok_deploy:
  assumes "op_ok tenant w w1" and "r \<in> set (d_rows w1)" and "d_id r = ident" and "d_tenant r = tenant"
  shows "op_ok tenant w (fst (deploy_to_cluster env w1 ident spec))"
  using op_ok_trans [OF assms(1)] deploy_ok [OF _ assms(2-4)] assms(1) by (simp add: op_ok_def)

lemma in_update_rows: "r \<in> set (d_rows w) \<Longrightarrow> p r \<Longrightarrow> f r \<in> set (d_rows (update_rows p f w))"
  by (force simp: update_rows_def)

lemma update_ok:
  assumes "deploy_inv w"
  shows "op_ok tenant w (fst (update_custom_deployment env settings w tenant ident patch))"
proof (cases "get_custom_deployment w tenant ident")
  case (Inr cur)
  obtain spec where spec: "d_spec cur = Some spec" "stored_ok (d_name cur) spec"
    using row_ok_stored [OF assms Inr] by blast
  note cur = get_custom_SomeD [OF Inr]
  obtain k v rest where svs: "services spec = (k, v) # rest"
    using spec(2) by (cases "services spec") (auto simp: stored_ok_def)
  let ?next = "patch_service k patch spec"
  let ?ctx = "create_ctx settings Admin (source_mode spec \<noteq> ComposeMode) (Some (d_name cur))"
  have ok: "op_ok tenant w (update_rows (\<lambda>r. d_id r = ident) f w)"
    and dep: "op_ok tenant w (fst (deploy_to_cluster env (update_rows (\<lambda>r. d_id r = ident) f w) ident ?next))"
    if v: "fst (validate_custom_spec ?next ?ctx)"
      and f: "f = (\<lambda>r. r\<lparr>d_spec := Some ?next, d_cpu := c, d_memory := m, d_status := st, d_message := None, d_error := None\<rparr>)"
    for f c m st
  proof -
    have "stored_ok (d_name cur) ?next"
      by (rule stored_patch [OF spec(2) svs v]) (simp_all add: create_ctx_def)
    then show "op_ok tenant w (update_rows (\<lambda>r. d_id r = ident) f w)"
      by (intro update_own_row [OF assms Inr]) (use cur f in \<open>simp_all add: row_ok_def\<close>)
    then show "op_ok tenant w (fst (deploy_to_cluster env (update_rows (\<lambda>r. d_id r = ident) f w) ident ?next))"
      by (rule op_ok_deploy [where r = "f cur"]) (use cur f in \<open>auto intro: in_update_rows\<close>)
  qed
  show ?thesis
    using op_ok_refl [OF assms] ok dep
    by (auto simp: update_custom_deployment_def Inr spec svs Let_def split: sum.split prod.split)
      (metis fst_conv)+
qed (simp add: update_custom_deployment_def op_ok_refl [OF assms])

lemma filter_drop_inv:
  assumes "deploy_inv w"
  shows "deploy_inv (w\<lparr>d_creds := cs, d_rows := filter p (d_rows w)\<rparr>)"
  using assms by (auto simp: deploy_inv_def distinct_map_filter)

lemma status_ok:
  assumes "deploy_inv w" and "get_custom_deployment w tenant ident = Inr cur" and "\<And>r. core (f r) = core r"
  shows "op_ok tenant w (update_rows (\<lambda>r. d_id r = ident) f w)"
proof -
  have "row_ok (f cur) = row_ok cur" using assms(3) [of cur] by (simp add: core_def row_ok_def)
  moreover have "row_ok cur" using assms(1) get_custom_SomeD [OF assms(2)] by (simp add: deploy_inv_def)
  ultimately show ?thesis
    using update_own_row [OF assms(1,2), of f] assms(3) [of cur] get_custom_SomeD [OF assms(2)] by (simp add: core_def)
qed

lemma delete_ok:
  assumes "deploy_inv w"
  shows "op_ok tenant w (fst (delete_custom_deployment_row env w tenant ident))"
proof (cases "get_custom_deployment w tenant ident")
  case (Inr cur)
  note cur = get_custom_SomeD [OF Inr]
  define w1 where "w1 = update_rows (\<lambda>r. d_id r = ident) (\<lambda>r. r\<lparr>d_status := ''deleting''\<rparr>) w"
  have w1: "op_ok tenant w w1" unfolding w1_def by (rule status_ok [OF assms Inr]) (simp add: core_def)
  have mem: "cur\<lparr>d_status := ''deleting''\<rparr> \<in> set (d_rows w1)"
    unfolding w1_def using cur by (intro in_update_rows) auto
  have fail: "op_ok tenant w (mark_failed ident e w1)" for e
    using op_ok_trans [OF w1] mark_failed_ok [OF _ mem] w1 cur by (simp add: op_ok_def)
  have "filter (\<lambda>r. d_tenant r \<noteq> tenant) (filter (\<lambda>r. d_id r \<noteq> ident) (d_rows w1)) = filter (\<lambda>r. d_tenant r \<noteq> tenant) (d_rows w1)"
  proof -
    have "d_tenant r = tenant" if "r \<in> set (d_rows w1)" "d_id r = ident" for r
      using by_id [of w1 r "cur\<lparr>d_status := ''deleting''\<rparr>"] mem that cur w1 by (auto simp: op_ok_def)
    then show ?thesis by (auto intro: filter_cong)
  qed
  then have "op_ok tenant w (w1\<lparr>d_creds := cs, d_rows := filter (\<lambda>r. d_id r \<noteq> ident) (d_rows w1)\<rparr>)" for cs
    using w1 filter_drop_inv [of w1] by (simp add: op_ok_def)
  then show ?thesis
    using op_ok_refl [OF assms] fail
    by (simp add: delete_custom_deployment_row_def Inr Let_def flip: w1_def split: sum.split option.split)
qed (simp add: delete_custom_deployment_row_def op_ok_refl [OF assms])

lemma creds_ok: "deploy_inv w \<Longrightarrow> op_ok tenant w (w\<lparr>d_creds := cs\<rparr>)"
  by (simp add: op_ok_def deploy_inv_def)

lemma attach_ok:
  "deploy_inv w \<Longrightarrow> op_ok tenant w (fst (attach_pull_credential env settings w fresh tenant ident sub key))"
  by (simp add: attach_pull_credential_def upsert_pull_credential_def Let_def creds_ok op_ok_refl split: sum.split option.split)

lemma revoke_ok: "deploy_inv w \<Longrightarrow> op_ok tenant w (fst (revoke_pull_credential env w tenant ident))"
  by (simp add: revoke_pull_credential_def creds_ok op_ok_refl split: sum.split option.split)

lemma allow_root_ok:
  assumes "deploy_inv w"
  shows "op_ok tenant w (fst (set_allow_root w tenant ident flag))"
proof (cases "get_custom_deployment w tenant ident")
  case (Inr cur)
  obtain spec where spec: "d_spec cur = Some spec" "stored_ok (d_name cur) spec"
    using row_ok_stored [OF assms Inr] by blast
  note cur = get_custom_SomeD [OF Inr]
  let ?mine = "\<lambda>r. d_id r = ident \<and> d_tenant r = tenant \<and> d_source r = CustomRow"
  let ?f = "\<lambda>r. r\<lparr>d_spec := Some (spec\<lparr>allow_root := flag\<rparr>)\<rparr>"
  have "stored_ok (d_name cur) (spec\<lparr>allow_root := flag\<rparr>)"
    using spec(2) by (simp add: stored_ok_cong [of "spec\<lparr>allow_root := flag\<rparr>" spec])
  then have "op_ok tenant w (update_rows (\<lambda>r. d_id r = ident) ?f w)"
    by (intro update_own_row [OF assms Inr]) (use cur in \<open>simp_all add: row_ok_def\<close>)
  moreover have "?mine r = (d_id r = ident)" if "r \<in> set (d_rows w)" for r
    using by_id [OF assms that, of cur] cur by auto
  then have "update_rows ?mine ?f w = update_rows (\<lambda>r. d_id r = ident) ?f w"
    unfolding update_rows_def by (simp cong: map_cong)
  ultimately have "op_ok tenant w (update_rows ?mine ?f w)" by simp
  then show ?thesis
    by (simp add: set_allow_root_def Inr spec Let_def split: list.split)
qed (simp add: set_allow_root_def op_ok_refl [OF assms])

lemma catalog_drop_ok:
  assumes "deploy_inv w"
  shows "op_ok tenant w
    (w\<lparr>d_rows := filter (\<lambda>r. \<not> (d_source r = CatalogRow \<and> d_tenant r = tenant \<and> d_id r = ident)) (d_rows w)\<rparr>)"
proof -
  have "deploy_inv (w\<lparr>d_rows := filter p (d_rows w)\<rparr>)" for p
    using filter_drop_inv [OF assms, of p "d_creds w"] by simp
  then show ?thesis by (auto simp: op_ok_def intro: filter_cong)
qed

lemma custom_step_ok: "custom_step tenant w w' \<Longrightarrow> deploy_inv w \<Longrightarrow> op_ok tenant w w'"
proof (induction rule: custom_step.induct)
  case (catalog_add r w tenant)
  then show ?case using insert_row_inv [of w r] by (simp add: row_ok_def)
next
  case (catalog_drop tenant w ident)
  then show ?case by (rule catalog_drop_ok)
qed (simp_all add: create_simple_ok create_compose_ok update_ok delete_ok attach_ok revoke_ok allow_root_ok)

lemma custom_reachable_inv: "custom_reachable w \<Longrightarrow> deploy_inv w"
proof (induction rule: custom_reachable.induct)
  case (start w)
  then show ?case by (simp add: deploy_inv_def)
next
  case (next_op w tenant w')
  then show ?case using custom_step_ok by (simp add: op_ok_def)
qed

inductive_cases custom_reachableE: "custom_reachable w"
inductive_cases custom_stepE: "custom_step tenant w w'"

end
