(* ===== verification/CustomDeployer.thy ===== *)
theory CustomDeployer
  imports CustomSpec SpecValidator
begin

text \<open>
  The renderer of custom deployments (\<open>custom-deployments/k8s-deployer.ts\<close>): the manifests as the
  values the code builds (a field that is \<open>undefined\<close> is left out), the order in which they are
  applied, and the create-or-patch step. What the Kubernetes API answers is a parameter.
\<close>

section \<open>Values\<close>

definition js :: "string \<Rightarrow> jv" where
  "js s = JStr s"

definition jint :: "int \<Rightarrow> jv" where
  "jint i = JNumV (JNum (of_int i))"

text \<open>\<open>...(x !== undefined ? {k: x} : {})\<close>.\<close>

definition opt_field :: "string \<Rightarrow> jv option \<Rightarrow> (string \<times> jv) list" where
  "opt_field k v = (case v of None \<Rightarrow> [] | Some x \<Rightarrow> [(k, x)])"

definition list_field :: "string \<Rightarrow> jv list \<Rightarrow> (string \<times> jv) list" where
  "list_field k xs = (if xs = [] then [] else [(k, JArr xs)])"

section \<open>Names\<close>

record deploy_input =
  deployment_id :: string
  deployment_name :: string
  namespace :: string
  storage_sub_path :: string
  in_spec :: custom_spec
  has_pull_credential :: bool
  node_name :: "string option"
  storage_tier :: "string option"

definition CLIENT_PVC_VOLUME_NAME :: string where
  "CLIENT_PVC_VOLUME_NAME = ''tenant-storage''"

definition INIT_DIRS_IMAGE :: string where
  "INIT_DIRS_IMAGE = ''busybox:1.37-musl''"

definition RESERVED_LABEL_PREFIX :: string where
  "RESERVED_LABEL_PREFIX = ''platform.phoenix-host.net/''"

definition filter_service_labels :: "(string \<times> string) list option \<Rightarrow> (string \<times> string) list" where
  "filter_service_labels raw =
     (case raw of None \<Rightarrow> [] | Some m \<Rightarrow> filter (\<lambda>kv. \<not> starts_with (fst kv) RESERVED_LABEL_PREFIX) m)"

definition service_resource_name :: "string \<Rightarrow> string \<Rightarrow> nat \<Rightarrow> string" where
  "service_resource_name dep svc n = (if n \<le> 1 then dep else dep @ ''-'' @ svc)"

definition render_config_map_name :: "string \<Rightarrow> string \<Rightarrow> string" where
  "render_config_map_name ident key = ''cd-'' @ ident @ ''-cfg-'' @ key"

definition render_secret_name :: "string \<Rightarrow> string \<Rightarrow> string" where
  "render_secret_name ident key = ''cd-'' @ ident @ ''-sec-'' @ key"

definition config_map_volume_name :: "string \<Rightarrow> string \<Rightarrow> string" where
  "config_map_volume_name ident key = take 63 (''cdcm-'' @ take 8 ident @ ''-'' @ key)"

definition secret_volume_name :: "string \<Rightarrow> string \<Rightarrow> string" where
  "secret_volume_name ident key = take 63 (''cdsec-'' @ take 8 ident @ ''-'' @ key)"

text \<open>\<open>s.replace(/[^a-z0-9-]+/gi, '-')\<close>: each longest run of other characters becomes one hyphen.\<close>

definition name_char :: "char \<Rightarrow> bool" where
  "name_char c = (is_alnum c \<or> c = CHR ''-'')"

fun squash :: "bool \<Rightarrow> string \<Rightarrow> string" where
  "squash in_run [] = []"
| "squash in_run (c # cs) =
     (if name_char c then c # squash False cs
      else if in_run then squash True cs else CHR ''-'' # squash True cs)"

definition tmpfs_volume_name :: "string \<Rightarrow> string" where
  "tmpfs_volume_name path =
     ''tmpfs-'' @ take 50 (to_lower (squash False (if starts_with path ''/'' then tl path else path)))"

definition slug :: "string \<Rightarrow> string" where
  "slug name = take 47 (squash False (to_lower name))"

text \<open>\<open>uniqueInitName\<close>; \<open>rnd\<close> is the random suffix of the last resort.\<close>

fun try_suffix :: "nat \<Rightarrow> nat \<Rightarrow> string set \<Rightarrow> string \<Rightarrow> string option" where
  "try_suffix 0 i used base = None"
| "try_suffix (Suc n) i used base =
     (let candidate = base @ ''-'' @ show_nat i in
      if candidate \<notin> used then Some candidate else try_suffix n (Suc i) used base)"

definition unique_init_name :: "string \<Rightarrow> string set \<Rightarrow> string \<Rightarrow> string" where
  "unique_init_name rnd used dep =
     (let base = ''wait-'' @ slug dep in
      if base \<notin> used then base
      else (case try_suffix 98 2 used base of Some c \<Rightarrow> c | None \<Rightarrow> base @ ''-'' @ rnd))"

section \<open>The container\<close>

definition render_probe :: "health_check \<Rightarrow> jv" where
  "render_probe h =
     (let timing = [(''initialDelaySeconds'', JNumV (initial_delay_seconds h)), (''periodSeconds'', JNumV (period_seconds h)),
            (''timeoutSeconds'', JNumV (timeout_seconds h)), (''failureThreshold'', JNumV (failure_threshold h)),
            (''successThreshold'', JNumV (success_threshold h))] in
      case hc_probe h of
        HttpGet p port scheme hs \<Rightarrow>
          JObj ((''httpGet'', JObj ([(''path'', js p), (''port'', JNumV port), (''scheme'', js scheme)]
             @ opt_field ''httpHeaders'' (map_option (\<lambda>xs. JArr (map (\<lambda>(n, v). JObj [(''name'', js n), (''value'', js v)]) xs)) hs))) # timing)
      | TcpSocket port \<Rightarrow> JObj ((''tcpSocket'', JObj [(''port'', JNumV port)]) # timing)
      | Exec cmd \<Rightarrow> JObj ((''exec'', JObj [(''command'', JArr (map js cmd))]) # timing))"

definition key_ref :: "string \<Rightarrow> string \<Rightarrow> string \<Rightarrow> jv" where
  "key_ref n kind name = JObj [(''name'', js n), (''valueFrom'', JObj [(kind, JObj [(''name'', js name), (''key'', js ''content'')])])]"

text \<open>\<open>None\<close> is the exception for a variable without a source.\<close>

definition container_env_entry :: "deploy_input \<Rightarrow> custom_env \<Rightarrow> jv option" where
  "container_env_entry i e =
     (case env_value e of
        Some v \<Rightarrow> Some (JObj [(''name'', js (env_name e)), (''value'', js v)])
      | None \<Rightarrow>
          (if truthy (value_from_secret e)
           then Some (key_ref (env_name e) ''secretKeyRef'' (render_secret_name (deployment_id i) (the (value_from_secret e))))
           else if truthy (value_from_config_map e)
           then Some (key_ref (env_name e) ''configMapKeyRef'' (render_config_map_name (deployment_id i) (the (value_from_config_map e))))
           else None))"

definition build_container_env :: "deploy_input \<Rightarrow> custom_service \<Rightarrow> jv list option" where
  "build_container_env i svc = seq_opt (map (container_env_entry i) (svc_env svc))"

text \<open>The name of the pod volume a mount uses, and the rest of the mount.\<close>

definition mount_volume_name :: "deploy_input \<Rightarrow> volume_mount \<Rightarrow> string" where
  "mount_volume_name i vm =
     (case mount_kind_of vm of
        MConfigMap \<Rightarrow> config_map_volume_name (deployment_id i) (vm_name vm)
      | MSecret \<Rightarrow> secret_volume_name (deployment_id i) (vm_name vm)
      | MVolume \<Rightarrow> CLIENT_PVC_VOLUME_NAME)"

definition render_mount :: "deploy_input \<Rightarrow> volume_mount \<Rightarrow> jv" where
  "render_mount i vm =
     (let ro = (if vm_read_only vm then [(''readOnly'', JBool True)] else []) in
      JObj ([(''name'', js (mount_volume_name i vm)), (''mountPath'', js (container_path vm))]
        @ (case mount_kind_of vm of
             MConfigMap \<Rightarrow> (''subPath'', js ''content'') # ro
           | MSecret \<Rightarrow> [(''subPath'', js ''content''), (''readOnly'', JBool True)]
           | MVolume \<Rightarrow> (''subPath'', js (storage_sub_path i @ ''/'' @ vm_name vm)) # ro)))"

definition render_tmpfs_mount :: "tmpfs_mount \<Rightarrow> jv" where
  "render_tmpfs_mount t = JObj [(''name'', js (tmpfs_volume_name (tmpfs_path t))), (''mountPath'', js (tmpfs_path t))]"

definition build_volume_mounts :: "deploy_input \<Rightarrow> custom_service \<Rightarrow> jv list" where
  "build_volume_mounts i svc = map (render_mount i) (volume_mounts svc) @ map render_tmpfs_mount (svc_tmpfs svc)"

definition ids_fields :: "custom_service \<Rightarrow> (string \<times> jv) list" where
  "ids_fields svc = opt_field ''runAsUser'' (map_option jint (run_as_user svc)) @ opt_field ''runAsGroup'' (map_option jint (run_as_group svc))"

definition build_container_security_context :: "custom_service \<Rightarrow> jv" where
  "build_container_security_context svc =
     JObj ([(''allowPrivilegeEscalation'', JBool False), (''readOnlyRootFilesystem'', JBool (read_only_root svc))]
       @ ids_fields svc
       @ (if cap_add svc \<noteq> [] then [(''capabilities'', JObj [(''add'', JArr (map js (cap_add svc)))])] else []))"

definition build_pod_security_context :: "custom_service \<Rightarrow> jv" where
  "build_pod_security_context svc =
     JObj ([(''seccompProfile'', JObj [(''type'', js ''RuntimeDefault'')])]
       @ (case run_as_user svc of Some u \<Rightarrow> if u > 0 then [(''runAsNonRoot'', JBool True)] else [] | None \<Rightarrow> [])
       @ ids_fields svc
       @ (case svc_sysctls svc of None \<Rightarrow> []
          | Some m \<Rightarrow> list_field ''sysctls'' (map (\<lambda>(n, v). JObj [(''name'', js n), (''value'', js v)]) m)))"

definition strings_field :: "string \<Rightarrow> string list option \<Rightarrow> (string \<times> jv) list" where
  "strings_field k x = (case x of None \<Rightarrow> [] | Some xs \<Rightarrow> list_field k (map js xs))"

definition build_container :: "deploy_input \<Rightarrow> string \<Rightarrow> custom_service \<Rightarrow> jv option" where
  "build_container i name svc =
     (case build_container_env i svc of
        None \<Rightarrow> None
      | Some env \<Rightarrow>
          (let r = svc_resources svc;
               mem_limit = (case memory_limit r of Some l \<Rightarrow> l | None \<Rightarrow> memory_request r);
               ports = map (\<lambda>p. JObj [(''containerPort'', JNumV (container_port p)), (''name'', js (port_name p)),
                                       (''protocol'', js (protocol p))]) (svc_ports svc);
               probe = map_option render_probe (svc_health svc) in
           Some (JObj
             ([(''name'', js name), (''image'', js (svc_image svc)), (''imagePullPolicy'', js ''Always'')]
              @ strings_field ''command'' (svc_entrypoint svc)
              @ strings_field ''args'' (svc_command svc)
              @ list_field ''ports'' ports
              @ list_field ''env'' env
              @ list_field ''volumeMounts'' (build_volume_mounts i svc)
              @ [(''resources'', JObj
                    [(''requests'', JObj [(''cpu'', js (cpu_request r)), (''memory'', js (memory_request r))]),
                     (''limits'', JObj (opt_field ''cpu'' (map_option js (cpu_limit r)) @ [(''memory'', js mem_limit)]))]),
                 (''securityContext'', build_container_security_context svc)]
              @ (if truthy (working_dir svc) then [(''workingDir'', js (the (working_dir svc)))] else [])
              @ opt_field ''livenessProbe'' probe
              @ opt_field ''readinessProbe'' probe))))"

section \<open>Pod volumes\<close>

definition pvc_volume :: "deploy_input \<Rightarrow> string \<times> jv" where
  "pvc_volume i = (CLIENT_PVC_VOLUME_NAME,
     JObj [(''name'', js CLIENT_PVC_VOLUME_NAME),
           (''persistentVolumeClaim'', JObj [(''claimName'', js (namespace i @ ''-storage''))])])"

definition config_volume :: "deploy_input \<Rightarrow> volume_mount \<Rightarrow> string \<times> jv" where
  "config_volume i vm = (let n = config_map_volume_name (deployment_id i) (vm_name vm) in
     (n, JObj [(''name'', js n), (''configMap'', JObj
       [(''name'', js (render_config_map_name (deployment_id i) (vm_name vm))), (''defaultMode'', jint 420)])]))"

definition secret_volume :: "deploy_input \<Rightarrow> volume_mount \<Rightarrow> string \<times> jv" where
  "secret_volume i vm = (let n = secret_volume_name (deployment_id i) (vm_name vm) in
     (n, JObj [(''name'', js n), (''secret'', JObj
       [(''secretName'', js (render_secret_name (deployment_id i) (vm_name vm))), (''defaultMode'', jint 256)])]))"

definition tmpfs_volume :: "tmpfs_mount \<Rightarrow> string \<times> jv" where
  "tmpfs_volume t = (let n = tmpfs_volume_name (tmpfs_path t) in
     (n, JObj [(''name'', js n), (''emptyDir'', JObj [(''medium'', js ''Memory''), (''sizeLimit'', js (show_nat (size_mi t) @ ''Mi''))])]))"

text \<open>One entry per name, the first one.\<close>

fun first_by_name :: "string set \<Rightarrow> (string \<times> jv) list \<Rightarrow> (string \<times> jv) list" where
  "first_by_name seen [] = []"
| "first_by_name seen (v # vs) =
     (if fst v \<in> seen then first_by_name seen vs else v # first_by_name (insert (fst v) seen) vs)"

definition mounts_of_kind :: "mount_kind \<Rightarrow> custom_service \<Rightarrow> volume_mount list" where
  "mounts_of_kind k svc = filter (\<lambda>vm. mount_kind_of vm = k) (volume_mounts svc)"

definition build_pod_volumes :: "deploy_input \<Rightarrow> custom_service \<Rightarrow> (string \<times> jv) list" where
  "build_pod_volumes i svc =
     (if mounts_of_kind MVolume svc \<noteq> [] then [pvc_volume i] else [])
     @ first_by_name {} (map (config_volume i) (mounts_of_kind MConfigMap svc))
     @ first_by_name {} (map (secret_volume i) (mounts_of_kind MSecret svc))
     @ first_by_name {} (map tmpfs_volume (svc_tmpfs svc))"

section \<open>Init containers\<close>

definition small_container :: "string \<Rightarrow> string \<Rightarrow> string \<times> string \<Rightarrow> string \<times> string \<Rightarrow> (string \<times> jv) list \<Rightarrow> jv" where
  "small_container name script requests limits extra =
     JObj ([(''name'', js name), (''image'', js INIT_DIRS_IMAGE), (''command'', JArr [js ''sh'', js ''-c'', js script])]
       @ extra
       @ [(''resources'', JObj
            [(''requests'', JObj [(''cpu'', js (fst requests)), (''memory'', js (snd requests))]),
             (''limits'', JObj [(''cpu'', js (fst limits)), (''memory'', js (snd limits))])])])"

definition quoted :: "string \<Rightarrow> string" where
  "quoted s = [CHR 0x27] @ s @ [CHR 0x27]"

definition mkdir_part :: "deploy_input \<Rightarrow> string \<Rightarrow> string" where
  "mkdir_part i vol =
     (let path = ''/data/'' @ storage_sub_path i @ ''/'' @ vol in
      ''mkdir -p '' @ quoted path @ '' && chmod 777 '' @ quoted path)"

definition build_init_dirs :: "deploy_input \<Rightarrow> custom_service \<Rightarrow> jv option" where
  "build_init_dirs i svc =
     (let named = rev (remdups (rev (map vm_name (mounts_of_kind MVolume svc)))) in
      if named = [] then None
      else Some (small_container ''init-dirs'' (join_with '' && '' (map (mkdir_part i) named))
        (''10m'', ''16Mi'') (''50m'', ''32Mi'')
        [(''volumeMounts'', JArr [JObj [(''name'', js CLIENT_PVC_VOLUME_NAME), (''mountPath'', js ''/data'')]])]))"

text \<open>The script that waits for a dependency, or says why not when it exposes no port.\<close>

definition wait_script :: "deploy_input \<Rightarrow> nat \<Rightarrow> string \<Rightarrow> custom_service \<Rightarrow> string" where
  "wait_script i cnt dep svc =
     (case find expose_as_service (svc_ports svc) of
        None \<Rightarrow> ''echo '' @ [CHR 0x22] @ ''depends_on '' @ quoted dep
                  @ '' has no exposed service port; skipping wait'' @ [CHR 0x22]
      | Some p \<Rightarrow>
          ''timeout 60 sh -c '' @ quoted (''until nc -z -w 2 ''
            @ service_resource_name (deployment_name i) dep cnt @ ''-'' @ port_name p @ '' '' @ show_num (container_port p)
            @ ''; do sleep 1; done''))"

text \<open>One init container per declared dependency; an inherited member has no \<open>ports\<close> (an exception).\<close>

fun depends_on_inits :: "deploy_input \<Rightarrow> nat \<Rightarrow> string \<Rightarrow> string set \<Rightarrow> string list \<Rightarrow> (string \<times> jv) list option" where
  "depends_on_inits i cnt rnd used [] = Some []"
| "depends_on_inits i cnt rnd used (dep # deps) =
     (case obj_get dep (services (in_spec i)) of
        Absent \<Rightarrow> depends_on_inits i cnt rnd used deps
      | Inherited \<Rightarrow> None
      | Own svc \<Rightarrow>
          (let name = unique_init_name rnd used dep in
           map_option ((#) (name, small_container name (wait_script i cnt dep svc) (''5m'', ''8Mi'') (''20m'', ''16Mi'') []))
             (depends_on_inits i cnt rnd (insert name used) deps)))"

section \<open>Manifests\<close>

datatype k8s_kind = KConfigMap | KSecret | KDeployment | KService

record action =
  a_kind :: k8s_kind
  a_name :: string
  a_body :: jv
  a_patch :: jv

definition lbl :: "string \<Rightarrow> string" where
  "lbl k = ''platform.phoenix-host.net/'' @ k"

definition owner_labels :: "deploy_input \<Rightarrow> (string \<times> string) list" where
  "owner_labels i = [(lbl ''deployment-id'', deployment_id i), (lbl ''owner'', ''custom-deployments'')]"

definition jlabels :: "(string \<times> string) list \<Rightarrow> jv" where
  "jlabels ls = JObj (map (\<lambda>(k, v). (k, js v)) ls)"

definition metadata :: "deploy_input \<Rightarrow> string \<Rightarrow> (string \<times> string) list \<Rightarrow> jv" where
  "metadata i name ls = JObj [(''name'', js name), (''namespace'', js (namespace i)), (''labels'', jlabels ls)]"

definition config_map_action :: "deploy_input \<Rightarrow> inline_file \<Rightarrow> action" where
  "config_map_action i f =
     (let name = render_config_map_name (deployment_id i) (file_name f);
          d = (''data'', JObj [(''content'', js (file_content f))]) in
      \<lparr>a_kind = KConfigMap, a_name = name,
       a_body = JObj [(''metadata'', metadata i name (owner_labels i)), d], a_patch = JObj [d]\<rparr>)"

definition secret_action :: "deploy_input \<Rightarrow> inline_file \<Rightarrow> action" where
  "secret_action i f =
     (let name = render_secret_name (deployment_id i) (file_name f);
          d = (''data'', JObj [(''content'', js (base64 (file_content f)))]) in
      \<lparr>a_kind = KSecret, a_name = name,
       a_body = JObj [(''metadata'', metadata i name (owner_labels i)), (''type'', js ''Opaque''), d], a_patch = JObj [d]\<rparr>)"

definition placement :: "deploy_input \<Rightarrow> (string \<times> jv) list" where
  "placement i =
     (if \<not> truthy (node_name i) then []
      else (let n = the (node_name i) in
        if storage_tier i = Some ''ha'' then
          [(''affinity'', JObj [(''nodeAffinity'', JObj [(''preferredDuringSchedulingIgnoredDuringExecution'', JArr
             [JObj [(''weight'', jint 100), (''preference'', JObj [(''matchExpressions'', JArr
                [JObj [(''key'', js ''kubernetes.io/hostname''), (''operator'', js ''In''), (''values'', JArr [js n])]])])]])])])]
        else [(''nodeSelector'', JObj [(''kubernetes.io/hostname'', js n)])]))"

definition pod_spec :: "deploy_input \<Rightarrow> custom_service \<Rightarrow> jv \<Rightarrow> (string \<times> jv) list \<Rightarrow> jv" where
  "pod_spec i svc container waits =
     JObj ([(''containers'', JArr [container]), (''priorityClassName'', js ''tenant-default''),
            (''securityContext'', build_pod_security_context svc),
            (''restartPolicy'', js (if svc_restart svc = Never then ''Never'' else ''Always''))]
       @ list_field ''initContainers'' (map snd waits @ (case build_init_dirs i svc of None \<Rightarrow> [] | Some d \<Rightarrow> [d]))
       @ list_field ''volumes'' (map snd (build_pod_volumes i svc))
       @ (if has_pull_credential i
          then [(''imagePullSecrets'', JArr [JObj [(''name'', js (''image-pull-'' @ deployment_id i))]])] else [])
       @ opt_field ''terminationGracePeriodSeconds'' (map_option JNumV (stop_grace_seconds svc))
       @ placement i)"

definition deployment_labels :: "deploy_input \<Rightarrow> string \<Rightarrow> string \<Rightarrow> (string \<times> string) list" where
  "deployment_labels i name svc_name =
     [(''app'', name), (''platform.io/managed'', ''true''), (''component'', svc_name),
      (lbl ''deployment-id'', deployment_id i), (lbl ''owner'', ''custom-deployments''), (lbl ''stack-service'', svc_name)]"

text \<open>\<open>{ ...labels, ...filterServiceLabels(service.labels) }\<close>.\<close>

definition template_labels :: "deploy_input \<Rightarrow> string \<Rightarrow> string \<Rightarrow> custom_service \<Rightarrow> (string \<times> string) list" where
  "template_labels i name svc_name svc =
     fold (\<lambda>(k, v). AList.update k v) (filter_service_labels (svc_labels svc)) (deployment_labels i name svc_name)"

definition deployment_action :: "deploy_input \<Rightarrow> nat \<Rightarrow> string \<Rightarrow> string \<times> custom_service \<Rightarrow> action option" where
  "deployment_action i cnt rnd ns =
     (let svc_name = fst ns; svc = snd ns; name = service_resource_name (deployment_name i) svc_name cnt in
      case (build_container i svc_name svc, depends_on_inits i cnt rnd {} (depends_on svc)) of
        (Some container, Some waits) \<Rightarrow>
          (let body = JObj
             [(''metadata'', metadata i name (deployment_labels i name svc_name)),
              (''spec'', JObj
                [(''replicas'', jint 1),
                 (''selector'', JObj [(''matchLabels'', jlabels [(''app'', name)])]),
                 (''strategy'', JObj [(''type'', js ''Recreate'')]),
                 (''template'', JObj
                   [(''metadata'', JObj [(''labels'', jlabels (template_labels i name svc_name svc))]),
                    (''spec'', pod_spec i svc container waits)])])] in
           Some \<lparr>a_kind = KDeployment, a_name = name, a_body = body, a_patch = body\<rparr>)
      | _ \<Rightarrow> None)"

definition k8s_service_name :: "deploy_input \<Rightarrow> nat \<Rightarrow> string \<Rightarrow> custom_port \<Rightarrow> string" where
  "k8s_service_name i cnt svc_name p =
     service_resource_name (deployment_name i) svc_name cnt @ ''-'' @ port_name p"

definition service_action :: "deploy_input \<Rightarrow> nat \<Rightarrow> string \<Rightarrow> custom_port \<Rightarrow> action" where
  "service_action i cnt svc_name p =
     (let owning = service_resource_name (deployment_name i) svc_name cnt;
          name = k8s_service_name i cnt svc_name p;
          ls = [(''app'', owning), (lbl ''deployment-id'', deployment_id i), (lbl ''owner'', ''custom-deployments''),
                (lbl ''stack-service'', svc_name)]
               @ (if ingress_eligible p then [(lbl ''ingress-eligible'', ''true'')] else []);
          ports = (''ports'', JArr [JObj [(''port'', JNumV (container_port p)), (''targetPort'', JNumV (container_port p)),
                                     (''protocol'', js (protocol p)), (''name'', js (port_name p))]]) in
      \<lparr>a_kind = KService, a_name = name,
       a_body = JObj [(''metadata'', metadata i name ls),
                      (''spec'', JObj [(''type'', js ''ClusterIP''), (''selector'', jlabels [(''app'', owning)]), ports])],
       a_patch = JObj [(''spec'', JObj [ports])]\<rparr>)"

section \<open>Applying\<close>

text \<open>The calls of \<open>deployCustomDeployment\<close> in order; \<open>None\<close> is an exception at that point.\<close>

definition deploy_plan :: "deploy_input \<Rightarrow> string \<Rightarrow> action option list" where
  "deploy_plan i rnd =
     (let svs = services (in_spec i); cnt = length svs in
      if cnt = 0 then [None]
      else
        map (\<lambda>f. Some (config_map_action i f)) (config_maps (in_spec i))
        @ map (\<lambda>f. Some (secret_action i f)) (spec_secrets (in_spec i))
        @ concat (map (\<lambda>ns. deployment_action i cnt rnd ns
            # map (\<lambda>p. Some (service_action i cnt (fst ns) p)) (filter expose_as_service (svc_ports (snd ns)))) svs))"

text \<open>What the API answers to a create, and to the patch after a conflict.\<close>

datatype api_result = Created | Conflict bool | Refused

text \<open>Create or patch, one after the other, up to the first failure: the actions that took effect, and
  whether all did.\<close>

fun run_plan :: "(action \<Rightarrow> api_result) \<Rightarrow> action option list \<Rightarrow> action list \<times> bool" where
  "run_plan api [] = ([], True)"
| "run_plan api (None # rest) = ([], False)"
| "run_plan api (Some a # rest) =
     (case api a of
        Refused \<Rightarrow> ([], False)
      | Conflict False \<Rightarrow> ([], False)
      | _ \<Rightarrow> (let (applied, ok) = run_plan api rest in (a # applied, ok)))"

end
