(* ===== verification/CustomDeployProps.thy ===== *)
theory CustomDeployProps
  imports CustomDeployInv CustomDeployer
begin

text \<open>
  The properties of custom deployments: what validation means, what a parsed stack is, what stored
  deployments satisfy after any sequence of operations, and what the rendered manifests guarantee.
\<close>

section \<open>Validation\<close>

text \<open>C25: The validator accepts a specification exactly when it satisfies the contract: the version, the
  number of services, every mount, variable and dependency declared, no repeated port, config or
  secret name, limits not below requests, no root without the admin flag, names within the DNS limit,
  and a dependency graph without a cycle (its depth-first search finds a cycle exactly when there is
  one).\<close>

theorem validator_decides_contract:
  assumes "distinct (map fst (services spec))"
  shows "fst (validate_custom_spec spec ctx) \<longleftrightarrow> spec_ok ctx spec"
  using validation_issues_iff [OF assms] by (simp add: validate_custom_spec_def Let_def)


lemma parse_service_rejects:
  "parse_service name (JObj r) files = Some (svc, is) \<Longrightarrow> set (reject_fields r (''services.'' @ name)) \<subseteq> set is"
  unfolding parse_service_def Let_def jv.case case_prod_beta
  by (elim bind_SomeE) (auto split: option.splits jv.splits if_splits)

text \<open>Every field of the deny list that a service of a well-named entry sets, and a true
  \<open>privileged\<close>, is reported as \<open>COMPOSE_FIELD_REJECTED\<close> at its path, whatever else the document
  holds.\<close>

theorem rejected_fields_are_reported:
  assumes "parse_compose yl compose_yaml files = Some (Some spec, issues)"
    and "yl compose_yaml = Some (JObj d)" and "field ''services'' d = Some (JObj svs)"
    and "(name, JObj r) \<in> set svs" and "rx_test CUSTOM_NAME_RE name"
    and "f \<in> set REJECTED_FIELDS \<and> field f r \<noteq> None \<or> f = ''privileged'' \<and> field f r = Some (JBool True)"
  shows "reject (''services.'' @ name) f \<in> set issues"
proof -
  obtain js where ps: "parse_services d svs files = Some (Some spec, js)" and "issues = top_level_issues d @ js"
    using assms(1-3) by (elim parse_compose_SomeD parse_document_SomeD) auto
  from ps obtain psvs i4 where c: "collect_opt (map (service_entry files) svs) = Some (psvs, i4)" and "set i4 \<subseteq> set js"
    by (elim parse_services_SomeD) auto
  obtain ys ks where e: "service_entry files (name, JObj r) = Some (ys, ks)" and "set ks \<subseteq> set i4"
    using c collect_opt_snd [OF c assms(4)] assms(4) unfolding collect_opt_map by (metis prod.collapse)
  have "reject (''services.'' @ name) f \<in> set (reject_fields r (''services.'' @ name))"
    using assms(6) by (auto simp: reject_fields_def)
  moreover have "set (reject_fields r (''services.'' @ name)) \<subseteq> set ks"
    using e assms(5)
    by (auto simp: service_entry_def dest: subsetD [OF parse_service_rejects])
  ultimately show ?thesis
    using \<open>set ks \<subseteq> set i4\<close> \<open>set i4 \<subseteq> set js\<close> \<open>issues = _\<close> by auto
qed

section \<open>Creating\<close>

text \<open>The parser's errors do not stop a deployment. When a specification comes back, only the issues of
  the validator decide: a stack whose parse reported an error, such as a rejected field or a bind
  mount, is stored and applied without the rejected parts.\<close>

theorem parser_errors_do_not_block:
  assumes "parse_compose (yaml_load env) (co_yaml input) (co_env_files input) = Some (Some spec, issues)"
    and "i \<in> set issues" and "is_error i"
    and "fst (validate_custom_spec spec (create_ctx settings role False (co_name input)))"
    and "custom_enabled settings" and "allow_compose settings" and "truthy (co_name input)"
    and "map_of (d_tenants w) tenant = Some ns" and "\<not> name_in_use w tenant (the (co_name input))"
    and "co_pull_credential input = None" and "map_of (d_creds w) ident = None" and "apply_spec env ident spec = None"
    and "ident \<notin> d_id ` set (d_rows w)"
  shows "\<exists>r. snd (create_compose_deployment env settings w ident tenant input role) = Inr r
           \<and> d_spec r = Some spec \<and> d_status r = ''deploying''"
proof -
  obtain name where name: "co_name input = Some name" using assms(7) by (auto simp: truthy_def split: option.splits)
  have none: "filter (\<lambda>r. d_id r = ident \<and> d_tenant r = tenant \<and> d_source r = CustomRow) (d_rows w) = []"
    using assms(13) by (auto simp: filter_empty_conv)
  show ?thesis
    using assms none
    by (auto simp: create_compose_deployment_def load_tenant_def Let_def name insert_and_deploy_def deploy_to_cluster_def
        get_custom_deployment_def new_row_def truthy_def)
qed

section \<open>Any sequence of operations\<close>


text \<open>No operation of one tenant changes, adds or removes a deployment of another tenant, also when it
  fails half way.\<close>

theorem tenants_are_isolated:
  assumes "custom_reachable w" and "custom_step tenant w w'"
  shows "filter (\<lambda>r. d_tenant r \<noteq> tenant) (d_rows w') = filter (\<lambda>r. d_tenant r \<noteq> tenant) (d_rows w)"
  using custom_step_ok [OF assms(2) custom_reachable_inv [OF assms(1)]] by (simp add: op_ok_def)

text \<open>C28: No stored custom deployment ever asks for uid or gid 0, also when an administrator has set
  \<open>allowRoot\<close>: a create always starts without the flag, so the validator rejects the ids, and no patch
  can change them. The flag has no effect on the users of the containers.\<close>

theorem no_deployment_runs_as_root:
  assumes "custom_reachable w" and "r \<in> set (d_rows w)" and "d_source r = CustomRow"
    and "d_spec r = Some spec" and "(name, svc) \<in> set (services spec)"
  shows "run_as_user svc \<noteq> Some 0 \<and> run_as_group svc \<noteq> Some 0"
proof -
  have "stored_ok (d_name r) spec"
    using custom_reachable_inv [OF assms(1)] assms(2-4) by (auto simp: deploy_inv_def row_ok_def)
  from stored_no_root [OF this assms(5)] show ?thesis by simp
qed

text \<open>A deployment with a pull credential whose token cannot be decrypted fails before the part of the
  code that records errors: the row that was just created stays \<open>deploying\<close> without an error.\<close>

theorem credential_error_leaves_deploying:
  assumes "map_of (d_creds w) ident = Some c" and "encryption_key env \<noteq> []"
    and "decrypt env (cr_cipher c) (encryption_key env) = None" and "d_id r = ident"
    and "d_status r = ''deploying''" and "d_error r = None"
  shows "insert_and_deploy env w r spec = (w\<lparr>d_rows := d_rows w @ [r]\<rparr>, Inl (ApiErr ''PAT_DECRYPT_FAILED'' 500))"
  using assms by (simp add: insert_and_deploy_def deploy_to_cluster_def load_decrypted_token_def)

section \<open>Manifests\<close>

lemma first_by_name_keys: "fst ` set (first_by_name seen vs) = fst ` set vs - seen"
  by (induction vs arbitrary: seen) auto

lemma volume_keys:
  "fst (pvc_volume i) = CLIENT_PVC_VOLUME_NAME"
  "fst (config_volume i vm) = config_map_volume_name (deployment_id i) (vm_name vm)"
  "fst (secret_volume i vm) = secret_volume_name (deployment_id i) (vm_name vm)"
  "fst (tmpfs_volume t) = tmpfs_volume_name (tmpfs_path t)"
  by (simp_all add: pvc_volume_def config_volume_def secret_volume_def tmpfs_volume_def Let_def)

text \<open>The pod of a service has exactly the volumes its mounts name: none is missing, so the API cannot
  refuse a mount, and none is left over.\<close>

theorem mounts_and_volumes_agree:
  "fst ` set (build_pod_volumes i svc) =
     mount_volume_name i ` set (volume_mounts svc) \<union> (tmpfs_volume_name \<circ> tmpfs_path) ` set (svc_tmpfs svc)"
proof -
  have split: "set (volume_mounts svc) = set (mounts_of_kind MVolume svc) \<union> set (mounts_of_kind MConfigMap svc)
      \<union> set (mounts_of_kind MSecret svc)"
    by (auto simp: mounts_of_kind_def intro: mount_kind.exhaust)
  have k: "vm \<in> set (mounts_of_kind k svc) \<Longrightarrow> mount_kind_of vm = k" for vm k by (simp add: mounts_of_kind_def)
  have "mount_volume_name i ` set (mounts_of_kind MVolume svc)
      = (if mounts_of_kind MVolume svc = [] then {} else {CLIENT_PVC_VOLUME_NAME})"
    using k by (auto simp: mount_volume_name_def image_iff) (metis hd_in_set)
  moreover have "mount_volume_name i ` set (mounts_of_kind MConfigMap svc)
      = (\<lambda>vm. config_map_volume_name (deployment_id i) (vm_name vm)) ` set (mounts_of_kind MConfigMap svc)"
    using k by (intro image_cong) (auto simp: mount_volume_name_def)
  moreover have "mount_volume_name i ` set (mounts_of_kind MSecret svc)
      = (\<lambda>vm. secret_volume_name (deployment_id i) (vm_name vm)) ` set (mounts_of_kind MSecret svc)"
    using k by (intro image_cong) (auto simp: mount_volume_name_def)
  ultimately show ?thesis
    by (simp add: build_pod_volumes_def split image_Un first_by_name_keys volume_keys image_image Un_assoc)
qed

text \<open>Two secrets of one service whose names agree on their first 48 characters get one pod volume, of
  the first secret: the second mount shows the first secret's content.\<close>

theorem long_secret_names_share_a_volume:
  assumes "take 48 (vm_name a) = take 48 (vm_name b)" and "8 \<le> length (deployment_id i)"
  shows "first_by_name {} (map (secret_volume i) [a, b]) = [secret_volume i a]
    \<and> secret_volume_name (deployment_id i) (vm_name b) = fst (secret_volume i a)"
proof -
  have "length (''cdsec-'' @ take 8 (deployment_id i) @ ''-'') = 15" using assms(2) by simp
  then have "secret_volume_name (deployment_id i) k = ''cdsec-'' @ take 8 (deployment_id i) @ ''-'' @ take 48 k" for k
    using assms(2) by (simp add: secret_volume_name_def numeral_eq_Suc)
  then have "secret_volume_name (deployment_id i) (vm_name b) = secret_volume_name (deployment_id i) (vm_name a)"
    using assms(1) by simp
  then show ?thesis by (simp add: volume_keys)
qed

text \<open>The label \<open>k\<close> of the pods of a service: the platform's own value for a key with the reserved
  prefix, otherwise the last value the tenant gave, otherwise the deployment's. So the forensic labels
  cannot be forged, while a tenant label \<open>app\<close> replaces the one the selector of the same deployment
  asks for.\<close>

theorem pod_labels_exact:
  "map_of (template_labels i name svc_name svc) k =
     (if starts_with k RESERVED_LABEL_PREFIX then map_of (deployment_labels i name svc_name) k
      else (case map_of (rev (case svc_labels svc of None \<Rightarrow> [] | Some m \<Rightarrow> m)) k of
              Some v \<Rightarrow> Some v
            | None \<Rightarrow> map_of (deployment_labels i name svc_name) k))"
proof -
  have f: "map_of (fold (\<lambda>(k, v). AList.update k v) es m) k
      = (case map_of (rev es) k of Some v \<Rightarrow> Some v | None \<Rightarrow> map_of m k)" for es and m :: "(string \<times> string) list"
    by (induction es arbitrary: m) (auto simp: update_conv' map_add_def split: option.splits)
  have g: "map_of (filter (\<lambda>kv. \<not> P (fst kv)) es) k = (if P k then None else map_of es k)" for P and es :: "(string \<times> string) list"
    by (induction es) auto
  have "map_of (rev (filter_service_labels (svc_labels svc))) k
      = (if starts_with k RESERVED_LABEL_PREFIX then None else map_of (rev (case svc_labels svc of None \<Rightarrow> [] | Some m \<Rightarrow> m)) k)"
    using g [of "\<lambda>k. starts_with k RESERVED_LABEL_PREFIX"]
    by (auto simp: filter_service_labels_def rev_filter split: option.split)
  then show ?thesis by (simp add: template_labels_def f)
qed

text \<open>Every Kubernetes Service of a stored deployment has a name of at most 63 characters, when its port
  names have at most 15, whatever was created and patched before.\<close>

theorem service_names_fit_dns:
  assumes "custom_reachable w" and "r \<in> set (d_rows w)" and "d_source r = CustomRow" and "d_spec r = Some spec"
    and "(name, svc) \<in> set (services spec)" and "p \<in> set (svc_ports svc)" and "expose_as_service p"
    and "length (port_name p) \<le> 15" and "deployment_name i = d_name r"
  shows "length (k8s_service_name i (length (services spec)) name p) \<le> 63"
proof -
  have ok: "spec_ok (stored_ctx (d_name r) spec) (spec\<lparr>allow_root := False\<rparr>)"
    using custom_reachable_inv [OF assms(1)] assms(2-4) by (auto simp: deploy_inv_def row_ok_def stored_ok_def)
  then have one: "source_mode spec \<noteq> ComposeMode \<Longrightarrow> length (services spec) = 1"
    by (simp add: spec_ok_def stored_ctx_def)
  have "exposes_ports svc" using assms(6,7) by (auto simp: exposes_ports_def)
  with ok assms(5) have "if source_mode spec \<noteq> ComposeMode then length (d_name r) \<le> 47
      else length (d_name r) + length name \<le> 46"
    by (fastforce simp: spec_ok_def stored_ctx_def names_fit_def)
  then show ?thesis
    using one assms(8,9) by (auto simp: k8s_service_name_def service_resource_name_def split: if_splits)
qed

section \<open>Witnesses\<close>

definition ex_priv_service :: "(string \<times> jv) list" where
  "ex_priv_service = [(''image'', JStr ''nginx:1.27''), (''privileged'', JBool True), (''ports'', JArr [JStr ''80''])]"

definition ex_priv_services :: "(string \<times> jv) list" where
  "ex_priv_services = [(''web'', JObj ex_priv_service)]"

definition ex_priv_doc :: "(string \<times> jv) list" where
  "ex_priv_doc = [(''services'', JObj ex_priv_services)]"

definition ex_port :: custom_port where
  "ex_port = exposed_port (JNum 80) ''p80'' ''TCP''"

definition ex_svc :: custom_service where
  "ex_svc = \<lparr>svc_image = ''nginx:1.27'', svc_command = None, svc_entrypoint = None, svc_env = [], svc_ports = [ex_port],
     volume_mounts = [], svc_resources = default_resources, svc_health = None, svc_restart = Always,
     run_as_user = None, run_as_group = None, working_dir = None, read_only_root = False, svc_tmpfs = [],
     cap_add = [], svc_sysctls = None, stop_grace_seconds = None, depends_on = [], svc_labels = None\<rparr>"

definition ex_spec :: custom_spec where
  "ex_spec = \<lparr>spec_version = 1, source_mode = ComposeMode, services = [(''web'', ex_svc)], spec_volumes = [],
     config_maps = [], spec_secrets = [], allow_root = False, pull_credential_id = None\<rparr>"

definition ex_issue :: issue where
  "ex_issue = reject ''services.web'' ''privileged''"

lemma ex_parse: "parse_compose (\<lambda>y. Some (JObj ex_priv_doc)) [] None = Some (Some ex_spec, [ex_issue])"
  by code_simp

definition ex_env :: deploy_env where
  "ex_env = \<lparr>yaml_load = (\<lambda>y. Some (JObj ex_priv_doc)), encryption_key = ''k'', encrypt = (\<lambda>t k. t),
     decrypt = (\<lambda>t k. None), put_secret = (\<lambda>a b. None), drop_secret = (\<lambda>a. None), apply_spec = (\<lambda>a b. None),
     delete_spec = (\<lambda>a. None)\<rparr>"

definition ex_settings :: deploy_settings where
  "ex_settings = \<lparr>custom_enabled = True, allow_compose = True, allow_private = True, warn_unpinned = True\<rparr>"

definition ex_input :: compose_input where
  "ex_input = \<lparr>co_name = Some ''stack'', co_yaml = [], co_env_files = None, co_pull_credential = None\<rparr>"

definition ex_world :: deploy_world where
  "ex_world = \<lparr>d_rows = [], d_creds = [], d_tenants = [(''t1'', ''ns1'')]\<rparr>"

definition ex_row :: deployment_row where
  "ex_row = new_row ''d1'' ''t1'' ''stack'' ex_spec ''100m'' ''128Mi''"

lemma ex_validated: "fst (validate_custom_spec ex_spec (create_ctx ex_settings TenantUser False (Some ''stack'')))"
  by code_simp

lemma ex_totals: "sum_resources ex_spec = (''100m'', ''128Mi'')"
  by code_simp

lemma ex_created:
  "fst (create_compose_deployment ex_env ex_settings ex_world ''d1'' ''t1'' ex_input TenantUser) = ex_world\<lparr>d_rows := [ex_row]\<rparr>"
  using ex_validated
  by (simp add: create_compose_deployment_def ex_env_def ex_settings_def ex_input_def ex_world_def load_tenant_def
      truthy_def ex_parse name_in_use_def Let_def ex_totals insert_and_deploy_def deploy_to_cluster_def ex_row_def)

lemma ex_yaml_wf: "yaml_wf ex_env"
  by (simp add: yaml_wf_def ex_env_def ex_priv_doc_def ex_priv_services_def ex_priv_service_def)

lemma ex_step: "custom_step ''t1'' ex_world (ex_world\<lparr>d_rows := [ex_row]\<rparr>)"
proof -
  have "''d1'' \<notin> d_id ` set (d_rows ex_world)" by (simp add: ex_world_def)
  then show ?thesis
    using custom_step.create_compose [of "''d1''" ex_world ex_env "''t1''" ex_settings ex_input TenantUser] ex_yaml_wf
    unfolding ex_created by blast
qed

lemma ex_reachable: "custom_reachable (ex_world\<lparr>d_rows := [ex_row]\<rparr>)"
  by (rule custom_reachable.next_op [OF custom_reachable.start ex_step]) (simp add: ex_world_def)

theorem validator_decides_contract_witness:
  "fst (validate_custom_spec ex_spec (create_ctx ex_settings TenantUser False (Some ''stack'')))
     \<longleftrightarrow> spec_ok (create_ctx ex_settings TenantUser False (Some ''stack'')) ex_spec"
  by (rule validator_decides_contract) (simp add: ex_spec_def)


theorem rejected_fields_are_reported_witness: "reject ''services.web'' ''privileged'' \<in> set [ex_issue]"
proof -
  have "reject (''services.'' @ ''web'') ''privileged'' \<in> set [ex_issue]"
  proof (rule rejected_fields_are_reported [OF ex_parse, where d = ex_priv_doc and svs = ex_priv_services and r = ex_priv_service])
    show "rx_test CUSTOM_NAME_RE ''web''" by code_simp
    show "(''web'', JObj ex_priv_service) \<in> set ex_priv_services" by (simp add: ex_priv_services_def)
  qed (simp_all add: ex_priv_doc_def ex_priv_service_def field_def)
  then show ?thesis by simp
qed

theorem parser_errors_do_not_block_witness:
  "\<exists>r. snd (create_compose_deployment ex_env ex_settings ex_world ''d1'' ''t1'' ex_input TenantUser) = Inr r
     \<and> d_spec r = Some ex_spec \<and> d_status r = ''deploying''"
proof (rule parser_errors_do_not_block)
  show "parse_compose (yaml_load ex_env) (co_yaml ex_input) (co_env_files ex_input) = Some (Some ex_spec, [ex_issue])"
    using ex_parse by (simp add: ex_env_def ex_input_def)
  show "ex_issue \<in> set [ex_issue]" by simp
  show "is_error ex_issue" by (simp add: ex_issue_def reject_def)
  show "fst (validate_custom_spec ex_spec (create_ctx ex_settings TenantUser False (co_name ex_input)))"
    using ex_validated by (simp add: ex_input_def)
  show "map_of (d_tenants ex_world) ''t1'' = Some ''ns1''" by (simp add: ex_world_def)
qed (simp_all add: ex_settings_def ex_input_def ex_world_def ex_env_def truthy_def name_in_use_def)


theorem tenants_are_isolated_witness:
  "filter (\<lambda>r. d_tenant r \<noteq> ''t1'') [ex_row] = []"
  using tenants_are_isolated [OF custom_reachable.start ex_step] by (simp add: ex_world_def)

theorem no_deployment_runs_as_root_witness: "run_as_user ex_svc \<noteq> Some 0 \<and> run_as_group ex_svc \<noteq> Some 0"
  by (rule no_deployment_runs_as_root [OF ex_reachable, where r = ex_row and spec = ex_spec and name = "''web''"])
    (simp_all add: ex_row_def ex_spec_def)

definition ex_cred :: credential where
  "ex_cred = \<lparr>cr_id = ''c1'', cr_registry = ''ghcr.io'', cr_username = ''u'', cr_cipher = ''x'', cr_last_four = ''abcd''\<rparr>"

theorem credential_error_leaves_deploying_witness:
  "insert_and_deploy ex_env (ex_world\<lparr>d_creds := [(''d1'', ex_cred)]\<rparr>) ex_row ex_spec
     = (ex_world\<lparr>d_creds := [(''d1'', ex_cred)], d_rows := [ex_row]\<rparr>, Inl (ApiErr ''PAT_DECRYPT_FAILED'' 500))"
  using credential_error_leaves_deploying [of "ex_world\<lparr>d_creds := [(''d1'', ex_cred)]\<rparr>" "''d1''" ex_cred ex_env ex_row ex_spec]
  by (simp add: ex_world_def ex_env_def ex_row_def new_row_def)

definition ex_deploy_input :: deploy_input where
  "ex_deploy_input = \<lparr>deployment_id = ''12345678-9abc'', deployment_name = ''stack'', namespace = ''ns1'',
     storage_sub_path = ''custom-deployment/stack'', in_spec = ex_spec, has_pull_credential = False,
     node_name = None, storage_tier = None\<rparr>"

definition ex_mount :: "string \<Rightarrow> volume_mount" where
  "ex_mount n = \<lparr>vm_kind = Some MSecret, vm_name = n, container_path = ''/s'', vm_read_only = True\<rparr>"

theorem long_secret_names_share_a_volume_witness:
  "first_by_name {} (map (secret_volume ex_deploy_input) [ex_mount (replicate 48 (CHR ''a'') @ ''1''), ex_mount (replicate 48 (CHR ''a'') @ ''2'')])
     = [secret_volume ex_deploy_input (ex_mount (replicate 48 (CHR ''a'') @ ''1''))]"
  using long_secret_names_share_a_volume
    [of "ex_mount (replicate 48 (CHR ''a'') @ ''1'')" "ex_mount (replicate 48 (CHR ''a'') @ ''2'')" ex_deploy_input]
  by (simp add: ex_mount_def ex_deploy_input_def)

theorem service_names_fit_dns_witness: "length (k8s_service_name ex_deploy_input 1 ''web'' ex_port) \<le> 63"
  using service_names_fit_dns [OF ex_reachable, of ex_row ex_spec "''web''" ex_svc ex_port ex_deploy_input]
  by (simp add: ex_row_def ex_spec_def ex_svc_def ex_port_def exposed_port_def ex_deploy_input_def)

end
