(* ===== verification/Tables.thy ===== *)
theory Tables
  imports Prelude
begin

text \<open>
  Database tables as lists of records in insertion order: the query of one row, the update of the rows that satisfy a
  condition, and what a query finds after an update. The status of a tenant (\<open>db/schema.ts\<close>) is read by several parts.
\<close>

datatype tenant_status = TenantActive | TenantSuspended | TenantArchived | TenantPending

section \<open>Tables\<close>

text \<open>\<open>first p xs\<close>: the row of a query with \<open>LIMIT 1\<close>. \<open>set_where\<close>: an \<open>UPDATE\<close>.\<close>

definition first :: "('a \<Rightarrow> bool) \<Rightarrow> 'a list \<Rightarrow> 'a option" where
  "first p xs = (case filter p xs of [] \<Rightarrow> None | x # _ \<Rightarrow> Some x)"

definition set_where :: "('a \<Rightarrow> bool) \<Rightarrow> ('a \<Rightarrow> 'a) \<Rightarrow> 'a list \<Rightarrow> 'a list" where
  "set_where p f = map (\<lambda>x. if p x then f x else x)"

section \<open>Queries and updates\<close>

lemma first_SomeD: "first p xs = Some x \<Longrightarrow> x \<in> set xs \<and> p x"
  unfolding first_def by (cases "filter p xs") (auto dest: filter_eq_ConsD)

lemma first_NoneD: "first p xs = None \<Longrightarrow> x \<in> set xs \<Longrightarrow> \<not> p x"
  unfolding first_def by (cases "filter p xs") (auto simp: filter_empty_conv)

lemma first_None_iff: "first p xs = None \<longleftrightarrow> (\<forall>x \<in> set xs. \<not> p x)"
  unfolding first_def by (cases "filter p xs") (auto simp: filter_empty_conv dest: filter_eq_ConsD)

lemma first_unique:
  assumes "distinct (map k xs)" and "x \<in> set xs" and "p x" and "\<And>y. y \<in> set xs \<Longrightarrow> p y \<Longrightarrow> k y = k x"
  shows "first p xs = Some x"
proof -
  obtain y where y: "first p xs = Some y" using assms(2,3) by (cases "first p xs") (auto simp: first_None_iff)
  with assms show ?thesis by (auto dest!: first_SomeD simp: distinct_map inj_on_def)
qed

lemma map_set_where: "(\<And>x. p x \<Longrightarrow> g (f x) = g x) \<Longrightarrow> map g (set_where p f xs) = map g xs"
  by (simp add: set_where_def)

lemma set_set_where: "set (set_where p f xs) = {if p x then f x else x | x. x \<in> set xs}"
  by (auto simp: set_where_def)

lemma in_set_where: "y \<in> set (set_where p f xs) \<Longrightarrow> (\<And>x. x \<in> set xs \<Longrightarrow> y = (if p x then f x else x) \<Longrightarrow> P) \<Longrightarrow> P"
  by (auto simp: set_where_def)

lemma length_filter_set_where:
  "(\<And>x. x \<in> set xs \<Longrightarrow> p x \<Longrightarrow> q (f x) \<Longrightarrow> q x) \<Longrightarrow> length (filter q (set_where p f xs)) \<le> length (filter q xs)"
  by (induction xs) (auto simp: set_where_def)

lemma length_filter_mono: "(\<And>x. x \<in> set xs \<Longrightarrow> q x \<Longrightarrow> q' x) \<Longrightarrow> length (filter q xs) \<le> length (filter q' xs)"
  by (induction xs) auto

lemma distinct_map_filterI: "distinct (map g xs) \<Longrightarrow> distinct (map g (filter p xs))"
  by (simp add: distinct_map inj_on_def)

lemma first_set_where:
  "(\<And>x. p x \<Longrightarrow> q (f x) = q x) \<Longrightarrow> first q (set_where p f xs) = map_option (\<lambda>x. if p x then f x else x) (first q xs)"
  by (induction xs) (auto simp: first_def set_where_def)

lemma filter_set_where_other: "(\<And>x. p x \<Longrightarrow> \<not> q x \<and> \<not> q (f x)) \<Longrightarrow> filter q (set_where p f xs) = filter q xs"
  by (induction xs) (auto simp: set_where_def)

lemma first_append: "first q (xs @ ys) = (case first q xs of None \<Rightarrow> first q ys | Some x \<Rightarrow> Some x)"
  by (auto simp: first_def split: list.split)

lemma short_list_unique: "length xs \<le> 1 \<Longrightarrow> x \<in> set xs \<Longrightarrow> y \<in> set xs \<Longrightarrow> x = y"
  by (cases xs) auto

end
