(* ===== verification/AuthState.thy ===== *)
theory AuthState
  imports Tables
begin

text \<open>
  Accounts and sessions: the tables \<open>users\<close>, \<open>refresh_tokens\<close>, \<open>user_passkeys\<close>, \<open>passkey_challenges\<close> and
  \<open>auth_consumed_tokens\<close> (\<open>db/schema.ts\<close>), the surroundings of the authentication code, and the service
  of refresh tokens (\<open>modules/auth/refresh-token-service.ts\<close>).

  Times are milliseconds. Hashing, bcrypt, the JWT library and WebAuthn are parameters; random values are
  arguments (\<open>fresh\<close>). User agent and address of a session are not kept. A table is a list in insertion
  order, which is also the order of \<open>issued_at\<close>.
\<close>

section \<open>Rows\<close>

datatype panel = AdminPanel | TenantPanel

datatype user_status = UserActive | UserDisabled | UserPending

datatype passkey_mode = Alternative | SecondFactor

record user_row =
  usr_id :: string
  usr_email :: string
  usr_hash :: "string option"
  usr_name :: string
  usr_role :: string
  usr_panel :: panel
  usr_tenant :: "string option"
  usr_status :: user_status
  usr_timezone :: "string option"
  usr_mode :: "passkey_mode option"
  usr_handle :: "string option"
  usr_last_login :: "int option"
  usr_last_check :: "int option"
  usr_last_step_up :: "int option"

datatype revoked_reason = Logout | Rotated | ReuseRevoked | PasswordChange | AdminRevoke

text \<open>\<open>revoked_at\<close> and \<open>revoked_reason\<close> are always written together.\<close>

record refresh_row =
  rt_id :: string
  rt_user :: string
  rt_family :: string
  rt_hash :: string
  rt_panel :: panel
  rt_tenant :: "string option"
  rt_issued :: int
  rt_expires :: int
  rt_last_used :: "int option"
  rt_revoked :: "(int \<times> revoked_reason) option"

record passkey_row =
  pk_id :: string
  pk_user :: string
  pk_credential :: string
  pk_key :: string
  pk_count :: int
  pk_nickname :: string
  pk_last_used :: "int option"

datatype challenge_purpose = ForRegister | ForUserless | For2fa

record challenge_row =
  ch_id :: string
  ch_challenge :: string
  ch_purpose :: challenge_purpose
  ch_panel :: panel
  ch_user :: "string option"
  ch_expires :: int
  ch_consumed :: "int option"

record consumed_row =
  ct_jti :: string
  ct_user :: string
  ct_expires :: int

text \<open>All tables, the status of every tenant, and the two switches of \<open>system_settings\<close>.\<close>

record auth_world =
  aw_users :: "user_row list"
  aw_tenants :: "(string \<times> tenant_status) list"
  aw_refresh :: "refresh_row list"
  aw_passkeys :: "passkey_row list"
  aw_challenges :: "challenge_row list"
  aw_consumed :: "consumed_row list"
  aw_local_off_admin :: bool
  aw_local_off_tenant :: bool

section \<open>Surroundings\<close>

text \<open>The payload of a JWT: an access token has a role, the token of a first login step has \<open>step\<close>.\<close>

record jwt_claims =
  cl_sub :: string
  cl_role :: "string option"
  cl_panel :: panel
  cl_tenant :: "string option"
  cl_by :: "string option"
  cl_step :: "string option"
  cl_exp :: int
  cl_iat :: int
  cl_jti :: string

text \<open>The parsed answer of an authenticator. \<open>as_challenge\<close> is \<open>None\<close> when the client data is no JSON.\<close>

record assertion =
  as_challenge :: "string option"
  as_handle :: "string option"
  as_credential :: string
  as_signature :: string

text \<open>\<open>ae_verify\<close> and \<open>ae_register\<close> are the WebAuthn library: \<open>None\<close> when it throws, else whether the
  signature is valid, with the new counter, or the credential with its key and counter. \<open>ae_bearer\<close> is what
  \<open>request.jwtVerify\<close> reads from the header.\<close>

record auth_env =
  ae_now :: int
  ae_sha256 :: "string \<Rightarrow> string"
  ae_bcrypt_check :: "string \<Rightarrow> string \<Rightarrow> bool"
  ae_bcrypt_hash :: "string \<Rightarrow> string"
  ae_sign :: "jwt_claims \<Rightarrow> string"
  ae_jwt :: "string \<Rightarrow> jwt_claims option"
  ae_bearer :: "string \<Rightarrow> string option"
  ae_verify :: "assertion \<Rightarrow> string \<Rightarrow> passkey_row \<Rightarrow> (bool \<times> int) option"
  ae_register :: "assertion \<Rightarrow> string \<Rightarrow> (string \<times> string \<times> int) option option"
  ae_email_ok :: "string \<Rightarrow> bool"

text \<open>The random values one request may draw.\<close>

record fresh =
  fr_id :: string
  fr_family :: string
  fr_secret :: string
  fr_jti :: string
  fr_challenge :: string
  fr_handle :: string

record http_request =
  rq_authorization :: "string option"
  rq_cookie :: "string option"
  rq_body_refresh :: "string option"

text \<open>An \<open>ApiError\<close> with its code and status, or any other exception.\<close>

datatype auth_error = AuthErr string nat | AuthThrown

type_synonym 'a auth_result = "auth_world \<times> (auth_error + 'a)"

definition invalid_token :: auth_error where
  "invalid_token = AuthErr ''INVALID_TOKEN'' 401"

definition missing_token :: auth_error where
  "missing_token = AuthErr ''MISSING_BEARER_TOKEN'' 401"

definition insufficient_permissions :: auth_error where
  "insufficient_permissions = AuthErr ''INSUFFICIENT_PERMISSIONS'' 403"

section \<open>Users\<close>

definition user_by_id :: "auth_world \<Rightarrow> string \<Rightarrow> user_row option" where
  "user_by_id w ident = first (\<lambda>u. usr_id u = ident) (aw_users w)"

definition update_user :: "string \<Rightarrow> (user_row \<Rightarrow> user_row) \<Rightarrow> auth_world \<Rightarrow> auth_world" where
  "update_user ident f w = w\<lparr>aw_users := set_where (\<lambda>u. usr_id u = ident) f (aw_users w)\<rparr>"

definition tenant_archived :: "auth_world \<Rightarrow> string option \<Rightarrow> bool" where
  "tenant_archived w t =
     (case t of None \<Rightarrow> False | Some tid \<Rightarrow> map_of (aw_tenants w) tid = Some TenantArchived)"

definition is_local_auth_disabled :: "auth_world \<Rightarrow> panel \<Rightarrow> bool" where
  "is_local_auth_disabled w p = (if p = AdminPanel then aw_local_off_admin w else aw_local_off_tenant w)"

section \<open>Refresh tokens\<close>

definition REFRESH_TOKEN_TTL_SECONDS :: int where
  "REFRESH_TOKEN_TTL_SECONDS = 24 * 60 * 60"

definition ACCESS_TOKEN_TTL_SECONDS :: int where
  "ACCESS_TOKEN_TTL_SECONDS = 30 * 60"

definition hash_refresh_token :: "auth_env \<Rightarrow> string \<Rightarrow> string" where
  "hash_refresh_token env token = ae_sha256 env token"

text \<open>The row of a new token; a family is given when a token is rotated.\<close>

definition new_refresh_row :: "auth_env \<Rightarrow> fresh \<Rightarrow> string \<Rightarrow> panel \<Rightarrow> string option \<Rightarrow> string option \<Rightarrow> refresh_row" where
  "new_refresh_row env fr user p tenant family =
     \<lparr>rt_id = fr_id fr, rt_user = user, rt_family = (case family of Some f \<Rightarrow> f | None \<Rightarrow> fr_family fr),
      rt_hash = hash_refresh_token env (fr_secret fr), rt_panel = p, rt_tenant = tenant, rt_issued = ae_now env,
      rt_expires = ae_now env + REFRESH_TOKEN_TTL_SECONDS * 1000, rt_last_used = None, rt_revoked = None\<rparr>"

definition issue_refresh_token ::
    "auth_env \<Rightarrow> fresh \<Rightarrow> string \<Rightarrow> panel \<Rightarrow> string option \<Rightarrow> string option \<Rightarrow> auth_world \<Rightarrow> auth_world \<times> string" where
  "issue_refresh_token env fr user p tenant family w =
     (w\<lparr>aw_refresh := aw_refresh w @ [new_refresh_row env fr user p tenant family]\<rparr>, fr_secret fr)"

datatype token_failure = TokNotFound | TokExpired | TokRevoked | TokReuse

datatype validation = TokOk refresh_row | TokBad token_failure

definition revoke_where :: "auth_env \<Rightarrow> revoked_reason \<Rightarrow> (refresh_row \<Rightarrow> bool) \<Rightarrow> auth_world \<Rightarrow> auth_world" where
  "revoke_where env reason p w =
     w\<lparr>aw_refresh := set_where (\<lambda>r. p r \<and> rt_revoked r = None)
        (\<lambda>r. r\<lparr>rt_revoked := Some (ae_now env, reason)\<rparr>) (aw_refresh w)\<rparr>"

definition validate_refresh_token :: "auth_env \<Rightarrow> string \<Rightarrow> auth_world \<Rightarrow> auth_world \<times> validation" where
  "validate_refresh_token env presented w =
     (case first (\<lambda>r. rt_hash r = hash_refresh_token env presented) (aw_refresh w) of
        None \<Rightarrow> (w, TokBad TokNotFound)
      | Some r \<Rightarrow>
          (case rt_revoked r of
             Some (_, reason) \<Rightarrow>
               (if reason = Rotated
                then (revoke_where env ReuseRevoked (\<lambda>x. rt_family x = rt_family r) w, TokBad TokReuse)
                else (w, TokBad TokRevoked))
           | None \<Rightarrow> if rt_expires r < ae_now env then (w, TokBad TokExpired) else (w, TokOk r)))"

definition revoke_refresh_token_by_id :: "auth_env \<Rightarrow> string \<Rightarrow> revoked_reason \<Rightarrow> auth_world \<Rightarrow> auth_world" where
  "revoke_refresh_token_by_id env ident reason = revoke_where env reason (\<lambda>r. rt_id r = ident)"

definition revoke_all_user_refresh_tokens ::
    "auth_env \<Rightarrow> string \<Rightarrow> revoked_reason \<Rightarrow> string option \<Rightarrow> auth_world \<Rightarrow> auth_world" where
  "revoke_all_user_refresh_tokens env user reason keep =
     revoke_where env reason (\<lambda>r. rt_user r = user \<and> (case keep of Some k \<Rightarrow> rt_id r \<noteq> k | None \<Rightarrow> True))"

definition active_row :: "auth_env \<Rightarrow> refresh_row \<Rightarrow> bool" where
  "active_row env r = (rt_revoked r = None \<and> ae_now env < rt_expires r)"

definition list_active_sessions_for_user :: "auth_env \<Rightarrow> auth_world \<Rightarrow> string \<Rightarrow> refresh_row list" where
  "list_active_sessions_for_user env w user =
     rev (filter (\<lambda>r. rt_user r = user \<and> active_row env r) (aw_refresh w))"

definition find_session_id_by_hash :: "auth_env \<Rightarrow> auth_world \<Rightarrow> string \<Rightarrow> string option" where
  "find_session_id_by_hash env w h = map_option rt_id (first (\<lambda>r. rt_hash r = h \<and> active_row env r) (aw_refresh w))"

definition prune_expired_refresh_tokens :: "auth_env \<Rightarrow> auth_world \<Rightarrow> auth_world" where
  "prune_expired_refresh_tokens env w =
     w\<lparr>aw_refresh := filter (\<lambda>r. \<not> rt_expires r < ae_now env - 7 * 24 * 60 * 60 * 1000) (aw_refresh w)\<rparr>"

definition touch_last_used :: "auth_env \<Rightarrow> string \<Rightarrow> auth_world \<Rightarrow> auth_world" where
  "touch_last_used env ident w =
     w\<lparr>aw_refresh := set_where (\<lambda>r. rt_id r = ident \<and> rt_revoked r = None)
        (\<lambda>r. r\<lparr>rt_last_used := Some (ae_now env)\<rparr>) (aw_refresh w)\<rparr>"

end
