(* ===== verification/AuthHooks.thy ===== *)
theory AuthHooks
  imports AuthState
begin

text \<open>
  The guards in front of every route (\<open>middleware/auth.ts\<close>): cookie extraction, authentication by bearer
  token, and the checks of panel, role and tenant. \<open>skip\<close> is the route's \<open>skipAuth\<close> flag. A guard returns
  the error it hands to \<open>done\<close>; \<open>None\<close> lets the request pass.
\<close>

section \<open>Reading the request\<close>

definition PLATFORM_SESSION_COOKIE :: string where
  "PLATFORM_SESSION_COOKIE = ''platform_session''"

text \<open>The loop over the pairs of a cookie header: the first pair with the name decides, also when it is empty.\<close>

fun find_cookie :: "string \<Rightarrow> string list \<Rightarrow> string option" where
  "find_cookie wanted [] = None"
| "find_cookie wanted (pair # rest) =
     (case index_of (CHR ''='') pair of
        None \<Rightarrow> find_cookie wanted rest
      | Some eq \<Rightarrow>
          (if js_trim (take eq pair) \<noteq> wanted then find_cookie wanted rest
           else (let value = js_trim (drop (Suc eq) pair) in if value \<noteq> [] then Some value else None)))"

definition extract_cookie :: "string \<Rightarrow> string option \<Rightarrow> string option" where
  "extract_cookie wanted header =
     (case header of
        None \<Rightarrow> None
      | Some h \<Rightarrow> if h = [] then None else find_cookie wanted (split_on (CHR '';'') h))"

definition extract_platform_session_cookie :: "string option \<Rightarrow> string option" where
  "extract_platform_session_cookie header = extract_cookie PLATFORM_SESSION_COOKIE header"

section \<open>Guards\<close>

definition authenticate :: "auth_env \<Rightarrow> bool \<Rightarrow> http_request \<Rightarrow> auth_error + jwt_claims option" where
  "authenticate env skip rq =
     (if skip then Inr None
      else (case rq_authorization rq of
              None \<Rightarrow> Inl missing_token
            | Some h \<Rightarrow>
                (if \<not> starts_with h ''Bearer '' then Inl missing_token
                 else (case ae_jwt env (drop 7 h) of
                         None \<Rightarrow> Inl invalid_token
                       | Some c \<Rightarrow> Inr (Some c)))))"

type_synonym guard = "jwt_claims option \<Rightarrow> auth_error option"

definition require_panel :: "bool \<Rightarrow> panel \<Rightarrow> guard" where
  "require_panel skip p user =
     (if skip then None
      else (case user of
              Some c \<Rightarrow> if cl_panel c = p then None else Some (AuthErr ''PANEL_ACCESS_DENIED'' 403)
            | None \<Rightarrow> Some (AuthErr ''PANEL_ACCESS_DENIED'' 403)))"

definition has_role :: "string list \<Rightarrow> jwt_claims \<Rightarrow> bool" where
  "has_role roles c = (case cl_role c of Some r \<Rightarrow> r \<in> set roles | None \<Rightarrow> False)"

definition require_role :: "bool \<Rightarrow> string list \<Rightarrow> guard" where
  "require_role skip roles user =
     (if skip then None
      else (case user of
              Some c \<Rightarrow> if has_role roles c then None else Some insufficient_permissions
            | None \<Rightarrow> Some insufficient_permissions))"

definition READ_ROLES :: "string list" where
  "READ_ROLES = [''super_admin'', ''admin'', ''support'', ''tenant_admin'', ''tenant_user'']"

definition WRITE_ROLES :: "string list" where
  "WRITE_ROLES = [''super_admin'', ''admin'', ''support'', ''tenant_admin'']"

definition is_write :: "string \<Rightarrow> bool" where
  "is_write http_method = (to_upper http_method \<notin> {''GET'', ''HEAD'', ''OPTIONS''})"

definition require_tenant_role_by_method :: "string \<Rightarrow> guard" where
  "require_tenant_role_by_method http_method user =
     (case user of
        None \<Rightarrow> Some invalid_token
      | Some c \<Rightarrow> if has_role (if is_write http_method then WRITE_ROLES else READ_ROLES) c
                   then None else Some insufficient_permissions)"

text \<open>The path parameters the tenant guard reads: \<open>params.tenantId ?? params.id\<close>.\<close>

definition non_empty :: "string option \<Rightarrow> bool" where
  "non_empty s = (case s of Some x \<Rightarrow> x \<noteq> [] | None \<Rightarrow> False)"

definition require_tenant_access :: "string option \<Rightarrow> string option \<Rightarrow> guard" where
  "require_tenant_access p_tenant p_id user =
     (case user of
        None \<Rightarrow> Some invalid_token
      | Some c \<Rightarrow>
          (if cl_panel c \<noteq> TenantPanel then None
           else if \<not> non_empty (cl_tenant c) then Some (AuthErr ''CLIENT_ACCESS_DENIED'' 403)
           else (let requested = (case p_tenant of Some t \<Rightarrow> Some t | None \<Rightarrow> p_id) in
                 if non_empty requested \<and> requested \<noteq> cl_tenant c
                 then Some (AuthErr ''CLIENT_ACCESS_DENIED'' 403) else None)))"

text \<open>The hooks of a route run in order; the first error ends the request.\<close>

fun run_guards :: "guard list \<Rightarrow> jwt_claims option \<Rightarrow> auth_error option" where
  "run_guards [] user = None"
| "run_guards (g # gs) user = (case g user of Some e \<Rightarrow> Some e | None \<Rightarrow> run_guards gs user)"

definition guarded :: "auth_env \<Rightarrow> bool \<Rightarrow> http_request \<Rightarrow> guard list \<Rightarrow> auth_error + jwt_claims option" where
  "guarded env skip rq gs =
     (case authenticate env skip rq of
        Inl e \<Rightarrow> Inl e
      | Inr user \<Rightarrow> (case run_guards gs user of Some e \<Rightarrow> Inl e | None \<Rightarrow> Inr user))"

text \<open>The chains of two plugins: the routes below \<open>/tenants/:id\<close> that are open to tenants, and the list of the
  cron jobs of all tenants (\<open>cron-jobs/routes.ts\<close>), which has no path parameter and no further guard.\<close>

definition tenant_route_guards :: "string \<Rightarrow> string \<Rightarrow> guard list" where
  "tenant_route_guards http_method tenant = [require_tenant_role_by_method http_method, require_tenant_access None (Some tenant)]"

definition all_cron_jobs_guards :: "guard list" where
  "all_cron_jobs_guards = [require_tenant_role_by_method ''GET'', require_tenant_access None None]"

section \<open>What the guards let pass\<close>

lemma run_guards_None: "run_guards gs user = None \<longleftrightarrow> (\<forall>g \<in> set gs. g user = None)"
  by (induction gs) (auto split: option.splits)

lemma authenticate_claims: "authenticate env False rq = Inr user \<longleftrightarrow>
    (\<exists>h c. rq_authorization rq = Some h \<and> starts_with h ''Bearer '' \<and> ae_jwt env (drop 7 h) = Some c \<and> user = Some c)"
  by (auto simp: authenticate_def split: option.splits if_splits)

lemma guarded_Inr: "guarded env False rq gs = Inr user \<longleftrightarrow>
    authenticate env False rq = Inr user \<and> (\<forall>g \<in> set gs. g user = None)"
  unfolding run_guards_None [symmetric] by (auto simp: guarded_def split: sum.splits option.splits)

lemma no_role_no_entry: "cl_role c = None \<Longrightarrow> require_role False roles (Some c) = Some insufficient_permissions"
  by (simp add: require_role_def has_role_def)

end
