(* ===== verification/Passkeys.thy ===== *)
theory Passkeys
  imports AuthState
begin

text \<open>
  Passkeys (\<open>modules/auth/passkey-service.ts\<close>): challenges, the single-use tokens of a two-step login,
  registration, authentication, and the mode of an account. A challenge and an assertion are compared as byte
  strings.
\<close>

definition CHALLENGE_TTL_MS :: int where
  "CHALLENGE_TTL_MS = 5 * 60 * 1000"

definition PRE_AUTH_TOKEN_TTL_MS :: int where
  "PRE_AUTH_TOKEN_TTL_MS = 5 * 60 * 1000"

section \<open>Challenges\<close>

definition get_or_create_passkey_user_handle :: "fresh \<Rightarrow> string \<Rightarrow> auth_world \<Rightarrow> string auth_result" where
  "get_or_create_passkey_user_handle fr user w =
     (case user_by_id w user of
        None \<Rightarrow> (w, Inl (AuthErr ''USER_NOT_FOUND'' 404))
      | Some u \<Rightarrow>
          (case usr_handle u of
             Some h \<Rightarrow> if h \<noteq> [] then (w, Inr h)
                        else (update_user user (usr_handle_update (\<lambda>_. Some (fr_handle fr))) w, Inr (fr_handle fr))
           | None \<Rightarrow> (update_user user (usr_handle_update (\<lambda>_. Some (fr_handle fr))) w, Inr (fr_handle fr))))"

definition find_user_by_handle :: "auth_world \<Rightarrow> string \<Rightarrow> user_row option" where
  "find_user_by_handle w h = first (\<lambda>u. usr_handle u = Some h) (aw_users w)"

definition persist_challenge ::
    "auth_env \<Rightarrow> fresh \<Rightarrow> challenge_purpose \<Rightarrow> panel \<Rightarrow> string option \<Rightarrow> auth_world \<Rightarrow> auth_world" where
  "persist_challenge env fr purpose p user w =
     w\<lparr>aw_challenges := aw_challenges w @
        [\<lparr>ch_id = fr_id fr, ch_challenge = fr_challenge fr, ch_purpose = purpose, ch_panel = p, ch_user = user,
          ch_expires = ae_now env + CHALLENGE_TTL_MS, ch_consumed = None\<rparr>]\<rparr>"

definition challenge_error ::
    "auth_env \<Rightarrow> challenge_purpose \<Rightarrow> panel \<Rightarrow> string option \<Rightarrow> challenge_row \<Rightarrow> auth_error option" where
  "challenge_error env purpose p user r =
     (if ch_consumed r \<noteq> None then Some (AuthErr ''PASSKEY_CHALLENGE_REPLAY'' 400)
      else if ch_expires r < ae_now env then Some (AuthErr ''PASSKEY_CHALLENGE_EXPIRED'' 400)
      else if ch_purpose r \<noteq> purpose then Some (AuthErr ''PASSKEY_CHALLENGE_PURPOSE_MISMATCH'' 400)
      else if ch_panel r \<noteq> p then Some (AuthErr ''PASSKEY_CHALLENGE_PANEL_MISMATCH'' 400)
      else if user \<noteq> None \<and> ch_user r \<noteq> user then Some (AuthErr ''PASSKEY_CHALLENGE_USER_MISMATCH'' 400)
      else None)"

definition consume_challenge ::
    "auth_env \<Rightarrow> string \<Rightarrow> challenge_purpose \<Rightarrow> panel \<Rightarrow> string option \<Rightarrow> auth_world \<Rightarrow> unit auth_result" where
  "consume_challenge env challenge purpose p user w =
     (case first (\<lambda>r. ch_challenge r = challenge) (aw_challenges w) of
        None \<Rightarrow> (w, Inl (AuthErr ''PASSKEY_CHALLENGE_INVALID'' 400))
      | Some r \<Rightarrow>
          (case challenge_error env purpose p user r of
             Some e \<Rightarrow> (w, Inl e)
           | None \<Rightarrow> (w\<lparr>aw_challenges := set_where (\<lambda>x. ch_id x = ch_id r)
                          (ch_consumed_update (\<lambda>_. Some (ae_now env))) (aw_challenges w)\<rparr>, Inr ())))"

definition prune_expired_challenges :: "auth_env \<Rightarrow> auth_world \<Rightarrow> auth_world" where
  "prune_expired_challenges env w =
     w\<lparr>aw_challenges := filter (\<lambda>r. \<not> ch_expires r < ae_now env) (aw_challenges w)\<rparr>"

definition prune_expired_consumed_tokens :: "auth_env \<Rightarrow> auth_world \<Rightarrow> auth_world" where
  "prune_expired_consumed_tokens env w =
     w\<lparr>aw_consumed := filter (\<lambda>r. \<not> ct_expires r < ae_now env) (aw_consumed w)\<rparr>"

section \<open>Tokens of a first step\<close>

text \<open>The marker row goes in first; a second insert of the same \<open>jti\<close> violates the primary key.\<close>

definition verify_and_consume_pre_auth_token ::
    "auth_env \<Rightarrow> string \<Rightarrow> string \<Rightarrow> panel \<Rightarrow> auth_world \<Rightarrow> unit auth_result" where
  "verify_and_consume_pre_auth_token env jti user p w =
     (if jti \<in> ct_jti ` set (aw_consumed w) then (w, Inl (AuthErr ''PRE_AUTH_TOKEN_REPLAY'' 401))
      else
        (let w' = w\<lparr>aw_consumed := aw_consumed w @
                     [\<lparr>ct_jti = jti, ct_user = user, ct_expires = ae_now env + PRE_AUTH_TOKEN_TTL_MS\<rparr>]\<rparr> in
         case user_by_id w' user of
           None \<Rightarrow> (w', Inl (AuthErr ''USER_NOT_FOUND'' 404))
         | Some u \<Rightarrow> if usr_panel u \<noteq> p then (w', Inl (AuthErr ''PRE_AUTH_TOKEN_PANEL_MISMATCH'' 401))
                      else (w', Inr ())))"

section \<open>Registration\<close>

definition begin_registration :: "auth_env \<Rightarrow> fresh \<Rightarrow> string \<Rightarrow> panel \<Rightarrow> auth_world \<Rightarrow> string auth_result" where
  "begin_registration env fr user p w =
     (case get_or_create_passkey_user_handle fr user w of
        (w1, Inl e) \<Rightarrow> (w1, Inl e)
      | (w1, Inr _) \<Rightarrow> (persist_challenge env fr ForRegister p (Some user) w1, Inr (fr_challenge fr)))"

definition complete_registration ::
    "auth_env \<Rightarrow> fresh \<Rightarrow> string \<Rightarrow> panel \<Rightarrow> assertion \<Rightarrow> string \<Rightarrow> auth_world \<Rightarrow> string auth_result" where
  "complete_registration env fr user p a nickname w =
     (case as_challenge a of
        None \<Rightarrow> (w, Inl AuthThrown)
      | Some challenge \<Rightarrow>
          (case consume_challenge env challenge ForRegister p (Some user) w of
             (w1, Inl e) \<Rightarrow> (w1, Inl e)
           | (w1, Inr _) \<Rightarrow>
               (case ae_register env a challenge of
                  None \<Rightarrow> (w1, Inl AuthThrown)
                | Some None \<Rightarrow> (w1, Inl (AuthErr ''PASSKEY_REGISTRATION_FAILED'' 400))
                | Some (Some (credential, key, counter)) \<Rightarrow>
                    (if credential \<in> pk_credential ` set (aw_passkeys w1) then (w1, Inl AuthThrown)
                     else (w1\<lparr>aw_passkeys := aw_passkeys w1 @
                            [\<lparr>pk_id = fr_id fr, pk_user = user, pk_credential = credential, pk_key = key,
                              pk_count = counter, pk_nickname = take 100 nickname, pk_last_used = None\<rparr>]\<rparr>,
                           Inr (fr_id fr))))))"

section \<open>Authentication\<close>

text \<open>\<open>user\<close> is \<open>None\<close> in the userless flow.\<close>

definition begin_authentication ::
    "auth_env \<Rightarrow> fresh \<Rightarrow> panel \<Rightarrow> string option \<Rightarrow> auth_world \<Rightarrow> (string \<times> string list) auth_result" where
  "begin_authentication env fr p user w =
     (let creds = (case user of None \<Rightarrow> [] | Some u \<Rightarrow> map pk_credential (filter (\<lambda>k. pk_user k = u) (aw_passkeys w))) in
      if user \<noteq> None \<and> creds = [] then (w, Inl (AuthErr ''PASSKEY_NOT_REGISTERED'' 409))
      else (persist_challenge env fr (if user = None then ForUserless else For2fa) p user w,
            Inr (fr_challenge fr, creds)))"

definition authentication_user ::
    "auth_world \<Rightarrow> panel \<Rightarrow> assertion \<Rightarrow> string option \<Rightarrow> auth_error + user_row" where
  "authentication_user w p a expected =
     (case as_handle a of
        None \<Rightarrow> Inl (AuthErr ''PASSKEY_USER_HANDLE_MISSING'' 400)
      | Some h \<Rightarrow>
          (if h = [] then Inl (AuthErr ''PASSKEY_USER_HANDLE_MISSING'' 400)
           else (case find_user_by_handle w h of
             None \<Rightarrow> Inl (AuthErr ''USER_NOT_FOUND'' 401)
           | Some u \<Rightarrow>
               (if usr_status u \<noteq> UserActive then Inl (AuthErr ''USER_INACTIVE'' 401)
                else if usr_panel u \<noteq> p then Inl (AuthErr ''PASSKEY_PANEL_MISMATCH'' 403)
                else if expected \<noteq> None \<and> expected \<noteq> Some (usr_id u) then Inl (AuthErr ''PASSKEY_USER_MISMATCH'' 401)
                else if expected = None \<and> usr_mode u \<noteq> Some Alternative
                then Inl (if usr_mode u = Some SecondFactor then AuthErr ''PASSKEY_REQUIRES_PASSWORD_FIRST'' 401
                          else AuthErr ''PASSKEY_LOGIN_NOT_ENABLED'' 401)
                else Inr u))))"

text \<open>The credential once the challenge is consumed: ownership, signature, counter.\<close>

definition check_credential ::
    "auth_env \<Rightarrow> user_row \<Rightarrow> assertion \<Rightarrow> string \<Rightarrow> auth_world \<Rightarrow> passkey_row auth_result" where
  "check_credential env u a challenge w =
     (case first (\<lambda>k. pk_credential k = as_credential a) (aw_passkeys w) of
        None \<Rightarrow> (w, Inl (AuthErr ''PASSKEY_NOT_FOUND'' 401))
      | Some k \<Rightarrow>
          (if pk_user k \<noteq> usr_id u then (w, Inl (AuthErr ''PASSKEY_OWNERSHIP_MISMATCH'' 401))
           else (case ae_verify env a challenge k of
             None \<Rightarrow> (w, Inl AuthThrown)
           | Some (verified, counter) \<Rightarrow>
               (if \<not> verified then (w, Inl (AuthErr ''PASSKEY_AUTHENTICATION_FAILED'' 401))
                else if pk_count k > 0 \<and> counter \<le> pk_count k
                then (w, Inl (AuthErr ''PASSKEY_SIGN_COUNT_ROLLBACK'' 401))
                else (update_user (usr_id u) (usr_last_check_update (\<lambda>_. Some (ae_now env)))
                       (w\<lparr>aw_passkeys := set_where (\<lambda>x. pk_id x = pk_id k)
                            (\<lambda>x. x\<lparr>pk_count := counter, pk_last_used := Some (ae_now env)\<rparr>) (aw_passkeys w)\<rparr>),
                      Inr k)))))"

definition complete_authentication ::
    "auth_env \<Rightarrow> panel \<Rightarrow> assertion \<Rightarrow> string option \<Rightarrow> auth_world \<Rightarrow> (user_row \<times> string) auth_result" where
  "complete_authentication env p a expected w =
     (case as_challenge a of
        None \<Rightarrow> (w, Inl AuthThrown)
      | Some challenge \<Rightarrow>
          (case authentication_user w p a expected of
             Inl e \<Rightarrow> (w, Inl e)
           | Inr u \<Rightarrow>
               (case consume_challenge env challenge (if expected = None then ForUserless else For2fa) p expected w of
                  (w1, Inl e) \<Rightarrow> (w1, Inl e)
                | (w1, Inr _) \<Rightarrow>
                    (case check_credential env u a challenge w1 of
                       (w2, Inl e) \<Rightarrow> (w2, Inl e)
                     | (w2, Inr k) \<Rightarrow> (w2, Inr (u, pk_id k))))))"

section \<open>Credentials and mode\<close>

definition list_passkeys :: "auth_world \<Rightarrow> string \<Rightarrow> passkey_row list" where
  "list_passkeys w user = filter (\<lambda>k. pk_user k = user) (aw_passkeys w)"

text \<open>One transaction.\<close>

definition delete_passkey :: "string \<Rightarrow> string \<Rightarrow> auth_world \<Rightarrow> unit auth_result" where
  "delete_passkey user ident w =
     (case first (\<lambda>k. pk_id k = ident \<and> pk_user k = user) (aw_passkeys w) of
        None \<Rightarrow> (w, Inl (AuthErr ''PASSKEY_NOT_FOUND'' 404))
      | Some _ \<Rightarrow>
          (let mode = (case user_by_id w user of Some u \<Rightarrow> usr_mode u | None \<Rightarrow> None);
               last = (length (list_passkeys w user) \<le> 1);
               drop_key = (\<lambda>w. w\<lparr>aw_passkeys := filter (\<lambda>k. pk_id k \<noteq> ident) (aw_passkeys w)\<rparr>) in
           if last \<and> mode = Some SecondFactor then (w, Inl (AuthErr ''LAST_PASSKEY_IN_2FA_MODE'' 409))
           else if last \<and> mode = Some Alternative
           then (drop_key (update_user user (usr_mode_update (\<lambda>_. None)) w), Inr ())
           else (drop_key w, Inr ())))"

definition set_passkey_mode :: "string \<Rightarrow> passkey_mode option \<Rightarrow> auth_world \<Rightarrow> unit auth_result" where
  "set_passkey_mode user mode w =
     (if mode = Some SecondFactor \<and> list_passkeys w user = []
      then (w, Inl (AuthErr ''PASSKEY_REQUIRED_FIRST'' 409))
      else (update_user user (usr_mode_update (\<lambda>_. mode)) w, Inr ()))"

definition clear_passkey_mode_on_password_reset :: "string \<Rightarrow> auth_world \<Rightarrow> auth_world \<times> bool \<times> nat" where
  "clear_passkey_mode_on_password_reset user w =
     (case user_by_id w user of
        None \<Rightarrow> (w, False, 0)
      | Some u \<Rightarrow>
          (if usr_mode u \<noteq> None
           then (update_user user (usr_mode_update (\<lambda>_. None)) w, True, length (list_passkeys w user))
           else (w, False, length (list_passkeys w user))))"

end
