(* ===== verification/AuthRoutes.thy ===== *)
theory AuthRoutes
  imports AuthHooks Passkeys JsRegex
begin

text \<open>
  The handlers of the authentication API: login, refresh, logout, password and profile
  (\<open>modules/auth/routes.ts\<close>, \<open>service.ts\<close>), the passkey endpoints (\<open>passkey-routes.ts\<close>), step-up
  (\<open>step-up-service.ts\<close>, \<open>step-up-routes.ts\<close>) and the gates in front of other services. Audit rows, log lines
  and rate limits are left out; of a response the tokens are kept. Cookies repeat the tokens of the body.
\<close>

section \<open>Tokens\<close>

definition PRE_AUTH_TOKEN_TTL_SECONDS :: int where
  "PRE_AUTH_TOKEN_TTL_SECONDS = 5 * 60"

definition unix_seconds :: "auth_env \<Rightarrow> int" where
  "unix_seconds env = ae_now env div 1000"

text \<open>A claim is set only when the value is truthy.\<close>

definition keep_truthy :: "string option \<Rightarrow> string option" where
  "keep_truthy s = (if non_empty s then s else None)"

definition access_claims ::
    "auth_env \<Rightarrow> fresh \<Rightarrow> string \<Rightarrow> string \<Rightarrow> panel \<Rightarrow> string option \<Rightarrow> string option \<Rightarrow> jwt_claims" where
  "access_claims env fr user role p tenant by_user =
     \<lparr>cl_sub = user, cl_role = Some role, cl_panel = p, cl_tenant = keep_truthy tenant, cl_by = keep_truthy by_user,
      cl_step = None, cl_exp = unix_seconds env + ACCESS_TOKEN_TTL_SECONDS, cl_iat = unix_seconds env, cl_jti = fr_jti fr\<rparr>"

definition pre_auth_claims :: "auth_env \<Rightarrow> fresh \<Rightarrow> string \<Rightarrow> panel \<Rightarrow> jwt_claims" where
  "pre_auth_claims env fr user p =
     \<lparr>cl_sub = user, cl_role = None, cl_panel = p, cl_tenant = None, cl_by = None, cl_step = Some ''passkey_2fa'',
      cl_exp = unix_seconds env + PRE_AUTH_TOKEN_TTL_SECONDS, cl_iat = unix_seconds env, cl_jti = fr_jti fr\<rparr>"

record session_tokens =
  st_access :: string
  st_refresh :: string

datatype login_response = LoggedIn session_tokens | NeedsPasskey string

text \<open>Sign an access token and issue a refresh token for a user row.\<close>

definition open_session :: "auth_env \<Rightarrow> fresh \<Rightarrow> user_row \<Rightarrow> auth_world \<Rightarrow> auth_world \<times> session_tokens" where
  "open_session env fr u w =
     (let access = ae_sign env (access_claims env fr (usr_id u) (usr_role u) (usr_panel u) (usr_tenant u) None);
          (w', secret) = issue_refresh_token env fr (usr_id u) (usr_panel u) (usr_tenant u) None w in
      (w', \<lparr>st_access = access, st_refresh = secret\<rparr>))"

section \<open>Passwords\<close>

text \<open>\<open>/^[a-f0-9]+$/\<close> on 64 characters: a hash from before bcrypt.\<close>

definition LEGACY_HASH_RE :: rx where
  "LEGACY_HASH_RE = r_plus (RCls (\<lambda>c. is_digit c \<or> c \<in> set ''abcdef''))"

definition legacy_hash :: "string \<Rightarrow> bool" where
  "legacy_hash h = (length h = 64 \<and> rx_test LEGACY_HASH_RE h)"

definition verify_password :: "auth_env \<Rightarrow> string \<Rightarrow> string \<Rightarrow> bool" where
  "verify_password env password h =
     (if legacy_hash h then ae_sha256 env password = h else ae_bcrypt_check env password h)"

text \<open>The errors are all \<open>invalidToken()\<close>; on success the row is touched and a legacy hash replaced.\<close>

definition authenticate_user :: "auth_env \<Rightarrow> string \<Rightarrow> string \<Rightarrow> auth_world \<Rightarrow> user_row auth_result" where
  "authenticate_user env email password w =
     (case first (\<lambda>u. usr_email u = email) (aw_users w) of
        None \<Rightarrow> (w, Inl invalid_token)
      | Some u \<Rightarrow>
          (case keep_truthy (usr_hash u) of
             None \<Rightarrow> (w, Inl invalid_token)
           | Some h \<Rightarrow>
               (if \<not> verify_password env password h then (w, Inl invalid_token)
                else if usr_status u \<noteq> UserActive then (w, Inl invalid_token)
                else if tenant_archived w (keep_truthy (usr_tenant u)) then (w, Inl invalid_token)
                else (update_user (usr_id u)
                        (\<lambda>x. x\<lparr>usr_last_login := Some (ae_now env), usr_last_check := Some (ae_now env),
                               usr_hash := (if legacy_hash h then Some (ae_bcrypt_hash env password) else usr_hash x)\<rparr>) w,
                      Inr u))))"

section \<open>Login\<close>

text \<open>\<open>panel\<close> of the body selects the switch that is consulted; any value but \<open>tenant\<close> means \<open>admin\<close>.\<close>

definition panel_of_body :: "string option \<Rightarrow> panel" where
  "panel_of_body p = (if p = Some ''tenant'' then TenantPanel else AdminPanel)"

definition login :: "auth_env \<Rightarrow> fresh \<Rightarrow> string option \<Rightarrow> string \<Rightarrow> string \<Rightarrow> auth_world \<Rightarrow> login_response auth_result" where
  "login env fr body_panel email password w =
     (if is_local_auth_disabled w (panel_of_body body_panel) then (w, Inl (AuthErr ''LOCAL_AUTH_DISABLED'' 403))
      else if \<not> ae_email_ok env email \<or> password = [] then (w, Inl (AuthErr ''VALIDATION_ERROR'' 400))
      else (case authenticate_user env email password w of
        (w1, Inl e) \<Rightarrow> (w1, Inl e)
      | (w1, Inr u) \<Rightarrow>
          (if usr_mode u = Some SecondFactor
           then (w1, Inr (NeedsPasskey (ae_sign env (pre_auth_claims env fr (usr_id u) (usr_panel u)))))
           else (let (w2, s) = open_session env fr u w1 in (w2, Inr (LoggedIn s))))))"

section \<open>Refresh and logout\<close>

definition REFRESH_COOKIE :: string where
  "REFRESH_COOKIE = ''platform_refresh''"

definition pick_refresh_token :: "http_request \<Rightarrow> string option" where
  "pick_refresh_token rq =
     (if non_empty (rq_body_refresh rq) then rq_body_refresh rq else extract_cookie REFRESH_COOKIE (rq_cookie rq))"

text \<open>\<open>/auth/refresh\<close> up to the point where the token is accepted.\<close>

definition refresh_check :: "auth_env \<Rightarrow> string option \<Rightarrow> auth_world \<Rightarrow> (refresh_row \<times> user_row) auth_result" where
  "refresh_check env presented w =
     (case presented of
        None \<Rightarrow> (w, Inl (AuthErr ''REFRESH_TOKEN_MISSING'' 401))
      | Some token \<Rightarrow>
          (case validate_refresh_token env token w of
             (w1, TokBad _) \<Rightarrow> (w1, Inl (AuthErr ''REFRESH_TOKEN_INVALID'' 401))
           | (w1, TokOk r) \<Rightarrow>
               (case user_by_id w1 (rt_user r) of
                  None \<Rightarrow> (revoke_refresh_token_by_id env (rt_id r) AdminRevoke w1, Inl invalid_token)
                | Some u \<Rightarrow>
                    (if usr_status u \<noteq> UserActive \<or> tenant_archived w1 (keep_truthy (usr_tenant u))
                     then (revoke_refresh_token_by_id env (rt_id r) AdminRevoke w1, Inl invalid_token)
                     else (w1, Inr (r, u))))))"

text \<open>The rest: the old token is revoked, a new one of the family issued, the access token signed. The
  impersonation claim is taken from the old access token while that still verifies.\<close>

definition impersonator :: "auth_env \<Rightarrow> http_request \<Rightarrow> string option" where
  "impersonator env rq =
     (case rq_authorization rq of
        None \<Rightarrow> None
      | Some h \<Rightarrow> if \<not> starts_with h ''Bearer '' then None
                   else (case ae_jwt env (drop 7 h) of None \<Rightarrow> None | Some c \<Rightarrow> cl_by c))"

definition refresh_rotate ::
    "auth_env \<Rightarrow> fresh \<Rightarrow> http_request \<Rightarrow> refresh_row \<Rightarrow> user_row \<Rightarrow> auth_world \<Rightarrow> auth_world \<times> session_tokens" where
  "refresh_rotate env fr rq r u w =
     (let w1 = revoke_refresh_token_by_id env (rt_id r) Rotated w;
          (w2, secret) = issue_refresh_token env fr (usr_id u) (rt_panel r) (rt_tenant r) (Some (rt_family r)) w1;
          w3 = touch_last_used env (rt_id r) w2 in
      (w3, \<lparr>st_access = ae_sign env (access_claims env fr (usr_id u) (usr_role u) (usr_panel u) (usr_tenant u) (impersonator env rq)),
            st_refresh = secret\<rparr>))"

definition refresh :: "auth_env \<Rightarrow> fresh \<Rightarrow> http_request \<Rightarrow> auth_world \<Rightarrow> session_tokens auth_result" where
  "refresh env fr rq w =
     (case refresh_check env (pick_refresh_token rq) w of
        (w1, Inl e) \<Rightarrow> (w1, Inl e)
      | (w1, Inr (r, u)) \<Rightarrow> (let (w2, s) = refresh_rotate env fr rq r u w1 in (w2, Inr s)))"

definition logout :: "auth_env \<Rightarrow> http_request \<Rightarrow> auth_world \<Rightarrow> auth_world" where
  "logout env rq w =
     (case pick_refresh_token rq of
        None \<Rightarrow> w
      | Some token \<Rightarrow>
          (case validate_refresh_token env token w of
             (w1, TokOk r) \<Rightarrow> revoke_refresh_token_by_id env (rt_id r) Logout w1
           | (w1, TokBad _) \<Rightarrow> w1))"

section \<open>Endpoints behind \<open>request.jwtVerify()\<close>\<close>

definition jwt_verify :: "auth_env \<Rightarrow> http_request \<Rightarrow> auth_error + jwt_claims" where
  "jwt_verify env rq =
     (case rq_authorization rq of
        None \<Rightarrow> Inl AuthThrown
      | Some h \<Rightarrow> (case Option.bind (ae_bearer env h) (ae_jwt env) of None \<Rightarrow> Inl AuthThrown | Some c \<Rightarrow> Inr c))"

definition auth_me :: "auth_env \<Rightarrow> http_request \<Rightarrow> auth_world \<Rightarrow> auth_error + user_row \<times> tenant_status option" where
  "auth_me env rq w =
     (case jwt_verify env rq of
        Inl e \<Rightarrow> Inl e
      | Inr c \<Rightarrow>
          (case user_by_id w (cl_sub c) of
             None \<Rightarrow> Inl invalid_token
           | Some u \<Rightarrow> Inr (u, Option.bind (keep_truthy (usr_tenant u)) (map_of (aw_tenants w)))))"

text \<open>\<open>updateProfileSchema\<close>. A timezone of \<open>Some None\<close> is \<open>null\<close>, which clears the column. The email is unique.\<close>

definition length_between :: "nat \<Rightarrow> nat \<Rightarrow> string \<Rightarrow> bool" where
  "length_between lo hi s = (lo \<le> length s \<and> length s \<le> hi)"

definition opt_all :: "('a \<Rightarrow> bool) \<Rightarrow> 'a option \<Rightarrow> bool" where
  "opt_all p x = (case x of None \<Rightarrow> True | Some y \<Rightarrow> p y)"

definition update_profile_schema :: "auth_env \<Rightarrow> string option \<Rightarrow> string option \<Rightarrow> string option option \<Rightarrow> bool" where
  "update_profile_schema env full_name email timezone =
     (opt_all (length_between 1 255) full_name \<and> opt_all (ae_email_ok env) email \<and>
      opt_all (opt_all (length_between 1 50)) timezone)"

definition update_profile ::
    "auth_env \<Rightarrow> http_request \<Rightarrow> string option \<Rightarrow> string option \<Rightarrow> string option option \<Rightarrow> auth_world \<Rightarrow> unit auth_result" where
  "update_profile env rq full_name email timezone w =
     (case jwt_verify env rq of
        Inl e \<Rightarrow> (w, Inl e)
      | Inr c \<Rightarrow>
          (if \<not> update_profile_schema env full_name email timezone then (w, Inl (AuthErr ''VALIDATION_ERROR'' 400))
           else if full_name = None \<and> email = None \<and> timezone = None then (w, Inl (AuthErr ''VALIDATION_ERROR'' 400))
           else if (case email of None \<Rightarrow> False
                    | Some m \<Rightarrow> (\<exists>u \<in> set (aw_users w). usr_email u = m \<and> usr_id u \<noteq> cl_sub c) \<and> user_by_id w (cl_sub c) \<noteq> None)
           then (w, Inl AuthThrown)
           else if user_by_id w (cl_sub c) = None then (w, Inl AuthThrown)
           else (update_user (cl_sub c)
                   (\<lambda>u. u\<lparr>usr_name := (case full_name of Some n \<Rightarrow> n | None \<Rightarrow> usr_name u),
                          usr_email := (case email of Some m \<Rightarrow> m | None \<Rightarrow> usr_email u),
                          usr_timezone := (case timezone of Some t \<Rightarrow> t | None \<Rightarrow> usr_timezone u)\<rparr>) w, Inr ())))"

definition change_password ::
    "auth_env \<Rightarrow> fresh \<Rightarrow> http_request \<Rightarrow> string \<Rightarrow> string \<Rightarrow> auth_world \<Rightarrow> string auth_result" where
  "change_password env fr rq current new w =
     (case jwt_verify env rq of
        Inl e \<Rightarrow> (w, Inl e)
      | Inr c \<Rightarrow>
          (if current = [] \<or> length new < 6 then (w, Inl (AuthErr ''VALIDATION_ERROR'' 400))
           else (case user_by_id w (cl_sub c) of
             None \<Rightarrow> (w, Inl invalid_token)
           | Some u \<Rightarrow>
               (case keep_truthy (usr_hash u) of
                  None \<Rightarrow> (w, Inl invalid_token)
                | Some h \<Rightarrow>
                    (if \<not> verify_password env current h then (w, Inl invalid_token)
                     else
                       (let w1 = update_user (cl_sub c) (usr_hash_update (\<lambda>_. Some (ae_bcrypt_hash env new))) w;
                            w2 = revoke_all_user_refresh_tokens env (cl_sub c) PasswordChange None w1;
                            (w3, secret) = issue_refresh_token env fr (usr_id u) (usr_panel u) (usr_tenant u) None w2 in
                        (w3, Inr secret)))))))"

definition my_sessions :: "auth_env \<Rightarrow> http_request \<Rightarrow> auth_world \<Rightarrow> auth_error + refresh_row list \<times> string option" where
  "my_sessions env rq w =
     (case jwt_verify env rq of
        Inl e \<Rightarrow> Inl e
      | Inr c \<Rightarrow>
          (if cl_sub c = [] then Inl (AuthErr ''AUTH_REQUIRED'' 401)
           else Inr (list_active_sessions_for_user env w (cl_sub c),
                     Option.bind (pick_refresh_token rq) (\<lambda>t. find_session_id_by_hash env w (hash_refresh_token env t)))))"

section \<open>Gates for other services\<close>

definition GATE_ROLES :: "string list" where
  "GATE_ROLES = [''super_admin'', ''admin'', ''billing'', ''support'']"

text \<open>The status of \<open>/auth/verify-admin-session\<close> and of \<open>/auth/verify-admin-email\<close>.\<close>

definition verify_admin_session :: "auth_env \<Rightarrow> http_request \<Rightarrow> nat" where
  "verify_admin_session env rq =
     (case extract_platform_session_cookie (rq_cookie rq) of
        None \<Rightarrow> 401
      | Some token \<Rightarrow>
          (case ae_jwt env token of
             None \<Rightarrow> 401
           | Some c \<Rightarrow> if cl_panel c \<noteq> AdminPanel then 403 else if \<not> has_role GATE_ROLES c then 403 else 204))"

definition verify_admin_email :: "string option \<Rightarrow> auth_world \<Rightarrow> nat" where
  "verify_admin_email header w =
     (if \<not> non_empty header then 401
      else (let email = to_lower (js_trim (the header)) in
        if email = [] then 401
        else (case first (\<lambda>u. usr_email u = email) (aw_users w) of
                None \<Rightarrow> 403
              | Some u \<Rightarrow> if usr_status u \<noteq> UserActive then 403
                           else if usr_role u \<notin> set GATE_ROLES then 403 else 204)))"

end
