(* ===== verification/AuthSecond.thy ===== *)
theory AuthSecond
  imports AuthRoutes
begin

text \<open>
  The second factor: the passkey endpoints (\<open>modules/auth/passkey-routes.ts\<close>) and step-up
  (\<open>step-up-service.ts\<close>, \<open>step-up-routes.ts\<close>).
\<close>

section \<open>Bearer tokens that are access tokens\<close>

text \<open>\<open>assertBearerAuth\<close>, the same in both files: unlike the other endpoints it refuses a token with \<open>step\<close>.\<close>

definition assert_bearer_auth :: "auth_env \<Rightarrow> http_request \<Rightarrow> auth_error + jwt_claims" where
  "assert_bearer_auth env rq =
     (case rq_authorization rq of
        None \<Rightarrow> Inl invalid_token
      | Some h \<Rightarrow>
          (if \<not> starts_with (to_lower h) ''bearer '' then Inl invalid_token
           else (case jwt_verify env rq of
                   Inl e \<Rightarrow> Inl e
                 | Inr c \<Rightarrow> if non_empty (cl_step c) then Inl invalid_token else Inr c)))"

text \<open>Run a handler for the claims of the caller.\<close>

definition with_bearer ::
    "auth_env \<Rightarrow> http_request \<Rightarrow> auth_world \<Rightarrow> (jwt_claims \<Rightarrow> 'a auth_result) \<Rightarrow> 'a auth_result" where
  "with_bearer env rq w k = (case assert_bearer_auth env rq of Inl e \<Rightarrow> (w, Inl e) | Inr c \<Rightarrow> k c)"

section \<open>Passkey login\<close>

definition verify_pre_auth_claims :: "auth_env \<Rightarrow> string \<Rightarrow> panel \<Rightarrow> auth_error + string \<times> string" where
  "verify_pre_auth_claims env token p =
     (case ae_jwt env token of
        None \<Rightarrow> Inl (AuthErr ''PRE_AUTH_TOKEN_INVALID'' 401)
      | Some c \<Rightarrow>
          (if cl_step c \<noteq> Some ''passkey_2fa'' \<or> cl_sub c = [] \<or> cl_jti c = []
           then Inl (AuthErr ''PRE_AUTH_TOKEN_INVALID'' 401)
           else if cl_panel c \<noteq> p then Inl (AuthErr ''PRE_AUTH_TOKEN_PANEL_MISMATCH'' 401)
           else Inr (cl_sub c, cl_jti c)))"

definition passkey_login_options ::
    "auth_env \<Rightarrow> fresh \<Rightarrow> string option \<Rightarrow> string option \<Rightarrow> auth_world \<Rightarrow> (string \<times> string list) auth_result" where
  "passkey_login_options env fr body_panel pre w =
     (let p = panel_of_body body_panel in
      if is_local_auth_disabled w p then (w, Inl (AuthErr ''LOCAL_AUTH_DISABLED'' 403))
      else (case keep_truthy pre of
        None \<Rightarrow> begin_authentication env fr p None w
      | Some token \<Rightarrow>
          (case verify_pre_auth_claims env token p of
             Inl e \<Rightarrow> (w, Inl e)
           | Inr (user, _) \<Rightarrow> begin_authentication env fr p (Some user) w)))"

text \<open>\<open>None\<close> as assertion: the body has no \<open>response\<close>. The token of the first step is consumed before the
  assertion is looked at.\<close>

definition passkey_login_verify ::
    "auth_env \<Rightarrow> fresh \<Rightarrow> string option \<Rightarrow> string option \<Rightarrow> assertion option \<Rightarrow> auth_world \<Rightarrow> session_tokens auth_result" where
  "passkey_login_verify env fr body_panel pre response w =
     (let p = panel_of_body body_panel;
          finish = (\<lambda>expected a w. case complete_authentication env p a expected w of
              (w1, Inl e) \<Rightarrow> (w1, Inl e)
            | (w1, Inr (u, _)) \<Rightarrow> (let (w2, s) = open_session env fr u w1 in (w2, Inr s))) in
      if is_local_auth_disabled w p then (w, Inl (AuthErr ''LOCAL_AUTH_DISABLED'' 403))
      else (case response of
        None \<Rightarrow> (w, Inl (AuthErr ''VALIDATION_ERROR'' 400))
      | Some a \<Rightarrow>
          (case keep_truthy pre of
             None \<Rightarrow> finish None a w
           | Some token \<Rightarrow>
               (case verify_pre_auth_claims env token p of
                  Inl e \<Rightarrow> (w, Inl e)
                | Inr (user, jti) \<Rightarrow>
                    (case verify_and_consume_pre_auth_token env jti user p w of
                       (w1, Inl e) \<Rightarrow> (w1, Inl e)
                     | (w1, Inr _) \<Rightarrow> finish (Some user) a w1)))))"

section \<open>Managing passkeys\<close>

definition passkey_registration_options :: "auth_env \<Rightarrow> fresh \<Rightarrow> http_request \<Rightarrow> auth_world \<Rightarrow> string auth_result" where
  "passkey_registration_options env fr rq w =
     with_bearer env rq w (\<lambda>c. begin_registration env fr (cl_sub c) (cl_panel c) w)"

definition passkey_registration_verify ::
    "auth_env \<Rightarrow> fresh \<Rightarrow> http_request \<Rightarrow> assertion option \<Rightarrow> string \<Rightarrow> auth_world \<Rightarrow> string auth_result" where
  "passkey_registration_verify env fr rq response nickname w =
     with_bearer env rq w (\<lambda>c.
       case response of
         None \<Rightarrow> (w, Inl (AuthErr ''VALIDATION_ERROR'' 400))
       | Some a \<Rightarrow>
           (if nickname = [] then (w, Inl (AuthErr ''VALIDATION_ERROR'' 400))
            else complete_registration env fr (cl_sub c) (cl_panel c) a nickname w))"

definition passkey_list :: "auth_env \<Rightarrow> http_request \<Rightarrow> auth_world \<Rightarrow> auth_error + passkey_row list \<times> passkey_mode option" where
  "passkey_list env rq w =
     (case assert_bearer_auth env rq of
        Inl e \<Rightarrow> Inl e
      | Inr c \<Rightarrow> Inr (list_passkeys w (cl_sub c), Option.bind (user_by_id w (cl_sub c)) usr_mode))"

definition passkey_delete :: "auth_env \<Rightarrow> http_request \<Rightarrow> string \<Rightarrow> auth_world \<Rightarrow> unit auth_result" where
  "passkey_delete env rq ident w = with_bearer env rq w (\<lambda>c. delete_passkey (cl_sub c) ident w)"

text \<open>The mode of the body, \<open>None\<close> for any other value than the three.\<close>

definition passkey_set_mode :: "auth_env \<Rightarrow> http_request \<Rightarrow> passkey_mode option option \<Rightarrow> auth_world \<Rightarrow> unit auth_result" where
  "passkey_set_mode env rq mode w =
     with_bearer env rq w (\<lambda>c.
       case mode of None \<Rightarrow> (w, Inl (AuthErr ''VALIDATION_ERROR'' 400)) | Some m \<Rightarrow> set_passkey_mode (cl_sub c) m w)"

section \<open>Step-up\<close>

definition DEFAULT_STEP_UP_MAX_AGE_MS :: int where
  "DEFAULT_STEP_UP_MAX_AGE_MS = 30 * 60 * 1000"

datatype step_up_method = ByPassword | ByPasskey

record step_up_status =
  su_required :: bool
  su_methods :: "step_up_method list"
  su_last :: "int option"

definition step_up_methods :: "user_row \<Rightarrow> step_up_method list" where
  "step_up_methods u =
     (if non_empty (usr_hash u) then [ByPassword] else []) @ (if usr_mode u \<noteq> None then [ByPasskey] else [])"

definition get_step_up_status :: "auth_env \<Rightarrow> string \<Rightarrow> int \<Rightarrow> auth_world \<Rightarrow> step_up_status" where
  "get_step_up_status env user max_age w =
     (case user_by_id w user of
        None \<Rightarrow> \<lparr>su_required = True, su_methods = [], su_last = None\<rparr>
      | Some u \<Rightarrow>
          (if usr_status u \<noteq> UserActive then \<lparr>su_required = True, su_methods = [], su_last = None\<rparr>
           else (case usr_last_step_up u of
                   None \<Rightarrow> \<lparr>su_required = True, su_methods = step_up_methods u, su_last = None\<rparr>
                 | Some t \<Rightarrow> \<lparr>su_required = (ae_now env - t > max_age), su_methods = step_up_methods u, su_last = Some t\<rparr>)))"

definition step_up_status_route :: "auth_env \<Rightarrow> http_request \<Rightarrow> auth_world \<Rightarrow> auth_error + step_up_status" where
  "step_up_status_route env rq w =
     (case assert_bearer_auth env rq of
        Inl e \<Rightarrow> Inl e
      | Inr c \<Rightarrow> Inr (get_step_up_status env (cl_sub c) DEFAULT_STEP_UP_MAX_AGE_MS w))"

definition verify_step_up_password :: "auth_env \<Rightarrow> string \<Rightarrow> string \<Rightarrow> auth_world \<Rightarrow> int auth_result" where
  "verify_step_up_password env user password w =
     (if password = [] then (w, Inl (AuthErr ''VALIDATION_ERROR'' 400))
      else (case user_by_id w user of
        None \<Rightarrow> (w, Inl (AuthErr ''STEP_UP_FAILED'' 401))
      | Some u \<Rightarrow>
          (if usr_status u \<noteq> UserActive then (w, Inl (AuthErr ''STEP_UP_FAILED'' 401))
           else (case keep_truthy (usr_hash u) of
             None \<Rightarrow> (w, Inl (AuthErr ''STEP_UP_METHOD_UNAVAILABLE'' 409))
           | Some h \<Rightarrow>
               (if \<not> verify_password env password h then (w, Inl (AuthErr ''STEP_UP_FAILED'' 401))
                else (update_user user (\<lambda>x. x\<lparr>usr_last_check := Some (ae_now env), usr_last_step_up := Some (ae_now env)\<rparr>) w,
                      Inr (ae_now env)))))))"

definition step_up_password :: "auth_env \<Rightarrow> http_request \<Rightarrow> string \<Rightarrow> auth_world \<Rightarrow> int auth_result" where
  "step_up_password env rq password w = with_bearer env rq w (\<lambda>c. verify_step_up_password env (cl_sub c) password w)"

definition step_up_passkey_options :: "auth_env \<Rightarrow> fresh \<Rightarrow> http_request \<Rightarrow> auth_world \<Rightarrow> (string \<times> string list) auth_result" where
  "step_up_passkey_options env fr rq w =
     with_bearer env rq w (\<lambda>c. begin_authentication env fr (cl_panel c) (Some (cl_sub c)) w)"

definition step_up_passkey_verify :: "auth_env \<Rightarrow> http_request \<Rightarrow> assertion \<Rightarrow> auth_world \<Rightarrow> int auth_result" where
  "step_up_passkey_verify env rq a w =
     with_bearer env rq w (\<lambda>c.
       case complete_authentication env (cl_panel c) a (Some (cl_sub c)) w of
         (w1, Inl e) \<Rightarrow> (w1, Inl e)
       | (w1, Inr (u, _)) \<Rightarrow>
           (if usr_id u \<noteq> cl_sub c then (w1, Inl (AuthErr ''STEP_UP_FAILED'' 401))
            else (let w2 = update_user (cl_sub c) (usr_last_step_up_update (\<lambda>_. Some (ae_now env))) w1 in
                  (w2, Inr (case Option.bind (user_by_id w2 (cl_sub c)) usr_last_step_up of Some t \<Rightarrow> t | None \<Rightarrow> ae_now env)))))"

end
