(* ===== verification/AccountAdmin.thy ===== *)
theory AccountAdmin
  imports AuthRoutes
begin

text \<open>
  The accounts themselves: administrators (\<open>modules/admin-users/routes.ts\<close>) and the users of a tenant
  (\<open>modules/tenants/sub-users-service.ts\<close> with the handlers of \<open>tenants/routes.ts\<close>). The service of
  sub-users works over an interface of the database, \<open>SubUsersDb\<close>; its adapter is the table functions
  \<open>drizzle_adapter\<close>. Deleting a user cascades to the sessions, passkeys,
  challenges and markers. The caller is given by its claims after the guards.
\<close>

section \<open>Deleting a user\<close>

definition delete_users :: "(user_row \<Rightarrow> bool) \<Rightarrow> auth_world \<Rightarrow> auth_world" where
  "delete_users p w =
     (let gone = usr_id ` set (filter p (aw_users w)) in
      w\<lparr>aw_users := filter (\<lambda>u. \<not> p u) (aw_users w),
        aw_refresh := filter (\<lambda>r. rt_user r \<notin> gone) (aw_refresh w),
        aw_passkeys := filter (\<lambda>k. pk_user k \<notin> gone) (aw_passkeys w),
        aw_challenges := filter (\<lambda>c. case ch_user c of None \<Rightarrow> True | Some u \<Rightarrow> u \<notin> gone) (aw_challenges w),
        aw_consumed := filter (\<lambda>c. ct_user c \<notin> gone) (aw_consumed w)\<rparr>)"

section \<open>Administrators\<close>

definition admin_user :: "auth_world \<Rightarrow> string \<Rightarrow> user_row option" where
  "admin_user w ident = first (\<lambda>u. usr_id u = ident \<and> usr_panel u = AdminPanel) (aw_users w)"

definition revoke_admin_session :: "auth_env \<Rightarrow> string \<Rightarrow> string \<Rightarrow> auth_world \<Rightarrow> unit auth_result" where
  "revoke_admin_session env user session w =
     (if session \<notin> rt_id ` set (list_active_sessions_for_user env w user)
      then (w, Inl (AuthErr ''SESSION_NOT_FOUND'' 404))
      else (revoke_refresh_token_by_id env session AdminRevoke w, Inr ()))"

text \<open>The caller's own session, given by its refresh token, survives a bulk revocation of the caller.\<close>

definition revoke_admin_sessions ::
    "auth_env \<Rightarrow> jwt_claims \<Rightarrow> string option \<Rightarrow> string \<Rightarrow> auth_world \<Rightarrow> unit auth_result" where
  "revoke_admin_sessions env caller presented user w =
     (case admin_user w user of
        None \<Rightarrow> (w, Inl (AuthErr ''USER_NOT_FOUND'' 404))
      | Some _ \<Rightarrow>
          (let keep = (if cl_sub caller = user
                       then Option.bind (keep_truthy presented) (\<lambda>t. find_session_id_by_hash env w (hash_refresh_token env t))
                       else None) in
           (revoke_all_user_refresh_tokens env user AdminRevoke (keep_truthy keep) w, Inr ())))"

definition new_user ::
    "fresh \<Rightarrow> string \<Rightarrow> string \<Rightarrow> string \<Rightarrow> string \<Rightarrow> panel \<Rightarrow> string option \<Rightarrow> user_row" where
  "new_user fr email h name role p tenant =
     \<lparr>usr_id = fr_id fr, usr_email = email, usr_hash = Some h, usr_name = name, usr_role = role, usr_panel = p,
      usr_tenant = tenant, usr_status = UserActive, usr_timezone = None, usr_mode = None, usr_handle = None,
      usr_last_login = None, usr_last_check = None, usr_last_step_up = None\<rparr>"

text \<open>The schemas of the request bodies (\<open>api-contracts/admin-users.ts\<close>, \<open>sub-users.ts\<close>).\<close>

definition STAFF_ROLES :: "string list" where
  "STAFF_ROLES = [''admin'', ''support'', ''billing'', ''read_only'']"

definition create_admin_user_schema :: "auth_env \<Rightarrow> string \<Rightarrow> string \<Rightarrow> string \<Rightarrow> string \<Rightarrow> bool" where
  "create_admin_user_schema env email name password role =
     (ae_email_ok env email \<and> length_between 1 255 name \<and> length_between 8 128 password \<and> role \<in> set STAFF_ROLES)"

definition create_admin_user ::
    "auth_env \<Rightarrow> fresh \<Rightarrow> string \<Rightarrow> string \<Rightarrow> string \<Rightarrow> string \<Rightarrow> auth_world \<Rightarrow> string auth_result" where
  "create_admin_user env fr email name password role w =
     (if \<not> create_admin_user_schema env email name password role then (w, Inl (AuthErr ''VALIDATION_ERROR'' 400))
      else if email \<in> usr_email ` set (aw_users w) then (w, Inl (AuthErr ''DUPLICATE_ENTRY'' 409))
      else (w\<lparr>aw_users := aw_users w @ [new_user fr email (ae_bcrypt_hash env password) name role AdminPanel None]\<rparr>,
            Inr (fr_id fr)))"

record user_patch =
  up_name :: "string option"
  up_role :: "string option"
  up_status :: "user_status option"
  up_password :: "string option"

definition apply_patch :: "auth_env \<Rightarrow> user_patch \<Rightarrow> user_row \<Rightarrow> user_row" where
  "apply_patch env p u =
     u\<lparr>usr_name := (case up_name p of Some n \<Rightarrow> n | None \<Rightarrow> usr_name u),
       usr_role := (case up_role p of Some r \<Rightarrow> r | None \<Rightarrow> usr_role u),
       usr_status := (case up_status p of Some s \<Rightarrow> s | None \<Rightarrow> usr_status u),
       usr_hash := (case up_password p of Some pw \<Rightarrow> Some (ae_bcrypt_hash env pw) | None \<Rightarrow> usr_hash u)\<rparr>"

definition settable_status :: "user_status \<Rightarrow> bool" where
  "settable_status st = (st = UserActive \<or> st = UserDisabled)"

definition update_admin_user_schema :: "user_patch \<Rightarrow> bool" where
  "update_admin_user_schema p =
     (opt_all (length_between 1 255) (up_name p) \<and> opt_all (\<lambda>r. r \<in> set STAFF_ROLES) (up_role p) \<and>
      opt_all settable_status (up_status p) \<and> opt_all (length_between 8 128) (up_password p))"

definition update_admin_user :: "auth_env \<Rightarrow> string \<Rightarrow> user_patch \<Rightarrow> auth_world \<Rightarrow> unit auth_result" where
  "update_admin_user env ident p w =
     (if \<not> update_admin_user_schema p then (w, Inl (AuthErr ''VALIDATION_ERROR'' 400)) else
      case admin_user w ident of
        None \<Rightarrow> (w, Inl (AuthErr ''USER_NOT_FOUND'' 404))
      | Some _ \<Rightarrow>
          (let w1 = update_user ident (apply_patch env p) w in
           (if up_status p = Some UserDisabled \<or> up_password p \<noteq> None
            then revoke_all_user_refresh_tokens env ident (if up_password p \<noteq> None then PasswordChange else AdminRevoke) None w1
            else w1, Inr ())))"

definition super_admins :: "auth_world \<Rightarrow> user_row list" where
  "super_admins w = filter (\<lambda>u. usr_panel u = AdminPanel \<and> usr_role u = ''super_admin'') (aw_users w)"

definition delete_admin_user :: "jwt_claims \<Rightarrow> string \<Rightarrow> auth_world \<Rightarrow> unit auth_result" where
  "delete_admin_user caller ident w =
     (if cl_sub caller = ident then (w, Inl (AuthErr ''OPERATION_NOT_ALLOWED'' 403))
      else (case admin_user w ident of
        None \<Rightarrow> (w, Inl (AuthErr ''USER_NOT_FOUND'' 404))
      | Some u \<Rightarrow>
          (if usr_role u = ''super_admin'' \<and> length (super_admins w) \<le> 1
           then (w, Inl (AuthErr ''OPERATION_NOT_ALLOWED'' 403))
           else (delete_users (\<lambda>u. usr_id u = ident) w, Inr ()))))"

text \<open>The bulk form: the succeeded and the failed ids, in order.\<close>

definition bulk_delete_admin_users ::
    "jwt_claims \<Rightarrow> string list \<Rightarrow> auth_world \<Rightarrow> (string list \<times> string list) auth_result" where
  "bulk_delete_admin_users caller idents w =
     (if idents = [] then (w, Inl (AuthErr ''VALIDATION_ERROR'' 400))
      else if cl_sub caller \<in> set idents then (w, Inl (AuthErr ''OPERATION_NOT_ALLOWED'' 403))
      else
        (let targets = filter (\<lambda>u. usr_panel u = AdminPanel \<and> usr_id u \<in> set idents) (aw_users w);
             supers = length (filter (\<lambda>u. usr_role u = ''super_admin'') targets) in
         if supers > 0 \<and> int (length (super_admins w)) - int supers < 1
         then (w, Inl (AuthErr ''OPERATION_NOT_ALLOWED'' 403))
         else
           (let ok = filter (\<lambda>i. i \<in> usr_id ` set targets) idents;
                bad = filter (\<lambda>i. i \<notin> usr_id ` set targets) idents in
            (fold (\<lambda>i. delete_users (\<lambda>u. usr_id u = i)) ok w, Inr (ok, bad)))))"

section \<open>The sub-user service\<close>

text \<open>\<open>SubUsersDb\<close>, over an arbitrary state of the database. A transaction runs alone.\<close>

record 's sub_users_db =
  db_list :: "string \<Rightarrow> 's \<Rightarrow> user_row list"
  db_count :: "string \<Rightarrow> 's \<Rightarrow> nat"
  db_count_admins :: "string \<Rightarrow> 's \<Rightarrow> nat"
  db_count_active_admins :: "string \<Rightarrow> 's \<Rightarrow> nat"
  db_find :: "string \<Rightarrow> string \<Rightarrow> 's \<Rightarrow> user_row option"
  db_insert :: "user_row \<Rightarrow> 's \<Rightarrow> 's \<times> (auth_error + unit)"
  db_update :: "string \<Rightarrow> string \<Rightarrow> (user_row \<Rightarrow> user_row) \<Rightarrow> 's \<Rightarrow> 's"
  db_set_hash :: "string \<Rightarrow> string \<Rightarrow> string \<Rightarrow> 's \<Rightarrow> 's"
  db_delete :: "string \<Rightarrow> string \<Rightarrow> 's \<Rightarrow> 's"

definition ALLOWED_SUB_USER_ROLES :: "string list" where
  "ALLOWED_SUB_USER_ROLES = [''tenant_admin'', ''tenant_user'']"

definition is_allowed_role :: "string \<Rightarrow> bool" where
  "is_allowed_role r = (r \<in> set ALLOWED_SUB_USER_ROLES)"

text \<open>\<open>limit\<close> is \<open>None\<close> for no limit.\<close>

definition create_sub_user ::
    "'s sub_users_db \<Rightarrow> auth_env \<Rightarrow> fresh \<Rightarrow> string \<Rightarrow> string \<Rightarrow> string \<Rightarrow> string \<Rightarrow> string option \<Rightarrow> nat option \<Rightarrow>
     's \<Rightarrow> 's \<times> (auth_error + string)" where
  "create_sub_user db env fr tenant email name password role limit s =
     (if email = [] \<or> name = [] \<or> password = [] then (s, Inl (AuthErr ''MISSING_REQUIRED_FIELD'' 400))
      else
        (let r = (case role of Some r \<Rightarrow> r | None \<Rightarrow> ''tenant_user'') in
         if \<not> is_allowed_role r then (s, Inl (AuthErr ''INVALID_FIELD_VALUE'' 400))
         else if (case limit of Some m \<Rightarrow> m \<le> db_count db tenant s | None \<Rightarrow> False)
         then (s, Inl (AuthErr ''SUB_USER_LIMIT'' 403))
         else (case db_insert db (new_user fr email (ae_bcrypt_hash env password) name r TenantPanel (Some tenant)) s of
                 (s1, Inl e) \<Rightarrow> (s1, Inl e)
               | (s1, Inr _) \<Rightarrow> (s1, Inr (fr_id fr)))))"

definition delete_sub_user :: "'s sub_users_db \<Rightarrow> string \<Rightarrow> string \<Rightarrow> 's \<Rightarrow> 's \<times> (auth_error + unit)" where
  "delete_sub_user db tenant ident s =
     (case db_find db ident tenant s of
        None \<Rightarrow> (s, Inl (AuthErr ''USER_NOT_FOUND'' 404))
      | Some u \<Rightarrow>
          (if usr_role u = ''tenant_admin'' \<and> db_count_admins db tenant s \<le> 1 then (s, Inl (AuthErr ''LAST_ADMIN'' 403))
           else (db_delete db ident tenant s, Inr ())))"

definition update_sub_user ::
    "'s sub_users_db \<Rightarrow> auth_env \<Rightarrow> string \<Rightarrow> string \<Rightarrow> user_patch \<Rightarrow> 's \<Rightarrow> 's \<times> (auth_error + unit)" where
  "update_sub_user db env tenant ident p s =
     (if (case up_role p of Some r \<Rightarrow> \<not> is_allowed_role r | None \<Rightarrow> False)
      then (s, Inl (AuthErr ''INVALID_FIELD_VALUE'' 400))
      else (case db_find db ident tenant s of
        None \<Rightarrow> (s, Inl (AuthErr ''USER_NOT_FOUND'' 404))
      | Some u \<Rightarrow>
          (let demote = (usr_role u = ''tenant_admin'' \<and> up_role p \<noteq> None \<and> up_role p \<noteq> Some ''tenant_admin'');
               disable = (usr_role u = ''tenant_admin'' \<and> usr_status u = UserActive \<and> up_status p = Some UserDisabled) in
           if (demote \<or> disable) \<and> db_count_active_admins db tenant s \<le> 1 then (s, Inl (AuthErr ''LAST_ADMIN'' 403))
           else (db_update db ident tenant (apply_patch env (p\<lparr>up_password := None\<rparr>)) s, Inr ()))))"

definition reset_sub_user_password ::
    "'s sub_users_db \<Rightarrow> auth_env \<Rightarrow> string \<Rightarrow> string \<Rightarrow> string \<Rightarrow> 's \<Rightarrow> 's \<times> (auth_error + unit)" where
  "reset_sub_user_password db env tenant ident password s =
     (if length password < 8 then (s, Inl (AuthErr ''INVALID_FIELD_VALUE'' 400))
      else (case db_find db ident tenant s of
        None \<Rightarrow> (s, Inl (AuthErr ''USER_NOT_FOUND'' 404))
      | Some _ \<Rightarrow> (db_set_hash db ident tenant (ae_bcrypt_hash env password) s, Inr ())))"

section \<open>The adapter\<close>

definition in_tenant :: "string \<Rightarrow> user_row \<Rightarrow> bool" where
  "in_tenant tenant u = (usr_tenant u = Some tenant \<and> usr_panel u = TenantPanel)"

definition sub_row :: "string \<Rightarrow> string \<Rightarrow> user_row \<Rightarrow> bool" where
  "sub_row ident tenant u = (usr_id u = ident \<and> in_tenant tenant u)"

definition tenant_admin :: "string \<Rightarrow> user_row \<Rightarrow> bool" where
  "tenant_admin tenant u = (in_tenant tenant u \<and> usr_role u = ''tenant_admin'')"

definition active_tenant_admin :: "string \<Rightarrow> user_row \<Rightarrow> bool" where
  "active_tenant_admin tenant u = (tenant_admin tenant u \<and> usr_status u = UserActive)"

definition update_sub_row :: "string \<Rightarrow> string \<Rightarrow> (user_row \<Rightarrow> user_row) \<Rightarrow> auth_world \<Rightarrow> auth_world" where
  "update_sub_row ident tenant f w = w\<lparr>aw_users := set_where (sub_row ident tenant) f (aw_users w)\<rparr>"

text \<open>An insert of an email that exists violates the unique index.\<close>

definition insert_user_row :: "user_row \<Rightarrow> auth_world \<Rightarrow> unit auth_result" where
  "insert_user_row u w =
     (if usr_email u \<in> usr_email ` set (aw_users w) then (w, Inl AuthThrown)
      else (w\<lparr>aw_users := aw_users w @ [u]\<rparr>, Inr ()))"

definition drizzle_adapter :: "auth_world sub_users_db" where
  "drizzle_adapter =
     \<lparr>db_list = (\<lambda>t w. filter (in_tenant t) (aw_users w)),
      db_count = (\<lambda>t w. length (filter (in_tenant t) (aw_users w))),
      db_count_admins = (\<lambda>t w. length (filter (tenant_admin t) (aw_users w))),
      db_count_active_admins = (\<lambda>t w. length (filter (active_tenant_admin t) (aw_users w))),
      db_find = (\<lambda>i t w. first (sub_row i t) (aw_users w)),
      db_insert = insert_user_row,
      db_update = update_sub_row,
      db_set_hash = (\<lambda>i t h. update_sub_row i t (usr_hash_update (\<lambda>_. Some h))),
      db_delete = (\<lambda>i t. delete_users (sub_row i t))\<rparr>"

section \<open>The handlers\<close>

text \<open>\<open>role\<close> of a new user is optional. \<open>limit\<close> is the plan's limit of users, looked up before.\<close>

definition create_sub_user_schema :: "auth_env \<Rightarrow> string \<Rightarrow> string \<Rightarrow> string \<Rightarrow> string option \<Rightarrow> bool" where
  "create_sub_user_schema env email name password role =
     (ae_email_ok env email \<and> length_between 1 255 name \<and> length_between 8 255 password \<and> opt_all is_allowed_role role)"

text \<open>A password in the patch is an unknown key, which the schema drops.\<close>

definition update_sub_user_schema :: "user_patch \<Rightarrow> bool" where
  "update_sub_user_schema p =
     (opt_all (length_between 1 255) (up_name p) \<and> opt_all is_allowed_role (up_role p) \<and> opt_all settable_status (up_status p)
      \<and> (up_name p \<noteq> None \<or> up_role p \<noteq> None \<or> up_status p \<noteq> None))"

definition reset_sub_user_password_schema :: "string \<Rightarrow> bool" where
  "reset_sub_user_password_schema password = length_between 8 255 password"

definition sub_user_create_route ::
    "auth_env \<Rightarrow> fresh \<Rightarrow> string \<Rightarrow> string \<Rightarrow> string \<Rightarrow> string \<Rightarrow> string option \<Rightarrow> nat \<Rightarrow> auth_world \<Rightarrow> string auth_result" where
  "sub_user_create_route env fr tenant email name password role limit w =
     (if \<not> create_sub_user_schema env email name password role then (w, Inl (AuthErr ''INVALID_FIELD_VALUE'' 400))
      else if map_of (aw_tenants w) tenant = None then (w, Inl (AuthErr ''CLIENT_NOT_FOUND'' 404))
      else create_sub_user drizzle_adapter env fr tenant email name password role (Some limit) w)"

definition sub_user_patch_route :: "auth_env \<Rightarrow> string \<Rightarrow> string \<Rightarrow> user_patch \<Rightarrow> auth_world \<Rightarrow> unit auth_result" where
  "sub_user_patch_route env tenant ident p w =
     (if \<not> update_sub_user_schema p then (w, Inl (AuthErr ''INVALID_FIELD_VALUE'' 400)) else
      case update_sub_user drizzle_adapter env tenant ident p w of
        (w1, Inl e) \<Rightarrow> (w1, Inl e)
      | (w1, Inr _) \<Rightarrow>
          (if up_status p = Some UserDisabled then revoke_all_user_refresh_tokens env ident AdminRevoke None w1 else w1, Inr ()))"

definition sub_user_reset_route :: "auth_env \<Rightarrow> string \<Rightarrow> string \<Rightarrow> string \<Rightarrow> auth_world \<Rightarrow> unit auth_result" where
  "sub_user_reset_route env tenant ident password w =
     (if \<not> reset_sub_user_password_schema password then (w, Inl (AuthErr ''INVALID_FIELD_VALUE'' 400)) else
      case reset_sub_user_password drizzle_adapter env tenant ident password w of
        (w1, Inl e) \<Rightarrow> (w1, Inl e)
      | (w1, Inr _) \<Rightarrow> (revoke_all_user_refresh_tokens env ident PasswordChange None w1, Inr ()))"

text \<open>An administrator gets a token of the first active administrator of a tenant, for an hour.\<close>

definition impersonate :: "auth_env \<Rightarrow> fresh \<Rightarrow> jwt_claims \<Rightarrow> string \<Rightarrow> auth_world \<Rightarrow> auth_error + string" where
  "impersonate env fr caller tenant w =
     (if map_of (aw_tenants w) tenant = None then Inl (AuthErr ''CLIENT_NOT_FOUND'' 404)
      else (case first (\<lambda>u. usr_tenant u = Some tenant \<and> usr_role u = ''tenant_admin'' \<and> usr_status u = UserActive) (aw_users w) of
              None \<Rightarrow> Inl (AuthErr ''NO_CLIENT_USER'' 404)
            | Some u \<Rightarrow> Inr (ae_sign env \<lparr>cl_sub = usr_id u, cl_role = Some ''tenant_admin'', cl_panel = TenantPanel,
                cl_tenant = Some tenant, cl_by = Some (cl_sub caller), cl_step = None,
                cl_exp = unix_seconds env + 3600, cl_iat = unix_seconds env, cl_jti = fr_jti fr\<rparr>)))"

definition sub_user_delete_route :: "string \<Rightarrow> string \<Rightarrow> auth_world \<Rightarrow> unit auth_result" where
  "sub_user_delete_route tenant ident w = delete_sub_user drizzle_adapter tenant ident w"

end
