(* ===== verification/AuthLaws.thy ===== *)
theory AuthLaws
  imports AuthSecond AccountAdmin
begin

text \<open>
  The laws of the tables: what a query finds after an update, how each primitive change acts on the invariant of
  the sessions and passkeys, and the interface of the sub-user service with its interpretation.
\<close>

section \<open>The invariant\<close>

definition active_in :: "string \<Rightarrow> refresh_row list \<Rightarrow> nat" where
  "active_in f rs = length (filter (\<lambda>r. rt_family r = f \<and> rt_revoked r = None) rs)"

text \<open>At most one usable token per family; the ids of the rows are keys.\<close>

definition sessions_ok :: "refresh_row list \<Rightarrow> bool" where
  "sessions_ok rs = (distinct (map rt_id rs) \<and> (\<forall>f. active_in f rs \<le> 1))"

text \<open>Whoever needs a passkey to log in has one.\<close>

definition modes_ok :: "user_row list \<Rightarrow> passkey_row list \<Rightarrow> bool" where
  "modes_ok us ks = (\<forall>u \<in> set us. usr_mode u = Some SecondFactor \<longrightarrow> usr_id u \<in> pk_user ` set ks)"

definition auth_inv :: "auth_world \<Rightarrow> bool" where
  "auth_inv w = (distinct (map usr_id (aw_users w)) \<and> distinct (map pk_id (aw_passkeys w))
     \<and> sessions_ok (aw_refresh w) \<and> modes_ok (aw_users w) (aw_passkeys w))"

lemma active_in_zero: "active_in f rs = 0 \<longleftrightarrow> (\<forall>r \<in> set rs. rt_family r = f \<longrightarrow> rt_revoked r \<noteq> None)"
  by (auto simp: active_in_def filter_empty_conv)

lemma active_in_append: "active_in f (rs @ [r]) = active_in f rs + (if rt_family r = f \<and> rt_revoked r = None then 1 else 0)"
  by (simp add: active_in_def)

lemma sessions_ok_append:
  assumes "sessions_ok rs" and "rt_id r \<notin> rt_id ` set rs" and "active_in (rt_family r) rs = 0"
  shows "sessions_ok (rs @ [r])"
  using assms by (auto simp: sessions_ok_def active_in_append)

lemma sessions_ok_filter: "sessions_ok rs \<Longrightarrow> sessions_ok (filter p rs)"
  unfolding sessions_ok_def
proof (intro conjI allI; elim conjE)
  show "distinct (map rt_id (filter p rs))" if "distinct (map rt_id rs)" using that by (rule distinct_map_filterI)
  show "active_in f (filter p rs) \<le> 1" if "\<forall>f. active_in f rs \<le> 1" for f
  proof -
    have "active_in f (filter p rs) \<le> active_in f rs"
      unfolding active_in_def filter_filter by (rule length_filter_mono) simp
    with that show ?thesis by (meson order_trans)
  qed
qed

lemma active_in_set_where:
  "(\<And>r. p r \<Longrightarrow> rt_family (f r) = rt_family r) \<Longrightarrow> (\<And>r. p r \<Longrightarrow> rt_revoked (f r) = None \<Longrightarrow> rt_revoked r = None) \<Longrightarrow>
   active_in fam (set_where p f rs) \<le> active_in fam rs"
  unfolding active_in_def by (rule length_filter_set_where) auto

lemma sessions_ok_set_where:
  assumes "sessions_ok rs" and "\<And>r. p r \<Longrightarrow> rt_id (f r) = rt_id r" and "\<And>r. p r \<Longrightarrow> rt_family (f r) = rt_family r"
    and "\<And>r. p r \<Longrightarrow> rt_revoked (f r) = None \<Longrightarrow> rt_revoked r = None"
  shows "sessions_ok (set_where p f rs)"
  unfolding sessions_ok_def
proof (intro conjI allI)
  show "distinct (map rt_id (set_where p f rs))" using assms(1,2) by (simp add: map_set_where sessions_ok_def)
  show "active_in fam (set_where p f rs) \<le> 1" for fam
    using active_in_set_where [of p f fam rs] assms(1,3,4) unfolding sessions_ok_def by (meson order_trans)
qed

lemma modes_ok_set_where:
  assumes "modes_ok us ks" and "\<And>u. p u \<Longrightarrow> usr_id (f u) = usr_id u"
    and "\<And>u. p u \<Longrightarrow> usr_mode (f u) = Some SecondFactor \<Longrightarrow> usr_mode u = Some SecondFactor \<or> usr_id u \<in> pk_user ` set ks"
  shows "modes_ok (set_where p f us) ks"
  using assms unfolding modes_ok_def by (fastforce elim!: in_set_where split: if_splits)

lemma modes_ok_keys: "modes_ok us ks \<Longrightarrow> pk_user ` set ks \<subseteq> pk_user ` set ks' \<Longrightarrow> modes_ok us ks'"
  unfolding modes_ok_def by blast

section \<open>Primitive changes\<close>

lemma inv_update_user:
  assumes "auth_inv w" and "\<And>u. usr_id (f u) = usr_id u"
    and "\<And>u. usr_id u = ident \<Longrightarrow> usr_mode (f u) = Some SecondFactor \<Longrightarrow>
          usr_mode u = Some SecondFactor \<or> ident \<in> pk_user ` set (aw_passkeys w)"
  shows "auth_inv (update_user ident f w)"
  using assms by (auto simp: auth_inv_def update_user_def map_set_where intro!: modes_ok_set_where)

lemma inv_revoke_where: "auth_inv w \<Longrightarrow> auth_inv (revoke_where env reason p w)"
  by (auto simp: auth_inv_def revoke_where_def intro!: sessions_ok_set_where)

lemma inv_touch: "auth_inv w \<Longrightarrow> auth_inv (touch_last_used env ident w)"
  by (auto simp: auth_inv_def touch_last_used_def intro!: sessions_ok_set_where)

lemma inv_refresh_filter: "auth_inv w \<Longrightarrow> auth_inv (w\<lparr>aw_refresh := filter p (aw_refresh w)\<rparr>)"
  by (simp add: auth_inv_def sessions_ok_filter)

lemma inv_challenges: "auth_inv (w\<lparr>aw_challenges := cs\<rparr>) = auth_inv w"
  by (simp add: auth_inv_def)

lemma inv_consumed: "auth_inv (w\<lparr>aw_consumed := cs\<rparr>) = auth_inv w"
  by (simp add: auth_inv_def)

lemma inv_passkeys_set_where:
  assumes "auth_inv w" and "\<And>k. pk_id (f k) = pk_id k" and "\<And>k. pk_user (f k) = pk_user k"
  shows "auth_inv (w\<lparr>aw_passkeys := set_where p f (aw_passkeys w)\<rparr>)"
proof -
  have "pk_user ` set (set_where p f (aw_passkeys w)) = pk_user ` set (aw_passkeys w)"
    using map_set_where [of p pk_user f "aw_passkeys w"] assms(3) by (metis list.set_map)
  then show ?thesis using assms by (auto simp: auth_inv_def map_set_where modes_ok_def)
qed

lemma inv_passkeys_append:
  "auth_inv w \<Longrightarrow> pk_id k \<notin> pk_id ` set (aw_passkeys w) \<Longrightarrow> auth_inv (w\<lparr>aw_passkeys := aw_passkeys w @ [k]\<rparr>)"
  by (auto simp: auth_inv_def intro: modes_ok_keys)

lemma inv_users_append:
  "auth_inv w \<Longrightarrow> usr_id u \<notin> usr_id ` set (aw_users w) \<Longrightarrow> usr_mode u = None \<Longrightarrow> auth_inv (w\<lparr>aw_users := aw_users w @ [u]\<rparr>)"
  by (auto simp: auth_inv_def modes_ok_def)

lemma inv_delete_users:
  assumes "auth_inv w"
  shows "auth_inv (delete_users p w)"
proof -
  let ?gone = "usr_id ` set (filter p (aw_users w))"
  have "modes_ok (filter (\<lambda>u. \<not> p u) (aw_users w)) (filter (\<lambda>k. pk_user k \<notin> ?gone) (aw_passkeys w))"
    unfolding modes_ok_def
  proof (intro ballI impI)
    fix u assume u: "u \<in> set (filter (\<lambda>u. \<not> p u) (aw_users w))" and m: "usr_mode u = Some SecondFactor"
    then obtain k where k: "k \<in> set (aw_passkeys w)" "pk_user k = usr_id u"
      using assms by (auto simp: auth_inv_def modes_ok_def)
    have "usr_id u \<notin> ?gone" using u assms by (auto simp: auth_inv_def distinct_map inj_on_def)
    with k have "k \<in> set (filter (\<lambda>k. pk_user k \<notin> ?gone) (aw_passkeys w))" by (simp del: image_eqI)
    with k(2) show "usr_id u \<in> pk_user ` set (filter (\<lambda>k. pk_user k \<notin> ?gone) (aw_passkeys w))"
      by (intro image_eqI [where x = k]) simp_all
  qed
  then show ?thesis
    using assms by (auto simp: auth_inv_def delete_users_def Let_def sessions_ok_filter intro: distinct_map_filterI)
qed

section \<open>Fresh values\<close>

text \<open>What random ids and secrets give: no row has them yet.\<close>

definition fresh_in :: "auth_env \<Rightarrow> fresh \<Rightarrow> auth_world \<Rightarrow> bool" where
  "fresh_in env fr w =
     (fr_id fr \<notin> usr_id ` set (aw_users w) \<and> fr_id fr \<notin> rt_id ` set (aw_refresh w)
      \<and> fr_id fr \<notin> pk_id ` set (aw_passkeys w) \<and> fr_family fr \<notin> rt_family ` set (aw_refresh w)
      \<and> ae_sha256 env (fr_secret fr) \<notin> rt_hash ` set (aw_refresh w))"

lemma map_id_revoke [simp]: "map rt_id (aw_refresh (revoke_where env reason p w)) = map rt_id (aw_refresh w)"
  by (simp add: revoke_where_def map_set_where)

lemma map_family_revoke [simp]: "map rt_family (aw_refresh (revoke_where env reason p w)) = map rt_family (aw_refresh w)"
  by (simp add: revoke_where_def map_set_where)

lemma map_hash_revoke [simp]: "map rt_hash (aw_refresh (revoke_where env reason p w)) = map rt_hash (aw_refresh w)"
  by (simp add: revoke_where_def map_set_where)

lemma images_revoke [simp]:
  "rt_id ` set (aw_refresh (revoke_where env reason p w)) = rt_id ` set (aw_refresh w)"
  "rt_family ` set (aw_refresh (revoke_where env reason p w)) = rt_family ` set (aw_refresh w)"
  "rt_hash ` set (aw_refresh (revoke_where env reason p w)) = rt_hash ` set (aw_refresh w)"
  by (metis map_id_revoke list.set_map, metis map_family_revoke list.set_map, metis map_hash_revoke list.set_map)

lemma frame_revoke [simp]:
  "aw_users (revoke_where env reason p w) = aw_users w" "aw_passkeys (revoke_where env reason p w) = aw_passkeys w"
  "aw_tenants (revoke_where env reason p w) = aw_tenants w" "aw_challenges (revoke_where env reason p w) = aw_challenges w"
  "aw_consumed (revoke_where env reason p w) = aw_consumed w"
  by (simp_all add: revoke_where_def)

lemma frame_update_user [simp]:
  "aw_refresh (update_user i f w) = aw_refresh w" "aw_passkeys (update_user i f w) = aw_passkeys w"
  "aw_tenants (update_user i f w) = aw_tenants w" "aw_challenges (update_user i f w) = aw_challenges w"
  "aw_consumed (update_user i f w) = aw_consumed w"
  by (simp_all add: update_user_def)

lemma fresh_revoke [simp]: "fresh_in env fr (revoke_where env' reason p w) = fresh_in env fr w"
  by (simp add: fresh_in_def)

lemma fresh_update_user:
  assumes "\<And>u. usr_id (f u) = usr_id u"
  shows "fresh_in env fr (update_user i f w) = fresh_in env fr w"
proof -
  have "usr_id ` set (aw_users (update_user i f w)) = usr_id ` set (aw_users w)"
    using map_set_where [of "\<lambda>u. usr_id u = i" usr_id f "aw_users w"] assms
    by (simp add: update_user_def) (metis list.set_map)
  then show ?thesis by (simp add: fresh_in_def)
qed

lemma inv_issue:
  assumes "auth_inv w" and "fresh_in env fr w"
  shows "auth_inv (fst (issue_refresh_token env fr user p tenant None w))"
proof -
  have "active_in (fr_family fr) (aw_refresh w) = 0"
    using assms(2) unfolding active_in_zero fresh_in_def by (metis imageI)
  then show ?thesis
    using assms by (auto simp: auth_inv_def issue_refresh_token_def new_refresh_row_def fresh_in_def intro!: sessions_ok_append)
qed

lemma inv_open_session: "auth_inv w \<Longrightarrow> fresh_in env fr w \<Longrightarrow> auth_inv (fst (open_session env fr u w))"
  using inv_issue [of w env fr] by (simp add: open_session_def issue_refresh_token_def)

end
