(* ===== verification/AuthInv.thy ===== *)
theory AuthInv
  imports AuthLaws
begin

text \<open>
  The operations of the accounts as one transition system, and the invariant of its reachable states: one usable
  token per family, and a passkey for whoever needs one. Each request draws fresh values; the tables of other
  modules (tenants, settings) may change at any time.
\<close>

section \<open>Requests\<close>

datatype auth_op =
    OpLogin "string option" string string
  | OpRefresh http_request
  | OpLogout http_request
  | OpProfile http_request "string option" "string option" "string option option"
  | OpPassword http_request string string
  | OpPasskeyOptions "string option" "string option"
  | OpPasskeyVerify "string option" "string option" "assertion option"
  | OpRegisterOptions http_request
  | OpRegisterVerify http_request "assertion option" string
  | OpPasskeyDelete http_request string
  | OpPasskeyMode http_request "passkey_mode option option"
  | OpClearMode string
  | OpStepPassword http_request string
  | OpStepOptions http_request
  | OpStepVerify http_request assertion
  | OpRevokeSession string string
  | OpRevokeSessions jwt_claims "string option" string
  | OpCreateAdmin string string string string
  | OpPatchAdmin string user_patch
  | OpDeleteAdmin jwt_claims string
  | OpBulkDelete jwt_claims "string list"
  | OpCreateSub string string string string "string option" nat
  | OpPatchSub string string user_patch
  | OpResetSub string string string
  | OpDeleteSub string string
  | OpPruneTokens
  | OpPruneChallenges
  | OpPruneConsumed
  | OpElsewhere "(string \<times> tenant_status) list" bool bool

fun auth_run :: "auth_env \<Rightarrow> fresh \<Rightarrow> auth_op \<Rightarrow> auth_world \<Rightarrow> auth_world" where
  "auth_run env fr (OpLogin p m pw) w = fst (login env fr p m pw w)"
| "auth_run env fr (OpRefresh rq) w = fst (refresh env fr rq w)"
| "auth_run env fr (OpLogout rq) w = logout env rq w"
| "auth_run env fr (OpProfile rq n m t) w = fst (update_profile env rq n m t w)"
| "auth_run env fr (OpPassword rq old new) w = fst (change_password env fr rq old new w)"
| "auth_run env fr (OpPasskeyOptions p pre) w = fst (passkey_login_options env fr p pre w)"
| "auth_run env fr (OpPasskeyVerify p pre a) w = fst (passkey_login_verify env fr p pre a w)"
| "auth_run env fr (OpRegisterOptions rq) w = fst (passkey_registration_options env fr rq w)"
| "auth_run env fr (OpRegisterVerify rq a n) w = fst (passkey_registration_verify env fr rq a n w)"
| "auth_run env fr (OpPasskeyDelete rq i) w = fst (passkey_delete env rq i w)"
| "auth_run env fr (OpPasskeyMode rq m) w = fst (passkey_set_mode env rq m w)"
| "auth_run env fr (OpClearMode i) w = fst (clear_passkey_mode_on_password_reset i w)"
| "auth_run env fr (OpStepPassword rq pw) w = fst (step_up_password env rq pw w)"
| "auth_run env fr (OpStepOptions rq) w = fst (step_up_passkey_options env fr rq w)"
| "auth_run env fr (OpStepVerify rq a) w = fst (step_up_passkey_verify env rq a w)"
| "auth_run env fr (OpRevokeSession u s) w = fst (revoke_admin_session env u s w)"
| "auth_run env fr (OpRevokeSessions c t u) w = fst (revoke_admin_sessions env c t u w)"
| "auth_run env fr (OpCreateAdmin m n pw r) w = fst (create_admin_user env fr m n pw r w)"
| "auth_run env fr (OpPatchAdmin i p) w = fst (update_admin_user env i p w)"
| "auth_run env fr (OpDeleteAdmin c i) w = fst (delete_admin_user c i w)"
| "auth_run env fr (OpBulkDelete c is) w = fst (bulk_delete_admin_users c is w)"
| "auth_run env fr (OpCreateSub t m n pw r l) w = fst (sub_user_create_route env fr t m n pw r l w)"
| "auth_run env fr (OpPatchSub t i p) w = fst (sub_user_patch_route env t i p w)"
| "auth_run env fr (OpResetSub t i pw) w = fst (sub_user_reset_route env t i pw w)"
| "auth_run env fr (OpDeleteSub t i) w = fst (sub_user_delete_route t i w)"
| "auth_run env fr OpPruneTokens w = prune_expired_refresh_tokens env w"
| "auth_run env fr OpPruneChallenges w = prune_expired_challenges env w"
| "auth_run env fr OpPruneConsumed w = prune_expired_consumed_tokens env w"
| "auth_run env fr (OpElsewhere ts a b) w = w\<lparr>aw_tenants := ts, aw_local_off_admin := a, aw_local_off_tenant := b\<rparr>"

definition empty_auth_world :: auth_world where
  "empty_auth_world = \<lparr>aw_users = [], aw_tenants = [], aw_refresh = [], aw_passkeys = [], aw_challenges = [],
     aw_consumed = [], aw_local_off_admin = False, aw_local_off_tenant = False\<rparr>"

text \<open>The surroundings differ from request to request (the clock does).\<close>

inductive auth_reachable :: "auth_world \<Rightarrow> bool" where
  auth_start: "auth_reachable empty_auth_world"
| auth_step: "auth_reachable w \<Longrightarrow> fresh_in env fr w \<Longrightarrow> auth_reachable (auth_run env fr op w)"

section \<open>Every request keeps the invariant\<close>

lemma first_by_id: "user_by_id w i = Some u \<Longrightarrow> u \<in> set (aw_users w) \<and> usr_id u = i"
  unfolding user_by_id_def by (drule first_SomeD) simp

lemma inv_validate: "auth_inv w \<Longrightarrow> auth_inv (fst (validate_refresh_token env t w))"
  by (simp add: validate_refresh_token_def inv_revoke_where split: option.split)

lemma validate_frame [simp]:
  "fresh_in env' fr (fst (validate_refresh_token env t w)) = fresh_in env' fr w"
  by (simp add: validate_refresh_token_def split: option.split)

lemma validate_TokOk:
  assumes "validate_refresh_token env t w = (w1, TokOk r)"
  shows "w1 = w" "r \<in> set (aw_refresh w)" "rt_revoked r = None" "rt_hash r = hash_refresh_token env t"
    "ae_now env \<le> rt_expires r"
  using assms by (auto simp: validate_refresh_token_def dest!: first_SomeD split: option.splits if_splits)

lemma inv_authenticate_user: "auth_inv w \<Longrightarrow> auth_inv (fst (authenticate_user env m pw w))"
  by (auto simp: authenticate_user_def split: option.split intro!: inv_update_user)

lemma fresh_authenticate_user [simp]: "fresh_in env' fr (fst (authenticate_user env m pw w)) = fresh_in env' fr w"
  by (simp add: authenticate_user_def fresh_update_user split: option.split)

lemma inv_login:
  assumes "auth_inv w" and "fresh_in env fr w"
  shows "auth_inv (fst (login env fr p m pw w))"
proof -
  obtain w1 x where a: "authenticate_user env m pw w = (w1, x)" by fastforce
  have "auth_inv w1" "fresh_in env fr w1"
    using inv_authenticate_user [OF assms(1), of env m pw] fresh_authenticate_user [of env fr env m pw w] assms(2) a by simp_all
  then show ?thesis
    using inv_open_session [of w1 env fr] assms(1) a by (auto simp: login_def Let_def split_def split: sum.split)
qed

lemma inv_check:
  assumes "auth_inv w"
  shows "auth_inv (fst (refresh_check env t w))"
proof (cases t)
  case (Some p)
  obtain w1 v where v: "validate_refresh_token env p w = (w1, v)" by fastforce
  then have "auth_inv w1" using inv_validate [OF assms, of env p] by simp
  with Some v show ?thesis
    by (simp add: refresh_check_def revoke_refresh_token_by_id_def inv_revoke_where split: option.split validation.split)
qed (use assms in \<open>simp add: refresh_check_def\<close>)

lemma refresh_check_Inr:
  assumes "refresh_check env t w = (w1, Inr (r, u))"
  shows "w1 = w" "r \<in> set (aw_refresh w)" "rt_revoked r = None" "user_by_id w (rt_user r) = Some u"
    "usr_status u = UserActive" "\<not> tenant_archived w (keep_truthy (usr_tenant u))"
    "ae_now env \<le> rt_expires r" "\<exists>p. t = Some p \<and> rt_hash r = hash_refresh_token env p"
  using assms by (auto simp: refresh_check_def dest: validate_TokOk split: option.splits validation.splits prod.splits if_splits)

text \<open>Once its usable token is revoked, a family has none.\<close>

lemma active_in_revoked:
  assumes s: "sessions_ok rs" and r: "r \<in> set rs" "rt_revoked r = None"
  shows "active_in (rt_family r) (set_where (\<lambda>x. rt_id x = rt_id r \<and> rt_revoked x = None) (\<lambda>x. x\<lparr>rt_revoked := Some (t, m)\<rparr>) rs) = 0"
proof -
  have "x = r" if "x \<in> set rs" "rt_family x = rt_family r" "rt_revoked x = None" for x
  proof -
    have "length (filter (\<lambda>y. rt_family y = rt_family r \<and> rt_revoked y = None) rs) \<le> 1"
      using s by (simp add: sessions_ok_def active_in_def)
    moreover have "x \<in> set (filter (\<lambda>y. rt_family y = rt_family r \<and> rt_revoked y = None) rs)"
      "r \<in> set (filter (\<lambda>y. rt_family y = rt_family r \<and> rt_revoked y = None) rs)" using that r by auto
    ultimately show ?thesis by (rule short_list_unique)
  qed
  then show ?thesis unfolding active_in_zero by (fastforce elim!: in_set_where split: if_splits)
qed

lemma inv_rotate:
  assumes i: "auth_inv w" and f: "fresh_in env fr w" and r: "r \<in> set (aw_refresh w)" "rt_revoked r = None"
  shows "auth_inv (fst (refresh_rotate env fr rq r u w))"
proof -
  let ?w1 = "revoke_refresh_token_by_id env (rt_id r) Rotated w"
  have "active_in (rt_family r) (aw_refresh ?w1) = 0"
    using active_in_revoked [of "aw_refresh w" r] i r by (simp add: auth_inv_def revoke_refresh_token_by_id_def revoke_where_def)
  moreover have "auth_inv ?w1" "fresh_in env fr ?w1"
    using i f by (simp_all add: revoke_refresh_token_by_id_def inv_revoke_where)
  ultimately have "auth_inv (fst (issue_refresh_token env fr (usr_id u) (rt_panel r) (rt_tenant r) (Some (rt_family r)) ?w1))"
    by (auto simp: auth_inv_def issue_refresh_token_def new_refresh_row_def fresh_in_def intro!: sessions_ok_append)
  then show ?thesis by (simp add: refresh_rotate_def Let_def inv_touch split_def)
qed

lemma inv_refresh:
  assumes "auth_inv w" and "fresh_in env fr w"
  shows "auth_inv (fst (refresh env fr rq w))"
proof -
  obtain w1 x where c: "refresh_check env (pick_refresh_token rq) w = (w1, x)" by fastforce
  then have w1: "auth_inv w1" using inv_check [OF assms(1), of env "pick_refresh_token rq"] by simp
  show ?thesis
  proof (cases x)
    case (Inr ru)
    obtain r u where "ru = (r, u)" by fastforce
    with c Inr have "w1 = w" "r \<in> set (aw_refresh w)" "rt_revoked r = None" by (auto dest: refresh_check_Inr)
    then show ?thesis using inv_rotate [OF assms] c Inr \<open>ru = _\<close> by (simp add: refresh_def split_def Let_def)
  qed (use c w1 in \<open>simp add: refresh_def\<close>)
qed

lemma inv_logout:
  assumes "auth_inv w"
  shows "auth_inv (logout env rq w)"
proof (cases "pick_refresh_token rq")
  case (Some p)
  obtain w1 v where v: "validate_refresh_token env p w = (w1, v)" by fastforce
  then have "auth_inv w1" using inv_validate [OF assms, of env p] by simp
  with Some v show ?thesis
    by (simp add: logout_def revoke_refresh_token_by_id_def inv_revoke_where split: validation.split)
qed (use assms in \<open>simp add: logout_def\<close>)

lemma inv_update_same:
  "auth_inv w \<Longrightarrow> (\<And>u. usr_id (f u) = usr_id u) \<Longrightarrow> (\<And>u. usr_mode (f u) = usr_mode u) \<Longrightarrow> auth_inv (update_user i f w)"
  by (rule inv_update_user) simp_all

lemma inv_update_profile: "auth_inv w \<Longrightarrow> auth_inv (fst (update_profile env rq n m t w))"
  by (simp add: update_profile_def inv_update_same split: sum.split)

lemma inv_revoke_all: "auth_inv w \<Longrightarrow> auth_inv (revoke_all_user_refresh_tokens env u m k w)"
  by (simp add: revoke_all_user_refresh_tokens_def inv_revoke_where)

lemma fresh_revoke_all [simp]: "fresh_in env fr (revoke_all_user_refresh_tokens env' u m k w) = fresh_in env fr w"
  by (simp add: revoke_all_user_refresh_tokens_def)

lemma inv_change_password:
  assumes "auth_inv w" and "fresh_in env fr w"
  shows "auth_inv (fst (change_password env fr rq old new w))"
proof -
  let ?w = "\<lambda>i. revoke_all_user_refresh_tokens env i PasswordChange None
              (update_user i (usr_hash_update (\<lambda>_. Some (ae_bcrypt_hash env new))) w)"
  have "auth_inv (?w i)" "fresh_in env fr (?w i)" for i
    using assms by (simp_all add: inv_revoke_all inv_update_same fresh_update_user)
  then show ?thesis
    using assms(1) inv_issue [where w = "?w i" and env = env and fr = fr for i]
    by (simp add: change_password_def Let_def case_prod_beta split: sum.split option.split)
qed

section \<open>Passkeys\<close>

lemma inv_handle: "auth_inv w \<Longrightarrow> auth_inv (fst (get_or_create_passkey_user_handle fr u w))"
  by (simp add: get_or_create_passkey_user_handle_def inv_update_same split: option.split)

lemma inv_persist: "auth_inv (persist_challenge env fr c p u w) = auth_inv w"
  by (simp add: persist_challenge_def inv_challenges)

lemma inv_consume: "auth_inv w \<Longrightarrow> auth_inv (fst (consume_challenge env c m p u w))"
  by (simp add: consume_challenge_def inv_challenges split: option.split)

lemma consume_frame [simp]:
  "aw_users (fst (consume_challenge env c m p u w)) = aw_users w"
  "aw_passkeys (fst (consume_challenge env c m p u w)) = aw_passkeys w"
  "aw_refresh (fst (consume_challenge env c m p u w)) = aw_refresh w"
  "fresh_in env' fr (fst (consume_challenge env c m p u w)) = fresh_in env' fr w"
  by (simp_all add: consume_challenge_def fresh_in_def split: option.split)

lemma inv_begin_registration: "auth_inv w \<Longrightarrow> auth_inv (fst (begin_registration env fr u p w))"
  using inv_handle [of w fr u] by (simp add: begin_registration_def split_def inv_persist split: sum.split)

lemma inv_complete_registration:
  assumes "auth_inv w" and "fresh_in env fr w"
  shows "auth_inv (fst (complete_registration env fr u p a n w))"
proof (cases "as_challenge a")
  case (Some c)
  obtain w1 x where c: "consume_challenge env c ForRegister p (Some u) w = (w1, x)" by fastforce
  have "auth_inv w1" "fr_id fr \<notin> pk_id ` set (aw_passkeys w1)"
    using inv_consume [OF assms(1), of env c ForRegister p "Some u"] assms(2)
      consume_frame(2) [of env c ForRegister p "Some u" w] c by (simp_all add: fresh_in_def)
  then show ?thesis
    using Some c by (simp add: complete_registration_def inv_passkeys_append split: sum.split option.split)
qed (use assms in \<open>simp add: complete_registration_def\<close>)

lemma inv_begin_authentication: "auth_inv w \<Longrightarrow> auth_inv (fst (begin_authentication env fr p u w))"
  by (simp add: begin_authentication_def Let_def inv_persist)

lemma inv_check_credential: "auth_inv w \<Longrightarrow> auth_inv (fst (check_credential env u a c w))"
  by (simp add: check_credential_def inv_update_same inv_passkeys_set_where split: option.split)

lemma fresh_check_credential [simp]: "fresh_in env' fr (fst (check_credential env u a c w)) = fresh_in env' fr w"
proof -
  have "fresh_in env' fr (w\<lparr>aw_passkeys := set_where p (\<lambda>x. x\<lparr>pk_count := n, pk_last_used := t\<rparr>) (aw_passkeys w)\<rparr>)
      = fresh_in env' fr w" for p n t
  proof -
    have "map pk_id (set_where p (\<lambda>x. x\<lparr>pk_count := n, pk_last_used := t\<rparr>) (aw_passkeys w)) = map pk_id (aw_passkeys w)"
      by (rule map_set_where) simp
    then have "pk_id ` set (set_where p (\<lambda>x. x\<lparr>pk_count := n, pk_last_used := t\<rparr>) (aw_passkeys w)) = pk_id ` set (aw_passkeys w)"
      by (metis list.set_map)
    then show ?thesis by (simp add: fresh_in_def)
  qed
  then show ?thesis by (simp add: check_credential_def fresh_update_user split: option.split)
qed

lemma complete_authentication_keeps:
  assumes "auth_inv w"
  shows "auth_inv (fst (complete_authentication env p a e w))"
    "fresh_in env' fr (fst (complete_authentication env p a e w)) = fresh_in env' fr w"
proof -
  have "auth_inv (fst (complete_authentication env p a e w)) \<and>
        fresh_in env' fr (fst (complete_authentication env p a e w)) = fresh_in env' fr w"
  proof (cases "as_challenge a")
    case (Some c)
    let ?m = "if e = None then ForUserless else For2fa"
    obtain w1 x where c: "consume_challenge env c ?m p e w = (w1, x)" by fastforce
    with inv_consume [OF assms, of env c ?m p e] consume_frame(4) [where env = env and c = c and m = ?m and p = p and u = e and w = w]
    have w1: "auth_inv w1" "fresh_in env' fr w1 = fresh_in env' fr w" by (metis fst_conv)+
    then have "auth_inv (fst (check_credential env u a c w1))"
      "fresh_in env' fr (fst (check_credential env u a c w1)) = fresh_in env' fr w" for u
      by (simp_all add: inv_check_credential)
    note check = this
    show ?thesis
    proof (cases "authentication_user w p a e")
      case (Inr u)
      obtain w2 y where k: "check_credential env u a c w1 = (w2, y)" by fastforce
      with check [of u] w1 have "auth_inv w2" "fresh_in env' fr w2 = fresh_in env' fr w" by simp_all
      then show ?thesis
        using Some Inr c k w1 by (cases e; cases x; cases y) (simp_all add: complete_authentication_def split_def)
    qed (use Some assms in \<open>simp add: complete_authentication_def\<close>)
  qed (use assms in \<open>simp add: complete_authentication_def\<close>)
  then show "auth_inv (fst (complete_authentication env p a e w))"
    "fresh_in env' fr (fst (complete_authentication env p a e w)) = fresh_in env' fr w" by simp_all
qed

lemma cleared_mode:
  assumes "x \<in> set (set_where (\<lambda>y. usr_id y = i) (usr_mode_update (\<lambda>_. None)) us)" and "usr_id x = i"
  shows "usr_mode x = None"
proof -
  from assms(1) obtain y where "x = (if usr_id y = i then usr_mode_update (\<lambda>_. None) y else y)" by (rule in_set_where)
  with assms(2) show ?thesis by (cases "usr_id y = i") simp_all
qed

lemma inv_delete_passkey:
  assumes i: "auth_inv w"
  shows "auth_inv (fst (delete_passkey u i w))"
proof (cases "first (\<lambda>k. pk_id k = i \<and> pk_user k = u) (aw_passkeys w)")
  case (Some k)
  then have k: "k \<in> set (aw_passkeys w)" "pk_id k = i" "pk_user k = u" by (auto dest: first_SomeD)
  let ?rest = "filter (\<lambda>k. pk_id k \<noteq> i) (aw_passkeys w)"
  have other: "pk_user k' = u" if "k' \<in> set (aw_passkeys w)" "pk_id k' = i" for k'
    using that k i by (metis auth_inv_def distinct_map inj_on_def)
  have rest: "modes_ok us ?rest"
    if "modes_ok us (aw_passkeys w)" "\<And>x. x \<in> set us \<Longrightarrow> usr_id x = u \<Longrightarrow> usr_mode x = Some SecondFactor \<Longrightarrow> u \<in> pk_user ` set ?rest" for us
    unfolding modes_ok_def
  proof (intro ballI impI)
    fix x assume x: "x \<in> set us" "usr_mode x = Some SecondFactor"
    with that(1) obtain k' where k': "k' \<in> set (aw_passkeys w)" "pk_user k' = usr_id x" by (auto simp: modes_ok_def)
    show "usr_id x \<in> pk_user ` set ?rest"
    proof (cases "usr_id x = u")
      case False
      with k' other have "k' \<in> set ?rest" by auto
      with k'(2) show ?thesis by (metis imageI)
    qed (use that(2) x in simp)
  qed
  have mode: "user_by_id w u = Some x" if "x \<in> set (aw_users w)" "usr_id x = u" for x
    unfolding user_by_id_def using that i by (intro first_unique [where k = usr_id]) (auto simp: auth_inv_def)
  have two: "u \<in> pk_user ` set ?rest" if l: "\<not> length (list_passkeys w u) \<le> 1"
  proof (rule ccontr)
    assume "u \<notin> pk_user ` set ?rest"
    then have only: "pk_id x = i" if "x \<in> set (aw_passkeys w)" "pk_user x = u" for x
      using that by (auto simp: image_iff)
    have "inj_on pk_id (set (aw_passkeys w))" using i by (simp add: auth_inv_def distinct_map)
    with only k have "x = k" if "x \<in> set (list_passkeys w u)" for x
      using that unfolding list_passkeys_def inj_on_def by auto
    then have "set (list_passkeys w u) \<subseteq> {k}" by blast
    moreover have "distinct (list_passkeys w u)" using i by (simp add: list_passkeys_def auth_inv_def distinct_map)
    ultimately have "length (list_passkeys w u) \<le> card {k}" by (metis card_mono distinct_card finite.emptyI finite_insert)
    with l show False by simp
  qed
  have dist: "auth_inv (w'\<lparr>aw_passkeys := ?rest\<rparr>)"
    if "auth_inv w'" "modes_ok (aw_users w') ?rest" for w'
    using that i by (simp add: auth_inv_def distinct_map_filterI)
  show ?thesis
  proof (cases "length (list_passkeys w u) \<le> 1")
    case False
    have "modes_ok (aw_users w) ?rest" using i two [OF False] by (intro rest) (simp_all add: auth_inv_def)
    then show ?thesis using dist [OF i] Some False by (simp add: delete_passkey_def Let_def)
  next
    case True
    have none: "modes_ok (aw_users w) ?rest"
      if "(case user_by_id w u of Some x \<Rightarrow> usr_mode x | None \<Rightarrow> None) \<noteq> Some SecondFactor"
    proof (rule rest)
      show "modes_ok (aw_users w) (aw_passkeys w)" using i by (simp add: auth_inv_def)
      show "u \<in> pk_user ` set ?rest" if "x \<in> set (aw_users w)" "usr_id x = u" "usr_mode x = Some SecondFactor" for x
        using mode [OF that(1,2)] that(3) \<open>_ \<noteq> Some SecondFactor\<close> by simp
    qed
    let ?w' = "update_user u (usr_mode_update (\<lambda>_. None)) w"
    have upd: "auth_inv ?w'" using i by (intro inv_update_user) simp_all
    have "modes_ok (aw_users ?w') (aw_passkeys w)" using upd by (simp add: auth_inv_def)
    moreover have "usr_mode x = None" if "x \<in> set (aw_users ?w')" "usr_id x = u" for x
      using cleared_mode that by (simp add: update_user_def)
    ultimately have "modes_ok (aw_users ?w') ?rest" by (intro rest) simp_all
    with dist [OF upd] have del: "auth_inv (?w'\<lparr>aw_passkeys := ?rest\<rparr>)" by simp
    obtain m where m: "(case user_by_id w u of Some x \<Rightarrow> usr_mode x | None \<Rightarrow> None) = m" by blast
    consider "m = Some SecondFactor" | "m = Some Alternative" | "m = None" by (metis option.exhaust passkey_mode.exhaust)
    then show ?thesis
    proof cases
      case 1
      then have "fst (delete_passkey u i w) = w" using Some True m by (simp add: delete_passkey_def)
      then show ?thesis using i by simp
    next
      case 2
      then have "fst (delete_passkey u i w) = ?w'\<lparr>aw_passkeys := ?rest\<rparr>" using Some True m by (simp add: delete_passkey_def)
      then show ?thesis using del by simp
    next
      case 3
      then have "fst (delete_passkey u i w) = w\<lparr>aw_passkeys := ?rest\<rparr>" using Some True m by (simp add: delete_passkey_def)
      then show ?thesis using dist [OF i] none m 3 by simp
    qed
  qed
qed (use i in \<open>simp add: delete_passkey_def\<close>)

lemma inv_set_mode:
  assumes "auth_inv w"
  shows "auth_inv (fst (set_passkey_mode u m w))"
proof (cases "m = Some SecondFactor \<and> list_passkeys w u = []")
  case False
  then have "m = Some SecondFactor \<Longrightarrow> u \<in> pk_user ` set (aw_passkeys w)"
    by (auto simp: list_passkeys_def filter_empty_conv)
  then have "auth_inv (update_user u (usr_mode_update (\<lambda>_. m)) w)" using assms by (intro inv_update_user) auto
  then show ?thesis using False assms by (simp add: set_passkey_mode_def)
qed (use assms in \<open>simp add: set_passkey_mode_def\<close>)

lemma inv_no_mode: "auth_inv w \<Longrightarrow> auth_inv (update_user u (usr_mode_update (\<lambda>_. None)) w)"
  by (rule inv_update_user) simp_all

lemma inv_clear_mode: "auth_inv w \<Longrightarrow> auth_inv (fst (clear_passkey_mode_on_password_reset u w))"
  by (simp add: clear_passkey_mode_on_password_reset_def inv_no_mode split: option.split)

lemma inv_pre_auth: "auth_inv w \<Longrightarrow> auth_inv (fst (verify_and_consume_pre_auth_token env j u p w))"
  by (simp add: verify_and_consume_pre_auth_token_def Let_def inv_consumed split: option.split)

lemma fresh_pre_auth [simp]: "fresh_in env' fr (fst (verify_and_consume_pre_auth_token env j u p w)) = fresh_in env' fr w"
  by (simp add: verify_and_consume_pre_auth_token_def Let_def fresh_in_def split: option.split)

lemma inv_login_options: "auth_inv w \<Longrightarrow> auth_inv (fst (passkey_login_options env fr p pre w))"
  by (simp add: passkey_login_options_def Let_def split_def inv_begin_authentication split: option.split sum.split)

lemma inv_passkey_login_verify:
  assumes "auth_inv w" and "fresh_in env fr w"
  shows "auth_inv (fst (passkey_login_verify env fr bp pre a w))"
proof -
  have fin: "auth_inv (fst (complete_authentication env p a e v))"
      "auth_inv (fst (open_session env fr u (fst (complete_authentication env p a e v))))"
    if "auth_inv v" "fresh_in env fr v" for p a e u v
    using that by (simp_all add: inv_open_session complete_authentication_keeps)
  have "auth_inv (fst (verify_and_consume_pre_auth_token env j u p w))"
    "fresh_in env fr (fst (verify_and_consume_pre_auth_token env j u p w))" for j u p
    using assms by (simp_all add: inv_pre_auth)
  with assms show ?thesis
    by (simp add: passkey_login_verify_def Let_def split_def fin split: option.split sum.split)
qed

lemma inv_with_bearer: "auth_inv w \<Longrightarrow> (\<And>c. auth_inv (fst (k c))) \<Longrightarrow> auth_inv (fst (with_bearer env rq w k))"
  by (simp add: with_bearer_def split: sum.split)

lemma inv_step_verify: "auth_inv w \<Longrightarrow> auth_inv (fst (step_up_passkey_verify env rq a w))"
  unfolding step_up_passkey_verify_def
proof (rule inv_with_bearer)
  fix c assume i: "auth_inv w"
  let ?w1 = "fst (complete_authentication env (cl_panel c) a (Some (cl_sub c)) w)"
  have "auth_inv ?w1" by (rule complete_authentication_keeps(1) [OF i])
  then show "auth_inv (fst (case complete_authentication env (cl_panel c) a (Some (cl_sub c)) w of
         (w1, Inl e) \<Rightarrow> (w1, Inl e)
       | (w1, Inr (u, _)) \<Rightarrow>
           (if usr_id u \<noteq> cl_sub c then (w1, Inl (AuthErr ''STEP_UP_FAILED'' 401))
            else (let w2 = update_user (cl_sub c) (usr_last_step_up_update (\<lambda>_. Some (ae_now env))) w1 in
                  (w2, Inr (case Option.bind (user_by_id w2 (cl_sub c)) usr_last_step_up of Some t \<Rightarrow> t | None \<Rightarrow> ae_now env))))))"
    by (simp add: split_def Let_def inv_update_same split: sum.split)
qed

lemma inv_step_password: "auth_inv w \<Longrightarrow> auth_inv (fst (step_up_password env rq pw w))"
  unfolding step_up_password_def
  by (rule inv_with_bearer) (simp_all add: verify_step_up_password_def inv_update_same split: option.split)

section \<open>Accounts\<close>

lemma inv_revoke_admin_session: "auth_inv w \<Longrightarrow> auth_inv (fst (revoke_admin_session env u s w))"
  by (simp add: revoke_admin_session_def revoke_refresh_token_by_id_def inv_revoke_where)

lemma inv_revoke_admin_sessions: "auth_inv w \<Longrightarrow> auth_inv (fst (revoke_admin_sessions env c t u w))"
  by (simp add: revoke_admin_sessions_def Let_def inv_revoke_all split: option.split)

lemma inv_create_admin: "auth_inv w \<Longrightarrow> fresh_in env fr w \<Longrightarrow> auth_inv (fst (create_admin_user env fr m n pw r w))"
  by (simp add: create_admin_user_def inv_users_append new_user_def fresh_in_def)

lemma apply_patch_keeps [simp]: "usr_id (apply_patch env p u) = usr_id u" "usr_mode (apply_patch env p u) = usr_mode u"
  "usr_tenant (apply_patch env p u) = usr_tenant u" "usr_panel (apply_patch env p u) = usr_panel u"
  by (simp_all add: apply_patch_def)

lemma inv_update_admin: "auth_inv w \<Longrightarrow> auth_inv (fst (update_admin_user env i p w))"
  by (simp add: update_admin_user_def Let_def inv_revoke_all inv_update_same split: option.split)

lemma inv_delete_admin: "auth_inv w \<Longrightarrow> auth_inv (fst (delete_admin_user c i w))"
  by (simp add: delete_admin_user_def inv_delete_users split: option.split)

lemma inv_fold_delete: "auth_inv w \<Longrightarrow> auth_inv (fold (\<lambda>i. delete_users (q i)) is w)"
  by (induction "is" arbitrary: w) (simp_all add: inv_delete_users)

lemma inv_bulk_delete: "auth_inv w \<Longrightarrow> auth_inv (fst (bulk_delete_admin_users c is w))"
  by (simp add: bulk_delete_admin_users_def Let_def inv_fold_delete)

lemma inv_update_sub_row:
  assumes "auth_inv w" and "\<And>u. usr_id (f u) = usr_id u" and "\<And>u. usr_mode (f u) = usr_mode u"
  shows "auth_inv (update_sub_row i t f w)"
  using assms by (auto simp: auth_inv_def update_sub_row_def map_set_where intro!: modes_ok_set_where)

lemma inv_create_sub: "auth_inv w \<Longrightarrow> fresh_in env fr w \<Longrightarrow> auth_inv (fst (sub_user_create_route env fr t m n pw r l w))"
  by (simp add: sub_user_create_route_def create_sub_user_def Let_def drizzle_adapter_def insert_user_row_def
      inv_users_append new_user_def fresh_in_def split_def split: sum.split)

lemma inv_patch_sub: "auth_inv w \<Longrightarrow> auth_inv (fst (sub_user_patch_route env t i p w))"
  by (simp add: sub_user_patch_route_def update_sub_user_def drizzle_adapter_def split_def inv_revoke_all
      inv_update_sub_row Let_def split: option.split sum.split)

lemma inv_reset_sub: "auth_inv w \<Longrightarrow> auth_inv (fst (sub_user_reset_route env t i pw w))"
  by (simp add: sub_user_reset_route_def reset_sub_user_password_def drizzle_adapter_def inv_revoke_all
      inv_update_sub_row split: option.split)

lemma inv_delete_sub: "auth_inv w \<Longrightarrow> auth_inv (fst (sub_user_delete_route t i w))"
  by (simp add: sub_user_delete_route_def delete_sub_user_def drizzle_adapter_def inv_delete_users split: option.split)

section \<open>All requests\<close>

lemma inv_elsewhere: "auth_inv (w\<lparr>aw_tenants := ts, aw_local_off_admin := a, aw_local_off_tenant := b\<rparr>) = auth_inv w"
  by (simp add: auth_inv_def)

lemma inv_bearer_ops:
  assumes "auth_inv w"
  shows "auth_inv (fst (passkey_registration_options env fr rq w))"
    "auth_inv (fst (passkey_delete env rq i w))" "auth_inv (fst (passkey_set_mode env rq m w))"
    "auth_inv (fst (step_up_passkey_options env fr rq w))"
    "fresh_in env fr w \<Longrightarrow> auth_inv (fst (passkey_registration_verify env fr rq a n w))"
  unfolding passkey_registration_options_def passkey_delete_def passkey_set_mode_def step_up_passkey_options_def
    passkey_registration_verify_def
  by (rule inv_with_bearer; simp add: assms inv_begin_registration inv_delete_passkey inv_set_mode
      inv_begin_authentication inv_complete_registration split: option.split)+

lemma auth_run_inv:
  assumes "auth_inv w" and "fresh_in env fr w"
  shows "auth_inv (auth_run env fr op w)"
  using assms
  by (cases op) (simp_all add: inv_login inv_refresh inv_logout inv_update_profile inv_change_password inv_login_options
      inv_passkey_login_verify inv_bearer_ops inv_clear_mode inv_step_password inv_step_verify inv_revoke_admin_session
      inv_revoke_admin_sessions inv_create_admin inv_update_admin inv_delete_admin inv_bulk_delete inv_create_sub
      inv_patch_sub inv_reset_sub inv_delete_sub inv_elsewhere prune_expired_refresh_tokens_def inv_refresh_filter
      prune_expired_challenges_def inv_challenges prune_expired_consumed_tokens_def inv_consumed)

lemma auth_reachable_inv: "auth_reachable w \<Longrightarrow> auth_inv w"
proof (induction rule: auth_reachable.induct)
  case auth_start
  then show ?case by (simp add: empty_auth_world_def auth_inv_def sessions_ok_def modes_ok_def active_in_def)
qed (rule auth_run_inv)

end
