(* ===== verification/AccountLaws.thy ===== *)
theory AccountLaws
  imports AuthInv
begin

text \<open>
  The interface of the sub-user service (\<open>SubUsersDb\<close> of \<open>tenants/sub-users-service.ts\<close>) as a locale: what the
  counts are after a change. The guards of the service are proved from these laws alone and hold for the adapter of
  the database by interpretation.
\<close>

section \<open>The laws of the interface\<close>

definition admin_weight :: "user_row \<Rightarrow> nat" where
  "admin_weight u = (if usr_role u = ''tenant_admin'' then 1 else 0)"

definition active_weight :: "user_row \<Rightarrow> nat" where
  "active_weight u = (if usr_role u = ''tenant_admin'' \<and> usr_status u = UserActive then 1 else 0)"

text \<open>\<open>ok\<close> is what the database guarantees of its states: ids are keys.\<close>

locale sub_users_laws =
  fixes db :: "'s sub_users_db" and ok :: "'s \<Rightarrow> bool"
  assumes active_le: "db_count_active_admins db t s \<le> db_count_admins db t s"
    and delete_admins: "ok s \<Longrightarrow> db_find db i t s = Some u \<Longrightarrow>
      db_count_admins db t (db_delete db i t s) + admin_weight u = db_count_admins db t s"
    and update_active: "ok s \<Longrightarrow> db_find db i t s = Some u \<Longrightarrow> (\<And>x. in_tenant t (f x) = in_tenant t x) \<Longrightarrow>
      db_count_active_admins db t (db_update db i t f s) + active_weight u = db_count_active_admins db t s + active_weight (f u)"
    and insert_count: "db_insert db u s = (s', Inr ()) \<Longrightarrow> in_tenant t u \<Longrightarrow> db_count db t s' = Suc (db_count db t s)"
    and insert_error: "db_insert db u s = (s', Inl e) \<Longrightarrow> s' = s"
begin

lemma delete_keeps_an_admin:
  assumes "ok s" and "delete_sub_user db t i s = (s', r)" and "1 \<le> db_count_admins db t s"
  shows "1 \<le> db_count_admins db t s'"
proof (cases "db_find db i t s")
  case (Some u)
  with delete_admins [OF assms(1) Some] assms(2,3) show ?thesis
    by (auto simp: delete_sub_user_def admin_weight_def split: if_splits)
qed (use assms in \<open>auto simp: delete_sub_user_def\<close>)

lemma update_keeps_an_active_admin:
  assumes "ok s" and "update_sub_user db env t i p s = (s', r)" and schema: "update_sub_user_schema p" and "1 \<le> db_count_active_admins db t s"
  shows "1 \<le> db_count_active_admins db t s'"
proof (cases "db_find db i t s")
  case (Some u)
  let ?f = "apply_patch env (p\<lparr>up_password := None\<rparr>)"
  have "in_tenant t (?f x) = in_tenant t x" for x by (simp add: in_tenant_def)
  note law = update_active [OF assms(1) Some this]
  show ?thesis
  proof (cases "s' = s")
    case False
    then have s': "s' = db_update db i t ?f s"
      using assms(2) Some by (auto simp: update_sub_user_def Let_def split: if_splits)
    have guard: "\<not> ((usr_role u = ''tenant_admin'' \<and> up_role p \<noteq> None \<and> up_role p \<noteq> Some ''tenant_admin''
         \<or> usr_role u = ''tenant_admin'' \<and> usr_status u = UserActive \<and> up_status p = Some UserDisabled)
        \<and> db_count_active_admins db t s \<le> 1)"
      using assms(2) Some False by (auto simp: update_sub_user_def Let_def split: if_splits)
    show ?thesis
    proof (cases "db_count_active_admins db t s \<le> 1 \<and> active_weight u = 1")
      case True
      then have "usr_role u = ''tenant_admin''" "usr_status u = UserActive"
        by (auto simp: active_weight_def split: if_splits)
      with guard True have "up_role p = None \<or> up_role p = Some ''tenant_admin''" "up_status p \<noteq> Some UserDisabled" by auto
      with schema \<open>usr_role u = _\<close> \<open>usr_status u = _\<close> have "active_weight (?f u) = 1"
        by (auto simp: active_weight_def apply_patch_def update_sub_user_schema_def opt_all_def settable_status_def split: option.splits)
      with law s' True assms(4) show ?thesis by simp
    next
      case False
      then show ?thesis using law s' assms(4) by (auto simp: active_weight_def split: if_splits)
    qed
  qed (use assms(4) in simp)
qed (use assms in \<open>auto simp: update_sub_user_def split: if_splits option.splits\<close>)

text \<open>No plan is exceeded by one request, and a request that fails changes nothing.\<close>

lemma create_respects_limit:
  assumes "create_sub_user db env fr t m n pw role (Some limit) s = (s', Inr i)"
  shows "db_count db t s' = Suc (db_count db t s)" "db_count db t s' \<le> limit"
  using assms insert_count [of _ s s' t]
  by (auto simp: create_sub_user_def Let_def new_user_def in_tenant_def split: if_splits prod.splits sum.splits)

lemma failed_sub_user_request:
  "create_sub_user db env fr t m n pw role limit s = (s', Inl e) \<Longrightarrow> s' = s"
  "delete_sub_user db t i s = (s', Inl e) \<Longrightarrow> s' = s"
  "update_sub_user db env t i p s = (s', Inl e) \<Longrightarrow> s' = s"
  "reset_sub_user_password db env t i pw s = (s', Inl e) \<Longrightarrow> s' = s"
  by (auto simp: create_sub_user_def delete_sub_user_def update_sub_user_def reset_sub_user_password_def Let_def
      dest: insert_error split: if_splits prod.splits sum.splits option.splits)

end

section \<open>The adapter\<close>

lemma length_filter_pick:
  assumes "distinct (map k xs)" and "x \<in> set xs"
  shows "length (filter q (filter (\<lambda>y. k y \<noteq> k x) xs)) + (if q x then 1 else 0) = length (filter q xs)"
  using assms
proof (induction xs)
  case (Cons y ys)
  show ?case
  proof (cases "x = y")
    case True
    then have "\<forall>z \<in> set ys. k z \<noteq> k x" using Cons.prems(1) by (metis distinct.simps(2) image_eqI list.set_map list.simps(9))
    then have "filter (\<lambda>y. k y \<noteq> k x) ys = ys" by (simp add: filter_id_conv)
    then show ?thesis using True by simp
  next
    case False
    with Cons.prems have "k y \<noteq> k x" "x \<in> set ys" by auto
    with Cons show ?thesis by auto
  qed
qed simp

lemma length_filter_change:
  assumes "distinct (map k xs)" and "x \<in> set xs"
  shows "length (filter q (set_where (\<lambda>y. k y = k x) f xs)) + (if q x then 1 else 0)
       = length (filter q xs) + (if q (f x) then 1 else 0)"
  using assms
proof (induction xs)
  case (Cons y ys)
  show ?case
  proof (cases "x = y")
    case True
    then have "\<forall>z \<in> set ys. k z \<noteq> k x" using Cons.prems(1) by (metis distinct.simps(2) image_eqI list.set_map list.simps(9))
    then have "set_where (\<lambda>y. k y = k x) f ys = ys" by (simp add: set_where_def map_idI)
    then show ?thesis using True by (simp add: set_where_def)
  next
    case False
    with Cons.prems have "k y \<noteq> k x" "x \<in> set ys" by auto
    with Cons show ?thesis by (simp add: set_where_def)
  qed
qed simp

definition user_keys :: "auth_world \<Rightarrow> bool" where
  "user_keys w = distinct (map usr_id (aw_users w))"

text \<open>The row a lookup returns is the only one a later update or delete changes.\<close>

lemma sub_row_only:
  assumes "user_keys w" and "first (sub_row i t) (aw_users w) = Some u"
  shows "u \<in> set (aw_users w)" "in_tenant t u" "y \<in> set (aw_users w) \<Longrightarrow> sub_row i t y = (usr_id y = usr_id u)"
proof -
  from first_SomeD [OF assms(2)] show u: "u \<in> set (aw_users w)" "in_tenant t u" by (simp_all add: sub_row_def)
  show "sub_row i t y = (usr_id y = usr_id u)" if "y \<in> set (aw_users w)"
    using that u first_SomeD [OF assms(2)] assms(1) unfolding user_keys_def distinct_map inj_on_def sub_row_def by metis
qed

lemma set_where_cong: "(\<And>x. x \<in> set xs \<Longrightarrow> p x = q x) \<Longrightarrow> set_where p f xs = set_where q f xs"
  by (simp add: set_where_def)

interpretation adapter: sub_users_laws drizzle_adapter user_keys
proof
  show "db_count_active_admins drizzle_adapter t w \<le> db_count_admins drizzle_adapter t w" for t w
    by (auto simp: drizzle_adapter_def active_tenant_admin_def intro: length_filter_mono)
next
  fix w i t u assume k: "user_keys w" and f: "db_find drizzle_adapter i t w = Some u"
  then have "first (sub_row i t) (aw_users w) = Some u" by (simp add: drizzle_adapter_def)
  note u = sub_row_only [OF k this]
  have "filter (\<lambda>y. \<not> sub_row i t y) (aw_users w) = filter (\<lambda>y. usr_id y \<noteq> usr_id u) (aw_users w)"
    using u(3) by (intro filter_cong) auto
  with length_filter_pick [of usr_id "aw_users w" u "tenant_admin t"] k u(1,2)
  show "db_count_admins drizzle_adapter t (db_delete drizzle_adapter i t w) + admin_weight u = db_count_admins drizzle_adapter t w"
    by (simp add: drizzle_adapter_def delete_users_def Let_def user_keys_def admin_weight_def tenant_admin_def)
next
  fix w i t u and f :: "user_row \<Rightarrow> user_row"
  assume k: "user_keys w" and f: "db_find drizzle_adapter i t w = Some u" and keep: "\<And>x. in_tenant t (f x) = in_tenant t x"
  then have "first (sub_row i t) (aw_users w) = Some u" by (simp add: drizzle_adapter_def)
  note u = sub_row_only [OF k this]
  have "set_where (sub_row i t) f (aw_users w) = set_where (\<lambda>y. usr_id y = usr_id u) f (aw_users w)"
    using u(3) by (rule set_where_cong)
  with length_filter_change [of usr_id "aw_users w" u "active_tenant_admin t" f] k u(1,2) keep
  show "db_count_active_admins drizzle_adapter t (db_update drizzle_adapter i t f w) + active_weight u
      = db_count_active_admins drizzle_adapter t w + active_weight (f u)"
    by (simp add: drizzle_adapter_def update_sub_row_def user_keys_def active_weight_def active_tenant_admin_def tenant_admin_def)
next
  show "db_count drizzle_adapter t w' = Suc (db_count drizzle_adapter t w)"
    if "db_insert drizzle_adapter u w = (w', Inr ())" "in_tenant t u" for t u w w'
    using that by (auto simp: drizzle_adapter_def insert_user_row_def split: if_splits)
  show "w' = w" if "db_insert drizzle_adapter u w = (w', Inl e)" for u w w' e
    using that by (auto simp: drizzle_adapter_def insert_user_row_def split: if_splits)
qed

end
