(* ===== verification/AuthProps.thy ===== *)
theory AuthProps
  imports AccountLaws
begin

text \<open>
  The properties of accounts and sessions. A small instance of the surroundings and a few concrete accounts
  come first; the witnesses run on them.
\<close>

section \<open>An instance\<close>

definition demo_fresh :: "string \<Rightarrow> fresh" where
  "demo_fresh x = \<lparr>fr_id = ''i'' @ x, fr_family = ''f'' @ x, fr_secret = ''s'' @ x, fr_jti = ''j'' @ x,
     fr_challenge = ''c'' @ x, fr_handle = ''h'' @ x\<rparr>"

definition demo_admin :: user_row where
  "demo_admin = \<lparr>usr_id = ''u1'', usr_email = ''a@x'', usr_hash = Some ''b:pw'', usr_name = ''A'', usr_role = ''super_admin'',
     usr_panel = AdminPanel, usr_tenant = None, usr_status = UserActive, usr_timezone = None, usr_mode = None,
     usr_handle = Some ''h'', usr_last_login = None, usr_last_check = None, usr_last_step_up = None\<rparr>"

text \<open>Claims are printed as the identity of a token; a token is accepted while it has not expired.\<close>

definition demo_claims :: "jwt_claims list" where
  "demo_claims =
    [\<lparr>cl_sub = ''u1'', cl_role = None, cl_panel = AdminPanel, cl_tenant = None, cl_by = None, cl_step = Some ''passkey_2fa'',
      cl_exp = 1300, cl_iat = 1000, cl_jti = ''j1''\<rparr>,
     \<lparr>cl_sub = ''u1'', cl_role = Some ''super_admin'', cl_panel = AdminPanel, cl_tenant = None, cl_by = None, cl_step = None,
      cl_exp = 2800, cl_iat = 1000, cl_jti = ''j2''\<rparr>,
     \<lparr>cl_sub = ''u2'', cl_role = Some ''tenant_user'', cl_panel = TenantPanel, cl_tenant = Some ''t1'', cl_by = None, cl_step = None,
      cl_exp = 2800, cl_iat = 1000, cl_jti = ''j3''\<rparr>]"

definition demo_env :: auth_env where
  "demo_env = \<lparr>ae_now = 1000000, ae_sha256 = (@) ''#'', ae_bcrypt_check = (\<lambda>p h. h = ''b:'' @ p), ae_bcrypt_hash = (@) ''b:'',
     ae_sign = cl_jti, ae_jwt = (\<lambda>t. first (\<lambda>c. cl_jti c = t) demo_claims),
     ae_bearer = (\<lambda>h. if take 7 h = ''Bearer '' then Some (drop 7 h) else None),
     ae_verify = (\<lambda>a c k. Some (as_signature a = pk_key k @ c, 0)), ae_register = (\<lambda>a c. Some (Some (as_credential a, as_signature a, 0))),
     ae_email_ok = (\<lambda>m. CHR ''@'' \<in> set m)\<rparr>"

definition demo_key :: passkey_row where
  "demo_key = \<lparr>pk_id = ''k1'', pk_user = ''u1'', pk_credential = ''cred'', pk_key = ''key'', pk_count = 0, pk_nickname = ''n'',
     pk_last_used = None\<rparr>"

definition demo_world :: auth_world where
  "demo_world = empty_auth_world\<lparr>aw_users := [demo_admin], aw_passkeys := [demo_key]\<rparr>"

definition body_refresh :: "string \<Rightarrow> http_request" where
  "body_refresh t = \<lparr>rq_authorization = None, rq_cookie = None, rq_body_refresh = Some t\<rparr>"

definition bearer :: "string \<Rightarrow> http_request" where
  "bearer t = \<lparr>rq_authorization = Some (''Bearer '' @ t), rq_cookie = None, rq_body_refresh = None\<rparr>"

lemmas demo_defs = demo_fresh_def demo_admin_def demo_claims_def demo_env_def demo_key_def demo_world_def
  body_refresh_def bearer_def empty_auth_world_def

section \<open>Queries after a change\<close>

lemma in_revoked: "x \<in> set xs \<Longrightarrow> (if p x \<and> rt_revoked x = None then x\<lparr>rt_revoked := v\<rparr> else x)
   \<in> set (set_where (\<lambda>r. p r \<and> rt_revoked r = None) (\<lambda>r. r\<lparr>rt_revoked := v\<rparr>) xs)"
  by (force simp: set_where_def)

lemma active_in_le_one: "auth_inv w \<Longrightarrow> active_in f (aw_refresh w) \<le> 1"
  by (simp add: auth_inv_def sessions_ok_def)

text \<open>After a rotation the family has its old rows, all unusable, and the new one.\<close>

lemma rotate_refresh:
  "aw_refresh (fst (refresh_rotate env fr rq r u w)) =
     set_where (\<lambda>x. rt_id x = rt_id r \<and> rt_revoked x = None) (\<lambda>x. x\<lparr>rt_last_used := Some (ae_now env)\<rparr>)
       (set_where (\<lambda>x. rt_id x = rt_id r \<and> rt_revoked x = None) (\<lambda>x. x\<lparr>rt_revoked := Some (ae_now env, Rotated)\<rparr>) (aw_refresh w)
        @ [new_refresh_row env fr (usr_id u) (rt_panel r) (rt_tenant r) (Some (rt_family r))])"
  by (simp add: refresh_rotate_def Let_def revoke_refresh_token_by_id_def revoke_where_def issue_refresh_token_def touch_last_used_def)

lemma active_in_touch:
  "active_in f (set_where p (\<lambda>x. x\<lparr>rt_last_used := t\<rparr>) rs) = active_in f rs"
  by (induction rs) (auto simp: active_in_def set_where_def)

lemma new_row_fields [simp]:
  "rt_family (new_refresh_row env fr i p t (Some f)) = f" "rt_revoked (new_refresh_row env fr i p t m) = None"
  "rt_hash (new_refresh_row env fr i p t m) = ae_sha256 env (fr_secret fr)" "rt_id (new_refresh_row env fr i p t m) = fr_id fr"
  "rt_user (new_refresh_row env fr i p t m) = i" "rt_expires (new_refresh_row env fr i p t m) = ae_now env + 86400000"
  by (simp_all add: new_refresh_row_def hash_refresh_token_def REFRESH_TOKEN_TTL_SECONDS_def)

lemma rotate_active:
  assumes "auth_inv w" and "r \<in> set (aw_refresh w)" and "rt_revoked r = None"
  shows "active_in (rt_family r) (aw_refresh (fst (refresh_rotate env fr rq r u w))) = 1"
  using active_in_revoked [of "aw_refresh w" r] assms
  by (simp add: rotate_refresh active_in_touch active_in_append auth_inv_def)

section \<open>Sessions\<close>


definition demo_session_world :: auth_world where
  "demo_session_world =
     auth_run demo_env (demo_fresh ''2'') (OpLogin None ''a@x'' ''password'')
       (auth_run demo_env (demo_fresh ''1'') (OpCreateAdmin ''a@x'' ''A'' ''password'' ''admin'') empty_auth_world)"

lemma demo_session_reachable: "auth_reachable demo_session_world"
  unfolding demo_session_world_def
proof (intro auth_step auth_start)
  show "fresh_in demo_env (demo_fresh ''1'') empty_auth_world" by (simp add: fresh_in_def demo_defs)
  show "fresh_in demo_env (demo_fresh ''2'')
     (auth_run demo_env (demo_fresh ''1'') (OpCreateAdmin ''a@x'' ''A'' ''password'' ''admin'') empty_auth_world)"
    by code_simp
qed


text \<open>C16: A refresh succeeds exactly when the presented token is known, neither revoked nor expired, and its user is
  active and not of an archived tenant.\<close>

theorem refresh_exact:
  "(\<exists>s. snd (refresh env fr rq w) = Inr s) \<longleftrightarrow>
   (\<exists>t r u. pick_refresh_token rq = Some t \<and> first (\<lambda>x. rt_hash x = ae_sha256 env t) (aw_refresh w) = Some r \<and>
      rt_revoked r = None \<and> ae_now env \<le> rt_expires r \<and> user_by_id w (rt_user r) = Some u \<and> usr_status u = UserActive \<and>
      \<not> tenant_archived w (keep_truthy (usr_tenant u)))"
proof (cases "pick_refresh_token rq")
  case (Some t)
  show ?thesis
  proof (cases "first (\<lambda>x. rt_hash x = ae_sha256 env t) (aw_refresh w)")
    case (Some r)
    with \<open>pick_refresh_token rq = Some t\<close> show ?thesis
      by (cases "rt_revoked r"; cases "user_by_id w (rt_user r)")
        (auto simp: refresh_def refresh_check_def validate_refresh_token_def hash_refresh_token_def split_def Let_def)
  qed (use \<open>pick_refresh_token rq = Some t\<close> in \<open>simp add: refresh_def refresh_check_def validate_refresh_token_def hash_refresh_token_def\<close>)
qed (simp add: refresh_def refresh_check_def)

lemma refresh_Inr:
  assumes "refresh env fr rq w = (w1, Inr s)"
  obtains t r u where "pick_refresh_token rq = Some t" "first (\<lambda>x. rt_hash x = ae_sha256 env t) (aw_refresh w) = Some r"
    "refresh_check env (Some t) w = (w, Inr (r, u))" "(w1, s) = refresh_rotate env fr rq r u w"
proof -
  obtain v x where c: "refresh_check env (pick_refresh_token rq) w = (v, x)" by fastforce
  with assms obtain r u where x: "x = Inr (r, u)"
    by (cases x) (auto simp: refresh_def)
  note k = refresh_check_Inr [OF c [unfolded x]]
  then obtain t where t: "pick_refresh_token rq = Some t" by blast
  have "first (\<lambda>y. rt_hash y = ae_sha256 env t) (aw_refresh w) = Some r"
    using c x t by (auto simp: refresh_check_def validate_refresh_token_def hash_refresh_token_def split: option.splits if_splits)
  moreover have "(w1, s) = refresh_rotate env fr rq r u w"
    using assms c x k(1) by (simp add: refresh_def Let_def split_def) (metis prod.collapse)
  ultimately show ?thesis using that t c x k(1) by simp
qed

text \<open>After a successful refresh the new token is the only usable one of its family, and presenting the old
  token again is recognised as reuse and leaves the family without a usable token.\<close>

theorem replayed_token_kills_family:
  assumes "auth_reachable w" and "refresh env fr rq w = (w1, Inr s)" and "pick_refresh_token rq = Some t"
    and "ae_sha256 env' = ae_sha256 env" and "validate_refresh_token env' t w1 = (w2, v)"
  shows "v = TokBad TokReuse \<and>
    (\<exists>f. active_in f (aw_refresh w1) = 1 \<and> active_in f (aw_refresh w2) = 0 \<and>
         last (aw_refresh w1) = (last (aw_refresh w1))\<lparr>rt_family := f, rt_hash := ae_sha256 env (st_refresh s), rt_revoked := None\<rparr>)"
proof -
  note i = auth_reachable_inv [OF assms(1)]
  obtain r u where r: "first (\<lambda>x. rt_hash x = ae_sha256 env t) (aw_refresh w) = Some r"
      "refresh_check env (Some t) w = (w, Inr (r, u))" "(w1, s) = refresh_rotate env fr rq r u w"
    using assms(2,3) by (elim refresh_Inr) simp
  note k = refresh_check_Inr [OF r(2)]
  have w1: "w1 = fst (refresh_rotate env fr rq r u w)" and s: "st_refresh s = fr_secret fr"
    using r(3) by (metis fst_conv, simp add: refresh_rotate_def Let_def issue_refresh_token_def)
  let ?r = "r\<lparr>rt_revoked := Some (ae_now env, Rotated)\<rparr>"
  have old: "first (\<lambda>x. rt_hash x = ae_sha256 env t) (aw_refresh w1) = Some ?r"
    unfolding w1 rotate_refresh using r(1) k(3) by (simp add: first_set_where first_append)
  have one: "active_in (rt_family r) (aw_refresh w1) = 1" unfolding w1 using rotate_active [OF i k(2,3)] .
  have v: "v = TokBad TokReuse" "w2 = revoke_where env' ReuseRevoked (\<lambda>x. rt_family x = rt_family r) w1"
    using assms(4,5) old by (auto simp: validate_refresh_token_def hash_refresh_token_def)
  have "active_in (rt_family r) (aw_refresh w2) = 0"
    unfolding active_in_zero v(2) revoke_where_def by (auto simp: set_where_def)
  moreover have "last (aw_refresh w1) = (last (aw_refresh w1))\<lparr>rt_family := rt_family r, rt_hash := ae_sha256 env (st_refresh s), rt_revoked := None\<rparr>"
    unfolding w1 rotate_refresh set_where_def s by (simp add: new_refresh_row_def hash_refresh_token_def)
  ultimately show ?thesis using one v(1) by blast
qed

definition demo_refreshed :: "auth_world \<times> (auth_error + session_tokens)" where
  "demo_refreshed = refresh demo_env (demo_fresh ''3'') (body_refresh ''s2'') demo_session_world"

theorem replayed_token_kills_family_witness:
  "snd (validate_refresh_token demo_env ''s2'' (fst demo_refreshed)) = TokBad TokReuse"
proof -
  have "pick_refresh_token (body_refresh ''s2'') = Some ''s2''" by (simp add: body_refresh_def pick_refresh_token_def non_empty_def)
  moreover have "\<exists>s. snd demo_refreshed = Inr s" unfolding refresh_exact demo_refreshed_def calculation
  proof (intro exI conjI)
    show "first (\<lambda>x. rt_hash x = ae_sha256 demo_env ''s2'') (aw_refresh demo_session_world) = Some (last (aw_refresh demo_session_world))"
      "rt_revoked (last (aw_refresh demo_session_world)) = None"
      "ae_now demo_env \<le> rt_expires (last (aw_refresh demo_session_world))"
      "user_by_id demo_session_world (rt_user (last (aw_refresh demo_session_world))) = Some (last (aw_users demo_session_world))"
      "usr_status (last (aw_users demo_session_world)) = UserActive"
      "\<not> tenant_archived demo_session_world (keep_truthy (usr_tenant (last (aw_users demo_session_world))))"
      by code_simp+
  qed simp
  ultimately show ?thesis
    using replayed_token_kills_family [OF demo_session_reachable, of demo_env "demo_fresh ''3''" "body_refresh ''s2''"]
    unfolding demo_refreshed_def by (metis prod.collapse)
qed

text \<open>Two refreshes that both read the token before either rotates it (the check and the rotation are separate
  statements) both succeed: the family then has two usable tokens, and reuse goes unnoticed.\<close>

theorem concurrent_refresh_forks_family:
  assumes "auth_reachable w" and "refresh_check env (Some t) w = (v, Inr (r, u))" and "refresh_check env (Some t) v = (v', x)"
    and "fr_id fr \<noteq> rt_id r"
  shows "v' = w \<and> x = Inr (r, u) \<and>
    (let w1 = fst (refresh_rotate env fr rq r u v'); w2 = fst (refresh_rotate env fr' rq r u w1) in
     active_in (rt_family r) (aw_refresh w2) = 2)"
proof -
  note i = auth_reachable_inv [OF assms(1)]
  note k = refresh_check_Inr [OF assms(2)]
  have v: "v' = w" "x = Inr (r, u)" using assms(2,3) k(1) by auto
  let ?w1 = "fst (refresh_rotate env fr rq r u w)"
  have one: "active_in (rt_family r) (aw_refresh ?w1) = 1" by (rule rotate_active [OF i k(2,3)])
  have gone: "rt_revoked y \<noteq> None" if "y \<in> set (aw_refresh ?w1)" "rt_id y = rt_id r" for y
    using that assms(4) unfolding rotate_refresh by (auto elim!: in_set_where split: if_splits)
  have "set_where (\<lambda>x. rt_id x = rt_id r \<and> rt_revoked x = None) f (aw_refresh ?w1) = aw_refresh ?w1" for f
    unfolding set_where_def by (rule map_idI) (metis gone)
  then have "active_in (rt_family r) (aw_refresh (fst (refresh_rotate env fr' rq r u ?w1))) = 2"
    using one by (simp add: rotate_refresh [of env fr' rq r u ?w1] active_in_touch active_in_append)
  with v show ?thesis by simp
qed

theorem concurrent_refresh_forks_family_witness:
  "let r = last (aw_refresh demo_session_world); u = last (aw_users demo_session_world);
       w1 = fst (refresh_rotate demo_env (demo_fresh ''3'') (body_refresh ''s2'') r u demo_session_world);
       w2 = fst (refresh_rotate demo_env (demo_fresh ''4'') (body_refresh ''s2'') r u w1) in
   active_in (rt_family r) (aw_refresh w2) = 2"
proof -
  have "refresh_check demo_env (Some ''s2'') demo_session_world
      = (demo_session_world, Inr (last (aw_refresh demo_session_world), last (aw_users demo_session_world)))"
    by code_simp
  moreover have "fr_id (demo_fresh ''3'') \<noteq> rt_id (last (aw_refresh demo_session_world))" by code_simp
  ultimately show ?thesis
    using concurrent_refresh_forks_family [OF demo_session_reachable] by (simp add: Let_def)
qed

section \<open>Passwords\<close>

text \<open>A password change stores the hash of the new password and leaves the user exactly one usable token, the one
  it returns; the sessions of other users are untouched.\<close>

theorem change_password_exact:
  assumes "change_password env fr rq old new w = (w', Inr s)"
  shows "\<exists>c u. jwt_verify env rq = Inr c \<and> user_by_id w (cl_sub c) = Some u \<and>
     user_by_id w' (cl_sub c) = Some (u\<lparr>usr_hash := Some (ae_bcrypt_hash env new)\<rparr>) \<and>
     map rt_hash (filter (\<lambda>r. rt_user r = cl_sub c \<and> rt_revoked r = None) (aw_refresh w')) = [ae_sha256 env s] \<and>
     filter (\<lambda>r. rt_user r \<noteq> cl_sub c) (aw_refresh w') = filter (\<lambda>r. rt_user r \<noteq> cl_sub c) (aw_refresh w)"
proof (cases "jwt_verify env rq")
  case (Inr c)
  show ?thesis
  proof (cases "user_by_id w (cl_sub c)")
    case (Some u)
    let ?v = "revoke_all_user_refresh_tokens env (cl_sub c) PasswordChange None
      (update_user (cl_sub c) (usr_hash_update (\<lambda>_. Some (ae_bcrypt_hash env new))) w)"
    have w': "w' = fst (issue_refresh_token env fr (usr_id u) (usr_panel u) (usr_tenant u) None ?v)" "s = fr_secret fr"
      using assms Inr Some by (auto simp: change_password_def Let_def issue_refresh_token_def split: option.splits if_splits)
    have u: "usr_id u = cl_sub c" using first_by_id [OF Some] by simp
    have "filter (\<lambda>r. rt_user r = cl_sub c \<and> rt_revoked r = None) (aw_refresh ?v) = []"
      by (auto simp: revoke_all_user_refresh_tokens_def revoke_where_def filter_empty_conv set_where_def)
    then have "map rt_hash (filter (\<lambda>r. rt_user r = cl_sub c \<and> rt_revoked r = None) (aw_refresh w')) = [ae_sha256 env s]"
      using u w' by (simp add: issue_refresh_token_def)
    moreover have "user_by_id w' (cl_sub c) = Some (u\<lparr>usr_hash := Some (ae_bcrypt_hash env new)\<rparr>)"
      using Some u w' by (simp add: issue_refresh_token_def user_by_id_def revoke_all_user_refresh_tokens_def revoke_where_def
          update_user_def first_set_where)
    moreover have "filter (\<lambda>r. rt_user r \<noteq> cl_sub c) (aw_refresh ?v) = filter (\<lambda>r. rt_user r \<noteq> cl_sub c) (aw_refresh w)"
      unfolding revoke_all_user_refresh_tokens_def revoke_where_def by (simp, rule filter_set_where_other) simp
    ultimately show ?thesis using Inr Some u w' by (simp add: issue_refresh_token_def)
  qed (use assms Inr in \<open>auto simp: change_password_def split: if_splits\<close>)
qed (use assms in \<open>simp add: change_password_def\<close>)

definition demo_changed :: "string auth_result" where
  "demo_changed = change_password demo_env (demo_fresh ''7'') (bearer ''j2'') ''pw'' ''newpassword'' demo_world"

theorem change_password_exact_witness:
  "\<exists>c u. jwt_verify demo_env (bearer ''j2'') = Inr c \<and> user_by_id demo_world (cl_sub c) = Some u \<and>
     user_by_id (fst demo_changed) (cl_sub c) = Some (u\<lparr>usr_hash := Some (ae_bcrypt_hash demo_env ''newpassword'')\<rparr>) \<and>
     map rt_hash (filter (\<lambda>r. rt_user r = cl_sub c \<and> rt_revoked r = None) (aw_refresh (fst demo_changed))) = [ae_sha256 demo_env ''s7''] \<and>
     filter (\<lambda>r. rt_user r \<noteq> cl_sub c) (aw_refresh (fst demo_changed)) = filter (\<lambda>r. rt_user r \<noteq> cl_sub c) (aw_refresh demo_world)"
proof (rule change_password_exact)
  have "snd demo_changed = Inr ''s7''" by code_simp
  then show "change_password demo_env (demo_fresh ''7'') (bearer ''j2'') ''pw'' ''newpassword'' demo_world = (fst demo_changed, Inr ''s7'')"
    unfolding demo_changed_def [symmetric] by (simp add: prod_eq_iff)
qed

lemma legacy_hash_exact: "legacy_hash h \<longleftrightarrow> length h = 64 \<and> (\<forall>c \<in> set h. is_digit c \<or> c \<in> set ''abcdef'')"
  unfolding legacy_hash_def LEGACY_HASH_RE_def by (subst rx_test_lang) auto

section \<open>The second factor\<close>

lemma authenticate_user_Inr:
  assumes "authenticate_user env m pw w = (w1, Inr u)" and "auth_inv w"
  obtains h h' where "usr_hash u = Some h" "verify_password env pw h" "usr_status u = UserActive"
    "\<not> tenant_archived w (keep_truthy (usr_tenant u))" "u \<in> set (aw_users w)" "h \<noteq> []"
    "h' = (if legacy_hash h then ae_bcrypt_hash env pw else h)"
    "user_by_id w1 (usr_id u) = Some (u\<lparr>usr_last_login := Some (ae_now env), usr_last_check := Some (ae_now env), usr_hash := Some h'\<rparr>)"
    "aw_refresh w1 = aw_refresh w" "aw_tenants w1 = aw_tenants w"
proof -
  have "\<exists>h. first (\<lambda>x. usr_email x = m) (aw_users w) = Some u \<and> keep_truthy (usr_hash u) = Some h \<and> verify_password env pw h \<and>
      usr_status u = UserActive \<and> \<not> tenant_archived w (keep_truthy (usr_tenant u)) \<and>
      w1 = update_user (usr_id u) (\<lambda>x. x\<lparr>usr_last_login := Some (ae_now env), usr_last_check := Some (ae_now env),
             usr_hash := (if legacy_hash h then Some (ae_bcrypt_hash env pw) else usr_hash x)\<rparr>) w"
    using assms(1) by (auto simp: authenticate_user_def split: option.splits if_splits)
  then obtain h where h: "first (\<lambda>x. usr_email x = m) (aw_users w) = Some u" "keep_truthy (usr_hash u) = Some h" "verify_password env pw h"
      "usr_status u = UserActive" "\<not> tenant_archived w (keep_truthy (usr_tenant u))"
      "w1 = update_user (usr_id u) (\<lambda>x. x\<lparr>usr_last_login := Some (ae_now env), usr_last_check := Some (ae_now env),
             usr_hash := (if legacy_hash h then Some (ae_bcrypt_hash env pw) else usr_hash x)\<rparr>) w" by blast
  have u: "u \<in> set (aw_users w)" using first_SomeD [OF h(1)] by simp
  have hash: "usr_hash u = Some h" "h \<noteq> []" using h(2) by (auto simp: keep_truthy_def non_empty_def split: if_splits option.splits)
  have "first (\<lambda>x. usr_id x = usr_id u) (aw_users w) = Some u"
    using u assms(2) by (intro first_unique [where k = usr_id]) (auto simp: auth_inv_def)
  then have "user_by_id w1 (usr_id u) = Some (u\<lparr>usr_last_login := Some (ae_now env), usr_last_check := Some (ae_now env),
      usr_hash := Some (if legacy_hash h then ae_bcrypt_hash env pw else h)\<rparr>)"
    using hash(1) by (simp add: h(6) user_by_id_def update_user_def first_set_where)
  moreover have "aw_refresh w1 = aw_refresh w" "aw_tenants w1 = aw_tenants w" using h(6) by simp_all
  ultimately show ?thesis using that h u hash by blast
qed

lemma login_needs_passkeyE:
  assumes "login env fr body m pw w = (w1, Inr (NeedsPasskey t))"
  obtains u where "authenticate_user env m pw w = (w1, Inr u)" "usr_mode u = Some SecondFactor"
    "t = ae_sign env (pre_auth_claims env fr (usr_id u) (usr_panel u))" "pw \<noteq> []"
proof -
  obtain v x where a: "authenticate_user env m pw w = (v, x)" by fastforce
  with assms obtain u where x: "x = Inr u" by (cases x) (auto simp: login_def split: if_splits)
  show ?thesis using that [of u] assms a x by (auto simp: login_def Let_def split: if_splits prod.splits)
qed

text \<open>A refresh token that was just issued to an active user of an open tenant is traded for a new pair.\<close>

lemma issued_token_refreshes:
  fixes e fr' v u
  defines "w2 \<equiv> fst (issue_refresh_token e fr' (usr_id u) (usr_panel u) (usr_tenant u) None v)"
  assumes "user_by_id v (usr_id u) = Some u" and "usr_status u = UserActive"
    and "\<not> tenant_archived v (keep_truthy (usr_tenant u))"
    and "ae_sha256 e (fr_secret fr') \<notin> rt_hash ` set (aw_refresh v)" and "fr_secret fr' \<noteq> []"
  shows "\<exists>w3. refresh e fr'' (body_refresh (fr_secret fr')) w2 =
     (w3, Inr \<lparr>st_access = ae_sign e (access_claims e fr'' (usr_id u) (usr_role u) (usr_panel u) (usr_tenant u) None),
               st_refresh = fr_secret fr''\<rparr>)"
proof -
  let ?r = "new_refresh_row e fr' (usr_id u) (usr_panel u) (usr_tenant u) None"
  have "\<forall>x \<in> set (aw_refresh v). rt_hash x \<noteq> ae_sha256 e (fr_secret fr')" using assms(5) by (metis imageI)
  then have found: "first (\<lambda>x. rt_hash x = ae_sha256 e (fr_secret fr')) (aw_refresh w2) = Some ?r"
    by (simp add: w2_def issue_refresh_token_def first_append first_None_iff [THEN iffD2]) (simp add: first_def)
  have by_id: "user_by_id w2 (usr_id u) = Some u" using assms(2) by (simp add: w2_def issue_refresh_token_def user_by_id_def)
  have "aw_tenants w2 = aw_tenants v" by (simp add: w2_def issue_refresh_token_def)
  then have open_tenant: "\<not> tenant_archived w2 (keep_truthy (usr_tenant u))" using assms(4) unfolding tenant_archived_def by metis
  have "refresh_check e (Some (fr_secret fr')) w2 = (w2, Inr (?r, u))"
    using found by_id assms(3) open_tenant by (simp add: refresh_check_def validate_refresh_token_def hash_refresh_token_def)
  then show ?thesis
    using assms(6) by (simp add: refresh_def pick_refresh_token_def body_refresh_def non_empty_def refresh_rotate_def Let_def
        issue_refresh_token_def impersonator_def)
qed

text \<open>What the libraries promise of the signed claims \<open>cs\<close>: such a token verifies until it expires and is read back from
  the header; a bcrypt hash accepts its password and is not a legacy hash. Two surroundings differ in the clock only.\<close>

definition libraries_ok :: "auth_env \<Rightarrow> jwt_claims list \<Rightarrow> bool" where
  "libraries_ok env cs \<longleftrightarrow> (\<forall>c \<in> set cs. ae_now env < cl_exp c * 1000 \<longrightarrow> ae_jwt env (ae_sign env c) = Some c) \<and>
     (\<forall>c \<in> set cs. ae_bearer env (''Bearer '' @ ae_sign env c) = Some (ae_sign env c)) \<and>
     (\<forall>p. ae_bcrypt_check env p (ae_bcrypt_hash env p) \<and> \<not> legacy_hash (ae_bcrypt_hash env p) \<and> ae_bcrypt_hash env p \<noteq> [])"

definition at_time :: "auth_env \<Rightarrow> int \<Rightarrow> auth_env" where
  "at_time env t = env\<lparr>ae_now := t\<rparr>"


text \<open>The user of the demonstration registers a passkey, makes it the second factor and logs in again.\<close>

definition demo_assertion :: assertion where
  "demo_assertion = \<lparr>as_challenge = Some ''c4'', as_handle = None, as_credential = ''cred'', as_signature = ''key''\<rparr>"

definition demo_bearer_env :: auth_env where
  "demo_bearer_env = demo_env\<lparr>ae_jwt := (\<lambda>t. if t = ''j2'' then Some (access_claims demo_env (demo_fresh ''2'') ''i1'' ''admin'' AdminPanel None None)
     else if t = ''j7'' then Some (pre_auth_claims demo_env (demo_fresh ''7'') ''i1'' AdminPanel) else None)\<rparr>"

definition demo_second :: auth_world where
  "demo_second =
     auth_run demo_bearer_env (demo_fresh ''6'') (OpPasskeyMode (bearer ''j2'') (Some (Some SecondFactor)))
       (auth_run demo_bearer_env (demo_fresh ''5'') (OpRegisterVerify (bearer ''j2'') (Some demo_assertion) ''key'')
         (auth_run demo_bearer_env (demo_fresh ''4'') (OpRegisterOptions (bearer ''j2'')) demo_session_world))"

lemma demo_second_reachable: "auth_reachable demo_second"
  unfolding demo_second_def
proof (intro auth_step demo_session_reachable)
  let ?w4 = "auth_run demo_bearer_env (demo_fresh ''4'') (OpRegisterOptions (bearer ''j2'')) demo_session_world"
  let ?w5 = "auth_run demo_bearer_env (demo_fresh ''5'') (OpRegisterVerify (bearer ''j2'') (Some demo_assertion) ''key'') ?w4"
  show "fresh_in demo_bearer_env (demo_fresh ''4'') demo_session_world" by code_simp
  show "fresh_in demo_bearer_env (demo_fresh ''5'') ?w4" by code_simp
  show "fresh_in demo_bearer_env (demo_fresh ''6'') ?w5" by code_simp
qed


text \<open>Passkey login reads no row of \<open>tenants\<close>.\<close>

definition with_tenants :: "(string \<times> tenant_status) list \<Rightarrow> auth_world \<Rightarrow> auth_world" where
  "with_tenants ts w = w\<lparr>aw_tenants := ts\<rparr>"

lemma with_tenants_simps [simp]:
  "aw_users (with_tenants ts w) = aw_users w" "aw_passkeys (with_tenants ts w) = aw_passkeys w"
  "aw_challenges (with_tenants ts w) = aw_challenges w" "aw_consumed (with_tenants ts w) = aw_consumed w"
  "is_local_auth_disabled (with_tenants ts w) p = is_local_auth_disabled w p"
  "user_by_id (with_tenants ts w) i = user_by_id w i"
  "update_user i f (with_tenants ts w) = with_tenants ts (update_user i f w)"
  "with_tenants ts w\<lparr>aw_challenges := c\<rparr> = with_tenants ts (w\<lparr>aw_challenges := c\<rparr>)"
  "with_tenants ts w\<lparr>aw_consumed := d\<rparr> = with_tenants ts (w\<lparr>aw_consumed := d\<rparr>)"
  "with_tenants ts w\<lparr>aw_passkeys := k\<rparr> = with_tenants ts (w\<lparr>aw_passkeys := k\<rparr>)"
  by (simp_all add: with_tenants_def is_local_auth_disabled_def user_by_id_def update_user_def)

lemma with_tenants_consume:
  "consume_challenge env c m p u (with_tenants ts w) = apfst (with_tenants ts) (consume_challenge env c m p u w)"
  by (simp add: consume_challenge_def split: option.split)

lemma with_tenants_credential:
  "check_credential env u a c (with_tenants ts w) = apfst (with_tenants ts) (check_credential env u a c w)"
  by (simp add: check_credential_def split: option.split)

lemma with_tenants_user: "authentication_user (with_tenants ts w) p a e = authentication_user w p a e"
  by (simp add: authentication_user_def find_user_by_handle_def split: option.split)

lemma with_tenants_complete:
  "complete_authentication env p a e (with_tenants ts w) = apfst (with_tenants ts) (complete_authentication env p a e w)"
  by (cases e) (simp_all add: complete_authentication_def with_tenants_consume with_tenants_credential with_tenants_user
      apfst_def map_prod_def split_def split: option.split sum.split)

lemma with_tenants_pre_auth:
  "verify_and_consume_pre_auth_token env j u p (with_tenants ts w) = apfst (with_tenants ts) (verify_and_consume_pre_auth_token env j u p w)"
  by (simp add: verify_and_consume_pre_auth_token_def Let_def split: option.split)

lemma with_tenants_session: "snd (open_session env fr u (with_tenants ts w)) = snd (open_session env fr u w)"
  by (simp add: open_session_def issue_refresh_token_def)

text \<open>Whether a login by passkey succeeds, and what it returns, does not depend on any tenant: unlike a login by
  password and a refresh, it does not refuse the users of an archived tenant.\<close>

theorem passkey_login_ignores_tenants:
  "snd (passkey_login_verify env fr body pre a (w\<lparr>aw_tenants := ts\<rparr>)) = snd (passkey_login_verify env fr body pre a w)"
  unfolding with_tenants_def [symmetric]
  by (simp add: passkey_login_verify_def Let_def split_def with_tenants_complete with_tenants_pre_auth with_tenants_session
      split: option.split sum.split)



text \<open>A login by password consults the switch of the panel named in the body, not that of the user's panel: with
  local login disabled for administrators, an administrator who names the tenant panel still gets an access token
  for the admin panel.\<close>

theorem local_auth_switch_bypassed:
  assumes "aw_local_off_admin w" and "\<not> aw_local_off_tenant w" and "ae_email_ok env m" and "pw \<noteq> []"
    and "authenticate_user env m pw w = (w1, Inr u)" and "usr_mode u \<noteq> Some SecondFactor"
  shows "snd (login env fr (Some ''admin'') m pw w) = Inl (AuthErr ''LOCAL_AUTH_DISABLED'' 403) \<and>
    snd (login env fr (Some ''tenant'') m pw w) =
      Inr (LoggedIn \<lparr>st_access = ae_sign env (access_claims env fr (usr_id u) (usr_role u) (usr_panel u) (usr_tenant u) None),
                     st_refresh = fr_secret fr\<rparr>)"
  using assms
  by (simp add: login_def is_local_auth_disabled_def panel_of_body_def Let_def open_session_def issue_refresh_token_def)

theorem local_auth_switch_bypassed_witness:
  "snd (login demo_env (demo_fresh ''9'') (Some ''tenant'') ''a@x'' ''pw'' (demo_world\<lparr>aw_local_off_admin := True\<rparr>)) =
     Inr (LoggedIn \<lparr>st_access = ''j9'', st_refresh = ''s9''\<rparr>) \<and> usr_panel demo_admin = AdminPanel"
proof -
  have "snd (authenticate_user demo_env ''a@x'' ''pw'' (demo_world\<lparr>aw_local_off_admin := True\<rparr>)) = Inr demo_admin" by code_simp
  then have "authenticate_user demo_env ''a@x'' ''pw'' (demo_world\<lparr>aw_local_off_admin := True\<rparr>) =
      (fst (authenticate_user demo_env ''a@x'' ''pw'' (demo_world\<lparr>aw_local_off_admin := True\<rparr>)), Inr demo_admin)" by (simp add: prod_eq_iff)
  from local_auth_switch_bypassed [OF _ _ _ _ this, of "demo_fresh ''9''"] show ?thesis
    by (simp add: demo_defs access_claims_def)
qed

end
