(* ===== verification/AccountProps.thy ===== *)
theory AccountProps
  imports AuthProps
begin

text \<open>
  Who may do what: the exact effect of the route guards, and what no sequence of requests can do to the
  administrators of the platform and of a tenant.
\<close>

section \<open>Guards\<close>

lemma tenant_access_None:
  "require_tenant_access pt pid (Some c) = None \<longleftrightarrow>
     cl_panel c \<noteq> TenantPanel \<or> non_empty (cl_tenant c) \<and>
       (let requested = (case pt of Some t \<Rightarrow> Some t | None \<Rightarrow> pid) in non_empty requested \<longrightarrow> requested = cl_tenant c)"
  by (auto simp: require_tenant_access_def Let_def)

lemma role_by_method_None:
  "require_tenant_role_by_method m (Some c) = None \<longleftrightarrow> has_role (if is_write m then WRITE_ROLES else READ_ROLES) c"
  by (simp add: require_tenant_role_by_method_def)



text \<open>The route that lists the cron jobs of all tenants has only the hooks of its plugin and no path parameter, so
  every tenant user with any tenant passes it; with a further role guard, as on the bulk route beside it, none would.\<close>

theorem all_cron_jobs_open_to_tenants:
  "(guarded env False rq all_cron_jobs_guards = Inr (Some c) \<longleftrightarrow>
     authenticate env False rq = Inr (Some c) \<and> has_role READ_ROLES c \<and> (cl_panel c = AdminPanel \<or> non_empty (cl_tenant c))) \<and>
   (guarded env False rq (all_cron_jobs_guards @ [require_role False [''super_admin'', ''admin'']]) = Inr (Some c) \<longleftrightarrow>
     authenticate env False rq = Inr (Some c) \<and> has_role [''super_admin'', ''admin''] c \<and> (cl_panel c = AdminPanel \<or> non_empty (cl_tenant c)))"
proof -
  have a: "require_tenant_access None None (Some c) = None \<longleftrightarrow> cl_panel c = AdminPanel \<or> non_empty (cl_tenant c)"
    by (cases "cl_panel c") (auto simp: tenant_access_None non_empty_def)
  have r: "require_tenant_role_by_method ''GET'' (Some c) = None \<longleftrightarrow> has_role READ_ROLES c"
  proof -
    have "\<not> is_write ''GET''" by code_simp
    then show ?thesis by (simp add: role_by_method_None)
  qed
  have s: "has_role [''super_admin'', ''admin''] c \<Longrightarrow> has_role READ_ROLES c"
    by (auto simp: has_role_def READ_ROLES_def split: option.splits)
  show ?thesis
    using a r s by (auto simp: guarded_Inr all_cron_jobs_guards_def require_role_def split: if_splits)
qed

section \<open>Administrators of the platform\<close>

text \<open>The identities of the users and what decides their rights.\<close>

definition super_ids :: "auth_world \<Rightarrow> string set" where
  "super_ids w = usr_id ` set (super_admins w)"

definition rights :: "user_row \<Rightarrow> string \<times> panel \<times> string" where
  "rights u = (usr_id u, usr_panel u, usr_role u)"

lemma super_ids_rights: "super_ids w = {i. (i, AdminPanel, ''super_admin'') \<in> rights ` set (aw_users w)}"
  by (force simp: super_ids_def super_admins_def rights_def)

lemma super_ids_mono: "rights ` set (aw_users w') \<subseteq> rights ` set (aw_users w) \<Longrightarrow> super_ids w' \<subseteq> super_ids w"
  by (auto simp: super_ids_rights)

lemma rights_set_where:
  "(\<And>u. rights (f u) = rights u) \<Longrightarrow> rights ` set (set_where p f us) = rights ` set us"
  by (metis list.set_map map_set_where)

lemma rights_update_user: "(\<And>u. rights (f u) = rights u) \<Longrightarrow> rights ` set (aw_users (update_user i f w)) = rights ` set (aw_users w)"
  by (simp add: update_user_def rights_set_where)

lemma rights_simps [simp]:
  "rights (u\<lparr>usr_hash := a\<rparr>) = rights u" "rights (u\<lparr>usr_name := b\<rparr>) = rights u" "rights (u\<lparr>usr_email := b\<rparr>) = rights u"
  "rights (u\<lparr>usr_timezone := c\<rparr>) = rights u" "rights (u\<lparr>usr_mode := d\<rparr>) = rights u" "rights (u\<lparr>usr_handle := c\<rparr>) = rights u"
  "rights (u\<lparr>usr_last_login := e\<rparr>) = rights u" "rights (u\<lparr>usr_last_check := e\<rparr>) = rights u"
  "rights (u\<lparr>usr_last_step_up := e\<rparr>) = rights u" "rights (u\<lparr>usr_status := s\<rparr>) = rights u"
  by (simp_all add: rights_def)

definition same_rights :: "auth_world \<Rightarrow> auth_world \<Rightarrow> bool" where
  "same_rights w w' = (rights ` set (aw_users w') = rights ` set (aw_users w))"

lemma same_rights_refl [simp]: "same_rights w w"
  by (simp add: same_rights_def)

lemma same_rights_update [simp]:
  "(\<And>u. rights (f u) = rights u) \<Longrightarrow> same_rights w (update_user i f w') = same_rights w w'"
  by (simp add: same_rights_def rights_update_user)

lemma same_rights_frame [simp]:
  "same_rights w (w'\<lparr>aw_refresh := a\<rparr>) = same_rights w w'" "same_rights w (w'\<lparr>aw_passkeys := b\<rparr>) = same_rights w w'"
  "same_rights w (w'\<lparr>aw_challenges := c\<rparr>) = same_rights w w'" "same_rights w (w'\<lparr>aw_consumed := d\<rparr>) = same_rights w w'"
  "same_rights w (w'\<lparr>aw_tenants := e\<rparr>) = same_rights w w'"
  "same_rights w (revoke_where env m q w') = same_rights w w'"
  "same_rights w (revoke_refresh_token_by_id env i m w') = same_rights w w'"
  "same_rights w (revoke_all_user_refresh_tokens env i m k w') = same_rights w w'"
  "same_rights w (touch_last_used env i w') = same_rights w w'"
  "same_rights w (fst (issue_refresh_token env fr i p t f w')) = same_rights w w'"
  "same_rights w (fst (open_session env fr u w')) = same_rights w w'"
  "same_rights w (fst (refresh_rotate env fr rq r u w')) = same_rights w w'"
  by (simp_all add: same_rights_def revoke_refresh_token_by_id_def revoke_all_user_refresh_tokens_def touch_last_used_def
      issue_refresh_token_def open_session_def refresh_rotate_def Let_def)

lemma same_rights_validate [simp]: "same_rights w (fst (validate_refresh_token env t w')) = same_rights w w'"
  by (simp add: validate_refresh_token_def split: option.split)

lemma same_rights_sessions:
  "same_rights w (fst (login env fr p m pw w))" "same_rights w (fst (refresh env fr rq w))" "same_rights w (logout env rq w)"
  "same_rights w (fst (update_profile env rq n m' tz w))" "same_rights w (fst (change_password env fr rq old new w))"
proof -
  have a: "same_rights w (fst (authenticate_user env m pw w))"
    by (simp add: authenticate_user_def split: option.split)
  then show "same_rights w (fst (login env fr p m pw w))"
    by (simp add: login_def split_def Let_def split: sum.split)
  have c: "same_rights w (fst (refresh_check env t w))" for t
  proof (cases t)
    case (Some p)
    obtain w1 v where v: "validate_refresh_token env p w = (w1, v)" by fastforce
    then have "same_rights w w1" using same_rights_validate [of w env p w] by simp
    with Some v show ?thesis by (simp add: refresh_check_def split: option.split validation.split)
  qed (simp add: refresh_check_def)
  then show "same_rights w (fst (refresh env fr rq w))"
    by (simp add: refresh_def split_def Let_def split: sum.split)
  show "same_rights w (logout env rq w)"
  proof (cases "pick_refresh_token rq")
    case (Some p)
    obtain w1 v where v: "validate_refresh_token env p w = (w1, v)" by fastforce
    then have "same_rights w w1" using same_rights_validate [of w env p w] by simp
    with Some v show ?thesis by (simp add: logout_def split: validation.split)
  qed (simp add: logout_def)
  show "same_rights w (fst (update_profile env rq n m' tz w))"
    by (simp add: update_profile_def split: sum.split)
  show "same_rights w (fst (change_password env fr rq old new w))"
    by (simp add: change_password_def Let_def split_def split: sum.split option.split)
qed

lemma same_rights_passkeys:
  "same_rights w (fst (begin_authentication env fr p u w'))  = same_rights w w'"
  "same_rights w (fst (consume_challenge env ch m p u w')) = same_rights w w'"
  "same_rights w (fst (check_credential env usr a ch w')) = same_rights w w'"
  "same_rights w (fst (verify_and_consume_pre_auth_token env j i p w')) = same_rights w w'"
  "same_rights w (fst (begin_registration env fr i p w')) = same_rights w w'"
  by (simp_all add: begin_authentication_def consume_challenge_def check_credential_def verify_and_consume_pre_auth_token_def
      begin_registration_def get_or_create_passkey_user_handle_def persist_challenge_def Let_def split_def split: option.split)

lemma same_rights_register: "same_rights w (fst (complete_registration env fr i p a n w')) = same_rights w w'"
proof (cases "as_challenge a")
  case (Some c)
  obtain w1 x where c: "consume_challenge env c ForRegister p (Some i) w' = (w1, x)" by fastforce
  then have "same_rights w w1 = same_rights w w'" using same_rights_passkeys(2) [of w env c ForRegister p "Some i" w'] by simp
  with Some c show ?thesis by (simp add: complete_registration_def split: sum.split option.split)
qed (simp add: complete_registration_def)

lemma same_rights_complete: "same_rights w (fst (complete_authentication env p a e w')) = same_rights w w'"
  by (cases e) (simp_all add: complete_authentication_def split_def same_rights_passkeys split: option.split sum.split)

lemma same_rights_bearer: "(\<And>c. same_rights w (fst (k c))) \<Longrightarrow> same_rights w (fst (with_bearer env rq w k))"
  by (simp add: with_bearer_def split: sum.split)

lemma same_rights_second:
  "same_rights w (fst (passkey_login_options env fr b pre w))" "same_rights w (fst (passkey_login_verify env fr b pre x w))"
  "same_rights w (fst (passkey_registration_options env fr rq w))" "same_rights w (fst (passkey_registration_verify env fr rq x n w))"
  "same_rights w (fst (passkey_delete env rq i w))" "same_rights w (fst (passkey_set_mode env rq m w))"
  "same_rights w (fst (clear_passkey_mode_on_password_reset i w))" "same_rights w (fst (step_up_password env rq pw w))"
  "same_rights w (fst (step_up_passkey_options env fr rq w))" "same_rights w (fst (step_up_passkey_verify env rq a w))"
proof -
  show "same_rights w (fst (passkey_login_options env fr b pre w))"
    by (simp add: passkey_login_options_def Let_def split_def same_rights_passkeys split: option.split sum.split)
  show "same_rights w (fst (passkey_login_verify env fr b pre x w))"
    by (simp add: passkey_login_verify_def Let_def split_def same_rights_passkeys same_rights_complete split: option.split sum.split)
  show "same_rights w (fst (passkey_registration_options env fr rq w))"
    unfolding passkey_registration_options_def by (rule same_rights_bearer) (simp add: same_rights_passkeys)
  show "same_rights w (fst (passkey_registration_verify env fr rq x n w))"
    unfolding passkey_registration_verify_def by (rule same_rights_bearer) (simp add: same_rights_register split: option.split)
  show "same_rights w (fst (passkey_delete env rq i w))"
    unfolding passkey_delete_def by (rule same_rights_bearer) (simp add: delete_passkey_def Let_def split: option.split)
  show "same_rights w (fst (passkey_set_mode env rq m w))"
    unfolding passkey_set_mode_def by (rule same_rights_bearer) (simp add: set_passkey_mode_def split: option.split)
  show "same_rights w (fst (clear_passkey_mode_on_password_reset i w))"
    by (simp add: clear_passkey_mode_on_password_reset_def split: option.split)
  show "same_rights w (fst (step_up_password env rq pw w))"
    unfolding step_up_password_def by (rule same_rights_bearer) (simp add: verify_step_up_password_def split: option.split)
  show "same_rights w (fst (step_up_passkey_options env fr rq w))"
    unfolding step_up_passkey_options_def by (rule same_rights_bearer) (simp add: same_rights_passkeys)
  show "same_rights w (fst (step_up_passkey_verify env rq a w))"
    unfolding step_up_passkey_verify_def
    by (rule same_rights_bearer) (simp add: same_rights_complete Let_def split_def split: sum.split)
qed

lemma super_ids_same: "same_rights w w' \<Longrightarrow> super_ids w' = super_ids w"
  by (simp add: same_rights_def super_ids_rights)

lemma super_ids_append: "usr_role u \<noteq> ''super_admin'' \<Longrightarrow> super_ids (w\<lparr>aw_users := aw_users w @ [u]\<rparr>) = super_ids w"
  by (simp add: super_ids_def super_admins_def)

lemma super_ids_delete: "super_ids (delete_users p w) \<subseteq> super_ids w"
  by (auto simp: super_ids_def super_admins_def delete_users_def Let_def)

lemma super_ids_fold_delete: "super_ids (fold (\<lambda>i. delete_users (q i)) is w) \<subseteq> super_ids w"
proof (induction "is" arbitrary: w)
  case (Cons i "is")
  then show ?case using super_ids_delete [of "q i" w] by (simp, blast)
qed simp

lemma super_ids_frame [simp]:
  "super_ids (revoke_all_user_refresh_tokens env i m k w) = super_ids w" "super_ids (revoke_refresh_token_by_id env i m w) = super_ids w"
  "super_ids (w\<lparr>aw_refresh := a\<rparr>) = super_ids w" "super_ids (w\<lparr>aw_challenges := c\<rparr>) = super_ids w"
  "super_ids (w\<lparr>aw_consumed := d\<rparr>) = super_ids w"
  by (simp_all add: super_ids_def super_admins_def revoke_all_user_refresh_tokens_def revoke_refresh_token_by_id_def)

text \<open>A patch whose schema allows staff roles only makes nobody a super administrator.\<close>

lemma super_ids_patch:
  assumes "opt_all (\<lambda>r. r \<noteq> ''super_admin'') (up_role p)"
  shows "super_ids (w\<lparr>aw_users := set_where q (apply_patch env p) (aw_users w)\<rparr>) \<subseteq> super_ids w"
proof
  fix i assume "i \<in> super_ids (w\<lparr>aw_users := set_where q (apply_patch env p) (aw_users w)\<rparr>)"
  then obtain u where u: "u \<in> set (aw_users w)" "i = usr_id u" "usr_panel u = AdminPanel"
      "usr_role (if q u then apply_patch env p u else u) = ''super_admin''"
    by (auto simp: super_ids_def super_admins_def elim!: in_set_where split: if_splits)
  with assms have "usr_role u = ''super_admin''"
    by (auto simp: apply_patch_def opt_all_def split: if_splits option.splits)
  with u show "i \<in> super_ids w" by (auto simp: super_ids_def super_admins_def)
qed

lemma no_super_role: "r \<in> set STAFF_ROLES \<Longrightarrow> r \<noteq> ''super_admin''" "is_allowed_role r \<Longrightarrow> r \<noteq> ''super_admin''"
  by (auto simp: STAFF_ROLES_def is_allowed_role_def ALLOWED_SUB_USER_ROLES_def)

lemma super_ids_accounts:
  "super_ids (fst (create_admin_user env fr m n pw r w)) \<subseteq> super_ids w" "super_ids (fst (update_admin_user env i p w)) \<subseteq> super_ids w"
  "super_ids (fst (sub_user_create_route env fr t m n pw ro l w)) \<subseteq> super_ids w" "super_ids (fst (sub_user_patch_route env t i p w)) \<subseteq> super_ids w"
  "super_ids (fst (sub_user_reset_route env t i pw w)) \<subseteq> super_ids w"
proof -
  show "super_ids (fst (create_admin_user env fr m n pw r w)) \<subseteq> super_ids w"
    using no_super_role(1) [of r] by (auto simp: create_admin_user_def create_admin_user_schema_def new_user_def super_ids_append)
  show "super_ids (fst (update_admin_user env i p w)) \<subseteq> super_ids w"
  proof (cases "update_admin_user_schema p")
    case True
    then have "opt_all (\<lambda>r. r \<noteq> ''super_admin'') (up_role p)"
      using no_super_role(1) by (auto simp: update_admin_user_schema_def opt_all_def split: option.splits)
    from super_ids_patch [OF this, where w = w and q = "\<lambda>u. usr_id u = i" and env = env] True show ?thesis
      by (simp add: update_admin_user_def update_user_def Let_def split: option.split)
  qed (simp add: update_admin_user_def)
  show "super_ids (fst (sub_user_create_route env fr t m n pw ro l w)) \<subseteq> super_ids w"
    using no_super_role(2)
    by (auto simp: sub_user_create_route_def create_sub_user_def drizzle_adapter_def insert_user_row_def new_user_def Let_def
        super_ids_append split_def split: sum.split)
  show "super_ids (fst (sub_user_patch_route env t i p w)) \<subseteq> super_ids w"
  proof (cases "update_sub_user_schema p")
    case True
    then have "opt_all (\<lambda>r. r \<noteq> ''super_admin'') (up_role (p\<lparr>up_password := None\<rparr>))"
      using no_super_role(2) by (auto simp: update_sub_user_schema_def opt_all_def split: option.splits)
    from super_ids_patch [OF this, where w = w and q = "sub_row i t" and env = env] True show ?thesis
      by (simp add: sub_user_patch_route_def update_sub_user_def drizzle_adapter_def update_sub_row_def Let_def split: option.split)
  qed (simp add: sub_user_patch_route_def)
  have "same_rights w (w\<lparr>aw_users := set_where (sub_row i t) (usr_hash_update (\<lambda>_. h)) (aw_users w)\<rparr>)" for h
    by (simp add: same_rights_def rights_set_where)
  from super_ids_same [OF this] show "super_ids (fst (sub_user_reset_route env t i pw w)) \<subseteq> super_ids w"
    by (simp add: sub_user_reset_route_def reset_sub_user_password_def drizzle_adapter_def update_sub_row_def split: option.split)
qed


definition demote :: user_patch where
  "demote = \<lparr>up_name = None, up_role = Some ''support'', up_status = None, up_password = None\<rparr>"

lemma super_admins_delete:
  "super_admins (delete_users (\<lambda>u. usr_id u = j) v) = filter (\<lambda>u. usr_id u \<noteq> j) (super_admins v)"
  by (simp add: super_admins_def delete_users_def Let_def conj_commute)

lemma super_admins_fold_delete:
  "super_admins (fold (\<lambda>i. delete_users (\<lambda>u. usr_id u = i)) js v) = filter (\<lambda>u. usr_id u \<notin> set js) (super_admins v)"
  by (induction js arbitrary: v) (simp_all add: super_admins_delete conj_commute)

lemma delete_keeps_super_admin:
  assumes "super_admins w \<noteq> []" and "user_keys w"
  shows "super_admins (fst (delete_admin_user c i w)) \<noteq> []"
proof (cases "admin_user w i")
  case (Some u)
  have keep: "super_admins (delete_users (\<lambda>u. usr_id u = i) w) \<noteq> []" if g: "usr_role u \<noteq> ''super_admin'' \<or> \<not> length (super_admins w) \<le> 1"
  proof
    assume "super_admins (delete_users (\<lambda>u. usr_id u = i) w) = []"
    then have all: "\<forall>x \<in> set (super_admins w). usr_id x = i" by (simp add: super_admins_delete filter_empty_conv)
    have inj: "inj_on usr_id (set (aw_users w))" and dist: "distinct (aw_users w)"
      using assms(2) by (simp_all add: user_keys_def distinct_map)
    have sub: "set (super_admins w) \<subseteq> set (aw_users w)" by (auto simp: super_admins_def)
    have u: "u \<in> set (aw_users w)" "usr_id u = i" using first_SomeD [OF Some [unfolded admin_user_def]] by auto
    have "set (super_admins w) \<subseteq> {u}" using all sub u inj by (auto dest: inj_onD)
    moreover have "distinct (super_admins w)" using dist by (simp add: super_admins_def)
    ultimately have "length (super_admins w) \<le> 1" by (metis card_mono distinct_card finite.emptyI finite_insert card.empty card_insert_disjoint empty_iff One_nat_def)
    moreover have "usr_role u = ''super_admin''"
      using \<open>set (super_admins w) \<subseteq> {u}\<close> assms(1) by (cases "super_admins w") (auto simp: super_admins_def dest!: filter_eq_ConsD)
    ultimately show False using g by simp
  qed
  then show ?thesis using Some assms(1) by (auto simp: delete_admin_user_def)
qed (use assms(1) in \<open>simp add: delete_admin_user_def\<close>)

lemma bulk_delete_keeps_super_admin:
  assumes "super_admins w \<noteq> []"
  shows "super_admins (fst (bulk_delete_admin_users c is w)) \<noteq> []"
proof (cases "fst (bulk_delete_admin_users c is w) = w")
  case False
  let ?t = "filter (\<lambda>u. usr_panel u = AdminPanel \<and> usr_id u \<in> set is) (aw_users w)"
  let ?s = "filter (\<lambda>u. usr_role u = ''super_admin'') ?t"
  have guard: "\<not> (length ?s > 0 \<and> int (length (super_admins w)) - int (length ?s) < 1)"
    and w': "fst (bulk_delete_admin_users c is w) = fold (\<lambda>i. delete_users (\<lambda>u. usr_id u = i)) (filter (\<lambda>i. i \<in> usr_id ` set ?t) is) w"
    using False by (auto simp: bulk_delete_admin_users_def Let_def split: if_splits)
  have s: "?s = filter (\<lambda>u. usr_id u \<in> set is) (super_admins w)"
    by (simp add: super_admins_def) (metis (mono_tags, lifting))
  have "filter (\<lambda>u. usr_id u \<notin> set is) (super_admins w) \<noteq> []"
  proof
    assume none: "filter (\<lambda>u. usr_id u \<notin> set is) (super_admins w) = []"
    then have all: "?s = super_admins w" unfolding s by (simp add: filter_empty_conv filter_id_conv)
    show False using guard [unfolded all] assms by simp
  qed
  then obtain x where "x \<in> set (super_admins w)" "usr_id x \<notin> set is" by (auto simp: filter_empty_conv)
  then have "x \<in> set (super_admins (fst (bulk_delete_admin_users c is w)))" unfolding w' super_admins_fold_delete by simp
  then show ?thesis by auto
qed (use assms in simp)

text \<open>Deleting administrators, one or many, always leaves a super administrator if there was one; but changing the role
  of the only super administrator is not refused, and leaves none.\<close>

theorem last_super_admin:
  assumes "super_admins w \<noteq> []" and "user_keys w"
  shows "super_admins (fst (delete_admin_user c i w)) \<noteq> [] \<and> super_admins (fst (bulk_delete_admin_users c is w)) \<noteq> [] \<and>
    (\<forall>u. super_admins w = [u] \<longrightarrow> update_admin_user env (usr_id u) demote w =
       (update_user (usr_id u) (apply_patch env demote) w, Inr ()) \<and>
       super_admins (fst (update_admin_user env (usr_id u) demote w)) = [])"
proof (intro conjI allI impI delete_keeps_super_admin bulk_delete_keeps_super_admin assms)
  fix u assume only: "super_admins w = [u]"
  then have u: "u \<in> set (aw_users w)" "usr_panel u = AdminPanel" by (auto simp: super_admins_def dest: filter_eq_ConsD)
  have found: "admin_user w (usr_id u) = Some u"
    unfolding admin_user_def using u assms(2) by (intro first_unique [where k = usr_id]) (auto simp: user_keys_def)
  have ok: "update_admin_user_schema demote"
    by (simp add: update_admin_user_schema_def demote_def opt_all_def STAFF_ROLES_def)
  show upd: "update_admin_user env (usr_id u) demote w = (update_user (usr_id u) (apply_patch env demote) w, Inr ())"
    using found ok by (simp add: update_admin_user_def Let_def demote_def)
  have "x = u" if "x \<in> set (aw_users w)" "usr_panel x = AdminPanel" "usr_role x = ''super_admin''" for x
  proof -
    have "x \<in> set (super_admins w)" using that by (simp add: super_admins_def)
    then show ?thesis using only by simp
  qed
  then show "super_admins (fst (update_admin_user env (usr_id u) demote w)) = []"
    unfolding upd by (auto simp: super_admins_def filter_empty_conv update_user_def apply_patch_def demote_def elim!: in_set_where split: if_splits)
qed

theorem last_super_admin_witness:
  "super_admins (fst (delete_admin_user (hd demo_claims) ''u9'' demo_world)) \<noteq> [] \<and>
   super_admins (fst (update_admin_user demo_env ''u1'' demote demo_world)) = []"
proof -
  have "super_admins demo_world = [demo_admin]" "usr_id demo_admin = ''u1''" "user_keys demo_world"
    by (simp_all add: super_admins_def user_keys_def demo_defs)
  then have "super_admins demo_world \<noteq> []" "super_admins demo_world = [demo_admin]" "usr_id demo_admin = ''u1''" "user_keys demo_world" by simp_all
  with last_super_admin [of demo_world "hd demo_claims" "''u9''" "[]" demo_env] show ?thesis by metis
qed

section \<open>Administrators of a tenant\<close>

text \<open>Changing a user of a tenant never takes the tenant's last active administrator away: neither a demotion nor a
  disabling passes when it is the only one.\<close>

theorem update_keeps_active_admin:
  assumes "auth_reachable w" and "1 \<le> length (filter (active_tenant_admin t) (aw_users w))"
  shows "1 \<le> length (filter (active_tenant_admin t) (aw_users (fst (sub_user_patch_route env t i p w))))"
proof (cases "update_sub_user_schema p")
  case True
  have keys: "user_keys w" using auth_reachable_inv [OF assms(1)] by (simp add: auth_inv_def user_keys_def)
  obtain w1 x where u: "update_sub_user drizzle_adapter env t i p w = (w1, x)" by fastforce
  have "1 \<le> length (filter (active_tenant_admin t) (aw_users w1))"
    using adapter.update_keeps_an_active_admin [OF keys u True] assms(2) by (simp add: drizzle_adapter_def)
  then show ?thesis
    using True u by (simp add: sub_user_patch_route_def revoke_all_user_refresh_tokens_def split: sum.split)
qed (use assms(2) in \<open>simp add: sub_user_patch_route_def\<close>)

definition demo_tenant_ops :: "auth_op list" where
  "demo_tenant_ops = [OpElsewhere [(''t'', TenantActive)] False False,
     OpCreateSub ''t'' ''a@t'' ''A'' ''password'' (Some ''tenant_admin'') 5, OpCreateSub ''t'' ''b@t'' ''B'' ''password'' (Some ''tenant_admin'') 5,
     OpPatchSub ''t'' ''i2'' \<lparr>up_name = None, up_role = None, up_status = Some UserDisabled, up_password = None\<rparr>]"

definition demo_tenant :: auth_world where
  "demo_tenant = foldl (\<lambda>w (x, op). auth_run demo_env (demo_fresh x) op w) empty_auth_world (zip [''0'', ''1'', ''2'', ''3''] demo_tenant_ops)"

lemma demo_tenant_reachable: "auth_reachable demo_tenant"
proof -
  let ?s = "\<lambda>x op w. auth_run demo_env (demo_fresh x) op w"
  let ?w0 = "?s ''0'' (demo_tenant_ops ! 0) empty_auth_world"
  let ?w1 = "?s ''1'' (demo_tenant_ops ! 1) ?w0"
  let ?w2 = "?s ''2'' (demo_tenant_ops ! 2) ?w1"
  have f: "fresh_in demo_env (demo_fresh ''0'') empty_auth_world" "fresh_in demo_env (demo_fresh ''1'') ?w0"
    "fresh_in demo_env (demo_fresh ''2'') ?w1" "fresh_in demo_env (demo_fresh ''3'') ?w2" by code_simp+
  have "demo_tenant = ?s ''3'' (demo_tenant_ops ! 3) ?w2" by (simp add: demo_tenant_def demo_tenant_ops_def)
  also have "auth_reachable \<dots>" by (intro auth_step auth_start f)
  finally show ?thesis .
qed

theorem update_keeps_active_admin_witness:
  "1 \<le> length (filter (active_tenant_admin ''t'') (aw_users (fst (sub_user_patch_route demo_env ''t'' ''i1'' demote demo_tenant))))"
proof (rule update_keeps_active_admin [OF demo_tenant_reachable])
  have "length (filter (active_tenant_admin ''t'') (aw_users demo_tenant)) = 1" by code_simp
  then show "1 \<le> length (filter (active_tenant_admin ''t'') (aw_users demo_tenant))" by simp
qed

text \<open>Deleting a user of a tenant leaves an administrator, but not necessarily an active one: with one active and one
  disabled administrator, deleting the active one succeeds and nobody of the tenant can administer it any more.\<close>

theorem delete_may_leave_no_active_admin:
  assumes "auth_reachable w" and "first (sub_row i t) (aw_users w) = Some u" and "active_tenant_admin t u"
    and "length (filter (active_tenant_admin t) (aw_users w)) = 1" and "2 \<le> length (filter (tenant_admin t) (aw_users w))"
  shows "sub_user_delete_route t i w = (delete_users (sub_row i t) w, Inr ()) \<and>
     1 \<le> length (filter (tenant_admin t) (aw_users (fst (sub_user_delete_route t i w)))) \<and>
     filter (active_tenant_admin t) (aw_users (fst (sub_user_delete_route t i w))) = []"
proof -
  have keys: "user_keys w" using auth_reachable_inv [OF assms(1)] by (simp add: auth_inv_def user_keys_def)
  have del: "sub_user_delete_route t i w = (delete_users (sub_row i t) w, Inr ())"
    using assms(2,5) by (simp add: sub_user_delete_route_def delete_sub_user_def drizzle_adapter_def)
  then have "delete_sub_user drizzle_adapter t i w = (delete_users (sub_row i t) w, Inr ())" by (simp add: sub_user_delete_route_def)
  from adapter.delete_keeps_an_admin [OF keys this] assms(5)
  have one: "1 \<le> length (filter (tenant_admin t) (aw_users (delete_users (sub_row i t) w)))"
    by (simp add: drizzle_adapter_def)
  note u = sub_row_only [OF keys assms(2)]
  have "x = u" if "x \<in> set (aw_users w)" "active_tenant_admin t x" for x
    using that assms(3,4) u(1) short_list_unique [of "filter (active_tenant_admin t) (aw_users w)" x u] by simp
  moreover have "sub_row i t u" using first_SomeD [OF assms(2)] by simp
  ultimately have "filter (active_tenant_admin t) (aw_users (delete_users (sub_row i t) w)) = []"
    by (auto simp: delete_users_def Let_def filter_empty_conv)
  with del one show ?thesis by simp
qed

theorem delete_may_leave_no_active_admin_witness:
  "filter (active_tenant_admin ''t'') (aw_users (fst (sub_user_delete_route ''t'' ''i1'' demo_tenant))) = [] \<and>
   1 \<le> length (filter (tenant_admin ''t'') (aw_users (fst (sub_user_delete_route ''t'' ''i1'' demo_tenant))))"
proof -
  let ?u = "hd (aw_users demo_tenant)"
  have "first (sub_row ''i1'' ''t'') (aw_users demo_tenant) = Some ?u" "active_tenant_admin ''t'' ?u"
    "length (filter (active_tenant_admin ''t'') (aw_users demo_tenant)) = 1"
    "length (filter (tenant_admin ''t'') (aw_users demo_tenant)) = 2" by code_simp+
  with delete_may_leave_no_active_admin [OF demo_tenant_reachable, of "''i1''" "''t''" ?u] show ?thesis by (metis order_refl)
qed

end
