(* ===== verification/StorageState.thy ===== *)
theory StorageState
  imports Tables
begin

text \<open>
  Storage of a tenant: the tables \<open>tenants\<close>, \<open>storage_snapshots\<close>, \<open>storage_operations\<close> and \<open>hosting_plans\<close>
  (\<open>db/schema.ts\<close>), the tenant's namespace in the cluster as far as the storage code touches it, the archives in the
  snapshot stores, and the quota of snapshots (\<open>storage-lifecycle/snapshot-quota.ts\<close>).

  A volume holds files, a map from paths to contents. Sizes of plans and overrides are hundredths of a GiB, as the
  columns \<open>numeric(8,2)\<close> keep them. Texts for display (labels, progress messages, error texts) are left out; of
  \<open>lastError\<close> the code of the error is kept.
\<close>

section \<open>Rows\<close>

datatype sl_state = SlIdle | SlSnapshotting | SlQuiescing | SlResizing | SlReplacing | SlRestoring | SlUnquiescing
  | SlArchiving | SlFailed

datatype sl_op_type = SnapshotOp | ResizeOp | SuspendOp | ResumeOp | ArchiveOp | RestoreOp | FsckOp

datatype snap_kind = Manual | PreResize | PreSuspend | PreArchive | Scheduled | PreRestore

datatype snap_status = Creating | Ready | Expired | SnapFailed

record sl_tenant =
  st_id :: string
  st_status :: tenant_status
  st_system :: bool
  st_namespace :: string
  st_plan :: string
  st_override :: "int option"
  st_state :: sl_state
  st_active_op :: "string option"
  st_suspended_at :: "int option"
  st_archived_at :: "int option"

record hosting_plan =
  hp_id :: string
  hp_storage :: int
  hp_max_bytes :: int
  hp_max_count :: int

record snapshot_row =
  sn_id :: string
  sn_tenant :: string
  sn_kind :: snap_kind
  sn_status :: snap_status
  sn_path :: string
  sn_size :: int
  sn_expires :: "int option"
  sn_error :: "string option"
  sn_subsystem :: string
  sn_class :: string
  sn_target :: "string option"
  sn_created :: int

text \<open>What a quiesce found: the replicas of each deployment, and which cron jobs were already suspended.\<close>

record quiesce_snapshot =
  qs_deployments :: "(string \<times> nat) list"
  qs_cron_jobs :: "(string \<times> bool) list"

record operation_row =
  sop_id :: string
  sop_tenant :: string
  sop_type :: sl_op_type
  sop_state :: sl_state
  sop_snapshot :: "string option"
  sop_quiesce :: "quiesce_snapshot option"
  sop_error :: "string option"
  sop_created :: int
  sop_completed :: "int option"

section \<open>The cluster\<close>

type_synonym files = "string \<Rightarrow> string option"

record deployment =
  dp_name :: string
  dp_replicas :: nat
  dp_managed :: bool
  dp_custom :: bool

record cron_job =
  cj_name :: string
  cj_suspend :: bool
  cj_managed :: bool

record volume_claim =
  pv_request :: string
  pv_capacity :: "string option"
  pv_files :: files

record tenant_namespace =
  ns_deployments :: "deployment list"
  ns_cron_jobs :: "cron_job list"
  ns_claim :: "volume_claim option"

text \<open>A snapshot store is either the legacy one (one for the platform, chosen by the settings) or the store of a
  backup target, with a directory for each class of snapshots.\<close>

datatype snapshot_store = LegacyStore | TargetStore string string

record sl_world =
  sw_tenants :: "sl_tenant list"
  sw_plans :: "hosting_plan list"
  sw_snapshots :: "snapshot_row list"
  sw_operations :: "operation_row list"
  sw_targets :: "string list"
  sw_namespaces :: "string \<Rightarrow> tenant_namespace"
  sw_archives :: "snapshot_store \<times> string \<Rightarrow> files option"

text \<open>What an operation is started with: the store of its snapshots, and the target and class that a snapshot row is
  stamped with.\<close>

record service_ctx =
  cx_store :: snapshot_store
  cx_target :: "string option"
  cx_class :: "string option"

datatype sl_error = SlErr string nat

section \<open>Queries and updates\<close>

definition must_get_tenant :: "sl_world \<Rightarrow> string \<Rightarrow> sl_error + sl_tenant" where
  "must_get_tenant w t = (case first (\<lambda>r. st_id r = t) (sw_tenants w) of
     None \<Rightarrow> Inl (SlErr ''CLIENT_NOT_FOUND'' 404) | Some r \<Rightarrow> Inr r)"

definition must_be_idle :: "sl_world \<Rightarrow> string \<Rightarrow> sl_error option" where
  "must_be_idle w t = (case first (\<lambda>r. st_id r = t) (sw_tenants w) of
     None \<Rightarrow> Some (SlErr ''CLIENT_NOT_FOUND'' 404)
   | Some r \<Rightarrow> if st_state r \<noteq> SlIdle then Some (SlErr ''STORAGE_OP_IN_PROGRESS'' 409) else None)"

definition mark_tenant_state :: "string \<Rightarrow> sl_state \<Rightarrow> string option \<Rightarrow> sl_world \<Rightarrow> sl_world" where
  "mark_tenant_state t s op w = w\<lparr>sw_tenants :=
     set_where (\<lambda>r. st_id r = t) (\<lambda>r. r\<lparr>st_state := s, st_active_op := op\<rparr>) (sw_tenants w)\<rparr>"

text \<open>The second half of \<open>progress\<close>: the state is copied to the tenant whose active operation this is.\<close>

definition sync_tenant_state :: "string \<Rightarrow> sl_state \<Rightarrow> sl_world \<Rightarrow> sl_world" where
  "sync_tenant_state op s w = w\<lparr>sw_tenants :=
     set_where (\<lambda>r. st_active_op r = Some op) (\<lambda>r. r\<lparr>st_state := s\<rparr>) (sw_tenants w)\<rparr>"

definition update_op :: "string \<Rightarrow> (operation_row \<Rightarrow> operation_row) \<Rightarrow> sl_world \<Rightarrow> sl_world" where
  "update_op op f w = w\<lparr>sw_operations := set_where (\<lambda>r. sop_id r = op) f (sw_operations w)\<rparr>"

definition update_snapshot :: "string \<Rightarrow> (snapshot_row \<Rightarrow> snapshot_row) \<Rightarrow> sl_world \<Rightarrow> sl_world" where
  "update_snapshot s f w = w\<lparr>sw_snapshots := set_where (\<lambda>r. sn_id r = s) f (sw_snapshots w)\<rparr>"

definition current_tenant_id :: "sl_world \<Rightarrow> string \<Rightarrow> string option" where
  "current_tenant_id w op = map_option sop_tenant (first (\<lambda>r. sop_id r = op) (sw_operations w))"

definition update_namespace :: "string \<Rightarrow> (tenant_namespace \<Rightarrow> tenant_namespace) \<Rightarrow> sl_world \<Rightarrow> sl_world" where
  "update_namespace n f w = w\<lparr>sw_namespaces := (sw_namespaces w)(n := f (sw_namespaces w n))\<rparr>"

definition reserve_path :: "string \<Rightarrow> string \<Rightarrow> string" where
  "reserve_path t s = t @ ''/'' @ s @ ''.tar.gz''"

text \<open>\<open>Math.round(Number(limit) || 10)\<close>, in GiB; a plan that is missing counts as 10.\<close>

definition get_plan_storage_gi :: "sl_world \<Rightarrow> string \<Rightarrow> int" where
  "get_plan_storage_gi w p = (case first (\<lambda>r. hp_id r = p) (sw_plans w) of
     None \<Rightarrow> 10 | Some r \<Rightarrow> if hp_storage r = 0 then 10 else (hp_storage r + 50) div 100)"

section \<open>The quota of snapshots\<close>

record quota_usage =
  qu_bytes :: int
  qu_count :: nat
  qu_max_bytes :: int
  qu_max_count :: int

definition counted_snapshots :: "sl_world \<Rightarrow> string \<Rightarrow> snapshot_row list" where
  "counted_snapshots w t = filter (\<lambda>r. sn_tenant r = t \<and> sn_class r = ''tenant_snapshot'') (sw_snapshots w)"

text \<open>The inner join with the plans gives no row for a tenant whose plan is missing.\<close>

definition get_snapshot_quota_usage :: "sl_world \<Rightarrow> string \<Rightarrow> quota_usage option" where
  "get_snapshot_quota_usage w t = (case first (\<lambda>r. st_id r = t) (sw_tenants w) of None \<Rightarrow> None
   | Some r \<Rightarrow> (case first (\<lambda>p. hp_id p = st_plan r) (sw_plans w) of None \<Rightarrow> None
     | Some p \<Rightarrow> Some \<lparr>qu_bytes = sum_list (map sn_size (filter (\<lambda>s. sn_status s = Ready) (counted_snapshots w t))),
         qu_count = length (filter (\<lambda>s. sn_status s \<in> {Ready, Creating}) (counted_snapshots w t)),
         qu_max_bytes = hp_max_bytes p, qu_max_count = hp_max_count p\<rparr>))"

definition enforce_snapshot_quota :: "sl_world \<Rightarrow> string \<Rightarrow> sl_error option" where
  "enforce_snapshot_quota w t = (case get_snapshot_quota_usage w t of None \<Rightarrow> None
   | Some u \<Rightarrow> if int (qu_count u) \<ge> qu_max_count u then Some (SlErr ''STORAGE_QUOTA_EXCEEDED'' 409)
     else if qu_bytes u \<ge> qu_max_bytes u then Some (SlErr ''STORAGE_QUOTA_EXCEEDED'' 409) else None)"

end
