(* ===== verification/StorageCluster.thy ===== *)
theory StorageCluster
  imports StorageState
begin

text \<open>
  The calls of the storage code on the cluster and the snapshot stores: \<open>quiesce.ts\<close>, the jobs that write and extract
  an archive (\<open>snapshot.ts\<close>, \<open>restore.ts\<close>, the scripts of \<open>streaming-store.ts\<close>), the volume claim, and the choice
  of the store an archive is read from (\<open>service.ts\<close>).

  Each call that can fail takes a \<open>fault\<close>, which says how it went: it went well, it failed and did nothing, it did its
  work and failed in reporting it, a list of writes stopped after some of them, the writes to some objects were lost
  although the caller swallows such errors, or a job was interrupted and left some files behind.
\<close>

datatype fault = NoFault | FailBefore | FailAfter | FailAt nat | Losing "string list" | FailWith files

definition lost :: "fault \<Rightarrow> string \<Rightarrow> bool" where
  "lost f n = (case f of Losing ns \<Rightarrow> n \<in> set ns | _ \<Rightarrow> False)"

text \<open>A single statement on the database: it happened or not, and the caller heard of it or not.\<close>

definition db_call :: "fault \<Rightarrow> ('w \<Rightarrow> 'w) \<Rightarrow> 'w \<Rightarrow> 'w \<times> bool" where
  "db_call f g w = (case f of NoFault \<Rightarrow> (g w, True) | FailAfter \<Rightarrow> (g w, False) | _ \<Rightarrow> (w, False))"

definition is_ok :: "fault \<Rightarrow> bool" where
  "is_ok f = (case f of NoFault \<Rightarrow> True | _ \<Rightarrow> False)"

section \<open>Sizes\<close>

definition size_str :: "nat \<Rightarrow> string" where
  "size_str mib = (if mib mod 1024 = 0 then show_nat (mib div 1024) @ ''Gi'' else show_nat mib @ ''Mi'')"

definition is_letter :: "char \<Rightarrow> bool" where
  "is_letter c = (is_lower c \<or> is_upper c)"

text \<open>The groups of \<open>/^(\d+(?:\.\d+)?)\s*([A-Za-z]*)$/\<close>: the digits, the digits after the point, the unit. The
  classes of the expression are disjoint, so the greedy reading is the only one.\<close>

definition quantity_match :: "string \<Rightarrow> (string \<times> string \<times> string) option" where
  "quantity_match s = (let ds = takeWhile is_digit s; r = dropWhile is_digit s;
       fs = (case r of CHR ''.'' # q \<Rightarrow> takeWhile is_digit q | _ \<Rightarrow> []);
       r2 = (if fs \<noteq> [] then dropWhile is_digit (tl r) else r);
       u = dropWhile is_ws r2
     in if ds \<noteq> [] \<and> list_all is_letter u then Some (ds, fs, u) else None)"

definition quantity_value :: "string \<Rightarrow> string \<Rightarrow> rat" where
  "quantity_value ds fs = of_nat (parse_nat ds) + of_nat (parse_nat fs) / of_nat (10 ^ length fs)"

definition unit_factor :: "(string \<times> rat) list" where
  "unit_factor = [(''Ki'', 1024), (''Mi'', 1024 ^ 2), (''Gi'', 1024 ^ 3), (''Ti'', 1024 ^ 4), (''Pi'', 1024 ^ 5),
     (''K'', 1000), (''M'', 1000 ^ 2), (''G'', 1000 ^ 3), (''T'', 1000 ^ 4), (''P'', 1000 ^ 5), (''k'', 1000)]"

text \<open>The tables of units are plain objects: a unit that names a member of \<open>Object.prototype\<close> finds a function, and
  the product is \<open>NaN\<close>, here \<open>None\<close>.\<close>

definition prototype_member :: "string \<Rightarrow> bool" where
  "prototype_member u = (u \<in> {''constructor'', ''hasOwnProperty'', ''isPrototypeOf'', ''propertyIsEnumerable'',
     ''toLocaleString'', ''toString'', ''valueOf''})"

definition parse_quantity_to_bytes :: "string \<Rightarrow> rat option" where
  "parse_quantity_to_bytes s = (case quantity_match s of None \<Rightarrow> Some 0
   | Some (ds, fs, u) \<Rightarrow> if u = [] then Some (quantity_value ds fs)
     else if prototype_member u then None
     else (case map_of unit_factor u of Some k \<Rightarrow> Some (quantity_value ds fs * k) | None \<Rightarrow> Some (quantity_value ds fs)))"

section \<open>Workloads\<close>

text \<open>A loop of writes to the objects that need one, with a budget: when it is used up, the next write throws.\<close>

fun write_each :: "('a \<Rightarrow> bool) \<Rightarrow> ('a \<Rightarrow> 'a) \<Rightarrow> nat \<Rightarrow> 'a list \<Rightarrow> 'a list \<times> nat" where
  "write_each p g b [] = ([], b)"
| "write_each p g b (x # xs) =
     (if \<not> p x then (case write_each p g b xs of (ys, c) \<Rightarrow> (x # ys, c))
      else (case b of 0 \<Rightarrow> (x # xs, 0) | Suc b' \<Rightarrow> (case write_each p g b' xs of (ys, c) \<Rightarrow> (g x # ys, c))))"

definition write_budget :: "fault \<Rightarrow> tenant_namespace \<Rightarrow> nat" where
  "write_budget f n = (case f of FailBefore \<Rightarrow> 0 | FailAt k \<Rightarrow> k
     | _ \<Rightarrow> length (ns_deployments n) + length (ns_cron_jobs n))"

definition quiesced_by :: "fault \<Rightarrow> tenant_namespace \<Rightarrow> tenant_namespace" where
  "quiesced_by f n =
     (case write_each (\<lambda>d. dp_replicas d > 0) (\<lambda>d. d\<lparr>dp_replicas := 0\<rparr>) (write_budget f n) (ns_deployments n) of
       (ds, b) \<Rightarrow> n\<lparr>ns_deployments := ds,
         ns_cron_jobs := fst (write_each (\<lambda>c. \<not> cj_suspend c) (\<lambda>c. c\<lparr>cj_suspend := True\<rparr>) b (ns_cron_jobs n))\<rparr>)"

definition throws :: "fault \<Rightarrow> bool" where
  "throws f = (case f of FailBefore \<Rightarrow> True | FailAfter \<Rightarrow> True | FailAt k \<Rightarrow> True | _ \<Rightarrow> False)"

text \<open>\<open>None\<close>: it threw, and the caller does not learn what had been running. Every deployment of the namespace is
  scaled, also the file manager; the deletion of running jobs is not recorded.\<close>

definition quiesce :: "fault \<Rightarrow> tenant_namespace \<Rightarrow> tenant_namespace \<times> quiesce_snapshot option" where
  "quiesce f n = (quiesced_by f n, if throws f then None
     else Some \<lparr>qs_deployments = map (\<lambda>d. (dp_name d, dp_replicas d)) (ns_deployments n),
                qs_cron_jobs = map (\<lambda>c. (cj_name c, cj_suspend c)) (ns_cron_jobs n)\<rparr>)"

definition unquiesce :: "fault \<Rightarrow> quiesce_snapshot \<Rightarrow> tenant_namespace \<Rightarrow> tenant_namespace" where
  "unquiesce f q n = n\<lparr>
     ns_deployments := fold (\<lambda>(k, r) ds. if r = 0 \<or> lost f k then ds
        else set_where (\<lambda>d. dp_name d = k) (\<lambda>d. d\<lparr>dp_replicas := r\<rparr>) ds) (qs_deployments q) (ns_deployments n),
     ns_cron_jobs := fold (\<lambda>(k, was) cs. if was \<or> lost f k then cs
        else set_where (\<lambda>c. cj_name c = k) (\<lambda>c. c\<lparr>cj_suspend := False\<rparr>) cs) (qs_cron_jobs q) (ns_cron_jobs n)\<rparr>"

text \<open>Only what the platform created is deleted, and a failed deletion is swallowed; reading the lists can throw.\<close>

definition delete_all_workloads :: "fault \<Rightarrow> tenant_namespace \<Rightarrow> tenant_namespace \<times> bool" where
  "delete_all_workloads f n = (let ds = filter (\<lambda>d. \<not> dp_managed d \<or> lost f (dp_name d)) (ns_deployments n);
       cs = filter (\<lambda>c. \<not> cj_managed c \<or> lost f (cj_name c)) (ns_cron_jobs n)
     in case f of FailBefore \<Rightarrow> (n, False)
        | FailAt k \<Rightarrow> (n\<lparr>ns_deployments := ds\<rparr>, False)
        | _ \<Rightarrow> (n\<lparr>ns_deployments := ds, ns_cron_jobs := cs\<rparr>, \<not> throws f))"

text \<open>The file manager is scaled up when it exists and has no replicas; every error is swallowed.\<close>

definition ensure_volume_reattached :: "fault \<Rightarrow> tenant_namespace \<Rightarrow> tenant_namespace" where
  "ensure_volume_reattached f n = (if throws f then n
     else n\<lparr>ns_deployments := set_where (\<lambda>d. dp_name d = ''file-manager'' \<and> dp_replicas d = 0) (\<lambda>d. d\<lparr>dp_replicas := 1\<rparr>) (ns_deployments n)\<rparr>)"

text \<open>The hook of custom deployments runs in every transition of a tenant and sets them to one replica, or none.\<close>

definition scale_custom_deployments :: "fault \<Rightarrow> nat \<Rightarrow> tenant_namespace \<Rightarrow> tenant_namespace" where
  "scale_custom_deployments f r n =
     n\<lparr>ns_deployments := set_where (\<lambda>d. dp_custom d \<and> \<not> lost f (dp_name d)) (\<lambda>d. d\<lparr>dp_replicas := r\<rparr>) (ns_deployments n)\<rparr>"

section \<open>The volume claim\<close>

definition set_claim :: "volume_claim option \<Rightarrow> tenant_namespace \<Rightarrow> tenant_namespace" where
  "set_claim c n = n\<lparr>ns_claim := c\<rparr>"

text \<open>A claim that does not exist counts as deleted (404).\<close>

definition delete_claim :: "fault \<Rightarrow> tenant_namespace \<Rightarrow> tenant_namespace \<times> bool" where
  "delete_claim f n = db_call f (set_claim None) n"

text \<open>A claim that exists already stays as it is (409).\<close>

definition apply_pvc_mib :: "fault \<Rightarrow> nat \<Rightarrow> tenant_namespace \<Rightarrow> tenant_namespace \<times> bool" where
  "apply_pvc_mib f mib n = db_call f (\<lambda>n. if ns_claim n \<noteq> None then n
     else set_claim (Some \<lparr>pv_request = size_str mib, pv_capacity = Some (size_str mib), pv_files = Map.empty\<rparr>) n) n"

definition wait_for_claim_gone :: "fault \<Rightarrow> tenant_namespace \<Rightarrow> bool" where
  "wait_for_claim_gone f n = (is_ok f \<and> ns_claim n = None)"

definition patch_claim :: "fault \<Rightarrow> nat \<Rightarrow> tenant_namespace \<Rightarrow> tenant_namespace \<times> bool" where
  "patch_claim f mib n = (case ns_claim n of None \<Rightarrow> (n, False)
   | Some c \<Rightarrow> db_call f (set_claim (Some (c\<lparr>pv_request := size_str mib\<rparr>))) n)"

text \<open>Waiting succeeds when the cluster extends the volume to what the claim requests, and that is enough.\<close>

definition wait_for_pvc_capacity :: "fault \<Rightarrow> rat \<Rightarrow> tenant_namespace \<Rightarrow> tenant_namespace \<times> bool" where
  "wait_for_pvc_capacity f target n = (case ns_claim n of None \<Rightarrow> (n, False)
   | Some c \<Rightarrow> if \<not> is_ok f then (n, False)
     else (set_claim (Some (c\<lparr>pv_capacity := Some (pv_request c)\<rparr>)) n,
           (case parse_quantity_to_bytes (pv_request c) of Some b \<Rightarrow> b \<ge> target | None \<Rightarrow> False)))"

section \<open>Archives\<close>

text \<open>The job needs the volume. \<open>FailAfter\<close>: the archive is complete and the caller does not learn of it.
  \<open>FailWith\<close>: the upload broke off.\<close>

definition snapshot_tenant_pvc :: "fault \<Rightarrow> snapshot_store \<Rightarrow> string \<Rightarrow> string \<Rightarrow> sl_world \<Rightarrow> sl_world \<times> bool" where
  "snapshot_tenant_pvc f st path ns w = (case ns_claim (sw_namespaces w ns) of None \<Rightarrow> (w, False)
   | Some c \<Rightarrow> (case f of
       NoFault \<Rightarrow> (w\<lparr>sw_archives := (sw_archives w)((st, path) := Some (pv_files c))\<rparr>, True)
     | FailAfter \<Rightarrow> (w\<lparr>sw_archives := (sw_archives w)((st, path) := Some (pv_files c))\<rparr>, False)
     | FailWith g \<Rightarrow> (w\<lparr>sw_archives := (sw_archives w)((st, path) := Some g)\<rparr>, False)
     | _ \<Rightarrow> (w, False)))"

text \<open>What the extracting job leaves on the volume. The streaming script of a target's store deletes everything on it
  before the archive is opened; the script of the legacy store looks for the archive first and unpacks over the old
  files.\<close>

definition extract_archive :: "fault \<Rightarrow> snapshot_store \<Rightarrow> files option \<Rightarrow> files \<Rightarrow> files \<times> bool" where
  "extract_archive f st a old = (case f of
       FailBefore \<Rightarrow> (old, False)
     | FailWith g \<Rightarrow> (g, False)
     | _ \<Rightarrow> (case a of
         None \<Rightarrow> (if st = LegacyStore then old else Map.empty, False)
       | Some b \<Rightarrow> (if st = LegacyStore then old ++ b else b, is_ok f)))"

definition restore_tenant_pvc :: "fault \<Rightarrow> snapshot_store \<Rightarrow> string \<Rightarrow> string \<Rightarrow> sl_world \<Rightarrow> sl_world \<times> bool" where
  "restore_tenant_pvc f st path ns w = (case ns_claim (sw_namespaces w ns) of None \<Rightarrow> (w, False)
   | Some c \<Rightarrow> (case extract_archive f st (sw_archives w (st, path)) (pv_files c) of (fs, ok) \<Rightarrow>
       (update_namespace ns (set_claim (Some (c\<lparr>pv_files := fs\<rparr>))) w, ok)))"

text \<open>The store an archive is read from. A row without target is a legacy row only when it has no subsystem; the column
  is not null. A target is looked up among the backup configurations; \<open>None\<close> is TARGET_REMOVED.\<close>

definition resolve_restore_store :: "sl_world \<Rightarrow> service_ctx \<Rightarrow> snapshot_row \<Rightarrow> snapshot_store option" where
  "resolve_restore_store w cx s = (case sn_target s of
       None \<Rightarrow> if sn_subsystem s \<noteq> [] then None else Some (cx_store cx)
     | Some t \<Rightarrow> if t = [] then (if sn_subsystem s \<noteq> [] then None else Some (cx_store cx))
         else if t \<in> set (sw_targets w) then Some (TargetStore t (sn_class s)) else None)"

text \<open>The store and the stamp of an operation that writes a snapshot. The assigned target must be enabled; when the
  shim serves the class, a sentinel stands for the target.\<close>

record store_settings =
  ss_shim :: bool
  ss_assigned :: "(string \<times> (string \<times> bool)) list"

definition resolve_snapshot_store_for_class :: "store_settings \<Rightarrow> string \<Rightarrow> sl_error + service_ctx" where
  "resolve_snapshot_store_for_class ss cls =
     (if ss_shim ss \<and> cls \<in> {''tenant_snapshot'', ''tenant_bundle'', ''system_backup''}
      then Inr \<lparr>cx_store = TargetStore (''shim:'' @ cls) cls, cx_target = Some (''shim:'' @ cls), cx_class = Some cls\<rparr>
      else (case map_of (ss_assigned ss) cls of
         None \<Rightarrow> Inl (SlErr ''NO_SNAPSHOT_TARGET'' 409)
       | Some (t, enabled) \<Rightarrow> if \<not> enabled then Inl (SlErr ''TARGET_DISABLED'' 503)
           else Inr \<lparr>cx_store = TargetStore t cls, cx_target = Some t, cx_class = Some cls\<rparr>))"

definition legacy_ctx :: service_ctx where
  "legacy_ctx = \<lparr>cx_store = LegacyStore, cx_target = None, cx_class = None\<rparr>"

end
