(* ===== verification/StorageRun.thy ===== *)
theory StorageRun
  imports StorageCluster
begin

text \<open>
  The orchestrators of \<open>storage-lifecycle/service.ts\<close>: the body of each is the list of its awaited calls in the order
  of the source, its handler the list of calls of its \<open>catch\<close>. A thread is an orchestrator that is under way; it takes
  one call at a time, each with the fault the surroundings give it. A list of faults that ends before the calls do is
  a process that died there.

  Reads of the database and updates of the progress text have no effect here, but can fail (\<open>CTouch\<close>).
\<close>

section \<open>Calls\<close>

datatype sl_call =
    CTouch | CSetOp sl_state | CSyncTenant sl_state | CFinishOp | CFinishSuspend | CFailOp | CMarkTenant sl_state
  | CQuiesce | CWaitQuiesced | CUnquiesce
  | CTakeSnapshot | CSnapReady | CSnapFailed
  | CDeleteClaim | CWaitClaimGone | CApplyClaim nat | CPatchClaim nat | CWaitCapacity nat | CPersistSize nat
  | CResolveStore | CRestore
  | CDeleteWorkloads | CCascade tenant_status
  | CLocateVolume | CAttachVolume | CWaitAttached | CRunFsck | CDetachVolume | CReattach | CFinishFsck | CMarkFsck

text \<open>\<open>Try\<close>: the call's errors are swallowed by a \<open>catch\<close> of its own.\<close>

datatype sl_step = Must sl_call | Try sl_call

text \<open>The surroundings of a call: the clock, the size of an archive, the file system of the volume when it is found, the
  verdict of a file system check.\<close>

record sl_env =
  se_now :: int
  se_size :: "files \<Rightarrow> int"
  se_fs :: "string option"
  se_clean :: bool

record sl_job =
  jb_op :: string
  jb_snap :: string
  jb_tenant :: string
  jb_ns :: string
  jb_path :: string
  jb_ctx :: service_ctx

record sl_locals =
  lo_quiesce :: "quiesce_snapshot option"
  lo_store :: snapshot_store
  lo_size :: int
  lo_clean :: bool
  lo_error :: string

record sl_thread =
  th_job :: sl_job
  th_todo :: "sl_step list"
  th_handler :: "sl_step list"
  th_locals :: sl_locals
  th_failed :: bool

section \<open>One call\<close>

definition ns_call :: "string \<Rightarrow> (tenant_namespace \<Rightarrow> tenant_namespace \<times> bool) \<Rightarrow> sl_world \<Rightarrow> sl_world \<times> bool" where
  "ns_call k g w = (case g (sw_namespaces w k) of (n, ok) \<Rightarrow> (update_namespace k (\<lambda>_. n) w, ok))"

text \<open>\<open>Math.round((mib / 1024) * 100)\<close>: hundredths of a GiB.\<close>

definition persist_size :: "string \<Rightarrow> nat \<Rightarrow> sl_world \<Rightarrow> sl_world" where
  "persist_size t mib w = w\<lparr>sw_tenants :=
     set_where (\<lambda>r. st_id r = t) (\<lambda>r. r\<lparr>st_override := Some (int ((mib * 200 + 1024) div 2048))\<rparr>) (sw_tenants w)\<rparr>"

text \<open>The hook \<open>tenants-status-stamp\<close>.\<close>

definition stamp_status :: "int \<Rightarrow> tenant_status \<Rightarrow> sl_tenant \<Rightarrow> sl_tenant" where
  "stamp_status now s r = (case s of
       TenantSuspended \<Rightarrow> r\<lparr>st_status := TenantSuspended, st_suspended_at := Some now\<rparr>
     | TenantArchived \<Rightarrow> r\<lparr>st_status := TenantArchived, st_archived_at := Some now\<rparr>
     | _ \<Rightarrow> r\<lparr>st_status := TenantActive, st_suspended_at := None, st_archived_at := None\<rparr>)"

text \<open>The hook \<open>system-tenant-guard\<close>, the first of these transitions, aborts them for the platform's own tenant.\<close>

definition guarded_system :: "sl_world \<Rightarrow> string \<Rightarrow> tenant_status \<Rightarrow> bool" where
  "guarded_system w t s = (s \<in> {TenantSuspended, TenantArchived} \<and>
     (case first (\<lambda>r. st_id r = t) (sw_tenants w) of None \<Rightarrow> False | Some r \<Rightarrow> st_system r))"

text \<open>A cascade dispatches the transition; it never throws. Of its hooks the guard, the stamp of the tenant and the scaling
  of custom deployments are kept. \<open>FailBefore\<close>: the dispatcher failed. \<open>FailAfter\<close>: a hook before the stamp aborted.\<close>

definition cascade :: "fault \<Rightarrow> int \<Rightarrow> string \<Rightarrow> string \<Rightarrow> tenant_status \<Rightarrow> sl_world \<Rightarrow> sl_world" where
  "cascade f now t k s w = (if guarded_system w t s then w else let
       scaled = update_namespace k (scale_custom_deployments f (if s = TenantActive then 1 else 0)) w
     in case f of FailBefore \<Rightarrow> w | FailAfter \<Rightarrow> scaled
        | _ \<Rightarrow> scaled\<lparr>sw_tenants := set_where (\<lambda>r. st_id r = t) (stamp_status now s) (sw_tenants scaled)\<rparr>)"

text \<open>The code kept in \<open>lastError\<close>, one for each kind of call.\<close>

definition call_error :: "sl_call \<Rightarrow> string" where
  "call_error c = (case c of CResolveStore \<Rightarrow> ''TARGET_REMOVED'' | CWaitCapacity _ \<Rightarrow> ''FS_RESIZE_TIMEOUT''
     | CLocateVolume \<Rightarrow> ''FSCK_VOLUME_NOT_FOUND'' | _ \<Rightarrow> ''ERROR'')"

text \<open>Calls that touch the world only, given the values of the local variables.\<close>

definition complete_op :: "sl_env \<Rightarrow> sl_job \<Rightarrow> sl_world \<Rightarrow> sl_world" where
  "complete_op env j = update_op (jb_op j) (\<lambda>r. r\<lparr>sop_state := SlIdle, sop_completed := Some (se_now env)\<rparr>)"

definition fail_op :: "sl_env \<Rightarrow> sl_job \<Rightarrow> string \<Rightarrow> sl_world \<Rightarrow> sl_world" where
  "fail_op env j e = update_op (jb_op j)
     (\<lambda>r. r\<lparr>sop_state := SlFailed, sop_error := Some e, sop_completed := Some (se_now env)\<rparr>)"

fun world_call :: "sl_env \<Rightarrow> sl_job \<Rightarrow> sl_locals \<Rightarrow> sl_call \<Rightarrow> fault \<Rightarrow> sl_world \<Rightarrow> sl_world \<times> bool" where
  "world_call env j l (CSetOp s) f w = db_call f (update_op (jb_op j) (\<lambda>r. r\<lparr>sop_state := s\<rparr>)) w"
| "world_call env j l (CSyncTenant s) f w = db_call f (sync_tenant_state (jb_op j) s) w"
| "world_call env j l CFinishOp f w = db_call f (complete_op env j) w"
| "world_call env j l CFinishSuspend f w =
     db_call f (\<lambda>w. update_op (jb_op j) (\<lambda>r. r\<lparr>sop_quiesce := lo_quiesce l\<rparr>) (complete_op env j w)) w"
| "world_call env j l CFailOp f w = db_call f (fail_op env j (lo_error l)) w"
| "world_call env j l (CMarkTenant s) f w = db_call f (mark_tenant_state (jb_tenant j) s None) w"
| "world_call env j l CFinishFsck f w = db_call f (if lo_clean l then complete_op env j else fail_op env j ''FSCK'') w"
| "world_call env j l CMarkFsck f w =
     db_call f (mark_tenant_state (jb_tenant j) (if lo_clean l then SlIdle else SlFailed) None) w"
| "world_call env j l CUnquiesce f w = (case lo_quiesce l of None \<Rightarrow> (w, True)
     | Some q \<Rightarrow> (update_namespace (jb_ns j) (unquiesce f q) w, True))"
| "world_call env j l CSnapReady f w =
     db_call f (update_snapshot (jb_snap j) (\<lambda>r. r\<lparr>sn_status := Ready, sn_size := lo_size l\<rparr>)) w"
| "world_call env j l CSnapFailed f w =
     db_call f (update_snapshot (jb_snap j) (\<lambda>r. r\<lparr>sn_status := SnapFailed, sn_error := Some (lo_error l)\<rparr>)) w"
| "world_call env j l CDeleteClaim f w = ns_call (jb_ns j) (delete_claim f) w"
| "world_call env j l CWaitClaimGone f w = (w, wait_for_claim_gone f (sw_namespaces w (jb_ns j)))"
| "world_call env j l (CApplyClaim mib) f w = ns_call (jb_ns j) (apply_pvc_mib f mib) w"
| "world_call env j l (CPatchClaim mib) f w = ns_call (jb_ns j) (patch_claim f mib) w"
| "world_call env j l (CWaitCapacity mib) f w =
     ns_call (jb_ns j) (wait_for_pvc_capacity f (of_nat mib * 1024 * 1024)) w"
| "world_call env j l (CPersistSize mib) f w = db_call f (persist_size (jb_tenant j) mib) w"
| "world_call env j l CRestore f w = restore_tenant_pvc f (lo_store l) (jb_path j) (jb_ns j) w"
| "world_call env j l CDeleteWorkloads f w = ns_call (jb_ns j) (delete_all_workloads f) w"
| "world_call env j l (CCascade s) f w = (cascade f (se_now env) (jb_tenant j) (jb_ns j) s w, True)"
| "world_call env j l CReattach f w = (update_namespace (jb_ns j) (ensure_volume_reattached f) w, True)"
| "world_call env j l c f w = (w, is_ok f)"

text \<open>The calls that also set a local variable.\<close>

fun exec_call :: "sl_env \<Rightarrow> sl_job \<Rightarrow> sl_call \<Rightarrow> fault \<Rightarrow> sl_locals \<times> sl_world \<Rightarrow> (sl_locals \<times> sl_world) \<times> bool" where
  "exec_call env j CQuiesce f (l, w) = (case quiesce f (sw_namespaces w (jb_ns j)) of (n, q) \<Rightarrow>
     ((if q = None then l else l\<lparr>lo_quiesce := q\<rparr>, update_namespace (jb_ns j) (\<lambda>_. n) w), q \<noteq> None))"
| "exec_call env j CTakeSnapshot f (l, w) =
     (case snapshot_tenant_pvc f (cx_store (jb_ctx j)) (jb_path j) (jb_ns j) w of (w', ok) \<Rightarrow>
       ((case sw_archives w' (cx_store (jb_ctx j), jb_path j) of None \<Rightarrow> l | Some a \<Rightarrow> l\<lparr>lo_size := se_size env a\<rparr>, w'), ok))"
| "exec_call env j CResolveStore f (l, w) = (if \<not> is_ok f then ((l, w), False)
     else (case first (\<lambda>s. sn_id s = jb_snap j) (sw_snapshots w) of
         None \<Rightarrow> ((l\<lparr>lo_store := cx_store (jb_ctx j)\<rparr>, w), True)
       | Some s \<Rightarrow> (case resolve_restore_store w (jb_ctx j) s of
           None \<Rightarrow> ((l, w), False) | Some st \<Rightarrow> ((l\<lparr>lo_store := st\<rparr>, w), True))))"
| "exec_call env j CLocateVolume f (l, w) =
     ((l, w), is_ok f \<and> se_fs env \<in> {Some ''xfs'', Some ''ext4'', Some ''ext3'', Some ''ext2''})"
| "exec_call env j CRunFsck f (l, w) = ((l\<lparr>lo_clean := se_clean env\<rparr>, w), is_ok f)"
| "exec_call env j c f (l, w) = (case world_call env j l c f w of (w', ok) \<Rightarrow> ((l, w'), ok))"

section \<open>Threads\<close>

text \<open>A call that throws ends the body; the calls of the handler follow. When one of those throws, the orchestrator ends
  there (the outer \<open>catch\<close> only logs).\<close>

fun advance :: "sl_env \<Rightarrow> fault \<Rightarrow> sl_thread \<times> sl_world \<Rightarrow> sl_thread \<times> sl_world" where
  "advance env f (th, w) = (case th_todo th of [] \<Rightarrow> (th, w)
   | Try c # rest \<Rightarrow> (case exec_call env (th_job th) c f (th_locals th, w) of ((l, w'), ok) \<Rightarrow>
       (th\<lparr>th_todo := rest, th_locals := l\<rparr>, w'))
   | Must c # rest \<Rightarrow> (case exec_call env (th_job th) c f (th_locals th, w) of ((l, w'), ok) \<Rightarrow>
       if ok then (th\<lparr>th_todo := rest, th_locals := l\<rparr>, w')
       else (th\<lparr>th_todo := th_handler th, th_handler := [], th_locals := l\<lparr>lo_error := call_error c\<rparr>, th_failed := True\<rparr>, w')))"

definition run_thread :: "sl_env \<Rightarrow> fault list \<Rightarrow> sl_thread \<times> sl_world \<Rightarrow> sl_thread \<times> sl_world" where
  "run_thread env fs s = fold (advance env) fs s"

definition finished :: "sl_thread \<Rightarrow> bool" where
  "finished th = (th_todo th = [])"

definition start_thread :: "sl_job \<Rightarrow> sl_step list \<times> sl_step list \<Rightarrow> quiesce_snapshot option \<Rightarrow> sl_thread" where
  "start_thread j p q = \<lparr>th_job = j, th_todo = fst p, th_handler = snd p,
     th_locals = \<lparr>lo_quiesce = q, lo_store = cx_store (jb_ctx j), lo_size = 0, lo_clean = False, lo_error = []\<rparr>, th_failed = False\<rparr>"

section \<open>The orchestrators: body and handler\<close>

definition progress :: "sl_state \<Rightarrow> sl_step list" where
  "progress s = [Must (CSetOp s), Must (CSyncTenant s)]"

definition run_snapshot :: "sl_step list \<times> sl_step list" where
  "run_snapshot =
     ([Must CQuiesce, Must CWaitQuiesced, Must CTouch, Must CTakeSnapshot, Must CSnapReady, Must (CSetOp SlIdle),
       Must CUnquiesce, Must CFinishOp, Must (CMarkTenant SlIdle), Must CTouch],
      [Must CSnapFailed, Must CFailOp, Must CUnquiesce, Must (CMarkTenant SlIdle)])"

definition run_grow_online :: "nat \<Rightarrow> sl_step list \<times> sl_step list" where
  "run_grow_online mib =
     (progress SlResizing @ [Must (CPatchClaim mib)] @ progress SlResizing @ [Must (CWaitCapacity mib),
       Must (CPersistSize mib), Must CFinishOp, Must (CMarkTenant SlIdle)],
      [Must CFailOp, Must (CMarkTenant SlFailed)])"

definition run_resize_destructive :: "nat \<Rightarrow> sl_step list \<times> sl_step list" where
  "run_resize_destructive mib =
     (progress SlQuiescing @ [Must CQuiesce, Must CWaitQuiesced] @
      progress SlSnapshotting @ [Must CTakeSnapshot, Must CSnapReady] @
      progress SlReplacing @ [Must CDeleteClaim, Must CWaitClaimGone, Must CTouch, Must (CApplyClaim mib)] @
      progress SlRestoring @ [Must CResolveStore, Must CRestore] @
      progress SlUnquiescing @ [Must CUnquiesce, Must (CPersistSize mib), Must CFinishOp, Must (CMarkTenant SlIdle)],
      [Must CFailOp, Must CUnquiesce, Must (CMarkTenant SlFailed)])"

definition run_archive :: "sl_step list \<times> sl_step list" where
  "run_archive =
     ([Must (CSetOp SlQuiescing), Must CQuiesce, Must CWaitQuiesced, Must (CSetOp SlSnapshotting), Must CTakeSnapshot,
       Must CSnapReady, Must (CSetOp SlReplacing), Must CDeleteWorkloads, Must CDeleteClaim, Must (CSetOp SlArchiving),
       Must (CCascade TenantArchived), Must CFinishOp, Must (CMarkTenant SlIdle)],
      [Must CFailOp, Must CSnapFailed, Must CUnquiesce, Must (CMarkTenant SlFailed)])"

definition run_restore_archive :: "nat \<Rightarrow> sl_step list \<times> sl_step list" where
  "run_restore_archive gi =
     ([Must CTouch, Must (CApplyClaim (gi * 1024)), Must (CSetOp SlRestoring), Must CResolveStore, Must CRestore,
       Must CFinishOp, Must (CCascade TenantActive), Must (CMarkTenant SlIdle)],
      [Must CFailOp, Must (CMarkTenant SlFailed)])"

definition run_rollback_to_snapshot :: "sl_step list \<times> sl_step list" where
  "run_rollback_to_snapshot =
     ([Must CResolveStore, Must CQuiesce, Must CWaitQuiesced, Must CTouch, Must CRestore, Must CTouch, Must CUnquiesce,
       Must CFinishOp, Must (CMarkTenant SlIdle)],
      [Must CUnquiesce, Must CFailOp, Must (CMarkTenant SlFailed)])"

definition run_suspend :: "sl_step list \<times> sl_step list" where
  "run_suspend = ([Must CQuiesce, Must (CCascade TenantSuspended), Must CFinishSuspend, Must (CMarkTenant SlIdle)],
     [Must CFailOp, Must (CMarkTenant SlIdle)])"

definition run_resume :: "sl_step list \<times> sl_step list" where
  "run_resume = ([Must CUnquiesce, Must (CCascade TenantActive), Must CFinishOp, Must (CMarkTenant SlIdle)],
     [Must CFailOp, Must (CMarkTenant SlIdle)])"

definition run_fsck :: "sl_step list \<times> sl_step list" where
  "run_fsck =
     ([Must CLocateVolume] @ progress SlQuiescing @ [Must CQuiesce, Must CWaitQuiesced] @ progress SlQuiescing @
      [Must CAttachVolume, Must CWaitAttached] @ progress SlQuiescing @ [Must CRunFsck, Try CDetachVolume] @
      progress SlUnquiescing @ [Must CUnquiesce, Must CReattach, Must CFinishFsck, Must CMarkFsck],
      [Must CFailOp, Try CDetachVolume, Must CUnquiesce, Must CReattach, Must (CMarkTenant SlFailed)])"

end
