(* ===== verification/StorageOps.thy ===== *)
theory StorageOps
  imports StorageRun
begin

text \<open>
  The operations of \<open>storage-lifecycle/service.ts\<close> an administrator, \<open>updateTenant\<close> and the scheduler start: what each
  checks, the rows it writes in its transaction, and the thread it leaves running. Ids are arguments. The clock is
  part of the surroundings.
\<close>

section \<open>Starting an operation\<close>

definition day_ms :: int where
  "day_ms = 24 * 60 * 60 * 1000"

definition new_operation :: "sl_env \<Rightarrow> string \<Rightarrow> string \<Rightarrow> sl_op_type \<Rightarrow> sl_state \<Rightarrow> string option \<Rightarrow> operation_row" where
  "new_operation env op t ty s snap = \<lparr>sop_id = op, sop_tenant = t, sop_type = ty, sop_state = s, sop_snapshot = snap,
     sop_quiesce = None, sop_error = None, sop_created = se_now env, sop_completed = None\<rparr>"

text \<open>The transaction: the row of the operation, and the state of the tenant.\<close>

definition begin_op :: "sl_env \<Rightarrow> string \<Rightarrow> string \<Rightarrow> sl_op_type \<Rightarrow> sl_state \<Rightarrow> string option \<Rightarrow> sl_world \<Rightarrow> sl_world" where
  "begin_op env op t ty s snap w = mark_tenant_state t s (Some op)
     (w\<lparr>sw_operations := sw_operations w @ [new_operation env op t ty s snap]\<rparr>)"

text \<open>A snapshot row. The target is a foreign key into the backup configurations: with a target that is not there the
  transaction fails and leaves nothing.\<close>

definition new_snapshot :: "sl_env \<Rightarrow> service_ctx \<Rightarrow> string \<Rightarrow> string \<Rightarrow> snap_kind \<Rightarrow> int option \<Rightarrow> snapshot_row" where
  "new_snapshot env cx t snap k expires = \<lparr>sn_id = snap, sn_tenant = t, sn_kind = k, sn_status = Creating,
     sn_path = reserve_path t snap, sn_size = 0, sn_expires = expires, sn_error = None, sn_subsystem = ''tenant-pvc'',
     sn_class = (case cx_class cx of Some c \<Rightarrow> c | None \<Rightarrow> ''tenant_snapshot''), sn_target = cx_target cx,
     sn_created = se_now env\<rparr>"

definition insert_snapshot :: "snapshot_row \<Rightarrow> sl_world \<Rightarrow> sl_error + sl_world" where
  "insert_snapshot s w = (case sn_target s of
       Some t \<Rightarrow> if t \<in> set (sw_targets w) then Inr (w\<lparr>sw_snapshots := sw_snapshots w @ [s]\<rparr>)
         else Inl (SlErr ''FOREIGN_KEY_VIOLATION'' 500)
     | None \<Rightarrow> Inr (w\<lparr>sw_snapshots := sw_snapshots w @ [s]\<rparr>))"

definition job_for :: "service_ctx \<Rightarrow> string \<Rightarrow> string \<Rightarrow> string \<Rightarrow> sl_tenant \<Rightarrow> sl_job" where
  "job_for cx op snap path r = \<lparr>jb_op = op, jb_snap = snap, jb_tenant = st_id r, jb_ns = st_namespace r, jb_path = path, jb_ctx = cx\<rparr>"

text \<open>\<open>mustGetTenant\<close> and \<open>mustBeIdle\<close>, in this order.\<close>

definition idle_tenant :: "sl_world \<Rightarrow> string \<Rightarrow> sl_error + sl_tenant" where
  "idle_tenant w t = (case must_get_tenant w t of Inl e \<Rightarrow> Inl e
   | Inr r \<Rightarrow> (case must_be_idle w t of Some e \<Rightarrow> Inl e | None \<Rightarrow> Inr r))"

text \<open>The row that \<open>ORDER BY created_at DESC LIMIT 1\<close> gives; among rows of the same time the one written last.\<close>

definition latest :: "('a \<Rightarrow> int) \<Rightarrow> 'a list \<Rightarrow> 'a option" where
  "latest k rows = (case sort_key (\<lambda>r. - k r) (rev rows) of [] \<Rightarrow> None | r # _ \<Rightarrow> Some r)"

section \<open>Snapshots\<close>

definition snapshot_tenant :: "sl_env \<Rightarrow> service_ctx \<Rightarrow> string \<Rightarrow> string \<Rightarrow> string \<Rightarrow> snap_kind \<Rightarrow> nat option \<Rightarrow> sl_world
    \<Rightarrow> sl_error + (sl_world \<times> sl_thread)" where
  "snapshot_tenant env cx op snap t k retention w = (case idle_tenant w t of Inl e \<Rightarrow> Inl e
   | Inr r \<Rightarrow> (case enforce_snapshot_quota w t of Some e \<Rightarrow> Inl e
     | None \<Rightarrow> let path = reserve_path t snap;
          expires = (case retention of None \<Rightarrow> None
            | Some d \<Rightarrow> if d = 0 then None else Some (se_now env + int d * day_ms))
        in case insert_snapshot (new_snapshot env cx t snap k expires) w of Inl e \<Rightarrow> Inl e
           | Inr w' \<Rightarrow> Inr (begin_op env op t SnapshotOp SlSnapshotting (Some snap) w',
               start_thread (job_for cx op snap path r) run_snapshot None)))"

definition delete_snapshot :: "fault \<Rightarrow> service_ctx \<Rightarrow> string \<Rightarrow> sl_world \<Rightarrow> sl_error + sl_world" where
  "delete_snapshot f cx s w = (case first (\<lambda>r. sn_id r = s) (sw_snapshots w) of
       None \<Rightarrow> Inl (SlErr ''SNAPSHOT_NOT_FOUND'' 404)
     | Some r \<Rightarrow> let w' = (case resolve_restore_store w cx r of None \<Rightarrow> w
          | Some st \<Rightarrow> if is_ok f then w\<lparr>sw_archives := (sw_archives w)((st, sn_path r) := None)\<rparr> else w)
        in Inr (w'\<lparr>sw_snapshots := filter (\<lambda>r. sn_id r \<noteq> s) (sw_snapshots w')\<rparr>))"

text \<open>The rows whose archive the store fails to delete (listed in the fault) keep their status.\<close>

definition expire_one :: "fault \<Rightarrow> service_ctx \<Rightarrow> snapshot_row \<Rightarrow> sl_world \<Rightarrow> sl_world" where
  "expire_one f cx r w = (case resolve_restore_store w cx r of
       None \<Rightarrow> update_snapshot (sn_id r) (\<lambda>r. r\<lparr>sn_status := Expired\<rparr>) w
     | Some st \<Rightarrow> if lost f (sn_id r) then w
         else update_snapshot (sn_id r) (\<lambda>r. r\<lparr>sn_status := Expired\<rparr>) (w\<lparr>sw_archives := (sw_archives w)((st, sn_path r) := None)\<rparr>))"

definition due_snapshot :: "int \<Rightarrow> snapshot_row \<Rightarrow> bool" where
  "due_snapshot now r = (sn_status r = Ready \<and> (case sn_expires r of None \<Rightarrow> False | Some e \<Rightarrow> e \<le> now))"

definition expire_snapshots :: "fault \<Rightarrow> sl_env \<Rightarrow> service_ctx \<Rightarrow> sl_world \<Rightarrow> sl_world" where
  "expire_snapshots f env cx w = fold (expire_one f cx) (filter (due_snapshot (se_now env)) (sw_snapshots w)) w"

section \<open>Resizing\<close>

text \<open>The bytes that \<open>du\<close> reports in the file manager; \<open>None\<close> is everything else: no running pod, a failed exec,
  an answer that is not a number.\<close>

definition measure_pvc_used :: "nat option \<Rightarrow> nat" where
  "measure_pvc_used du = (case du of Some b \<Rightarrow> b | None \<Rightarrow> 0)"

text \<open>\<open>Math.ceil(usedBytes * RESIZE_SAFETY_FACTOR)\<close> in double precision: the factor 1.1 is the double
  2476979795053773 / 2^51, and the product is rounded to 53 significant bits, ties to even. The numbers here are the
  numerators over 2^51.\<close>

fun bit_len :: "nat \<Rightarrow> nat" where
  "bit_len n = (if n = 0 then 0 else Suc (bit_len (n div 2)))"

declare bit_len.simps [simp del]

definition round_even :: "nat \<Rightarrow> nat \<Rightarrow> nat" where
  "round_even n d = (if 2 * (n mod d) < d \<or> 2 * (n mod d) = d \<and> even (n div d) then n div d else n div d + 1)"

definition times_safety_factor :: "nat \<Rightarrow> nat" where
  "times_safety_factor b = (let p = b * 2476979795053773; u = 2 ^ (bit_len p - 53) in round_even p u * u)"

definition required_bytes :: "nat \<Rightarrow> nat" where
  "required_bytes b = (times_safety_factor b + 2 ^ 51 - 1) div 2 ^ 51"

record dry_run =
  dr_current_mib :: "int option"
  dr_used :: nat
  dr_will_fit :: bool

definition round_rat :: "rat \<Rightarrow> int" where
  "round_rat x = \<lfloor>x + 1 / 2\<rfloor>"

text \<open>The size of the claim when it can be read and states one, else that of the override or the plan. \<open>None\<close> is
  \<open>NaN\<close>.\<close>

definition current_mib :: "bool \<Rightarrow> sl_world \<Rightarrow> sl_tenant \<Rightarrow> int option" where
  "current_mib readable w r = (let gi = (case st_override r of None \<Rightarrow> 0 | Some h \<Rightarrow> (h + 50) div 100);
       fallback = Some ((if gi \<noteq> 0 then gi else get_plan_storage_gi w (st_plan r)) * 1024)
     in if \<not> readable then fallback
        else case ns_claim (sw_namespaces w (st_namespace r)) of None \<Rightarrow> fallback
        | Some c \<Rightarrow> if pv_request c = [] then fallback
            else map_option (\<lambda>b. round_rat (b / (1024 * 1024))) (parse_quantity_to_bytes (pv_request c)))"

definition resize_dry_run_mib :: "bool \<Rightarrow> nat option \<Rightarrow> string \<Rightarrow> nat \<Rightarrow> sl_world \<Rightarrow> sl_error + dry_run" where
  "resize_dry_run_mib readable du t new_mib w = (case must_get_tenant w t of Inl e \<Rightarrow> Inl e
   | Inr r \<Rightarrow> let used = measure_pvc_used du
      in Inr \<lparr>dr_current_mib = current_mib readable w r, dr_used = used,
         dr_will_fit = (required_bytes used \<le> new_mib * 1024 * 1024)\<rparr>)"

text \<open>What a request decides before it writes anything: the checks, and which way to resize.\<close>

datatype resize_plan = ResizeNoop | ResizeGrow | ResizeDestructive

definition resize_decide :: "bool \<Rightarrow> nat option \<Rightarrow> string \<Rightarrow> nat option \<Rightarrow> nat option \<Rightarrow> sl_world
    \<Rightarrow> sl_error + (sl_tenant \<times> nat \<times> resize_plan)" where
  "resize_decide readable du t new_mib new_gi w = (case idle_tenant w t of Inl e \<Rightarrow> Inl e
   | Inr r \<Rightarrow> if new_mib = None \<and> new_gi = None then Inl (SlErr ''VALIDATION_ERROR'' 400)
     else let mib = (case new_mib of Some m \<Rightarrow> m | None \<Rightarrow> the new_gi * 1024)
       in case resize_dry_run_mib readable du t mib w of Inl e \<Rightarrow> Inl e
          | Inr dry \<Rightarrow> if dr_current_mib dry = Some (int mib) then Inr (r, mib, ResizeNoop)
              else if (case dr_current_mib dry of Some c \<Rightarrow> c < int mib | None \<Rightarrow> False) then Inr (r, mib, ResizeGrow)
              else if \<not> dr_will_fit dry then Inl (SlErr ''RESIZE_UNSAFE'' 400)
              else Inr (r, mib, ResizeDestructive))"

definition resize_grow :: "sl_env \<Rightarrow> service_ctx \<Rightarrow> string \<Rightarrow> nat \<Rightarrow> sl_tenant \<Rightarrow> sl_world \<Rightarrow> sl_world \<times> sl_thread" where
  "resize_grow env cx op mib r w = (begin_op env op (st_id r) ResizeOp SlResizing None w,
     start_thread (job_for cx op [] [] r) (run_grow_online mib) None)"

definition resize_destructive :: "sl_env \<Rightarrow> service_ctx \<Rightarrow> string \<Rightarrow> string \<Rightarrow> nat \<Rightarrow> sl_tenant \<Rightarrow> sl_world
    \<Rightarrow> sl_error + (sl_world \<times> sl_thread)" where
  "resize_destructive env cx op snap mib r w = (let path = reserve_path (st_id r) snap in
     case insert_snapshot (new_snapshot env cx (st_id r) snap PreResize (Some (se_now env + 7 * day_ms))) w of Inl e \<Rightarrow> Inl e
     | Inr w' \<Rightarrow> Inr (begin_op env op (st_id r) ResizeOp SlSnapshotting (Some snap) w',
         start_thread (job_for cx op snap path r) (run_resize_destructive mib) None))"

definition resize_commit :: "sl_env \<Rightarrow> service_ctx \<Rightarrow> string \<Rightarrow> string \<Rightarrow> sl_tenant \<times> nat \<times> resize_plan \<Rightarrow> sl_world
    \<Rightarrow> sl_error + (sl_world \<times> sl_thread list)" where
  "resize_commit env cx op snap p w = (case p of (r, mib, plan) \<Rightarrow> (case plan of
       ResizeNoop \<Rightarrow> Inr (w\<lparr>sw_operations := sw_operations w @
         [(new_operation env op (st_id r) ResizeOp SlIdle None)\<lparr>sop_completed := Some (se_now env)\<rparr>]\<rparr>, [])
     | ResizeGrow \<Rightarrow> (case resize_grow env cx op mib r w of (w', th) \<Rightarrow> Inr (w', [th]))
     | ResizeDestructive \<Rightarrow> (case resize_destructive env cx op snap mib r w of Inl e \<Rightarrow> Inl e
         | Inr (w', th) \<Rightarrow> Inr (w', [th]))))"

definition resize_tenant :: "sl_env \<Rightarrow> service_ctx \<Rightarrow> bool \<Rightarrow> nat option \<Rightarrow> string \<Rightarrow> string \<Rightarrow> string \<Rightarrow> nat option \<Rightarrow> nat option
    \<Rightarrow> sl_world \<Rightarrow> sl_error + (sl_world \<times> sl_thread list)" where
  "resize_tenant env cx readable du op snap t new_mib new_gi w =
     (case resize_decide readable du t new_mib new_gi w of Inl e \<Rightarrow> Inl e
      | Inr p \<Rightarrow> resize_commit env cx op snap p w)"

section \<open>Suspending and resuming\<close>

definition suspend_tenant :: "sl_env \<Rightarrow> service_ctx \<Rightarrow> string \<Rightarrow> string \<Rightarrow> sl_world \<Rightarrow> sl_error + (sl_world \<times> sl_thread)" where
  "suspend_tenant env cx op t w = (case idle_tenant w t of Inl e \<Rightarrow> Inl e
   | Inr r \<Rightarrow> if st_status r = TenantSuspended then Inl (SlErr ''ALREADY_SUSPENDED'' 409)
     else Inr (begin_op env op t SuspendOp SlQuiescing None w, start_thread (job_for cx op [] [] r) run_suspend None))"

definition last_suspend_snapshot :: "sl_world \<Rightarrow> string \<Rightarrow> quiesce_snapshot option" where
  "last_suspend_snapshot w t = Option.bind
     (latest sop_created (filter (\<lambda>r. sop_tenant r = t \<and> sop_type r = SuspendOp) (sw_operations w))) sop_quiesce"

definition resume_tenant :: "sl_env \<Rightarrow> service_ctx \<Rightarrow> string \<Rightarrow> string \<Rightarrow> sl_world \<Rightarrow> sl_error + (sl_world \<times> sl_thread)" where
  "resume_tenant env cx op t w = (case idle_tenant w t of Inl e \<Rightarrow> Inl e
   | Inr r \<Rightarrow> if st_status r \<noteq> TenantSuspended then Inl (SlErr ''NOT_SUSPENDED'' 409)
     else Inr (begin_op env op t ResumeOp SlUnquiescing None w,
       start_thread (job_for cx op [] [] r) run_resume (last_suspend_snapshot w t)))"

section \<open>Archiving, restoring, rolling back, checking\<close>

definition archive_tenant :: "sl_env \<Rightarrow> service_ctx \<Rightarrow> string \<Rightarrow> string \<Rightarrow> string \<Rightarrow> nat option \<Rightarrow> sl_world
    \<Rightarrow> sl_error + (sl_world \<times> sl_thread)" where
  "archive_tenant env cx op snap t retention w = (case idle_tenant w t of Inl e \<Rightarrow> Inl e
   | Inr r \<Rightarrow> if st_status r = TenantArchived then Inl (SlErr ''ALREADY_ARCHIVED'' 409)
     else let days = (case retention of None \<Rightarrow> 90 | Some d \<Rightarrow> d)
       in case insert_snapshot (new_snapshot env cx t snap PreArchive (Some (se_now env + int days * day_ms))) w of Inl e \<Rightarrow> Inl e
          | Inr w' \<Rightarrow> Inr (begin_op env op t ArchiveOp SlQuiescing (Some snap) w',
              start_thread (job_for cx op snap (reserve_path t snap) r) run_archive None))"

definition restore_archived_tenant :: "sl_env \<Rightarrow> service_ctx \<Rightarrow> string \<Rightarrow> string \<Rightarrow> nat option \<Rightarrow> sl_world
    \<Rightarrow> sl_error + (sl_world \<times> sl_thread)" where
  "restore_archived_tenant env cx op t new_gi w = (case idle_tenant w t of Inl e \<Rightarrow> Inl e
   | Inr r \<Rightarrow> if st_status r \<noteq> TenantArchived then Inl (SlErr ''NOT_ARCHIVED'' 409)
     else (case latest sn_created (filter (\<lambda>s. sn_tenant s = t \<and> sn_kind s = PreArchive \<and> sn_status s = Ready) (sw_snapshots w)) of
         None \<Rightarrow> Inl (SlErr ''NO_ARCHIVE_SNAPSHOT'' 404)
       | Some s \<Rightarrow> let gi = (case new_gi of Some g \<Rightarrow> g | None \<Rightarrow> nat (get_plan_storage_gi w (st_plan r)))
          in Inr (begin_op env op t RestoreOp SlReplacing (Some (sn_id s)) w,
               start_thread (job_for cx op (sn_id s) (sn_path s) r) (run_restore_archive gi) None)))"

definition rollback_to_snapshot :: "sl_env \<Rightarrow> service_ctx \<Rightarrow> string \<Rightarrow> string \<Rightarrow> string \<Rightarrow> sl_world
    \<Rightarrow> sl_error + (sl_world \<times> sl_thread)" where
  "rollback_to_snapshot env cx op t snap w = (case idle_tenant w t of Inl e \<Rightarrow> Inl e
   | Inr r \<Rightarrow> (case first (\<lambda>s. sn_id s = snap \<and> sn_tenant s = t \<and> sn_status s = Ready) (sw_snapshots w) of
         None \<Rightarrow> Inl (SlErr ''SNAPSHOT_NOT_FOUND'' 404)
       | Some s \<Rightarrow> Inr (begin_op env op t RestoreOp SlRestoring (Some (sn_id s)) w,
           start_thread (job_for cx op (sn_id s) (sn_path s) r) run_rollback_to_snapshot None)))"

definition start_fsck :: "sl_env \<Rightarrow> service_ctx \<Rightarrow> string \<Rightarrow> string \<Rightarrow> sl_world \<Rightarrow> sl_error + (sl_world \<times> sl_thread)" where
  "start_fsck env cx op t w = (case idle_tenant w t of Inl e \<Rightarrow> Inl e
   | Inr r \<Rightarrow> Inr (begin_op env op t FsckOp SlQuiescing None w, start_thread (job_for cx op [] [] r) run_fsck None))"

section \<open>Recovery by an operator\<close>

definition clear_failed_storage_state :: "string \<Rightarrow> sl_world \<Rightarrow> sl_error + sl_world" where
  "clear_failed_storage_state t w = (case first (\<lambda>r. st_id r = t) (sw_tenants w) of
       None \<Rightarrow> Inl (SlErr ''CLIENT_NOT_FOUND'' 404)
     | Some r \<Rightarrow> if st_state r \<noteq> SlFailed then Inl (SlErr ''NOT_IN_FAILED_STATE'' 409)
         else Inr (mark_tenant_state t SlIdle None w))"

text \<open>The jobs that it deletes are those of the cluster; the orchestrator that waits for one of them goes on.\<close>

definition cancel_storage_operation :: "sl_env \<Rightarrow> string \<Rightarrow> sl_world \<Rightarrow> sl_error + sl_world" where
  "cancel_storage_operation env t w = (case first (\<lambda>r. st_id r = t) (sw_tenants w) of
       None \<Rightarrow> Inl (SlErr ''CLIENT_NOT_FOUND'' 404)
     | Some r \<Rightarrow> if st_state r = SlIdle then Inr w
         else Inr (mark_tenant_state t SlIdle None (case st_active_op r of None \<Rightarrow> w
           | Some op \<Rightarrow> update_op op (\<lambda>p. p\<lparr>sop_state := SlFailed, sop_completed := Some (se_now env),
                                           sop_error := Some ''CANCELLED''\<rparr>) w)))"

end
