(* ===== verification/StorageTenant.thy ===== *)
theory StorageTenant
  imports StorageOps
begin

text \<open>
  Who starts storage operations besides the administrator: the patch of a tenant (\<open>tenants/service.ts\<close>, \<open>updateTenant\<close>,
  as far as it concerns status, plan and storage), the deletion of a tenant (\<open>deleteTenant\<close>, \<open>applyDeleted\<close> in
  \<open>tenant-lifecycle/cascades.ts\<close>) and the periodic job \<open>runLifecycle\<close> (\<open>storage-lifecycle/scheduler.ts\<close>).
\<close>

section \<open>The patch of a tenant\<close>

text \<open>\<open>pt_override\<close>: absent, null, or hundredths of a GiB. \<open>pt_expiry\<close>: absent, null, or a time.\<close>

record tenant_patch =
  pt_status :: "tenant_status option"
  pt_plan :: "string option"
  pt_override :: "int option option"
  pt_expiry :: "int option option"
  pt_confirm_shrink :: bool
  pt_retention :: "nat option"

definition assert_not_system :: "sl_tenant \<Rightarrow> sl_error option" where
  "assert_not_system r = (if st_system r then Some (SlErr ''SYSTEM_TENANT_PROTECTED'' 409) else None)"

definition system_checks :: "sl_tenant \<Rightarrow> tenant_patch \<Rightarrow> sl_error option" where
  "system_checks r p = (if \<not> st_system r then None
     else if pt_status p \<noteq> None \<and> pt_status p \<noteq> Some TenantActive then assert_not_system r
     else if pt_expiry p \<noteq> None \<and> pt_expiry p \<noteq> Some None then assert_not_system r else None)"

text \<open>\<open>Math.round(gi * 1024)\<close> for hundredths of a GiB. The limit of the plan is not rounded here.\<close>

definition to_mib :: "int \<Rightarrow> int" where
  "to_mib h = (h * 2048 + 100) div 200"

definition plan_storage :: "sl_world \<Rightarrow> string \<Rightarrow> int" where
  "plan_storage w p = (case first (\<lambda>r. hp_id r = p) (sw_plans w) of None \<Rightarrow> 1000 | Some r \<Rightarrow> hp_storage r)"

definition allowed_mib :: "sl_world \<Rightarrow> int option \<Rightarrow> string \<Rightarrow> int" where
  "allowed_mib w override plan = to_mib (case override of Some h \<Rightarrow> h | None \<Rightarrow> plan_storage w plan)"

definition target_mib :: "sl_world \<Rightarrow> sl_tenant \<Rightarrow> tenant_patch \<Rightarrow> int" where
  "target_mib w r p = (case pt_override p of
       Some None \<Rightarrow> allowed_mib w None (case pt_plan p of Some q \<Rightarrow> q | None \<Rightarrow> st_plan r)
     | Some (Some h) \<Rightarrow> to_mib h
     | None \<Rightarrow> allowed_mib w (st_override r) (case pt_plan p of Some q \<Rightarrow> q | None \<Rightarrow> st_plan r))"

datatype pending_resize = NoResize | GrowTo nat | ShrinkTo nat

text \<open>The storage policy of the patch. The dry run before the write refuses an unsafe shrink; when it cannot run (other
  than by an \<open>ApiError\<close>) the patch goes on.\<close>

definition decide_resize :: "bool \<Rightarrow> bool \<Rightarrow> nat option \<Rightarrow> sl_world \<Rightarrow> sl_tenant \<Rightarrow> tenant_patch \<Rightarrow> sl_error + pending_resize" where
  "decide_resize dry_runs readable du w r p =
     (if pt_override p = None \<and> (pt_plan p = None \<or> pt_plan p = Some (st_plan r)) then Inr NoResize
      else let current = allowed_mib w (st_override r) (st_plan r); target = target_mib w r p
       in if target < current then
            if \<not> pt_confirm_shrink p then Inl (SlErr ''STORAGE_RESIZE_REQUIRED'' 409)
            else if \<not> dry_runs then Inr (ShrinkTo (nat target))
            else (case resize_dry_run_mib readable du (st_id r) (nat target) w of Inl e \<Rightarrow> Inl e
              | Inr dry \<Rightarrow> if dr_will_fit dry then Inr (ShrinkTo (nat target)) else Inl (SlErr ''RESIZE_UNSAFE'' 400))
          else if target > current then Inr (GrowTo (nat target)) else Inr NoResize)"

definition archived_exit :: "sl_tenant \<Rightarrow> tenant_patch \<Rightarrow> sl_error option" where
  "archived_exit r p = (case pt_status p of None \<Rightarrow> None
     | Some s \<Rightarrow> if st_status r = TenantArchived \<and> s \<noteq> TenantArchived \<and> s \<noteq> TenantActive
         then Some (SlErr ''INVALID_LIFECYCLE_TRANSITION'' 409) else None)"

definition status_owned_by_lifecycle :: "sl_tenant \<Rightarrow> tenant_patch \<Rightarrow> bool" where
  "status_owned_by_lifecycle r p = (pt_status p = Some TenantArchived \<and> st_status r \<noteq> TenantArchived \<or>
     pt_status p = Some TenantActive \<and> st_status r = TenantArchived \<or>
     pt_status p = Some TenantSuspended \<and> st_status r \<noteq> TenantSuspended \<or>
     pt_status p = Some TenantActive \<and> st_status r = TenantSuspended)"

text \<open>The columns written before anything is dispatched.\<close>

definition patch_values :: "tenant_patch \<Rightarrow> sl_tenant \<Rightarrow> sl_tenant" where
  "patch_values p r = r\<lparr>st_status := (case pt_status p of
         Some s \<Rightarrow> if status_owned_by_lifecycle r p then st_status r else s | None \<Rightarrow> st_status r),
     st_plan := (case pt_plan p of Some q \<Rightarrow> q | None \<Rightarrow> st_plan r),
     st_override := (case pt_override p of Some h \<Rightarrow> h | None \<Rightarrow> st_override r)\<rparr>"

text \<open>The dispatch of a status. Suspending and resuming are awaited: their threads run here, with their faults. An archive
  or a restore is left running.\<close>

definition await :: "sl_env \<Rightarrow> fault list \<Rightarrow> string \<Rightarrow> sl_error + (sl_world \<times> sl_thread) \<Rightarrow> sl_world \<Rightarrow> sl_error option \<times> sl_world" where
  "await env fs code x w = (case x of
       Inl e \<Rightarrow> (if e \<in> {SlErr ''ALREADY_SUSPENDED'' 409, SlErr ''NOT_SUSPENDED'' 409} then None else Some e, w)
     | Inr (w1, th) \<Rightarrow> (case run_thread env fs (th, w1) of (th', w') \<Rightarrow>
         (if th_failed th' then Some (SlErr code 502) else None, w')))"

definition dispatch_status :: "sl_env \<Rightarrow> store_settings \<Rightarrow> nat \<Rightarrow> fault list \<Rightarrow> string \<Rightarrow> string \<Rightarrow> sl_tenant \<Rightarrow> tenant_patch \<Rightarrow> sl_world
    \<Rightarrow> (sl_error option \<times> sl_world) \<times> sl_thread list" where
  "dispatch_status env ss retention fs op snap r p w = (case pt_status p of
       Some TenantArchived \<Rightarrow> if st_status r = TenantArchived then ((None, w), [])
         else (case resolve_snapshot_store_for_class ss ''tenant_snapshot'' of Inl e \<Rightarrow> ((Some e, w), [])
           | Inr cx \<Rightarrow> (case archive_tenant env cx op snap (st_id r)
                 (Some (case pt_retention p of Some d \<Rightarrow> d | None \<Rightarrow> retention)) w of
               Inl e \<Rightarrow> ((Some e, w), []) | Inr (w', th) \<Rightarrow> ((None, w'), [th])))
     | Some TenantActive \<Rightarrow> if st_status r = TenantArchived
         then (case restore_archived_tenant env legacy_ctx op (st_id r) None w of
             Inl e \<Rightarrow> ((Some e, w), []) | Inr (w', th) \<Rightarrow> ((None, w'), [th]))
         else (await env fs ''RESUME_FAILED'' (resume_tenant env legacy_ctx op (st_id r) w) w, [])
     | Some TenantSuspended \<Rightarrow> (await env fs ''SUSPEND_FAILED'' (suspend_tenant env legacy_ctx op (st_id r) w) w, [])
     | _ \<Rightarrow> ((None, w), []))"

text \<open>The resize at the end runs with the legacy context, whatever it needs. Its errors are only logged, but for
  RESIZE_UNSAFE of a shrink.\<close>

definition dispatch_resize :: "sl_env \<Rightarrow> bool \<Rightarrow> nat option \<Rightarrow> string \<Rightarrow> string \<Rightarrow> string \<Rightarrow> pending_resize \<Rightarrow> sl_world
    \<Rightarrow> (sl_error option \<times> sl_world) \<times> sl_thread list" where
  "dispatch_resize env readable du op snap t pr w = (case pr of NoResize \<Rightarrow> ((None, w), [])
     | GrowTo m \<Rightarrow> (case resize_tenant env legacy_ctx readable du op snap t (Some m) None w of
         Inl e \<Rightarrow> ((None, w), []) | Inr (w', ths) \<Rightarrow> ((None, w'), ths))
     | ShrinkTo m \<Rightarrow> (case resize_tenant env legacy_ctx readable du op snap t (Some m) None w of
         Inl e \<Rightarrow> (if e = SlErr ''RESIZE_UNSAFE'' 400 then (Some e, w) else (None, w), []) | Inr (w', ths) \<Rightarrow> ((None, w'), ths)))"

text \<open>What the request finds outside: the settings of the stores, whether the dry run can run, whether the claim can be
  read and what \<open>du\<close> says, the faults of an awaited orchestrator, and four fresh ids.\<close>

record patch_env =
  pe_env :: sl_env
  pe_stores :: store_settings
  pe_retention :: nat
  pe_dry_runs :: bool
  pe_readable :: bool
  pe_du :: "nat option"
  pe_faults :: "fault list"
  pe_ids :: "string \<times> string \<times> string \<times> string"

definition update_tenant :: "patch_env \<Rightarrow> string \<Rightarrow> tenant_patch \<Rightarrow> sl_world \<Rightarrow> (sl_error option \<times> sl_world) \<times> sl_thread list" where
  "update_tenant pe t p w = (case must_get_tenant w t of Inl e \<Rightarrow> ((Some e, w), [])
   | Inr r \<Rightarrow> (case system_checks r p of Some e \<Rightarrow> ((Some e, w), [])
   | None \<Rightarrow> (case decide_resize (pe_dry_runs pe) (pe_readable pe) (pe_du pe) w r p of Inl e \<Rightarrow> ((Some e, w), [])
   | Inr pr \<Rightarrow> (case archived_exit r p of Some e \<Rightarrow> ((Some e, w), [])
   | None \<Rightarrow> (case pe_ids pe of (op1, snap1, op2, snap2) \<Rightarrow>
       let w1 = w\<lparr>sw_tenants := set_where (\<lambda>x. st_id x = t) (patch_values p) (sw_tenants w)\<rparr>
       in case dispatch_status (pe_env pe) (pe_stores pe) (pe_retention pe) (pe_faults pe) op1 snap1 r p w1 of
            ((Some e, w2), ths) \<Rightarrow> ((Some e, w2), ths)
          | ((None, w2), ths) \<Rightarrow> (case dispatch_resize (pe_env pe) (pe_readable pe) (pe_du pe) op2 snap2 t pr w2 of
              (x, ths') \<Rightarrow> (x, ths @ ths')))))))"

section \<open>Deleting a tenant\<close>

text \<open>The row of a tenant goes, and by the foreign keys its snapshots and operations. The namespace goes unless the call
  fails, which is only logged. The archives stay where they are.\<close>

definition empty_namespace :: tenant_namespace where
  "empty_namespace = \<lparr>ns_deployments = [], ns_cron_jobs = [], ns_claim = None\<rparr>"

definition apply_deleted :: "fault \<Rightarrow> string \<Rightarrow> string \<Rightarrow> sl_world \<Rightarrow> sl_world" where
  "apply_deleted f t k w = (let w1 = (if throws f then w else update_namespace k (\<lambda>_. empty_namespace) w)
     in w1\<lparr>sw_tenants := filter (\<lambda>r. st_id r \<noteq> t) (sw_tenants w1),
           sw_snapshots := filter (\<lambda>s. sn_tenant s \<noteq> t) (sw_snapshots w1),
           sw_operations := filter (\<lambda>r. sop_tenant r \<noteq> t) (sw_operations w1)\<rparr>)"

definition delete_tenant :: "fault \<Rightarrow> string \<Rightarrow> sl_world \<Rightarrow> sl_error + sl_world" where
  "delete_tenant f t w = (case must_get_tenant w t of Inl e \<Rightarrow> Inl e
   | Inr r \<Rightarrow> (case assert_not_system r of Some e \<Rightarrow> Inl e
     | None \<Rightarrow> let w1 = apply_deleted f t (st_namespace r) w
        in Inr (fold (\<lambda>s v. v\<lparr>sw_archives := (sw_archives v)((LegacyStore, sn_path s) := None)\<rparr>)
             (filter (\<lambda>s. sn_tenant s = t) (sw_snapshots w1)) w1)))"

section \<open>The periodic job\<close>

record lifecycle_settings =
  ls_auto_archive :: bool
  ls_archive_after :: nat
  ls_auto_delete :: bool
  ls_delete_after :: nat

definition older_than :: "sl_env \<Rightarrow> nat \<Rightarrow> int option \<Rightarrow> bool" where
  "older_than env days x = (case x of None \<Rightarrow> False | Some y \<Rightarrow> y < se_now env - int days * day_ms)"

definition archive_candidates :: "sl_env \<Rightarrow> lifecycle_settings \<Rightarrow> sl_world \<Rightarrow> sl_tenant list" where
  "archive_candidates env ls w = filter (\<lambda>r. st_status r = TenantSuspended \<and> \<not> st_system r \<and>
     older_than env (ls_archive_after ls) (st_suspended_at r)) (sw_tenants w)"

definition delete_candidates :: "sl_env \<Rightarrow> lifecycle_settings \<Rightarrow> sl_world \<Rightarrow> sl_tenant list" where
  "delete_candidates env ls w = filter (\<lambda>r. st_status r = TenantArchived \<and> \<not> st_system r \<and>
     older_than env (ls_delete_after ls) (st_archived_at r)) (sw_tenants w)"

text \<open>Each candidate is archived with ids of its own; a tenant that refuses (an operation is in progress) is skipped.\<close>

definition auto_archive_one :: "sl_env \<Rightarrow> service_ctx \<Rightarrow> nat \<Rightarrow> (string \<Rightarrow> string \<times> string) \<Rightarrow> sl_tenant
    \<Rightarrow> sl_world \<times> sl_thread list \<Rightarrow> sl_world \<times> sl_thread list" where
  "auto_archive_one env cx days ids r s = (case ids (st_id r) of (op, snap) \<Rightarrow>
     (case archive_tenant env cx op snap (st_id r) (Some days) (fst s) of Inl e \<Rightarrow> s | Inr (w', th) \<Rightarrow> (w', snd s @ [th])))"

definition auto_archive :: "sl_env \<Rightarrow> store_settings \<Rightarrow> lifecycle_settings \<Rightarrow> (string \<Rightarrow> string \<times> string) \<Rightarrow> sl_world
    \<Rightarrow> sl_world \<times> sl_thread list" where
  "auto_archive env ss ls ids w = (if \<not> ls_auto_archive ls then (w, [])
     else case resolve_snapshot_store_for_class ss ''tenant_snapshot'' of Inl e \<Rightarrow> (w, [])
       | Inr cx \<Rightarrow> fold (auto_archive_one env cx (ls_delete_after ls) ids) (archive_candidates env ls w) (w, []))"

definition auto_delete :: "fault \<Rightarrow> sl_env \<Rightarrow> lifecycle_settings \<Rightarrow> sl_world \<Rightarrow> sl_world" where
  "auto_delete f env ls w = (if \<not> ls_auto_delete ls then w
     else fold (\<lambda>r. apply_deleted f (st_id r) (st_namespace r)) (delete_candidates env ls w) w)"

definition run_lifecycle :: "fault \<Rightarrow> sl_env \<Rightarrow> store_settings \<Rightarrow> lifecycle_settings \<Rightarrow> (string \<Rightarrow> string \<times> string) \<Rightarrow> sl_world
    \<Rightarrow> sl_world \<times> sl_thread list" where
  "run_lifecycle f env ss ls ids w = (case auto_archive env ss ls ids w of (w1, ths) \<Rightarrow> (auto_delete f env ls w1, ths))"

end
