(* ===== verification/StorageSafety.thy ===== *)
theory StorageSafety
  imports StorageTenant
begin

text \<open>
  When does an orchestrator keep the tenant's data through every failure and every crash? A small static check of its
  list of calls, and the proof that it is sound: whatever the faults, and wherever the process dies, the data is on the
  volume, or in an archive with a row that is ready and leads to it.

  The check keeps three flags: the archive holds the data; the row says so; the volume may have been given up.
\<close>

section \<open>The check\<close>

record data_flags =
  fl_taken :: bool
  fl_ready :: bool
  fl_gone :: bool

text \<open>\<open>None\<close>: the call must not happen here.\<close>

fun flow :: "sl_call \<Rightarrow> data_flags \<Rightarrow> data_flags option" where
  "flow CTakeSnapshot k = (if fl_taken k \<or> fl_ready k \<or> fl_gone k then None else Some (k\<lparr>fl_taken := True\<rparr>))"
| "flow CSnapReady k = (if fl_taken k then Some (k\<lparr>fl_ready := True\<rparr>) else None)"
| "flow CSnapFailed k = (if fl_gone k then None else Some (k\<lparr>fl_ready := False\<rparr>))"
| "flow CDeleteClaim k = (if fl_ready k then Some (k\<lparr>fl_gone := True\<rparr>) else None)"
| "flow CRestore k = (if fl_ready k then Some (k\<lparr>fl_gone := True\<rparr>) else None)"
| "flow c k = Some k"

text \<open>What is left when the call throws.\<close>

fun flow_fail :: "sl_call \<Rightarrow> data_flags \<Rightarrow> data_flags" where
  "flow_fail CDeleteClaim k = k\<lparr>fl_gone := True\<rparr>"
| "flow_fail CRestore k = k\<lparr>fl_gone := True\<rparr>"
| "flow_fail CSnapFailed k = k\<lparr>fl_ready := False\<rparr>"
| "flow_fail c k = k"

text \<open>The check of a list of steps for any such tables. \<open>q\<close> is asked wherever the steps can stop with an error.\<close>

fun check_steps :: "(sl_call \<Rightarrow> 'k \<Rightarrow> 'k option) \<Rightarrow> (sl_call \<Rightarrow> 'k \<Rightarrow> 'k) \<Rightarrow> ('k \<Rightarrow> bool) \<Rightarrow> 'k \<Rightarrow> sl_step list \<Rightarrow> bool" where
  "check_steps go err q k [] = True"
| "check_steps go err q k (Must c # ss) = (case go c k of None \<Rightarrow> False | Some k' \<Rightarrow> q (err c k) \<and> check_steps go err q k' ss)"
| "check_steps go err q k (Try c # ss) = (go c k = Some k \<and> err c k = k \<and> check_steps go err q k ss)"

abbreviation safe_steps :: "(data_flags \<Rightarrow> bool) \<Rightarrow> data_flags \<Rightarrow> sl_step list \<Rightarrow> bool" where
  "safe_steps \<equiv> check_steps flow flow_fail"

definition crash_safe_from :: "data_flags \<Rightarrow> sl_step list \<times> sl_step list \<Rightarrow> bool" where
  "crash_safe_from k p = safe_steps (\<lambda>k. safe_steps (\<lambda>_. True) k (snd p)) k (fst p)"

abbreviation on_volume :: data_flags where
  "on_volume \<equiv> \<lparr>fl_taken = False, fl_ready = False, fl_gone = False\<rparr>"

abbreviation in_archive :: data_flags where
  "in_archive \<equiv> \<lparr>fl_taken = True, fl_ready = True, fl_gone = True\<rparr>"

section \<open>What it means\<close>

definition volume_files :: "sl_job \<Rightarrow> sl_world \<Rightarrow> files option" where
  "volume_files j w = map_option pv_files (ns_claim (sw_namespaces w (jb_ns j)))"

definition job_row :: "sl_job \<Rightarrow> sl_world \<Rightarrow> snapshot_row option" where
  "job_row j w = first (\<lambda>s. sn_id s = jb_snap j) (sw_snapshots w)"

definition job_archive :: "sl_job \<Rightarrow> sl_world \<Rightarrow> files option" where
  "job_archive j w = sw_archives w (cx_store (jb_ctx j), jb_path j)"

text \<open>The row of the job leads to the store and the path the job writes to.\<close>

definition row_leads :: "sl_job \<Rightarrow> sl_world \<Rightarrow> bool" where
  "row_leads j w = (\<exists>s. job_row j w = Some s \<and> sn_tenant s = jb_tenant j \<and> sn_path s = jb_path j \<and>
     (\<forall>cx. resolve_restore_store w cx s = Some (cx_store (jb_ctx j))))"

definition row_ready :: "sl_job \<Rightarrow> sl_world \<Rightarrow> bool" where
  "row_ready j w = (\<exists>s. job_row j w = Some s \<and> sn_status s = Ready)"

definition holds :: "sl_job \<Rightarrow> files \<Rightarrow> data_flags \<Rightarrow> sl_world \<Rightarrow> bool" where
  "holds j D k w = (row_leads j w \<and> (fl_taken k \<longrightarrow> job_archive j w = Some D) \<and>
     (fl_ready k \<longrightarrow> fl_taken k \<and> row_ready j w) \<and> (\<not> fl_gone k \<longrightarrow> volume_files j w = Some D) \<and> (fl_gone k \<longrightarrow> fl_ready k))"

text \<open>The data can be had: it is on the volume, or a ready row of the tenant leads to it.\<close>

definition recoverable :: "sl_job \<Rightarrow> files \<Rightarrow> sl_world \<Rightarrow> bool" where
  "recoverable j D w = (volume_files j w = Some D \<or> row_leads j w \<and> row_ready j w \<and> job_archive j w = Some D)"

lemma holds_recoverable: "holds j D k w \<Longrightarrow> recoverable j D w"
  by (auto simp: holds_def recoverable_def)

section \<open>Calls that leave the data alone\<close>

named_theorems storage_frame "what a call of the storage code does not touch"

lemma db_call_fst: "fst (db_call f g w) \<in> {g w, w}"
  by (cases f) (auto simp: db_call_def)

lemma db_call_snd: "snd (db_call f g w) \<Longrightarrow> db_call f g w = (g w, True)"
  by (cases f) (auto simp: db_call_def)

definition view :: "sl_job \<Rightarrow> sl_world \<Rightarrow> files option \<times> (snapshot_store \<times> string \<Rightarrow> files option) \<times> snapshot_row list \<times> string list" where
  "view j w = (volume_files j w, sw_archives w, sw_snapshots w, sw_targets w)"

lemma holds_view: "view j w' = view j w \<Longrightarrow> holds j D k w' = holds j D k w"
proof -
  assume v: "view j w' = view j w"
  then have "resolve_restore_store w' = resolve_restore_store w" by (intro ext) (auto simp: view_def resolve_restore_store_def split: option.split)
  with v show ?thesis by (simp add: view_def holds_def row_leads_def row_ready_def job_row_def job_archive_def)
qed

lemma view_simps [storage_frame, simp]:
  "view j (update_op i u w) = view j w" "view j (mark_tenant_state t s x w) = view j w"
  "view j (sync_tenant_state i s w) = view j w" "view j (persist_size t m w) = view j w"
  "view j (complete_op env j' w) = view j w" "view j (fail_op env j' e w) = view j w"
  "view j (sw_tenants_update tt w) = view j w"
  by (simp_all add: view_def volume_files_def update_op_def mark_tenant_state_def sync_tenant_state_def persist_size_def
      complete_op_def fail_op_def)

lemma view_namespace [storage_frame]:
  "map_option pv_files (ns_claim (g (sw_namespaces w n))) = map_option pv_files (ns_claim (sw_namespaces w n)) \<Longrightarrow>
   view j (update_namespace n g w) = view j w"
  by (simp add: view_def volume_files_def update_namespace_def)

lemma claim_simps [simp]:
  "ns_claim (quiesced_by f n) = ns_claim n" "ns_claim (unquiesce f q n) = ns_claim n"
  "ns_claim (fst (quiesce f n)) = ns_claim n" "ns_claim (fst (delete_all_workloads f n)) = ns_claim n"
  "ns_claim (ensure_volume_reattached f n) = ns_claim n" "ns_claim (scale_custom_deployments f r n) = ns_claim n"
  "ns_claim (set_claim c n) = c"
  by (auto simp: quiesced_by_def unquiesce_def quiesce_def delete_all_workloads_def ensure_volume_reattached_def
      scale_custom_deployments_def set_claim_def Let_def split: prod.split fault.split)

lemma view_cascade [storage_frame, simp]: "view j (cascade f now t n s w) = view j w"
  by (auto simp: cascade_def Let_def view_namespace split: fault.split)

lemma view_ns_call [storage_frame]:
  "map_option pv_files (ns_claim (fst (g (sw_namespaces w n)))) = map_option pv_files (ns_claim (sw_namespaces w n)) \<Longrightarrow>
   view j (fst (ns_call n g w)) = view j w"
  by (simp add: ns_call_def split_def view_namespace)

lemma files_patch: "map_option pv_files (ns_claim (fst (patch_claim f m n))) = map_option pv_files (ns_claim n)"
  by (cases f) (auto simp: patch_claim_def db_call_def split: option.split)

lemma files_wait: "map_option pv_files (ns_claim (fst (wait_for_pvc_capacity f b n))) = map_option pv_files (ns_claim n)"
  by (auto simp: wait_for_pvc_capacity_def split: option.split)

lemma files_apply: "ns_claim n \<noteq> None \<Longrightarrow> fst (apply_pvc_mib f m n) = n"
  by (cases f) (auto simp: apply_pvc_mib_def db_call_def)

lemmas files_frame = files_patch files_wait

text \<open>Every call but those the check looks at, and the creation of a claim, leaves the view as it is.\<close>

definition plain_call :: "sl_call \<Rightarrow> bool" where
  "plain_call c = (case c of CTakeSnapshot \<Rightarrow> False | CSnapReady \<Rightarrow> False | CSnapFailed \<Rightarrow> False | CDeleteClaim \<Rightarrow> False
     | CRestore \<Rightarrow> False | CApplyClaim m \<Rightarrow> False | _ \<Rightarrow> True)"

lemma view_db_call: "(\<And>w. view j (g w) = view j w) \<Longrightarrow> view j (fst (db_call f g w)) = view j w"
  using db_call_fst [of f g w] by auto

lemma plain_world_call: "plain_call c \<Longrightarrow> view j (fst (world_call env j' l c f w)) = view j w"
  by (cases c) (auto simp: plain_call_def view_namespace files_frame complete_op_def fail_op_def
      intro!: view_db_call view_ns_call split: option.split)

lemma plain_exec_call: "plain_call c \<Longrightarrow> view j (snd (fst (exec_call env j' c f (l, w)))) = view j w"
  using plain_world_call [of c j env j' l f w]
  by (cases c) (auto simp: split_def plain_call_def view_namespace quiesce_def split: option.split)

section \<open>Soundness of the check\<close>

lemma resolve_targets: "sw_targets w' = sw_targets w \<Longrightarrow> resolve_restore_store w' cx s = resolve_restore_store w cx s"
  by (auto simp: resolve_restore_store_def split: option.split)

lemma leads_frame:
  "sw_snapshots w' = sw_snapshots w \<Longrightarrow> sw_targets w' = sw_targets w \<Longrightarrow> row_leads j w' = row_leads j w \<and> row_ready j w' = row_ready j w"
  using resolve_targets [of w' w] by (simp add: row_leads_def row_ready_def job_row_def)

lemma job_row_update:
  "(\<And>r. sn_id (u r) = sn_id r) \<Longrightarrow> job_row j (update_snapshot (jb_snap j) u w) = map_option u (job_row j w)"
  by (simp add: job_row_def update_snapshot_def first_set_where) (cases "first (\<lambda>s. sn_id s = jb_snap j) (sw_snapshots w)"; auto dest: first_SomeD)

lemma leads_update:
  assumes "\<And>r. sn_id (u r) = sn_id r \<and> sn_tenant (u r) = sn_tenant r \<and> sn_path (u r) = sn_path r \<and> sn_target (u r) = sn_target r \<and>
     sn_class (u r) = sn_class r \<and> sn_subsystem (u r) = sn_subsystem r"
  shows "row_leads j (update_snapshot (jb_snap j) u w) = row_leads j w"
proof -
  have "resolve_restore_store (update_snapshot (jb_snap j) u w) cx (u r) = resolve_restore_store w cx r" for cx r
    using assms by (auto simp: resolve_restore_store_def update_snapshot_def split: option.split)
  then show ?thesis unfolding row_leads_def using assms by (auto simp: job_row_update)
qed

lemma ready_update:
  assumes "\<And>r. sn_id (u r) = sn_id r" and "\<And>r. sn_status (u r) = s" and "row_leads j w"
  shows "row_ready j (update_snapshot (jb_snap j) u w) \<longleftrightarrow> s = Ready"
  using assms unfolding row_ready_def row_leads_def by (auto simp: job_row_update)

lemma update_snapshot_simps [simp]:
  "volume_files j (update_snapshot i u w) = volume_files j w" "job_archive j (update_snapshot i u w) = job_archive j w"
  by (simp_all add: volume_files_def job_archive_def update_snapshot_def)

lemma namespace_simps [simp]:
  "sw_snapshots (update_namespace n g w) = sw_snapshots w" "sw_targets (update_namespace n g w) = sw_targets w"
  "sw_archives (update_namespace n g w) = sw_archives w" "sw_namespaces (update_namespace n g w) n = g (sw_namespaces w n)"
  by (simp_all add: update_namespace_def)

text \<open>A write to the namespace keeps what the flags say when the volume was given up, or keeps its files.\<close>

lemma holds_namespace:
  assumes "holds j D k w" and "fl_gone k \<or> map_option pv_files (ns_claim (g (sw_namespaces w (jb_ns j)))) = volume_files j w"
  shows "holds j D k (update_namespace (jb_ns j) g w)"
  using assms leads_frame [of "update_namespace (jb_ns j) g w" w j]
  by (auto simp: holds_def volume_files_def job_archive_def)

lemma take_sound:
  assumes "holds j D on_volume w" and "snapshot_tenant_pvc f (cx_store (jb_ctx j)) (jb_path j) (jb_ns j) w = (w', ok)"
  shows "holds j D (if ok then on_volume\<lparr>fl_taken := True\<rparr> else on_volume) w'"
proof -
  obtain c where c: "ns_claim (sw_namespaces w (jb_ns j)) = Some c" "pv_files c = D"
    using assms(1) by (auto simp: holds_def volume_files_def)
  have v: "\<exists>a. w' = w\<lparr>sw_archives := a\<rparr> \<and> (ok \<longrightarrow> a (cx_store (jb_ctx j), jb_path j) = Some D)"
    using assms(2) c by (cases f) (auto simp: snapshot_tenant_pvc_def intro: exI [of _ "sw_archives w"])
  then obtain a where a: "w' = w\<lparr>sw_archives := a\<rparr>" "ok \<longrightarrow> a (cx_store (jb_ctx j), jb_path j) = Some D" by blast
  then show ?thesis using assms(1) leads_frame [of w' w j] by (simp add: holds_def volume_files_def job_archive_def)
qed

lemma db_call_either: "db_call f g w = (w', ok) \<Longrightarrow> w' = g w \<or> \<not> ok \<and> w' = w"
  by (cases f) (auto simp: db_call_def)

lemma snap_calls_sound:
  assumes "holds j D k w" and "c \<in> {CSnapReady, CSnapFailed}" and "flow c k = Some k'" and "world_call env j l c f w = (w', ok)"
  shows "holds j D (if ok then k' else flow_fail c k) w'"
proof -
  have *: "row_leads j w" using assms(1) by (simp add: holds_def)
  consider "c = CSnapReady" | "c = CSnapFailed" using assms(2) by blast
  then show ?thesis
  proof cases
    case 1
    let ?u = "\<lambda>r. r\<lparr>sn_status := Ready, sn_size := lo_size l\<rparr>"
    have "row_leads j (update_snapshot (jb_snap j) ?u w)" "row_ready j (update_snapshot (jb_snap j) ?u w)"
      using * by (simp_all add: leads_update ready_update [where s = Ready])
    then show ?thesis using assms 1 by (auto simp: holds_def dest!: db_call_either split: if_splits)
  next
    case 2
    let ?u = "\<lambda>r. r\<lparr>sn_status := SnapFailed, sn_error := Some (lo_error l)\<rparr>"
    have "row_leads j (update_snapshot (jb_snap j) ?u w)" using * by (simp add: leads_update)
    then show ?thesis using assms 2 by (auto simp: holds_def dest!: db_call_either split: if_splits)
  qed
qed

lemma claim_calls_sound:
  assumes "holds j D k w" and "c \<in> {CDeleteClaim, CRestore, CApplyClaim m}" and "flow c k = Some k'" and "world_call env j l c f w = (w', ok)"
  shows "holds j D (if ok then k' else flow_fail c k) w'"
proof -
  have gone: "holds j D (k\<lparr>fl_gone := True\<rparr>) w" if "fl_ready k" using assms(1) that by (simp add: holds_def)
  consider "c = CDeleteClaim" | "c = CRestore" | "c = CApplyClaim m" using assms(2) by blast
  then show ?thesis
  proof cases
    case 1
    then show ?thesis
      using assms(3,4) gone by (auto simp: ns_call_def split_def intro!: holds_namespace split: if_splits)
  next
    case 2
    then show ?thesis
      using assms(3,4) gone
      by (auto simp: restore_tenant_pvc_def split_def intro!: holds_namespace split: if_splits option.splits)
  next
    case 3
    have "fl_gone k \<or> ns_claim (sw_namespaces w (jb_ns j)) \<noteq> None" using assms(1) by (auto simp: holds_def volume_files_def)
    then have "fl_gone k \<or> fst (apply_pvc_mib f m (sw_namespaces w (jb_ns j))) = sw_namespaces w (jb_ns j)"
      by (auto intro: files_apply)
    then have "holds j D k w'"
      using assms(1,4) 3 by (auto simp: ns_call_def split_def volume_files_def intro!: holds_namespace)
    then show ?thesis using 3 assms(3) by simp
  qed
qed

lemma flow_sound:
  assumes "holds j D k w" and "flow c k = Some k'" and "exec_call env j c f (l, w) = ((l', w'), ok)"
  shows "holds j D (if ok then k' else flow_fail c k) w'"
proof (cases "plain_call c")
  case True
  then have "view j w' = view j w" using plain_exec_call [OF True, of j env j f l w] assms(3) by simp
  then have "holds j D k w'" using holds_view [of j w' w D k] assms(1) by simp
  moreover have "k' = k" "flow_fail c k = k" using True assms(2) by (cases c; simp add: plain_call_def)+
  ultimately show ?thesis by simp
next
  case False
  then consider "c = CTakeSnapshot" | "c \<in> {CSnapReady, CSnapFailed}" | m where "c \<in> {CDeleteClaim, CRestore, CApplyClaim m}"
    by (cases c) (auto simp: plain_call_def)
  then show ?thesis
  proof cases
    case 1
    have k: "k = on_volume" using assms(2) 1 by (cases k) (auto split: if_splits)
    have "snapshot_tenant_pvc f (cx_store (jb_ctx j)) (jb_path j) (jb_ns j) w = (w', ok)"
      using assms(3) 1 by (auto simp: split_def prod_eq_iff)
    from take_sound [OF assms(1) [unfolded k] this] show ?thesis using assms(2) 1 k by (simp split: if_splits)
  next
    case 2
    then show ?thesis using snap_calls_sound [OF assms(1) 2 assms(2), of env l f w' ok] assms(3) by (auto simp: split_def prod_eq_iff)
  next
    case (3 m)
    then show ?thesis using claim_calls_sound [OF assms(1) 3 assms(2), of env l f w' ok] assms(3) by (auto simp: split_def prod_eq_iff)
  qed
qed

section \<open>Checked threads\<close>

text \<open>The invariant of a thread: from where it stands, the rest of its calls passes the check.\<close>

definition thread_checked :: "(sl_call \<Rightarrow> 'k \<Rightarrow> 'k option) \<Rightarrow> (sl_call \<Rightarrow> 'k \<Rightarrow> 'k) \<Rightarrow> sl_job \<Rightarrow> ('k \<Rightarrow> sl_world \<Rightarrow> bool) \<Rightarrow> sl_thread \<times> sl_world \<Rightarrow> bool" where
  "thread_checked go err j at_world s = (th_job (fst s) = j \<and> (\<exists>k. at_world k (snd s) \<and>
     check_steps go err (\<lambda>k. check_steps go err (\<lambda>_. True) k (th_handler (fst s))) k (th_todo (fst s))))"

text \<open>What the check needs of its tables: they say what holds after a call, and after a call that throws.\<close>

locale call_tables =
  fixes j :: sl_job and at_world :: "'k \<Rightarrow> sl_world \<Rightarrow> bool"
    and go :: "sl_call \<Rightarrow> 'k \<Rightarrow> 'k option" and err :: "sl_call \<Rightarrow> 'k \<Rightarrow> 'k"
  assumes call_sound: "at_world k w \<Longrightarrow> go c k = Some k' \<Longrightarrow> exec_call env j c f (l, w) = ((l', w'), ok) \<Longrightarrow>
    at_world (if ok then k' else err c k) w'"
begin

lemma advance_checked:
  assumes "thread_checked go err j at_world s"
  shows "thread_checked go err j at_world (advance env f s)"
proof -
  obtain th w where s: "s = (th, w)" by fastforce
  let ?q = "\<lambda>k. check_steps go err (\<lambda>_. True) k (th_handler th)"
  obtain k where k: "at_world k w" "check_steps go err ?q k (th_todo th)" and j: "th_job th = j"
    using assms s by (auto simp: thread_checked_def)
  show ?thesis
  proof (cases "th_todo th")
    case (Cons x rest)
    obtain c where c: "x = Must c \<or> x = Try c" by (cases x) auto
    obtain l' w' ok where e: "exec_call env j c f (th_locals th, w) = ((l', w'), ok)" by (metis prod.collapse)
    obtain k' where k': "go c k = Some k'" using k(2) Cons c by (auto split: option.splits)
    note h = call_sound [OF k(1) k' e]
    show ?thesis
      using c
    proof
      assume x: "x = Must c"
      have "check_steps go err ?q k' rest" "?q (err c k)" using k(2) Cons x k' by simp_all
      then show ?thesis using h e j Cons x s by (auto simp: thread_checked_def)
    next
      assume x: "x = Try c"
      have "k' = k" "err c k = k" "check_steps go err ?q k rest" using k(2) Cons x k' by simp_all
      then show ?thesis using h e j Cons x s by (auto simp: thread_checked_def)
    qed
  qed (use assms s in simp)
qed

lemma run_thread_checked: "thread_checked go err j at_world s \<Longrightarrow> thread_checked go err j at_world (run_thread env fs s)"
  unfolding run_thread_def by (induction fs arbitrary: s) (simp_all add: advance_checked)

lemma started_checked:
  assumes "check_steps go err (\<lambda>k. check_steps go err (\<lambda>_. True) k (snd p)) k (fst p)" and "at_world k w"
  shows "\<exists>k. at_world k (snd (run_thread env fs (start_thread j p q, w)))"
proof -
  have "thread_checked go err j at_world (start_thread j p q, w)" using assms by (auto simp: thread_checked_def start_thread_def)
  from run_thread_checked [OF this, of env fs] show ?thesis by (auto simp: thread_checked_def)
qed

end

interpretation data: call_tables j "holds j D" flow flow_fail for j D
  by unfold_locales (rule flow_sound)

text \<open>Whatever happens and wherever it stops, an orchestrator that passes the check leaves the data recoverable.\<close>

lemma crash_safe_sound:
  "crash_safe_from k p \<Longrightarrow> holds j D k w \<Longrightarrow> recoverable j D (snd (run_thread env fs (start_thread j p q, w)))"
  using data.started_checked holds_recoverable unfolding crash_safe_from_def by blast

lemma checked_orchestrators:
  "crash_safe_from on_volume run_snapshot" "crash_safe_from on_volume (run_resize_destructive mib)"
  "crash_safe_from on_volume (run_grow_online mib)" "crash_safe_from on_volume run_suspend" "crash_safe_from on_volume run_resume"
  "crash_safe_from on_volume run_fsck" "crash_safe_from in_archive (run_restore_archive gi)"
  "\<not> crash_safe_from on_volume run_archive" "\<not> crash_safe_from on_volume run_rollback_to_snapshot"
  by (simp_all add: crash_safe_from_def run_snapshot_def run_resize_destructive_def run_grow_online_def run_suspend_def run_resume_def
      run_fsck_def run_restore_archive_def run_archive_def run_rollback_to_snapshot_def progress_def)

end
