(* ===== verification/StorageLaws.thy ===== *)
theory StorageLaws
  imports StorageSafety
begin

text \<open>
  What is read from the storage world after each update (the collection \<open>sl_world\<close>), so that a run of an orchestrator
  is computed by rewriting; the laws of quiescing; the sizes of a claim.
\<close>

named_theorems sl_world "observers after updates of the storage world"

section \<open>Observers\<close>

definition tenant_row :: "sl_world \<Rightarrow> string \<Rightarrow> sl_tenant option" where
  "tenant_row w t = first (\<lambda>r. st_id r = t) (sw_tenants w)"

definition op_row :: "sl_world \<Rightarrow> string \<Rightarrow> operation_row option" where
  "op_row w i = first (\<lambda>r. sop_id r = i) (sw_operations w)"

definition snap_row :: "sl_world \<Rightarrow> string \<Rightarrow> snapshot_row option" where
  "snap_row w i = first (\<lambda>s. sn_id s = i) (sw_snapshots w)"

lemma first_set_where_same:
  "(\<And>x. p x \<Longrightarrow> p (f x)) \<Longrightarrow> first p (set_where p f xs) = map_option f (first p xs)"
  by (induction xs) (auto simp: first_def set_where_def)

lemma tenant_row_updates [sl_world]:
  "tenant_row (mark_tenant_state t s x w) t = map_option (\<lambda>r. r\<lparr>st_state := s, st_active_op := x\<rparr>) (tenant_row w t)"
  "tenant_row (sync_tenant_state i s w) t =
     map_option (\<lambda>r. if st_active_op r = Some i then r\<lparr>st_state := s\<rparr> else r) (tenant_row w t)"
  "tenant_row (persist_size t m w) t =
     map_option (\<lambda>r. r\<lparr>st_override := Some (int ((m * 200 + 1024) div 2048))\<rparr>) (tenant_row w t)"
  "tenant_row (update_op i u w) t = tenant_row w t" "tenant_row (update_snapshot i v w) t = tenant_row w t"
  "tenant_row (update_namespace n g w) t = tenant_row w t" "tenant_row (sw_archives_update a w) t = tenant_row w t"
  "tenant_row (sw_operations_update b w) t = tenant_row w t" "tenant_row (sw_snapshots_update d w) t = tenant_row w t"
  by (simp_all add: tenant_row_def mark_tenant_state_def sync_tenant_state_def persist_size_def update_op_def update_snapshot_def
      update_namespace_def first_set_where_same first_set_where)

lemma op_row_updates [sl_world]:
  "(\<And>r. sop_id (u r) = sop_id r) \<Longrightarrow> op_row (update_op i u w) i = map_option u (op_row w i)"
  "op_row (mark_tenant_state t s x w) i = op_row w i" "op_row (sync_tenant_state k s w) i = op_row w i"
  "op_row (persist_size t m w) i = op_row w i" "op_row (update_snapshot k v w) i = op_row w i"
  "op_row (update_namespace n g w) i = op_row w i" "op_row (sw_archives_update a w) i = op_row w i"
  by (simp_all add: op_row_def mark_tenant_state_def sync_tenant_state_def persist_size_def update_op_def update_snapshot_def
      update_namespace_def first_set_where_same)

lemma snap_row_updates [sl_world]:
  "(\<And>r. sn_id (v r) = sn_id r) \<Longrightarrow> snap_row (update_snapshot i v w) i = map_option v (snap_row w i)"
  "snap_row (mark_tenant_state t s x w) i = snap_row w i" "snap_row (sync_tenant_state k s w) i = snap_row w i"
  "snap_row (persist_size t m w) i = snap_row w i" "snap_row (update_op k u w) i = snap_row w i"
  "snap_row (update_namespace n g w) i = snap_row w i" "snap_row (sw_archives_update a w) i = snap_row w i"
  "snap_row (sw_operations_update b w) i = snap_row w i"
  by (simp_all add: snap_row_def mark_tenant_state_def sync_tenant_state_def persist_size_def update_op_def update_snapshot_def
      update_namespace_def first_set_where_same)

definition snap_rows :: "sl_world \<Rightarrow> string \<Rightarrow> snapshot_row list" where
  "snap_rows w i = filter (\<lambda>s. sn_id s = i) (sw_snapshots w)"

lemma snap_row_rows: "snap_rows w i = s # ss \<Longrightarrow> snap_row w i = Some s"
  by (simp add: snap_row_def snap_rows_def first_def)

lemma filter_set_where: "(\<And>x. p (f x) = p x) \<Longrightarrow> filter p (set_where p f xs) = map f (filter p xs)"
  by (induction xs) (simp_all add: set_where_def)

lemma snap_rows_updates [sl_world]:
  "(\<And>r. sn_id (v r) = sn_id r) \<Longrightarrow> snap_rows (update_snapshot i v w) i = map v (snap_rows w i)"
  "snap_rows (mark_tenant_state t s x w) i = snap_rows w i" "snap_rows (sync_tenant_state k s w) i = snap_rows w i"
  "snap_rows (persist_size t m w) i = snap_rows w i" "snap_rows (update_op k u w) i = snap_rows w i"
  "snap_rows (update_namespace n g w) i = snap_rows w i" "snap_rows (sw_archives_update a w) i = snap_rows w i"
  "snap_rows (sw_operations_update b w) i = snap_rows w i" "snap_rows (sw_tenants_update d w) i = snap_rows w i"
  by (simp_all add: snap_rows_def mark_tenant_state_def sync_tenant_state_def persist_size_def update_op_def update_snapshot_def
      update_namespace_def filter_set_where)

lemma namespace_updates [sl_world]:
  "sw_namespaces (update_namespace n g w) m = (if m = n then g (sw_namespaces w n) else sw_namespaces w m)"
  "sw_namespaces (mark_tenant_state t s x w) = sw_namespaces w" "sw_namespaces (sync_tenant_state k s w) = sw_namespaces w"
  "sw_namespaces (persist_size t p w) = sw_namespaces w" "sw_namespaces (update_op k u w) = sw_namespaces w"
  "sw_namespaces (update_snapshot k v w) = sw_namespaces w"
  by (simp_all add: mark_tenant_state_def sync_tenant_state_def persist_size_def update_op_def update_snapshot_def update_namespace_def)

lemma archive_updates [sl_world]:
  "sw_archives (update_namespace n g w) = sw_archives w"
  "sw_archives (mark_tenant_state t s x w) = sw_archives w" "sw_archives (sync_tenant_state k s w) = sw_archives w"
  "sw_archives (persist_size t p w) = sw_archives w" "sw_archives (update_op k u w) = sw_archives w"
  "sw_archives (update_snapshot k v w) = sw_archives w"
  by (simp_all add: mark_tenant_state_def sync_tenant_state_def persist_size_def update_op_def update_snapshot_def update_namespace_def)

lemma target_updates [sl_world]:
  "sw_targets (update_namespace n g w) = sw_targets w"
  "sw_targets (mark_tenant_state t s x w) = sw_targets w" "sw_targets (sync_tenant_state k s w) = sw_targets w"
  "sw_targets (persist_size t p w) = sw_targets w" "sw_targets (update_op k u w) = sw_targets w"
  "sw_targets (update_snapshot k v w) = sw_targets w"
  by (simp_all add: mark_tenant_state_def sync_tenant_state_def persist_size_def update_op_def update_snapshot_def update_namespace_def)

lemma plan_updates [sl_world]:
  "sw_plans (update_namespace n g w) = sw_plans w"
  "sw_plans (mark_tenant_state t s x w) = sw_plans w" "sw_plans (sync_tenant_state k s w) = sw_plans w"
  "sw_plans (persist_size t p w) = sw_plans w" "sw_plans (update_op k u w) = sw_plans w"
  "sw_plans (update_snapshot k v w) = sw_plans w"
  by (simp_all add: mark_tenant_state_def sync_tenant_state_def persist_size_def update_op_def update_snapshot_def update_namespace_def)

definition other_snaps :: "sl_world \<Rightarrow> string \<Rightarrow> snapshot_row list" where
  "other_snaps w i = filter (\<lambda>s. sn_id s \<noteq> i) (sw_snapshots w)"

lemma other_snaps_updates [sl_world]:
  "(\<And>r. sn_id (v r) = sn_id r) \<Longrightarrow> other_snaps (update_snapshot i v w) i = other_snaps w i"
  "other_snaps (mark_tenant_state t s x w) i = other_snaps w i" "other_snaps (sync_tenant_state k s w) i = other_snaps w i"
  "other_snaps (persist_size t m w) i = other_snaps w i" "other_snaps (update_op k u w) i = other_snaps w i"
  "other_snaps (update_namespace n g w) i = other_snaps w i" "other_snaps (sw_archives_update a w) i = other_snaps w i"
  "other_snaps (sw_operations_update b w) i = other_snaps w i" "other_snaps (sw_tenants_update d w) i = other_snaps w i"
  by (simp_all add: other_snaps_def mark_tenant_state_def sync_tenant_state_def persist_size_def update_op_def update_snapshot_def
      update_namespace_def filter_set_where_other)

lemma snapshots_cases: "snap_rows w i = [s] \<Longrightarrow> set (sw_snapshots w) = insert s (set (other_snaps w i))"
proof -
  assume "snap_rows w i = [s]"
  then have "set (filter (\<lambda>s. sn_id s = i) (sw_snapshots w)) = {s}" by (simp add: snap_rows_def)
  then show ?thesis by (auto simp: other_snaps_def)
qed

text \<open>The latest row is the one whose time is after all others.\<close>

lemma latest_max: "x \<in> set rows \<Longrightarrow> (\<And>y. y \<in> set rows \<Longrightarrow> y \<noteq> x \<Longrightarrow> k y < k x) \<Longrightarrow> latest k rows = Some x"
proof -
  assume x: "x \<in> set rows" and max: "\<And>y. y \<in> set rows \<Longrightarrow> y \<noteq> x \<Longrightarrow> k y < k x"
  let ?s = "sort_key (\<lambda>r. - k r) (rev rows)"
  have set: "set ?s = set rows" by simp
  then obtain y ys where s: "?s = y # ys" using x by (cases ?s) auto
  have "sorted (map (\<lambda>r. - k r) ?s)" by simp
  then have "k x \<le> k y" using x set s by (auto simp: sorted_append)
  then have "y = x" using max [of y] set s by fastforce
  then show ?thesis using s by (simp add: latest_def)
qed

lemma tenants_updates [sl_world]:
  "sw_tenants (update_namespace n g w) = sw_tenants w" "sw_tenants (update_op k u w) = sw_tenants w"
  "sw_tenants (update_snapshot k v w) = sw_tenants w"
  by (simp_all add: update_op_def update_snapshot_def update_namespace_def)

lemma cascade_guarded [sl_world]: "guarded_system w t s \<Longrightarrow> cascade f now t n s w = w"
  by (simp add: cascade_def)

lemma cascade_clean [sl_world]:
  "\<not> guarded_system w t s \<Longrightarrow> cascade NoFault now t n s w =
    (update_namespace n (scale_custom_deployments NoFault (if s = TenantActive then 1 else 0)) w)\<lparr>sw_tenants :=
       set_where (\<lambda>r. st_id r = t) (stamp_status now s) (sw_tenants w)\<rparr>"
  by (simp add: cascade_def Let_def sl_world)

lemma guarded_system_row: "guarded_system w t s \<longleftrightarrow> s \<in> {TenantSuspended, TenantArchived} \<and> (\<exists>r. tenant_row w t = Some r \<and> st_system r)"
  by (auto simp: guarded_system_def tenant_row_def split: option.split)

lemma stamp_simps [simp]:
  "st_id (stamp_status now s r) = st_id r" "st_state (stamp_status now s r) = st_state r"
  "st_active_op (stamp_status now s r) = st_active_op r" "st_override (stamp_status now s r) = st_override r"
  "st_namespace (stamp_status now s r) = st_namespace r" "st_plan (stamp_status now s r) = st_plan r"
  "st_status (stamp_status now TenantSuspended r) = TenantSuspended" "st_status (stamp_status now TenantArchived r) = TenantArchived"
  "st_status (stamp_status now TenantActive r) = TenantActive"
  by (simp_all add: stamp_status_def split: tenant_status.split)

lemma stamped_updates [sl_world]:
  "tenant_row (w\<lparr>sw_tenants := set_where (\<lambda>r. st_id r = t) (stamp_status now s) ts\<rparr>) t =
     map_option (stamp_status now s) (first (\<lambda>r. st_id r = t) ts)"
  "op_row (sw_tenants_update tt w) i = op_row w i" "snap_row (sw_tenants_update tt w) i = snap_row w i"
  by (simp_all add: tenant_row_def op_row_def snap_row_def first_set_where_same)

lemma first_tenant: "first (\<lambda>r. st_id r = t) (sw_tenants w) = tenant_row w t"
  by (simp add: tenant_row_def)

lemma first_snapshot: "first (\<lambda>s. sn_id s = i) (sw_snapshots w) = snap_row w i"
  by (simp add: snap_row_def)

lemma begin_op_world [sl_world]:
  "sw_namespaces (begin_op env op t ty s snap w) = sw_namespaces w" "sw_archives (begin_op env op t ty s snap w) = sw_archives w"
  "sw_targets (begin_op env op t ty s snap w) = sw_targets w" "sw_plans (begin_op env op t ty s snap w) = sw_plans w" "sw_snapshots (begin_op env op t ty s snap w) = sw_snapshots w"
  "snap_row (begin_op env op t ty s snap w) i = snap_row w i"
  "tenant_row (begin_op env op t ty s snap w) t = map_option (\<lambda>r. r\<lparr>st_state := s, st_active_op := Some op\<rparr>) (tenant_row w t)"
  by (simp_all add: begin_op_def sl_world mark_tenant_state_def snap_row_def) (simp add: tenant_row_def first_set_where_same)

lemma first_conj: "first p xs = Some x \<Longrightarrow> q x \<Longrightarrow> first (\<lambda>x. p x \<and> q x) xs = Some x"
  by (induction xs) (auto simp: first_def split: if_splits)

lemma idle_tenantE:
  assumes "idle_tenant w t = Inr r"
  obtains "tenant_row w t = Some r" "st_id r = t" "st_state r = SlIdle"
  using assms first_SomeD [of "\<lambda>r. st_id r = t" "sw_tenants w" r]
  by (auto simp: idle_tenant_def must_get_tenant_def must_be_idle_def tenant_row_def split: option.splits if_splits)

lemma idle_tenantI: "tenant_row w t = Some r \<Longrightarrow> st_state r = SlIdle \<Longrightarrow> idle_tenant w t = Inr r"
  by (simp add: idle_tenant_def must_get_tenant_def must_be_idle_def first_tenant)

section \<open>Quiescing\<close>

lemma write_each_all: "length (filter p xs) \<le> b \<Longrightarrow> write_each p g b xs = (map (\<lambda>x. if p x then g x else x) xs, b - length (filter p xs))"
  by (induction p g b xs rule: write_each.induct) (auto split: nat.split)

definition quiesced :: "tenant_namespace \<Rightarrow> tenant_namespace" where
  "quiesced n = n\<lparr>ns_deployments := map (\<lambda>d. d\<lparr>dp_replicas := 0\<rparr>) (ns_deployments n),
     ns_cron_jobs := map (\<lambda>c. c\<lparr>cj_suspend := True\<rparr>) (ns_cron_jobs n)\<rparr>"

definition workloads_of :: "tenant_namespace \<Rightarrow> quiesce_snapshot" where
  "workloads_of n = \<lparr>qs_deployments = map (\<lambda>d. (dp_name d, dp_replicas d)) (ns_deployments n),
     qs_cron_jobs = map (\<lambda>c. (cj_name c, cj_suspend c)) (ns_cron_jobs n)\<rparr>"

lemma quiesce_clean: "quiesce NoFault n = (quiesced n, Some (workloads_of n))"
proof -
  let ?D = "length (ns_deployments n)" and ?C = "length (ns_cron_jobs n)"
  have d: "length (filter (\<lambda>d. dp_replicas d > 0) (ns_deployments n)) \<le> ?D + ?C" by (meson le_add1 length_filter_le le_trans)
  have c: "length (filter (\<lambda>c. \<not> cj_suspend c) (ns_cron_jobs n)) \<le> ?D + ?C - length (filter (\<lambda>d. dp_replicas d > 0) (ns_deployments n))"
    using length_filter_le [of "\<lambda>d. dp_replicas d > 0" "ns_deployments n"] length_filter_le [of "\<lambda>c. \<not> cj_suspend c" "ns_cron_jobs n"]
    by linarith
  have "map (\<lambda>d. if dp_replicas d > 0 then d\<lparr>dp_replicas := 0\<rparr> else d) (ns_deployments n) = map (\<lambda>d. d\<lparr>dp_replicas := 0\<rparr>) (ns_deployments n)"
    "map (\<lambda>c. if \<not> cj_suspend c then c\<lparr>cj_suspend := True\<rparr> else c) (ns_cron_jobs n) = map (\<lambda>c. c\<lparr>cj_suspend := True\<rparr>) (ns_cron_jobs n)"
    by auto
  then show ?thesis
    by (simp add: quiesce_def quiesced_by_def write_budget_def throws_def write_each_all d c quiesced_def workloads_of_def)
qed

text \<open>Writing back, by name, what was recorded undoes the writes to every object.\<close>

definition write_back :: "('a \<Rightarrow> string) \<Rightarrow> ('r \<Rightarrow> 'a \<Rightarrow> 'a) \<Rightarrow> (string \<Rightarrow> 'r \<Rightarrow> bool) \<Rightarrow> string \<times> 'r \<Rightarrow> 'a list \<Rightarrow> 'a list" where
  "write_back key upd skip e xs = (if skip (fst e) (snd e) then xs else set_where (\<lambda>x. key x = fst e) (upd (snd e)) xs)"

lemma fold_write_back_other:
  "set (map fst rs) \<inter> key ` set es = {} \<Longrightarrow>
   fold (write_back key upd skip) rs (es @ xs) = es @ fold (write_back key upd skip) rs xs"
proof (induction rs arbitrary: xs)
  case (Cons e rs)
  have "set_where (\<lambda>x. key x = fst e) (upd (snd e)) es = es"
    using Cons.prems by (induction es) (auto simp: set_where_def)
  then have "write_back key upd skip e (es @ xs) = es @ write_back key upd skip e xs" by (simp add: write_back_def set_where_def)
  moreover have "set (map fst rs) \<inter> key ` set es = {}" using Cons.prems by auto
  ultimately show ?case using Cons.IH by simp
qed simp

lemma fold_write_back:
  assumes "distinct (map key xs)" and "\<And>x. key (down x) = key x" and "\<And>k x. skip k (val x) \<Longrightarrow> down x = x"
    and "\<And>k x. \<not> skip k (val x) \<Longrightarrow> upd (val x) (down x) = x"
  shows "fold (write_back key upd skip) (map (\<lambda>x. (key x, val x)) xs) (map down xs) = xs"
  using assms(1)
proof (induction xs)
  case (Cons x xs)
  have other: "set_where (\<lambda>y. key y = key x) (upd r) (map down xs) = map down xs" for r
    using Cons.prems assms(2) by (auto simp: set_where_def) (metis image_eqI)
  have "write_back key upd skip (key x, val x) (map down (x # xs)) = [x] @ map down xs"
    using assms(2-4) other by (cases "skip (key x) (val x)") (simp_all add: write_back_def, simp add: set_where_def)
  moreover have "fold (write_back key upd skip) (map (\<lambda>x. (key x, val x)) xs) ([x] @ map down xs) =
      [x] @ fold (write_back key upd skip) (map (\<lambda>x. (key x, val x)) xs) (map down xs)"
    using Cons.prems by (intro fold_write_back_other) (auto simp: comp_def)
  ultimately show ?case using Cons by (simp only: list.map fold.simps comp_def distinct.simps) simp
qed simp

lemma unquiesce_write_back:
  "unquiesce f q n = n\<lparr>
     ns_deployments := fold (write_back dp_name (\<lambda>r d. d\<lparr>dp_replicas := r\<rparr>) (\<lambda>k r. r = 0 \<or> lost f k)) (qs_deployments q) (ns_deployments n),
     ns_cron_jobs := fold (write_back cj_name (\<lambda>was c. c\<lparr>cj_suspend := False\<rparr>) (\<lambda>k was. was \<or> lost f k)) (qs_cron_jobs q) (ns_cron_jobs n)\<rparr>"
  by (simp add: unquiesce_def write_back_def [abs_def] split_def)

text \<open>The names of workloads are unique in a namespace.\<close>

definition names_unique :: "tenant_namespace \<Rightarrow> bool" where
  "names_unique n = (distinct (map dp_name (ns_deployments n)) \<and> distinct (map cj_name (ns_cron_jobs n)))"

lemma unquiesce_quiesced: "names_unique n \<Longrightarrow> unquiesce NoFault (workloads_of n) (quiesced n) = n"
  unfolding unquiesce_write_back workloads_of_def quiesced_def names_unique_def by (simp add: fold_write_back lost_def)

text \<open>The claim does not matter to them.\<close>

lemma quiesced_set_claim: "unquiesce f q (set_claim c n) = set_claim c (unquiesce f q n)" "quiesced (set_claim c n) = set_claim c (quiesced n)"
  "ns_claim (quiesced n) = ns_claim n"
  by (simp_all add: unquiesce_def set_claim_def quiesced_def)

section \<open>Sizes\<close>

lemma quantity_match_suffix:
  "quantity_match (show_nat n @ ''Gi'') = Some (show_nat n, [], ''Gi'')"
  "quantity_match (show_nat n @ ''Mi'') = Some (show_nat n, [], ''Mi'')"
proof -
  have nd: "\<not> is_digit CHR ''G''" "\<not> is_digit CHR ''M''" by code_simp+
  have "takeWhile is_digit (show_nat n @ c # r) = show_nat n" "dropWhile is_digit (show_nat n @ c # r) = c # r" if "\<not> is_digit c" for c r
    using that show_nat_digits [of n] by (simp_all add: Ball_def)
  note d = this [OF nd(1)] this [OF nd(2)]
  have l: "list_all is_letter ''Gi''" "list_all is_letter ''Mi''" "\<not> is_ws CHR ''G''" "\<not> is_ws CHR ''M''" by code_simp+
  show "quantity_match (show_nat n @ ''Gi'') = Some (show_nat n, [], ''Gi'')" "quantity_match (show_nat n @ ''Mi'') = Some (show_nat n, [], ''Mi'')"
    unfolding quantity_match_def Let_def using l by (simp_all add: d)
qed

lemma parse_size_str: "parse_quantity_to_bytes (size_str mib) = Some (of_nat mib * 1024 * 1024)"
proof (cases "mib mod 1024 = 0")
  case True
  then have "of_nat mib = of_nat (mib div 1024) * (1024 :: rat)"
    by (metis div_mod_decomp add.right_neutral of_nat_mult of_nat_numeral)
  then show ?thesis using True
    by (simp add: size_str_def quantity_match_suffix parse_quantity_to_bytes_def quantity_value_def prototype_member_def unit_factor_def
        parse_nat_def [of "[]"])
next
  case False
  then show ?thesis
    by (simp add: size_str_def quantity_match_suffix parse_quantity_to_bytes_def quantity_value_def prototype_member_def unit_factor_def
        parse_nat_def [of "[]"])
qed

section \<open>Rounding\<close>

lemma bit_len_bounds: "n < 2 ^ bit_len n" "n \<noteq> 0 \<Longrightarrow> 2 ^ (bit_len n - 1) \<le> n"
proof (induction n rule: bit_len.induct)
  case (1 n)
  { case 1 show ?case using "1.IH"(1) by (cases "n = 0") (simp_all add: bit_len.simps [of n]) }
  { case 2 then show ?case using "1.IH"(2)
      by (cases "n div 2 = 0") (auto simp: bit_len.simps [of n] bit_len.simps [of 0] bit_len.simps [of "n div 2"]) }
qed

lemma round_even_bounds:
  assumes d: "0 < d"
  shows "2 * n \<le> 2 * (round_even n d * d) + d" "2 * (round_even n d * d) \<le> 2 * n + d"
proof -
  define q r where "q = n div d" and "r = n mod d"
  have n: "n = q * d + r" "r < d" using d by (simp_all add: q_def r_def)
  show "2 * n \<le> 2 * (round_even n d * d) + d" "2 * (round_even n d * d) \<le> 2 * n + d"
    unfolding round_even_def q_def [symmetric] r_def [symmetric] using n by (auto simp: algebra_simps)
qed

lemma bit_len_eq: "n < 2 ^ k \<Longrightarrow> 2 ^ (k - 1) \<le> n \<Longrightarrow> bit_len n = k"
proof (cases "n = 0")
  case False
  assume n: "n < 2 ^ k" "2 ^ (k - 1) \<le> n"
  have "0 < bit_len n" "0 < k" using False n by (auto simp: bit_len.simps [of n] intro: Nat.gr0I)
  moreover have "(2 :: nat) ^ (bit_len n - 1) < 2 ^ k" "(2 :: nat) ^ (k - 1) < 2 ^ bit_len n"
    using n bit_len_bounds [of n] False by linarith+
  then have "bit_len n - 1 < k" "k - 1 < bit_len n" by (auto dest: power_less_imp_less_exp [rotated])
  ultimately show ?thesis by linarith
qed simp

lemma required_bytes_at:
  "b * 2476979795053773 < 2 ^ k \<Longrightarrow> 2 ^ (k - 1) \<le> b * 2476979795053773 \<Longrightarrow>
   required_bytes b = (round_even (b * 2476979795053773) (2 ^ (k - 53)) * 2 ^ (k - 53) + 2 ^ 51 - 1) div 2 ^ 51"
  using bit_len_eq [of "b * 2476979795053773" k] by (simp add: required_bytes_def times_safety_factor_def Let_def)

section \<open>Runs without faults\<close>

text \<open>The context that the assignment of a target to a class gives.\<close>

definition target_ctx :: "string \<Rightarrow> string \<Rightarrow> service_ctx" where
  "target_ctx t cls = \<lparr>cx_store = TargetStore t cls, cx_target = Some t, cx_class = Some cls\<rparr>"

text \<open>A list of calls that all go well.\<close>

definition clean :: "nat \<Rightarrow> fault list" where
  "clean n = replicate n NoFault"

lemma advance_step:
  "th_todo th = Must c # rest \<Longrightarrow> exec_call env (th_job th) c f (th_locals th, w) = ((l, w'), True) \<Longrightarrow>
   advance env f (th, w) = (th\<lparr>th_todo := rest, th_locals := l\<rparr>, w')"
  by simp

lemma run_thread_clean:
  "run_thread env (clean (numeral k)) s = run_thread env (clean (pred_numeral k)) (advance env NoFault s)"
  "run_thread env (clean (Suc n)) s = run_thread env (clean n) (advance env NoFault s)"
  by (simp_all add: run_thread_def clean_def numeral_eq_Suc)

lemma run_thread_clean_0: "run_thread env (clean 0) s = s"
  by (simp add: run_thread_def clean_def)

lemma db_call_clean [simp]: "db_call NoFault g w = (g w, True)" "is_ok NoFault" "\<not> throws NoFault" "\<not> lost NoFault k"
  by (simp_all add: db_call_def is_ok_def throws_def lost_def)

lemmas sl_exec = run_thread_clean run_thread_clean_0 start_thread_def progress_def job_for_def target_ctx_def legacy_ctx_def
  quiesce_clean sl_world ns_call_def snapshot_tenant_pvc_def quiesced_set_claim delete_claim_def
  wait_for_claim_gone_def apply_pvc_mib_def first_snapshot first_tenant resolve_restore_store_def restore_tenant_pvc_def extract_archive_def
  complete_op_def fail_op_def finished_def

lemma set_claim_twice [simp]: "set_claim c (set_claim d n) = set_claim c n"
  by (simp add: set_claim_def)

lemma size_str_nonempty: "size_str m \<noteq> []"
  by (simp add: size_str_def)

lemma current_mib_sized:
  "ns_claim (sw_namespaces w (st_namespace r)) = Some c \<Longrightarrow> pv_request c = size_str m \<Longrightarrow> current_mib True w r = Some (int m)"
proof -
  have "round_rat (of_nat m :: rat) = int m"
    unfolding round_rat_def by (rule floor_unique) simp_all
  then show "ns_claim (sw_namespaces w (st_namespace r)) = Some c \<Longrightarrow> pv_request c = size_str m \<Longrightarrow> current_mib True w r = Some (int m)"
    by (simp add: current_mib_def Let_def size_str_nonempty parse_size_str)
qed

section \<open>A small platform\<close>

text \<open>One tenant with a volume of 10 GiB, a plan that allows two snapshots, and one backup target.\<close>

definition demo_files :: files where
  "demo_files = [''index.html'' \<mapsto> ''hello'']"

definition demo_namespace :: tenant_namespace where
  "demo_namespace = \<lparr>ns_deployments = [\<lparr>dp_name = ''web'', dp_replicas = 2, dp_managed = True, dp_custom = False\<rparr>,
     \<lparr>dp_name = ''shop'', dp_replicas = 3, dp_managed = False, dp_custom = True\<rparr>],
     ns_cron_jobs = [\<lparr>cj_name = ''nightly'', cj_suspend = False, cj_managed = True\<rparr>],
     ns_claim = Some \<lparr>pv_request = ''10Gi'', pv_capacity = Some ''10Gi'', pv_files = demo_files\<rparr>\<rparr>"

definition demo_tenant :: sl_tenant where
  "demo_tenant = \<lparr>st_id = ''acme'', st_status = TenantActive, st_system = False, st_namespace = ''client-acme'', st_plan = ''basic'',
     st_override = None, st_state = SlIdle, st_active_op = None, st_suspended_at = None, st_archived_at = None\<rparr>"

definition demo_storage :: sl_world where
  "demo_storage = \<lparr>sw_tenants = [demo_tenant], sw_plans = [\<lparr>hp_id = ''basic'', hp_storage = 1000, hp_max_bytes = 5000, hp_max_count = 2\<rparr>],
     sw_snapshots = [], sw_operations = [], sw_targets = [''s3''], sw_namespaces = (\<lambda>_. demo_namespace), sw_archives = (\<lambda>_. None)\<rparr>"

definition demo_sl_env :: sl_env where
  "demo_sl_env = \<lparr>se_now = 1000, se_size = (\<lambda>_. 100), se_fs = Some ''xfs'', se_clean = True\<rparr>"

abbreviation demo_ctx :: service_ctx where
  "demo_ctx \<equiv> target_ctx ''s3'' ''tenant_snapshot''"

lemma demo_tenant_sel [simp]:
  "st_id demo_tenant = ''acme''" "st_status demo_tenant = TenantActive" "\<not> st_system demo_tenant" "st_namespace demo_tenant = ''client-acme''"
  "st_plan demo_tenant = ''basic''" "st_override demo_tenant = None" "st_state demo_tenant = SlIdle"
  by (simp_all add: demo_tenant_def)

lemma demo_storage_sel [simp]:
  "sw_tenants demo_storage = [demo_tenant]" "sw_snapshots demo_storage = []" "sw_operations demo_storage = []"
  "sw_targets demo_storage = [''s3'']" "sw_namespaces demo_storage k = demo_namespace" "sw_archives demo_storage x = None"
  "ns_claim demo_namespace = Some \<lparr>pv_request = ''10Gi'', pv_capacity = Some ''10Gi'', pv_files = demo_files\<rparr>"
  by (simp_all add: demo_storage_def demo_namespace_def)

lemma demo_rows [simp]:
  "snap_row demo_storage i = None" "op_row demo_storage i = None" "tenant_row demo_storage ''acme'' = Some demo_tenant"
  "idle_tenant demo_storage ''acme'' = Inr demo_tenant" "names_unique demo_namespace" "se_now demo_sl_env = 1000"
  by (simp_all add: snap_row_def op_row_def tenant_row_def first_def idle_tenant_def must_get_tenant_def must_be_idle_def
      names_unique_def demo_namespace_def demo_sl_env_def)

lemma demo_current_mib [simp]: "current_mib True demo_storage demo_tenant = Some 10240"
proof -
  have "size_str 10240 = ''10Gi''" by code_simp
  then show ?thesis using current_mib_sized [of demo_storage demo_tenant _ 10240] by simp
qed

end
