(* ===== verification/StorageProps.thy ===== *)
theory StorageProps
  imports StorageLaws
begin

text \<open>
  The properties of the storage operations.
\<close>

section \<open>Shrinking a volume\<close>

lemma started_destructive:
  assumes "resize_destructive env cx op snap mib r w = Inr (w1, th)" and "snap_row w snap = None" and "op_row w op = None"
  shows "th = start_thread (job_for cx op snap (reserve_path (st_id r) snap) r) (run_resize_destructive mib) None"
    and "sw_namespaces w1 = sw_namespaces w" and "sw_archives w1 = sw_archives w" and "sw_targets w1 = sw_targets w"
    and "snap_row w1 snap = Some (new_snapshot env cx (st_id r) snap PreResize (Some (se_now env + 7 * day_ms)))"
    and "op_row w1 op = Some (new_operation env op (st_id r) ResizeOp SlSnapshotting (Some snap))"
    and "tenant_row w1 (st_id r) = map_option (\<lambda>r. r\<lparr>st_state := SlSnapshotting, st_active_op := Some op\<rparr>) (tenant_row w (st_id r))"
    and "\<forall>t. cx_target cx = Some t \<longrightarrow> t \<in> set (sw_targets w)"
proof -
  let ?s = "new_snapshot env cx (st_id r) snap PreResize (Some (se_now env + 7 * day_ms))"
  have w1: "w1 = begin_op env op (st_id r) ResizeOp SlSnapshotting (Some snap) (w\<lparr>sw_snapshots := sw_snapshots w @ [?s]\<rparr>)"
    and th: "th = start_thread (job_for cx op snap (reserve_path (st_id r) snap) r) (run_resize_destructive mib) None"
    and tg: "\<forall>t. cx_target cx = Some t \<longrightarrow> t \<in> set (sw_targets w)"
    using assms(1) by (auto simp: resize_destructive_def insert_snapshot_def new_snapshot_def split: option.splits if_splits)
  have [simp]: "sn_id ?s = snap" "sop_id (new_operation env op t ty st x) = op" for t ty st x
    by (simp_all add: new_snapshot_def new_operation_def)
  show "sw_namespaces w1 = sw_namespaces w" "sw_archives w1 = sw_archives w" "sw_targets w1 = sw_targets w"
    unfolding w1 begin_op_def by (simp_all add: sl_world)
  show "snap_row w1 snap = Some ?s" using assms(2)
    unfolding w1 begin_op_def by (simp add: sl_world) (simp add: snap_row_def first_append, simp add: first_def)
  show "op_row w1 op = Some (new_operation env op (st_id r) ResizeOp SlSnapshotting (Some snap))" using assms(3)
    unfolding w1 begin_op_def by (simp add: sl_world) (simp add: op_row_def first_append, simp add: first_def)
  show "tenant_row w1 (st_id r) = map_option (\<lambda>r. r\<lparr>st_state := SlSnapshotting, st_active_op := Some op\<rparr>) (tenant_row w (st_id r))"
    unfolding w1 begin_op_def by (simp add: sl_world)
qed (use assms(1) in \<open>auto simp: resize_destructive_def insert_snapshot_def new_snapshot_def split: option.splits if_splits\<close>)

lemma demo_shrink: "\<exists>w1 th. resize_destructive demo_sl_env demo_ctx ''op1'' ''snap1'' 5120 demo_tenant demo_storage = Inr (w1, th)"
  by (simp add: resize_destructive_def insert_snapshot_def new_snapshot_def target_ctx_def)

text \<open>C1: Whatever calls fail, in whatever way, and wherever the process dies: as long as the target of the snapshots is
  there, a shrinking volume's files are on the volume, or in an archive that a ready snapshot of the tenant leads to.\<close>

theorem resize_never_loses_data:
  assumes "resize_destructive env (target_ctx t cls) op snap mib r w = Inr (w1, th)" and "t \<noteq> []"
    and "snap_row w snap = None" and "op_row w op = None" and "ns_claim (sw_namespaces w (st_namespace r)) = Some c"
  shows "recoverable (th_job th) (pv_files c) (snd (run_thread env' fs (th, w1)))"
proof -
  note s = started_destructive [OF assms(1,3,4)]
  let ?j = "job_for (target_ctx t cls) op snap (reserve_path (st_id r) snap) r"
  have "job_row ?j w1 = Some (new_snapshot env (target_ctx t cls) (st_id r) snap PreResize (Some (se_now env + 7 * day_ms)))"
    using s(5) by (simp add: job_row_def snap_row_def job_for_def)
  then have "row_leads ?j w1"
    using s(4,8) assms(2) by (simp add: row_leads_def new_snapshot_def job_for_def target_ctx_def resolve_restore_store_def)
  moreover have "volume_files ?j w1 = Some (pv_files c)" using s(2) assms(5) by (simp add: volume_files_def job_for_def)
  ultimately have "holds ?j (pv_files c) on_volume w1" by (simp add: holds_def)
  from crash_safe_sound [OF checked_orchestrators(2) this] show ?thesis unfolding s(1) by (simp add: start_thread_def)
qed

theorem resize_never_loses_data_witness:
  "\<exists>w1 th. resize_destructive demo_sl_env demo_ctx ''op1'' ''snap1'' 5120 demo_tenant demo_storage = Inr (w1, th) \<and>
     recoverable (th_job th) demo_files (snd (run_thread demo_sl_env (clean 10 @ [FailAfter, FailBefore]) (th, w1)))"
proof -
  obtain w1 th where d: "resize_destructive demo_sl_env demo_ctx ''op1'' ''snap1'' 5120 demo_tenant demo_storage = Inr (w1, th)"
    using demo_shrink by blast
  from resize_never_loses_data [OF d, of _ demo_sl_env "clean 10 @ [FailAfter, FailBefore]"] d show ?thesis by fastforce
qed

text \<open>C3: A shrink through the target of a class, when all goes well: the tenant has its files on a volume of the new size,
  its workloads as before, and is idle; the override is the new size.\<close>

theorem resize_success:
  assumes "resize_destructive env (target_ctx t cls) op snap mib r w = Inr (w1, th)" and "t \<noteq> []"
    and "snap_row w snap = None" and "op_row w op = None" and "tenant_row w (st_id r) = Some r"
    and "ns_claim (sw_namespaces w (st_namespace r)) = Some c" and "names_unique (sw_namespaces w (st_namespace r))"
    and "run_thread env (clean 24) (th, w1) = (th', w')"
  shows "finished th' \<and> \<not> th_failed th' \<and>
     sw_namespaces w' (st_namespace r) = set_claim (Some \<lparr>pv_request = size_str mib, pv_capacity = Some (size_str mib),
       pv_files = pv_files c\<rparr>) (sw_namespaces w (st_namespace r)) \<and>
     tenant_row w' (st_id r) = Some (r\<lparr>st_override := Some (int ((mib * 200 + 1024) div 2048)), st_state := SlIdle, st_active_op := None\<rparr>) \<and>
     map_option sop_state (op_row w' op) = Some SlIdle"
proof -
  note s = started_destructive [OF assms(1,3,4)]
  have t: "t \<in> set (sw_targets w)" using s(8) by (simp add: target_ctx_def)
  let ?n = "sw_namespaces w (st_namespace r)"
  show ?thesis
    using assms(8) unfolding s(1) run_resize_destructive_def
    by (clarsimp simp: sl_exec s assms(2,5,6) new_snapshot_def t new_operation_def unquiesce_quiesced [OF assms(7)])
qed

theorem resize_success_witness:
  "\<exists>w1 th w'. resize_destructive demo_sl_env demo_ctx ''op1'' ''snap1'' 5120 demo_tenant demo_storage = Inr (w1, th) \<and>
     snd (run_thread demo_sl_env (clean 24) (th, w1)) = w' \<and> map_option st_override (tenant_row w' ''acme'') = Some (Some 500)"
proof -
  obtain w1 th where d: "resize_destructive demo_sl_env demo_ctx ''op1'' ''snap1'' 5120 demo_tenant demo_storage = Inr (w1, th)"
    using demo_shrink by blast
  obtain th' w' where r: "run_thread demo_sl_env (clean 24) (th, w1) = (th', w')" by fastforce
  from resize_success [OF d _ _ _ _ _ _ r] d r show ?thesis by simp
qed


text \<open>The shrink that the patch of a tenant starts.\<close>

lemma patch_shrink_started:
  assumes "dispatch_resize env readable du op snap t (ShrinkTo m) w = ((None, w1), [th])" and "th_todo th = fst (run_resize_destructive m)"
  obtains r where "resize_destructive env legacy_ctx op snap m r w = Inr (w1, th)" "tenant_row w t = Some r" "st_id r = t" "st_state r = SlIdle"
proof -
  obtain x where d: "resize_decide readable du t (Some m) None w = Inr x" and c: "resize_commit env legacy_ctx op snap x w = Inr (w1, [th])"
    using assms(1) by (auto simp: dispatch_resize_def resize_tenant_def split: sum.splits if_splits)
  obtain r plan where x: "x = (r, m, plan)" and i: "idle_tenant w t = Inr r"
    using d by (auto simp: resize_decide_def Let_def split: sum.splits if_splits)
  have "plan = ResizeDestructive"
    using c assms(2) x by (cases plan) (auto simp: resize_commit_def resize_grow_def start_thread_def run_grow_online_def
        run_resize_destructive_def progress_def)
  then have "resize_destructive env legacy_ctx op snap m r w = Inr (w1, th)"
    using c x by (auto simp: resize_commit_def split: sum.splits)
  moreover have "tenant_row w t = Some r" "st_state r = SlIdle"
    using i by (auto simp: idle_tenant_def must_get_tenant_def must_be_idle_def tenant_row_def split: option.splits if_splits)
  ultimately show ?thesis using that [of r] first_SomeD [of "\<lambda>r. st_id r = t" "sw_tenants w" r] by (simp add: tenant_row_def)
qed

lemma started_rollback:
  assumes "rollback_to_snapshot env cx op t snap w = Inr (w1, th)"
  obtains r s where "tenant_row w t = Some r" "st_id r = t" "sn_id s = snap" "sn_tenant s = t" "sn_status s = Ready" "s \<in> set (sw_snapshots w)"
    "th = start_thread (job_for cx op snap (sn_path s) r) run_rollback_to_snapshot None"
    "w1 = begin_op env op t RestoreOp SlRestoring (Some snap) w"
proof -
  obtain r where r: "idle_tenant w t = Inr r" using assms by (auto simp: rollback_to_snapshot_def split: sum.splits)
  obtain s where s: "first (\<lambda>s. sn_id s = snap \<and> sn_tenant s = t \<and> sn_status s = Ready) (sw_snapshots w) = Some s"
    using assms r by (auto simp: rollback_to_snapshot_def split: option.splits)
  show ?thesis using that [of r s] assms r s first_SomeD [OF s] idle_tenantE [OF r] by (auto simp: rollback_to_snapshot_def)
qed

lemma rollback_without_target:
  assumes "rollback_to_snapshot env cx op t snap w = Inr (w1, th)" and "snap_row w snap = Some s"
    and "sn_target s = None" and "sn_subsystem s \<noteq> []" and "run_thread env (clean 4) (th, w1) = (th', w')"
  shows "finished th' \<and> th_failed th' \<and> sw_namespaces w' = sw_namespaces w"
proof -
  obtain r and s' :: snapshot_row where "tenant_row w t = Some r"
    and th: "th = start_thread (job_for cx op snap (sn_path s') r) run_rollback_to_snapshot None"
    and w1: "w1 = begin_op env op t RestoreOp SlRestoring (Some snap) w"
    by (rule started_rollback [OF assms(1)]) blast
  then show ?thesis
    using assms(5) unfolding th w1 run_rollback_to_snapshot_def by (clarsimp simp: sl_exec assms(2-4))
qed

lemma patch_shrink_run:
  assumes "dispatch_resize env readable du op snap t (ShrinkTo m) w = ((None, w1), [th])" and "th_todo th = fst (run_resize_destructive m)"
    and "snap_row w snap = None" and "op_row w op = None" and "tenant_row w t = Some r"
    and "ns_claim (sw_namespaces w (st_namespace r)) = Some c" and "names_unique (sw_namespaces w (st_namespace r))"
    and "run_thread env (clean 20) (th, w1) = (th2, w2)"
  shows "finished th2" "th_failed th2"
    and "tenant_row w2 t = Some (r\<lparr>st_state := SlFailed, st_active_op := None\<rparr>)"
    and "sw_namespaces w2 (st_namespace r) = set_claim (Some \<lparr>pv_request = size_str m, pv_capacity = Some (size_str m),
       pv_files = Map.empty\<rparr>) (sw_namespaces w (st_namespace r))"
    and "\<exists>x. snap_row w2 snap = Some x \<and> sn_tenant x = t \<and> sn_status x = Ready \<and> sn_target x = None \<and> sn_subsystem x \<noteq> []"
proof -
  obtain r' where d: "resize_destructive env legacy_ctx op snap m r' w = Inr (w1, th)" "tenant_row w t = Some r'" "st_id r' = t"
    using patch_shrink_started [OF assms(1,2)] by blast
  then have r: "r' = r" "st_id r = t" using assms(5) by simp_all
  note s = started_destructive [OF d(1) [unfolded r(1)] assms(3,4), unfolded r(2)]
  have "finished th2 \<and> th_failed th2 \<and> tenant_row w2 t = Some (r\<lparr>st_state := SlFailed, st_active_op := None\<rparr>) \<and>
     sw_namespaces w2 (st_namespace r) = set_claim (Some \<lparr>pv_request = size_str m, pv_capacity = Some (size_str m),
       pv_files = Map.empty\<rparr>) (sw_namespaces w (st_namespace r)) \<and>
     (\<exists>x. snap_row w2 snap = Some x \<and> sn_tenant x = t \<and> sn_status x = Ready \<and> sn_target x = None \<and> sn_subsystem x \<noteq> [])"
    using assms(8) unfolding s(1) run_resize_destructive_def
    by (clarsimp simp: sl_exec s assms(6) new_snapshot_def new_operation_def r unquiesce_quiesced [OF assms(7)] assms(5))
  then show "finished th2" "th_failed th2" "tenant_row w2 t = Some (r\<lparr>st_state := SlFailed, st_active_op := None\<rparr>)"
    "sw_namespaces w2 (st_namespace r) = set_claim (Some \<lparr>pv_request = size_str m, pv_capacity = Some (size_str m),
       pv_files = Map.empty\<rparr>) (sw_namespaces w (st_namespace r))"
    "\<exists>x. snap_row w2 snap = Some x \<and> sn_tenant x = t \<and> sn_status x = Ready \<and> sn_target x = None \<and> sn_subsystem x \<noteq> []"
    by blast+
qed

text \<open>C8: A shrink that comes with the patch of a tenant runs without a target, and the row of its snapshot has none. With no
  call failing, the volume is deleted and created anew, the restore stops at TARGET_REMOVED, and the tenant is started on an
  empty volume. Clearing the failure and rolling back to the snapshot stops at the same error.\<close>

theorem patch_shrink_loses_data:
  assumes "dispatch_resize env readable du op snap t (ShrinkTo m) w = ((None, w1), [th])" and "th_todo th = fst (run_resize_destructive m)"
    and "snap_row w snap = None" and "op_row w op = None" and "tenant_row w t = Some r"
    and "ns_claim (sw_namespaces w (st_namespace r)) = Some c" and "names_unique (sw_namespaces w (st_namespace r))"
    and "run_thread env (clean 20) (th, w1) = (th2, w2)" and "clear_failed_storage_state t w2 = Inr w3"
    and "rollback_to_snapshot env cx op2 t snap w3 = Inr (w4, th4)" and "run_thread env (clean 4) (th4, w4) = (th5, w5)"
  shows "finished th2 \<and> th_failed th2 \<and> map_option st_state (tenant_row w2 t) = Some SlFailed \<and>
     sw_namespaces w2 (st_namespace r) = set_claim (Some \<lparr>pv_request = size_str m, pv_capacity = Some (size_str m),
       pv_files = Map.empty\<rparr>) (sw_namespaces w (st_namespace r)) \<and>
     finished th5 \<and> th_failed th5 \<and> sw_namespaces w5 = sw_namespaces w2"
proof -
  note run = patch_shrink_run [OF assms(1-8)]
  obtain x :: snapshot_row where x: "snap_row w2 snap = Some x" "sn_target x = None" "sn_subsystem x \<noteq> []" using run(5) by blast
  have w3: "w3 = mark_tenant_state t SlIdle None w2"
    using assms(9) by (auto simp: clear_failed_storage_state_def split: option.splits if_splits)
  have "snap_row w3 snap = Some x" using x(1) by (simp add: w3 sl_world)
  from rollback_without_target [OF assms(10) this x(2,3) assms(11)] run show ?thesis by (simp add: w3 sl_world)
qed

lemma cleared_failure:
  assumes "tenant_row w t = Some r" and "st_state r = SlFailed"
  shows "\<exists>w'. clear_failed_storage_state t w = Inr w'" and "clear_failed_storage_state t w = Inr w' \<Longrightarrow> w' = mark_tenant_state t SlIdle None w"
    and "clear_failed_storage_state t w = Inr w' \<Longrightarrow> idle_tenant w' t = Inr (r\<lparr>st_state := SlIdle, st_active_op := None\<rparr>)"
  using assms by (auto simp: clear_failed_storage_state_def first_tenant idle_tenant_def must_get_tenant_def must_be_idle_def sl_world)

lemma four_kib: "required_bytes 4096 = 4506"
  by (simp add: required_bytes_at [of _ 64] round_even_def)

theorem patch_shrink_loses_data_witness:
  "\<exists>w1 th w2 w3 w4 th4 w5. dispatch_resize demo_sl_env True (Some 4096) ''op1'' ''snap1'' ''acme'' (ShrinkTo 5120) demo_storage = ((None, w1), [th]) \<and>
     snd (run_thread demo_sl_env (clean 20) (th, w1)) = w2 \<and> clear_failed_storage_state ''acme'' w2 = Inr w3 \<and>
     rollback_to_snapshot demo_sl_env demo_ctx ''op2'' ''acme'' ''snap1'' w3 = Inr (w4, th4) \<and>
     snd (run_thread demo_sl_env (clean 4) (th4, w4)) = w5 \<and> map_option pv_files (ns_claim (sw_namespaces w5 ''client-acme'')) = Some Map.empty"
proof -
  have "resize_decide True (Some 4096) ''acme'' (Some 5120) None demo_storage = Inr (demo_tenant, 5120, ResizeDestructive)"
    using four_kib by (simp add: resize_decide_def resize_dry_run_mib_def must_get_tenant_def first_def measure_pvc_used_def)
  moreover obtain w1 th where "resize_destructive demo_sl_env legacy_ctx ''op1'' ''snap1'' 5120 demo_tenant demo_storage = Inr (w1, th)"
      "th_todo th = fst (run_resize_destructive 5120)"
    by (simp add: resize_destructive_def insert_snapshot_def new_snapshot_def legacy_ctx_def start_thread_def Let_def)
  ultimately have d: "dispatch_resize demo_sl_env True (Some 4096) ''op1'' ''snap1'' ''acme'' (ShrinkTo 5120) demo_storage = ((None, w1), [th])"
      "th_todo th = fst (run_resize_destructive 5120)"
    by (simp_all add: dispatch_resize_def resize_tenant_def resize_commit_def)
  obtain th2 w2 where r: "run_thread demo_sl_env (clean 20) (th, w1) = (th2, w2)" by fastforce
  note run = patch_shrink_run [OF d demo_rows(1,2,3) _ _ r, simplified]
  obtain w3 where w3: "clear_failed_storage_state ''acme'' w2 = Inr w3" using cleared_failure(1) [OF run(3)] by auto
  obtain x :: snapshot_row where x: "snap_row w2 ''snap1'' = Some x" "sn_tenant x = ''acme''" "sn_status x = Ready" using run(5) by blast
  have "snap_row w3 ''snap1'' = Some x" using cleared_failure(2) [OF run(3) _ w3] x(1) by (simp add: sl_world)
  then have "first (\<lambda>s. sn_id s = ''snap1'' \<and> sn_tenant s = ''acme'' \<and> sn_status s = Ready) (sw_snapshots w3) = Some x"
    using x first_conj [of "\<lambda>s. sn_id s = ''snap1''" _ x "\<lambda>s. sn_tenant s = ''acme'' \<and> sn_status s = Ready"] by (simp add: snap_row_def)
  then obtain w4 th4 where b: "rollback_to_snapshot demo_sl_env demo_ctx ''op2'' ''acme'' ''snap1'' w3 = Inr (w4, th4)"
    using cleared_failure(3) [OF run(3) _ w3] by (simp add: rollback_to_snapshot_def)
  obtain th5 w5 where e: "run_thread demo_sl_env (clean 4) (th4, w4) = (th5, w5)" by fastforce
  from patch_shrink_loses_data [OF d demo_rows(1,2,3) _ _ r w3 b e] d(1) r w3 b e show ?thesis by (simp add: set_claim_def)
qed

section \<open>Archiving and restoring\<close>

lemma run_thread_parts: "run_thread env (fs @ gs) s = run_thread env gs (run_thread env fs s)"
  "run_thread env (f # gs) s = run_thread env gs (advance env f s)" "run_thread env [] s = s"
  by (simp_all add: run_thread_def)

lemma tenant_row_frame [sl_world]: "tenant_row (w\<lparr>sw_snapshots := x\<rparr>) t = tenant_row w t" "tenant_row (w\<lparr>sw_operations := y\<rparr>) t = tenant_row w t"
  "tenant_row (w\<lparr>sw_archives := z\<rparr>) t = tenant_row w t"
  by (simp_all add: tenant_row_def)

lemma started_archive:
  assumes "archive_tenant env cx op snap t ret w = Inr (w1, th)" and "snap_row w snap = None"
  obtains r s where "tenant_row w t = Some r" "st_id r = t" "st_status r \<noteq> TenantArchived"
    "s = new_snapshot env cx t snap PreArchive (Some (se_now env + int (case ret of None \<Rightarrow> 90 | Some d \<Rightarrow> d) * day_ms))"
    "th = start_thread (job_for cx op snap (reserve_path t snap) r) run_archive None"
    "sw_namespaces w1 = sw_namespaces w" "sw_targets w1 = sw_targets w" "sw_plans w1 = sw_plans w" "sw_archives w1 = sw_archives w"
    "tenant_row w1 t = Some (r\<lparr>st_state := SlQuiescing, st_active_op := Some op\<rparr>)"
    "snap_row w1 snap = Some s" "\<forall>x. cx_target cx = Some x \<longrightarrow> x \<in> set (sw_targets w)" "snap_rows w1 snap = [s]"
    "other_snaps w1 snap = sw_snapshots w"
proof -
  obtain r where r: "idle_tenant w t = Inr r" using assms(1) by (auto simp: archive_tenant_def split: sum.splits)
  let ?s = "new_snapshot env cx t snap PreArchive (Some (se_now env + int (case ret of None \<Rightarrow> 90 | Some d \<Rightarrow> d) * day_ms))"
  have w1: "w1 = begin_op env op t ArchiveOp SlQuiescing (Some snap) (w\<lparr>sw_snapshots := sw_snapshots w @ [?s]\<rparr>)"
    "th = start_thread (job_for cx op snap (reserve_path t snap) r) run_archive None" "st_status r \<noteq> TenantArchived"
    "\<forall>x. cx_target cx = Some x \<longrightarrow> x \<in> set (sw_targets w)"
    using assms(1) r by (auto simp: archive_tenant_def Let_def insert_snapshot_def new_snapshot_def split: if_splits option.splits)
  have "snap_rows w1 snap = [?s]" using assms(2)
    unfolding w1(1) by (simp add: snap_rows_def snap_row_def first_None_iff sl_world new_snapshot_def filter_empty_conv)
  note rows = this snap_row_rows [OF this]
  have t: "tenant_row w t = Some r" "st_id r = t" using idle_tenantE [OF r] by blast+
  have "other_snaps w1 snap = sw_snapshots w" using assms(2)
    unfolding w1(1) by (simp add: other_snaps_def snap_row_def first_None_iff sl_world new_snapshot_def)
  moreover have "sw_namespaces w1 = sw_namespaces w" "sw_targets w1 = sw_targets w" "sw_plans w1 = sw_plans w" "sw_archives w1 = sw_archives w"
    "tenant_row w1 t = Some (r\<lparr>st_state := SlQuiescing, st_active_op := Some op\<rparr>)"
    unfolding w1(1) using t by (simp_all add: sl_world tenant_row_frame)
  ultimately show ?thesis by (intro that [of r ?s] t rows w1(2-4)) simp_all
qed

lemma demo_archive: "\<exists>w1 th. archive_tenant demo_sl_env demo_ctx ''op1'' ''snap1'' ''acme'' None demo_storage = Inr (w1, th)"
  by (simp add: archive_tenant_def insert_snapshot_def new_snapshot_def target_ctx_def)

definition without_managed :: "tenant_namespace \<Rightarrow> tenant_namespace" where
  "without_managed n = n\<lparr>ns_deployments := filter (\<lambda>d. \<not> dp_managed d) (ns_deployments n),
     ns_cron_jobs := filter (\<lambda>c. \<not> cj_managed c) (ns_cron_jobs n)\<rparr>"

lemma delete_workloads_clean: "delete_all_workloads NoFault n = (without_managed n, True)"
  by (simp add: delete_all_workloads_def without_managed_def Let_def)

lemma managed_claim [simp]: "ns_claim (without_managed n) = ns_claim n"
  "scale_custom_deployments f k (set_claim c n) = set_claim c (scale_custom_deployments f k n)"
  by (simp_all add: without_managed_def set_claim_def scale_custom_deployments_def)

lemma archive_run:
  assumes "archive_tenant env (target_ctx tg cls) op snap t ret w = Inr (w1, th)" and "tg \<noteq> []" and "snap_row w snap = None"
    and "tenant_row w t = Some r" and "\<not> st_system r" and "ns_claim (sw_namespaces w (st_namespace r)) = Some c"
    and "run_thread env (clean 13) (th, w1) = (th', w')"
  shows "finished th'" "\<not> th_failed th'" "ns_claim (sw_namespaces w' (st_namespace r)) = None"
    and "tenant_row w' t = Some (r\<lparr>st_status := TenantArchived, st_archived_at := Some (se_now env), st_state := SlIdle, st_active_op := None\<rparr>)"
    and "sw_archives w' (TargetStore tg cls, reserve_path t snap) = Some (pv_files c)" "tg \<in> set (sw_targets w')" "sw_plans w' = sw_plans w"
    and "\<exists>s. snap_rows w' snap = [s] \<and> sn_id s = snap \<and> sn_tenant s = t \<and> sn_kind s = PreArchive \<and> sn_status s = Ready \<and>
        sn_path s = reserve_path t snap \<and> sn_created s = se_now env \<and> sn_target s = Some tg \<and> sn_class s = cls"
    and "other_snaps w' snap = sw_snapshots w"
proof -
  obtain r' and s :: snapshot_row where a: "tenant_row w t = Some r'" "st_id r' = t"
    "s = new_snapshot env (target_ctx tg cls) t snap PreArchive (Some (se_now env + int (case ret of None \<Rightarrow> 90 | Some d \<Rightarrow> d) * day_ms))"
    "th = start_thread (job_for (target_ctx tg cls) op snap (reserve_path t snap) r') run_archive None"
    "sw_namespaces w1 = sw_namespaces w" "sw_targets w1 = sw_targets w" "sw_plans w1 = sw_plans w" "sw_archives w1 = sw_archives w"
    "tenant_row w1 t = Some (r'\<lparr>st_state := SlQuiescing, st_active_op := Some op\<rparr>)"
    "snap_row w1 snap = Some s" "\<forall>x. cx_target (target_ctx tg cls) = Some x \<longrightarrow> x \<in> set (sw_targets w)" "snap_rows w1 snap = [s]"
    "other_snaps w1 snap = sw_snapshots w"
    by (rule started_archive [OF assms(1,3)])
  have r: "r' = r" "st_id r = t" using a(1,2) assms(4) by simp_all
  have tg: "tg \<in> set (sw_targets w)" using a(11) by (simp add: target_ctx_def)
  have "finished th' \<and> \<not> th_failed th' \<and> ns_claim (sw_namespaces w' (st_namespace r)) = None \<and>
     tenant_row w' t = Some (r\<lparr>st_status := TenantArchived, st_archived_at := Some (se_now env), st_state := SlIdle, st_active_op := None\<rparr>) \<and>
     sw_archives w' (TargetStore tg cls, reserve_path t snap) = Some (pv_files c) \<and> tg \<in> set (sw_targets w') \<and> sw_plans w' = sw_plans w \<and>
     (\<exists>s. snap_rows w' snap = [s] \<and> sn_id s = snap \<and> sn_tenant s = t \<and> sn_kind s = PreArchive \<and> sn_status s = Ready \<and>
        sn_path s = reserve_path t snap \<and> sn_created s = se_now env \<and> sn_target s = Some tg \<and> sn_class s = cls) \<and>
     other_snaps w' snap = sw_snapshots w"
    using assms(7) unfolding a(4) r(1) run_archive_def
    by (clarsimp simp: sl_exec sl_world a(5-13) r assms(2,4-6) tg guarded_system_row delete_workloads_clean a(3) new_snapshot_def stamp_status_def)
  then show "finished th'" "\<not> th_failed th'" "ns_claim (sw_namespaces w' (st_namespace r)) = None"
    "tenant_row w' t = Some (r\<lparr>st_status := TenantArchived, st_archived_at := Some (se_now env), st_state := SlIdle, st_active_op := None\<rparr>)"
    "sw_archives w' (TargetStore tg cls, reserve_path t snap) = Some (pv_files c)" "tg \<in> set (sw_targets w')" "sw_plans w' = sw_plans w"
    "\<exists>s. snap_rows w' snap = [s] \<and> sn_id s = snap \<and> sn_tenant s = t \<and> sn_kind s = PreArchive \<and> sn_status s = Ready \<and>
        sn_path s = reserve_path t snap \<and> sn_created s = se_now env \<and> sn_target s = Some tg \<and> sn_class s = cls"
    "other_snaps w' snap = sw_snapshots w"
    by blast+
qed

text \<open>C4: Archiving a tenant through a target and restoring it, when no call fails, gives its files back on a volume of the
  plan's size, whatever size it had, and makes it active.\<close>

theorem archive_restore_roundtrip:
  assumes "archive_tenant env (target_ctx tg cls) op snap t ret w = Inr (w1, th)" and "tg \<noteq> []" and "snap_row w snap = None"
    and "tenant_row w t = Some r" and "\<not> st_system r" and "ns_claim (sw_namespaces w (st_namespace r)) = Some c"
    and "\<forall>s \<in> set (sw_snapshots w). sn_created s < se_now env" and "run_thread env (clean 13) (th, w1) = (th', w2)"
  shows "\<exists>w3 th3. restore_archived_tenant env' cx op2 t None w2 = Inr (w3, th3) \<and>
     (case run_thread env' (clean 8) (th3, w3) of (th4, w4) \<Rightarrow> finished th4 \<and> \<not> th_failed th4 \<and>
       (let size = size_str (nat (get_plan_storage_gi w (st_plan r)) * 1024) in ns_claim (sw_namespaces w4 (st_namespace r)) =
          Some \<lparr>pv_request = size, pv_capacity = Some size, pv_files = pv_files c\<rparr>) \<and>
       tenant_row w4 t = Some (r\<lparr>st_status := TenantActive, st_suspended_at := None, st_archived_at := None, st_state := SlIdle, st_active_op := None\<rparr>))"
proof -
  note run = archive_run [OF assms(1-6,8)]
  obtain s :: snapshot_row where s: "snap_rows w2 snap = [s]" "sn_id s = snap" "sn_tenant s = t" "sn_kind s = PreArchive" "sn_status s = Ready"
      "sn_path s = reserve_path t snap" "sn_created s = se_now env" "sn_target s = Some tg" "sn_class s = cls" using run(8) by blast
  have "latest sn_created (filter (\<lambda>s. sn_tenant s = t \<and> sn_kind s = PreArchive \<and> sn_status s = Ready) (sw_snapshots w2)) = Some s"
    using s assms(7) snapshots_cases [OF s(1)] run(9) by (intro latest_max) auto
  moreover have "idle_tenant w2 t = Inr (r\<lparr>st_status := TenantArchived, st_archived_at := Some (se_now env), st_state := SlIdle, st_active_op := None\<rparr>)"
    by (rule idle_tenantI [OF run(4)]) simp
  moreover have "get_plan_storage_gi w2 p = get_plan_storage_gi w p" for p using run(7) by (simp add: get_plan_storage_gi_def)
  moreover have "st_id r = t" using assms(4) first_SomeD [of "\<lambda>r. st_id r = t" "sw_tenants w" r] by (simp add: tenant_row_def)
  ultimately show ?thesis
    by (simp add: restore_archived_tenant_def Let_def run_restore_archive_def sl_exec sl_world run s snap_row_rows [OF s(1)] assms(2)
        guarded_system_row stamp_status_def)
qed

theorem archive_restore_roundtrip_witness:
  "\<exists>w1 th w2. archive_tenant demo_sl_env demo_ctx ''op1'' ''snap1'' ''acme'' None demo_storage = Inr (w1, th) \<and>
     snd (run_thread demo_sl_env (clean 13) (th, w1)) = w2 \<and>
     (\<exists>w3 th3. restore_archived_tenant demo_sl_env legacy_ctx ''op2'' ''acme'' None w2 = Inr (w3, th3) \<and>
       map_option pv_files (ns_claim (sw_namespaces (snd (run_thread demo_sl_env (clean 8) (th3, w3))) ''client-acme'')) = Some demo_files)"
proof -
  obtain w1 th where d: "archive_tenant demo_sl_env demo_ctx ''op1'' ''snap1'' ''acme'' None demo_storage = Inr (w1, th)"
    using demo_archive by blast
  obtain th' w2 where r: "run_thread demo_sl_env (clean 13) (th, w1) = (th', w2)" by fastforce
  from archive_restore_roundtrip [OF d _ _ _ _ _ _ r, of demo_tenant _ demo_sl_env legacy_ctx "''op2''"]
  obtain w3 th3 where b: "restore_archived_tenant demo_sl_env legacy_ctx ''op2'' ''acme'' None w2 = Inr (w3, th3)"
    "map_option pv_files (ns_claim (sw_namespaces (snd (run_thread demo_sl_env (clean 8) (th3, w3))) ''client-acme'')) = Some demo_files"
    by (auto simp: Let_def split_def)
  show ?thesis by (metis b d r snd_conv)
qed

text \<open>When the first statement after the deletion of the volume fails, the handler of an archive marks its finished
  snapshot as failed. The archive has the files, and neither a restore nor a rollback will read it.\<close>

theorem archive_late_failure_strands_data:
  assumes "archive_tenant env (target_ctx tg cls) op snap t ret w = Inr (w1, th)" and "tg \<noteq> []" and "snap_row w snap = None"
    and "tenant_row w t = Some r" and "ns_claim (sw_namespaces w (st_namespace r)) = Some c"
    and "run_thread env (clean 9 @ FailBefore # clean 4) (th, w1) = (th', w')"
  shows "finished th' \<and> map_option st_state (tenant_row w' t) = Some SlFailed \<and> ns_claim (sw_namespaces w' (st_namespace r)) = None \<and>
     sw_archives w' (TargetStore tg cls, reserve_path t snap) = Some (pv_files c) \<and>
     (\<exists>w2. clear_failed_storage_state t w' = Inr w2 \<and> restore_archived_tenant env cx op2 t gi w2 = Inl (SlErr ''NOT_ARCHIVED'' 409) \<and>
        rollback_to_snapshot env cx op2 t snap w2 = Inl (SlErr ''SNAPSHOT_NOT_FOUND'' 404))"
proof -
  obtain r' and s :: snapshot_row where a: "tenant_row w t = Some r'" "st_id r' = t" "st_status r' \<noteq> TenantArchived"
    "th = start_thread (job_for (target_ctx tg cls) op snap (reserve_path t snap) r') run_archive None"
    "sw_namespaces w1 = sw_namespaces w" "sw_targets w1 = sw_targets w" "sw_archives w1 = sw_archives w"
    "tenant_row w1 t = Some (r'\<lparr>st_state := SlQuiescing, st_active_op := Some op\<rparr>)" "snap_row w1 snap = Some s" "snap_rows w1 snap = [s]"
    by (rule started_archive [OF assms(1,3)])
  have r: "r' = r" "st_id r = t" using a(1,2) assms(4) by simp_all
  have first: "finished th' \<and> tenant_row w' t = Some (r\<lparr>st_state := SlFailed, st_active_op := None\<rparr>) \<and>
      ns_claim (sw_namespaces w' (st_namespace r)) = None \<and>
      sw_archives w' (TargetStore tg cls, reserve_path t snap) = Some (pv_files c) \<and> map sn_status (snap_rows w' snap) = [SnapFailed]"
    using assms(6) unfolding a(4) r(1) run_archive_def
    by (clarsimp simp: run_thread_parts sl_exec sl_world a(5-10) r assms(2,4,5) delete_workloads_clean throws_def is_ok_def db_call_def)
  have row: "tenant_row w' t = Some (r\<lparr>st_state := SlFailed, st_active_op := None\<rparr>)" using first by simp
  obtain w2 where cl: "clear_failed_storage_state t w' = Inr w2" using cleared_failure(1) [OF row] by auto
  have w2: "w2 = mark_tenant_state t SlIdle None w'" and idle: "idle_tenant w2 t = Inr (r\<lparr>st_state := SlIdle, st_active_op := None\<rparr>)"
    using cleared_failure(2,3) [OF row _ cl] by simp_all
  have "map sn_status (snap_rows w2 snap) = [SnapFailed]" using first by (simp add: w2 sl_world)
  then have "sn_status s = SnapFailed" if "s \<in> set (snap_rows w2 snap)" for s
    using that by (metis image_eqI list.set_map list.simps(15) set_empty2 list.set(1) singletonD)
  then have "\<forall>s \<in> set (sw_snapshots w2). sn_id s = snap \<longrightarrow> sn_status s = SnapFailed" by (simp add: snap_rows_def)
  then have "first (\<lambda>s. sn_id s = snap \<and> sn_tenant s = t \<and> sn_status s = Ready) (sw_snapshots w2) = None"
    by (auto simp: first_None_iff)
  then show ?thesis using first idle cl a(3) r by (simp add: restore_archived_tenant_def rollback_to_snapshot_def)
qed

theorem archive_late_failure_strands_data_witness:
  "\<exists>w1 th w'. archive_tenant demo_sl_env demo_ctx ''op1'' ''snap1'' ''acme'' None demo_storage = Inr (w1, th) \<and>
     snd (run_thread demo_sl_env (clean 9 @ FailBefore # clean 4) (th, w1)) = w' \<and> ns_claim (sw_namespaces w' ''client-acme'') = None \<and>
     sw_archives w' (TargetStore ''s3'' ''tenant_snapshot'', ''acme/snap1.tar.gz'') = Some demo_files"
proof -
  obtain w1 th where d: "archive_tenant demo_sl_env demo_ctx ''op1'' ''snap1'' ''acme'' None demo_storage = Inr (w1, th)"
    using demo_archive by blast
  obtain th' w' where r: "run_thread demo_sl_env (clean 9 @ FailBefore # clean 4) (th, w1) = (th', w')" by fastforce
  from archive_late_failure_strands_data [OF d _ _ _ _ r] d r show ?thesis by (simp add: reserve_path_def)
qed

text \<open>Nothing stops an archive of the platform's own tenant before its workloads and its volume are gone: the hook that
  protects it is asked when the rest is done, and then the tenant is active, idle, and without a volume.\<close>

theorem archive_deletes_system_volume:
  assumes "archive_tenant env (target_ctx tg cls) op snap t ret w = Inr (w1, th)" and "tg \<noteq> []" and "snap_row w snap = None"
    and "tenant_row w t = Some r" and "st_system r" and "ns_claim (sw_namespaces w (st_namespace r)) = Some c"
    and "run_thread env (clean 13) (th, w1) = (th', w')"
  shows "finished th' \<and> \<not> th_failed th' \<and> sw_namespaces w' (st_namespace r) = without_managed (quiesced (set_claim None (sw_namespaces w (st_namespace r)))) \<and>
     tenant_row w' t = Some (r\<lparr>st_state := SlIdle, st_active_op := None\<rparr>)"
proof -
  obtain r' and s :: snapshot_row where a: "tenant_row w t = Some r'" "st_id r' = t"
    "th = start_thread (job_for (target_ctx tg cls) op snap (reserve_path t snap) r') run_archive None"
    "sw_namespaces w1 = sw_namespaces w" "sw_targets w1 = sw_targets w" "sw_archives w1 = sw_archives w"
    "tenant_row w1 t = Some (r'\<lparr>st_state := SlQuiescing, st_active_op := Some op\<rparr>)" "snap_row w1 snap = Some s"
    by (rule started_archive [OF assms(1,3)])
  have r: "r' = r" "st_id r = t" using a(1,2) assms(4) by simp_all
  have "without_managed (quiesced (set_claim None n)) = set_claim None (without_managed (quiesced n))" for n
    by (simp add: without_managed_def quiesced_def set_claim_def)
  then show ?thesis
    using assms(7) unfolding a(3) r(1) run_archive_def
    by (clarsimp simp: sl_exec sl_world a(4-8) r assms(2,4-6) guarded_system_row delete_workloads_clean)
qed

theorem archive_deletes_system_volume_witness:
  "\<exists>w1 th. archive_tenant demo_sl_env demo_ctx ''op1'' ''snap1'' ''acme'' None (demo_storage\<lparr>sw_tenants := [demo_tenant\<lparr>st_system := True\<rparr>]\<rparr>) = Inr (w1, th) \<and>
     ns_claim (sw_namespaces (snd (run_thread demo_sl_env (clean 13) (th, w1))) ''client-acme'') = None"
proof -
  let ?w = "demo_storage\<lparr>sw_tenants := [demo_tenant\<lparr>st_system := True\<rparr>]\<rparr>"
  have row: "tenant_row ?w ''acme'' = Some (demo_tenant\<lparr>st_system := True\<rparr>)" "snap_row ?w i = None" for i
    by (simp_all add: tenant_row_def snap_row_def first_def)
  have "idle_tenant ?w ''acme'' = Inr (demo_tenant\<lparr>st_system := True\<rparr>)" by (rule idle_tenantI [OF row(1)]) simp
  then obtain w1 th where d: "archive_tenant demo_sl_env demo_ctx ''op1'' ''snap1'' ''acme'' None ?w = Inr (w1, th)"
    by (simp add: archive_tenant_def insert_snapshot_def new_snapshot_def target_ctx_def)
  obtain th' w' where r: "run_thread demo_sl_env (clean 13) (th, w1) = (th', w')" by fastforce
  from archive_deletes_system_volume [OF d _ row(2) row(1) _ _ r] d r show ?thesis
    by (simp add: without_managed_def quiesced_def set_claim_def)
qed


definition demo_snapshot :: snapshot_row where
  "demo_snapshot = (new_snapshot demo_sl_env demo_ctx ''acme'' ''snap1'' Manual None)\<lparr>sn_status := Ready\<rparr>"


end
