(* ===== verification/StorageSystem.thy ===== *)
theory StorageSystem
  imports StorageProps
begin

text \<open>
  Storage operations of many tenants at once: a step relation on the world and the threads that are under way. A step
  starts an operation, lets one thread make its next call, loses all threads (the process is restarted), clears a
  failed state, or deletes and expires snapshots. The requests' checks and their transaction are one step here;
  cancelling is not one of the steps.
\<close>

section \<open>Steps\<close>

inductive sl_starts :: "sl_world \<Rightarrow> sl_world \<Rightarrow> sl_thread list \<Rightarrow> bool" where
  starts_snapshot: "snapshot_tenant env cx op snap t k ret w = Inr (w', th) \<Longrightarrow> op_row w op = None \<Longrightarrow> sl_starts w w' [th]"
| starts_resize: "resize_tenant env cx readable du op snap t m g w = Inr (w', ths) \<Longrightarrow> op_row w op = None \<Longrightarrow> sl_starts w w' ths"
| starts_suspend: "suspend_tenant env cx op t w = Inr (w', th) \<Longrightarrow> op_row w op = None \<Longrightarrow> sl_starts w w' [th]"
| starts_resume: "resume_tenant env cx op t w = Inr (w', th) \<Longrightarrow> op_row w op = None \<Longrightarrow> sl_starts w w' [th]"
| starts_archive: "archive_tenant env cx op snap t ret w = Inr (w', th) \<Longrightarrow> op_row w op = None \<Longrightarrow> sl_starts w w' [th]"
| starts_restore: "restore_archived_tenant env cx op t g w = Inr (w', th) \<Longrightarrow> op_row w op = None \<Longrightarrow> sl_starts w w' [th]"
| starts_rollback: "rollback_to_snapshot env cx op t snap w = Inr (w', th) \<Longrightarrow> op_row w op = None \<Longrightarrow> sl_starts w w' [th]"
| starts_fsck: "start_fsck env cx op t w = Inr (w', th) \<Longrightarrow> op_row w op = None \<Longrightarrow> sl_starts w w' [th]"

definition releasing :: "sl_call \<Rightarrow> bool" where
  "releasing c = (case c of CMarkTenant s \<Rightarrow> True | CMarkFsck \<Rightarrow> True | _ \<Rightarrow> False)"

text \<open>The statement that releases the tenant either fails or succeeds, and the read that follows it in a snapshot
  succeeds. (When they do not, the handler runs on a tenant that is free already.)\<close>

definition heard :: "fault \<Rightarrow> sl_thread \<Rightarrow> bool" where
  "heard f th = (case th_todo th of
       Must c # rest \<Rightarrow> (releasing c \<longrightarrow> (case f of FailAfter \<Rightarrow> False | _ \<Rightarrow> True)) \<and> (c = CTouch \<and> rest = [] \<longrightarrow> is_ok f)
     | _ \<Rightarrow> True)"

inductive sl_step :: "sl_world \<times> sl_thread list \<Rightarrow> sl_world \<times> sl_thread list \<Rightarrow> bool" where
  step_start: "sl_starts w w' ths \<Longrightarrow> sl_step (w, T) (w', ths @ T)"
| step_call: "heard f th \<Longrightarrow> advance env f (th, w) = (th', w') \<Longrightarrow> sl_step (w, T @ th # T') (w', T @ th' # T')"
| step_restart: "sl_step (w, T) (w, [])"
| step_clear: "clear_failed_storage_state t w = Inr w' \<Longrightarrow> sl_step (w, T) (w', T)"
| step_delete: "delete_snapshot f cx s w = Inr w' \<Longrightarrow> sl_step (w, T) (w', T)"
| step_expire: "sl_step (w, T) (expire_snapshots f env cx w, T)"

inductive_cases sl_stepE: "sl_step (w, T) (w', T')"

inductive sl_reachable :: "sl_world \<times> sl_thread list \<Rightarrow> bool" where
  sl_initial: "sl_reachable (w, [])"
| sl_more: "sl_reachable s \<Longrightarrow> sl_step s s' \<Longrightarrow> sl_reachable s'"

section \<open>The lock\<close>

text \<open>The calls of a thread release the tenant at the very end, and keep it from being idle or failed until then.\<close>

fun step_call_of :: "sl_step \<Rightarrow> sl_call" where
  "step_call_of (Must c) = c"
| "step_call_of (Try c) = c"

fun lock_ok :: "sl_step list \<Rightarrow> bool" where
  "lock_ok [] = True"
| "lock_ok (s # ss) = (if releasing (step_call_of s) then (case s of Must c \<Rightarrow> True | Try c \<Rightarrow> False) \<and> ss \<in> {[], [Must CTouch]}
     else step_call_of s \<notin> {CSyncTenant SlIdle, CSyncTenant SlFailed} \<and> lock_ok ss)"

definition holding :: "sl_thread \<Rightarrow> bool" where
  "holding th = (th_todo th \<noteq> [] \<and> th_todo th \<noteq> [Must CTouch])"

definition has_lock :: "sl_world \<Rightarrow> sl_job \<Rightarrow> bool" where
  "has_lock w j = (\<exists>r. tenant_row w (jb_tenant j) = Some r \<and> st_active_op r = Some (jb_op j) \<and> st_state r \<notin> {SlIdle, SlFailed})"

definition lock_inv :: "sl_world \<times> sl_thread list \<Rightarrow> bool" where
  "lock_inv s = (distinct (map (jb_op \<circ> th_job) (snd s)) \<and> (\<forall>th \<in> set (snd s). lock_ok (th_todo th) \<and> lock_ok (th_handler th) \<and>
     th_handler th \<noteq> [Must CTouch] \<and> op_row (fst s) (jb_op (th_job th)) \<noteq> None \<and> (holding th \<longrightarrow> has_lock (fst s) (th_job th))))"

section \<open>What a call does to the tenants\<close>

lemma ns_call_world: "fst (ns_call k g w) = update_namespace k (\<lambda>_. fst (g (sw_namespaces w k))) w"
  by (simp add: ns_call_def split_def)

lemma restore_world: "\<exists>g. fst (restore_tenant_pvc f st p k w) = update_namespace k g w"
proof (cases "ns_claim (sw_namespaces w k)")
  case None
  then have "fst (restore_tenant_pvc f st p k w) = update_namespace k (\<lambda>n. n) w" by (simp add: restore_tenant_pvc_def update_namespace_def)
  then show ?thesis by blast
qed (auto simp: restore_tenant_pvc_def split_def)

lemma take_world: "\<exists>a. fst (snapshot_tenant_pvc f st p k w) = w\<lparr>sw_archives := a\<rparr>"
  by (cases "ns_claim (sw_namespaces w k)"; cases f) (auto simp: snapshot_tenant_pvc_def intro: exI [of _ "sw_archives w"])

text \<open>An observer that these updates do not change is not changed by a call, as long as it is not changed by the state
  the call gives to tenants.\<close>

locale world_observer =
  fixes obs :: "sl_world \<Rightarrow> 'v"
  assumes obs_namespace: "obs (update_namespace k g w) = obs w" and obs_snapshot: "obs (update_snapshot i u w) = obs w"
    and obs_op: "(\<And>r. sop_id (v r) = sop_id r) \<Longrightarrow> obs (update_op i v w) = obs w"
    and obs_cascade: "obs (cascade f now t k s w) = obs w" and obs_size: "obs (persist_size t m w) = obs w"
    and obs_archives: "obs (w\<lparr>sw_archives := a\<rparr>) = obs w"
begin

lemma obs_db_call: "(\<And>w. obs (g w) = obs w) \<Longrightarrow> obs (fst (db_call f g w)) = obs w"
  using db_call_fst [of f g w] by auto

lemma obs_restore: "obs (fst (restore_tenant_pvc f st p k w)) = obs w"
  using restore_world [of f st p k w] obs_namespace by metis

lemma obs_take: "obs (fst (snapshot_tenant_pvc f st p k w)) = obs w"
  using take_world [of f st p k w] obs_archives by metis

lemma obs_exec:
  assumes "\<And>i s w. c = CSyncTenant s \<Longrightarrow> obs (sync_tenant_state i s w) = obs w"
    and "\<And>t s w. releasing c \<Longrightarrow> obs (mark_tenant_state t s None w) = obs w"
  shows "obs (snd (fst (exec_call env j c f (l, w)))) = obs w"
proof -
  have "obs (fst (world_call env j l c f w)) = obs w"
    using assms by (cases c) (simp_all add: ns_call_world obs_namespace obs_snapshot obs_op obs_cascade obs_size obs_db_call obs_restore
        complete_op_def fail_op_def releasing_def split: option.split)
  then show ?thesis using obs_take obs_namespace by (cases c) (simp_all add: split_def split: option.split)
qed

end

definition op_known :: "sl_world \<Rightarrow> string \<Rightarrow> bool" where
  "op_known w i = (i \<in> sop_id ` set (sw_operations w))"

lemma op_known_row: "op_row w i = None \<longleftrightarrow> \<not> op_known w i"
  by (auto simp: op_row_def op_known_def first_None_iff)

lemma op_known_updates [simp]:
  "op_known (mark_tenant_state t s x w) = op_known w" "op_known (sync_tenant_state i s w) = op_known w"
  "op_known (persist_size t m w) = op_known w" "op_known (update_snapshot i v w) = op_known w"
  "op_known (update_namespace n g w) = op_known w" "op_known (sw_archives_update a w) = op_known w"
  "op_known (sw_tenants_update b w) = op_known w" "op_known (sw_snapshots_update d w) = op_known w"
  by (simp_all add: op_known_def [abs_def] mark_tenant_state_def sync_tenant_state_def persist_size_def update_snapshot_def update_namespace_def)

lemma op_known_update_op [simp]: "(\<And>r. sop_id (u r) = sop_id r) \<Longrightarrow> op_known (update_op i u w) = op_known w"
proof -
  assume "\<And>r. sop_id (u r) = sop_id r"
  then have "map sop_id (sw_operations (update_op i u w)) = map sop_id (sw_operations w)" by (simp add: update_op_def map_set_where)
  then have "sop_id ` set (sw_operations (update_op i u w)) = sop_id ` set (sw_operations w)" by (metis list.set_map)
  then show ?thesis by (simp add: op_known_def fun_eq_iff)
qed

lemma op_known_cascade [simp]: "op_known (cascade f now t n s w) = op_known w"
  by (auto simp: cascade_def Let_def split: fault.split)

interpretation known: world_observer op_known
  by unfold_locales simp_all

lemma op_known_exec: "op_known (snd (fst (exec_call env j c f (l, w)))) = op_known w"
  by (rule known.obs_exec) simp_all

text \<open>Who holds a tenant: its active operation, and whether its state is idle or failed.\<close>

definition lock_view :: "sl_world \<Rightarrow> string \<Rightarrow> (string option \<times> bool) option" where
  "lock_view w t = map_option (\<lambda>r. (st_active_op r, st_state r \<in> {SlIdle, SlFailed})) (tenant_row w t)"

lemma has_lock_view: "has_lock w j \<longleftrightarrow> lock_view w (jb_tenant j) = Some (Some (jb_op j), False)"
  by (auto simp: has_lock_def lock_view_def)

lemma tenant_row_set_where:
  assumes "\<And>r. st_id (u r) = st_id r"
  shows "tenant_row (w\<lparr>sw_tenants := set_where p u ts\<rparr>) t = map_option (\<lambda>r. if p r then u r else r) (first (\<lambda>r. st_id r = t) ts)"
  unfolding tenant_row_def using assms by (simp add: first_set_where)

lemma lock_view_mark: "lock_view (mark_tenant_state t s x w) t' = (if t' = t then map_option (\<lambda>_. (x, s \<in> {SlIdle, SlFailed})) (lock_view w t) else lock_view w t')"
proof (cases "tenant_row w t'")
  case (Some r)
  then have "st_id r = t'" using first_SomeD [of "\<lambda>r. st_id r = t'" "sw_tenants w" r] by (simp add: tenant_row_def)
  with Some show ?thesis by (auto simp: lock_view_def mark_tenant_state_def tenant_row_set_where first_tenant)
qed (auto simp: lock_view_def mark_tenant_state_def tenant_row_set_where first_tenant)

lemma lock_view_sync: "s \<notin> {SlIdle, SlFailed} \<Longrightarrow> lock_view (sync_tenant_state i s w) t =
    map_option (\<lambda>(x, b). (x, b \<and> x \<noteq> Some i)) (lock_view w t)"
  by (cases "tenant_row w t") (auto simp: lock_view_def sync_tenant_state_def tenant_row_set_where first_tenant)

lemma lock_view_frame [simp]:
  "lock_view (update_op i u w) = lock_view w" "lock_view (update_snapshot i v w) = lock_view w"
  "lock_view (update_namespace n g w) = lock_view w" "lock_view (sw_archives_update a w) = lock_view w"
  "lock_view (w\<lparr>sw_operations := x\<rparr>) = lock_view w" "lock_view (w\<lparr>sw_snapshots := y\<rparr>) = lock_view w"
  by (simp_all add: lock_view_def [abs_def] sl_world tenant_row_frame)

lemma lock_view_size [simp]: "lock_view (persist_size q m w) = lock_view w"
proof
  show "lock_view (persist_size q m w) t = lock_view w t" for t
    by (cases "tenant_row w t") (simp_all add: lock_view_def persist_size_def tenant_row_set_where first_tenant)
qed

lemma lock_view_stamp: "sw_tenants v = sw_tenants w \<Longrightarrow> lock_view (v\<lparr>sw_tenants := set_where p (stamp_status now s) (sw_tenants w)\<rparr>) = lock_view w"
proof
  show "lock_view (v\<lparr>sw_tenants := set_where p (stamp_status now s) (sw_tenants w)\<rparr>) t = lock_view w t" for t
    by (cases "tenant_row w t") (simp_all add: lock_view_def tenant_row_set_where first_tenant)
qed

lemma lock_view_cascade [simp]: "lock_view (cascade f now t n s w) = lock_view w"
  by (auto simp: cascade_def Let_def lock_view_stamp sl_world split: fault.split)

interpretation locks: world_observer lock_view
  by unfold_locales simp_all

lemma lock_view_exec:
  assumes "\<not> releasing c" and "\<forall>s. c \<noteq> CSyncTenant s"
  shows "lock_view (snd (fst (exec_call env j c f (l, w)))) = lock_view w"
  using assms by (intro locks.obs_exec) simp_all

text \<open>Every call leaves the other tenants alone, as far as their locks go.\<close>

lemma has_lock_exec:
  assumes "has_lock w j'" and "jb_op j' \<noteq> jb_op j" and "jb_tenant j' \<noteq> jb_tenant j" and "c \<notin> {CSyncTenant SlIdle, CSyncTenant SlFailed}"
  shows "has_lock (snd (fst (exec_call env j c f (l, w)))) j'"
proof -
  consider s where "c = CSyncTenant s" "s \<notin> {SlIdle, SlFailed}" | "releasing c" | "\<not> releasing c" "\<forall>s. c \<noteq> CSyncTenant s"
    using assms(4) by (cases c) (auto simp: releasing_def)
  then show ?thesis
  proof cases
    case 1
    then show ?thesis using assms(1,2) db_call_fst [of f "sync_tenant_state (jb_op j) s" w]
      by (auto simp: split_def has_lock_view lock_view_sync)
  next
    case 2
    then obtain s where "snd (fst (exec_call env j c f (l, w))) = mark_tenant_state (jb_tenant j) s None w \<or> snd (fst (exec_call env j c f (l, w))) = w"
      by (cases c; cases f) (auto simp: releasing_def db_call_def)
    then show ?thesis using assms(1,3) by (auto simp: has_lock_view lock_view_mark)
  qed (use assms(1) in \<open>simp add: has_lock_view lock_view_exec\<close>)
qed

text \<open>A thread keeps its own lock until it releases it.\<close>

lemma own_lock_exec:
  assumes "has_lock w j" and "\<not> releasing c" and "c \<notin> {CSyncTenant SlIdle, CSyncTenant SlFailed}"
  shows "has_lock (snd (fst (exec_call env j c f (l, w)))) j"
proof (cases "\<exists>s. c = CSyncTenant s")
  case True
  then obtain s where "c = CSyncTenant s" by blast
  then show ?thesis using assms(1,3) db_call_fst [of f "sync_tenant_state (jb_op j) s" w]
    by (auto simp: split_def has_lock_view lock_view_sync)
qed (use assms in \<open>simp add: has_lock_view lock_view_exec\<close>)

lemma release_fails:
  assumes "releasing c" and "snd (exec_call env j c f (l, w)) = False" and "\<not> (case f of FailAfter \<Rightarrow> True | _ \<Rightarrow> False)"
  shows "snd (fst (exec_call env j c f (l, w))) = w"
  using assms by (cases c; cases f) (auto simp: releasing_def db_call_def)

section \<open>The invariant\<close>

lemma advance_frame: "th_job (fst (advance env f (th, w))) = th_job th" "op_known (snd (advance env f (th, w))) = op_known w"
proof -
  have known: "op_known w' = op_known w" if "exec_call env j c f (l, w) = ((l', w'), ok)" for j c l l' w' ok
    using op_known_exec [of env j c f l w] that by simp
  show "th_job (fst (advance env f (th, w))) = th_job th"
    by (simp split: list.split sl_step.split prod.split)
  show "op_known (snd (advance env f (th, w))) = op_known w"
    by (auto split: list.split sl_step.split prod.split simp del: exec_call.simps dest: known)
qed

lemma lock_ok_Cons: "lock_ok (s # ss) \<Longrightarrow> step_call_of s \<notin> {CSyncTenant SlIdle, CSyncTenant SlFailed}"
  by (cases "step_call_of s") (auto simp: releasing_def split: if_splits)

lemma advance_lock:
  assumes "lock_ok (th_todo th)" "lock_ok (th_handler th)" "th_handler th \<noteq> [Must CTouch]" "holding th \<longrightarrow> has_lock w (th_job th)"
    and "heard f th" and "advance env f (th, w) = (th', w')"
  shows "lock_ok (th_todo th') \<and> lock_ok (th_handler th') \<and> th_handler th' \<noteq> [Must CTouch] \<and> (holding th' \<longrightarrow> has_lock w' (th_job th'))"
proof (cases "th_todo th")
  case (Cons s rest)
  obtain l' v ok where e: "exec_call env (th_job th) (step_call_of s) f (th_locals th, w) = ((l', v), ok)" by (metis prod.collapse)
  have sync: "step_call_of s \<notin> {CSyncTenant SlIdle, CSyncTenant SlFailed}" using assms(1) Cons lock_ok_Cons by simp
  show ?thesis
  proof (cases "th_todo th = [Must CTouch]")
    case True
    then have "is_ok f" using assms(5) by (simp add: heard_def)
    then show ?thesis using assms(2,3,6) True by (auto simp: holding_def)
  next
    case False
    then have lock: "has_lock w (th_job th)" using assms(4) Cons by (simp add: holding_def)
    show ?thesis
    proof (cases "releasing (step_call_of s)")
      case True
      obtain c where c: "s = Must c" "rest \<in> {[], [Must CTouch]}" using assms(1) Cons True by (cases s) auto
      have "\<not> ok \<Longrightarrow> v = w" using release_fails [of c env "th_job th" f "th_locals th" w] e c(1) True assms(5) Cons
        by (auto simp: heard_def split: fault.splits)
      then show ?thesis using assms(2,3,6) Cons c e lock by (auto simp: holding_def releasing_def split: if_splits)
    next
      case free: False
      then have "has_lock v (th_job th)" using own_lock_exec [OF lock free sync, of env f "th_locals th"] e by simp
      moreover have "lock_ok rest" using assms(1) Cons free by simp
      ultimately show ?thesis using assms(2,3,6) Cons e by (cases s) (auto split: if_splits)
    qed
  qed
qed (use assms in \<open>auto simp: holding_def\<close>)

lemma advance_other:
  assumes "lock_ok (th_todo th)" "holding th \<longrightarrow> has_lock w (th_job th)" "has_lock w j'" "jb_op j' \<noteq> jb_op (th_job th)"
    and "advance env f (th, w) = (th', w')"
  shows "has_lock w' j'"
proof (cases "th_todo th")
  case (Cons s rest)
  obtain l' v ok where e: "exec_call env (th_job th) (step_call_of s) f (th_locals th, w) = ((l', v), ok)" by (metis prod.collapse)
  have w': "w' = v" using assms(5) Cons e by (cases s) (auto split: if_splits)
  show ?thesis
  proof (cases "holding th")
    case True
    then have other: "jb_tenant j' \<noteq> jb_tenant (th_job th)" using assms(2-4) by (auto simp: has_lock_def)
    have "lock_ok (s # rest)" using assms(1) unfolding Cons .
    from has_lock_exec [OF assms(3,4) other lock_ok_Cons [OF this], of env f "th_locals th"] e w' show ?thesis by simp
  next
    case False
    then have "s = Must CTouch" using Cons by (simp add: holding_def)
    then show ?thesis using e w' assms(3) by simp
  qed
qed (use assms in simp)

text \<open>What starting an operation does: a fresh row, and a thread that holds a tenant that was idle.\<close>

definition good_start :: "sl_world \<Rightarrow> sl_world \<Rightarrow> string \<Rightarrow> sl_thread list \<Rightarrow> bool" where
  "good_start w w' op ths = ((\<forall>i. op_known w' i \<longleftrightarrow> op_known w i \<or> i = op) \<and> \<not> op_known w op \<and>
     (ths = [] \<and> lock_view w' = lock_view w \<or>
      (\<exists>th. ths = [th] \<and> jb_op (th_job th) = op \<and> lock_ok (th_todo th) \<and> lock_ok (th_handler th) \<and> th_handler th \<noteq> [Must CTouch] \<and>
        (\<exists>x. lock_view w (jb_tenant (th_job th)) = Some (x, True)) \<and>
        lock_view w' = (lock_view w)(jb_tenant (th_job th) := Some (Some op, False)))))"

lemma begin_op_start:
  assumes "idle_tenant w t = Inr r" and "\<not> op_known w op" and "s \<notin> {SlIdle, SlFailed}" and "lock_view w0 = lock_view w" and "op_known w0 = op_known w"
    and "lock_ok (fst p) \<and> lock_ok (snd p) \<and> snd p \<noteq> [Must CTouch]"
  shows "good_start w (begin_op env op t ty s snap w0) op [start_thread (job_for cx op sn path r) p q]"
proof -
  obtain row: "tenant_row w t = Some r" "st_id r = t" "st_state r = SlIdle" using idle_tenantE [OF assms(1)] by blast
  have v: "lock_view w t = Some (st_active_op r, True)" using row by (simp add: lock_view_def)
  have "lock_view (begin_op env op t ty s snap w0) = (lock_view w)(t := Some (Some op, False))"
    using assms(3) by (intro ext) (simp add: begin_op_def lock_view_mark assms(4) v)
  moreover have "op_known (begin_op env op t ty s snap w0) i \<longleftrightarrow> op_known w i \<or> i = op" for i
    using assms(5) by (auto simp: begin_op_def op_known_def fun_eq_iff new_operation_def)
  ultimately show ?thesis using assms(2,6) row(2) v by (auto simp: good_start_def start_thread_def job_for_def)
qed

lemma insert_frame: "insert_snapshot s w = Inr w' \<Longrightarrow> lock_view w' = lock_view w \<and> op_known w' = op_known w"
  by (auto simp: insert_snapshot_def split: option.splits if_splits)

lemmas orchestrators = run_snapshot_def run_grow_online_def run_resize_destructive_def run_archive_def run_restore_archive_def
  run_rollback_to_snapshot_def run_suspend_def run_resume_def run_fsck_def progress_def releasing_def

lemma orchestrators_locked:
  "lock_ok (fst run_snapshot) \<and> lock_ok (snd run_snapshot) \<and> snd run_snapshot \<noteq> [Must CTouch]"
  "lock_ok (fst (run_grow_online m)) \<and> lock_ok (snd (run_grow_online m)) \<and> snd (run_grow_online m) \<noteq> [Must CTouch]"
  "lock_ok (fst (run_resize_destructive m)) \<and> lock_ok (snd (run_resize_destructive m)) \<and> snd (run_resize_destructive m) \<noteq> [Must CTouch]"
  "lock_ok (fst run_archive) \<and> lock_ok (snd run_archive) \<and> snd run_archive \<noteq> [Must CTouch]"
  "lock_ok (fst (run_restore_archive g)) \<and> lock_ok (snd (run_restore_archive g)) \<and> snd (run_restore_archive g) \<noteq> [Must CTouch]"
  "lock_ok (fst run_rollback_to_snapshot) \<and> lock_ok (snd run_rollback_to_snapshot) \<and> snd run_rollback_to_snapshot \<noteq> [Must CTouch]"
  "lock_ok (fst run_suspend) \<and> lock_ok (snd run_suspend) \<and> snd run_suspend \<noteq> [Must CTouch]"
  "lock_ok (fst run_resume) \<and> lock_ok (snd run_resume) \<and> snd run_resume \<noteq> [Must CTouch]"
  "lock_ok (fst run_fsck) \<and> lock_ok (snd run_fsck) \<and> snd run_fsck \<noteq> [Must CTouch]"
  by (simp_all add: orchestrators)

lemma resize_start:
  assumes "resize_tenant env cx readable du op snap t m g w = Inr (w', ths)" and new: "\<not> op_known w op"
  shows "good_start w w' op ths"
proof -
  obtain r mib plan where d: "resize_decide readable du t m g w = Inr (r, mib, plan)" and c: "resize_commit env cx op snap (r, mib, plan) w = Inr (w', ths)"
    using assms(1) by (auto simp: resize_tenant_def split: sum.splits)
  have i: "idle_tenant w t = Inr r" using d by (auto simp: resize_decide_def Let_def split: sum.splits if_splits)
  then have t: "st_id r = t" using idle_tenantE by blast
  show ?thesis
  proof (cases plan)
    case ResizeNoop
    then show ?thesis using c new by (auto simp: resize_commit_def good_start_def op_known_def new_operation_def)
  next
    case ResizeGrow
    then have s: "w' = begin_op env op t ResizeOp SlResizing None w" "ths = [start_thread (job_for cx op [] [] r) (run_grow_online mib) None]"
      using c t by (simp_all add: resize_commit_def resize_grow_def)
    show ?thesis unfolding s by (rule begin_op_start [OF i new _ _ _ orchestrators_locked(2)]) simp_all
  next
    case ResizeDestructive
    then obtain w0 where s: "insert_snapshot (new_snapshot env cx t snap PreResize (Some (se_now env + 7 * day_ms))) w = Inr w0"
        "w' = begin_op env op t ResizeOp SlSnapshotting (Some snap) w0"
        "ths = [start_thread (job_for cx op snap (reserve_path t snap) r) (run_resize_destructive mib) None]"
      using c t by (auto simp: resize_commit_def resize_destructive_def Let_def split: sum.splits)
    show ?thesis unfolding s(2,3) by (rule begin_op_start [OF i new _ _ _ orchestrators_locked(3)]) (simp_all add: insert_frame [OF s(1)])
  qed
qed

lemma starts_good: "sl_starts w w' ths \<Longrightarrow> \<exists>op. good_start w w' op ths"
proof (induction rule: sl_starts.induct)
  case (starts_snapshot env cx op snap t k ret w w' th)
  then obtain r w0 x where s: "idle_tenant w t = Inr r" "insert_snapshot x w = Inr w0" "w' = begin_op env op t SnapshotOp SlSnapshotting (Some snap) w0"
      "th = start_thread (job_for cx op snap (reserve_path t snap) r) run_snapshot None"
    by (auto simp: snapshot_tenant_def Let_def split: sum.splits option.splits)
  have new: "\<not> op_known w op" using starts_snapshot(2) op_known_row by simp
  show ?case unfolding s(3,4)
    by (rule exI, rule begin_op_start [OF s(1) new _ _ _ orchestrators_locked(1)]) (simp_all add: insert_frame [OF s(2)])
next
  case (starts_archive env cx op snap t ret w w' th)
  then obtain r w0 x where s: "idle_tenant w t = Inr r" "insert_snapshot x w = Inr w0" "w' = begin_op env op t ArchiveOp SlQuiescing (Some snap) w0"
      "th = start_thread (job_for cx op snap (reserve_path t snap) r) run_archive None"
    by (auto simp: archive_tenant_def Let_def split: sum.splits if_splits)
  have new: "\<not> op_known w op" using starts_archive(2) op_known_row by simp
  show ?case unfolding s(3,4)
    by (rule exI, rule begin_op_start [OF s(1) new _ _ _ orchestrators_locked(4)]) (simp_all add: insert_frame [OF s(2)])
next
  case (starts_resize env cx readable du op snap t m g w w' ths)
  then show ?case using resize_start op_known_row by blast
next
  case (starts_suspend env cx op t w w' th)
  then obtain r where s: "idle_tenant w t = Inr r" "w' = begin_op env op t SuspendOp SlQuiescing None w"
      "th = start_thread (job_for cx op [] [] r) run_suspend None"
    by (auto simp: suspend_tenant_def split: sum.splits if_splits)
  have new: "\<not> op_known w op" using starts_suspend(2) op_known_row by simp
  show ?case unfolding s(2,3) by (rule exI, rule begin_op_start [OF s(1) new _ _ _ orchestrators_locked(7)]) simp_all
next
  case (starts_resume env cx op t w w' th)
  then obtain r q where s: "idle_tenant w t = Inr r" "w' = begin_op env op t ResumeOp SlUnquiescing None w"
      "th = start_thread (job_for cx op [] [] r) run_resume q"
    by (auto simp: resume_tenant_def split: sum.splits if_splits)
  have new: "\<not> op_known w op" using starts_resume(2) op_known_row by simp
  show ?case unfolding s(2,3) by (rule exI, rule begin_op_start [OF s(1) new _ _ _ orchestrators_locked(8)]) simp_all
next
  case (starts_restore env cx op t g w w' th)
  then obtain r gi snap path where s: "idle_tenant w t = Inr r" "w' = begin_op env op t RestoreOp SlReplacing (Some snap) w"
      "th = start_thread (job_for cx op snap path r) (run_restore_archive gi) None"
    by (auto simp: restore_archived_tenant_def Let_def split: sum.splits if_splits option.splits)
  have new: "\<not> op_known w op" using starts_restore(2) op_known_row by simp
  show ?case unfolding s(2,3) by (rule exI, rule begin_op_start [OF s(1) new _ _ _ orchestrators_locked(5)]) simp_all
next
  case (starts_rollback env cx op t snap w w' th)
  then obtain r path where s: "idle_tenant w t = Inr r" "w' = begin_op env op t RestoreOp SlRestoring (Some snap) w"
      "th = start_thread (job_for cx op snap path r) run_rollback_to_snapshot None"
    by (auto simp: rollback_to_snapshot_def split: sum.splits option.splits dest: first_SomeD)
  have new: "\<not> op_known w op" using starts_rollback(2) op_known_row by simp
  show ?case unfolding s(2,3) by (rule exI, rule begin_op_start [OF s(1) new _ _ _ orchestrators_locked(6)]) simp_all
next
  case (starts_fsck env cx op t w w' th)
  then obtain r where s: "idle_tenant w t = Inr r" "w' = begin_op env op t FsckOp SlQuiescing None w"
      "th = start_thread (job_for cx op [] [] r) run_fsck None"
    by (auto simp: start_fsck_def split: sum.splits)
  have new: "\<not> op_known w op" using starts_fsck(2) op_known_row by simp
  show ?case unfolding s(2,3) by (rule exI, rule begin_op_start [OF s(1) new _ _ _ orchestrators_locked(9)]) simp_all
qed

lemma lock_inv_start:
  assumes "lock_inv (w, T)" and "good_start w w' op ths"
  shows "lock_inv (w', ths @ T)"
proof -
  have known: "op_row w' i \<noteq> None \<longleftrightarrow> op_row w i \<noteq> None \<or> i = op" for i using assms(2) by (simp add: good_start_def op_known_row)
  have new: "op \<notin> (jb_op \<circ> th_job) ` set T" using assms by (auto simp: good_start_def lock_inv_def op_known_row)
  consider "ths = []" "lock_view w' = lock_view w" | th x where "ths = [th]" "jb_op (th_job th) = op" "lock_ok (th_todo th)" "lock_ok (th_handler th)"
      "th_handler th \<noteq> [Must CTouch]" "lock_view w (jb_tenant (th_job th)) = Some (x, True)"
      "lock_view w' = (lock_view w)(jb_tenant (th_job th) := Some (Some op, False))"
    using assms(2) by (auto simp: good_start_def)
  then show ?thesis
  proof cases
    case 1
    then show ?thesis using assms(1) known by (auto simp: lock_inv_def has_lock_view)
  next
    case (2 th x)
    have "has_lock w' (th_job y)" if "y \<in> set T" "holding y" for y
    proof -
      have "has_lock w (th_job y)" using assms(1) that by (simp add: lock_inv_def)
      then show ?thesis using 2(6,7) by (auto simp: has_lock_view)
    qed
    then show ?thesis using assms(1) new known 2 by (auto simp: lock_inv_def has_lock_view)
  qed
qed

lemma lock_inv_call:
  assumes "lock_inv (w, T @ th # T')" and "heard f th" and "advance env f (th, w) = (th', w')"
  shows "lock_inv (w', T @ th' # T')"
proof -
  have th: "lock_ok (th_todo th)" "lock_ok (th_handler th)" "th_handler th \<noteq> [Must CTouch]" "holding th \<longrightarrow> has_lock w (th_job th)"
    using assms(1) by (auto simp: lock_inv_def)
  have job: "th_job th' = th_job th" and known: "op_row w' i = None \<longleftrightarrow> op_row w i = None" for i
    using advance_frame [of env f th w] assms(3) by (simp_all add: op_known_row)
  have "has_lock w' (th_job y)" if y: "y \<in> set (T @ T')" "holding y" for y
  proof (rule advance_other [OF th(1,4) _ _ assms(3)])
    show "has_lock w (th_job y)" using assms(1) y by (auto simp: lock_inv_def)
    show "jb_op (th_job y) \<noteq> jb_op (th_job th)" using assms(1) y(1) by (auto simp: lock_inv_def) (metis comp_apply image_eqI)+
  qed
  then show ?thesis using assms(1) advance_lock [OF th assms(2,3)] job known by (auto simp: lock_inv_def)
qed

lemma lock_inv_frame: "lock_inv (w, T) \<Longrightarrow> lock_view w' = lock_view w \<Longrightarrow> op_known w' = op_known w \<Longrightarrow> lock_inv (w', T)"
  by (simp add: lock_inv_def has_lock_view op_known_row)

lemma lock_inv_clear:
  assumes "lock_inv (w, T)" and "clear_failed_storage_state t w = Inr w'"
  shows "lock_inv (w', T)"
proof -
  obtain r where r: "tenant_row w t = Some r" "st_state r = SlFailed" "w' = mark_tenant_state t SlIdle None w"
    using assms(2) by (auto simp: clear_failed_storage_state_def first_tenant split: option.splits if_splits)
  have "has_lock w' j" if "has_lock w j" for j
  proof (cases "jb_tenant j = t")
    case True
    then show ?thesis using that r(1,2) by (simp add: has_lock_def)
  next
    case False
    then show ?thesis using that r(3) by (simp add: has_lock_view lock_view_mark)
  qed
  then show ?thesis using assms(1) r(3) by (auto simp: lock_inv_def op_known_row)
qed

lemma expire_frame: "lock_view (expire_snapshots f env cx w) = lock_view w \<and> op_known (expire_snapshots f env cx w) = op_known w"
proof -
  have "lock_view (fold (expire_one f cx) ss w) = lock_view w \<and> op_known (fold (expire_one f cx) ss w) = op_known w" for ss
    by (induction ss arbitrary: w) (auto simp: expire_one_def split: option.split)
  then show ?thesis by (simp add: expire_snapshots_def)
qed

lemma delete_frame: "delete_snapshot f cx s w = Inr w' \<Longrightarrow> lock_view w' = lock_view w \<and> op_known w' = op_known w"
  by (auto simp: delete_snapshot_def Let_def split: option.splits if_splits)

lemma sl_reachable_inv: "sl_reachable s \<Longrightarrow> lock_inv s"
proof (induction rule: sl_reachable.induct)
  case (sl_initial w)
  then show ?case by (simp add: lock_inv_def)
next
  case (sl_more s s')
  from sl_more(2,3) show ?case
  proof (induction rule: sl_step.induct)
    case (step_start w w' ths T)
    then show ?case using starts_good lock_inv_start by blast
  next
    case (step_call f th env w th' w' T T')
    then show ?case using lock_inv_call by blast
  next
    case (step_expire f env cx w T)
    then show ?case using expire_frame lock_inv_frame by blast
  next
    case (step_restart w T)
    show ?case by (simp add: lock_inv_def)
  next
    case (step_clear t w w' T)
    then show ?case using lock_inv_clear by blast
  next
    case (step_delete f cx s w w' T)
    then show ?case using delete_frame [OF step_delete(1)] by (blast intro: lock_inv_frame)
  qed
qed





end
