(* ===== verification/StoragePolicy.thy ===== *)
theory StoragePolicy
  imports StorageProps
begin

text \<open>
  The rules around the orchestrators: which way a resize goes, the quota of snapshots, suspending and resuming, what the
  deletion of a tenant and the periodic jobs remove, and a patch that meets a busy tenant.
\<close>

section \<open>Resizing\<close>

text \<open>The room that a shrink asks for is at least eleven tenths of the used bytes, whatever the rounding of the product does,
  and at most the next whole number of bytes after them and one more.\<close>

theorem required_bytes_bounds:
  assumes "b < 2 ^ 49"
  shows "11 * b \<le> 10 * required_bytes b \<and> 10 * required_bytes b \<le> 11 * b + 11"
proof -
  define p u where "p = b * (2476979795053773 :: nat)" and "u = (2 :: nat) ^ (bit_len p - 53)"
  have "p < 2 ^ 101"
  proof -
    have "p \<le> 2 ^ 49 * 2476979795053773" using assms by (simp add: p_def)
    then show ?thesis by simp
  qed
  have "bit_len p \<le> 101"
  proof (rule ccontr)
    assume "\<not> bit_len p \<le> 101"
    then have "(2 :: nat) ^ 101 \<le> 2 ^ (bit_len p - 1)" by (intro power_increasing) simp_all
    moreover have "p \<noteq> 0" using \<open>\<not> bit_len p \<le> 101\<close> by (cases "p = 0") (simp_all add: bit_len.simps [of 0])
    ultimately show False using bit_len_bounds(2) [of p] \<open>p < 2 ^ 101\<close> by linarith
  qed
  then have "u \<le> 2 ^ 48" unfolding u_def by (intro power_increasing) simp_all
  moreover have "0 < u" by (simp add: u_def)
  moreover have t: "times_safety_factor b = round_even p u * u" by (simp add: times_safety_factor_def p_def u_def Let_def)
  moreover have "2 * b \<le> 2 ^ 50" using assms by simp
  moreover have "10 * p = 11 * b * 2 ^ 51 + 2 * b" by (simp add: p_def)
  ultimately have lo: "11 * b * 2 ^ 51 \<le> 10 * times_safety_factor b + 5 * 2 ^ 48" and hi: "10 * times_safety_factor b \<le> 11 * b * 2 ^ 51 + 2 ^ 50 + 5 * 2 ^ 48"
    using round_even_bounds [of u p] by linarith+
  let ?r = "required_bytes b"
  have "times_safety_factor b \<le> ?r * 2 ^ 51" and "?r * 2 ^ 51 < times_safety_factor b + 2 ^ 51"
    unfolding required_bytes_def by simp_all
  then show ?thesis using lo hi by simp
qed

theorem required_bytes_bounds_witness:
  "11 * 10485760 \<le> 10 * required_bytes 10485760 \<and> required_bytes 10485760 = 11534336"
proof -
  have "required_bytes 10485760 = 11534336" by (simp add: required_bytes_at [of _ 75] round_even_def)
  then show ?thesis using required_bytes_bounds [of 10485760] by simp
qed

text \<open>C6: Once a volume has been given a size, a request for a size does nothing when it is the same, grows the volume when it
  is larger, and otherwise rebuilds it exactly when the required bytes fit into it. A volume whose usage could not be measured
  always fits.\<close>

theorem resize_decision_exact:
  assumes "tenant_row w t = Some r" and "st_state r = SlIdle" and "ns_claim (sw_namespaces w (st_namespace r)) = Some c"
    and "pv_request c = size_str n"
  shows "resize_decide True du t (Some m) gi w =
    (if m = n then Inr (r, m, ResizeNoop) else if m > n then Inr (r, m, ResizeGrow)
     else if \<forall>b. du = Some b \<longrightarrow> required_bytes b \<le> m * 1024 * 1024 then Inr (r, m, ResizeDestructive)
     else Inl (SlErr ''RESIZE_UNSAFE'' 400))"
proof -
  have "required_bytes 0 = 0" by (simp add: required_bytes_def times_safety_factor_def round_even_def Let_def)
  then show ?thesis
    using assms current_mib_sized [OF assms(3,4)] idle_tenantI [OF assms(1,2)]
    by (auto simp: resize_decide_def resize_dry_run_mib_def must_get_tenant_def first_tenant measure_pvc_used_def split: option.split)
qed

theorem resize_decision_exact_witness:
  "resize_decide True (Some 4096) ''acme'' (Some 5120) None demo_storage = Inr (demo_tenant, 5120, ResizeDestructive) \<and>
   resize_decide True (Some 6000000000) ''acme'' (Some 5120) None demo_storage = Inl (SlErr ''RESIZE_UNSAFE'' 400) \<and>
   resize_decide True None ''acme'' (Some 1) None demo_storage = Inr (demo_tenant, 1, ResizeDestructive)"
proof -
  have "''10Gi'' = size_str 10240" by code_simp
  note d = resize_decision_exact [of demo_storage "''acme''" demo_tenant "the (ns_claim demo_namespace)" 10240, simplified, OF this]
  have "required_bytes 6000000000 = 6600000001" by (simp add: required_bytes_at [of _ 84] round_even_def)
  then show ?thesis using four_kib by (simp add: d)
qed

section \<open>The quota of snapshots\<close>

text \<open>C7: A request for a snapshot passes the quota exactly when the tenant has fewer ready or growing snapshots than its plan
  allows and its ready ones are below the limit of bytes; then, with the snapshot it adds, the tenant has at most as many
  as the plan allows.\<close>

theorem snapshot_quota_exact:
  assumes "tenant_row w t = Some r" and "st_state r = SlIdle" and "first (\<lambda>p. hp_id p = st_plan r) (sw_plans w) = Some p"
    and "tg \<in> set (sw_targets w)"
  shows "((\<exists>w' th. snapshot_tenant env (target_ctx tg ''tenant_snapshot'') op snap t k ret w = Inr (w', th)) \<longleftrightarrow>
      int (length (filter (\<lambda>s. sn_status s \<in> {Ready, Creating}) (counted_snapshots w t))) < hp_max_count p \<and>
      sum_list (map sn_size (filter (\<lambda>s. sn_status s = Ready) (counted_snapshots w t))) < hp_max_bytes p) \<and>
    (\<forall>w' th. snapshot_tenant env (target_ctx tg ''tenant_snapshot'') op snap t k ret w = Inr (w', th) \<longrightarrow>
      int (length (filter (\<lambda>s. sn_status s \<in> {Ready, Creating}) (counted_snapshots w' t))) \<le> hp_max_count p)"
proof -
  have q: "enforce_snapshot_quota w t = (if int (length (filter (\<lambda>s. sn_status s \<in> {Ready, Creating}) (counted_snapshots w t))) < hp_max_count p \<and>
      sum_list (map sn_size (filter (\<lambda>s. sn_status s = Ready) (counted_snapshots w t))) < hp_max_bytes p
      then None else Some (SlErr ''STORAGE_QUOTA_EXCEEDED'' 409))"
    using assms(1,3) by (simp add: enforce_snapshot_quota_def get_snapshot_quota_usage_def first_tenant)
  have n: "counted_snapshots (begin_op env op t ty s x (w\<lparr>sw_snapshots := sw_snapshots w @ [y]\<rparr>)) t = counted_snapshots w t @ [y]"
    if "sn_tenant y = t" "sn_class y = ''tenant_snapshot''" for ty s x y
    using that by (simp add: counted_snapshots_def sl_world)
  show ?thesis
    using idle_tenantI [OF assms(1,2)] assms(4)
    by (auto simp: snapshot_tenant_def q Let_def insert_snapshot_def new_snapshot_def target_ctx_def n)
qed

theorem snapshot_quota_exact_witness:
  "(\<exists>w' th. snapshot_tenant demo_sl_env demo_ctx ''op1'' ''snap1'' ''acme'' Manual None demo_storage = Inr (w', th))"
proof -
  have "first (\<lambda>p. hp_id p = st_plan demo_tenant) (sw_plans demo_storage) = Some \<lparr>hp_id = ''basic'', hp_storage = 1000, hp_max_bytes = 5000, hp_max_count = 2\<rparr>"
    by (simp add: demo_storage_def first_def)
  from snapshot_quota_exact [OF demo_rows(3) _ this] show ?thesis by (simp add: counted_snapshots_def)
qed

section \<open>Suspending and resuming\<close>

lemma ops_updates [sl_world]:
  "sw_operations (update_op i u w) = set_where (\<lambda>r. sop_id r = i) u (sw_operations w)"
  "sw_operations (update_namespace n g w) = sw_operations w" "sw_operations (update_snapshot k v w) = sw_operations w"
  "sw_operations (mark_tenant_state t s x w) = sw_operations w" "sw_operations (sync_tenant_state j s w) = sw_operations w"
  "sw_operations (begin_op env op t ty s snap w) = sw_operations w @ [new_operation env op t ty s snap]"
  by (simp_all add: update_op_def update_namespace_def update_snapshot_def mark_tenant_state_def sync_tenant_state_def begin_op_def)

lemma set_where_new: "op_row w op = None \<Longrightarrow> set_where (\<lambda>r. sop_id r = op) u (sw_operations w @ [x]) =
    sw_operations w @ [if sop_id x = op then u x else x]"
  by (auto simp: op_row_def first_None_iff set_where_def intro: map_idI)

lemma scale_quiesced: "scale_custom_deployments NoFault 0 (quiesced n) = quiesced n"
  by (simp add: scale_custom_deployments_def quiesced_def set_where_def)

lemma suspend_run:
  assumes "suspend_tenant env cx op t w = Inr (w1, th)" and "op_row w op = None" and "tenant_row w t = Some r"
    and "\<not> st_system r" and "run_thread env (clean 4) (th, w1) = (th', w')"
  shows "finished th'" "\<not> th_failed th'"
    and "tenant_row w' t = Some (r\<lparr>st_status := TenantSuspended, st_suspended_at := Some (se_now env), st_state := SlIdle, st_active_op := None\<rparr>)"
    and "sw_namespaces w' (st_namespace r) = quiesced (sw_namespaces w (st_namespace r))"
    and "sw_operations w' = sw_operations w @ [(new_operation env op t SuspendOp SlQuiescing None)\<lparr>sop_state := SlIdle,
        sop_completed := Some (se_now env), sop_quiesce := Some (workloads_of (sw_namespaces w (st_namespace r)))\<rparr>]"
proof -
  obtain r' where i: "idle_tenant w t = Inr r'" and w1: "w1 = begin_op env op t SuspendOp SlQuiescing None w"
      and th: "th = start_thread (job_for cx op [] [] r') run_suspend None"
    using assms(1) by (auto simp: suspend_tenant_def split: sum.splits if_splits)
  have r: "r' = r" "st_id r = t" using idle_tenantE [OF i] assms(3) by auto
  have o1: "op_row w1 op = Some (new_operation env op t SuspendOp SlQuiescing None)" using assms(2)
    by (simp add: w1 begin_op_def sl_world) (simp add: op_row_def first_append, simp add: first_def new_operation_def)
  have "finished th' \<and> \<not> th_failed th' \<and>
      tenant_row w' t = Some (r\<lparr>st_status := TenantSuspended, st_suspended_at := Some (se_now env), st_state := SlIdle, st_active_op := None\<rparr>) \<and>
      sw_namespaces w' (st_namespace r) = quiesced (sw_namespaces w (st_namespace r)) \<and>
      sw_operations w' = sw_operations w @ [(new_operation env op t SuspendOp SlQuiescing None)\<lparr>sop_state := SlIdle,
        sop_completed := Some (se_now env), sop_quiesce := Some (workloads_of (sw_namespaces w (st_namespace r)))\<rparr>]"
    using assms(5) unfolding w1 th r(1) run_suspend_def
    by (clarsimp simp: sl_exec sl_world r assms(2-4) guarded_system_row stamp_status_def scale_quiesced set_where_new new_operation_def)
  then show "finished th'" "\<not> th_failed th'"
    "tenant_row w' t = Some (r\<lparr>st_status := TenantSuspended, st_suspended_at := Some (se_now env), st_state := SlIdle, st_active_op := None\<rparr>)"
    "sw_namespaces w' (st_namespace r) = quiesced (sw_namespaces w (st_namespace r))"
    "sw_operations w' = sw_operations w @ [(new_operation env op t SuspendOp SlQuiescing None)\<lparr>sop_state := SlIdle,
        sop_completed := Some (se_now env), sop_quiesce := Some (workloads_of (sw_namespaces w (st_namespace r)))\<rparr>]"
    by blast+
qed

text \<open>C5: Suspending a tenant and resuming it, when no call fails, gives every workload its replicas and its schedule back,
  but for custom deployments, which come back with one replica whatever they had.\<close>

theorem suspend_resume_roundtrip:
  assumes "suspend_tenant env cx op t w = Inr (w1, th)" and "op_row w op = None" and "tenant_row w t = Some r"
    and "\<not> st_system r" and "names_unique (sw_namespaces w (st_namespace r))" and "\<forall>x \<in> set (sw_operations w). sop_created x < se_now env"
    and "run_thread env (clean 4) (th, w1) = (th', w2)"
  shows "\<exists>w3 th3. resume_tenant env' cx' op2 t w2 = Inr (w3, th3) \<and>
     (case run_thread env' (clean 4) (th3, w3) of (th4, w4) \<Rightarrow> finished th4 \<and> \<not> th_failed th4 \<and>
       sw_namespaces w4 (st_namespace r) = scale_custom_deployments NoFault 1 (sw_namespaces w (st_namespace r)) \<and>
       tenant_row w4 t = Some (r\<lparr>st_status := TenantActive, st_suspended_at := None, st_archived_at := None, st_state := SlIdle, st_active_op := None\<rparr>))"
proof -
  note run = suspend_run [OF assms(1-4,7)]
  let ?x = "(new_operation env op t SuspendOp SlQuiescing None)\<lparr>sop_state := SlIdle,
        sop_completed := Some (se_now env), sop_quiesce := Some (workloads_of (sw_namespaces w (st_namespace r)))\<rparr>"
  have "latest sop_created (filter (\<lambda>x. sop_tenant x = t \<and> sop_type x = SuspendOp) (sw_operations w2)) = Some ?x"
    using assms(6) unfolding run(5) by (intro latest_max) (auto simp: new_operation_def)
  then have q: "last_suspend_snapshot w2 t = Some (workloads_of (sw_namespaces w (st_namespace r)))" by (simp add: last_suspend_snapshot_def)
  have i: "idle_tenant w2 t = Inr (r\<lparr>st_status := TenantSuspended, st_suspended_at := Some (se_now env), st_state := SlIdle, st_active_op := None\<rparr>)"
    by (rule idle_tenantI [OF run(3)]) simp
  have "st_id r = t" using assms(3) first_SomeD [of "\<lambda>r. st_id r = t" "sw_tenants w" r] by (simp add: tenant_row_def)
  then show ?thesis
    by (simp add: resume_tenant_def i q run_resume_def sl_exec sl_world run(3,4) guarded_system_row stamp_status_def unquiesce_quiesced [OF assms(5)])
qed

theorem suspend_resume_roundtrip_witness:
  "\<exists>w1 th w2 w3 th3. suspend_tenant demo_sl_env legacy_ctx ''op1'' ''acme'' demo_storage = Inr (w1, th) \<and>
     snd (run_thread demo_sl_env (clean 4) (th, w1)) = w2 \<and> resume_tenant demo_sl_env legacy_ctx ''op2'' ''acme'' w2 = Inr (w3, th3) \<and>
     map dp_replicas (ns_deployments (sw_namespaces (snd (run_thread demo_sl_env (clean 4) (th3, w3))) ''client-acme'')) = [2, 1]"
proof -
  obtain w1 th where d: "suspend_tenant demo_sl_env legacy_ctx ''op1'' ''acme'' demo_storage = Inr (w1, th)"
    by (simp add: suspend_tenant_def)
  obtain th' w2 where r: "run_thread demo_sl_env (clean 4) (th, w1) = (th', w2)" by fastforce
  from suspend_resume_roundtrip [OF d _ _ _ _ _ r, of demo_tenant demo_sl_env legacy_ctx "''op2''"]
  obtain w3 th3 where "resume_tenant demo_sl_env legacy_ctx ''op2'' ''acme'' w2 = Inr (w3, th3)"
    "sw_namespaces (snd (run_thread demo_sl_env (clean 4) (th3, w3))) ''client-acme'' = scale_custom_deployments NoFault 1 demo_namespace"
    by (auto simp: split_def)
  moreover have "map dp_replicas (ns_deployments (scale_custom_deployments NoFault 1 demo_namespace)) = [2, 1]" by code_simp
  ultimately show ?thesis using d r by (metis snd_conv)
qed

section \<open>Deleting and expiring\<close>

lemma expire_one_fields:
  "sw_targets (expire_one f cx r w) = sw_targets w"
  by (auto simp: expire_one_def sl_world split: option.split)

text \<open>A due row is given up when there is no store to delete its archive from, or the store did delete it.\<close>

definition given_up :: "fault \<Rightarrow> service_ctx \<Rightarrow> sl_world \<Rightarrow> snapshot_row \<Rightarrow> bool" where
  "given_up f cx w s = (resolve_restore_store w cx s = None \<or> \<not> lost f (sn_id s))"

lemma fold_expire:
  "sw_snapshots (fold (expire_one f cx) rs w) = map (\<lambda>s. if \<exists>r \<in> set rs. sn_id r = sn_id s \<and> given_up f cx w r then s\<lparr>sn_status := Expired\<rparr> else s) (sw_snapshots w)"
  "sw_archives (fold (expire_one f cx) rs w) (st, p) =
     (if \<exists>r \<in> set rs. resolve_restore_store w cx r = Some st \<and> sn_path r = p \<and> \<not> lost f (sn_id r) then None else sw_archives w (st, p))"
  "sw_targets (fold (expire_one f cx) rs w) = sw_targets w"
proof (induction rs arbitrary: w)
  case (Cons r rs)
  have g: "given_up f cx (expire_one f cx r w) = given_up f cx w" "resolve_restore_store (expire_one f cx r w) cx = resolve_restore_store w cx" for w
    by (intro ext; simp add: given_up_def resolve_targets [OF expire_one_fields])+
  have s: "sw_snapshots (expire_one f cx r w) = map (\<lambda>s. if sn_id r = sn_id s \<and> given_up f cx w r then s\<lparr>sn_status := Expired\<rparr> else s) (sw_snapshots w)" for w
    by (auto simp: expire_one_def given_up_def update_snapshot_def set_where_def split: option.split)
  have a: "sw_archives (expire_one f cx r w) (st, p) =
      (if resolve_restore_store w cx r = Some st \<and> sn_path r = p \<and> \<not> lost f (sn_id r) then None else sw_archives w (st, p))" for w
    by (auto simp: expire_one_def sl_world split: option.split)
  { case 1 show ?case by (simp add: Cons.IH(1) g s) (auto intro!: map_cong) }
  { case 2 show ?case by (auto simp: Cons.IH(2) g a) }
  { case 3 show ?case by (simp add: Cons.IH(3) expire_one_fields) }
qed simp_all

text \<open>A run of the expiry marks exactly the ready snapshots whose time has come as expired, but for those whose archive the
  store fails to delete: they stay ready, and are due again. No archive is deleted but those of due snapshots, and every
  snapshot that ends up expired has none left in its store.\<close>

theorem expire_exact:
  assumes "distinct (map sn_id (sw_snapshots w))"
  shows "sw_snapshots (expire_snapshots f env cx w) =
      map (\<lambda>s. if due_snapshot (se_now env) s \<and> given_up f cx w s then s\<lparr>sn_status := Expired\<rparr> else s) (sw_snapshots w) \<and>
    (\<forall>st p. sw_archives (expire_snapshots f env cx w) (st, p) =
      (if \<exists>s \<in> set (sw_snapshots w). due_snapshot (se_now env) s \<and> resolve_restore_store w cx s = Some st \<and> sn_path s = p \<and> \<not> lost f (sn_id s)
       then None else sw_archives w (st, p)))"
proof -
  have "s = s'" if "s \<in> set (sw_snapshots w)" "s' \<in> set (sw_snapshots w)" "sn_id s = sn_id s'" for s s'
    using assms that by (auto simp: distinct_map dest: inj_onD)
  then show ?thesis
    by (auto simp: expire_snapshots_def fold_expire intro!: map_cong)
qed

theorem expire_exact_witness:
  "map sn_status (sw_snapshots (expire_snapshots NoFault demo_sl_env demo_ctx (demo_storage\<lparr>sw_snapshots := [demo_snapshot\<lparr>sn_expires := Some 1000\<rparr>]\<rparr>))) = [Expired]"
proof -
  let ?w = "demo_storage\<lparr>sw_snapshots := [demo_snapshot\<lparr>sn_expires := Some 1000\<rparr>]\<rparr>"
  have "distinct (map sn_id (sw_snapshots ?w))" by simp
  from expire_exact [OF this, of NoFault demo_sl_env demo_ctx] show ?thesis
    by (simp add: due_snapshot_def given_up_def demo_snapshot_def new_snapshot_def)
qed

lemma apply_deleted_fields:
  "sw_tenants (apply_deleted f t k w) = filter (\<lambda>r. st_id r \<noteq> t) (sw_tenants w)"
  "sw_snapshots (apply_deleted f t k w) = filter (\<lambda>s. sn_tenant s \<noteq> t) (sw_snapshots w)"
  "sw_archives (apply_deleted f t k w) = sw_archives w"
  by (simp_all add: apply_deleted_def Let_def sl_world)

text \<open>Deleting a tenant removes its rows and its namespace, and not one archive: the loop that deletes them reads the rows
  of its snapshots when these are gone already. No later expiry removes them either, as no row leads to them.\<close>

theorem delete_tenant_leaves_archives:
  assumes "delete_tenant f t w = Inr w'"
  shows "(\<forall>s \<in> set (sw_snapshots w'). sn_tenant s \<noteq> t) \<and> (\<forall>r \<in> set (sw_tenants w'). st_id r \<noteq> t) \<and> sw_archives w' = sw_archives w \<and>
    (\<forall>s st g env cx. s \<in> set (sw_snapshots w) \<and> sn_tenant s = t \<and> (\<forall>x \<in> set (sw_snapshots w). sn_tenant x \<noteq> t \<longrightarrow> sn_path x \<noteq> sn_path s) \<longrightarrow>
       sw_archives (expire_snapshots g env cx w') (st, sn_path s) = sw_archives w (st, sn_path s))"
proof -
  have e: "filter (\<lambda>s. sn_tenant s = t) (sw_snapshots (apply_deleted f t k w)) = []" for k
    by (simp add: apply_deleted_fields filter_empty_conv)
  obtain k where w': "w' = apply_deleted f t k w" using assms e by (auto simp: delete_tenant_def Let_def split: sum.splits option.splits)
  have a: "sw_archives w' = sw_archives w" "sw_snapshots w' = filter (\<lambda>s. sn_tenant s \<noteq> t) (sw_snapshots w)"
    "sw_tenants w' = filter (\<lambda>r. st_id r \<noteq> t) (sw_tenants w)"
    by (simp_all add: w' apply_deleted_fields)
  have "sw_archives (expire_snapshots g env cx w') (st, p) = sw_archives w (st, p)"
    if "\<forall>x \<in> set (sw_snapshots w). sn_tenant x \<noteq> t \<longrightarrow> sn_path x \<noteq> p" for st p g env cx
    using that by (auto simp: expire_snapshots_def fold_expire a)
  then show ?thesis using a by auto
qed

theorem delete_tenant_leaves_archives_witness:
  "\<exists>w'. delete_tenant NoFault ''acme'' (demo_storage\<lparr>sw_snapshots := [demo_snapshot], sw_archives := (\<lambda>_. Some demo_files)\<rparr>) = Inr w' \<and>
     sw_snapshots w' = [] \<and> sw_archives w' (TargetStore ''s3'' ''tenant_snapshot'', ''acme/snap1.tar.gz'') = Some demo_files"
proof -
  let ?w = "demo_storage\<lparr>sw_snapshots := [demo_snapshot], sw_archives := (\<lambda>_. Some demo_files)\<rparr>"
  obtain w' where d: "delete_tenant NoFault ''acme'' ?w = Inr w'" by (simp add: delete_tenant_def must_get_tenant_def first_def assert_not_system_def Let_def)
  have "sw_snapshots w' = []" using d
    by (auto simp: delete_tenant_def must_get_tenant_def first_def assert_not_system_def apply_deleted_fields Let_def demo_snapshot_def new_snapshot_def)
  with delete_tenant_leaves_archives [OF d] d show ?thesis by simp
qed

section \<open>The periodic job\<close>

lemma fold_apply_deleted:
  "sw_tenants (fold (\<lambda>r. apply_deleted f (st_id r) (st_namespace r)) rs w) = filter (\<lambda>x. st_id x \<notin> st_id ` set rs) (sw_tenants w)"
  "sw_snapshots (fold (\<lambda>r. apply_deleted f (st_id r) (st_namespace r)) rs w) = filter (\<lambda>x. sn_tenant x \<notin> st_id ` set rs) (sw_snapshots w)"
  "sw_archives (fold (\<lambda>r. apply_deleted f (st_id r) (st_namespace r)) rs w) = sw_archives w"
proof (induction rs arbitrary: w)
  case (Cons r rs)
  { case 1 show ?case by (simp add: Cons.IH(1) apply_deleted_fields) }
  { case 2 show ?case by (simp add: Cons.IH(2) apply_deleted_fields) }
  { case 3 show ?case by (simp add: Cons.IH(3) apply_deleted_fields) }
qed simp_all

text \<open>C11: The periodic deletion removes exactly the tenants, other than the platform's own, that have been archived for longer
  than the settings say, with their rows, whatever operation is under way on them, and leaves every archive.\<close>

theorem auto_delete_exact:
  assumes "distinct (map st_id (sw_tenants w))" and "ls_auto_delete ls"
  shows "sw_tenants (auto_delete f env ls w) = filter (\<lambda>r. \<not> (st_status r = TenantArchived \<and> \<not> st_system r \<and>
        (\<exists>a. st_archived_at r = Some a \<and> a < se_now env - int (ls_delete_after ls) * day_ms))) (sw_tenants w) \<and>
     (\<forall>s \<in> set (sw_snapshots (auto_delete f env ls w)). \<forall>r \<in> set (delete_candidates env ls w). sn_tenant s \<noteq> st_id r) \<and>
     sw_archives (auto_delete f env ls w) = sw_archives w"
proof -
  have "x \<in> set (delete_candidates env ls w)" if "x \<in> set (sw_tenants w)" "st_id x \<in> st_id ` set (delete_candidates env ls w)" for x
    using assms(1) that by (auto simp: delete_candidates_def distinct_map dest: inj_onD)
  then have "st_id x \<in> st_id ` set (delete_candidates env ls w) \<longleftrightarrow> x \<in> set (delete_candidates env ls w)" if "x \<in> set (sw_tenants w)" for x
    using that by blast
  then have "filter (\<lambda>x. st_id x \<notin> st_id ` set (delete_candidates env ls w)) (sw_tenants w) = filter (\<lambda>x. x \<notin> set (delete_candidates env ls w)) (sw_tenants w)"
    by (auto intro: filter_cong)
  also have "\<dots> = filter (\<lambda>r. \<not> (st_status r = TenantArchived \<and> \<not> st_system r \<and>
        (\<exists>a. st_archived_at r = Some a \<and> a < se_now env - int (ls_delete_after ls) * day_ms))) (sw_tenants w)"
    by (auto simp: delete_candidates_def older_than_def intro!: filter_cong split: option.split)
  finally show ?thesis using assms(2) by (auto simp: auto_delete_def fold_apply_deleted)
qed

theorem auto_delete_exact_witness:
  "sw_tenants (auto_delete NoFault demo_sl_env \<lparr>ls_auto_archive = False, ls_archive_after = 30, ls_auto_delete = True, ls_delete_after = 0\<rparr>
     (demo_storage\<lparr>sw_tenants := [demo_tenant\<lparr>st_status := TenantArchived, st_archived_at := Some 999, st_state := SlRestoring\<rparr>]\<rparr>)) = []"
proof -
  let ?w = "demo_storage\<lparr>sw_tenants := [demo_tenant\<lparr>st_status := TenantArchived, st_archived_at := Some 999, st_state := SlRestoring\<rparr>]\<rparr>"
  have "distinct (map st_id (sw_tenants ?w))" by simp
  from auto_delete_exact [OF this, of "\<lparr>ls_auto_archive = False, ls_archive_after = 30, ls_auto_delete = True, ls_delete_after = 0\<rparr>" NoFault demo_sl_env]
  show ?thesis by simp
qed

section \<open>A patch that meets a busy tenant\<close>

lemma patch_values_override:
  "pt_status p = None \<Longrightarrow> pt_plan p = None \<Longrightarrow> pt_override p = Some h \<Longrightarrow> patch_values p r = r\<lparr>st_override := h\<rparr>"
  by (simp add: patch_values_def)

lemma busy_resize: "tenant_row w t = Some r \<Longrightarrow> st_state r \<noteq> SlIdle \<Longrightarrow> resize_tenant env cx rd du op snap t m g w = Inl (SlErr ''STORAGE_OP_IN_PROGRESS'' 409)"
  by (simp add: resize_tenant_def resize_decide_def idle_tenant_def must_get_tenant_def must_be_idle_def first_tenant)

text \<open>A patch that enlarges the storage of a tenant with an operation under way is answered with success: the override is
  written and the volume stays as it is. The same patch sent again, when the tenant is idle, sees nothing to do.\<close>

theorem busy_patch_skips_resize:
  assumes "tenant_row w t = Some r" and "st_state r \<noteq> SlIdle" and "pt_status p = None" and "pt_plan p = None"
    and "pt_override p = Some (Some h)" and "\<not> st_system r" and "to_mib h > allowed_mib w (st_override r) (st_plan r)"
  shows "\<exists>w'. update_tenant pe t p w = ((None, w'), []) \<and> sw_namespaces w' = sw_namespaces w \<and>
     tenant_row w' t = Some (r\<lparr>st_override := Some h\<rparr>) \<and>
     (\<forall>v dry_runs readable du. decide_resize dry_runs readable du v (r\<lparr>st_override := Some h, st_state := SlIdle, st_active_op := None\<rparr>) p = Inr NoResize)"
proof -
  let ?w = "w\<lparr>sw_tenants := set_where (\<lambda>x. st_id x = t) (patch_values p) (sw_tenants w)\<rparr>"
  have row: "tenant_row ?w t = Some (r\<lparr>st_override := Some h\<rparr>)"
  proof -
    have "tenant_row ?w t = map_option (patch_values p) (tenant_row w t)"
      unfolding tenant_row_def by (simp add: patch_values_override [OF assms(3-5)] first_set_where_same)
    then show ?thesis by (simp add: assms(1) patch_values_override [OF assms(3-5)])
  qed
  have busy: "resize_tenant env cx rd du op snap t m g ?w = Inl (SlErr ''STORAGE_OP_IN_PROGRESS'' 409)" for env cx rd du op snap m g
    by (rule busy_resize [OF row]) (simp add: assms(2))
  have d: "decide_resize dr rd du w r p = Inr (GrowTo (nat (to_mib h)))" for dr rd du
    using assms(5,7) by (simp add: decide_resize_def Let_def target_mib_def)
  have "update_tenant pe t p w = ((None, ?w), [])"
    using assms(1,3,6) by (simp add: update_tenant_def must_get_tenant_def first_tenant system_checks_def d archived_exit_def dispatch_status_def
        dispatch_resize_def busy split: prod.split)
  moreover have "decide_resize dr rd du v (r\<lparr>st_override := Some h, st_state := SlIdle, st_active_op := None\<rparr>) p = Inr NoResize" for dr rd du v
    using assms(5) by (simp add: decide_resize_def Let_def target_mib_def allowed_mib_def)
  ultimately show ?thesis using row by auto
qed

theorem busy_patch_skips_resize_witness:
  "\<exists>w'. update_tenant \<lparr>pe_env = demo_sl_env, pe_stores = \<lparr>ss_shim = False, ss_assigned = []\<rparr>, pe_retention = 90, pe_dry_runs = True,
       pe_readable = True, pe_du = None, pe_faults = [], pe_ids = (''op1'', ''snap1'', ''op2'', ''snap2'')\<rparr> ''acme''
     \<lparr>pt_status = None, pt_plan = None, pt_override = Some (Some 2000), pt_expiry = None, pt_confirm_shrink = False, pt_retention = None\<rparr>
     (demo_storage\<lparr>sw_tenants := [demo_tenant\<lparr>st_state := SlSnapshotting\<rparr>]\<rparr>) = ((None, w'), [])"
proof -
  let ?w = "demo_storage\<lparr>sw_tenants := [demo_tenant\<lparr>st_state := SlSnapshotting\<rparr>]\<rparr>"
  have row: "tenant_row ?w ''acme'' = Some (demo_tenant\<lparr>st_state := SlSnapshotting\<rparr>)" by (simp add: tenant_row_def first_def)
  have "to_mib 2000 > allowed_mib ?w (st_override (demo_tenant\<lparr>st_state := SlSnapshotting\<rparr>)) (st_plan (demo_tenant\<lparr>st_state := SlSnapshotting\<rparr>))"
    by (simp add: allowed_mib_def plan_storage_def to_mib_def first_def demo_storage_def)
  from busy_patch_skips_resize [OF row _ _ _ _ _ this,
      where p = "\<lparr>pt_status = None, pt_plan = None, pt_override = Some (Some 2000), pt_expiry = None, pt_confirm_shrink = False, pt_retention = None\<rparr>"
        and pe = "\<lparr>pe_env = demo_sl_env, pe_stores = \<lparr>ss_shim = False, ss_assigned = []\<rparr>, pe_retention = 90, pe_dry_runs = True,
       pe_readable = True, pe_du = None, pe_faults = [], pe_ids = (''op1'', ''snap1'', ''op2'', ''snap2'')\<rparr>"]
  show ?thesis by auto
qed

end
