(* ===== verification/WorkerState.thy ===== *)
theory WorkerState
  imports Tables
begin

text \<open>
  Private workers (\<open>private-workers/service.ts\<close>, their tables in \<open>db/schema.ts\<close>, their contracts in
  \<open>api-contracts/private-workers.ts\<close>): agents outside the cluster that dial in through a tunnel. The tables, the name in
  the tunnel's host (the slug), the token an agent is given.

  A row of \<open>private_workers\<close> stands under four unique indexes; an insert that would violate one fails with SQLSTATE 23505.
\<close>

section \<open>Tables\<close>

datatype worker_status = PwPending | PwActive | PwRevoked | PwSuspended

record pw_row =
  pw_id :: string
  pw_tenant :: string
  pw_name :: string
  pw_slug :: string
  pw_hash :: string
  pw_status :: worker_status
  pw_port :: int
  pw_description :: "string option"
  pw_last_seen :: "int option"
  pw_last_ip :: "string option"
  pw_bytes_in :: int
  pw_bytes_out :: int
  pw_created_by :: "string option"
  pw_created_at :: int
  pw_revoked_at :: "int option"
  pw_revoked_by :: "string option"
  pw_updated_at :: int

datatype audit_detail =
    MintDetail "string option" int string
  | RotateDetail "string option"
  | RevokeDetail "string option"
  | PreDeleteDetail "string option"
  | FromRevokedWorker

record pw_audit_row =
  pa_id :: nat
  pa_worker :: string
  pa_event :: string
  pa_ip :: "string option"
  pa_detail :: "audit_detail option"
  pa_at :: int

text \<open>The columns of \<open>tenants\<close> the code reads.\<close>

record pw_tenant_row =
  pt_id :: string
  pt_namespace :: string
  pt_secret :: "string option"

record pw_world =
  ww_tenants :: "pw_tenant_row list"
  ww_workers :: "pw_row list"
  ww_audit :: "pw_audit_row list"
  ww_audit_seq :: nat
  ww_settings :: "(string \<times> string) list"

text \<open>The environment variables of the process, and what one request draws: the time, the random values, the digest.\<close>

record pw_config =
  wc_tunnel_base_url :: "string option"
  wc_platform_base_domain :: "string option"
  wc_ingress_base_domain :: "string option"
  wc_agent_image :: "string option"
  wc_frps_image :: "string option"
  wc_ingress_namespace :: "string option"

record pw_env =
  we_now :: int
  we_uuid :: string
  we_secret :: string
  we_suffix :: "nat \<Rightarrow> string"
  we_sha256 :: "string \<Rightarrow> string"

datatype pw_error = WorkerError string nat | DbThrew "string option" "string option"

section \<open>Contracts\<close>

definition slug_char :: "char \<Rightarrow> bool" where
  "slug_char c = (is_lower c \<or> is_digit c)"

text \<open>\<open>/^[a-z0-9][a-z0-9-]{2,58}[a-z0-9]$/\<close>.\<close>

definition slug_regex :: "string \<Rightarrow> bool" where
  "slug_regex s = (4 \<le> length s \<and> length s \<le> 60 \<and> slug_char (hd s) \<and> slug_char (last s) \<and>
     list_all (\<lambda>c. slug_char c \<or> c = CHR ''-'') s)"

record create_worker_input =
  ci_name :: string
  ci_slug :: "string option"
  ci_description :: "string option"

definition create_private_worker_schema :: "create_worker_input \<Rightarrow> bool" where
  "create_private_worker_schema i = (1 \<le> length (ci_name i) \<and> length (ci_name i) \<le> 120 \<and>
     (case ci_slug i of None \<Rightarrow> True | Some s \<Rightarrow> slug_regex s) \<and>
     (case ci_description i of None \<Rightarrow> True | Some d \<Rightarrow> length d \<le> 1000))"

text \<open>A description that is absent, \<open>null\<close>, or a string.\<close>

record update_worker_input =
  ui_name :: "string option"
  ui_description :: "string option option"

definition update_private_worker_schema :: "update_worker_input \<Rightarrow> bool" where
  "update_private_worker_schema i = ((case ui_name i of None \<Rightarrow> True | Some n \<Rightarrow> 1 \<le> length n \<and> length n \<le> 120) \<and>
     (case ui_description i of Some (Some d) \<Rightarrow> length d \<le> 1000 | _ \<Rightarrow> True))"

section \<open>Slugs\<close>

text \<open>Lower case, the compatibility decomposition and the removal of the combining marks, on one code unit. A code unit
  above the range of \<open>char\<close> that a decomposition yields (the fraction slash) is no slug character: it is shown as a hyphen.\<close>

definition fold_latin :: "char \<Rightarrow> string" where
  "fold_latin c = (let n = (of_char c :: nat) in
     if n = 170 \<or> (192 \<le> n \<and> n \<le> 197) \<or> (224 \<le> n \<and> n \<le> 229) then ''a''
     else if n = 199 \<or> n = 231 then ''c''
     else if (200 \<le> n \<and> n \<le> 203) \<or> (232 \<le> n \<and> n \<le> 235) then ''e''
     else if (204 \<le> n \<and> n \<le> 207) \<or> (236 \<le> n \<and> n \<le> 239) then ''i''
     else if n = 209 \<or> n = 241 then ''n''
     else if n = 186 \<or> (210 \<le> n \<and> n \<le> 214) \<or> (242 \<le> n \<and> n \<le> 246) then ''o''
     else if (217 \<le> n \<and> n \<le> 220) \<or> (249 \<le> n \<and> n \<le> 252) then ''u''
     else if n = 221 \<or> n = 253 \<or> n = 255 then ''y''
     else if n = 178 then ''2'' else if n = 179 then ''3'' else if n = 185 then ''1''
     else if n = 188 then ''1-4'' else if n = 189 then ''1-2'' else if n = 190 then ''3-4''
     else [to_lower_char c])"

text \<open>\<open>s.replace(/[^a-z0-9]+/g, '-')\<close>.\<close>

function hyphenate :: "string \<Rightarrow> string" where
  "hyphenate [] = []"
| "hyphenate (c # cs) =
     (if slug_char c then c # hyphenate cs else CHR ''-'' # hyphenate (dropWhile (\<lambda>x. \<not> slug_char x) cs))"
  by pat_completeness auto
termination by (relation "measure length") (auto simp: less_Suc_eq_le length_dropWhile_le)

text \<open>\<open>s.replace(/^-+|-+$/g, '')\<close>.\<close>

definition trim_hyphens :: "string \<Rightarrow> string" where
  "trim_hyphens s = rev (dropWhile (\<lambda>c. c = CHR ''-'') (rev (dropWhile (\<lambda>c. c = CHR ''-'') s)))"

definition slugify :: "string \<Rightarrow> string" where
  "slugify name = take 48 (trim_hyphens (hyphenate (concat (map fold_latin name))))"

definition slug_base :: "string \<Rightarrow> string" where
  "slug_base name = (let s = slugify name in if s = [] then ''worker'' else s)"

primrec slug_attempts :: "pw_env \<Rightarrow> string \<Rightarrow> nat \<Rightarrow> pw_world \<Rightarrow> nat \<Rightarrow> string option" where
  "slug_attempts env base attempt w 0 = None"
| "slug_attempts env base attempt w (Suc n) =
     (let candidate = base @ ''-'' @ we_suffix env attempt in
      case first (\<lambda>r. pw_slug r = candidate) (ww_workers w) of
        None \<Rightarrow> Some candidate
      | Some _ \<Rightarrow> slug_attempts env base (Suc attempt) w n)"

definition generate_unique_slug :: "pw_env \<Rightarrow> string \<Rightarrow> pw_world \<Rightarrow> pw_error + string" where
  "generate_unique_slug env name w = (case slug_attempts env (slug_base name) 0 w 6 of
       None \<Rightarrow> Inl (WorkerError ''SLUG_GENERATION_FAILED'' 500)
     | Some s \<Rightarrow> Inr s)"

section \<open>The tunnel's address\<close>

text \<open>\<open>s.replace(/^wss?:\/\//, '').replace(/\/+$/, '')\<close>.\<close>

definition strip_ws_scheme :: "string \<Rightarrow> string" where
  "strip_ws_scheme s = (if starts_with s ''wss://'' then drop 6 s else if starts_with s ''ws://'' then drop 5 s else s)"

definition strip_slashes :: "string \<Rightarrow> string" where
  "strip_slashes s = rev (dropWhile (\<lambda>c. c = CHR ''/'') (rev s))"

definition or_env :: "string option \<Rightarrow> string \<Rightarrow> string" where
  "or_env v d = (case v of Some s \<Rightarrow> s | None \<Rightarrow> d)"

definition resolve_platform_domain :: "pw_config \<Rightarrow> string" where
  "resolve_platform_domain cfg =
     or_env (wc_platform_base_domain cfg) (or_env (wc_ingress_base_domain cfg) ''k8s-platform.test'')"

definition get_tunnel_base_domain :: "pw_config \<Rightarrow> string" where
  "get_tunnel_base_domain cfg = (case wc_tunnel_base_url cfg of
       Some e \<Rightarrow> if e \<noteq> [] then strip_slashes (strip_ws_scheme e) else ''tunnels.'' @ resolve_platform_domain cfg
     | None \<Rightarrow> ''tunnels.'' @ resolve_platform_domain cfg)"

definition get_tunnel_scheme :: "pw_config \<Rightarrow> string" where
  "get_tunnel_scheme cfg = (case wc_tunnel_base_url cfg of
       Some e \<Rightarrow> if starts_with e ''ws://'' then ''ws'' else ''wss'' | None \<Rightarrow> ''wss'')"

definition build_worker_server_url :: "pw_config \<Rightarrow> string \<Rightarrow> string" where
  "build_worker_server_url cfg slug = get_tunnel_scheme cfg @ ''://'' @ slug @ ''.'' @ get_tunnel_base_domain cfg @ ''/''"

section \<open>Tokens\<close>

definition hex_digit :: "nat \<Rightarrow> char" where
  "hex_digit n = (if n < 10 then char_of (48 + n) else char_of (87 + n))"

text \<open>\<open>JSON.stringify\<close> of a string.\<close>

definition json_char :: "char \<Rightarrow> string" where
  "json_char c = (let n = (of_char c :: nat) in
     if c = CHR 0x22 then [CHR 0x5C, CHR 0x22] else if c = CHR 0x5C then [CHR 0x5C, CHR 0x5C]
     else if n = 8 then CHR 0x5C # ''b'' else if n = 9 then CHR 0x5C # ''t'' else if n = 10 then CHR 0x5C # ''n''
     else if n = 12 then CHR 0x5C # ''f'' else if n = 13 then CHR 0x5C # ''r''
     else if n < 32 then CHR 0x5C # ''u00'' @ [hex_digit (n div 16), hex_digit (n mod 16)]
     else [c])"

definition json_string :: "string \<Rightarrow> string" where
  "json_string s = CHR 0x22 # concat (map json_char s) @ [CHR 0x22]"

record token_blob =
  tb_slug :: string
  tb_server_url :: string
  tb_secret :: string
  tb_expose :: "(string \<times> int) list"

definition json_expose :: "string \<times> int \<Rightarrow> string" where
  "json_expose e = ''{'' @ json_string ''name'' @ '':'' @ json_string (fst e) @ '','' @
     json_string ''remote_port'' @ '':'' @ show_int (snd e) @ ''}''"

definition json_token :: "token_blob \<Rightarrow> string" where
  "json_token b = ''{'' @ json_string ''v'' @ '':2,'' @ json_string ''slug'' @ '':'' @ json_string (tb_slug b) @ '','' @
     json_string ''server_url'' @ '':'' @ json_string (tb_server_url b) @ '','' @
     json_string ''secret'' @ '':'' @ json_string (tb_secret b) @ '','' @
     json_string ''expose'' @ '':['' @ join_with '','' (map json_expose (tb_expose b)) @ '']}''"

text \<open>UTF-8 of a code unit of the range of \<open>char\<close>; base64url without padding.\<close>

definition utf8_char :: "char \<Rightarrow> nat list" where
  "utf8_char c = (let n = (of_char c :: nat) in if n < 128 then [n] else [192 + n div 64, 128 + n mod 64])"

definition url64_char :: "nat \<Rightarrow> char" where
  "url64_char n = (if n < 26 then char_of (65 + n) else if n < 52 then char_of (71 + n)
     else if n < 62 then char_of (n - 4) else if n = 62 then CHR ''-'' else CHR ''_'')"

fun base64url :: "nat list \<Rightarrow> string" where
  "base64url [] = []"
| "base64url [a] = [url64_char (a div 4), url64_char (a mod 4 * 16)]"
| "base64url [a, b] = [url64_char (a div 4), url64_char (a mod 4 * 16 + b div 16), url64_char (b mod 16 * 4)]"
| "base64url (a # b # c # ds) = url64_char (a div 4) # url64_char (a mod 4 * 16 + b div 16) #
     url64_char (b mod 16 * 4 + c div 64) # url64_char (c mod 64) # base64url ds"

definition worker_blob :: "pw_config \<Rightarrow> string \<Rightarrow> string \<Rightarrow> int \<Rightarrow> token_blob" where
  "worker_blob cfg slug secret exposed_port = \<lparr>tb_slug = slug, tb_server_url = build_worker_server_url cfg slug,
     tb_secret = secret, tb_expose = [(''web'', exposed_port)]\<rparr>"

definition build_token_blob :: "pw_config \<Rightarrow> string \<Rightarrow> string \<Rightarrow> int \<Rightarrow> string" where
  "build_token_blob cfg slug secret exposed_port =
     base64url (concat (map utf8_char (json_token (worker_blob cfg slug secret exposed_port))))"

definition get_agent_image :: "pw_config \<Rightarrow> string" where
  "get_agent_image cfg =
     or_env (wc_agent_image cfg) ''ghcr.io/phoenixtechnam/hosting-platform/private-worker-agent:latest''"

definition build_docker_run_command :: "pw_config \<Rightarrow> string \<Rightarrow> string" where
  "build_docker_run_command cfg token = join_with '' '' [''docker run -d'', ''--name private-worker'',
     ''--restart unless-stopped'', ''--add-host=host.docker.internal:host-gateway'',
     ''-e PRIVATE_WORKER_TOKEN='' @ [CHR 0x27] @ token @ [CHR 0x27],
     ''-e PRIVATE_WORKER_TARGET='' @ [CHR 0x27] @ ''host.docker.internal:8080'' @ [CHR 0x27], get_agent_image cfg]"

definition in_quotes :: "string \<Rightarrow> string" where
  "in_quotes s = CHR 0x22 # s @ [CHR 0x22]"

definition build_docker_compose_yaml :: "pw_config \<Rightarrow> string \<Rightarrow> string" where
  "build_docker_compose_yaml cfg token = join_with [CHR 0x0A] [''services:'', ''  private-worker:'',
     ''    image: '' @ get_agent_image cfg, ''    container_name: private-worker'', ''    restart: unless-stopped'',
     ''    # Linux Docker needs an explicit host-gateway for host.docker.internal.'',
     ''    # Remove this line if your target lives in another compose service.'',
     ''    extra_hosts:'', ''      - '' @ in_quotes ''host.docker.internal:host-gateway'', ''    environment:'',
     ''      PRIVATE_WORKER_TOKEN: '' @ in_quotes token,
     ''      # Where the agent forwards incoming tunnel traffic. Examples:'',
     ''      #   another compose service:    PRIVATE_WORKER_TARGET: '' @ in_quotes ''myapp:80'',
     ''      #   docker host loopback:       PRIVATE_WORKER_TARGET: '' @ in_quotes ''host.docker.internal:8080'',
     ''      #   a LAN device:               PRIVATE_WORKER_TARGET: '' @ in_quotes ''192.168.1.5:80'',
     ''      PRIVATE_WORKER_TARGET: '' @ in_quotes ''host.docker.internal:8080'', '''']"

section \<open>Responses\<close>

record worker_response =
  wr_id :: string
  wr_tenant :: string
  wr_name :: string
  wr_slug :: string
  wr_status :: worker_status
  wr_port :: int
  wr_description :: "string option"
  wr_service :: string
  wr_url :: string
  wr_last_seen :: "int option"
  wr_last_ip :: "string option"
  wr_bytes_in :: int
  wr_bytes_out :: int
  wr_created_at :: int
  wr_revoked_at :: "int option"
  wr_updated_at :: int

record secret_response =
  sr_worker_id :: string
  sr_token :: string
  sr_run_command :: string
  sr_compose :: string
  sr_worker :: worker_response

definition map_private_worker_to_response :: "pw_config \<Rightarrow> pw_row \<Rightarrow> worker_response" where
  "map_private_worker_to_response cfg r = \<lparr>wr_id = pw_id r, wr_tenant = pw_tenant r, wr_name = pw_name r,
     wr_slug = pw_slug r, wr_status = pw_status r, wr_port = pw_port r, wr_description = pw_description r,
     wr_service = ''pw-'' @ pw_id r, wr_url = build_worker_server_url cfg (pw_slug r), wr_last_seen = pw_last_seen r,
     wr_last_ip = pw_last_ip r, wr_bytes_in = pw_bytes_in r, wr_bytes_out = pw_bytes_out r,
     wr_created_at = pw_created_at r, wr_revoked_at = pw_revoked_at r, wr_updated_at = pw_updated_at r\<rparr>"

definition secret_reply :: "pw_config \<Rightarrow> pw_row \<Rightarrow> string \<Rightarrow> string \<Rightarrow> secret_response" where
  "secret_reply cfg r slug secret = (let token = build_token_blob cfg slug secret (pw_port r) in
     \<lparr>sr_worker_id = pw_id r, sr_token = token, sr_run_command = build_docker_run_command cfg token,
      sr_compose = build_docker_compose_yaml cfg token, sr_worker = map_private_worker_to_response cfg r\<rparr>)"

end
