(* ===== verification/WorkerService.thy ===== *)
theory WorkerService
  imports WorkerState
begin

text \<open>
  The operations of \<open>private-workers/service.ts\<close> on the tables.

  A request is not alone: between two of its statements other requests can change the tables. \<open>oth\<close> says what they
  did at the point named; a request that runs alone has \<open>oth = alone\<close>.
\<close>

datatype point = AfterChecks | BeforeMint | BeforeInsert nat | AfterInsert | BeforeRefetch

type_synonym others = "point \<Rightarrow> pw_world \<Rightarrow> pw_world"

definition alone :: others where
  "alone p w = w"

section \<open>Statements\<close>

definition unique_violation :: "pw_row \<Rightarrow> pw_world \<Rightarrow> bool" where
  "unique_violation r w = list_ex (\<lambda>x. pw_id x = pw_id r \<or> pw_slug x = pw_slug r \<or>
     (pw_tenant x = pw_tenant r \<and> pw_name x = pw_name r) \<or> (pw_tenant x = pw_tenant r \<and> pw_port x = pw_port r)) (ww_workers w)"

text \<open>An error of the database has an SQLSTATE of its own or in its cause.\<close>

definition is_unique_violation :: "pw_error \<Rightarrow> bool" where
  "is_unique_violation e = (case e of DbThrew code cause_code \<Rightarrow> code = Some ''23505'' \<or> cause_code = Some ''23505'' | _ \<Rightarrow> False)"

definition tenant_entry :: "string \<Rightarrow> pw_world \<Rightarrow> pw_tenant_row option" where
  "tenant_entry t w = first (\<lambda>r. pt_id r = t) (ww_tenants w)"

definition insert_worker :: "pw_row \<Rightarrow> pw_world \<Rightarrow> pw_world \<times> pw_error option" where
  "insert_worker r w =
     (if unique_violation r w then (w, Some (DbThrew (Some ''23505'') None))
      else case tenant_entry (pw_tenant r) w of
        None \<Rightarrow> (w, Some (DbThrew (Some ''23503'') None))
      | Some _ \<Rightarrow> (w\<lparr>ww_workers := ww_workers w @ [r]\<rparr>, None))"

text \<open>Every update of a row stamps \<open>updated_at\<close>.\<close>

definition update_workers :: "int \<Rightarrow> (pw_row \<Rightarrow> bool) \<Rightarrow> (pw_row \<Rightarrow> pw_row) \<Rightarrow> pw_world \<Rightarrow> pw_world" where
  "update_workers now p f w = w\<lparr>ww_workers := set_where p (\<lambda>r. (f r)\<lparr>pw_updated_at := now\<rparr>) (ww_workers w)\<rparr>"

definition write_audit :: "int \<Rightarrow> string \<Rightarrow> string \<Rightarrow> string option \<Rightarrow> audit_detail option \<Rightarrow> pw_world \<Rightarrow>
    pw_world \<times> pw_error option" where
  "write_audit now worker event ip detail w =
     (case first (\<lambda>r. pw_id r = worker) (ww_workers w) of
        None \<Rightarrow> (w, Some (DbThrew (Some ''23503'') None))
      | Some _ \<Rightarrow> (w\<lparr>ww_audit := ww_audit w @ [\<lparr>pa_id = ww_audit_seq w, pa_worker = worker, pa_event = event, pa_ip = ip,
           pa_detail = detail, pa_at = now\<rparr>], ww_audit_seq := Suc (ww_audit_seq w)\<rparr>, None))"

text \<open>The deletion of rows takes their audit rows along.\<close>

definition delete_workers :: "(pw_row \<Rightarrow> bool) \<Rightarrow> pw_world \<Rightarrow> pw_world" where
  "delete_workers p w = w\<lparr>ww_workers := filter (\<lambda>r. \<not> p r) (ww_workers w),
     ww_audit := filter (\<lambda>a. \<forall>r \<in> set (ww_workers w). pw_id r = pa_worker a \<longrightarrow> \<not> p r) (ww_audit w)\<rparr>"

definition fetch_by_id_scoped :: "string \<Rightarrow> string \<Rightarrow> pw_world \<Rightarrow> pw_error + pw_row" where
  "fetch_by_id_scoped t k w = (case first (\<lambda>r. pw_id r = k \<and> pw_tenant r = t) (ww_workers w) of
       None \<Rightarrow> Inl (WorkerError ''PRIVATE_WORKER_NOT_FOUND'' 404) | Some r \<Rightarrow> Inr r)"

section \<open>The shared secret and the port\<close>

definition ensure_tenant_shared_secret :: "pw_env \<Rightarrow> others \<Rightarrow> string \<Rightarrow> pw_world \<Rightarrow> pw_world \<times> (pw_error + string)" where
  "ensure_tenant_shared_secret env oth t w =
     (case tenant_entry t w of
        None \<Rightarrow> (w, Inl (WorkerError ''CLIENT_NOT_FOUND'' 404))
      | Some r \<Rightarrow>
          (case pt_secret r of
             Some (c # cs) \<Rightarrow> (w, Inr (c # cs))
           | _ \<Rightarrow>
               (let w1 = oth BeforeMint w;
                    w2 = w1\<lparr>ww_tenants := set_where (\<lambda>x. pt_id x = t \<and> pt_secret x = None)
                           (\<lambda>x. x\<lparr>pt_secret := Some (we_secret env)\<rparr>) (ww_tenants w1)\<rparr>
                in case tenant_entry t w2 of
                     None \<Rightarrow> (w2, Inl (WorkerError ''PRIVATE_WORKER_SHARED_SECRET_MISSING'' 500))
                   | Some x \<Rightarrow>
                       (case pt_secret x of
                          Some (c # cs) \<Rightarrow> (w2, Inr (c # cs))
                        | _ \<Rightarrow> (w2, Inl (WorkerError ''PRIVATE_WORKER_SHARED_SECRET_MISSING'' 500))))))"

definition PORT_POOL_LOW :: int where "PORT_POOL_LOW = 10000"

definition PORT_POOL_HIGH :: int where "PORT_POOL_HIGH = 19999"

function first_unused :: "int set \<Rightarrow> int \<Rightarrow> int option" where
  "first_unused used p =
     (if p > PORT_POOL_HIGH then None else if p \<in> used then first_unused used (p + 1) else Some p)"
  by pat_completeness auto
termination by (relation "measure (\<lambda>(_, p). nat (PORT_POOL_HIGH + 1 - p))") auto

declare first_unused.simps [simp del]

definition used_ports :: "string \<Rightarrow> pw_world \<Rightarrow> int set" where
  "used_ports t w = set (map pw_port (filter (\<lambda>r. pw_tenant r = t) (ww_workers w)))"

definition pick_exposed_port_candidate :: "string \<Rightarrow> pw_world \<Rightarrow> pw_error + int" where
  "pick_exposed_port_candidate t w = (case first_unused (used_ports t w) PORT_POOL_LOW of
       None \<Rightarrow> Inl (WorkerError ''PORT_POOL_EXHAUSTED'' 503) | Some p \<Rightarrow> Inr p)"

section \<open>Operations\<close>

definition list_private_workers :: "pw_config \<Rightarrow> string \<Rightarrow> pw_world \<Rightarrow> worker_response list" where
  "list_private_workers cfg t w = map (map_private_worker_to_response cfg)
     (js_sort (\<lambda>a b. pw_created_at a \<ge> pw_created_at b) (filter (\<lambda>r. pw_tenant r = t) (ww_workers w)))"

definition get_private_worker :: "pw_config \<Rightarrow> string \<Rightarrow> string \<Rightarrow> pw_world \<Rightarrow> pw_error + worker_response" where
  "get_private_worker cfg t k w = (case fetch_by_id_scoped t k w of
       Inl e \<Rightarrow> Inl e | Inr r \<Rightarrow> Inr (map_private_worker_to_response cfg r))"

definition choose_slug :: "pw_env \<Rightarrow> create_worker_input \<Rightarrow> pw_world \<Rightarrow> pw_error + string" where
  "choose_slug env i w = (case ci_slug i of
       Some (c # cs) \<Rightarrow>
         (case first (\<lambda>r. pw_slug r = c # cs) (ww_workers w) of
            Some _ \<Rightarrow> Inl (WorkerError ''DUPLICATE_PRIVATE_WORKER_SLUG'' 409)
          | None \<Rightarrow> Inr (c # cs))
     | _ \<Rightarrow> generate_unique_slug env (ci_name i) w)"

definition MAX_PORT_RETRIES :: nat where "MAX_PORT_RETRIES = 8"

text \<open>The loop of the insert: \<open>attempt\<close> counts up, the last argument is what is left of the budget.\<close>

primrec insert_loop :: "others \<Rightarrow> string \<Rightarrow> (int \<Rightarrow> pw_row) \<Rightarrow> nat \<Rightarrow> pw_world \<Rightarrow> nat \<Rightarrow> pw_world \<times> (pw_error + int)" where
  "insert_loop oth t mk attempt w 0 = (w, Inl (WorkerError ''PORT_ALLOCATION_RETRY_EXHAUSTED'' 503))"
| "insert_loop oth t mk attempt w (Suc n) =
     (case pick_exposed_port_candidate t w of
        Inl e \<Rightarrow> (w, Inl e)
      | Inr p \<Rightarrow>
          (case insert_worker (mk p) (oth (BeforeInsert attempt) w) of
             (w2, None) \<Rightarrow> (w2, Inr p)
           | (w2, Some e) \<Rightarrow>
               if is_unique_violation e then insert_loop oth t mk (Suc attempt) w2 n else (w2, Inl e)))"

definition new_worker :: "pw_env \<Rightarrow> string \<Rightarrow> create_worker_input \<Rightarrow> string \<Rightarrow> string \<Rightarrow> string option \<Rightarrow> int \<Rightarrow> pw_row" where
  "new_worker env t i slug secret created_by p = \<lparr>pw_id = we_uuid env, pw_tenant = t, pw_name = ci_name i, pw_slug = slug,
     pw_hash = we_sha256 env secret, pw_status = PwPending, pw_port = p, pw_description = ci_description i,
     pw_last_seen = None, pw_last_ip = None, pw_bytes_in = 0, pw_bytes_out = 0, pw_created_by = created_by,
     pw_created_at = we_now env, pw_revoked_at = None, pw_revoked_by = None, pw_updated_at = we_now env\<rparr>"

text \<open>What follows the insert: the audit row, the row read again, the reply with the token.\<close>

definition finish_create :: "pw_config \<Rightarrow> pw_env \<Rightarrow> others \<Rightarrow> string option \<Rightarrow> string option \<Rightarrow> string \<Rightarrow> string \<Rightarrow> int \<Rightarrow> pw_world \<Rightarrow>
    pw_world \<times> (pw_error + secret_response)" where
  "finish_create cfg env oth created_by ip slug secret p w =
     (case write_audit (we_now env) (we_uuid env) ''mint'' ip (Some (MintDetail created_by p slug)) (oth AfterInsert w) of
        (w3, Some e) \<Rightarrow> (w3, Inl e)
      | (w3, None) \<Rightarrow>
          (let w4 = oth BeforeRefetch w3 in
           case first (\<lambda>r. pw_id r = we_uuid env) (ww_workers w4) of
             None \<Rightarrow> (w4, Inl (WorkerError ''PRIVATE_WORKER_CREATE_FAILED'' 500))
           | Some r \<Rightarrow> (w4, Inr (secret_reply cfg r slug secret))))"

definition create_private_worker :: "pw_config \<Rightarrow> pw_env \<Rightarrow> others \<Rightarrow> string \<Rightarrow> create_worker_input \<Rightarrow> string option \<Rightarrow>
    string option \<Rightarrow> pw_world \<Rightarrow> pw_world \<times> (pw_error + secret_response)" where
  "create_private_worker cfg env oth t i created_by ip w =
     (case first (\<lambda>r. pw_tenant r = t \<and> pw_name r = ci_name i) (ww_workers w) of
        Some _ \<Rightarrow> (w, Inl (WorkerError ''DUPLICATE_PRIVATE_WORKER_NAME'' 409))
      | None \<Rightarrow>
      (case choose_slug env i w of
         Inl e \<Rightarrow> (w, Inl e)
       | Inr slug \<Rightarrow>
       (case ensure_tenant_shared_secret env oth t (oth AfterChecks w) of
          (w1, Inl e) \<Rightarrow> (w1, Inl e)
        | (w1, Inr secret) \<Rightarrow>
        (case insert_loop oth t (new_worker env t i slug secret created_by) 0 w1 MAX_PORT_RETRIES of
           (w2, Inl e) \<Rightarrow> (w2, Inl e)
         | (w2, Inr p) \<Rightarrow> finish_create cfg env oth created_by ip slug secret p w2))))"

definition patch_worker :: "update_worker_input \<Rightarrow> pw_row \<Rightarrow> pw_row" where
  "patch_worker i r = r\<lparr>pw_name := (case ui_name i of Some n \<Rightarrow> n | None \<Rightarrow> pw_name r),
     pw_description := (case ui_description i of Some d \<Rightarrow> d | None \<Rightarrow> pw_description r)\<rparr>"

text \<open>The update statement fails on the index of names when a request that ran in between took the name.\<close>

definition name_taken :: "string \<Rightarrow> string \<Rightarrow> pw_world \<Rightarrow> bool" where
  "name_taken n k w = list_ex (\<lambda>x. pw_id x = k \<and> list_ex (\<lambda>r. pw_tenant r = pw_tenant x \<and> pw_name r = n \<and> pw_id r \<noteq> k)
     (ww_workers w)) (ww_workers w)"

definition name_conflict :: "string \<Rightarrow> string \<Rightarrow> update_worker_input \<Rightarrow> pw_world \<Rightarrow> bool" where
  "name_conflict t k i w = (case ui_name i of
       None \<Rightarrow> False
     | Some n \<Rightarrow> (case first (\<lambda>r. pw_tenant r = t \<and> pw_name r = n) (ww_workers w) of
           None \<Rightarrow> False | Some r \<Rightarrow> pw_id r \<noteq> k))"

definition reread :: "pw_config \<Rightarrow> string \<Rightarrow> string \<Rightarrow> pw_world \<Rightarrow> pw_world \<times> (pw_error + worker_response)" where
  "reread cfg t k w = (w, get_private_worker cfg t k w)"

definition update_private_worker :: "pw_config \<Rightarrow> pw_env \<Rightarrow> others \<Rightarrow> string \<Rightarrow> string \<Rightarrow> update_worker_input \<Rightarrow> pw_world \<Rightarrow>
    pw_world \<times> (pw_error + worker_response)" where
  "update_private_worker cfg env oth t k i w =
     (case fetch_by_id_scoped t k w of
        Inl e \<Rightarrow> (w, Inl e)
      | Inr r0 \<Rightarrow>
          if ui_name i = None \<and> ui_description i = None then reread cfg t k w
          else if name_conflict t k i w then (w, Inl (WorkerError ''DUPLICATE_PRIVATE_WORKER_NAME'' 409))
          else (let w1 = oth AfterChecks w in
            if (case ui_name i of None \<Rightarrow> False | Some n \<Rightarrow> name_taken n k w1) then (w1, Inl (DbThrew (Some ''23505'') None))
            else reread cfg t k (update_workers (we_now env) (\<lambda>x. pw_id x = k) (patch_worker i) w1)))"

text \<open>The three updates of a rotation: the secret of the tenant, the row, the hash of every row that is not revoked.\<close>

definition rotate_row :: "string \<Rightarrow> pw_row \<Rightarrow> pw_row \<Rightarrow> pw_row" where
  "rotate_row h existing r = r\<lparr>pw_hash := h, pw_revoked_at := None, pw_revoked_by := None,
     pw_status := (if pw_status existing = PwSuspended then PwSuspended else PwActive)\<rparr>"

definition set_shared_secret :: "string \<Rightarrow> string \<Rightarrow> pw_world \<Rightarrow> pw_world" where
  "set_shared_secret t s w = w\<lparr>ww_tenants := set_where (\<lambda>x. pt_id x = t) (\<lambda>x. x\<lparr>pt_secret := Some s\<rparr>) (ww_tenants w)\<rparr>"

definition rotate_rows :: "pw_env \<Rightarrow> string \<Rightarrow> string \<Rightarrow> pw_row \<Rightarrow> pw_world \<Rightarrow> pw_world" where
  "rotate_rows env t k existing w = (let h = we_sha256 env (we_secret env) in
     update_workers (we_now env) (\<lambda>x. pw_tenant x = t \<and> pw_status x \<in> {PwPending, PwActive, PwSuspended})
       (\<lambda>x. x\<lparr>pw_hash := h\<rparr>)
       (update_workers (we_now env) (\<lambda>x. pw_id x = k) (rotate_row h existing) (set_shared_secret t (we_secret env) w)))"

definition rotate_private_worker :: "pw_config \<Rightarrow> pw_env \<Rightarrow> string \<Rightarrow> string \<Rightarrow> string option \<Rightarrow> string option \<Rightarrow> pw_world \<Rightarrow>
    pw_world \<times> (pw_error + secret_response)" where
  "rotate_private_worker cfg env t k rotated_by ip w =
     (case fetch_by_id_scoped t k w of
        Inl e \<Rightarrow> (w, Inl e)
      | Inr existing \<Rightarrow>
          if pw_status existing = PwRevoked then (w, Inl (WorkerError ''PRIVATE_WORKER_REVOKED'' 400))
          else
            (case write_audit (we_now env) k ''rotate'' ip (Some (RotateDetail rotated_by)) (rotate_rows env t k existing w) of
               (w4, Some e) \<Rightarrow> (w4, Inl e)
             | (w4, None) \<Rightarrow>
                 (case fetch_by_id_scoped t k w4 of
                    Inl e \<Rightarrow> (w4, Inl e)
                  | Inr r \<Rightarrow> (w4, Inr (secret_reply cfg r (pw_slug r) (we_secret env))))))"

definition revoke_row :: "int \<Rightarrow> string option \<Rightarrow> pw_row \<Rightarrow> pw_row" where
  "revoke_row now revoked_by r = r\<lparr>pw_status := PwRevoked, pw_revoked_at := Some now, pw_revoked_by := revoked_by\<rparr>"

definition revoke_private_worker :: "pw_config \<Rightarrow> pw_env \<Rightarrow> string \<Rightarrow> string \<Rightarrow> string option \<Rightarrow> string option \<Rightarrow> pw_world \<Rightarrow>
    pw_world \<times> (pw_error + worker_response)" where
  "revoke_private_worker cfg env t k revoked_by ip w =
     (case fetch_by_id_scoped t k w of
        Inl e \<Rightarrow> (w, Inl e)
      | Inr existing \<Rightarrow>
          if pw_status existing = PwRevoked then (w, Inr (map_private_worker_to_response cfg existing))
          else
            (case write_audit (we_now env) k ''revoke'' ip (Some (RevokeDetail revoked_by))
                    (update_workers (we_now env) (\<lambda>x. pw_id x = k) (revoke_row (we_now env) revoked_by) w) of
               (w2, Some e) \<Rightarrow> (w2, Inl e)
             | (w2, None) \<Rightarrow> reread cfg t k w2))"

definition delete_private_worker :: "pw_env \<Rightarrow> string \<Rightarrow> string \<Rightarrow> string option \<Rightarrow> pw_world \<Rightarrow> pw_world \<times> pw_error option" where
  "delete_private_worker env t k deleted_by w =
     (case fetch_by_id_scoped t k w of
        Inl e \<Rightarrow> (w, Some e)
      | Inr existing \<Rightarrow>
          (case (if pw_status existing = PwRevoked then (w, None)
                 else write_audit (we_now env) k ''revoke'' None (Some (PreDeleteDetail deleted_by))
                        (update_workers (we_now env) (\<lambda>x. pw_id x = k) (revoke_row (we_now env) deleted_by) w)) of
             (w2, Some e) \<Rightarrow> (w2, Some e)
           | (w2, None) \<Rightarrow> (delete_workers (\<lambda>r. pw_id r = k) w2, None)))"

definition list_private_worker_audit :: "string \<Rightarrow> string \<Rightarrow> int \<Rightarrow> pw_world \<Rightarrow> pw_error + pw_audit_row list" where
  "list_private_worker_audit t k limit w =
     (case fetch_by_id_scoped t k w of
        Inl e \<Rightarrow> Inl e
      | Inr _ \<Rightarrow> Inr (take (nat (min (max limit 1) 200))
          (js_sort (\<lambda>a b. pa_at a \<ge> pa_at b) (filter (\<lambda>a. pa_worker a = k) (ww_audit w)))))"

section \<open>Connection events\<close>

datatype connect_event = EvConnect | EvDisconnect | EvAuthFail

definition event_name :: "connect_event \<Rightarrow> string" where
  "event_name e = (case e of EvConnect \<Rightarrow> ''connect'' | EvDisconnect \<Rightarrow> ''disconnect'' | EvAuthFail \<Rightarrow> ''auth-fail'')"

definition record_connect_event :: "pw_env \<Rightarrow> string \<Rightarrow> string \<Rightarrow> connect_event \<Rightarrow> pw_world \<Rightarrow> pw_world \<times> (pw_error + bool)" where
  "record_connect_event env slug ip e w =
     (case first (\<lambda>r. pw_slug r = slug) (ww_workers w) of
        None \<Rightarrow> (w, Inr False)
      | Some r \<Rightarrow>
          (let revoked = (pw_status r = PwRevoked);
               w1 = (if \<not> revoked \<and> e = EvConnect
                     then update_workers (we_now env) (\<lambda>x. pw_id x = pw_id r)
                            (\<lambda>x. x\<lparr>pw_last_seen := Some (we_now env), pw_last_ip := Some ip\<rparr>) w
                     else if \<not> revoked \<and> e = EvDisconnect
                     then update_workers (we_now env) (\<lambda>x. pw_id x = pw_id r) (\<lambda>x. x\<lparr>pw_last_ip := Some ip\<rparr>) w
                     else w)
           in case write_audit (we_now env) (pw_id r) (event_name e) (Some ip)
                     (if revoked then Some FromRevokedWorker else None) w1 of
                (w2, Some err) \<Rightarrow> (w2, Inl err)
              | (w2, None) \<Rightarrow> (w2, Inr True)))"

text \<open>The internal route: the header has to carry the first configured secret that is not empty.\<close>

definition resolve_internal_secret :: "string option list \<Rightarrow> string option" where
  "resolve_internal_secret vars = (case first (\<lambda>v. v \<noteq> None \<and> v \<noteq> Some []) vars of Some v \<Rightarrow> v | None \<Rightarrow> None)"

definition connect_event_schema :: "string \<Rightarrow> string \<Rightarrow> bool" where
  "connect_event_schema slug ip = (1 \<le> length slug \<and> length slug \<le> 60 \<and> 1 \<le> length ip \<and> length ip \<le> 64 \<and>
     list_all (\<lambda>c. is_digit c \<or> c \<in> set ''abcdefABCDEF:.'') ip)"

definition connect_event_route :: "pw_env \<Rightarrow> string option list \<Rightarrow> string option \<Rightarrow> string \<Rightarrow> string \<Rightarrow> connect_event \<Rightarrow> pw_world \<Rightarrow>
    pw_world \<times> (pw_error + bool)" where
  "connect_event_route env vars header slug ip e w =
     (if resolve_internal_secret vars = None \<or> header \<noteq> resolve_internal_secret vars then (w, Inl (WorkerError ''Forbidden'' 403))
      else if \<not> connect_event_schema slug ip then (w, Inl (WorkerError ''invalid payload'' 400))
      else record_connect_event env slug ip e w)"

end
