(* ===== verification/WorkerCluster.thy ===== *)
theory WorkerCluster
  imports WorkerService LifecycleRegistry
begin

text \<open>
  The reconciler of the private workers (\<open>private-workers/reconciler.ts\<close>), the builders and helpers of Traefik objects it
  calls (\<open>ingress-routes/traefik-types.ts\<close>, \<open>traefik-apply.ts\<close>), and the lifecycle hook \<open>db-private-workers\<close>.

  The cluster is one store per kind of object, keyed by namespace and name. \<open>ka_fault\<close> says how the API server treats each
  call: a call can be refused, or done although its reply is lost; either way the caller gets an error other than 404. A
  404 comes from the stores: the object is not there. The listing of a kind the server does not know is an empty store.
\<close>

section \<open>The API\<close>

datatype k_kind = KConfigMap | KService | KDeployment | KSecret | KNetPol | KIngressRoute | KMiddleware | KCertificate

datatype k_verb = KGet | KReplace | KCreate | KDelete | KList

datatype k_fault = Refused string | LostReply string

type_synonym k_key = "string \<times> string"
type_synonym k_labels = "(string \<times> string) list"
type_synonym 'b k_store = "(k_key \<times> 'b) list"

record k_api =
  ka_fault :: "k_verb \<Rightarrow> k_kind \<Rightarrow> k_key \<Rightarrow> k_fault option"
  ka_alloc_ip :: "k_key \<Rightarrow> string"

definition fault_text :: "k_fault \<Rightarrow> string" where
  "fault_text f = (case f of Refused m \<Rightarrow> m | LostReply m \<Rightarrow> m)"

definition k_write :: "k_api \<Rightarrow> k_verb \<Rightarrow> k_kind \<Rightarrow> k_key \<Rightarrow> 'b \<Rightarrow> 'b k_store \<Rightarrow> 'b k_store \<times> string option" where
  "k_write api verb kind key b s = (case ka_fault api verb kind key of
       None \<Rightarrow> (AList.update key b s, None)
     | Some (Refused m) \<Rightarrow> (s, Some m)
     | Some (LostReply m) \<Rightarrow> (AList.update key b s, Some m))"

text \<open>Read, then replace or create. The body of a replacement can take fields from the object read.\<close>

definition k_upsert :: "k_api \<Rightarrow> k_kind \<Rightarrow> k_key \<Rightarrow> ('b option \<Rightarrow> 'b) \<Rightarrow> ('b \<Rightarrow> 'b) \<Rightarrow> 'b k_store \<Rightarrow> 'b k_store \<times> string option" where
  "k_upsert api kind key body admit s = (case ka_fault api KGet kind key of
       Some f \<Rightarrow> (s, Some (fault_text f))
     | None \<Rightarrow> (case js_get key s of
           Some old \<Rightarrow> k_write api KReplace kind key (body (Some old)) s
         | None \<Rightarrow> k_write api KCreate kind key (admit (body None)) s))"

text \<open>Replace, and create on 404.\<close>

definition k_replace_or_create :: "k_api \<Rightarrow> k_kind \<Rightarrow> k_key \<Rightarrow> 'b \<Rightarrow> 'b k_store \<Rightarrow> 'b k_store \<times> string option" where
  "k_replace_or_create api kind key b s = (case js_get key s of
       Some _ \<Rightarrow> k_write api KReplace kind key b s
     | None \<Rightarrow> (case ka_fault api KReplace kind key of
           Some f \<Rightarrow> (s, Some (fault_text f))
         | None \<Rightarrow> k_write api KCreate kind key b s))"

definition delete_if_exists :: "k_api \<Rightarrow> k_kind \<Rightarrow> k_key \<Rightarrow> 'b k_store \<Rightarrow> 'b k_store \<times> string option" where
  "delete_if_exists api kind key s = (case ka_fault api KDelete kind key of
       None \<Rightarrow> (AList.delete key s, None)
     | Some (Refused m) \<Rightarrow> (s, Some m)
     | Some (LostReply m) \<Rightarrow> (AList.delete key s, Some m))"

definition selects :: "k_labels \<Rightarrow> k_labels \<Rightarrow> bool" where
  "selects sel ls = list_all (\<lambda>(k, v). js_get k ls = Some v) sel"

definition k_list :: "k_api \<Rightarrow> k_kind \<Rightarrow> string \<Rightarrow> k_labels \<Rightarrow> ('b \<Rightarrow> k_labels) \<Rightarrow> 'b k_store \<Rightarrow> string + string list" where
  "k_list api kind ns sel lab s = (case ka_fault api KList kind (ns, []) of
       Some f \<Rightarrow> Inl (fault_text f)
     | None \<Rightarrow> Inr (map (snd \<circ> fst) (filter (\<lambda>(k, b). fst k = ns \<and> selects sel (lab b)) s)))"

section \<open>Objects\<close>

record k_configmap =
  kc_labels :: k_labels
  kc_data :: "(string \<times> string) list"

text \<open>A port: its name, port, target port, protocol.\<close>

record k_service =
  ks_labels :: k_labels
  ks_type :: "string option"
  ks_external :: "string option"
  ks_selector :: k_labels
  ks_ports :: "(string \<times> int \<times> int \<times> string) list"
  ks_cluster_ip :: "string option"

record k_deployment =
  kd_labels :: k_labels
  kd_replicas :: int
  kd_selector :: k_labels
  kd_pod_labels :: k_labels
  kd_volumes :: "(string \<times> string) list"
  kd_run_as :: "bool \<times> int \<times> int \<times> int"
  kd_container :: string
  kd_image :: string
  kd_command :: "string list"
  kd_ports :: "(string \<times> int \<times> string) list"
  kd_mounts :: "(string \<times> string \<times> bool) list"
  kd_requests :: "(string \<times> string) list"
  kd_limits :: "(string \<times> string) list"
  kd_allow_escalation :: bool
  kd_read_only_root :: bool
  kd_drop :: "string list"

text \<open>\<open>kn_from\<close>: namespace selectors; \<open>kn_to\<close>: namespace and pod selectors.\<close>

record k_netpol =
  kn_labels :: k_labels
  kn_pod_selector :: k_labels
  kn_types :: "string list"
  kn_from :: "k_labels list"
  kn_to :: "(k_labels \<times> k_labels) list"
  kn_to_ports :: "(string \<times> int) list"

record k_route =
  kr_labels :: k_labels
  kr_entry_points :: "string list"
  kr_match :: string
  kr_middlewares :: "(string \<times> string) list"
  kr_services :: "(string \<times> int) list"
  kr_tls_secret :: string

record k_middleware =
  km_labels :: k_labels
  km_average :: int
  km_burst :: int

record k_certificate =
  kx_labels :: k_labels
  kx_secret :: string
  kx_duration :: string
  kx_renew_before :: string
  kx_key :: "string \<times> int \<times> string"
  kx_usages :: "string list"
  kx_dns_names :: "string list"
  kx_issuer :: "string \<times> string \<times> string"

record pw_cluster =
  pc_configmaps :: "k_configmap k_store"
  pc_services :: "k_service k_store"
  pc_deployments :: "k_deployment k_store"
  pc_secrets :: "string k_store"
  pc_netpols :: "k_netpol k_store"
  pc_routes :: "k_route k_store"
  pc_middlewares :: "k_middleware k_store"
  pc_certificates :: "k_certificate k_store"

type_synonym k_op = "pw_cluster \<Rightarrow> pw_cluster \<times> string option"

definition on_configmaps :: "(k_configmap k_store \<Rightarrow> k_configmap k_store \<times> string option) \<Rightarrow> k_op" where
  "on_configmaps f c = (case f (pc_configmaps c) of (s, e) \<Rightarrow> (c\<lparr>pc_configmaps := s\<rparr>, e))"

definition on_services :: "(k_service k_store \<Rightarrow> k_service k_store \<times> string option) \<Rightarrow> k_op" where
  "on_services f c = (case f (pc_services c) of (s, e) \<Rightarrow> (c\<lparr>pc_services := s\<rparr>, e))"

definition on_deployments :: "(k_deployment k_store \<Rightarrow> k_deployment k_store \<times> string option) \<Rightarrow> k_op" where
  "on_deployments f c = (case f (pc_deployments c) of (s, e) \<Rightarrow> (c\<lparr>pc_deployments := s\<rparr>, e))"

definition on_secrets :: "(string k_store \<Rightarrow> string k_store \<times> string option) \<Rightarrow> k_op" where
  "on_secrets f c = (case f (pc_secrets c) of (s, e) \<Rightarrow> (c\<lparr>pc_secrets := s\<rparr>, e))"

definition on_netpols :: "(k_netpol k_store \<Rightarrow> k_netpol k_store \<times> string option) \<Rightarrow> k_op" where
  "on_netpols f c = (case f (pc_netpols c) of (s, e) \<Rightarrow> (c\<lparr>pc_netpols := s\<rparr>, e))"

definition on_routes :: "(k_route k_store \<Rightarrow> k_route k_store \<times> string option) \<Rightarrow> k_op" where
  "on_routes f c = (case f (pc_routes c) of (s, e) \<Rightarrow> (c\<lparr>pc_routes := s\<rparr>, e))"

definition on_middlewares :: "(k_middleware k_store \<Rightarrow> k_middleware k_store \<times> string option) \<Rightarrow> k_op" where
  "on_middlewares f c = (case f (pc_middlewares c) of (s, e) \<Rightarrow> (c\<lparr>pc_middlewares := s\<rparr>, e))"

definition on_certificates :: "(k_certificate k_store \<Rightarrow> k_certificate k_store \<times> string option) \<Rightarrow> k_op" where
  "on_certificates f c = (case f (pc_certificates c) of (s, e) \<Rightarrow> (c\<lparr>pc_certificates := s\<rparr>, e))"

section \<open>Sequences of calls\<close>

text \<open>Awaited calls: the first error is thrown. \<open>warned\<close>: the error of a call is only logged.\<close>

fun all_of :: "k_op list \<Rightarrow> k_op" where
  "all_of [] c = (c, None)"
| "all_of (f # fs) c = (case f c of (c', Some e) \<Rightarrow> (c', Some e) | (c', None) \<Rightarrow> all_of fs c')"

definition warned :: "k_op \<Rightarrow> k_op" where
  "warned f c = (fst (f c), None)"

text \<open>The steps of a reconciliation: each runs, the errors are collected (\<open>safe\<close>).\<close>

fun run_safe :: "(string \<times> k_op) list \<Rightarrow> pw_cluster \<Rightarrow> pw_cluster \<times> string list" where
  "run_safe [] c = (c, [])"
| "run_safe ((step, f) # fs) c = (case f c of (c', e) \<Rightarrow> (case run_safe fs c' of (c'', es) \<Rightarrow>
     (c'', (case e of None \<Rightarrow> es | Some m \<Rightarrow> (step @ '': '' @ m) # es))))"

definition errors_text :: "string list \<Rightarrow> string option" where
  "errors_text es = (if es = [] then None else Some (join_with ''; '' es))"

section \<open>Names and labels\<close>

definition FRPS_DEPLOYMENT_NAME :: string where "FRPS_DEPLOYMENT_NAME = ''private-worker-server''"
definition FRPS_CONFIGMAP_NAME :: string where "FRPS_CONFIGMAP_NAME = ''private-worker-server-config''"
definition FRPS_NETPOL_NAME :: string where "FRPS_NETPOL_NAME = ''private-worker-server-policy''"
definition FRPS_SECRET_NAME :: string where "FRPS_SECRET_NAME = ''private-worker-tokens''"
definition PLATFORM_SYSTEM_NAMESPACE :: string where "PLATFORM_SYSTEM_NAMESPACE = ''platform-system''"
definition TUNNEL_ISSUER_SETTING_KEY :: string where "TUNNEL_ISSUER_SETTING_KEY = ''private_worker_tunnel_issuer''"
definition DEFAULT_TUNNEL_ISSUER :: string where "DEFAULT_TUNNEL_ISSUER = ''letsencrypt-prod-http01''"
definition FRPS_BIND_PORT :: int where "FRPS_BIND_PORT = 7000"

definition frps_image :: "pw_config \<Rightarrow> string" where
  "frps_image cfg = or_env (wc_frps_image cfg) ''fatedier/frps:v0.62.1''"

definition ingress_controller_namespace :: "pw_config \<Rightarrow> string" where
  "ingress_controller_namespace cfg = or_env (wc_ingress_namespace cfg) ''traefik''"

definition pw_service_name :: "string \<Rightarrow> string" where
  "pw_service_name k = ''pw-'' @ k"

definition tunnel_name :: "string \<Rightarrow> string" where
  "tunnel_name slug = ''tunnel-'' @ slug"

definition ratelimit_name :: "string \<Rightarrow> string" where
  "ratelimit_name name = name @ ''-ratelimit''"

definition managed_labels :: "string \<Rightarrow> k_labels" where
  "managed_labels name = [(''app.kubernetes.io/name'', name), (''app.kubernetes.io/managed-by'', ''platform-api'')]"

definition frps_selector :: k_labels where
  "frps_selector = [(''app.kubernetes.io/name'', FRPS_DEPLOYMENT_NAME)]"

definition tunnel_labels :: "string \<Rightarrow> k_labels" where
  "tunnel_labels ns = [(''platform.phoenix-host.net/private-worker-tunnel'', ''true''),
     (''platform.phoenix-host.net/tenant-namespace'', ns)]"

definition pw_service_selector :: k_labels where
  "pw_service_selector = [(''platform.phoenix-host.net/private-worker-service'', ''true'')]"

section \<open>Traefik objects\<close>

definition default_labels :: "k_labels \<Rightarrow> k_labels" where
  "default_labels extra = fold (\<lambda>(k, v). AList.update k v) extra
     [(''app.kubernetes.io/part-of'', ''hosting-platform''), (''app.kubernetes.io/managed-by'', ''platform-api'')]"

definition build_middleware :: "int \<Rightarrow> int \<Rightarrow> k_labels \<Rightarrow> k_middleware" where
  "build_middleware average burst ls = \<lparr>km_labels = default_labels ls, km_average = average, km_burst = burst\<rparr>"

text \<open>\<open>buildIngressRoute\<close> for one route whose services name no namespace.\<close>

definition build_ingress_route :: "string \<Rightarrow> (string \<times> string) list \<Rightarrow> (string \<times> int) list \<Rightarrow> string \<Rightarrow> k_labels \<Rightarrow> k_route" where
  "build_ingress_route rule mws svcs tls ls = \<lparr>kr_labels = default_labels ls, kr_entry_points = [''websecure''],
     kr_match = rule, kr_middlewares = mws, kr_services = svcs, kr_tls_secret = tls\<rparr>"

text \<open>A host with a backtick is refused: the error is thrown.\<close>

definition encode_match_literal :: "string \<Rightarrow> string + string" where
  "encode_match_literal s = (if CHR 0x60 \<in> set s then Inl (''Traefik match literal cannot contain backticks: '' @ s) else Inr s)"

definition host_match :: "string \<Rightarrow> string + string" where
  "host_match host = (case encode_match_literal host of
       Inl e \<Rightarrow> Inl e | Inr h \<Rightarrow> Inr (''Host('' @ [CHR 0x60] @ h @ [CHR 0x60] @ '')''))"

end
