(* ===== verification/WorkerReconcile.thy ===== *)
theory WorkerReconcile
  imports WorkerCluster
begin

text \<open>
  \<open>private-workers/reconciler.ts\<close>: what a reconciliation writes and deletes in the cluster, its steps in the order of the
  source, and the lifecycle hook that runs it after it changed the rows of a tenant. A reconciliation reads the tables at
  one moment.
\<close>

section \<open>Objects in the tenant's namespace\<close>

definition allow_ports_table :: "int list \<Rightarrow> string" where
  "allow_ports_table ports = (if ports = [] then ''# No active workers '' @ map char_of [226 :: nat, 128, 148] @
       '' placeholder allowPorts entry blocks all proxies.''
     else join_with [CHR 0x0A] (map (\<lambda>p. ''[[allowPorts]]'' @ [CHR 0x0A] @ ''start = '' @ show_int p @ [CHR 0x0A] @
       ''end = '' @ show_int p) ports))"

definition escape_quotes :: "string \<Rightarrow> string" where
  "escape_quotes s = concat (map (\<lambda>c. if c = CHR 0x22 then [CHR 0x5C, CHR 0x22] else [c]) s)"

text \<open>The dash of the comments is shown by its UTF-8 bytes.\<close>

definition frps_toml :: "string \<Rightarrow> int list \<Rightarrow> string" where
  "frps_toml auth_token ports = join_with [CHR 0x0A] [
     ''# Managed by platform-api private-worker reconciler.'',
     ''bindAddr = '' @ in_quotes ''0.0.0.0'',
     ''bindPort = '' @ show_int FRPS_BIND_PORT,
     ''transport.tls.force = false'',
     '''',
     ''# Control + data over the same WebSocket connection.'',
     ''# vhostHTTPPort is unset '' @ map char_of [226 :: nat, 128, 148] @ '' we proxy raw TCP per worker.'',
     '''',
     ''# Token authentication '' @ map char_of [226 :: nat, 128, 148] @ '' shared per-tenant secret.'',
     ''auth.method = '' @ in_quotes ''token'',
     ''auth.token = '' @ in_quotes (escape_quotes auth_token),
     '''',
     ''# Port allowlist '' @ map char_of [226 :: nat, 128, 148] @ '' ONLY active workers are accepted.'',
     allow_ports_table ports,
     '''']"

definition frps_configmap :: "string \<Rightarrow> int list \<Rightarrow> k_configmap" where
  "frps_configmap auth_token ports = \<lparr>kc_labels = managed_labels FRPS_DEPLOYMENT_NAME,
     kc_data = [(''frps.toml'', frps_toml auth_token ports)]\<rparr>"

definition upsert_frps_config_map :: "k_api \<Rightarrow> string \<Rightarrow> string \<Rightarrow> int list \<Rightarrow> k_op" where
  "upsert_frps_config_map api ns auth_token ports =
     on_configmaps (k_replace_or_create api KConfigMap (ns, FRPS_CONFIGMAP_NAME) (frps_configmap auth_token ports))"

text \<open>The server gives a new Service of the default type a cluster address; a replacement keeps the old one.\<close>

definition admit_service :: "k_api \<Rightarrow> k_key \<Rightarrow> k_service \<Rightarrow> k_service" where
  "admit_service api key b = (if ks_type b = None then b\<lparr>ks_cluster_ip := Some (ka_alloc_ip api key)\<rparr> else b)"

definition keep_ip :: "k_service \<Rightarrow> k_service option \<Rightarrow> k_service" where
  "keep_ip b old = (case old of Some o' \<Rightarrow> b\<lparr>ks_cluster_ip := ks_cluster_ip o'\<rparr> | None \<Rightarrow> b)"

definition control_plane_service :: k_service where
  "control_plane_service = \<lparr>ks_labels = managed_labels FRPS_DEPLOYMENT_NAME, ks_type = None, ks_external = None,
     ks_selector = frps_selector, ks_ports = [(''control'', FRPS_BIND_PORT, FRPS_BIND_PORT, ''TCP'')], ks_cluster_ip = None\<rparr>"

definition upsert_control_plane_service :: "k_api \<Rightarrow> string \<Rightarrow> k_op" where
  "upsert_control_plane_service api ns = on_services (k_upsert api KService (ns, FRPS_DEPLOYMENT_NAME)
     (keep_ip control_plane_service) (admit_service api (ns, FRPS_DEPLOYMENT_NAME)))"

definition per_worker_service :: "string \<Rightarrow> int \<Rightarrow> k_service" where
  "per_worker_service name p = \<lparr>ks_labels = [(''app.kubernetes.io/name'', name),
       (''app.kubernetes.io/component'', ''private-worker''), (''app.kubernetes.io/managed-by'', ''platform-api''),
       (''platform.phoenix-host.net/private-worker-service'', ''true'')],
     ks_type = None, ks_external = None, ks_selector = frps_selector, ks_ports = [(''tcp'', p, p, ''TCP'')],
     ks_cluster_ip = None\<rparr>"

definition upsert_per_worker_service :: "k_api \<Rightarrow> string \<Rightarrow> string \<Rightarrow> int \<Rightarrow> k_op" where
  "upsert_per_worker_service api ns name p = on_services (k_upsert api KService (ns, name)
     (keep_ip (per_worker_service name p)) (admit_service api (ns, name)))"

definition frps_deployment :: "pw_config \<Rightarrow> k_deployment" where
  "frps_deployment cfg = \<lparr>kd_labels = managed_labels FRPS_DEPLOYMENT_NAME, kd_replicas = 1, kd_selector = frps_selector,
     kd_pod_labels = frps_selector, kd_volumes = [(''config'', FRPS_CONFIGMAP_NAME)], kd_run_as = (True, 1000, 1000, 1000),
     kd_container = ''frps'', kd_image = frps_image cfg, kd_command = [''/usr/bin/frps'', ''-c'', ''/etc/frp/frps.toml''],
     kd_ports = [(''control'', FRPS_BIND_PORT, ''TCP'')], kd_mounts = [(''config'', ''/etc/frp'', True)],
     kd_requests = [(''cpu'', ''25m''), (''memory'', ''24Mi'')], kd_limits = [(''cpu'', ''200m''), (''memory'', ''128Mi'')],
     kd_allow_escalation = False, kd_read_only_root = True, kd_drop = [''ALL'']\<rparr>"

definition upsert_frps_deployment :: "pw_config \<Rightarrow> k_api \<Rightarrow> string \<Rightarrow> k_op" where
  "upsert_frps_deployment cfg api ns =
     on_deployments (k_upsert api KDeployment (ns, FRPS_DEPLOYMENT_NAME) (\<lambda>_. frps_deployment cfg) (\<lambda>b. b))"

definition frps_netpol :: "pw_config \<Rightarrow> string \<Rightarrow> k_netpol" where
  "frps_netpol cfg ns = \<lparr>kn_labels = [(''app.kubernetes.io/managed-by'', ''platform-api''),
       (''app.kubernetes.io/name'', FRPS_DEPLOYMENT_NAME)], kn_pod_selector = frps_selector,
     kn_types = [''Ingress'', ''Egress''],
     kn_from = [[(''kubernetes.io/metadata.name'', ingress_controller_namespace cfg)], [(''kubernetes.io/metadata.name'', ns)]],
     kn_to = [([(''kubernetes.io/metadata.name'', ''kube-system'')], [(''k8s-app'', ''kube-dns'')])],
     kn_to_ports = [(''UDP'', 53), (''TCP'', 53)]\<rparr>"

definition upsert_frps_network_policy :: "pw_config \<Rightarrow> k_api \<Rightarrow> string \<Rightarrow> k_op" where
  "upsert_frps_network_policy cfg api ns =
     on_netpols (k_upsert api KNetPol (ns, FRPS_NETPOL_NAME) (\<lambda>_. frps_netpol cfg ns) (\<lambda>b. b))"

section \<open>Objects in the platform's namespace\<close>

definition external_name_service :: "string \<Rightarrow> k_service" where
  "external_name_service ns = \<lparr>ks_labels = (''app.kubernetes.io/managed-by'', ''platform-api'') # tunnel_labels ns,
     ks_type = Some ''ExternalName'', ks_external = Some (FRPS_DEPLOYMENT_NAME @ ''.'' @ ns @ ''.svc.cluster.local''),
     ks_selector = [], ks_ports = [(''control'', FRPS_BIND_PORT, FRPS_BIND_PORT, ''TCP'')], ks_cluster_ip = None\<rparr>"

definition upsert_external_name_service :: "k_api \<Rightarrow> string \<Rightarrow> string \<Rightarrow> k_op" where
  "upsert_external_name_service api slug ns = on_services (k_upsert api KService
     (PLATFORM_SYSTEM_NAMESPACE, tunnel_name slug) (\<lambda>_. external_name_service ns)
     (admit_service api (PLATFORM_SYSTEM_NAMESPACE, tunnel_name slug)))"

definition tunnel_host :: "pw_config \<Rightarrow> string \<Rightarrow> string" where
  "tunnel_host cfg slug = slug @ ''.tunnels.'' @ resolve_platform_domain cfg"

definition tunnel_middleware :: "string \<Rightarrow> k_middleware" where
  "tunnel_middleware ns = build_middleware 5 5 (tunnel_labels ns)"

definition tunnel_certificate :: "pw_config \<Rightarrow> string \<Rightarrow> string \<Rightarrow> string \<Rightarrow> k_certificate" where
  "tunnel_certificate cfg slug ns issuer = \<lparr>kx_labels = (''app.kubernetes.io/managed-by'', ''platform-api'') # tunnel_labels ns,
     kx_secret = tunnel_name slug @ ''-tls'', kx_duration = ''2160h'', kx_renew_before = ''720h'',
     kx_key = (''ECDSA'', 256, ''Always''), kx_usages = [''digital signature'', ''key encipherment'', ''server auth''],
     kx_dns_names = [tunnel_host cfg slug], kx_issuer = (issuer, ''ClusterIssuer'', ''cert-manager.io'')\<rparr>"

definition tunnel_route :: "string \<Rightarrow> string \<Rightarrow> string \<Rightarrow> k_route" where
  "tunnel_route slug ns rule = build_ingress_route rule
     [(ratelimit_name (tunnel_name slug), PLATFORM_SYSTEM_NAMESPACE)] [(tunnel_name slug, FRPS_BIND_PORT)]
     (tunnel_name slug @ ''-tls'') (tunnel_labels ns)"

definition apply_middleware :: "k_api \<Rightarrow> k_key \<Rightarrow> k_middleware \<Rightarrow> k_op" where
  "apply_middleware api key b = on_middlewares (k_upsert api KMiddleware key (\<lambda>_. b) (\<lambda>x. x))"

definition apply_ingress_route :: "k_api \<Rightarrow> k_key \<Rightarrow> k_route \<Rightarrow> k_op" where
  "apply_ingress_route api key b = on_routes (k_upsert api KIngressRoute key (\<lambda>_. b) (\<lambda>x. x))"

definition apply_certificate :: "k_api \<Rightarrow> k_key \<Rightarrow> k_certificate \<Rightarrow> k_op" where
  "apply_certificate api key b = on_certificates (k_upsert api KCertificate key (\<lambda>_. b) (\<lambda>x. x))"

definition apply_tunnel_route :: "pw_config \<Rightarrow> k_api \<Rightarrow> string \<Rightarrow> string \<Rightarrow> k_op" where
  "apply_tunnel_route cfg api slug ns c = (case host_match (tunnel_host cfg slug) of
       Inl e \<Rightarrow> (c, Some e)
     | Inr rule \<Rightarrow> apply_ingress_route api (PLATFORM_SYSTEM_NAMESPACE, tunnel_name slug) (tunnel_route slug ns rule) c)"

definition upsert_tunnel_ingress :: "pw_config \<Rightarrow> k_api \<Rightarrow> string \<Rightarrow> string \<Rightarrow> string \<Rightarrow> k_op" where
  "upsert_tunnel_ingress cfg api slug ns issuer = all_of
     [apply_middleware api (PLATFORM_SYSTEM_NAMESPACE, ratelimit_name (tunnel_name slug)) (tunnel_middleware ns),
      apply_certificate api (PLATFORM_SYSTEM_NAMESPACE, tunnel_name slug) (tunnel_certificate cfg slug ns issuer),
      apply_tunnel_route cfg api slug ns]"

section \<open>Reapers\<close>

text \<open>\<open>n.startsWith('tunnel-') && !activeSlugs.has(n.slice(7))\<close>.\<close>

definition stale_tunnel :: "string list \<Rightarrow> string \<Rightarrow> bool" where
  "stale_tunnel slugs n = (starts_with n ''tunnel-'' \<and> drop 7 n \<notin> set slugs)"

definition reap_tunnel_services :: "k_api \<Rightarrow> string \<Rightarrow> string list \<Rightarrow> k_op" where
  "reap_tunnel_services api ns slugs c =
     (case k_list api KService PLATFORM_SYSTEM_NAMESPACE (tunnel_labels ns) ks_labels (pc_services c) of
        Inl e \<Rightarrow> (c, Some e)
      | Inr names \<Rightarrow> all_of (map (\<lambda>n. on_services (delete_if_exists api KService (PLATFORM_SYSTEM_NAMESPACE, n)))
                       (filter (stale_tunnel slugs) names)) c)"

definition reap_one_tunnel :: "k_api \<Rightarrow> string \<Rightarrow> k_op" where
  "reap_one_tunnel api n = all_of
     [on_routes (delete_if_exists api KIngressRoute (PLATFORM_SYSTEM_NAMESPACE, n)),
      on_middlewares (delete_if_exists api KMiddleware (PLATFORM_SYSTEM_NAMESPACE, ratelimit_name n)),
      warned (on_certificates (delete_if_exists api KCertificate (PLATFORM_SYSTEM_NAMESPACE, n)))]"

definition reap_tunnel_routes :: "k_api \<Rightarrow> string \<Rightarrow> string list \<Rightarrow> k_op" where
  "reap_tunnel_routes api ns slugs c =
     (case k_list api KIngressRoute PLATFORM_SYSTEM_NAMESPACE (tunnel_labels ns) kr_labels (pc_routes c) of
        Inl e \<Rightarrow> (c, Some e)
      | Inr names \<Rightarrow> all_of (map (reap_one_tunnel api) (filter (stale_tunnel slugs) names)) c)"

definition reap_stale_tunnels :: "k_api \<Rightarrow> string \<Rightarrow> string list \<Rightarrow> k_op" where
  "reap_stale_tunnels api ns slugs = all_of [reap_tunnel_services api ns slugs, reap_tunnel_routes api ns slugs]"

definition reap_stale_per_worker_services :: "k_api \<Rightarrow> string \<Rightarrow> string list \<Rightarrow> k_op" where
  "reap_stale_per_worker_services api ns active c =
     (case k_list api KService ns pw_service_selector ks_labels (pc_services c) of
        Inl e \<Rightarrow> (c, Some e)
      | Inr names \<Rightarrow> all_of (map (\<lambda>n. on_services (delete_if_exists api KService (ns, n)))
                       (filter (\<lambda>n. n \<notin> set active) names)) c)"

section \<open>Reconciliation\<close>

datatype reconcile_action = ActApply | ActNoop | ActTeardown

record reconcile_outcome =
  ro_tenant :: string
  ro_action :: reconcile_action
  ro_count :: nat
  ro_error :: "string option"

definition get_tenant_namespace :: "string \<Rightarrow> pw_world \<Rightarrow> string option" where
  "get_tenant_namespace t w = map_option pt_namespace (tenant_entry t w)"

definition load_tenant_shared_secret :: "string \<Rightarrow> pw_world \<Rightarrow> string option" where
  "load_tenant_shared_secret t w = (case tenant_entry t w of Some r \<Rightarrow> pt_secret r | None \<Rightarrow> None)"

definition load_tunnel_issuer :: "pw_world \<Rightarrow> string" where
  "load_tunnel_issuer w = (case js_get TUNNEL_ISSUER_SETTING_KEY (ww_settings w) of
       Some v \<Rightarrow> if js_trim v \<noteq> [] then js_trim v else DEFAULT_TUNNEL_ISSUER
     | None \<Rightarrow> DEFAULT_TUNNEL_ISSUER)"

definition active_workers :: "string \<Rightarrow> pw_world \<Rightarrow> pw_row list" where
  "active_workers t w = filter (\<lambda>r. pw_tenant r = t \<and> pw_status r \<in> {PwActive, PwPending}) (ww_workers w)"

definition apply_steps :: "pw_config \<Rightarrow> k_api \<Rightarrow> string \<Rightarrow> string \<Rightarrow> string \<Rightarrow> pw_row list \<Rightarrow> (string \<times> k_op) list" where
  "apply_steps cfg api ns secret issuer ws =
     [(''configmap'', upsert_frps_config_map api ns secret (map pw_port ws)),
      (''service:frps-control'', upsert_control_plane_service api ns)] @
     map (\<lambda>r. (''service:'' @ pw_id r, upsert_per_worker_service api ns (pw_service_name (pw_id r)) (pw_port r))) ws @
     [(''frps-deployment'', upsert_frps_deployment cfg api ns),
      (''networkpolicy'', upsert_frps_network_policy cfg api ns)] @
     concat (map (\<lambda>r. [(''externalname:'' @ pw_slug r, upsert_external_name_service api (pw_slug r) ns),
                       (''tunnel-ingress:'' @ pw_slug r, upsert_tunnel_ingress cfg api (pw_slug r) ns issuer)]) ws) @
     [(''reap-stale-tunnels'', reap_stale_tunnels api ns (map pw_slug ws)),
      (''reap-stale-pw-services'', reap_stale_per_worker_services api ns (map (\<lambda>r. pw_service_name (pw_id r)) ws))]"

definition apply_workers :: "pw_config \<Rightarrow> k_api \<Rightarrow> pw_world \<Rightarrow> string \<Rightarrow> pw_row list \<Rightarrow> k_op" where
  "apply_workers cfg api w ns ws c = (case load_tenant_shared_secret (pw_tenant (hd ws)) w of
       Some (x # xs) \<Rightarrow>
         (case run_safe (apply_steps cfg api ns (x # xs) (load_tunnel_issuer w) ws) c of (c', es) \<Rightarrow> (c', errors_text es))
     | _ \<Rightarrow> (c, Some ''private-worker shared secret missing on tenants row; refusing to render unauthenticated frps''))"

definition tear_down_steps :: "k_api \<Rightarrow> string \<Rightarrow> (string \<times> k_op) list" where
  "tear_down_steps api ns =
     [(''reap-tunnels-all'', reap_stale_tunnels api ns []),
      (''reap-pw-services-all'', reap_stale_per_worker_services api ns []),
      (''frps-deployment'', on_deployments (delete_if_exists api KDeployment (ns, FRPS_DEPLOYMENT_NAME))),
      (''frps-configmap'', on_configmaps (delete_if_exists api KConfigMap (ns, FRPS_CONFIGMAP_NAME))),
      (''frps-secret'', on_secrets (delete_if_exists api KSecret (ns, FRPS_SECRET_NAME))),
      (''frps-netpol'', on_netpols (delete_if_exists api KNetPol (ns, FRPS_NETPOL_NAME)))]"

definition tear_down :: "k_api \<Rightarrow> string \<Rightarrow> k_op" where
  "tear_down api ns c = (case run_safe (tear_down_steps api ns) c of (c', es) \<Rightarrow> (c', errors_text es))"

definition reconcile_private_workers_for_tenant :: "pw_config \<Rightarrow> k_api \<Rightarrow> string \<Rightarrow> pw_world \<Rightarrow> pw_cluster \<Rightarrow>
    pw_cluster \<times> reconcile_outcome" where
  "reconcile_private_workers_for_tenant cfg api t w c = (case get_tenant_namespace t w of
       Some (x # xs) \<Rightarrow>
         (let ns = x # xs; ws = active_workers t w in
          if ws = [] then (case tear_down api ns c of (c', e) \<Rightarrow>
            (c', \<lparr>ro_tenant = t, ro_action = ActTeardown, ro_count = 0, ro_error = e\<rparr>))
          else (case apply_workers cfg api w ns ws c of (c', e) \<Rightarrow>
            (c', \<lparr>ro_tenant = t, ro_action = ActApply, ro_count = length ws, ro_error = e\<rparr>)))
     | _ \<Rightarrow> (c, \<lparr>ro_tenant = t, ro_action = ActNoop, ro_count = 0,
                ro_error = Some ''tenant not found or has no namespace''\<rparr>))"

section \<open>The lifecycle hook\<close>

record pw_system =
  ps_db :: pw_world
  ps_cluster :: pw_cluster

definition try_reconcile :: "pw_config \<Rightarrow> k_api \<Rightarrow> string \<Rightarrow> pw_system \<Rightarrow> pw_system" where
  "try_reconcile cfg api t s =
     s\<lparr>ps_cluster := fst (reconcile_private_workers_for_tenant cfg api t (ps_db s) (ps_cluster s))\<rparr>"

text \<open>The rows after the hook's statement; \<open>None\<close> for a transition it has no case for.\<close>

definition hook_rows :: "int \<Rightarrow> transition \<Rightarrow> string \<Rightarrow> pw_world \<Rightarrow> pw_world option" where
  "hook_rows now tr t w = (case tr of
       Suspended \<Rightarrow> Some (update_workers now (\<lambda>r. pw_tenant r = t \<and> pw_status r \<in> {PwActive, PwPending})
                     (\<lambda>r. r\<lparr>pw_status := PwSuspended\<rparr>) w)
     | Restored \<Rightarrow> Some (update_workers now (\<lambda>r. pw_tenant r = t \<and> pw_status r = PwSuspended)
                     (\<lambda>r. r\<lparr>pw_status := PwActive\<rparr>) w)
     | Archived \<Rightarrow> Some (update_workers now (\<lambda>r. pw_tenant r = t \<and> pw_status r \<in> {PwActive, PwPending, PwSuspended})
                     (revoke_row now (Some ''lifecycle:archived'')) w)
     | Deleted \<Rightarrow> Some (delete_workers (\<lambda>r. pw_tenant r = t) w)
     | Active \<Rightarrow> None)"

text \<open>\<open>db_error\<close>: the error of the statement, when it throws.\<close>

definition run_impl :: "pw_config \<Rightarrow> k_api \<Rightarrow> int \<Rightarrow> string option \<Rightarrow> hook_ctx \<Rightarrow> pw_system \<Rightarrow> hook_outcome \<times> pw_system" where
  "run_impl cfg api now db_error ctx s = (case hook_rows now (ctx_transition ctx) (ctx_tenant ctx) (ps_db s) of
       None \<Rightarrow> (Returned HNoop None, s)
     | Some w \<Rightarrow> (case db_error of
           Some m \<Rightarrow> (ThrewError ''Error'' m None, s)
         | None \<Rightarrow> (Returned HOk None, try_reconcile cfg api (ctx_tenant ctx) (s\<lparr>ps_db := w\<rparr>))))"

definition private_workers_lifecycle_hook :: "nat \<Rightarrow> pw_config \<Rightarrow> k_api \<Rightarrow> int \<Rightarrow> string option \<Rightarrow> pw_system lifecycle_hook" where
  "private_workers_lifecycle_hook ref cfg api now db_error = \<lparr>hook_ref = ref, hname = ''db-private-workers'',
     transitions = [Suspended, Restored, Archived, Deleted], order = JNum 230, blocking = ''abort'', max_attempts = None,
     backoff_ms = None, after = None, hrun = run_impl cfg api now db_error\<rparr>"

end
