(* ===== verification/WorkerLaws.thy ===== *)
theory WorkerLaws
  imports WorkerReconcile
begin

text \<open>
  The rows of the private workers: what the unique indexes and the foreign keys keep true, through every operation and
  whatever other requests do between its statements, and the system of all operations.
\<close>

section \<open>The invariant\<close>

definition has_secret :: "string \<Rightarrow> pw_world \<Rightarrow> bool" where
  "has_secret t w = (\<exists>c cs. load_tenant_shared_secret t w = Some (c # cs))"

definition keys_distinct :: "pw_row list \<Rightarrow> bool" where
  "keys_distinct rs = (distinct (map pw_id rs) \<and> distinct (map pw_slug rs) \<and>
     distinct (map (\<lambda>r. (pw_tenant r, pw_name r)) rs) \<and> distinct (map (\<lambda>r. (pw_tenant r, pw_port r)) rs))"

definition pw_inv :: "pw_world \<Rightarrow> bool" where
  "pw_inv w = (keys_distinct (ww_workers w) \<and>
     (\<forall>r \<in> set (ww_workers w). PORT_POOL_LOW \<le> pw_port r \<and> pw_port r \<le> PORT_POOL_HIGH \<and> has_secret (pw_tenant r) w) \<and>
     distinct (map pt_id (ww_tenants w)) \<and> distinct (map pt_namespace (ww_tenants w)) \<and>
     pa_worker ` set (ww_audit w) \<subseteq> pw_id ` set (ww_workers w))"

text \<open>What a request relies on: the others keep the invariant, take no secret away, and bring no deleted tenant back.\<close>

definition secret_or_gone :: "string \<Rightarrow> pw_world \<Rightarrow> bool" where
  "secret_or_gone t w = (tenant_entry t w = None \<or> has_secret t w)"

definition others_ok :: "string \<Rightarrow> others \<Rightarrow> bool" where
  "others_ok t oth = (\<forall>p v. pw_inv v \<longrightarrow> pw_inv (oth p v) \<and> (secret_or_gone t v \<longrightarrow> secret_or_gone t (oth p v)))"

lemma others_alone: "others_ok t alone"
  by (simp add: others_ok_def alone_def)

lemma others_okD: "others_ok t oth \<Longrightarrow> pw_inv v \<Longrightarrow> pw_inv (oth p v)"
  "others_ok t oth \<Longrightarrow> pw_inv v \<Longrightarrow> secret_or_gone t v \<Longrightarrow> secret_or_gone t (oth p v)"
  by (simp_all add: others_ok_def)

section \<open>Statements\<close>

lemma has_secret_simps [simp]:
  "has_secret t (w\<lparr>ww_workers := rs\<rparr>) = has_secret t w" "has_secret t (w\<lparr>ww_audit := au\<rparr>) = has_secret t w"
  "has_secret t (w\<lparr>ww_audit_seq := n\<rparr>) = has_secret t w" "has_secret t (w\<lparr>ww_settings := st\<rparr>) = has_secret t w"
  by (simp_all add: has_secret_def load_tenant_shared_secret_def tenant_entry_def)

lemma tenant_row_simps [simp]:
  "tenant_entry t (w\<lparr>ww_workers := rs\<rparr>) = tenant_entry t w" "tenant_entry t (w\<lparr>ww_audit := au\<rparr>) = tenant_entry t w"
  "tenant_entry t (w\<lparr>ww_audit_seq := n\<rparr>) = tenant_entry t w" "tenant_entry t (w\<lparr>ww_settings := st\<rparr>) = tenant_entry t w"
  by (simp_all add: tenant_entry_def)

lemma sub_keys: "keys_distinct rs \<Longrightarrow> keys_distinct (filter p rs)"
  by (simp add: keys_distinct_def distinct_map_filterI)

lemma update_keys:
  assumes "\<And>r. pw_id (f r) = pw_id r" "\<And>r. pw_slug (f r) = pw_slug r" "\<And>r. pw_tenant (f r) = pw_tenant r"
    "\<And>r. pw_name (f r) = pw_name r" "\<And>r. pw_port (f r) = pw_port r"
  shows "keys_distinct (set_where p f rs) = keys_distinct rs"
  by (simp add: keys_distinct_def map_set_where assms)

lemma update_workers_inv:
  assumes "pw_inv w" "\<And>r. pw_id (f r) = pw_id r" "\<And>r. pw_slug (f r) = pw_slug r" "\<And>r. pw_tenant (f r) = pw_tenant r"
    "\<And>r. pw_name (f r) = pw_name r" "\<And>r. pw_port (f r) = pw_port r"
  shows "pw_inv (update_workers now p f w)"
proof -
  let ?f = "\<lambda>r. (f r)\<lparr>pw_updated_at := now\<rparr>"
  have "pw_id ` set (set_where p ?f (ww_workers w)) = pw_id ` set (ww_workers w)"
    by (simp flip: set_map add: map_set_where assms)
  moreover have "PORT_POOL_LOW \<le> pw_port r \<and> pw_port r \<le> PORT_POOL_HIGH \<and> has_secret (pw_tenant r) w"
    if "r \<in> set (set_where p ?f (ww_workers w))" for r
    using that assms by (auto simp: set_where_def pw_inv_def)
  moreover have "keys_distinct (set_where p ?f (ww_workers w)) = keys_distinct (ww_workers w)"
    by (rule update_keys) (simp_all add: assms)
  ultimately show ?thesis using assms(1) by (simp add: pw_inv_def update_workers_def)
qed

lemma delete_workers_inv:
  assumes "pw_inv w"
  shows "pw_inv (delete_workers p w)"
proof -
  have "pa_worker a \<in> pw_id ` {r \<in> set (ww_workers w). \<not> p r}"
    if a: "a \<in> set (ww_audit w)" and keep: "\<forall>r \<in> set (ww_workers w). pw_id r = pa_worker a \<longrightarrow> \<not> p r" for a
  proof -
    have "pa_worker a \<in> pw_id ` set (ww_workers w)" using assms a by (auto simp: pw_inv_def)
    with keep show ?thesis by auto
  qed
  then have "pa_worker ` set (ww_audit (delete_workers p w)) \<subseteq> pw_id ` set (ww_workers (delete_workers p w))"
    by (auto simp: delete_workers_def)
  moreover have "has_secret t (delete_workers p w) = has_secret t w" for t by (simp add: delete_workers_def)
  ultimately show ?thesis using assms by (simp add: pw_inv_def sub_keys) (simp add: delete_workers_def sub_keys)
qed

lemma write_audit_inv: "pw_inv w \<Longrightarrow> pw_inv (fst (write_audit now k e ip d w))"
  by (auto simp: pw_inv_def write_audit_def dest!: first_SomeD split: option.split)

lemma insert_worker_inv:
  assumes i: "pw_inv w" and p: "PORT_POOL_LOW \<le> pw_port r" "pw_port r \<le> PORT_POOL_HIGH" and s: "secret_or_gone (pw_tenant r) w"
  shows "pw_inv (fst (insert_worker r w))"
proof (cases "unique_violation r w \<or> tenant_entry (pw_tenant r) w = None")
  case True
  with i show ?thesis by (auto simp: insert_worker_def)
next
  case False
  then have "keys_distinct (ww_workers w @ [r])"
    using i by (auto simp: pw_inv_def keys_distinct_def unique_violation_def list_ex_iff)
  moreover have "has_secret (pw_tenant r) w" using False s by (auto simp: secret_or_gone_def)
  moreover have "pa_worker ` set (ww_audit w) \<subseteq> pw_id ` set (ww_workers w @ [r])"
    using i unfolding pw_inv_def set_append image_Un by blast
  moreover from calculation(2) have "\<forall>x \<in> set (ww_workers w @ [r]). PORT_POOL_LOW \<le> pw_port x \<and> pw_port x \<le> PORT_POOL_HIGH \<and>
      has_secret (pw_tenant x) w" using i p by (simp add: pw_inv_def)
  ultimately have "pw_inv (w\<lparr>ww_workers := ww_workers w @ [r]\<rparr>)" using i unfolding pw_inv_def by (simp del: set_append)
  then show ?thesis using False by (auto simp: insert_worker_def)
qed

section \<open>Creating a worker\<close>

lemma first_unused_Some:
  "first_unused used p = Some q \<Longrightarrow> p \<le> q \<and> q \<le> PORT_POOL_HIGH \<and> q \<notin> used \<and> (\<forall>j. p \<le> j \<and> j < q \<longrightarrow> j \<in> used)"
proof (induction used p rule: first_unused.induct)
  case (1 used p)
  show ?case
  proof (cases "p \<le> PORT_POOL_HIGH \<and> p \<in> used")
    case True
    then have "first_unused used (p + 1) = Some q" using 1(2) by (simp add: first_unused.simps [of used p])
    with True 1(1) have "p + 1 \<le> q \<and> q \<le> PORT_POOL_HIGH \<and> q \<notin> used \<and> (\<forall>j. p + 1 \<le> j \<and> j < q \<longrightarrow> j \<in> used)" by simp
    moreover have "j \<in> used" if "p \<le> j" "j < q" for j using that True calculation by (cases "j = p") auto
    ultimately show ?thesis by simp
  next
    case False
    with 1(2) show ?thesis by (auto simp: first_unused.simps [of used p] split: if_splits)
  qed
qed

lemma first_unused_None: "first_unused used p = None \<Longrightarrow> p \<le> q \<Longrightarrow> q \<le> PORT_POOL_HIGH \<Longrightarrow> q \<in> used"
proof (induction used p rule: first_unused.induct)
  case (1 used p)
  show ?case
  proof (cases "p \<in> used")
    case True
    with 1(2-4) have "first_unused used (p + 1) = None" by (simp add: first_unused.simps [of used p] split: if_splits)
    with True 1(1,3,4) show ?thesis by (cases "q = p") auto
  next
    case False
    with 1(2-4) show ?thesis by (simp add: first_unused.simps [of used p] split: if_splits)
  qed
qed

lemma pick_in_pool: "pick_exposed_port_candidate t w = Inr p \<Longrightarrow> PORT_POOL_LOW \<le> p \<and> p \<le> PORT_POOL_HIGH"
  by (auto simp: pick_exposed_port_candidate_def split: option.splits dest: first_unused_Some)

lemma set_secret_inv:
  assumes "pw_inv w" "s \<noteq> []"
  shows "pw_inv (w\<lparr>ww_tenants := set_where (\<lambda>x. pt_id x = t \<and> P x) (\<lambda>x. x\<lparr>pt_secret := Some s\<rparr>) (ww_tenants w)\<rparr>)"
proof -
  let ?w = "w\<lparr>ww_tenants := set_where (\<lambda>x. pt_id x = t \<and> P x) (\<lambda>x. x\<lparr>pt_secret := Some s\<rparr>) (ww_tenants w)\<rparr>"
  have row: "tenant_entry u ?w = map_option (\<lambda>x. if pt_id x = t \<and> P x then x\<lparr>pt_secret := Some s\<rparr> else x) (tenant_entry u w)" for u
    by (simp add: tenant_entry_def first_set_where)
  have "has_secret u w \<Longrightarrow> has_secret u ?w" for u
    using assms(2) by (auto simp: has_secret_def load_tenant_shared_secret_def row neq_Nil_conv split: option.splits)
  with assms(1) show ?thesis by (simp add: pw_inv_def map_set_where)
qed

lemma ensure_secret_inv:
  assumes i: "pw_inv w" and o: "others_ok t oth" and e: "we_secret env \<noteq> []"
  shows "pw_inv (fst (ensure_tenant_shared_secret env oth t w))"
    and "snd (ensure_tenant_shared_secret env oth t w) = Inr s \<Longrightarrow>
      has_secret t (fst (ensure_tenant_shared_secret env oth t w)) \<and>
      load_tenant_shared_secret t (fst (ensure_tenant_shared_secret env oth t w)) = Some s"
  using i set_secret_inv [OF others_okD(1) [OF o i, of BeforeMint] e, of t "\<lambda>x. pt_secret x = None"]
  by (auto simp: ensure_tenant_shared_secret_def Let_def has_secret_def load_tenant_shared_secret_def split: option.splits list.splits)

lemma insert_loop_inv:
  assumes o: "others_ok t oth" and mk: "\<And>p. pw_port (mk p) = p \<and> pw_tenant (mk p) = t"
  shows "pw_inv w \<Longrightarrow> secret_or_gone t w \<Longrightarrow> pw_inv (fst (insert_loop oth t mk attempt w n))"
proof (induction n arbitrary: attempt w)
  case (Suc n)
  show ?case
  proof (cases "pick_exposed_port_candidate t w")
    case (Inr p)
    let ?v = "oth (BeforeInsert attempt) w"
    have v: "pw_inv ?v" "secret_or_gone t ?v" using others_okD [OF o] Suc.prems by blast+
    have ins: "pw_inv (fst (insert_worker (mk p) ?v))"
      using v pick_in_pool [OF Inr] by (intro insert_worker_inv) (simp_all add: mk)
    show ?thesis
    proof (cases "snd (insert_worker (mk p) ?v)")
      case None
      with ins show ?thesis by (cases "insert_worker (mk p) ?v") (simp add: Inr)
    next
      case (Some e)
      then have "fst (insert_worker (mk p) ?v) = ?v" by (auto simp: insert_worker_def split: if_splits option.splits)
      with Some v Suc.IH [OF v] show ?thesis by (cases "insert_worker (mk p) ?v") (simp add: Inr)
    qed
  qed (simp add: Suc.prems)
qed simp

lemma finish_create_inv:
  assumes "pw_inv w" "others_ok t oth"
  shows "pw_inv (fst (finish_create cfg env oth cb ip slug s p w))"
proof -
  obtain w3 e where a: "write_audit (we_now env) (we_uuid env) ''mint'' ip (Some (MintDetail cb p slug)) (oth AfterInsert w) = (w3, e)"
    by fastforce
  have "pw_inv w3" using write_audit_inv [OF others_okD(1) [OF assms(2,1), of AfterInsert]] a by (metis fst_conv)
  from this others_okD(1) [OF assms(2) this, of BeforeRefetch] show ?thesis
    by (simp add: finish_create_def a Let_def split: option.split)
qed

lemma create_inv:
  assumes i: "pw_inv w" and o: "others_ok t oth" and e: "we_secret env \<noteq> []"
  shows "pw_inv (fst (create_private_worker cfg env oth t inp cb ip w))"
proof -
  have mk: "pw_port (new_worker env t inp slug s cb p) = p \<and> pw_tenant (new_worker env t inp slug s cb p) = t" for slug s p
    by (simp add: new_worker_def)
  have w: "pw_inv (oth AfterChecks w)" by (rule others_okD(1) [OF o i])
  obtain w1 r where r: "ensure_tenant_shared_secret env oth t (oth AfterChecks w) = (w1, r)" by fastforce
  have w1: "pw_inv w1" using ensure_secret_inv(1) [OF w o e] r by simp
  show ?thesis
  proof (cases r)
    case (Inl er)
    with w1 i show ?thesis by (auto simp: create_private_worker_def r split: option.split sum.split)
  next
    case (Inr s)
    have "secret_or_gone t w1" using ensure_secret_inv(2) [OF w o e] r Inr by (simp add: secret_or_gone_def)
    note l = insert_loop_inv [OF o mk w1 this]
    show ?thesis
    proof (cases "first (\<lambda>r. pw_tenant r = t \<and> pw_name r = ci_name inp) (ww_workers w) = None \<and> (\<exists>slug. choose_slug env inp w = Inr slug)")
      case True
      then obtain slug where n: "first (\<lambda>r. pw_tenant r = t \<and> pw_name r = ci_name inp) (ww_workers w) = None"
        and slug: "choose_slug env inp w = Inr slug" by blast
      obtain w2 p where p: "insert_loop oth t (new_worker env t inp slug s cb) 0 w1 MAX_PORT_RETRIES = (w2, p)" by fastforce
      have "pw_inv (fst (insert_loop oth t (new_worker env t inp slug s cb) 0 w1 MAX_PORT_RETRIES))" by (rule l)
      then have "pw_inv w2" by (simp add: p)
      then show ?thesis using finish_create_inv [OF _ o] by (cases p) (simp_all add: create_private_worker_def n slug r Inr p)
    next
      case False
      with i show ?thesis by (auto simp: create_private_worker_def split: option.split sum.split)
    qed
  qed
qed

section \<open>The other operations\<close>

lemma distinct_keyD: "distinct (map f xs) \<Longrightarrow> x \<in> set xs \<Longrightarrow> y \<in> set xs \<Longrightarrow> f x = f y \<Longrightarrow> x = y"
  by (auto simp: distinct_map dest: inj_onD)

lemma patch_keys:
  assumes d: "keys_distinct rs" and free: "\<And>x r. x \<in> set rs \<Longrightarrow> r \<in> set rs \<Longrightarrow> pw_id x = k \<Longrightarrow> pw_id r \<noteq> k \<Longrightarrow>
      pw_tenant r = pw_tenant x \<Longrightarrow> pw_name r \<noteq> pw_name (patch_worker i x)"
  shows "keys_distinct (set_where (\<lambda>x. pw_id x = k) (\<lambda>x. (patch_worker i x)\<lparr>pw_updated_at := now\<rparr>) rs)"
proof -
  let ?g = "\<lambda>x. if pw_id x = k then (patch_worker i x)\<lparr>pw_updated_at := now\<rparr> else x"
  have id: "pw_id (?g x) = pw_id x" "pw_tenant (?g x) = pw_tenant x" for x by (simp_all add: patch_worker_def)
  have nm: "pw_name (?g x) = pw_name x" if "pw_id x \<noteq> k" for x using that by simp
  have ids: "distinct (map pw_id rs)" using d by (simp add: keys_distinct_def)
  have "inj_on (\<lambda>x. (pw_tenant (?g x), pw_name (?g x))) (set rs)"
  proof (rule inj_onI)
    fix x y assume xy: "x \<in> set rs" "y \<in> set rs" and e: "(pw_tenant (?g x), pw_name (?g x)) = (pw_tenant (?g y), pw_name (?g y))"
    show "x = y"
    proof (cases "pw_id x = k \<longleftrightarrow> pw_id y = k")
      case True
      show ?thesis
      proof (cases "pw_id x = k")
        case True
        with \<open>pw_id x = k \<longleftrightarrow> pw_id y = k\<close> distinct_keyD [OF ids xy] show ?thesis by simp
      next
        case False
        with True e have "(pw_tenant x, pw_name x) = (pw_tenant y, pw_name y)" by simp
        then show ?thesis using d distinct_keyD [OF _ xy, of "\<lambda>r. (pw_tenant r, pw_name r)"] by (simp add: keys_distinct_def)
      qed
    next
      case False
      with e free [OF xy] free [OF xy(2,1)] show ?thesis by (auto simp: patch_worker_def split: if_splits)
    qed
  qed
  then have "distinct (map (\<lambda>r. (pw_tenant r, pw_name r)) (map ?g rs))"
    using ids by (simp add: distinct_map comp_def inj_on_def)
  moreover have "map pw_id (map ?g rs) = map pw_id rs" "map pw_slug (map ?g rs) = map pw_slug rs"
      "map (\<lambda>r. (pw_tenant r, pw_port r)) (map ?g rs) = map (\<lambda>r. (pw_tenant r, pw_port r)) rs"
    by (simp_all add: patch_worker_def)
  ultimately show ?thesis using d by (simp only: keys_distinct_def set_where_def)
qed

lemma patch_inv:
  assumes "pw_inv w" "\<And>x r. x \<in> set (ww_workers w) \<Longrightarrow> r \<in> set (ww_workers w) \<Longrightarrow> pw_id x = k \<Longrightarrow> pw_id r \<noteq> k \<Longrightarrow>
      pw_tenant r = pw_tenant x \<Longrightarrow> pw_name r \<noteq> pw_name (patch_worker i x)"
  shows "pw_inv (update_workers now (\<lambda>x. pw_id x = k) (patch_worker i) w)"
proof -
  let ?rs = "set_where (\<lambda>x. pw_id x = k) (\<lambda>r. (patch_worker i r)\<lparr>pw_updated_at := now\<rparr>) (ww_workers w)"
  have "pw_id ` set ?rs = pw_id ` set (ww_workers w)"
    by (simp flip: set_map add: map_set_where patch_worker_def)
  moreover have "PORT_POOL_LOW \<le> pw_port r \<and> pw_port r \<le> PORT_POOL_HIGH \<and> has_secret (pw_tenant r) w" if "r \<in> set ?rs" for r
    using that assms(1) by (auto simp: set_where_def pw_inv_def patch_worker_def)
  moreover have "keys_distinct ?rs" using assms by (intro patch_keys) (auto simp: pw_inv_def)
  ultimately show ?thesis using assms(1) by (simp add: pw_inv_def update_workers_def)
qed

lemma update_inv:
  assumes i: "pw_inv w" and o: "others_ok t oth"
  shows "pw_inv (fst (update_private_worker cfg env oth t k inp w))"
proof -
  let ?v = "oth AfterChecks w"
  have v: "pw_inv ?v" by (rule others_okD(1) [OF o i])
  have "pw_inv (update_workers (we_now env) (\<lambda>x. pw_id x = k) (patch_worker inp) ?v)"
    if n: "\<not> (case ui_name inp of None \<Rightarrow> False | Some n \<Rightarrow> name_taken n k ?v)"
  proof (rule patch_inv [OF v])
    fix x r assume xr: "x \<in> set (ww_workers ?v)" "r \<in> set (ww_workers ?v)" "pw_id x = k" "pw_id r \<noteq> k" "pw_tenant r = pw_tenant x"
    show "pw_name r \<noteq> pw_name (patch_worker inp x)"
    proof (cases "ui_name inp")
      case None
      have "distinct (map (\<lambda>r. (pw_tenant r, pw_name r)) (ww_workers ?v))" using v by (simp add: pw_inv_def keys_distinct_def)
      from distinct_keyD [OF this xr(2,1)] xr(3,4) have "(pw_tenant r, pw_name r) \<noteq> (pw_tenant x, pw_name x)" by blast
      with None xr show ?thesis by (simp add: patch_worker_def)
    next
      case (Some m)
      with n have "\<not> name_taken m k ?v" by simp
      then have "\<not> (pw_tenant r = pw_tenant x \<and> pw_name r = m \<and> pw_id r \<noteq> k)"
        using xr(1,2,3) unfolding name_taken_def list_ex_iff by blast
      with Some xr(4,5) show ?thesis by (simp add: patch_worker_def)
    qed
  qed
  with i v show ?thesis by (simp add: update_private_worker_def reread_def Let_def split: sum.split)
qed

lemma rotate_rows_inv:
  assumes "pw_inv w" "we_secret env \<noteq> []"
  shows "pw_inv (rotate_rows env t k x w)"
proof -
  have "pw_inv (set_shared_secret t (we_secret env) w)"
    using set_secret_inv [OF assms, of t "\<lambda>_. True"] by (simp add: set_shared_secret_def)
  then show ?thesis unfolding rotate_rows_def Let_def
    by (intro update_workers_inv) (simp_all add: rotate_row_def)
qed

lemma audited_inv:
  assumes "pw_inv v" "write_audit now k e ip d v = (w', r)"
  shows "pw_inv w'"
  using write_audit_inv [OF assms(1), of now k e ip d] assms(2) by simp

lemma rotate_inv: "pw_inv w \<Longrightarrow> we_secret env \<noteq> [] \<Longrightarrow> pw_inv (fst (rotate_private_worker cfg env t k by' ip w))"
  by (auto simp: rotate_private_worker_def split: sum.split prod.split option.split intro: audited_inv [OF rotate_rows_inv])

lemma revoke_rows_inv: "pw_inv w \<Longrightarrow> pw_inv (update_workers now p (revoke_row n v) w)"
  by (rule update_workers_inv) (simp_all add: revoke_row_def)

lemma revoke_inv: "pw_inv w \<Longrightarrow> pw_inv (fst (revoke_private_worker cfg env t k by' ip w))"
  by (auto simp: revoke_private_worker_def reread_def split: sum.split prod.split option.split
    intro: audited_inv [OF revoke_rows_inv])

lemma delete_inv: "pw_inv w \<Longrightarrow> pw_inv (fst (delete_private_worker env t k by' w))"
  by (auto simp: delete_private_worker_def split: sum.split prod.split option.split
    intro: delete_workers_inv audited_inv [OF revoke_rows_inv])

lemma connect_inv:
  assumes i: "pw_inv w"
  shows "pw_inv (fst (record_connect_event env slug ip e w))"
proof (cases "first (\<lambda>r. pw_slug r = slug) (ww_workers w)")
  case (Some r)
  define v where "v = (if pw_status r \<noteq> PwRevoked \<and> e = EvConnect
      then update_workers (we_now env) (\<lambda>x. pw_id x = pw_id r) (\<lambda>x. x\<lparr>pw_last_seen := Some (we_now env), pw_last_ip := Some ip\<rparr>) w
      else if pw_status r \<noteq> PwRevoked \<and> e = EvDisconnect
      then update_workers (we_now env) (\<lambda>x. pw_id x = pw_id r) (\<lambda>x. x\<lparr>pw_last_ip := Some ip\<rparr>) w else w)"
  have v: "pw_inv v" unfolding v_def by (auto intro!: update_workers_inv i)
  obtain w' er where a: "write_audit (we_now env) (pw_id r) (event_name e) (Some ip)
      (if pw_status r = PwRevoked then Some FromRevokedWorker else None) v = (w', er)" by fastforce
  have "fst (record_connect_event env slug ip e w) = w'"
    using a by (cases er) (simp_all add: record_connect_event_def Some Let_def v_def)
  with audited_inv [OF v a] show ?thesis by simp
qed (simp add: record_connect_event_def i)

lemma hook_rows_inv: "pw_inv w \<Longrightarrow> hook_rows now tr t w = Some w' \<Longrightarrow> pw_inv w'"
  by (cases tr) (auto simp: hook_rows_def revoke_row_def intro!: update_workers_inv delete_workers_inv)

end
