(* ===== verification/WorkerConverge.thy ===== *)
theory WorkerConverge
  imports WorkerReconcile
begin

text \<open>
  What a reconciliation is for, as a desired state: for each kind of object the bodies that should be there, and which of
  the objects found may be deleted. The steps move the cluster toward it whatever the API server refuses, and reach it when
  no step reports an error.
\<close>

section \<open>One store\<close>

text \<open>\<open>eq\<close>: equality up to the fields the server owns; \<open>del\<close>: what may be deleted; \<open>want\<close>: what should be there.\<close>

locale desired_store =
  fixes eq :: "'b \<Rightarrow> 'b \<Rightarrow> bool"
    and del :: "k_key \<Rightarrow> 'b \<Rightarrow> bool"
    and want :: "k_key \<Rightarrow> 'b option"
  assumes wanted_kept: "want k = Some d \<Longrightarrow> eq b d \<Longrightarrow> \<not> del k b"
begin

definition toward :: "'b k_store \<Rightarrow> 'b k_store \<Rightarrow> bool" where
  "toward s s' = ((js_map_ok s \<longrightarrow> js_map_ok s') \<and>
     (\<forall>k. js_get k s' = js_get k s \<or> (\<exists>d b. want k = Some d \<and> js_get k s' = Some b \<and> eq b d) \<or>
        (js_get k s' = None \<and> (\<exists>b. js_get k s = Some b \<and> del k b))))"

definition met :: "k_key \<Rightarrow> 'b k_store \<Rightarrow> bool" where
  "met k s = (\<forall>d. want k = Some d \<longrightarrow> (\<exists>b. js_get k s = Some b \<and> eq b d))"

definition clean :: "k_key \<Rightarrow> 'b k_store \<Rightarrow> bool" where
  "clean k s = (\<forall>b. js_get k s = Some b \<longrightarrow> \<not> del k b)"

lemma toward_refl: "toward s s"
  by (simp add: toward_def)

lemma toward_ok: "toward s s' \<Longrightarrow> js_map_ok s \<Longrightarrow> js_map_ok s'"
  by (simp add: toward_def)

lemma toward_update:
  assumes "toward s0 s" "want k = Some d" "eq b d"
  shows "toward s0 (AList.update k b s)"
  using assms by (auto simp: toward_def js_get_update js_map.invar_put)

lemma toward_delete:
  assumes "toward s0 s" "\<And>b. js_get k s0 = Some b \<Longrightarrow> del k b"
  shows "toward s0 (AList.delete k s)"
  using assms unfolding toward_def by (auto simp: js_get_delete js_map.invar_del)

lemma toward_clean: "toward s s' \<Longrightarrow> clean k s \<Longrightarrow> clean k s'"
  unfolding toward_def clean_def using wanted_kept by (metis option.distinct(1) option.inject)

lemma toward_met: "toward s s' \<Longrightarrow> met k s \<Longrightarrow> met k s'"
  unfolding toward_def met_def using wanted_kept by (metis option.inject)

lemma toward_avoid:
  "toward s s' \<Longrightarrow> (\<And>b. Q b \<Longrightarrow> del k b) \<Longrightarrow> (\<And>b. js_get k s = Some b \<Longrightarrow> \<not> Q b) \<Longrightarrow> js_get k s' = Some b \<Longrightarrow> \<not> Q b"
  unfolding toward_def using wanted_kept by (metis option.distinct(1) option.inject)

lemma toward_current:
  "toward s0 s \<Longrightarrow> js_get k s = Some b \<Longrightarrow> del k b \<Longrightarrow> js_get k s0 = Some b"
  unfolding toward_def using wanted_kept by (metis option.distinct(1) option.inject)

text \<open>What another desired state \<open>want'\<close>, \<open>del'\<close> asks of the store, when the two do not touch.\<close>

lemma toward_other_met:
  assumes "toward s s'" and "want' k = Some d \<Longrightarrow> want k = None" and "\<And>b. want' k = Some d \<Longrightarrow> eq b d \<Longrightarrow> \<not> del k b"
    and "want' k = Some d \<Longrightarrow> \<exists>b. js_get k s = Some b \<and> eq b d" and "want' k = Some d"
  shows "\<exists>b. js_get k s' = Some b \<and> eq b d"
  using assms unfolding toward_def by (metis option.distinct(1) option.inject)

lemma toward_other_clean:
  assumes "toward s s'" and "\<And>b d. want k = Some d \<Longrightarrow> eq b d \<Longrightarrow> \<not> del' k b"
    and "\<And>b. js_get k s = Some b \<Longrightarrow> \<not> del' k b" and "js_get k s' = Some b"
  shows "\<not> del' k b"
  using assms unfolding toward_def by (metis option.distinct(1) option.inject)

lemma met_update: "want k = Some d \<Longrightarrow> eq b d \<Longrightarrow> met k (AList.update k b s)"
  by (simp add: met_def js_get_update)

lemma clean_delete: "clean k (AList.delete k s)"
  by (simp add: clean_def js_get_delete)

text \<open>The calls.\<close>

lemma k_write_toward:
  "toward s0 s \<Longrightarrow> want k = Some d \<Longrightarrow> eq b d \<Longrightarrow> toward s0 (fst (k_write api v kind k b s))"
  by (auto simp: k_write_def intro: toward_update split: option.split k_fault.split)

lemma k_write_met:
  "want k = Some d \<Longrightarrow> eq b d \<Longrightarrow> snd (k_write api v kind k b s) = None \<Longrightarrow> met k (fst (k_write api v kind k b s))"
  by (auto simp: k_write_def intro: met_update split: option.splits k_fault.splits)

lemma k_upsert_toward:
  assumes "toward s0 s" "want k = Some d" "\<And>old. eq (body old) d" "eq (admit (body None)) d"
  shows "toward s0 (fst (k_upsert api kind k body admit s))"
  using assms by (auto simp: k_upsert_def intro: k_write_toward split: option.split)

lemma k_upsert_met:
  assumes "want k = Some d" "\<And>old. eq (body old) d" "eq (admit (body None)) d"
    and "snd (k_upsert api kind k body admit s) = None"
  shows "met k (fst (k_upsert api kind k body admit s))"
  using assms by (auto simp: k_upsert_def intro: k_write_met split: option.splits)

lemma k_replace_toward:
  "toward s0 s \<Longrightarrow> want k = Some d \<Longrightarrow> eq b d \<Longrightarrow> toward s0 (fst (k_replace_or_create api kind k b s))"
  by (auto simp: k_replace_or_create_def intro: k_write_toward split: option.split)

lemma k_replace_met:
  "want k = Some d \<Longrightarrow> eq b d \<Longrightarrow> snd (k_replace_or_create api kind k b s) = None \<Longrightarrow>
     met k (fst (k_replace_or_create api kind k b s))"
  by (auto simp: k_replace_or_create_def intro: k_write_met split: option.splits)

lemma k_delete_toward:
  "toward s0 s \<Longrightarrow> (\<And>b. js_get k s0 = Some b \<Longrightarrow> del k b) \<Longrightarrow> toward s0 (fst (delete_if_exists api kind k s))"
  by (auto simp: delete_if_exists_def intro: toward_delete split: option.split k_fault.split)

lemma k_delete_clean:
  "snd (delete_if_exists api kind k s) = None \<Longrightarrow> clean k (fst (delete_if_exists api kind k s))"
  by (auto simp: delete_if_exists_def clean_delete split: option.splits k_fault.splits)

end

section \<open>The desired state\<close>

record pw_target =
  tg_cfg :: pw_config
  tg_ns :: string
  tg_secret :: string
  tg_issuer :: string
  tg_workers :: "pw_row list"

definition active_slugs :: "pw_target \<Rightarrow> string list" where
  "active_slugs tg = map pw_slug (tg_workers tg)"

definition active_services :: "pw_target \<Rightarrow> string list" where
  "active_services tg = map (\<lambda>r. pw_service_name (pw_id r)) (tg_workers tg)"

definition same_service :: "k_service \<Rightarrow> k_service \<Rightarrow> bool" where
  "same_service b d = (b\<lparr>ks_cluster_ip := None\<rparr> = d\<lparr>ks_cluster_ip := None\<rparr>)"

definition host_rule :: "string \<Rightarrow> string" where
  "host_rule h = ''Host('' @ [CHR 0x60] @ h @ [CHR 0x60] @ '')''"

definition want_configmap :: "pw_target \<Rightarrow> k_key \<Rightarrow> k_configmap option" where
  "want_configmap tg = map_of (if tg_workers tg = [] then [] else
     [((tg_ns tg, FRPS_CONFIGMAP_NAME), frps_configmap (tg_secret tg) (map pw_port (tg_workers tg)))])"

definition want_service :: "pw_target \<Rightarrow> k_key \<Rightarrow> k_service option" where
  "want_service tg = map_of (if tg_workers tg = [] then [] else
     ((tg_ns tg, FRPS_DEPLOYMENT_NAME), control_plane_service) #
     map (\<lambda>r. ((tg_ns tg, pw_service_name (pw_id r)), per_worker_service (pw_service_name (pw_id r)) (pw_port r))) (tg_workers tg) @
     map (\<lambda>r. ((PLATFORM_SYSTEM_NAMESPACE, tunnel_name (pw_slug r)), external_name_service (tg_ns tg))) (tg_workers tg))"

definition want_deployment :: "pw_target \<Rightarrow> k_key \<Rightarrow> k_deployment option" where
  "want_deployment tg = map_of (if tg_workers tg = [] then [] else
     [((tg_ns tg, FRPS_DEPLOYMENT_NAME), frps_deployment (tg_cfg tg))])"

definition want_netpol :: "pw_target \<Rightarrow> k_key \<Rightarrow> k_netpol option" where
  "want_netpol tg = map_of (if tg_workers tg = [] then [] else
     [((tg_ns tg, FRPS_NETPOL_NAME), frps_netpol (tg_cfg tg) (tg_ns tg))])"

definition want_secret :: "pw_target \<Rightarrow> k_key \<Rightarrow> string option" where
  "want_secret tg k = None"

definition want_route :: "pw_target \<Rightarrow> k_key \<Rightarrow> k_route option" where
  "want_route tg = map_of (map (\<lambda>r. ((PLATFORM_SYSTEM_NAMESPACE, tunnel_name (pw_slug r)),
     tunnel_route (pw_slug r) (tg_ns tg) (host_rule (tunnel_host (tg_cfg tg) (pw_slug r))))) (tg_workers tg))"

definition want_middleware :: "pw_target \<Rightarrow> k_key \<Rightarrow> k_middleware option" where
  "want_middleware tg = map_of (map (\<lambda>r. ((PLATFORM_SYSTEM_NAMESPACE, ratelimit_name (tunnel_name (pw_slug r))),
     tunnel_middleware (tg_ns tg))) (tg_workers tg))"

definition want_certificate :: "pw_target \<Rightarrow> k_key \<Rightarrow> k_certificate option" where
  "want_certificate tg = map_of (map (\<lambda>r. ((PLATFORM_SYSTEM_NAMESPACE, tunnel_name (pw_slug r)),
     tunnel_certificate (tg_cfg tg) (pw_slug r) (tg_ns tg) (tg_issuer tg))) (tg_workers tg))"

text \<open>What may be deleted. The objects of a tunnel that are not listed go with its route, in the state \<open>rs\<close> of the routes.\<close>

definition gone_with :: "string \<Rightarrow> pw_target \<Rightarrow> k_key \<Rightarrow> 'b \<Rightarrow> bool" where
  "gone_with name tg k b = (tg_workers tg = [] \<and> k = (tg_ns tg, name))"

definition del_service :: "pw_target \<Rightarrow> k_key \<Rightarrow> k_service \<Rightarrow> bool" where
  "del_service tg k b =
     ((fst k = PLATFORM_SYSTEM_NAMESPACE \<and> stale_tunnel (active_slugs tg) (snd k) \<and> selects (tunnel_labels (tg_ns tg)) (ks_labels b)) \<or>
      (fst k = tg_ns tg \<and> snd k \<notin> set (active_services tg) \<and> selects pw_service_selector (ks_labels b)))"

definition del_route :: "pw_target \<Rightarrow> k_key \<Rightarrow> k_route \<Rightarrow> bool" where
  "del_route tg k b = (fst k = PLATFORM_SYSTEM_NAMESPACE \<and> stale_tunnel (active_slugs tg) (snd k) \<and>
     selects (tunnel_labels (tg_ns tg)) (kr_labels b))"

definition del_middleware :: "pw_target \<Rightarrow> k_route k_store \<Rightarrow> k_key \<Rightarrow> k_middleware \<Rightarrow> bool" where
  "del_middleware tg rs k b = (\<exists>n r. k = (PLATFORM_SYSTEM_NAMESPACE, ratelimit_name n) \<and>
     js_get (PLATFORM_SYSTEM_NAMESPACE, n) rs = Some r \<and> del_route tg (PLATFORM_SYSTEM_NAMESPACE, n) r)"

definition del_certificate :: "pw_target \<Rightarrow> k_route k_store \<Rightarrow> k_key \<Rightarrow> k_certificate \<Rightarrow> bool" where
  "del_certificate tg rs k b = (\<exists>r. js_get k rs = Some r \<and> del_route tg k r)"

section \<open>Names and labels\<close>

lemmas pw_names = FRPS_DEPLOYMENT_NAME_def FRPS_CONFIGMAP_NAME_def FRPS_NETPOL_NAME_def FRPS_SECRET_NAME_def
  PLATFORM_SYSTEM_NAMESPACE_def pw_service_name_def tunnel_name_def ratelimit_name_def

lemma tunnel_name_eq [simp]: "tunnel_name a = tunnel_name b \<longleftrightarrow> a = b"
  by (simp add: tunnel_name_def)

lemma pw_service_name_eq [simp]: "pw_service_name a = pw_service_name b \<longleftrightarrow> a = b"
  by (simp add: pw_service_name_def)

lemma ratelimit_name_eq [simp]: "ratelimit_name a = ratelimit_name b \<longleftrightarrow> a = b"
  by (simp add: ratelimit_name_def)

lemma stale_tunnel_name [simp]: "stale_tunnel slugs (tunnel_name a) \<longleftrightarrow> a \<notin> set slugs"
  by (simp add: stale_tunnel_def tunnel_name_def starts_with_def)

lemma stale_tunnel_other [simp]: "\<not> stale_tunnel slugs (pw_service_name a)" "\<not> stale_tunnel slugs FRPS_DEPLOYMENT_NAME"
  by (simp_all add: stale_tunnel_def pw_service_name_def FRPS_DEPLOYMENT_NAME_def starts_with_def)

lemma names_differ [simp]: "FRPS_DEPLOYMENT_NAME \<noteq> pw_service_name a" "pw_service_name a \<noteq> FRPS_DEPLOYMENT_NAME"
    "FRPS_DEPLOYMENT_NAME \<noteq> tunnel_name a" "tunnel_name a \<noteq> FRPS_DEPLOYMENT_NAME"
    "pw_service_name a \<noteq> tunnel_name b" "tunnel_name b \<noteq> pw_service_name a"
  by (simp_all add: pw_service_name_def FRPS_DEPLOYMENT_NAME_def tunnel_name_def)

lemma labels_select [simp]:
  "selects (tunnel_labels ns) (ks_labels (external_name_service ns')) \<longleftrightarrow> ns = ns'"
  "selects (tunnel_labels ns) (kr_labels (tunnel_route slug ns' rule)) \<longleftrightarrow> ns = ns'"
  "\<not> selects (tunnel_labels ns) (ks_labels control_plane_service)"
  "\<not> selects (tunnel_labels ns) (ks_labels (per_worker_service n p))"
  "\<not> selects pw_service_selector (ks_labels control_plane_service)"
  "\<not> selects pw_service_selector (ks_labels (external_name_service ns))"
  "selects pw_service_selector (ks_labels (per_worker_service n p))"
  by (auto simp: selects_def tunnel_labels_def external_name_service_def tunnel_route_def build_ingress_route_def
    default_labels_def control_plane_service_def per_worker_service_def pw_service_selector_def managed_labels_def js_get_def)

lemma same_service_labels: "same_service b d \<Longrightarrow> ks_labels b = ks_labels d"
  unfolding same_service_def by (metis k_service.select_convs(1) k_service.surjective k_service.update_convs(6))

lemma same_service_keep: "same_service (keep_ip b old) b" "same_service (admit_service api k b) b" "same_service b b"
  by (simp_all add: same_service_def keep_ip_def admit_service_def split: option.split)

lemma want_service_cases:
  assumes "want_service tg k = Some d"
  obtains (control) "k = (tg_ns tg, FRPS_DEPLOYMENT_NAME)" "d = control_plane_service"
  | (worker) r where "r \<in> set (tg_workers tg)" "k = (tg_ns tg, pw_service_name (pw_id r))"
      "d = per_worker_service (pw_service_name (pw_id r)) (pw_port r)"
  | (tunnel) r where "r \<in> set (tg_workers tg)" "k = (PLATFORM_SYSTEM_NAMESPACE, tunnel_name (pw_slug r))"
      "d = external_name_service (tg_ns tg)"
  using map_of_SomeD [OF assms [unfolded want_service_def]] by (auto split: if_splits)

lemma want_route_cases:
  assumes "want_route tg k = Some d"
  obtains r where "r \<in> set (tg_workers tg)" "k = (PLATFORM_SYSTEM_NAMESPACE, tunnel_name (pw_slug r))"
    "d = tunnel_route (pw_slug r) (tg_ns tg) (host_rule (tunnel_host (tg_cfg tg) (pw_slug r)))"
  using map_of_SomeD [OF assms [unfolded want_route_def]] by auto

section \<open>The stores of a target\<close>

interpretation svc: desired_store same_service "del_service tg" "want_service tg" for tg
proof
  fix k d b assume w: "want_service tg k = Some d" and e: "same_service b d"
  from w show "\<not> del_service tg k b"
    by (cases rule: want_service_cases) (auto simp: del_service_def same_service_labels [OF e] active_slugs_def active_services_def)
qed

interpretation rt: desired_store "(=)" "del_route tg" "want_route tg" for tg
proof
  fix k and d b :: k_route assume "want_route tg k = Some d"
  then show "\<not> del_route tg k b" by (cases rule: want_route_cases) (auto simp: del_route_def active_slugs_def)
qed

interpretation mw: desired_store "(=)" "del_middleware tg rs" "want_middleware tg" for tg rs
proof
  fix k and d b :: k_middleware assume "want_middleware tg k = Some d"
  then have "\<exists>r \<in> set (tg_workers tg). k = (PLATFORM_SYSTEM_NAMESPACE, ratelimit_name (tunnel_name (pw_slug r)))"
    by (auto simp: want_middleware_def dest!: map_of_SomeD)
  then show "\<not> del_middleware tg rs k b" by (auto simp: del_middleware_def del_route_def active_slugs_def)
qed

interpretation crt: desired_store "(=)" "del_certificate tg rs" "want_certificate tg" for tg rs
proof
  fix k and d b :: k_certificate assume "want_certificate tg k = Some d"
  then have "\<exists>r \<in> set (tg_workers tg). k = (PLATFORM_SYSTEM_NAMESPACE, tunnel_name (pw_slug r))"
    by (auto simp: want_certificate_def dest!: map_of_SomeD)
  then show "\<not> del_certificate tg rs k b" by (auto simp: del_certificate_def del_route_def active_slugs_def)
qed

interpretation cm: desired_store "(=)" "gone_with FRPS_CONFIGMAP_NAME tg" "want_configmap tg" for tg
  by unfold_locales (auto simp: gone_with_def want_configmap_def)

interpretation dep: desired_store "(=)" "gone_with FRPS_DEPLOYMENT_NAME tg" "want_deployment tg" for tg
  by unfold_locales (auto simp: gone_with_def want_deployment_def)

interpretation np: desired_store "(=)" "gone_with FRPS_NETPOL_NAME tg" "want_netpol tg" for tg
  by unfold_locales (auto simp: gone_with_def want_netpol_def)

interpretation sec: desired_store "(=)" "gone_with FRPS_SECRET_NAME tg" "want_secret tg" for tg
  by unfold_locales (auto simp: gone_with_def want_secret_def)

end
