(* ===== verification/WorkerSteps.thy ===== *)
theory WorkerSteps
  imports WorkerConverge
begin

text \<open>
  Every step of a reconciliation moves the cluster toward the desired state, whatever the API server refuses; a step that
  reports no error has done its part of it, and no later step undoes that.
\<close>

lemma all_of_Cons: "all_of (f # fs) c = (if snd (f c) = None then all_of fs (fst (f c)) else f c)"
  by (simp split: prod.split option.split)

lemma run_safe_fst: "fst (run_safe (sf # fs) c) = fst (run_safe fs (fst (snd sf c)))"
  by (cases sf) (simp split: prod.split)

lemma run_safe_none: "snd (run_safe (sf # fs) c) = [] \<longleftrightarrow> snd (snd sf c) = None \<and> snd (run_safe fs (fst (snd sf c))) = []"
  by (cases sf) (auto split: prod.split option.split)

declare all_of.simps(2) [simp del]
declare run_safe.simps(2) [simp del]

section \<open>The whole cluster\<close>

definition cluster_ok :: "pw_cluster \<Rightarrow> bool" where
  "cluster_ok c = (js_map_ok (pc_services c) \<and> js_map_ok (pc_routes c))"

definition cluster_toward :: "pw_target \<Rightarrow> pw_cluster \<Rightarrow> pw_cluster \<Rightarrow> bool" where
  "cluster_toward tg c c' = (svc.toward tg (pc_services c) (pc_services c') \<and> rt.toward tg (pc_routes c) (pc_routes c') \<and>
     mw.toward tg (pc_routes c) (pc_middlewares c) (pc_middlewares c') \<and>
     crt.toward tg (pc_routes c) (pc_certificates c) (pc_certificates c') \<and>
     cm.toward tg (pc_configmaps c) (pc_configmaps c') \<and> dep.toward tg (pc_deployments c) (pc_deployments c') \<and>
     np.toward tg (pc_netpols c) (pc_netpols c') \<and> sec.toward tg (pc_secrets c) (pc_secrets c'))"

definition moves :: "pw_target \<Rightarrow> k_op \<Rightarrow> bool" where
  "moves tg f = (\<forall>c0 c. cluster_ok c0 \<longrightarrow> cluster_toward tg c0 c \<longrightarrow> cluster_toward tg c0 (fst (f c)))"

lemma cluster_toward_refl: "cluster_toward tg c c"
  by (simp add: cluster_toward_def svc.toward_refl rt.toward_refl mw.toward_refl crt.toward_refl cm.toward_refl
    dep.toward_refl np.toward_refl sec.toward_refl)

lemma cluster_toward_ok: "cluster_toward tg c c' \<Longrightarrow> cluster_ok c \<Longrightarrow> cluster_ok c'"
  by (auto simp: cluster_toward_def cluster_ok_def dest: svc.toward_ok rt.toward_ok)

lemma movesD: "moves tg f \<Longrightarrow> cluster_ok c0 \<Longrightarrow> cluster_toward tg c0 c \<Longrightarrow> cluster_toward tg c0 (fst (f c))"
  by (simp add: moves_def)

lemma moves_from: "moves tg f \<Longrightarrow> cluster_ok c \<Longrightarrow> cluster_toward tg c (fst (f c))"
  by (simp add: moves_def cluster_toward_refl)

lemma moves_all_of: "(\<And>f. f \<in> set fs \<Longrightarrow> moves tg f) \<Longrightarrow> moves tg (all_of fs)"
proof (induction fs)
  case (Cons f fs)
  have ih: "moves tg (all_of fs)" and f: "moves tg f" using Cons by simp_all
  show ?case
    unfolding moves_def
  proof (intro allI impI)
    fix c0 c assume ok: "cluster_ok c0" and t: "cluster_toward tg c0 c"
    from movesD [OF f ok t] movesD [OF ih ok movesD [OF f ok t]]
    show "cluster_toward tg c0 (fst (all_of (f # fs) c))" by (simp add: all_of_Cons)
  qed
qed (simp add: moves_def)

lemma moves_warn: "moves tg f \<Longrightarrow> moves tg (warned f)"
  by (simp add: moves_def warned_def)

lemma moves_run_safe:
  "(\<And>sf. sf \<in> set fs \<Longrightarrow> moves tg (snd sf)) \<Longrightarrow> cluster_ok c0 \<Longrightarrow> cluster_toward tg c0 c \<Longrightarrow>
     cluster_toward tg c0 (fst (run_safe fs c))"
  by (induction fs arbitrary: c) (simp_all add: run_safe_fst movesD)

section \<open>What has been reached stays\<close>

text \<open>A fact about the cluster that no move undoes.\<close>

definition stable :: "pw_target \<Rightarrow> (pw_cluster \<Rightarrow> bool) \<Rightarrow> bool" where
  "stable tg P = (\<forall>c c'. cluster_ok c \<longrightarrow> cluster_toward tg c c' \<longrightarrow> P c \<longrightarrow> P c')"

lemma run_safe_reaches:
  assumes "\<And>sf. sf \<in> set fs \<Longrightarrow> moves tg (snd sf)" and "stable tg P" and "sf \<in> set fs"
    and "\<And>c. cluster_ok c \<Longrightarrow> snd (snd sf c) = None \<Longrightarrow> P (fst (snd sf c))"
    and "cluster_ok c" and "snd (run_safe fs c) = []"
  shows "P (fst (run_safe fs c))"
  using assms(1,3,5,6)
proof (induction fs arbitrary: c)
  case (Cons g fs)
  have t: "cluster_toward tg c (fst (snd g c))" using Cons.prems(1,3) by (simp add: moves_from)
  from Cons.prems(3) t have ok: "cluster_ok (fst (snd g c))" by (rule cluster_toward_ok [rotated])
  from Cons.prems(4) have none: "snd (snd g c) = None" and rest: "snd (run_safe fs (fst (snd g c))) = []"
    by (simp_all add: run_safe_none)
  show ?case
  proof (cases "sf = g")
    case True
    with assms(4) [OF Cons.prems(3)] none have "P (fst (snd g c))" by simp
    moreover have "cluster_toward tg (fst (snd g c)) (fst (run_safe fs (fst (snd g c))))"
      using Cons.prems(1) ok by (intro moves_run_safe) (auto intro: cluster_toward_refl)
    ultimately show ?thesis using assms(2) ok by (auto simp: stable_def run_safe_fst)
  next
    case False
    with Cons.prems(2) have "sf \<in> set fs" by simp
    with Cons.IH [OF _ _ ok rest] Cons.prems(1) show ?thesis by (simp add: run_safe_fst)
  qed
qed simp

lemma stable_met [intro]:
  "stable tg (\<lambda>c. svc.met tg k (pc_services c))" "stable tg (\<lambda>c. rt.met tg k (pc_routes c))"
  "stable tg (\<lambda>c. desired_store.met (=) (want_middleware tg) k (pc_middlewares c))"
  "stable tg (\<lambda>c. desired_store.met (=) (want_certificate tg) k (pc_certificates c))"
  "stable tg (\<lambda>c. cm.met tg k (pc_configmaps c))" "stable tg (\<lambda>c. dep.met tg k (pc_deployments c))"
  "stable tg (\<lambda>c. np.met tg k (pc_netpols c))"
  by (auto simp: stable_def cluster_toward_def dest: svc.toward_met rt.toward_met mw.toward_met crt.toward_met
    cm.toward_met dep.toward_met np.toward_met)

lemma stable_clean [intro]:
  "stable tg (\<lambda>c. svc.clean tg k (pc_services c))" "stable tg (\<lambda>c. rt.clean tg k (pc_routes c))"
  "stable tg (\<lambda>c. cm.clean tg k (pc_configmaps c))" "stable tg (\<lambda>c. dep.clean tg k (pc_deployments c))"
  "stable tg (\<lambda>c. np.clean tg k (pc_netpols c))" "stable tg (\<lambda>c. sec.clean tg k (pc_secrets c))"
  by (auto simp: stable_def cluster_toward_def dest: svc.toward_clean rt.toward_clean cm.toward_clean dep.toward_clean
    np.toward_clean sec.toward_clean)

section \<open>What is wanted\<close>

definition target_ok :: "pw_target \<Rightarrow> bool" where
  "target_ok tg = (distinct (map pw_id (tg_workers tg)) \<and> distinct (map pw_slug (tg_workers tg)))"

lemma map_of_keyed:
  "distinct (map g xs) \<Longrightarrow> x \<in> set xs \<Longrightarrow> map_of (map (\<lambda>r. (g r, h r)) xs) (g x) = Some (h x)"
  by (intro map_of_is_SomeI) (auto simp: comp_def)

lemma map_of_not_keyed: "k \<notin> g ` set xs \<Longrightarrow> map_of (map (\<lambda>r. (g r, h r)) xs) k = None"
  by (auto simp: map_of_eq_None_iff)

lemma distinct_wrap: "inj f \<Longrightarrow> distinct (map g xs) \<Longrightarrow> distinct (map (\<lambda>r. f (g r)) xs)"
  by (auto simp: distinct_map inj_on_def)

lemma wanted_worker:
  assumes "target_ok tg" and r: "r \<in> set (tg_workers tg)"
  shows "want_service tg (tg_ns tg, pw_service_name (pw_id r)) =
       Some (per_worker_service (pw_service_name (pw_id r)) (pw_port r))"
    and "want_service tg (PLATFORM_SYSTEM_NAMESPACE, tunnel_name (pw_slug r)) = Some (external_name_service (tg_ns tg))"
    and "want_route tg (PLATFORM_SYSTEM_NAMESPACE, tunnel_name (pw_slug r)) =
       Some (tunnel_route (pw_slug r) (tg_ns tg) (host_rule (tunnel_host (tg_cfg tg) (pw_slug r))))"
    and "want_middleware tg (PLATFORM_SYSTEM_NAMESPACE, ratelimit_name (tunnel_name (pw_slug r))) =
       Some (tunnel_middleware (tg_ns tg))"
    and "want_certificate tg (PLATFORM_SYSTEM_NAMESPACE, tunnel_name (pw_slug r)) =
       Some (tunnel_certificate (tg_cfg tg) (pw_slug r) (tg_ns tg) (tg_issuer tg))"
proof -
  have ids: "distinct (map (\<lambda>r. (tg_ns tg, pw_service_name (pw_id r))) (tg_workers tg))"
    and slugs: "distinct (map (\<lambda>r. (PLATFORM_SYSTEM_NAMESPACE, tunnel_name (pw_slug r))) (tg_workers tg))"
    and limits: "distinct (map (\<lambda>r. (PLATFORM_SYSTEM_NAMESPACE, ratelimit_name (tunnel_name (pw_slug r)))) (tg_workers tg))"
    using assms(1) unfolding target_ok_def by (auto simp: distinct_map inj_on_def)
  have ne: "tg_workers tg \<noteq> []" using r by auto
  note [simp] = map_add_def map_of_keyed [OF ids r] map_of_keyed [OF slugs r] map_of_keyed [OF limits r]
  have no_worker: "map_of (map (\<lambda>r. ((tg_ns tg, pw_service_name (pw_id r)), per_worker_service (pw_service_name (pw_id r))
      (pw_port r))) (tg_workers tg)) (PLATFORM_SYSTEM_NAMESPACE, tunnel_name (pw_slug r)) = None"
    by (rule map_of_not_keyed) auto
  show "want_service tg (tg_ns tg, pw_service_name (pw_id r)) =
       Some (per_worker_service (pw_service_name (pw_id r)) (pw_port r))"
    by (auto simp: want_service_def ne map_of_not_keyed image_iff)
  show "want_service tg (PLATFORM_SYSTEM_NAMESPACE, tunnel_name (pw_slug r)) = Some (external_name_service (tg_ns tg))"
    by (simp add: want_service_def ne no_worker)
  show "want_route tg (PLATFORM_SYSTEM_NAMESPACE, tunnel_name (pw_slug r)) =
       Some (tunnel_route (pw_slug r) (tg_ns tg) (host_rule (tunnel_host (tg_cfg tg) (pw_slug r))))"
    by (simp add: want_route_def)
  show "want_middleware tg (PLATFORM_SYSTEM_NAMESPACE, ratelimit_name (tunnel_name (pw_slug r))) =
       Some (tunnel_middleware (tg_ns tg))"
    by (simp add: want_middleware_def)
  show "want_certificate tg (PLATFORM_SYSTEM_NAMESPACE, tunnel_name (pw_slug r)) =
       Some (tunnel_certificate (tg_cfg tg) (pw_slug r) (tg_ns tg) (tg_issuer tg))"
    by (simp add: want_certificate_def)
qed

lemma wanted_shared:
  assumes "tg_workers tg \<noteq> []"
  shows "want_service tg (tg_ns tg, FRPS_DEPLOYMENT_NAME) = Some control_plane_service"
    and "want_configmap tg (tg_ns tg, FRPS_CONFIGMAP_NAME) =
      Some (frps_configmap (tg_secret tg) (map pw_port (tg_workers tg)))"
    and "want_deployment tg (tg_ns tg, FRPS_DEPLOYMENT_NAME) = Some (frps_deployment (tg_cfg tg))"
    and "want_netpol tg (tg_ns tg, FRPS_NETPOL_NAME) = Some (frps_netpol (tg_cfg tg) (tg_ns tg))"
  using assms by (simp_all add: want_service_def want_configmap_def want_deployment_def want_netpol_def)

section \<open>The steps that write\<close>

lemma moves_on:
  "(\<And>s0 s. svc.toward tg s0 s \<Longrightarrow> svc.toward tg s0 (fst (f1 s))) \<Longrightarrow> moves tg (on_services f1)"
  "(\<And>s0 s. rt.toward tg s0 s \<Longrightarrow> rt.toward tg s0 (fst (f2 s))) \<Longrightarrow> moves tg (on_routes f2)"
  "(\<And>s0 s rs. mw.toward tg rs s0 s \<Longrightarrow> mw.toward tg rs s0 (fst (f3 s))) \<Longrightarrow> moves tg (on_middlewares f3)"
  "(\<And>s0 s rs. crt.toward tg rs s0 s \<Longrightarrow> crt.toward tg rs s0 (fst (f4 s))) \<Longrightarrow> moves tg (on_certificates f4)"
  "(\<And>s0 s. cm.toward tg s0 s \<Longrightarrow> cm.toward tg s0 (fst (f5 s))) \<Longrightarrow> moves tg (on_configmaps f5)"
  "(\<And>s0 s. dep.toward tg s0 s \<Longrightarrow> dep.toward tg s0 (fst (f6 s))) \<Longrightarrow> moves tg (on_deployments f6)"
  "(\<And>s0 s. np.toward tg s0 s \<Longrightarrow> np.toward tg s0 (fst (f7 s))) \<Longrightarrow> moves tg (on_netpols f7)"
  "(\<And>s0 s. sec.toward tg s0 s \<Longrightarrow> sec.toward tg s0 (fst (f8 s))) \<Longrightarrow> moves tg (on_secrets f8)"
  by (simp_all add: moves_def cluster_toward_def on_services_def on_routes_def on_middlewares_def on_certificates_def
    on_configmaps_def on_deployments_def on_netpols_def on_secrets_def split: prod.split) (metis fst_conv)+

lemma on_results [simp]:
  "fst (on_services f1 c) = c\<lparr>pc_services := fst (f1 (pc_services c))\<rparr>" "snd (on_services f1 c) = snd (f1 (pc_services c))"
  "fst (on_routes f2 c) = c\<lparr>pc_routes := fst (f2 (pc_routes c))\<rparr>" "snd (on_routes f2 c) = snd (f2 (pc_routes c))"
  "fst (on_middlewares f3 c) = c\<lparr>pc_middlewares := fst (f3 (pc_middlewares c))\<rparr>"
  "snd (on_middlewares f3 c) = snd (f3 (pc_middlewares c))"
  "fst (on_certificates f4 c) = c\<lparr>pc_certificates := fst (f4 (pc_certificates c))\<rparr>"
  "snd (on_certificates f4 c) = snd (f4 (pc_certificates c))"
  "fst (on_configmaps f5 c) = c\<lparr>pc_configmaps := fst (f5 (pc_configmaps c))\<rparr>"
  "snd (on_configmaps f5 c) = snd (f5 (pc_configmaps c))"
  "fst (on_deployments f6 c) = c\<lparr>pc_deployments := fst (f6 (pc_deployments c))\<rparr>"
  "snd (on_deployments f6 c) = snd (f6 (pc_deployments c))"
  "fst (on_netpols f7 c) = c\<lparr>pc_netpols := fst (f7 (pc_netpols c))\<rparr>" "snd (on_netpols f7 c) = snd (f7 (pc_netpols c))"
  "fst (on_secrets f8 c) = c\<lparr>pc_secrets := fst (f8 (pc_secrets c))\<rparr>" "snd (on_secrets f8 c) = snd (f8 (pc_secrets c))"
  by (simp_all add: on_services_def on_routes_def on_middlewares_def on_certificates_def on_configmaps_def
    on_deployments_def on_netpols_def on_secrets_def split: prod.split)

lemma same_service_admit: "same_service (admit_service api k (keep_ip b None)) b"
  by (simp add: same_service_def keep_ip_def admit_service_def)

lemma moves_shared:
  assumes "tg_workers tg \<noteq> []"
  shows "moves tg (upsert_frps_config_map api (tg_ns tg) (tg_secret tg) (map pw_port (tg_workers tg)))"
    and "moves tg (upsert_control_plane_service api (tg_ns tg))"
    and "moves tg (upsert_frps_deployment (tg_cfg tg) api (tg_ns tg))"
    and "moves tg (upsert_frps_network_policy (tg_cfg tg) api (tg_ns tg))"
  unfolding upsert_frps_config_map_def upsert_control_plane_service_def upsert_frps_deployment_def
    upsert_frps_network_policy_def
  by (intro moves_on cm.k_replace_toward svc.k_upsert_toward dep.k_upsert_toward np.k_upsert_toward; assumption?;
    (rule wanted_shared [OF assms] same_service_keep same_service_admit refl))+

lemma moves_worker:
  assumes "target_ok tg" "r \<in> set (tg_workers tg)"
  shows "moves tg (upsert_per_worker_service api (tg_ns tg) (pw_service_name (pw_id r)) (pw_port r))"
    and "moves tg (upsert_external_name_service api (pw_slug r) (tg_ns tg))"
    and "moves tg (apply_middleware api (PLATFORM_SYSTEM_NAMESPACE, ratelimit_name (tunnel_name (pw_slug r))) (tunnel_middleware (tg_ns tg)))"
    and "moves tg (apply_certificate api (PLATFORM_SYSTEM_NAMESPACE, tunnel_name (pw_slug r))
           (tunnel_certificate (tg_cfg tg) (pw_slug r) (tg_ns tg) (tg_issuer tg)))"
  unfolding upsert_per_worker_service_def upsert_external_name_service_def apply_middleware_def apply_certificate_def
  by (intro moves_on svc.k_upsert_toward mw.k_upsert_toward crt.k_upsert_toward; assumption?;
    (rule wanted_worker [OF assms] same_service_keep same_service_admit refl))+

lemma host_match_Inr: "host_match h = Inr rule \<Longrightarrow> rule = host_rule h"
  by (auto simp: host_match_def encode_match_literal_def host_rule_def split: if_splits)

lemma moves_tunnel_route:
  assumes "target_ok tg" "r \<in> set (tg_workers tg)"
  shows "moves tg (apply_tunnel_route (tg_cfg tg) api (pw_slug r) (tg_ns tg))"
proof (cases "host_match (tunnel_host (tg_cfg tg) (pw_slug r))")
  case (Inl e)
  then show ?thesis by (simp add: moves_def apply_tunnel_route_def)
next
  case (Inr rule)
  have eq: "apply_tunnel_route (tg_cfg tg) api (pw_slug r) (tg_ns tg) = apply_ingress_route api
      (PLATFORM_SYSTEM_NAMESPACE, tunnel_name (pw_slug r)) (tunnel_route (pw_slug r) (tg_ns tg) rule)"
    by (rule ext) (simp add: apply_tunnel_route_def Inr)
  show ?thesis unfolding eq apply_ingress_route_def host_match_Inr [OF Inr]
    by (intro moves_on rt.k_upsert_toward; assumption?; (rule wanted_worker [OF assms] refl))
qed

lemma moves_tunnel_ingress:
  "target_ok tg \<Longrightarrow> r \<in> set (tg_workers tg) \<Longrightarrow>
     moves tg (upsert_tunnel_ingress (tg_cfg tg) api (pw_slug r) (tg_ns tg) (tg_issuer tg))"
  unfolding upsert_tunnel_ingress_def by (rule moves_all_of) (auto intro: moves_worker moves_tunnel_route)

end
