(* ===== verification/WorkerReap.thy ===== *)
theory WorkerReap
  imports WorkerSteps
begin

text \<open>
  The steps that delete: what they list is what may be deleted, and nothing of it is left when they report no error.
\<close>

section \<open>Listing and deleting\<close>

lemma k_list_in:
  "js_map_ok s \<Longrightarrow> k_list api kind ns sel lab s = Inr names \<Longrightarrow>
     n \<in> set names \<longleftrightarrow> (\<exists>b. js_get (ns, n) s = Some b \<and> selects sel (lab b))"
  by (force simp: k_list_def js_get_eq_Some_iff split: option.splits)

lemma all_of_invariant:
  "(\<And>f c. f \<in> set fs \<Longrightarrow> P c \<Longrightarrow> P (fst (f c))) \<Longrightarrow> P c \<Longrightarrow> P (fst (all_of fs c))"
  by (induction fs arbitrary: c) (auto simp: all_of_Cons)

lemma all_of_deletes:
  assumes "\<And>n c k b. js_get k (S (fst (g n c))) = Some b \<Longrightarrow> js_get k (S c) = Some b \<and> (snd (g n c) = None \<longrightarrow> k \<noteq> key n)"
    and "js_get k (S (fst (all_of (map g ns) c))) = Some b"
  shows "js_get k (S c) = Some b \<and> (snd (all_of (map g ns) c) = None \<longrightarrow> k \<notin> key ` set ns)"
  using assms(2)
proof (induction ns arbitrary: c)
  case (Cons n ns)
  show ?case
  proof (cases "snd (g n c)")
    case None
    with Cons.IH [of "fst (g n c)"] Cons.prems assms(1) [of k n c b] show ?thesis by (auto simp: all_of_Cons)
  next
    case (Some e)
    with Cons.prems assms(1) [of k n c b] show ?thesis by (simp add: all_of_Cons)
  qed
qed simp

lemma delete_result:
  "js_get k (fst (delete_if_exists api kind key s)) = Some b \<Longrightarrow>
     js_get k s = Some b \<and> (snd (delete_if_exists api kind key s) = None \<longrightarrow> k \<noteq> key)"
  by (auto simp: delete_if_exists_def js_get_delete split: option.splits k_fault.splits if_splits)

section \<open>Tunnels\<close>

lemma toward_ok_now: "cluster_ok c0 \<Longrightarrow> cluster_toward tg c0 c \<Longrightarrow> js_map_ok (pc_services c) \<and> js_map_ok (pc_routes c)"
  using cluster_toward_ok by (auto simp: cluster_ok_def)

lemma toward_services: "cluster_toward tg c0 c \<Longrightarrow> svc.toward tg (pc_services c0) (pc_services c)"
  by (simp add: cluster_toward_def)

lemma toward_routes: "cluster_toward tg c0 c \<Longrightarrow> rt.toward tg (pc_routes c0) (pc_routes c)"
  by (simp add: cluster_toward_def)

lemma delete_service_toward:
  "cluster_toward tg c0 c \<Longrightarrow> (\<And>b. js_get k (pc_services c0) = Some b \<Longrightarrow> del_service tg k b) \<Longrightarrow>
     cluster_toward tg c0 (fst (on_services (delete_if_exists api kind k) c))"
  by (simp add: cluster_toward_def svc.k_delete_toward)

lemma moves_reap_tunnel_services:
  assumes "ns = tg_ns tg" "slugs = active_slugs tg"
  shows "moves tg (reap_tunnel_services api ns slugs)"
  unfolding moves_def
proof (intro allI impI)
  fix c0 c assume ok: "cluster_ok c0" and t: "cluster_toward tg c0 c"
  show "cluster_toward tg c0 (fst (reap_tunnel_services api ns slugs c))"
  proof (cases "k_list api KService PLATFORM_SYSTEM_NAMESPACE (tunnel_labels ns) ks_labels (pc_services c)")
    case (Inr names)
    have del: "del_service tg (PLATFORM_SYSTEM_NAMESPACE, n) b"
      if n: "n \<in> set (filter (stale_tunnel slugs) names)" and b: "js_get (PLATFORM_SYSTEM_NAMESPACE, n) (pc_services c0) = Some b" for n b
    proof -
      obtain b' where b': "js_get (PLATFORM_SYSTEM_NAMESPACE, n) (pc_services c) = Some b'" "selects (tunnel_labels ns) (ks_labels b')"
        using n k_list_in [OF _ Inr, of n] toward_ok_now [OF ok t] by auto
      with n have d: "del_service tg (PLATFORM_SYSTEM_NAMESPACE, n) b'" by (simp add: del_service_def assms)
      from svc.toward_current [OF toward_services [OF t] b'(1) d] b d show ?thesis by simp
    qed
    show ?thesis unfolding reap_tunnel_services_def Inr sum.case
      by (rule all_of_invariant [where P = "cluster_toward tg c0", OF _ t]) (auto simp del: on_results intro!: delete_service_toward del)
  qed (simp add: reap_tunnel_services_def t)
qed

lemma reap_one_toward:
  assumes t: "cluster_toward tg c0 c" and r: "js_get (PLATFORM_SYSTEM_NAMESPACE, n) (pc_routes c0) = Some r"
    and d: "del_route tg (PLATFORM_SYSTEM_NAMESPACE, n) r"
  shows "cluster_toward tg c0 (fst (reap_one_tunnel api n c))"
  unfolding reap_one_tunnel_def
proof (rule all_of_invariant [where P = "cluster_toward tg c0", OF _ t])
  fix f c' assume f: "f \<in> set [on_routes (delete_if_exists api KIngressRoute (PLATFORM_SYSTEM_NAMESPACE, n)),
      on_middlewares (delete_if_exists api KMiddleware (PLATFORM_SYSTEM_NAMESPACE, ratelimit_name n)),
      warned (on_certificates (delete_if_exists api KCertificate (PLATFORM_SYSTEM_NAMESPACE, n)))]"
    and t': "cluster_toward tg c0 c'"
  have route: "rt.toward tg (pc_routes c0) (fst (delete_if_exists api KIngressRoute (PLATFORM_SYSTEM_NAMESPACE, n) (pc_routes c')))"
    using t' r d by (intro rt.k_delete_toward) (auto simp: cluster_toward_def)
  have limit: "mw.toward tg (pc_routes c0) (pc_middlewares c0)
      (fst (delete_if_exists api KMiddleware (PLATFORM_SYSTEM_NAMESPACE, ratelimit_name n) (pc_middlewares c')))"
    using t' r d by (intro mw.k_delete_toward) (auto simp: cluster_toward_def del_middleware_def)
  have cert: "crt.toward tg (pc_routes c0) (pc_certificates c0)
      (fst (delete_if_exists api KCertificate (PLATFORM_SYSTEM_NAMESPACE, n) (pc_certificates c')))"
    using t' r d by (intro crt.k_delete_toward) (auto simp: cluster_toward_def del_certificate_def)
  from f t' route limit cert show "cluster_toward tg c0 (fst (f c'))"
    by (auto simp: cluster_toward_def warned_def)
qed

lemma moves_reap_tunnel_routes:
  assumes "ns = tg_ns tg" "slugs = active_slugs tg"
  shows "moves tg (reap_tunnel_routes api ns slugs)"
  unfolding moves_def
proof (intro allI impI)
  fix c0 c assume ok: "cluster_ok c0" and t: "cluster_toward tg c0 c"
  show "cluster_toward tg c0 (fst (reap_tunnel_routes api ns slugs c))"
  proof (cases "k_list api KIngressRoute PLATFORM_SYSTEM_NAMESPACE (tunnel_labels ns) kr_labels (pc_routes c)")
    case (Inr names)
    have del: "\<exists>b. js_get (PLATFORM_SYSTEM_NAMESPACE, n) (pc_routes c0) = Some b \<and> del_route tg (PLATFORM_SYSTEM_NAMESPACE, n) b"
      if n: "n \<in> set (filter (stale_tunnel slugs) names)" for n
    proof -
      obtain b where b: "js_get (PLATFORM_SYSTEM_NAMESPACE, n) (pc_routes c) = Some b" "selects (tunnel_labels ns) (kr_labels b)"
        using n k_list_in [OF _ Inr, of n] toward_ok_now [OF ok t] by auto
      with n have d: "del_route tg (PLATFORM_SYSTEM_NAMESPACE, n) b" by (simp add: del_route_def assms)
      from rt.toward_current [OF toward_routes [OF t] b(1) d] d show ?thesis by blast
    qed
    show ?thesis unfolding reap_tunnel_routes_def Inr sum.case
      by (rule all_of_invariant [where P = "cluster_toward tg c0", OF _ t]) (use del in \<open>auto intro: reap_one_toward\<close>)
  qed (simp add: reap_tunnel_routes_def t)
qed

lemma moves_reap_stale_tunnels:
  "ns = tg_ns tg \<Longrightarrow> slugs = active_slugs tg \<Longrightarrow> moves tg (reap_stale_tunnels api ns slugs)"
  unfolding reap_stale_tunnels_def
  by (rule moves_all_of) (auto intro: moves_reap_tunnel_services moves_reap_tunnel_routes)

lemma moves_reap_worker_services:
  assumes "ns = tg_ns tg" "names = active_services tg"
  shows "moves tg (reap_stale_per_worker_services api ns names)"
  unfolding moves_def
proof (intro allI impI)
  fix c0 c assume ok: "cluster_ok c0" and t: "cluster_toward tg c0 c"
  show "cluster_toward tg c0 (fst (reap_stale_per_worker_services api ns names c))"
  proof (cases "k_list api KService ns pw_service_selector ks_labels (pc_services c)")
    case (Inr found)
    have del: "del_service tg (ns, n) b"
      if n: "n \<in> set (filter (\<lambda>n. n \<notin> set names) found)" and b: "js_get (ns, n) (pc_services c0) = Some b" for n b
    proof -
      obtain b' where b': "js_get (ns, n) (pc_services c) = Some b'" "selects pw_service_selector (ks_labels b')"
        using n k_list_in [OF _ Inr, of n] toward_ok_now [OF ok t] by auto
      with n have d: "del_service tg (ns, n) b'" by (simp add: del_service_def assms)
      from svc.toward_current [OF toward_services [OF t] b'(1) d] b d show ?thesis by simp
    qed
    show ?thesis unfolding reap_stale_per_worker_services_def Inr sum.case
      by (rule all_of_invariant [where P = "cluster_toward tg c0", OF _ t]) (auto simp del: on_results intro!: delete_service_toward del)
  qed (simp add: reap_stale_per_worker_services_def t)
qed

section \<open>Nothing is left\<close>

definition no_stale_tunnel_service :: "pw_target \<Rightarrow> string \<Rightarrow> pw_cluster \<Rightarrow> bool" where
  "no_stale_tunnel_service tg n c = (\<forall>b. js_get (PLATFORM_SYSTEM_NAMESPACE, n) (pc_services c) = Some b \<longrightarrow>
     \<not> (stale_tunnel (active_slugs tg) n \<and> selects (tunnel_labels (tg_ns tg)) (ks_labels b)))"

definition no_stale_worker_service :: "pw_target \<Rightarrow> string \<Rightarrow> pw_cluster \<Rightarrow> bool" where
  "no_stale_worker_service tg n c = (\<forall>b. js_get (tg_ns tg, n) (pc_services c) = Some b \<longrightarrow>
     \<not> (n \<notin> set (active_services tg) \<and> selects pw_service_selector (ks_labels b)))"

lemma stable_no_stale: "stable tg (no_stale_tunnel_service tg n)" "stable tg (no_stale_worker_service tg n)"
  unfolding stable_def no_stale_tunnel_service_def no_stale_worker_service_def
  by (intro allI impI, erule (1) svc.toward_avoid [OF toward_services, rotated -1]; force simp: del_service_def)+

lemma clean_services:
  "(\<And>n. no_stale_tunnel_service tg n c) \<Longrightarrow> (\<And>n. no_stale_worker_service tg n c) \<Longrightarrow> svc.clean tg k (pc_services c)"
  by (cases k) (auto simp: svc.clean_def del_service_def no_stale_tunnel_service_def no_stale_worker_service_def)

lemma reap_tunnel_services_result:
  assumes "cluster_ok c" "snd (reap_tunnel_services api (tg_ns tg) (active_slugs tg) c) = None"
  shows "no_stale_tunnel_service tg n (fst (reap_tunnel_services api (tg_ns tg) (active_slugs tg) c))"
proof -
  obtain names where l: "k_list api KService PLATFORM_SYSTEM_NAMESPACE (tunnel_labels (tg_ns tg)) ks_labels (pc_services c) = Inr names"
    using assms(2) by (auto simp: reap_tunnel_services_def split: sum.splits)
  define g where "g = (\<lambda>n. on_services (delete_if_exists api KService (PLATFORM_SYSTEM_NAMESPACE, n)))"
  have eq: "reap_tunnel_services api (tg_ns tg) (active_slugs tg) c = all_of (map g (filter (stale_tunnel (active_slugs tg)) names)) c"
    by (simp add: reap_tunnel_services_def l g_def)
  have g: "js_get k (pc_services (fst (g n c))) = Some b \<Longrightarrow> js_get k (pc_services c) = Some b \<and>
      (snd (g n c) = None \<longrightarrow> k \<noteq> (PLATFORM_SYSTEM_NAMESPACE, n))" for n c k b
    by (auto simp: g_def dest: delete_result)
  show ?thesis unfolding no_stale_tunnel_service_def
  proof (intro allI impI notI; elim conjE)
    fix b assume b: "js_get (PLATFORM_SYSTEM_NAMESPACE, n) (pc_services (fst (reap_tunnel_services api (tg_ns tg) (active_slugs tg) c))) = Some b"
      and s: "stale_tunnel (active_slugs tg) n" "selects (tunnel_labels (tg_ns tg)) (ks_labels b)"
    from all_of_deletes [of pc_services g "Pair PLATFORM_SYSTEM_NAMESPACE", OF g b [unfolded eq]] assms(2)
    have "js_get (PLATFORM_SYSTEM_NAMESPACE, n) (pc_services c) = Some b" "n \<notin> set (filter (stale_tunnel (active_slugs tg)) names)"
      by (auto simp: eq)
    with s k_list_in [OF _ l, of n] assms(1) show False by (auto simp: cluster_ok_def)
  qed
qed

lemma reap_worker_services_result:
  assumes "cluster_ok c" "snd (reap_stale_per_worker_services api (tg_ns tg) (active_services tg) c) = None"
  shows "no_stale_worker_service tg n (fst (reap_stale_per_worker_services api (tg_ns tg) (active_services tg) c))"
proof -
  obtain names where l: "k_list api KService (tg_ns tg) pw_service_selector ks_labels (pc_services c) = Inr names"
    using assms(2) by (auto simp: reap_stale_per_worker_services_def split: sum.splits)
  define g where "g = (\<lambda>n. on_services (delete_if_exists api KService (tg_ns tg, n)))"
  have eq: "reap_stale_per_worker_services api (tg_ns tg) (active_services tg) c =
      all_of (map g (filter (\<lambda>n. n \<notin> set (active_services tg)) names)) c"
    by (simp add: reap_stale_per_worker_services_def l g_def)
  have g: "js_get k (pc_services (fst (g n c))) = Some b \<Longrightarrow> js_get k (pc_services c) = Some b \<and>
      (snd (g n c) = None \<longrightarrow> k \<noteq> (tg_ns tg, n))" for n c k b
    by (auto simp: g_def dest: delete_result)
  show ?thesis unfolding no_stale_worker_service_def
  proof (intro allI impI notI; elim conjE)
    fix b assume b: "js_get (tg_ns tg, n) (pc_services (fst (reap_stale_per_worker_services api (tg_ns tg) (active_services tg) c))) = Some b"
      and s: "n \<notin> set (active_services tg)" "selects pw_service_selector (ks_labels b)"
    from all_of_deletes [of pc_services g "Pair (tg_ns tg)", OF g b [unfolded eq]] assms(2)
    have "js_get (tg_ns tg, n) (pc_services c) = Some b" "n \<notin> set (filter (\<lambda>n. n \<notin> set (active_services tg)) names)"
      by (auto simp: eq)
    with s k_list_in [OF _ l, of n] assms(1) show False by (auto simp: cluster_ok_def)
  qed
qed

lemma reap_one_routes:
  "js_get k (pc_routes (fst (reap_one_tunnel api n c))) = Some b \<Longrightarrow> js_get k (pc_routes c) = Some b \<and>
     (snd (reap_one_tunnel api n c) = None \<longrightarrow> k \<noteq> (PLATFORM_SYSTEM_NAMESPACE, n))"
  by (auto simp: reap_one_tunnel_def all_of_Cons warned_def dest: delete_result split: if_splits)

lemma reap_tunnel_routes_result:
  assumes "cluster_ok c" "snd (reap_tunnel_routes api (tg_ns tg) (active_slugs tg) c) = None"
  shows "rt.clean tg k (pc_routes (fst (reap_tunnel_routes api (tg_ns tg) (active_slugs tg) c)))"
proof -
  obtain names where l: "k_list api KIngressRoute PLATFORM_SYSTEM_NAMESPACE (tunnel_labels (tg_ns tg)) kr_labels (pc_routes c) = Inr names"
    using assms(2) by (auto simp: reap_tunnel_routes_def split: sum.splits)
  have eq: "reap_tunnel_routes api (tg_ns tg) (active_slugs tg) c =
      all_of (map (reap_one_tunnel api) (filter (stale_tunnel (active_slugs tg)) names)) c"
    by (simp add: reap_tunnel_routes_def l)
  show ?thesis unfolding rt.clean_def
  proof (intro allI impI notI)
    fix b assume b: "js_get k (pc_routes (fst (reap_tunnel_routes api (tg_ns tg) (active_slugs tg) c))) = Some b"
      and d: "del_route tg k b"
    obtain n where k: "k = (PLATFORM_SYSTEM_NAMESPACE, n)" using d by (cases k) (auto simp: del_route_def)
    from all_of_deletes [of pc_routes "reap_one_tunnel api" "Pair PLATFORM_SYSTEM_NAMESPACE", OF reap_one_routes b [unfolded eq]] assms(2)
    have "js_get k (pc_routes c) = Some b" "n \<notin> set (filter (stale_tunnel (active_slugs tg)) names)"
      by (auto simp: eq k)
    with d k_list_in [OF _ l, of n] assms(1) show False by (auto simp: cluster_ok_def del_route_def k)
  qed
qed

end
