(* ===== verification/WorkerRefine.thy ===== *)
theory WorkerRefine
  imports WorkerReap
begin

text \<open>
  A whole reconciliation against the desired state: it moves the cluster toward it, reaches it when it reports no error,
  reports none when the API server refuses nothing, and leaves what another tenant has reached alone.
\<close>

definition reconciled :: "pw_target \<Rightarrow> pw_cluster \<Rightarrow> bool" where
  "reconciled tg c = (\<forall>k. svc.met tg k (pc_services c) \<and> svc.clean tg k (pc_services c) \<and>
     rt.met tg k (pc_routes c) \<and> rt.clean tg k (pc_routes c) \<and>
     desired_store.met (=) (want_middleware tg) k (pc_middlewares c) \<and>
     desired_store.met (=) (want_certificate tg) k (pc_certificates c) \<and>
     cm.met tg k (pc_configmaps c) \<and> cm.clean tg k (pc_configmaps c) \<and>
     dep.met tg k (pc_deployments c) \<and> dep.clean tg k (pc_deployments c) \<and>
     np.met tg k (pc_netpols c) \<and> np.clean tg k (pc_netpols c) \<and> sec.clean tg k (pc_secrets c))"

definition reconcile_target :: "pw_config \<Rightarrow> string \<Rightarrow> pw_world \<Rightarrow> pw_target" where
  "reconcile_target cfg t w = \<lparr>tg_cfg = cfg, tg_ns = (case get_tenant_namespace t w of Some ns \<Rightarrow> ns | None \<Rightarrow> []),
     tg_secret = (case load_tenant_shared_secret t w of Some s \<Rightarrow> s | None \<Rightarrow> []), tg_issuer = load_tunnel_issuer w,
     tg_workers = active_workers t w\<rparr>"

lemma errors_text_None [simp]: "errors_text es = None \<longleftrightarrow> es = []"
  by (simp add: errors_text_def)

section \<open>Apply\<close>

abbreviation target_steps :: "pw_target \<Rightarrow> k_api \<Rightarrow> (string \<times> k_op) list" where
  "target_steps tg api \<equiv> apply_steps (tg_cfg tg) api (tg_ns tg) (tg_secret tg) (tg_issuer tg) (tg_workers tg)"

lemma moves_apply:
  assumes "target_ok tg" "tg_workers tg \<noteq> []" "sf \<in> set (target_steps tg api)"
  shows "moves tg (snd sf)"
  using assms(3) unfolding apply_steps_def
  by (auto intro!: moves_shared [OF assms(2)] moves_worker [OF assms(1)] moves_tunnel_ingress [OF assms(1)]
    moves_reap_stale_tunnels moves_reap_worker_services simp: active_slugs_def active_services_def)

lemma met_shared:
  assumes ne: "tg_workers tg \<noteq> []"
  shows "snd (upsert_frps_config_map api (tg_ns tg) (tg_secret tg) (map pw_port (tg_workers tg)) c) = None \<Longrightarrow>
      cm.met tg (tg_ns tg, FRPS_CONFIGMAP_NAME)
        (pc_configmaps (fst (upsert_frps_config_map api (tg_ns tg) (tg_secret tg) (map pw_port (tg_workers tg)) c)))"
    and "snd (upsert_control_plane_service api (tg_ns tg) c) = None \<Longrightarrow>
      svc.met tg (tg_ns tg, FRPS_DEPLOYMENT_NAME) (pc_services (fst (upsert_control_plane_service api (tg_ns tg) c)))"
    and "snd (upsert_frps_deployment (tg_cfg tg) api (tg_ns tg) c) = None \<Longrightarrow>
      dep.met tg (tg_ns tg, FRPS_DEPLOYMENT_NAME) (pc_deployments (fst (upsert_frps_deployment (tg_cfg tg) api (tg_ns tg) c)))"
    and "snd (upsert_frps_network_policy (tg_cfg tg) api (tg_ns tg) c) = None \<Longrightarrow>
      np.met tg (tg_ns tg, FRPS_NETPOL_NAME) (pc_netpols (fst (upsert_frps_network_policy (tg_cfg tg) api (tg_ns tg) c)))"
  unfolding upsert_frps_config_map_def upsert_control_plane_service_def upsert_frps_deployment_def
    upsert_frps_network_policy_def on_results
  using cm.k_replace_met [OF wanted_shared(2) [OF ne] refl, of api] dep.k_upsert_met [where body = "\<lambda>_. frps_deployment (tg_cfg tg)" and admit = "\<lambda>b. b", OF wanted_shared(3) [OF ne] refl refl]
    np.k_upsert_met [where body = "\<lambda>_. frps_netpol (tg_cfg tg) (tg_ns tg)" and admit = "\<lambda>b. b", OF wanted_shared(4) [OF ne] refl refl]
    svc.k_upsert_met [where body = "keep_ip control_plane_service" and admit = "admit_service api (tg_ns tg, FRPS_DEPLOYMENT_NAME)",
      OF wanted_shared(1) [OF ne] same_service_keep(1) same_service_admit]
  by simp_all

lemma met_worker:
  assumes "target_ok tg" "r \<in> set (tg_workers tg)"
  shows "snd (upsert_per_worker_service api (tg_ns tg) (pw_service_name (pw_id r)) (pw_port r) c) = None \<Longrightarrow>
      svc.met tg (tg_ns tg, pw_service_name (pw_id r))
        (pc_services (fst (upsert_per_worker_service api (tg_ns tg) (pw_service_name (pw_id r)) (pw_port r) c)))"
    and "snd (upsert_external_name_service api (pw_slug r) (tg_ns tg) c) = None \<Longrightarrow>
      svc.met tg (PLATFORM_SYSTEM_NAMESPACE, tunnel_name (pw_slug r))
        (pc_services (fst (upsert_external_name_service api (pw_slug r) (tg_ns tg) c)))"
  unfolding upsert_per_worker_service_def upsert_external_name_service_def on_results
  using svc.k_upsert_met [where body = "keep_ip (per_worker_service (pw_service_name (pw_id r)) (pw_port r))"
      and admit = "admit_service api (tg_ns tg, pw_service_name (pw_id r))",
      OF wanted_worker(1) [OF assms] same_service_keep(1) same_service_admit]
    svc.k_upsert_met [where body = "\<lambda>_. external_name_service (tg_ns tg)"
      and admit = "admit_service api (PLATFORM_SYSTEM_NAMESPACE, tunnel_name (pw_slug r))",
      OF wanted_worker(2) [OF assms] same_service_keep(3) same_service_keep(2)]
  by simp_all

lemma met_tunnel:
  fixes c :: pw_cluster and api :: k_api
  assumes "target_ok tg" "r \<in> set (tg_workers tg)"
  defines "u \<equiv> upsert_tunnel_ingress (tg_cfg tg) api (pw_slug r) (tg_ns tg) (tg_issuer tg) c"
  assumes "snd u = None"
  shows "rt.met tg (PLATFORM_SYSTEM_NAMESPACE, tunnel_name (pw_slug r)) (pc_routes (fst u))"
    and "desired_store.met (=) (want_middleware tg) (PLATFORM_SYSTEM_NAMESPACE, ratelimit_name (tunnel_name (pw_slug r)))
           (pc_middlewares (fst u))"
    and "desired_store.met (=) (want_certificate tg) (PLATFORM_SYSTEM_NAMESPACE, tunnel_name (pw_slug r)) (pc_certificates (fst u))"
proof -
  obtain rule where h: "host_match (tunnel_host (tg_cfg tg) (pw_slug r)) = Inr rule"
    using assms(4) by (auto simp: u_def upsert_tunnel_ingress_def all_of_Cons apply_tunnel_route_def split: if_splits sum.splits)
  note rule = host_match_Inr [OF h]
  note e = u_def upsert_tunnel_ingress_def all_of_Cons apply_tunnel_route_def h apply_middleware_def apply_certificate_def
    apply_ingress_route_def rule
  show "rt.met tg (PLATFORM_SYSTEM_NAMESPACE, tunnel_name (pw_slug r)) (pc_routes (fst u))"
    using assms(4) by (auto simp: e rt.k_upsert_met [OF wanted_worker(3) [OF assms(1,2)]] split: if_splits)
  show "desired_store.met (=) (want_middleware tg) (PLATFORM_SYSTEM_NAMESPACE, ratelimit_name (tunnel_name (pw_slug r))) (pc_middlewares (fst u))"
    using assms(4) by (auto simp: e mw.k_upsert_met [OF wanted_worker(4) [OF assms(1,2)]] split: if_splits)
  show "desired_store.met (=) (want_certificate tg) (PLATFORM_SYSTEM_NAMESPACE, tunnel_name (pw_slug r)) (pc_certificates (fst u))"
    using assms(4) by (auto simp: e crt.k_upsert_met [OF wanted_worker(5) [OF assms(1,2)]] split: if_splits)
qed

lemma reap_tunnels_result:
  assumes ok: "cluster_ok c" and none: "snd (reap_stale_tunnels api (tg_ns tg) (active_slugs tg) c) = None"
  defines "c' \<equiv> fst (reap_stale_tunnels api (tg_ns tg) (active_slugs tg) c)"
  shows "no_stale_tunnel_service tg n c'" and "rt.clean tg k (pc_routes c')"
proof -
  let ?a = "reap_tunnel_services api (tg_ns tg) (active_slugs tg)"
  let ?b = "reap_tunnel_routes api (tg_ns tg) (active_slugs tg)"
  from none have a: "snd (?a c) = None" and b: "snd (?b (fst (?a c))) = None" and c': "c' = fst (?b (fst (?a c)))"
    by (auto simp: reap_stale_tunnels_def all_of_Cons c'_def split: if_splits)
  have ok': "cluster_ok (fst (?a c))"
    using cluster_toward_ok [OF moves_from [OF moves_reap_tunnel_services [OF refl refl] ok] ok] .
  show "rt.clean tg k (pc_routes c')" unfolding c' by (rule reap_tunnel_routes_result [OF ok' b])
  show "no_stale_tunnel_service tg n c'" unfolding c'
    using stable_no_stale(1) ok' moves_from [OF moves_reap_tunnel_routes [OF refl refl] ok'] reap_tunnel_services_result [OF ok a]
    unfolding stable_def by blast
qed

text \<open>A run of the steps that reported no error.\<close>

definition applied :: "pw_target \<Rightarrow> k_api \<Rightarrow> pw_cluster \<Rightarrow> bool" where
  "applied tg api c = (target_ok tg \<and> tg_workers tg \<noteq> [] \<and> cluster_ok c \<and> snd (run_safe (target_steps tg api) c) = [])"

abbreviation after_apply :: "pw_target \<Rightarrow> k_api \<Rightarrow> pw_cluster \<Rightarrow> pw_cluster" where
  "after_apply tg api c \<equiv> fst (run_safe (target_steps tg api) c)"

lemma apply_reaches:
  "applied tg api c \<Longrightarrow> stable tg P \<Longrightarrow> sf \<in> set (target_steps tg api) \<Longrightarrow>
     (\<And>c. cluster_ok c \<Longrightarrow> snd (snd sf c) = None \<Longrightarrow> P (fst (snd sf c))) \<Longrightarrow> P (after_apply tg api c)"
  unfolding applied_def by (rule run_safe_reaches [where tg = tg]) (auto intro: moves_apply)

lemma applied_services:
  assumes a: "applied tg api c"
  shows "svc.met tg k (pc_services (after_apply tg api c))"
proof (cases "want_service tg k")
  case (Some d)
  note tok = a [unfolded applied_def, THEN conjunct1] and ne = a [unfolded applied_def, THEN conjunct2, THEN conjunct1]
  from Some show ?thesis
  proof (cases rule: want_service_cases)
    case control
    show ?thesis unfolding control
      by (rule apply_reaches [OF a, where sf = "(''service:frps-control'', upsert_control_plane_service api (tg_ns tg))"])
        (auto simp: apply_steps_def intro: met_shared [OF ne])
  next
    case (worker r)
    show ?thesis unfolding worker(2)
      by (rule apply_reaches [OF a, where sf = "(''service:'' @ pw_id r, upsert_per_worker_service api (tg_ns tg) (pw_service_name (pw_id r)) (pw_port r))"])
        (use worker(1) in \<open>auto simp: apply_steps_def intro: met_worker [OF tok]\<close>)
  next
    case (tunnel r)
    show ?thesis unfolding tunnel(2)
      by (rule apply_reaches [OF a, where sf = "(''externalname:'' @ pw_slug r, upsert_external_name_service api (pw_slug r) (tg_ns tg))"])
        (use tunnel(1) in \<open>auto simp: apply_steps_def intro: met_worker [OF tok]\<close>)
  qed
qed (simp add: svc.met_def)

lemma applied_tunnel:
  assumes a: "applied tg api c" and r: "r \<in> set (tg_workers tg)"
  shows "rt.met tg (PLATFORM_SYSTEM_NAMESPACE, tunnel_name (pw_slug r)) (pc_routes (after_apply tg api c))"
    and "desired_store.met (=) (want_middleware tg) (PLATFORM_SYSTEM_NAMESPACE, ratelimit_name (tunnel_name (pw_slug r)))
           (pc_middlewares (after_apply tg api c))"
    and "desired_store.met (=) (want_certificate tg) (PLATFORM_SYSTEM_NAMESPACE, tunnel_name (pw_slug r))
           (pc_certificates (after_apply tg api c))"
  by (rule apply_reaches [OF a, where sf = "(''tunnel-ingress:'' @ pw_slug r, upsert_tunnel_ingress (tg_cfg tg) api (pw_slug r) (tg_ns tg) (tg_issuer tg))"];
    (use a r in \<open>auto simp: apply_steps_def applied_def intro: met_tunnel\<close>)?)+

lemma applied_tunnels:
  assumes a: "applied tg api c"
  shows "rt.met tg k (pc_routes (after_apply tg api c))"
    and "desired_store.met (=) (want_middleware tg) k (pc_middlewares (after_apply tg api c))"
    and "desired_store.met (=) (want_certificate tg) k (pc_certificates (after_apply tg api c))"
proof -
  have "\<exists>r \<in> set (tg_workers tg). k = (PLATFORM_SYSTEM_NAMESPACE, tunnel_name (pw_slug r))" if "want_route tg k = Some d" for d
    using that by (auto elim: want_route_cases)
  then show "rt.met tg k (pc_routes (after_apply tg api c))"
    using applied_tunnel(1) [OF a] by (cases "want_route tg k") (auto simp: rt.met_def)
  have "\<exists>r \<in> set (tg_workers tg). k = (PLATFORM_SYSTEM_NAMESPACE, ratelimit_name (tunnel_name (pw_slug r)))"
    if "want_middleware tg k = Some d" for d
    using that by (auto simp: want_middleware_def dest!: map_of_SomeD)
  then show "desired_store.met (=) (want_middleware tg) k (pc_middlewares (after_apply tg api c))"
    using applied_tunnel(2) [OF a] by (cases "want_middleware tg k") (auto simp: mw.met_def)
  have "\<exists>r \<in> set (tg_workers tg). k = (PLATFORM_SYSTEM_NAMESPACE, tunnel_name (pw_slug r))" if "want_certificate tg k = Some d" for d
    using that by (auto simp: want_certificate_def dest!: map_of_SomeD)
  then show "desired_store.met (=) (want_certificate tg) k (pc_certificates (after_apply tg api c))"
    using applied_tunnel(3) [OF a] by (cases "want_certificate tg k") (auto simp: crt.met_def)
qed

lemma want_shared_key:
  "want_configmap tg k = Some d1 \<Longrightarrow> k = (tg_ns tg, FRPS_CONFIGMAP_NAME)"
  "want_deployment tg k = Some d2 \<Longrightarrow> k = (tg_ns tg, FRPS_DEPLOYMENT_NAME)"
  "want_netpol tg k = Some d3 \<Longrightarrow> k = (tg_ns tg, FRPS_NETPOL_NAME)"
  by (auto simp: want_configmap_def want_deployment_def want_netpol_def split: if_splits)

lemma applied_shared:
  assumes a: "applied tg api c"
  shows "cm.met tg k (pc_configmaps (after_apply tg api c))"
    and "dep.met tg k (pc_deployments (after_apply tg api c))"
    and "np.met tg k (pc_netpols (after_apply tg api c))"
proof -
  note ne = a [unfolded applied_def, THEN conjunct2, THEN conjunct1]
  have "cm.met tg (tg_ns tg, FRPS_CONFIGMAP_NAME) (pc_configmaps (after_apply tg api c))"
    by (rule apply_reaches [OF a, where sf = "(''configmap'', upsert_frps_config_map api (tg_ns tg) (tg_secret tg) (map pw_port (tg_workers tg)))"])
      (auto simp: apply_steps_def intro: met_shared [OF ne])
  then show "cm.met tg k (pc_configmaps (after_apply tg api c))"
    by (auto simp: cm.met_def dest: want_shared_key)
  have "dep.met tg (tg_ns tg, FRPS_DEPLOYMENT_NAME) (pc_deployments (after_apply tg api c))"
    by (rule apply_reaches [OF a, where sf = "(''frps-deployment'', upsert_frps_deployment (tg_cfg tg) api (tg_ns tg))"])
      (auto simp: apply_steps_def intro: met_shared [OF ne])
  then show "dep.met tg k (pc_deployments (after_apply tg api c))"
    by (auto simp: dep.met_def dest: want_shared_key)
  have "np.met tg (tg_ns tg, FRPS_NETPOL_NAME) (pc_netpols (after_apply tg api c))"
    by (rule apply_reaches [OF a, where sf = "(''networkpolicy'', upsert_frps_network_policy (tg_cfg tg) api (tg_ns tg))"])
      (auto simp: apply_steps_def intro: met_shared [OF ne])
  then show "np.met tg k (pc_netpols (after_apply tg api c))"
    by (auto simp: np.met_def dest: want_shared_key)
qed

lemma applied_clean:
  assumes a: "applied tg api c"
  shows "svc.clean tg k (pc_services (after_apply tg api c))" and "rt.clean tg k (pc_routes (after_apply tg api c))"
proof -
  have step: "(''reap-stale-tunnels'', reap_stale_tunnels api (tg_ns tg) (active_slugs tg)) \<in> set (target_steps tg api)"
      "(''reap-stale-pw-services'', reap_stale_per_worker_services api (tg_ns tg) (active_services tg)) \<in> set (target_steps tg api)"
    by (simp_all add: apply_steps_def active_slugs_def active_services_def)
  show "rt.clean tg k (pc_routes (after_apply tg api c))"
    by (rule apply_reaches [OF a _ step(1)]) (auto intro: reap_tunnels_result)
  have "no_stale_tunnel_service tg n (after_apply tg api c)" for n
    by (rule apply_reaches [OF a stable_no_stale(1) step(1)]) (auto intro: reap_tunnels_result)
  moreover have "no_stale_worker_service tg n (after_apply tg api c)" for n
    by (rule apply_reaches [OF a stable_no_stale(2) step(2)]) (auto intro: reap_worker_services_result)
  ultimately show "svc.clean tg k (pc_services (after_apply tg api c))" by (rule clean_services)
qed

lemma apply_reconciles: "applied tg api c \<Longrightarrow> reconciled tg (after_apply tg api c)"
  by (auto simp: reconciled_def applied_services applied_tunnels applied_shared applied_clean)
    (auto simp: applied_def cm.clean_def dep.clean_def np.clean_def sec.clean_def gone_with_def)

section \<open>Teardown\<close>

lemma moves_tear_down:
  assumes "tg_workers tg = []" "sf \<in> set (tear_down_steps api (tg_ns tg))"
  shows "moves tg (snd sf)"
proof -
  have e: "active_slugs tg = []" "active_services tg = []" by (simp_all add: active_slugs_def active_services_def assms(1))
  have gone: "gone_with n tg (tg_ns tg, n) b" for n b by (simp add: gone_with_def assms(1))
  from assms(2) show ?thesis unfolding tear_down_steps_def
    by (auto simp: e gone intro!: moves_reap_stale_tunnels moves_reap_worker_services moves_on dep.k_delete_toward
      cm.k_delete_toward sec.k_delete_toward np.k_delete_toward)
qed

lemma want_nothing:
  assumes "tg_workers tg = []"
  shows "want_service tg k = None" "want_route tg k = None" "want_middleware tg k = None" "want_certificate tg k = None"
    "want_configmap tg k = None" "want_deployment tg k = None" "want_netpol tg k = None"
  by (simp_all add: assms want_service_def want_route_def want_middleware_def want_certificate_def want_configmap_def
    want_deployment_def want_netpol_def)

lemma tear_down_reconciles:
  fixes api :: k_api
  assumes none: "tg_workers tg = []" and ok: "cluster_ok c" and es: "snd (run_safe (tear_down_steps api (tg_ns tg)) c) = []"
  shows "reconciled tg (fst (run_safe (tear_down_steps api (tg_ns tg)) c))"
proof -
  let ?c = "fst (run_safe (tear_down_steps api (tg_ns tg)) c)"
  have reach: "P ?c" if "stable tg P" "sf \<in> set (tear_down_steps api (tg_ns tg))"
      "\<And>c. cluster_ok c \<Longrightarrow> snd (snd sf c) = None \<Longrightarrow> P (fst (snd sf c))" for P sf
    using run_safe_reaches [OF moves_tear_down [OF none] that ok es] .
  have e: "active_slugs tg = []" "active_services tg = []" by (simp_all add: active_slugs_def active_services_def none)
  have steps: "(''reap-tunnels-all'', reap_stale_tunnels api (tg_ns tg) (active_slugs tg)) \<in> set (tear_down_steps api (tg_ns tg))"
      "(''reap-pw-services-all'', reap_stale_per_worker_services api (tg_ns tg) (active_services tg)) \<in> set (tear_down_steps api (tg_ns tg))"
    by (simp_all add: tear_down_steps_def e)
  have tunnels: "no_stale_tunnel_service tg n ?c" "rt.clean tg k (pc_routes ?c)" for n k
    by (rule reach [OF _ steps(1)]; auto intro: reap_tunnels_result stable_no_stale)+
  have workers: "no_stale_worker_service tg n ?c" for n
    by (rule reach [OF _ steps(2)]) (auto intro: reap_worker_services_result stable_no_stale)
  have frps: "dep.clean tg (tg_ns tg, FRPS_DEPLOYMENT_NAME) (pc_deployments ?c)"
      "cm.clean tg (tg_ns tg, FRPS_CONFIGMAP_NAME) (pc_configmaps ?c)"
      "sec.clean tg (tg_ns tg, FRPS_SECRET_NAME) (pc_secrets ?c)" "np.clean tg (tg_ns tg, FRPS_NETPOL_NAME) (pc_netpols ?c)"
    by (rule reach [where sf = "(''frps-deployment'', on_deployments (delete_if_exists api KDeployment (tg_ns tg, FRPS_DEPLOYMENT_NAME)))"]
        reach [where sf = "(''frps-configmap'', on_configmaps (delete_if_exists api KConfigMap (tg_ns tg, FRPS_CONFIGMAP_NAME)))"]
        reach [where sf = "(''frps-secret'', on_secrets (delete_if_exists api KSecret (tg_ns tg, FRPS_SECRET_NAME)))"]
        reach [where sf = "(''frps-netpol'', on_netpols (delete_if_exists api KNetPol (tg_ns tg, FRPS_NETPOL_NAME)))"];
      auto simp: tear_down_steps_def intro: dep.k_delete_clean cm.k_delete_clean sec.k_delete_clean np.k_delete_clean)+
  then have "dep.clean tg k (pc_deployments ?c)" "cm.clean tg k (pc_configmaps ?c)" "sec.clean tg k (pc_secrets ?c)"
      "np.clean tg k (pc_netpols ?c)" for k
    by (auto simp: dep.clean_def cm.clean_def sec.clean_def np.clean_def gone_with_def)
  then show ?thesis
    by (simp add: reconciled_def svc.met_def rt.met_def mw.met_def crt.met_def cm.met_def dep.met_def np.met_def want_nothing [OF none]
      clean_services [OF tunnels(1) workers] tunnels(2))
qed

section \<open>A reconciliation\<close>

definition has_namespace :: "string \<Rightarrow> pw_world \<Rightarrow> bool" where
  "has_namespace t w = (\<exists>x xs. get_tenant_namespace t w = Some (x # xs))"

lemma active_workers_tenant: "r \<in> set (active_workers t w) \<Longrightarrow> pw_tenant r = t"
  by (simp add: active_workers_def)

lemma reconcile_cases:
  fixes cfg :: pw_config and api :: k_api and c :: pw_cluster
  assumes "has_namespace t w"
  defines "tg \<equiv> reconcile_target cfg t w"
  obtains (teardown) "tg_workers tg = []"
      "reconcile_private_workers_for_tenant cfg api t w c = (fst (run_safe (tear_down_steps api (tg_ns tg)) c),
         \<lparr>ro_tenant = t, ro_action = ActTeardown, ro_count = 0, ro_error = errors_text (snd (run_safe (tear_down_steps api (tg_ns tg)) c))\<rparr>)"
  | (applying) "tg_workers tg \<noteq> []" "tg_secret tg \<noteq> []"
      "reconcile_private_workers_for_tenant cfg api t w c = (fst (run_safe (target_steps tg api) c),
         \<lparr>ro_tenant = t, ro_action = ActApply, ro_count = length (tg_workers tg), ro_error = errors_text (snd (run_safe (target_steps tg api) c))\<rparr>)"
  | (no_secret) m where "tg_workers tg \<noteq> []" "tg_secret tg = []"
      "reconcile_private_workers_for_tenant cfg api t w c = (c,
         \<lparr>ro_tenant = t, ro_action = ActApply, ro_count = length (tg_workers tg), ro_error = Some m\<rparr>)"
proof -
  obtain x xs where ns: "get_tenant_namespace t w = Some (x # xs)" using assms(1) by (auto simp: has_namespace_def)
  have hd: "pw_tenant (hd (active_workers t w)) = t" if "active_workers t w \<noteq> []"
    using active_workers_tenant [OF hd_in_set [OF that]] .
  show thesis
  proof (cases "active_workers t w = []")
    case True
    then show thesis
      by (intro teardown) (simp_all add: tg_def reconcile_target_def reconcile_private_workers_for_tenant_def ns tear_down_def
        Let_def split: prod.split)
  next
    case False
    note f = tg_def reconcile_target_def reconcile_private_workers_for_tenant_def ns apply_workers_def Let_def hd [OF False] False
    show thesis
    proof (cases "load_tenant_shared_secret t w")
      case None
      show thesis by (rule no_secret) (simp_all add: f None)
    next
      case (Some s)
      then show thesis
      proof (cases s)
        case Nil
        show thesis by (rule no_secret) (simp_all add: f Some Nil)
      next
        case (Cons y ys)
        show thesis by (rule applying) (simp_all add: f Some Cons split: prod.split)
      qed
    qed
  qed
qed

lemma reconcile_moves:
  assumes "has_namespace t w" "target_ok (reconcile_target cfg t w)" "cluster_ok c"
  shows "cluster_toward (reconcile_target cfg t w) c (fst (reconcile_private_workers_for_tenant cfg api t w c))"
  using assms(1)
proof (cases rule: reconcile_cases [where cfg = cfg and api = api and c = c])
  case teardown
  then show ?thesis using moves_run_safe [OF moves_tear_down [OF teardown(1)] assms(3) cluster_toward_refl] by simp
next
  case applying
  then show ?thesis using moves_run_safe [OF moves_apply [OF assms(2) applying(1)] assms(3) cluster_toward_refl] by simp
next
  case (no_secret m)
  then show ?thesis by (simp add: cluster_toward_refl)
qed

lemma reconcile_reaches:
  assumes "has_namespace t w" "target_ok (reconcile_target cfg t w)" "cluster_ok c"
    and "ro_error (snd (reconcile_private_workers_for_tenant cfg api t w c)) = None"
  shows "reconciled (reconcile_target cfg t w) (fst (reconcile_private_workers_for_tenant cfg api t w c))"
  using assms(1)
proof (cases rule: reconcile_cases [where cfg = cfg and api = api and c = c])
  case teardown
  with assms(4) show ?thesis using tear_down_reconciles [OF teardown(1) assms(3), of api] by simp
next
  case applying
  with assms(4) show ?thesis using apply_reconciles [unfolded applied_def] assms(2,3) by simp
next
  case (no_secret m)
  with assms(4) show ?thesis by simp
qed

section \<open>An API server that refuses nothing\<close>

definition quiet :: "k_api \<Rightarrow> bool" where
  "quiet api = (\<forall>v kind k. ka_fault api v kind k = None)"

lemma quiet_all_of: "(\<And>f c. f \<in> set fs \<Longrightarrow> snd (f c) = None) \<Longrightarrow> snd (all_of fs c) = None"
  by (induction fs arbitrary: c) (simp_all add: all_of_Cons)

lemma quiet_run_safe: "(\<And>sf c. sf \<in> set fs \<Longrightarrow> snd (snd sf c) = None) \<Longrightarrow> snd (run_safe fs c) = []"
  by (induction fs arbitrary: c) (simp_all add: run_safe_none)

lemma quiet_calls:
  assumes "quiet api"
  shows "snd (k_write api v kind k b s) = None" "snd (k_upsert api kind k body admit s) = None"
    "snd (k_replace_or_create api kind k b s) = None" "snd (delete_if_exists api kind k s) = None"
    "\<exists>names. k_list api kind ns sel lab s = Inr names"
proof -
  have "ka_fault api v kind k = None" for v kind k using assms unfolding quiet_def by blast
  then show "snd (k_write api v kind k b s) = None" "snd (k_upsert api kind k body admit s) = None"
    "snd (k_replace_or_create api kind k b s) = None" "snd (delete_if_exists api kind k s) = None"
    "\<exists>names. k_list api kind ns sel lab s = Inr names"
    by (simp_all add: k_write_def k_upsert_def k_replace_or_create_def delete_if_exists_def k_list_def split: option.split)
qed

lemma quiet_reap:
  assumes q: "quiet api"
  shows "snd (reap_stale_tunnels api ns slugs c) = None" "snd (reap_stale_per_worker_services api ns names c) = None"
proof -
  have one: "snd (reap_one_tunnel api n c) = None" for n c
    unfolding reap_one_tunnel_def by (rule quiet_all_of) (auto simp: quiet_calls [OF q] warned_def)
  have "snd (reap_tunnel_services api ns slugs c) = None" for c
  proof -
    obtain names where "k_list api KService PLATFORM_SYSTEM_NAMESPACE (tunnel_labels ns) ks_labels (pc_services c) = Inr names"
      using quiet_calls(5) [OF q] by blast
    then show ?thesis by (auto simp: reap_tunnel_services_def quiet_calls [OF q] intro!: quiet_all_of)
  qed
  moreover have "snd (reap_tunnel_routes api ns slugs c) = None" for c
  proof -
    obtain names where "k_list api KIngressRoute PLATFORM_SYSTEM_NAMESPACE (tunnel_labels ns) kr_labels (pc_routes c) = Inr names"
      using quiet_calls(5) [OF q] by blast
    then show ?thesis by (auto simp: reap_tunnel_routes_def one intro!: quiet_all_of)
  qed
  ultimately show "snd (reap_stale_tunnels api ns slugs c) = None"
    unfolding reap_stale_tunnels_def by (intro quiet_all_of) auto
  obtain found where "k_list api KService ns pw_service_selector ks_labels (pc_services c) = Inr found"
    using quiet_calls(5) [OF q] by blast
  then show "snd (reap_stale_per_worker_services api ns names c) = None"
    by (auto simp: reap_stale_per_worker_services_def quiet_calls [OF q] intro!: quiet_all_of)
qed

lemma quiet_tunnel:
  assumes "quiet api" "CHR 0x60 \<notin> set (tunnel_host cfg slug)"
  shows "snd (upsert_tunnel_ingress cfg api slug ns issuer c) = None"
  unfolding upsert_tunnel_ingress_def
  by (rule quiet_all_of) (use assms(2) in \<open>auto simp: apply_middleware_def apply_certificate_def apply_tunnel_route_def
    apply_ingress_route_def host_match_def encode_match_literal_def quiet_calls [OF assms(1)]\<close>)

lemma quiet_apply:
  assumes q: "quiet api" and h: "\<And>r. r \<in> set (tg_workers tg) \<Longrightarrow> CHR 0x60 \<notin> set (tunnel_host (tg_cfg tg) (pw_slug r))"
  shows "snd (run_safe (target_steps tg api) c) = []"
  by (rule quiet_run_safe) (auto simp: apply_steps_def upsert_frps_config_map_def upsert_control_plane_service_def
    upsert_per_worker_service_def upsert_frps_deployment_def upsert_frps_network_policy_def upsert_external_name_service_def
    quiet_calls [OF q] quiet_reap [OF q] quiet_tunnel [OF q] h)

lemma quiet_tear_down: "quiet api \<Longrightarrow> snd (run_safe (tear_down_steps api ns) c) = []"
  by (rule quiet_run_safe) (auto simp: tear_down_steps_def quiet_calls quiet_reap)

lemma reconcile_quiet:
  assumes "quiet api" "has_namespace t w"
    and "\<And>r. r \<in> set (active_workers t w) \<Longrightarrow> CHR 0x60 \<notin> set (tunnel_host cfg (pw_slug r))"
    and "active_workers t w \<noteq> [] \<Longrightarrow> \<exists>s. load_tenant_shared_secret t w = Some s \<and> s \<noteq> []"
  shows "ro_error (snd (reconcile_private_workers_for_tenant cfg api t w c)) = None"
  using assms(2)
proof (cases rule: reconcile_cases [where cfg = cfg and api = api and c = c])
  case teardown
  then show ?thesis by (simp add: quiet_tear_down [OF assms(1)])
next
  case applying
  then show ?thesis using quiet_apply [OF assms(1), of "reconcile_target cfg t w"] assms(3) by (simp add: reconcile_target_def)
next
  case (no_secret m)
  with assms(4) show ?thesis by (auto simp: reconcile_target_def)
qed

section \<open>Two tenants\<close>

definition apart :: "pw_target \<Rightarrow> pw_target \<Rightarrow> bool" where
  "apart tg tg' = (tg_ns tg \<noteq> tg_ns tg' \<and> set (active_slugs tg) \<inter> set (active_slugs tg') = {})"

lemma apart_sym: "apart tg tg' \<Longrightarrow> apart tg' tg"
  by (auto simp: apart_def)

lemma apart_slugs: "apart tg tg' \<Longrightarrow> r \<in> set (tg_workers tg) \<Longrightarrow> r' \<in> set (tg_workers tg') \<Longrightarrow> pw_slug r \<noteq> pw_slug r'"
  by (auto simp: apart_def active_slugs_def)

lemma apart_service:
  assumes a: "apart tg tg'" and w: "want_service tg k = Some d"
  shows "want_service tg' k = None" and "same_service b d \<Longrightarrow> \<not> del_service tg' k b"
proof -
  have ns: "tg_ns tg \<noteq> tg_ns tg'" and slugs: "pw_slug ` set (tg_workers tg) \<inter> pw_slug ` set (tg_workers tg') = {}"
    using a by (simp_all add: apart_def active_slugs_def)
  show "want_service tg' k = None"
  proof (cases "want_service tg' k")
    case (Some d')
    from w Some ns slugs show ?thesis
      by (cases rule: want_service_cases; cases rule: want_service_cases [OF Some]) (auto dest: imageI)
  qed
  assume "same_service b d"
  from w same_service_labels [OF this] ns show "\<not> del_service tg' k b"
    by (cases rule: want_service_cases) (auto simp: del_service_def)
qed

lemma apart_route:
  assumes a: "apart tg tg'" and w: "want_route tg k = Some d"
  shows "want_route tg' k = None" and "\<not> del_route tg' k d"
proof -
  have ns: "tg_ns tg \<noteq> tg_ns tg'" and slugs: "pw_slug ` set (tg_workers tg) \<inter> pw_slug ` set (tg_workers tg') = {}"
    using a by (simp_all add: apart_def active_slugs_def)
  show "want_route tg' k = None"
  proof (cases "want_route tg' k")
    case (Some d')
    from w Some ns slugs show ?thesis
      by (cases rule: want_route_cases; cases rule: want_route_cases [OF Some]) (auto dest: imageI)
  qed
  from w ns show "\<not> del_route tg' k d" by (cases rule: want_route_cases) (auto simp: del_route_def)
qed

lemma want_middleware_key:
  "want_middleware tg k = Some d \<Longrightarrow> \<exists>r \<in> set (tg_workers tg). k = (PLATFORM_SYSTEM_NAMESPACE, ratelimit_name (tunnel_name (pw_slug r)))"
  by (auto simp: want_middleware_def dest!: map_of_SomeD)

lemma want_certificate_key:
  "want_certificate tg k = Some d \<Longrightarrow> \<exists>r \<in> set (tg_workers tg). k = (PLATFORM_SYSTEM_NAMESPACE, tunnel_name (pw_slug r))"
  by (auto simp: want_certificate_def dest!: map_of_SomeD)

lemma apart_tunnel:
  assumes a: "apart tg tg'"
  shows "want_middleware tg' k1 = Some d1 \<Longrightarrow> want_middleware tg k1 = None"
    and "want_certificate tg' k2 = Some d2 \<Longrightarrow> want_certificate tg k2 = None"
proof -
  have slugs: "pw_slug ` set (tg_workers tg) \<inter> pw_slug ` set (tg_workers tg') = {}"
    using a by (simp add: apart_def active_slugs_def)
  show "want_middleware tg' k1 = Some d1 \<Longrightarrow> want_middleware tg k1 = None"
    by (cases "want_middleware tg k1") (use slugs in \<open>auto simp: disjoint_iff dest!: want_middleware_key\<close>, metis imageI)
  show "want_certificate tg' k2 = Some d2 \<Longrightarrow> want_certificate tg k2 = None"
    by (cases "want_certificate tg k2") (use slugs in \<open>auto simp: disjoint_iff dest!: want_certificate_key\<close>, metis imageI)
qed

text \<open>The route of another tenant's tunnel, once reached, protects the objects that go with it.\<close>

lemma apart_route_kept:
  assumes "apart tg tg'" "target_ok tg'" "r \<in> set (tg_workers tg')"
    and "\<And>k. rt.met tg' k (pc_routes c)" and "js_get (PLATFORM_SYSTEM_NAMESPACE, tunnel_name (pw_slug r)) (pc_routes c) = Some b"
  shows "\<not> del_route tg (PLATFORM_SYSTEM_NAMESPACE, tunnel_name (pw_slug r)) b"
  using assms wanted_worker(3) [OF assms(2,3)] apart_route(2) [OF apart_sym [OF assms(1)]] by (force simp: rt.met_def)

lemma apart_services:
  assumes a: "apart tg tg'" and t: "cluster_toward tg c c'" and m: "svc.met tg' k (pc_services c)" and cl: "svc.clean tg' k (pc_services c)"
  shows "svc.met tg' k (pc_services c')" and "svc.clean tg' k (pc_services c')"
proof -
  note t' = toward_services [OF t]
  show "svc.met tg' k (pc_services c')" unfolding svc.met_def
  proof (intro allI impI)
    fix d assume d: "want_service tg' k = Some d"
    show "\<exists>b. js_get k (pc_services c') = Some b \<and> same_service b d"
      by (rule svc.toward_other_met [OF t', where want' = "want_service tg'", OF _ _ _ d])
        (use m apart_service [OF apart_sym [OF a] d] in \<open>auto simp: svc.met_def\<close>)
  qed
  show "svc.clean tg' k (pc_services c')" unfolding svc.clean_def
  proof (intro allI impI)
    fix b assume b: "js_get k (pc_services c') = Some b"
    show "\<not> del_service tg' k b"
      by (rule svc.toward_other_clean [OF t' _ _ b]) (erule (1) apart_service(2) [OF a], use cl in \<open>simp add: svc.clean_def\<close>)
  qed
qed

lemma apart_routes:
  assumes a: "apart tg tg'" and t: "cluster_toward tg c c'" and m: "rt.met tg' k (pc_routes c)" and cl: "rt.clean tg' k (pc_routes c)"
  shows "rt.met tg' k (pc_routes c')" and "rt.clean tg' k (pc_routes c')"
proof -
  note t' = toward_routes [OF t]
  show "rt.met tg' k (pc_routes c')" unfolding rt.met_def
  proof (intro allI impI)
    fix d assume d: "want_route tg' k = Some d"
    show "\<exists>b. js_get k (pc_routes c') = Some b \<and> b = d"
      by (rule rt.toward_other_met [OF t', where want' = "want_route tg'", OF _ _ _ d])
        (use m apart_route [OF apart_sym [OF a] d] in \<open>auto simp: rt.met_def\<close>)
  qed
  show "rt.clean tg' k (pc_routes c')" unfolding rt.clean_def
  proof (intro allI impI)
    fix b assume b: "js_get k (pc_routes c') = Some b"
    show "\<not> del_route tg' k b"
      by (rule rt.toward_other_clean [OF t' _ _ b]) (use cl apart_route(2) [OF a] in \<open>simp_all add: rt.clean_def\<close>)
  qed
qed

lemma apart_limits:
  assumes a: "apart tg tg'" and ok: "target_ok tg'" and t: "cluster_toward tg c c'" and r: "\<And>k. rt.met tg' k (pc_routes c)"
  shows "desired_store.met (=) (want_middleware tg') k (pc_middlewares c) \<Longrightarrow>
      desired_store.met (=) (want_middleware tg') k (pc_middlewares c')"
    and "desired_store.met (=) (want_certificate tg') k (pc_certificates c) \<Longrightarrow>
      desired_store.met (=) (want_certificate tg') k (pc_certificates c')"
proof -
  have tm: "mw.toward tg (pc_routes c) (pc_middlewares c) (pc_middlewares c')"
    and tc: "crt.toward tg (pc_routes c) (pc_certificates c) (pc_certificates c')" using t by (simp_all add: cluster_toward_def)
  note kept = apart_route_kept [OF a ok _ r]
  have dm: "\<not> del_middleware tg (pc_routes c) k b" if "want_middleware tg' k = Some d" for k b d
    using want_middleware_key [OF that] kept by (auto simp: del_middleware_def)
  have dc: "\<not> del_certificate tg (pc_routes c) k b" if "want_certificate tg' k = Some d" for k b d
    using want_certificate_key [OF that] kept by (auto simp: del_certificate_def)
  show "desired_store.met (=) (want_middleware tg') k (pc_middlewares c')"
    if m: "desired_store.met (=) (want_middleware tg') k (pc_middlewares c)" unfolding mw.met_def
  proof (intro allI impI)
    fix d assume d: "want_middleware tg' k = Some d"
    show "\<exists>b. js_get k (pc_middlewares c') = Some b \<and> b = d"
      by (rule mw.toward_other_met [OF tm, where want' = "want_middleware tg'", OF _ _ _ d])
        (use m d apart_tunnel(1) [OF a d] dm [OF d] in \<open>auto simp: mw.met_def\<close>)
  qed
  show "desired_store.met (=) (want_certificate tg') k (pc_certificates c')"
    if m: "desired_store.met (=) (want_certificate tg') k (pc_certificates c)" unfolding crt.met_def
  proof (intro allI impI)
    fix d assume d: "want_certificate tg' k = Some d"
    show "\<exists>b. js_get k (pc_certificates c') = Some b \<and> b = d"
      by (rule crt.toward_other_met [OF tc, where want' = "want_certificate tg'", OF _ _ _ d])
        (use m d apart_tunnel(2) [OF a d] dc [OF d] in \<open>auto simp: crt.met_def\<close>)
  qed
qed

text \<open>The objects of the tunnel server are in the tenant's own namespace.\<close>

lemma apart_own_namespace:
  assumes a: "apart tg tg'" and t: "cluster_toward tg c c'"
  shows "js_get (tg_ns tg', n) (pc_configmaps c') = js_get (tg_ns tg', n) (pc_configmaps c)"
    and "js_get (tg_ns tg', n) (pc_deployments c') = js_get (tg_ns tg', n) (pc_deployments c)"
    and "js_get (tg_ns tg', n) (pc_netpols c') = js_get (tg_ns tg', n) (pc_netpols c)"
    and "js_get (tg_ns tg', n) (pc_secrets c') = js_get (tg_ns tg', n) (pc_secrets c)"
proof -
  have ns: "tg_ns tg \<noteq> tg_ns tg'" using a by (simp add: apart_def)
  have "cm.toward tg (pc_configmaps c) (pc_configmaps c')" "dep.toward tg (pc_deployments c) (pc_deployments c')"
      "np.toward tg (pc_netpols c) (pc_netpols c')" "sec.toward tg (pc_secrets c) (pc_secrets c')"
    using t by (simp_all add: cluster_toward_def)
  then show "js_get (tg_ns tg', n) (pc_configmaps c') = js_get (tg_ns tg', n) (pc_configmaps c)"
      "js_get (tg_ns tg', n) (pc_deployments c') = js_get (tg_ns tg', n) (pc_deployments c)"
      "js_get (tg_ns tg', n) (pc_netpols c') = js_get (tg_ns tg', n) (pc_netpols c)"
      "js_get (tg_ns tg', n) (pc_secrets c') = js_get (tg_ns tg', n) (pc_secrets c)"
    using ns unfolding cm.toward_def dep.toward_def np.toward_def sec.toward_def gone_with_def want_secret_def
    by (metis Pair_inject option.distinct(1) want_shared_key)+
qed

lemma apart_reconciled:
  assumes a: "apart tg tg'" and ok: "target_ok tg'" and t: "cluster_toward tg c c'" and r: "reconciled tg' c"
  shows "reconciled tg' c'"
proof -
  note own = apart_own_namespace [OF a t]
  have cm: "cm.met tg' k (pc_configmaps c')" "cm.clean tg' k (pc_configmaps c')" for k
    using r own(1) unfolding reconciled_def cm.met_def cm.clean_def gone_with_def by (metis want_shared_key(1))+
  have dep: "dep.met tg' k (pc_deployments c')" "dep.clean tg' k (pc_deployments c')" for k
    using r own(2) unfolding reconciled_def dep.met_def dep.clean_def gone_with_def by (metis want_shared_key(2))+
  have np: "np.met tg' k (pc_netpols c')" "np.clean tg' k (pc_netpols c')" for k
    using r own(3) unfolding reconciled_def np.met_def np.clean_def gone_with_def by (metis want_shared_key(3))+
  have sec: "sec.clean tg' k (pc_secrets c')" for k
    using r own(4) unfolding reconciled_def sec.clean_def gone_with_def by metis
  show ?thesis
    using r cm dep np sec apart_services [OF a t] apart_routes [OF a t] apart_limits [OF a ok t]
    unfolding reconciled_def by blast
qed

section \<open>Reading the desired state off the cluster\<close>

lemma reconciled_read:
  assumes r: "reconciled tg c" and ok: "target_ok tg"
  shows "js_get (tg_ns tg, FRPS_CONFIGMAP_NAME) (pc_configmaps c) = (if tg_workers tg = [] then None else
      Some (frps_configmap (tg_secret tg) (map pw_port (tg_workers tg))))"
    and "tg_workers tg \<noteq> [] \<Longrightarrow> js_get (tg_ns tg, FRPS_DEPLOYMENT_NAME) (pc_deployments c) = Some (frps_deployment (tg_cfg tg))"
    and "(\<exists>b. js_get (PLATFORM_SYSTEM_NAMESPACE, tunnel_name slug) (pc_routes c) = Some b \<and>
      selects (tunnel_labels (tg_ns tg)) (kr_labels b)) \<longleftrightarrow> slug \<in> pw_slug ` set (tg_workers tg)"
    and "(\<exists>b. js_get (tg_ns tg, n) (pc_services c) = Some b \<and> selects pw_service_selector (ks_labels b)) \<longleftrightarrow>
      n \<in> (\<lambda>r. pw_service_name (pw_id r)) ` set (tg_workers tg)"
proof -
  have cm: "cm.met tg k (pc_configmaps c)" "cm.clean tg k (pc_configmaps c)" and dep: "dep.met tg k (pc_deployments c)" and
    route: "rt.met tg k (pc_routes c)" "rt.clean tg k (pc_routes c)" and
    svc: "svc.met tg k (pc_services c)" "svc.clean tg k (pc_services c)" for k
    using r unfolding reconciled_def by blast+
  show "js_get (tg_ns tg, FRPS_CONFIGMAP_NAME) (pc_configmaps c) = (if tg_workers tg = [] then None else
      Some (frps_configmap (tg_secret tg) (map pw_port (tg_workers tg))))"
    using cm [of "(tg_ns tg, FRPS_CONFIGMAP_NAME)"] wanted_shared(2) [of tg]
    by (cases "js_get (tg_ns tg, FRPS_CONFIGMAP_NAME) (pc_configmaps c)") (auto simp: cm.met_def cm.clean_def gone_with_def)
  show "tg_workers tg \<noteq> [] \<Longrightarrow> js_get (tg_ns tg, FRPS_DEPLOYMENT_NAME) (pc_deployments c) = Some (frps_deployment (tg_cfg tg))"
    using dep [of "(tg_ns tg, FRPS_DEPLOYMENT_NAME)"] wanted_shared(3) [of tg] by (simp add: dep.met_def)
  show "(\<exists>b. js_get (PLATFORM_SYSTEM_NAMESPACE, tunnel_name slug) (pc_routes c) = Some b \<and>
      selects (tunnel_labels (tg_ns tg)) (kr_labels b)) \<longleftrightarrow> slug \<in> pw_slug ` set (tg_workers tg)"
    using route [of "(PLATFORM_SYSTEM_NAMESPACE, tunnel_name slug)"] wanted_worker(3) [OF ok]
    by (auto simp: rt.met_def rt.clean_def del_route_def active_slugs_def)
  show "(\<exists>b. js_get (tg_ns tg, n) (pc_services c) = Some b \<and> selects pw_service_selector (ks_labels b)) \<longleftrightarrow>
      n \<in> (\<lambda>r. pw_service_name (pw_id r)) ` set (tg_workers tg)"
    using svc [of "(tg_ns tg, n)"] wanted_worker(1) [OF ok]
    by (auto simp: svc.met_def svc.clean_def del_service_def active_services_def dest!: same_service_labels)
qed

end
