(* ===== verification/WorkerSystem.thy ===== *)
theory WorkerSystem
  imports WorkerLaws WorkerRefine
begin

text \<open>
  The private workers as a system: the requests, the connection events, the lifecycle hook, the reconciliations (with any
  configuration and any behaviour of the API server), tenants that come and go. What holds in every reachable state, and
  what a reconciliation does there.
\<close>

section \<open>Steps\<close>

text \<open>The settings route stores the issuer of the tunnels' certificates.\<close>

definition issuer_schema :: "string \<Rightarrow> bool" where
  "issuer_schema s = (2 \<le> length s \<and> length s \<le> 120 \<and> slug_char (hd s) \<and> slug_char (last s) \<and>
     list_all (\<lambda>c. slug_char c \<or> c = CHR ''-'') s)"

definition patch_tunnel_settings :: "string \<Rightarrow> pw_world \<Rightarrow> pw_world \<times> (pw_error + string)" where
  "patch_tunnel_settings issuer w = (if \<not> issuer_schema issuer then (w, Inl (WorkerError ''VALIDATION_ERROR'' 400))
     else (w\<lparr>ww_settings := AList.update TUNNEL_ISSUER_SETTING_KEY issuer (ww_settings w)\<rparr>, Inr issuer))"

text \<open>Tenants belong to other parts of the program: a new one has an identifier and a namespace of its own and no secret; the
  deletion of a row of \<open>tenants\<close> takes the workers along.\<close>

definition add_tenant :: "string \<Rightarrow> string \<Rightarrow> pw_world \<Rightarrow> pw_world" where
  "add_tenant t ns w = w\<lparr>ww_tenants := ww_tenants w @ [\<lparr>pt_id = t, pt_namespace = ns, pt_secret = None\<rparr>]\<rparr>"

definition remove_tenant :: "string \<Rightarrow> pw_world \<Rightarrow> pw_world" where
  "remove_tenant t w = (delete_workers (\<lambda>r. pw_tenant r = t) w)\<lparr>ww_tenants := filter (\<lambda>r. pt_id r \<noteq> t) (ww_tenants w)\<rparr>"

inductive worker_step :: "pw_system \<Rightarrow> pw_system \<Rightarrow> bool" where
  create: "others_ok t oth \<Longrightarrow> we_secret env \<noteq> [] \<Longrightarrow>
    worker_step s (s\<lparr>ps_db := fst (create_private_worker cfg env oth t inp cb ip (ps_db s))\<rparr>)"
| update: "others_ok t oth \<Longrightarrow> worker_step s (s\<lparr>ps_db := fst (update_private_worker cfg env oth t k upd (ps_db s))\<rparr>)"
| rotate: "we_secret env \<noteq> [] \<Longrightarrow> worker_step s (s\<lparr>ps_db := fst (rotate_private_worker cfg env t k by' ip (ps_db s))\<rparr>)"
| revoke: "worker_step s (s\<lparr>ps_db := fst (revoke_private_worker cfg env t k by' ip (ps_db s))\<rparr>)"
| delete: "worker_step s (s\<lparr>ps_db := fst (delete_private_worker env t k by' (ps_db s))\<rparr>)"
| event: "worker_step s (s\<lparr>ps_db := fst (connect_event_route env vars header slug ip e (ps_db s))\<rparr>)"
| settings: "worker_step s (s\<lparr>ps_db := fst (patch_tunnel_settings issuer (ps_db s))\<rparr>)"
| reconcile: "worker_step s (try_reconcile cfg api t s)"
| hook: "worker_step s (snd (run_impl cfg api now db_error ctx s))"
| tenant_added: "t \<notin> pt_id ` set (ww_tenants (ps_db s)) \<Longrightarrow> ns \<notin> pt_namespace ` set (ww_tenants (ps_db s)) \<Longrightarrow>
    worker_step s (s\<lparr>ps_db := add_tenant t ns (ps_db s)\<rparr>)"
| tenant_removed: "worker_step s (s\<lparr>ps_db := remove_tenant t (ps_db s)\<rparr>)"

definition no_workers :: pw_world where
  "no_workers = \<lparr>ww_tenants = [], ww_workers = [], ww_audit = [], ww_audit_seq = 1, ww_settings = []\<rparr>"

text \<open>At first there is no tenant; the cluster holds whatever it holds.\<close>

inductive worker_reachable :: "pw_system \<Rightarrow> bool" where
  start: "cluster_ok c \<Longrightarrow> worker_reachable \<lparr>ps_db = no_workers, ps_cluster = c\<rparr>"
| step: "worker_reachable s \<Longrightarrow> worker_step s s' \<Longrightarrow> worker_reachable s'"

section \<open>Invariant\<close>

definition system_inv :: "pw_system \<Rightarrow> bool" where
  "system_inv s = (pw_inv (ps_db s) \<and> cluster_ok (ps_cluster s))"

lemma target_ok_inv: "pw_inv w \<Longrightarrow> target_ok (reconcile_target cfg t w)"
  by (simp add: target_ok_def reconcile_target_def active_workers_def pw_inv_def keys_distinct_def distinct_map_filterI)

lemma reconcile_cluster_ok:
  assumes "pw_inv w" "cluster_ok c"
  shows "cluster_ok (fst (reconcile_private_workers_for_tenant cfg api t w c))"
proof (cases "has_namespace t w")
  case True
  from cluster_toward_ok [OF reconcile_moves [OF True target_ok_inv [OF assms(1)] assms(2)] assms(2)] show ?thesis .
next
  case False
  then have "get_tenant_namespace t w = None \<or> get_tenant_namespace t w = Some []"
    by (cases "get_tenant_namespace t w"; cases "the (get_tenant_namespace t w)") (auto simp: has_namespace_def)
  with assms(2) show ?thesis by (auto simp: reconcile_private_workers_for_tenant_def)
qed

lemma try_reconcile_inv: "system_inv s \<Longrightarrow> system_inv (try_reconcile cfg api t s)"
  by (simp add: system_inv_def try_reconcile_def reconcile_cluster_ok)

lemma run_impl_inv: "system_inv s \<Longrightarrow> system_inv (snd (run_impl cfg api now dbe ctx s))"
  by (auto simp: run_impl_def split: option.split intro!: try_reconcile_inv) (auto simp: system_inv_def dest: hook_rows_inv)

lemma add_tenant_inv:
  assumes i: "pw_inv w" and t: "t \<notin> pt_id ` set (ww_tenants w)" "ns \<notin> pt_namespace ` set (ww_tenants w)"
  shows "pw_inv (add_tenant t ns w)"
proof -
  have "has_secret u w \<Longrightarrow> has_secret u (add_tenant t ns w)" for u
    by (auto simp: has_secret_def load_tenant_shared_secret_def tenant_entry_def add_tenant_def first_append split: option.splits)
  with i t show ?thesis by (auto simp: pw_inv_def add_tenant_def)
qed

lemma remove_tenant_inv:
  assumes i: "pw_inv w"
  shows "pw_inv (remove_tenant t w)"
proof -
  have [simp]: "first (\<lambda>r. pt_id r = u) (filter (\<lambda>r. pt_id r \<noteq> t) rs) = first (\<lambda>r. pt_id r = u) rs" if "u \<noteq> t"
    for u and rs :: "pw_tenant_row list"
    using that by (induction rs) (auto simp: first_def)
  have "has_secret u (remove_tenant t w) = has_secret u w" if "u \<noteq> t" for u
    using that unfolding has_secret_def load_tenant_shared_secret_def tenant_entry_def remove_tenant_def delete_workers_def by simp
  with delete_workers_inv [OF i, of "\<lambda>r. pw_tenant r = t"] i show ?thesis
    by (auto simp: pw_inv_def remove_tenant_def delete_workers_def distinct_map_filterI)
qed

lemma connect_route_inv: "pw_inv w \<Longrightarrow> pw_inv (fst (connect_event_route env vars header slug ip e w))"
  by (simp add: connect_event_route_def connect_inv)

lemma worker_step_inv: "worker_step s s' \<Longrightarrow> system_inv s \<Longrightarrow> system_inv s'"
proof (induction rule: worker_step.induct)
  case (settings s issuer)
  then show ?case by (simp add: system_inv_def patch_tunnel_settings_def pw_inv_def)
next
  case (reconcile s cfg api t)
  then show ?case by (rule try_reconcile_inv)
next
  case (hook s cfg api now dbe ctx)
  then show ?case by (rule run_impl_inv)
qed (auto simp: system_inv_def create_inv update_inv rotate_inv revoke_inv delete_inv
  connect_route_inv add_tenant_inv remove_tenant_inv)

lemma worker_reachable_inv: "worker_reachable s \<Longrightarrow> system_inv s"
proof (induction rule: worker_reachable.induct)
  case (start c)
  then show ?case by (simp add: system_inv_def pw_inv_def no_workers_def keys_distinct_def)
qed (rule worker_step_inv)

lemma apart_tenants:
  assumes "pw_inv w" "t \<noteq> t'" "has_namespace t w" "has_namespace t' w"
  shows "apart (reconcile_target cfg t w) (reconcile_target cfg t' w)"
proof -
  obtain r r' where r: "tenant_entry t w = Some r" "tenant_entry t' w = Some r'"
    using assms(3,4) by (auto simp: has_namespace_def get_tenant_namespace_def)
  then have ids: "r \<in> set (ww_tenants w)" "r' \<in> set (ww_tenants w)" "pt_id r = t" "pt_id r' = t'"
    by (auto simp: tenant_entry_def dest!: first_SomeD)
  have ns: "pt_namespace r \<noteq> pt_namespace r'"
    using assms(1,2) ids distinct_keyD [OF _ ids(1,2), of pt_namespace] by (auto simp: pw_inv_def)
  have same: "x = y" if "x \<in> set (ww_workers w)" "y \<in> set (ww_workers w)" "pw_slug x = pw_slug y" for x y
    using distinct_keyD [OF _ that(1,2), of pw_slug] that(3) assms(1) by (simp add: pw_inv_def keys_distinct_def)
  have "pw_slug x \<noteq> pw_slug y" if "x \<in> set (active_workers t w)" "y \<in> set (active_workers t' w)" for x y
  proof
    assume "pw_slug x = pw_slug y"
    moreover have "x \<in> set (ww_workers w)" "y \<in> set (ww_workers w)" using that by (simp_all add: active_workers_def)
    ultimately have "x = y" using same by blast
    with that assms(2) show False by (auto dest: active_workers_tenant)
  qed
  then have "set (active_slugs (reconcile_target cfg t w)) \<inter> set (active_slugs (reconcile_target cfg t' w)) = {}"
    unfolding disjoint_iff reconcile_target_def active_slugs_def by auto
  with ns r show ?thesis by (simp add: apart_def reconcile_target_def get_tenant_namespace_def)
qed

text \<open>What a reconciliation without an error leaves, read off the cluster.\<close>

lemma reconcile_reads:
  fixes cfg :: pw_config and w :: pw_world
  assumes i: "pw_inv w" and ok: "cluster_ok c" and n: "get_tenant_namespace t w = Some ns" "ns \<noteq> []"
    and r: "reconcile_private_workers_for_tenant cfg api t w c = (c', out)" "ro_error out = None"
  defines "ws \<equiv> active_workers t w"
  shows "reconciled (reconcile_target cfg t w) c'"
    and "js_get (ns, FRPS_CONFIGMAP_NAME) (pc_configmaps c') = (if ws = [] then None else
      Some (frps_configmap (the (load_tenant_shared_secret t w)) (map pw_port ws)))"
    and "ws \<noteq> [] \<Longrightarrow> js_get (ns, FRPS_DEPLOYMENT_NAME) (pc_deployments c') = Some (frps_deployment cfg)"
    and "(\<exists>b. js_get (PLATFORM_SYSTEM_NAMESPACE, tunnel_name slug) (pc_routes c') = Some b \<and>
      selects (tunnel_labels ns) (kr_labels b)) \<longleftrightarrow> slug \<in> pw_slug ` set ws"
    and "(\<exists>b. js_get (ns, m) (pc_services c') = Some b \<and> selects pw_service_selector (ks_labels b)) \<longleftrightarrow>
      m \<in> (\<lambda>r. pw_service_name (pw_id r)) ` set ws"
proof -
  let ?tg = "reconcile_target cfg t w"
  have hn: "has_namespace t w" using n by (cases ns) (simp_all add: has_namespace_def)
  have tok: "target_ok ?tg" by (rule target_ok_inv [OF i])
  show rec: "reconciled ?tg c'" using reconcile_reaches [OF hn tok ok, of api] r by simp
  have tg: "tg_ns ?tg = ns" "tg_workers ?tg = ws" "tg_cfg ?tg = cfg" using n(1) by (simp_all add: reconcile_target_def ws_def)
  have "tg_secret ?tg = the (load_tenant_shared_secret t w)" if "ws \<noteq> []"
  proof -
    obtain x where "x \<in> set ws" using \<open>ws \<noteq> []\<close> by (cases ws) auto
    then have "has_secret t w" using i by (auto simp: ws_def active_workers_def pw_inv_def)
    then show ?thesis by (auto simp: reconcile_target_def has_secret_def)
  qed
  with reconciled_read [OF rec tok, unfolded tg]
  show "js_get (ns, FRPS_CONFIGMAP_NAME) (pc_configmaps c') = (if ws = [] then None else
      Some (frps_configmap (the (load_tenant_shared_secret t w)) (map pw_port ws)))"
    "ws \<noteq> [] \<Longrightarrow> js_get (ns, FRPS_DEPLOYMENT_NAME) (pc_deployments c') = Some (frps_deployment cfg)"
    "(\<exists>b. js_get (PLATFORM_SYSTEM_NAMESPACE, tunnel_name slug) (pc_routes c') = Some b \<and>
      selects (tunnel_labels ns) (kr_labels b)) \<longleftrightarrow> slug \<in> pw_slug ` set ws"
    "(\<exists>b. js_get (ns, m) (pc_services c') = Some b \<and> selects pw_service_selector (ks_labels b)) \<longleftrightarrow>
      m \<in> (\<lambda>r. pw_service_name (pw_id r)) ` set ws"
    by auto
qed

lemma reachable_db: "worker_reachable s \<Longrightarrow> pw_inv (ps_db s)" and reachable_cluster: "worker_reachable s \<Longrightarrow> cluster_ok (ps_cluster s)"
  using worker_reachable_inv by (auto simp: system_inv_def)

lemma active_has_secret:
  assumes "pw_inv w" "active_workers t w \<noteq> []"
  shows "\<exists>x. load_tenant_shared_secret t w = Some x \<and> x \<noteq> []"
proof -
  obtain r where "r \<in> set (active_workers t w)" using assms(2) by (cases "active_workers t w") auto
  then have "has_secret t w" using assms(1) by (auto simp: active_workers_def pw_inv_def)
  then show ?thesis by (auto simp: has_secret_def)
qed

end
