(* ===== verification/WorkerProps.thy ===== *)
theory WorkerProps
  imports WorkerSystem
begin

text \<open>
  The properties of the private workers, each with a concrete input at which it applies.
\<close>

section \<open>Creation without interference\<close>

text \<open>The reference: one insert, of the least port of the pool that no row of the tenant has.\<close>

definition least_free_port :: "string \<Rightarrow> pw_world \<Rightarrow> int option" where
  "least_free_port t w = (let free = {p \<in> {10000..19999}. p \<notin> used_ports t w} in if free = {} then None else Some (Min free))"

definition shared_secret_after :: "pw_env \<Rightarrow> string \<Rightarrow> pw_world \<Rightarrow> string" where
  "shared_secret_after env t w = (case load_tenant_shared_secret t w of None \<Rightarrow> we_secret env | Some s \<Rightarrow> s)"

definition with_secret :: "pw_env \<Rightarrow> string \<Rightarrow> pw_world \<Rightarrow> pw_world" where
  "with_secret env t w = w\<lparr>ww_tenants := set_where (\<lambda>x. pt_id x = t \<and> pt_secret x = None)
     (\<lambda>x. x\<lparr>pt_secret := Some (we_secret env)\<rparr>) (ww_tenants w)\<rparr>"

definition create_reference :: "pw_config \<Rightarrow> pw_env \<Rightarrow> string \<Rightarrow> create_worker_input \<Rightarrow> string option \<Rightarrow> string option \<Rightarrow>
    pw_world \<Rightarrow> pw_world \<times> (pw_error + secret_response)" where
  "create_reference cfg env t i cb ip w =
     (if \<exists>r \<in> set (ww_workers w). pw_tenant r = t \<and> pw_name r = ci_name i
      then (w, Inl (WorkerError ''DUPLICATE_PRIVATE_WORKER_NAME'' 409))
      else case choose_slug env i w of
        Inl e \<Rightarrow> (w, Inl e)
      | Inr slug \<Rightarrow>
          if tenant_entry t w = None then (w, Inl (WorkerError ''CLIENT_NOT_FOUND'' 404))
          else (let s = shared_secret_after env t w; w1 = with_secret env t w in
            case least_free_port t w of
              None \<Rightarrow> (w1, Inl (WorkerError ''PORT_POOL_EXHAUSTED'' 503))
            | Some p \<Rightarrow>
                (let r = new_worker env t i slug s cb p in
                 (w1\<lparr>ww_workers := ww_workers w @ [r], ww_audit := ww_audit w @ [\<lparr>pa_id = ww_audit_seq w, pa_worker = we_uuid env,
                    pa_event = ''mint'', pa_ip = ip, pa_detail = Some (MintDetail cb p slug), pa_at = we_now env\<rparr>],
                    ww_audit_seq := Suc (ww_audit_seq w)\<rparr>,
                  Inr (secret_reply cfg r slug s)))))"

lemma pick_least:
  "pick_exposed_port_candidate t w = (case least_free_port t w of
     None \<Rightarrow> Inl (WorkerError ''PORT_POOL_EXHAUSTED'' 503) | Some p \<Rightarrow> Inr p)"
proof (cases "first_unused (used_ports t w) PORT_POOL_LOW")
  case None
  have "{p \<in> {10000..19999}. p \<notin> used_ports t w} = {}"
    using first_unused_None [OF None] by (auto simp: PORT_POOL_LOW_def PORT_POOL_HIGH_def)
  then show ?thesis by (simp add: pick_exposed_port_candidate_def None least_free_port_def Let_def)
next
  case (Some q)
  note q = first_unused_Some [OF Some, unfolded PORT_POOL_LOW_def PORT_POOL_HIGH_def]
  have "finite {p \<in> {10000..19999 :: int}. p \<notin> used_ports t w}"
    by (rule finite_subset [of _ "{10000..19999}"]) auto
  moreover have "q \<le> y" if "y \<in> {p \<in> {10000..19999}. p \<notin> used_ports t w}" for y
    using q that by (metis atLeastAtMost_iff mem_Collect_eq not_less)
  ultimately have "Min {p \<in> {10000..19999}. p \<notin> used_ports t w} = q" using q by (intro Min_eqI) auto
  moreover have "q \<in> {p \<in> {10000..19999}. p \<notin> used_ports t w}" using q by simp
  ultimately show ?thesis by (auto simp: pick_exposed_port_candidate_def Some least_free_port_def Let_def)
qed

lemma least_free: "least_free_port t w = Some p \<Longrightarrow> p \<notin> used_ports t w"
  using first_unused_Some [of "used_ports t w" PORT_POOL_LOW p] pick_least [of t w]
  by (auto simp: pick_exposed_port_candidate_def split: option.splits)

lemma slug_attempts_free: "slug_attempts env b a w n = Some s \<Longrightarrow> r \<in> set (ww_workers w) \<Longrightarrow> pw_slug r \<noteq> s"
  by (induction n arbitrary: a) (auto simp: Let_def first_None_iff split: option.splits)

lemma choose_slug_free: "choose_slug env i w = Inr s \<Longrightarrow> r \<in> set (ww_workers w) \<Longrightarrow> pw_slug r \<noteq> s"
  by (auto simp: choose_slug_def generate_unique_slug_def first_None_iff dest: slug_attempts_free split: option.splits list.splits)

lemma tenant_entry_with_secret:
  "tenant_entry u (with_secret env t w) =
     map_option (\<lambda>x. if pt_id x = t \<and> pt_secret x = None then x\<lparr>pt_secret := Some (we_secret env)\<rparr> else x) (tenant_entry u w)"
  by (simp add: tenant_entry_def with_secret_def first_set_where)

lemma ensure_alone:
  assumes "tenant_entry t w = Some tr" "pt_secret tr \<noteq> Some []" "we_secret env \<noteq> []" "distinct (map pt_id (ww_tenants w))"
  shows "ensure_tenant_shared_secret env alone t w = (with_secret env t w, Inr (shared_secret_after env t w))"
proof (cases "pt_secret tr")
  case None
  have id: "pt_id tr = t" using assms(1) by (auto simp: tenant_entry_def dest: first_SomeD)
  have "tenant_entry t (with_secret env t w) = Some (tr\<lparr>pt_secret := Some (we_secret env)\<rparr>)"
    by (simp add: tenant_entry_with_secret assms(1) None id)
  then show ?thesis using None assms(3)
    by (cases "we_secret env") (simp_all add: ensure_tenant_shared_secret_def alone_def assms(1) Let_def with_secret_def
      shared_secret_after_def load_tenant_shared_secret_def)
next
  case (Some x)
  then obtain c cs where x: "x = c # cs" using assms(2) by (cases x) auto
  have tr: "tr \<in> set (ww_tenants w)" "pt_id tr = t" using assms(1) by (auto simp: tenant_entry_def dest: first_SomeD)
  have "pt_secret y \<noteq> None" if "y \<in> set (ww_tenants w)" "pt_id y = t" for y
    using distinct_keyD [OF assms(4) that(1) tr(1)] that(2) tr(2) Some by simp
  then have "set_where (\<lambda>x. pt_id x = t \<and> pt_secret x = None) (\<lambda>x. x\<lparr>pt_secret := Some (we_secret env)\<rparr>) (ww_tenants w) = ww_tenants w"
    by (auto simp: set_where_def intro!: map_idI)
  then show ?thesis
    by (simp add: ensure_tenant_shared_secret_def assms(1) Some x with_secret_def shared_secret_after_def load_tenant_shared_secret_def)
qed

lemma create_alone:
  assumes "pw_inv w" and "we_uuid env \<notin> pw_id ` set (ww_workers w)" and "we_secret env \<noteq> []"
    and "load_tenant_shared_secret t w \<noteq> Some []"
  shows "create_private_worker cfg env alone t i cb ip w = create_reference cfg env t i cb ip w"
proof (cases "first (\<lambda>r. pw_tenant r = t \<and> pw_name r = ci_name i) (ww_workers w) = None \<and> (\<exists>slug. choose_slug env i w = Inr slug) \<and>
    (\<exists>tr. tenant_entry t w = Some tr)")
  case False
  show ?thesis
  proof (cases "first (\<lambda>r. pw_tenant r = t \<and> pw_name r = ci_name i) (ww_workers w)")
    case None
    then have "\<not> (\<exists>r \<in> set (ww_workers w). pw_tenant r = t \<and> pw_name r = ci_name i)" by (auto simp: first_None_iff)
    with None False show ?thesis
      by (cases "choose_slug env i w") (auto simp: create_private_worker_def create_reference_def alone_def ensure_tenant_shared_secret_def)
  next
    case (Some r)
    then have "\<exists>r \<in> set (ww_workers w). pw_tenant r = t \<and> pw_name r = ci_name i" by (auto dest: first_SomeD)
    with Some show ?thesis by (simp add: create_private_worker_def create_reference_def)
  qed
next
  case True
  then obtain slug tr where name: "first (\<lambda>r. pw_tenant r = t \<and> pw_name r = ci_name i) (ww_workers w) = None"
    and slug: "choose_slug env i w = Inr slug" and tr: "tenant_entry t w = Some tr" by blast
  have free: "\<not> (\<exists>r \<in> set (ww_workers w). pw_tenant r = t \<and> pw_name r = ci_name i)" using name by (auto simp: first_None_iff)
  let ?w1 = "with_secret env t w" and ?s = "shared_secret_after env t w"
  have e: "ensure_tenant_shared_secret env alone t w = (?w1, Inr ?s)"
    using assms(1,3,4) tr by (intro ensure_alone) (auto simp: pw_inv_def load_tenant_shared_secret_def)
  have rows: "ww_workers ?w1 = ww_workers w" "ww_audit ?w1 = ww_audit w" "ww_audit_seq ?w1 = ww_audit_seq w" by (simp_all add: with_secret_def)
  have least: "least_free_port t ?w1 = least_free_port t w" by (simp add: least_free_port_def used_ports_def rows)
  have present: "tenant_entry t ?w1 \<noteq> None" by (simp add: tenant_entry_with_secret tr)
  show ?thesis
  proof (cases "least_free_port t w")
    case None
    with free name slug tr e least show ?thesis
      by (simp add: create_private_worker_def create_reference_def alone_def MAX_PORT_RETRIES_def pick_least numeral_eq_Suc Let_def)
  next
    case (Some p)
    let ?r = "new_worker env t i slug ?s cb p"
    have "\<forall>x \<in> set (ww_workers w). pw_id x \<noteq> we_uuid env" using assms(2) by (metis imageI)
    then have "\<not> unique_violation ?r ?w1"
      using free choose_slug_free [OF slug] least_free [OF Some]
      by (auto simp: unique_violation_def list_ex_iff new_worker_def rows used_ports_def)
    then have ins: "insert_worker ?r ?w1 = (?w1\<lparr>ww_workers := ww_workers w @ [?r]\<rparr>, None)"
      using present by (auto simp: insert_worker_def rows new_worker_def)
    have "first (\<lambda>r. pw_id r = we_uuid env) (ww_workers w) = None" unfolding first_None_iff using assms(2) by (metis imageI)
    then have found: "first (\<lambda>r. pw_id r = we_uuid env) (ww_workers w @ [?r]) = Some ?r"
      by (simp add: first_append) (simp add: first_def new_worker_def)
    show ?thesis using free name slug tr e least Some ins found
      by (simp add: create_private_worker_def create_reference_def alone_def MAX_PORT_RETRIES_def pick_least numeral_eq_Suc Let_def
        finish_create_def write_audit_def rows)
  qed
qed

section \<open>A small platform\<close>

definition demo_pw_env :: "string \<Rightarrow> pw_env" where
  "demo_pw_env k = \<lparr>we_now = 5, we_uuid = k, we_secret = ''s3cret'', we_suffix = (\<lambda>_. ''0000000a''), we_sha256 = (\<lambda>s. s)\<rparr>"

definition demo_pw_config :: pw_config where
  "demo_pw_config = \<lparr>wc_tunnel_base_url = None, wc_platform_base_domain = Some ''example.com'', wc_ingress_base_domain = None,
     wc_agent_image = None, wc_frps_image = None, wc_ingress_namespace = None\<rparr>"

definition demo_input :: "string \<Rightarrow> string \<Rightarrow> create_worker_input" where
  "demo_input n slug = \<lparr>ci_name = n, ci_slug = Some slug, ci_description = None\<rparr>"

definition empty_cluster :: pw_cluster where
  "empty_cluster = \<lparr>pc_configmaps = [], pc_services = [], pc_deployments = [], pc_secrets = [], pc_netpols = [], pc_routes = [],
     pc_middlewares = [], pc_certificates = []\<rparr>"

definition calm_api :: k_api where
  "calm_api = \<lparr>ka_fault = (\<lambda>_ _ _. None), ka_alloc_ip = (\<lambda>_. ''10.43.0.1'')\<rparr>"

definition demo_worker :: "string \<Rightarrow> string \<Rightarrow> string \<Rightarrow> int \<Rightarrow> pw_row" where
  "demo_worker k n slug p = new_worker (demo_pw_env k) ''t1'' (demo_input n slug) slug ''s3cret'' None p"

text \<open>Two tenants; the first has two workers.\<close>

definition two_tenants :: pw_world where
  "two_tenants = add_tenant ''t2'' ''ns2'' (add_tenant ''t1'' ''ns1'' no_workers)"

definition one_worker :: pw_world where
  "one_worker = fst (create_private_worker demo_pw_config (demo_pw_env ''w1'') alone ''t1'' (demo_input ''box'' ''home-box'') None None two_tenants)"

definition two_workers :: pw_world where
  "two_workers = fst (create_private_worker demo_pw_config (demo_pw_env ''w2'') alone ''t1'' (demo_input ''lan'' ''lan-box'') None None one_worker)"

lemma calm_quiet: "quiet calm_api"
  by (simp add: quiet_def calm_api_def)

lemma empty_ok: "cluster_ok empty_cluster"
  by (simp add: cluster_ok_def empty_cluster_def)

lemma two_tenants_reachable: "worker_reachable \<lparr>ps_db = two_tenants, ps_cluster = empty_cluster\<rparr>"
proof -
  let ?s = "\<lambda>w. \<lparr>ps_db = w, ps_cluster = empty_cluster\<rparr>"
  have "worker_step (?s no_workers) (?s (add_tenant ''t1'' ''ns1'' no_workers))"
    using worker_step.tenant_added [of "''t1''" "?s no_workers" "''ns1''"] by (simp add: no_workers_def)
  moreover have "worker_step (?s (add_tenant ''t1'' ''ns1'' no_workers)) (?s two_tenants)"
    using worker_step.tenant_added [of "''t2''" "?s (add_tenant ''t1'' ''ns1'' no_workers)" "''ns2''"]
    by (simp add: no_workers_def two_tenants_def add_tenant_def)
  ultimately show ?thesis using worker_reachable.start [OF empty_ok] worker_reachable.step by blast
qed

lemma create_reachable:
  assumes "worker_reachable \<lparr>ps_db = w, ps_cluster = c\<rparr>"
  shows "worker_reachable \<lparr>ps_db = fst (create_private_worker cfg (demo_pw_env k) alone t inp cb ip w), ps_cluster = c\<rparr>"
  using worker_reachable.step [OF assms worker_step.create [OF others_alone, of "demo_pw_env k" "\<lparr>ps_db = w, ps_cluster = c\<rparr>" cfg t inp cb ip]]
  by (simp add: demo_pw_env_def)

lemma two_workers_reachable: "worker_reachable \<lparr>ps_db = two_workers, ps_cluster = empty_cluster\<rparr>"
  unfolding two_workers_def one_worker_def by (intro create_reachable two_tenants_reachable)

lemmas create_eval = create_private_worker_def choose_slug_def ensure_tenant_shared_secret_def MAX_PORT_RETRIES_def
  pick_exposed_port_candidate_def finish_create_def insert_worker_def unique_violation_def write_audit_def alone_def
  tenant_entry_def first_def set_where_def used_ports_def demo_input_def demo_pw_env_def Let_def

lemma one_worker_eval:
  "ww_tenants one_worker = [\<lparr>pt_id = ''t1'', pt_namespace = ''ns1'', pt_secret = Some ''s3cret''\<rparr>,
     \<lparr>pt_id = ''t2'', pt_namespace = ''ns2'', pt_secret = None\<rparr>] \<and>
   ww_workers one_worker = [demo_worker ''w1'' ''box'' ''home-box'' 10000] \<and> ww_settings one_worker = []"
  by (simp add: one_worker_def two_tenants_def add_tenant_def no_workers_def create_eval demo_worker_def new_worker_def
    numeral_eq_Suc first_unused.simps [of "{}"] PORT_POOL_LOW_def PORT_POOL_HIGH_def)

lemma two_workers_eval:
  "ww_tenants two_workers = [\<lparr>pt_id = ''t1'', pt_namespace = ''ns1'', pt_secret = Some ''s3cret''\<rparr>,
     \<lparr>pt_id = ''t2'', pt_namespace = ''ns2'', pt_secret = None\<rparr>] \<and>
   ww_workers two_workers = [demo_worker ''w1'' ''box'' ''home-box'' 10000, demo_worker ''w2'' ''lan'' ''lan-box'' 10001] \<and>
   ww_settings two_workers = []"
proof -
  note one = one_worker_eval
  have inv: "pw_inv one_worker"
    using worker_reachable_inv [OF create_reachable [OF two_tenants_reachable, of demo_pw_config "''w1''" "''t1''"
      "demo_input ''box'' ''home-box''" None None]] by (simp add: system_inv_def one_worker_def)
  have "used_ports ''t1'' one_worker = {10000}" using one by (simp add: used_ports_def demo_worker_def new_worker_def)
  moreover have "first_unused {10000} 10000 = Some 10001"
    by (simp add: first_unused.simps [of "{10000}" 10000] first_unused.simps [of "{10000}" 10001] PORT_POOL_HIGH_def)
  ultimately have "pick_exposed_port_candidate ''t1'' one_worker = Inr 10001"
    by (simp add: pick_exposed_port_candidate_def PORT_POOL_LOW_def)
  then have p: "least_free_port ''t1'' one_worker = Some 10001" by (simp add: pick_least split: option.splits)
  have row: "tenant_entry ''t1'' one_worker = Some \<lparr>pt_id = ''t1'', pt_namespace = ''ns1'', pt_secret = Some ''s3cret''\<rparr>"
    using one by (simp add: tenant_entry_def first_def)
  have slug: "choose_slug (demo_pw_env ''w2'') (demo_input ''lan'' ''lan-box'') one_worker = Inr ''lan-box''"
    using one by (simp add: choose_slug_def demo_input_def first_def demo_worker_def new_worker_def)
  have "create_private_worker demo_pw_config (demo_pw_env ''w2'') alone ''t1'' (demo_input ''lan'' ''lan-box'') None None one_worker =
      create_reference demo_pw_config (demo_pw_env ''w2'') ''t1'' (demo_input ''lan'' ''lan-box'') None None one_worker"
    by (rule create_alone [OF inv]) (use one row in \<open>simp_all add: demo_worker_def new_worker_def demo_pw_env_def load_tenant_shared_secret_def\<close>)
  then show ?thesis using one
    by (simp add: two_workers_def create_reference_def slug p row Let_def shared_secret_after_def load_tenant_shared_secret_def
      with_secret_def set_where_def) (simp add: demo_worker_def new_worker_def demo_input_def demo_pw_env_def)
qed

lemma demo_namespaces: "has_namespace ''t1'' two_workers" "has_namespace ''t2'' two_workers"
  using two_workers_eval by (simp_all add: has_namespace_def get_tenant_namespace_def tenant_entry_def first_def)

lemma demo_active: "active_workers ''t1'' two_workers =
    [demo_worker ''w1'' ''box'' ''home-box'' 10000, demo_worker ''w2'' ''lan'' ''lan-box'' 10001]"
  "active_workers ''t2'' two_workers = []"
  using two_workers_eval by (simp_all add: active_workers_def demo_worker_def new_worker_def)

text \<open>C33: a creation that no other request interferes with is the reference: it refuses a name of the tenant or a slug of the
  platform that is taken, takes the least free port of the pool, needs one insert, and answers with a token made from the
  secret the tenant's row then holds, minted only for its first worker.\<close>

theorem create_exact:
  assumes "pw_inv w" and "we_uuid env \<notin> pw_id ` set (ww_workers w)" and "we_secret env \<noteq> []"
    and "load_tenant_shared_secret t w \<noteq> Some []"
  shows "create_private_worker cfg env alone t i cb ip w = create_reference cfg env t i cb ip w"
  using assms by (rule create_alone)

theorem create_exact_witness:
  "create_private_worker demo_pw_config (demo_pw_env ''w3'') alone ''t2'' (demo_input ''nas'' ''my-nas'') None None two_workers =
     create_reference demo_pw_config (demo_pw_env ''w3'') ''t2'' (demo_input ''nas'' ''my-nas'') None None two_workers"
proof (rule create_exact)
  show "pw_inv two_workers" using worker_reachable_inv [OF two_workers_reachable] by (simp add: system_inv_def)
qed (use two_workers_eval in \<open>simp_all add: demo_worker_def new_worker_def demo_pw_env_def load_tenant_shared_secret_def tenant_entry_def first_def\<close>)

section \<open>The rows\<close>



section \<open>Reconciliation\<close>

text \<open>C19: a reconciliation that reports no error, whichever of the calls it made the API server delayed or refused before,
  leaves exactly what the rows ask for: the tunnel server's configuration lists the tenant's secret and the ports of the
  active workers and no others, each active worker has its Service, and the routes (and Services) of tunnels that carry the
  tenant's label are those of the active slugs; with no active worker the server is gone. (\<open>reconciled\<close> says this of
  every object.)\<close>

theorem reconcile_exact:
  assumes "worker_reachable s" and "get_tenant_namespace t (ps_db s) = Some ns" and "ns \<noteq> []"
    and "reconcile_private_workers_for_tenant cfg api t (ps_db s) (ps_cluster s) = (c', out)" and "ro_error out = None"
  defines "ws \<equiv> active_workers t (ps_db s)"
  shows "reconciled (reconcile_target cfg t (ps_db s)) c' \<and>
    js_get (ns, FRPS_CONFIGMAP_NAME) (pc_configmaps c') = (if ws = [] then None else
      Some (frps_configmap (the (load_tenant_shared_secret t (ps_db s))) (map pw_port ws))) \<and>
    {slug. \<exists>b. js_get (PLATFORM_SYSTEM_NAMESPACE, tunnel_name slug) (pc_routes c') = Some b \<and>
       selects (tunnel_labels ns) (kr_labels b)} = pw_slug ` set ws \<and>
    {n. \<exists>b. js_get (ns, n) (pc_services c') = Some b \<and> selects pw_service_selector (ks_labels b)} =
      (\<lambda>r. pw_service_name (pw_id r)) ` set ws"
  using reconcile_reads [OF reachable_db [OF assms(1)] reachable_cluster [OF assms(1)] assms(2-5)] unfolding ws_def by auto

text \<open>C34: a reconciliation to which the API server refuses nothing succeeds from every state of the cluster, so a later run
  repairs what an earlier one left half done.\<close>

theorem reconcile_recovers:
  assumes "worker_reachable s" and "has_namespace t (ps_db s)" and "quiet api"
    and "\<And>r. r \<in> set (active_workers t (ps_db s)) \<Longrightarrow> CHR 0x60 \<notin> set (tunnel_host cfg (pw_slug r))"
  shows "ro_error (snd (reconcile_private_workers_for_tenant cfg api t (ps_db s) (ps_cluster s))) = None \<and>
    reconciled (reconcile_target cfg t (ps_db s)) (fst (reconcile_private_workers_for_tenant cfg api t (ps_db s) (ps_cluster s)))"
proof -
  have e: "ro_error (snd (reconcile_private_workers_for_tenant cfg api t (ps_db s) (ps_cluster s))) = None"
    by (intro reconcile_quiet [OF assms(3,2)] assms(4) active_has_secret reachable_db [OF assms(1)])
  with reconcile_reaches [OF assms(2) target_ok_inv reachable_cluster] reachable_db assms(1) show ?thesis by blast
qed

lemma demo_hosts: "r \<in> set (active_workers ''t1'' two_workers) \<Longrightarrow> CHR 0x60 \<notin> set (tunnel_host demo_pw_config (pw_slug r))"
  by (auto simp: demo_active demo_worker_def new_worker_def demo_input_def tunnel_host_def demo_pw_config_def
    resolve_platform_domain_def or_env_def)

theorem reconcile_recovers_witness:
  "reconciled (reconcile_target demo_pw_config ''t1'' two_workers)
     (fst (reconcile_private_workers_for_tenant demo_pw_config calm_api ''t1'' two_workers empty_cluster))"
  using reconcile_recovers [OF two_workers_reachable, of "''t1''" calm_api demo_pw_config] demo_namespaces(1) calm_quiet demo_hosts
  by simp

lemma demo_reconcile:
  obtains c' out where "reconcile_private_workers_for_tenant demo_pw_config calm_api ''t1'' two_workers empty_cluster = (c', out)"
    "ro_error out = None"
proof -
  obtain c' out where e: "reconcile_private_workers_for_tenant demo_pw_config calm_api ''t1'' two_workers empty_cluster = (c', out)"
    by fastforce
  have "load_tenant_shared_secret ''t1'' two_workers = Some ''s3cret''"
    using two_workers_eval by (simp add: load_tenant_shared_secret_def tenant_entry_def first_def)
  then have "ro_error out = None"
    using reconcile_quiet [OF calm_quiet demo_namespaces(1) demo_hosts, of empty_cluster] e by simp
  with e show thesis by (rule that)
qed

theorem reconcile_exact_witness:
  "\<exists>c' out. reconcile_private_workers_for_tenant demo_pw_config calm_api ''t1'' two_workers empty_cluster = (c', out) \<and>
     js_get (''ns1'', FRPS_CONFIGMAP_NAME) (pc_configmaps c') = Some (frps_configmap ''s3cret'' [10000, 10001])"
proof -
  obtain c' out where e: "reconcile_private_workers_for_tenant demo_pw_config calm_api ''t1'' two_workers empty_cluster = (c', out)"
    "ro_error out = None" by (rule demo_reconcile)
  have f: "load_tenant_shared_secret ''t1'' two_workers = Some ''s3cret''" "get_tenant_namespace ''t1'' two_workers = Some ''ns1''"
    using two_workers_eval by (simp_all add: load_tenant_shared_secret_def get_tenant_namespace_def tenant_entry_def first_def)
  have ports: "map pw_port (active_workers ''t1'' two_workers) = [10000, 10001]"
    by (simp add: demo_active demo_worker_def new_worker_def)
  have "js_get (''ns1'', FRPS_CONFIGMAP_NAME) (pc_configmaps c') = Some (frps_configmap ''s3cret'' [10000, 10001])"
    using reconcile_exact [OF two_workers_reachable, of "''t1''" "''ns1''" demo_pw_config calm_api c' out] e f ports by auto
  with e show ?thesis by blast
qed

text \<open>C20: a reconciliation for one tenant, whatever the API server refuses to it, leaves every other tenant whose objects are
  in place with its objects in place: no tunnel, Service or route of it is changed or deleted.\<close>

theorem reconcile_isolated:
  assumes "worker_reachable s" and "t \<noteq> t'" and "has_namespace t (ps_db s)" and "has_namespace t' (ps_db s)"
    and "reconciled (reconcile_target cfg t' (ps_db s)) (ps_cluster s)"
  shows "reconciled (reconcile_target cfg t' (ps_db s))
    (fst (reconcile_private_workers_for_tenant cfg api t (ps_db s) (ps_cluster s)))"
  using apart_reconciled [OF apart_tenants [OF _ assms(2,3,4)] target_ok_inv reconcile_moves [OF assms(3) target_ok_inv] assms(5)]
    reachable_db [OF assms(1)] reachable_cluster [OF assms(1)] by blast

text \<open>The other tenant is the one with the two workers; its objects are in place after its own reconciliation.\<close>

theorem reconcile_isolated_witness:
  "\<exists>c. reconciled (reconcile_target demo_pw_config ''t1'' two_workers) c \<and>
     (\<forall>api. reconciled (reconcile_target demo_pw_config ''t1'' two_workers)
       (fst (reconcile_private_workers_for_tenant demo_pw_config api ''t2'' two_workers c)))"
proof -
  let ?s = "\<lparr>ps_db = two_workers, ps_cluster = empty_cluster\<rparr>"
  let ?c = "fst (reconcile_private_workers_for_tenant demo_pw_config calm_api ''t1'' two_workers empty_cluster)"
  have "worker_reachable (try_reconcile demo_pw_config calm_api ''t1'' ?s)"
    by (rule worker_reachable.step [OF two_workers_reachable worker_step.reconcile])
  then have reach: "worker_reachable \<lparr>ps_db = two_workers, ps_cluster = ?c\<rparr>" by (simp add: try_reconcile_def)
  have there: "reconciled (reconcile_target demo_pw_config ''t1'' two_workers) ?c"
    using reconcile_reaches [OF demo_namespaces(1), of demo_pw_config empty_cluster calm_api] target_ok_inv
      reconcile_quiet [OF calm_quiet demo_namespaces(1) demo_hosts, of empty_cluster] two_workers_eval worker_reachable_inv [OF two_workers_reachable]
    by (simp add: system_inv_def load_tenant_shared_secret_def tenant_entry_def first_def)
  have "reconciled (reconcile_target demo_pw_config ''t1'' two_workers)
      (fst (reconcile_private_workers_for_tenant demo_pw_config api ''t2'' two_workers ?c))" for api
    using reconcile_isolated [OF reach, of "''t2''" "''t1''" demo_pw_config api] demo_namespaces there by simp
  with there show ?thesis by blast
qed

end
