(* ===== verification/WorkerLife.thy ===== *)
theory WorkerLife
  imports WorkerSecurity
begin

text \<open>
  The lifecycle of a tenant as its private workers see it: the hook \<open>db-private-workers\<close> (order 230) changes their rows and
  reconciles. A suspension takes the tunnel server away, its end brings it back.
\<close>

lemma suspended_rows:
  "ww_workers (the (hook_rows n Suspended t w)) = map (\<lambda>r. if pw_tenant r = t \<and> pw_status r \<in> {PwActive, PwPending}
     then r\<lparr>pw_status := PwSuspended, pw_updated_at := n\<rparr> else r) (ww_workers w)"
  by (simp add: hook_rows_def update_workers_def set_where_def cong: map_cong)

lemma restored_rows:
  "ww_workers (the (hook_rows n Restored t w)) = map (\<lambda>r. if pw_tenant r = t \<and> pw_status r = PwSuspended
     then r\<lparr>pw_status := PwActive, pw_updated_at := n\<rparr> else r) (ww_workers w)"
  by (simp add: hook_rows_def update_workers_def set_where_def cong: map_cong)

lemma hook_tenants: "hook_rows n tr t w = Some w' \<Longrightarrow> ww_tenants w' = ww_tenants w"
  by (cases tr) (auto simp: hook_rows_def update_workers_def delete_workers_def)

definition awake :: "int \<Rightarrow> pw_row \<Rightarrow> pw_row" where
  "awake n r = (if pw_status r = PwRevoked then r else r\<lparr>pw_status := PwActive, pw_updated_at := n\<rparr>)"

lemma suspend_restore_rows:
  "ww_workers (the (hook_rows n2 Restored t (the (hook_rows n1 Suspended t w)))) =
     map (\<lambda>r. if pw_tenant r = t then awake n2 r else r) (ww_workers w)"
proof -
  have "(if pw_tenant x = t \<and> pw_status x = PwSuspended then x\<lparr>pw_status := PwActive, pw_updated_at := n2\<rparr> else x) =
      (if pw_tenant r = t then awake n2 r else r)"
    if "x = (if pw_tenant r = t \<and> pw_status r \<in> {PwActive, PwPending} then r\<lparr>pw_status := PwSuspended, pw_updated_at := n1\<rparr> else r)"
    for x r unfolding that by (cases "pw_status r") (simp_all add: awake_def)
  from this [OF refl] show ?thesis unfolding restored_rows suspended_rows map_map comp_def by (intro map_cong refl)
qed

lemma suspended_none: "active_workers t (the (hook_rows n Suspended t w)) = []"
proof -
  have "\<not> (pw_tenant x = t \<and> pw_status x \<in> {PwActive, PwPending})"
    if "x = (if pw_tenant r = t \<and> pw_status r \<in> {PwActive, PwPending} then r\<lparr>pw_status := PwSuspended, pw_updated_at := n\<rparr> else r)"
    for x r unfolding that by (cases "pw_status r") simp_all
  from this [OF refl] show ?thesis unfolding active_workers_def suspended_rows filter_map comp_def map_is_Nil_conv by (intro filter_False ballI)
qed

lemma restored_active:
  assumes "ww_workers w' = map (\<lambda>r. if pw_tenant r = t then awake n r else r) rs"
  shows "map pw_port (active_workers t w') = map pw_port (filter (\<lambda>r. pw_tenant r = t \<and> pw_status r \<noteq> PwRevoked) rs)"
    and "pw_slug ` set (active_workers t w') = pw_slug ` {r \<in> set rs. pw_tenant r = t \<and> pw_status r \<noteq> PwRevoked}"
proof -
  have f: "filter (\<lambda>r. pw_tenant r = t \<and> pw_status r \<in> {PwActive, PwPending}) (map (\<lambda>r. if pw_tenant r = t then awake n r else r) rs) =
      map (awake n) (filter (\<lambda>r. pw_tenant r = t \<and> pw_status r \<noteq> PwRevoked) rs)"
    by (induction rs) (auto simp: awake_def)
  have [simp]: "pw_port (awake n r) = pw_port r" "pw_slug (awake n r) = pw_slug r" for r by (simp_all add: awake_def)
  show "map pw_port (active_workers t w') = map pw_port (filter (\<lambda>r. pw_tenant r = t \<and> pw_status r \<noteq> PwRevoked) rs)"
    unfolding active_workers_def assms f by simp
  show "pw_slug ` set (active_workers t w') = pw_slug ` {r \<in> set rs. pw_tenant r = t \<and> pw_status r \<noteq> PwRevoked}"
    unfolding active_workers_def assms f by (auto simp: image_image)
qed

text \<open>One run of the hook while the API server refuses nothing.\<close>

lemma hook_reads:
  assumes r: "worker_reachable s" and n: "get_tenant_namespace t (ps_db s) = Some ns" "ns \<noteq> []" and q: "quiet api"
    and h: "hook_rows now (ctx_transition ctx) t (ps_db s) = Some w'" and t: "ctx_tenant ctx = t"
    and b: "\<And>x. x \<in> set (active_workers t w') \<Longrightarrow> CHR 0x60 \<notin> set (tunnel_host cfg (pw_slug x))"
  defines "s' \<equiv> snd (run_impl cfg api now None ctx s)"
  shows "worker_reachable s'" and "ps_db s' = w'" and "get_tenant_namespace t w' = Some ns"
    and "load_tenant_shared_secret t w' = load_tenant_shared_secret t (ps_db s)"
    and "js_get (ns, FRPS_CONFIGMAP_NAME) (pc_configmaps (ps_cluster s')) = (if active_workers t w' = [] then None else
      Some (frps_configmap (the (load_tenant_shared_secret t (ps_db s))) (map pw_port (active_workers t w'))))"
    and "{slug. \<exists>b. js_get (PLATFORM_SYSTEM_NAMESPACE, tunnel_name slug) (pc_routes (ps_cluster s')) = Some b \<and>
      selects (tunnel_labels ns) (kr_labels b)} = pw_slug ` set (active_workers t w')"
proof -
  note frame = load_secret_frame [OF hook_tenants [OF h]]
  show reach: "worker_reachable s'" unfolding s'_def by (rule worker_reachable.step [OF r worker_step.hook])
  show db: "ps_db s' = w'" by (simp add: s'_def run_impl_def t h try_reconcile_def)
  show ns: "get_tenant_namespace t w' = Some ns" and sec: "load_tenant_shared_secret t w' = load_tenant_shared_secret t (ps_db s)"
    using n by (simp_all add: frame)
  have i: "pw_inv w'" using reachable_db [OF reach] by (simp add: db)
  obtain c out where e: "reconcile_private_workers_for_tenant cfg api t w' (ps_cluster s) = (c, out)" by fastforce
  have c: "ps_cluster s' = c" using e by (simp add: s'_def run_impl_def t h try_reconcile_def)
  have "has_namespace t w'" using ns n(2) by (cases ns) (simp_all add: has_namespace_def)
  then have "ro_error out = None"
    using reconcile_quiet [OF q _ b active_has_secret [OF i], where c = "ps_cluster s" and t = t] e by simp
  note reads = reconcile_reads [OF i reachable_cluster [OF r] ns n(2) e this]
  show "js_get (ns, FRPS_CONFIGMAP_NAME) (pc_configmaps (ps_cluster s')) = (if active_workers t w' = [] then None else
      Some (frps_configmap (the (load_tenant_shared_secret t (ps_db s))) (map pw_port (active_workers t w'))))"
    using reads(2) by (simp add: c sec)
  show "{slug. \<exists>b. js_get (PLATFORM_SYSTEM_NAMESPACE, tunnel_name slug) (pc_routes (ps_cluster s')) = Some b \<and>
      selects (tunnel_labels ns) (kr_labels b)} = pw_slug ` set (active_workers t w')"
    using reads(4) by (simp add: c)
qed


definition demo_hook_ctx :: "transition \<Rightarrow> hook_ctx" where
  "demo_hook_ctx tr = \<lparr>ctx_tenant = ''t1'', ctx_namespace = ''ns1'', ctx_transition_id = ''x'', ctx_transition = tr, ctx_attempt = 1\<rparr>"

definition demo_asleep :: pw_system where
  "demo_asleep = snd (run_impl demo_pw_config calm_api 8 None (demo_hook_ctx Suspended) \<lparr>ps_db = two_workers, ps_cluster = empty_cluster\<rparr>)"

definition demo_awake :: pw_system where
  "demo_awake = snd (run_impl demo_pw_config calm_api 9 None (demo_hook_ctx Restored) demo_asleep)"


end
