(* ===== verification/WorkerBounds.thy ===== *)
theory WorkerBounds
  imports WorkerProps
begin

text \<open>
  The length of slugs. A name of an object of the cluster that is a DNS label (that of a Service) has 63 characters at most;
  the objects of a tunnel are named by the slug after a prefix. What the generator of slugs guarantees, and what a slug that
  is too long does to a reconciliation.
\<close>

section \<open>The shape of a slug\<close>

lemma hyphenate_chars: "list_all (\<lambda>c. slug_char c \<or> c = CHR ''-'') (hyphenate s)"
  by (induction s rule: hyphenate.induct) simp_all

lemma hd_trim_end: "rev (dropWhile P (rev y)) \<noteq> [] \<Longrightarrow> hd (rev (dropWhile P (rev y))) = hd y"
  by (metis hd_append2 rev_append rev_rev_ident takeWhile_dropWhile_id)

lemma trim_hyphens_subset: "set (trim_hyphens s) \<subseteq> set s"
  by (auto simp: trim_hyphens_def dest!: set_dropWhileD)

lemma trim_hyphens_hd: "trim_hyphens s \<noteq> [] \<Longrightarrow> hd (trim_hyphens s) \<noteq> CHR ''-''"
proof -
  let ?y = "dropWhile (\<lambda>c. c = CHR ''-'') s"
  assume ne: "trim_hyphens s \<noteq> []"
  have "trim_hyphens s = []" if "?y = []" unfolding trim_hyphens_def that by simp
  with ne have "?y \<noteq> []" by blast
  then have "hd ?y \<noteq> CHR ''-''" using hd_dropWhile [of "\<lambda>c. c = CHR ''-''" s] by simp
  with hd_trim_end [OF ne [unfolded trim_hyphens_def]] show ?thesis by (simp add: trim_hyphens_def)
qed

lemma slugify_shape:
  "length (slugify name) \<le> 48 \<and> list_all (\<lambda>c. slug_char c \<or> c = CHR ''-'') (slugify name) \<and>
   (slugify name \<noteq> [] \<longrightarrow> slug_char (hd (slugify name)))"
proof -
  let ?t = "trim_hyphens (hyphenate (concat (map fold_latin name)))"
  have chars: "\<forall>c \<in> set ?t. slug_char c \<or> c = CHR ''-''"
    using hyphenate_chars trim_hyphens_subset by (fastforce simp: list_all_iff)
  have "slug_char (hd ?t)" if "?t \<noteq> []" using that chars trim_hyphens_hd [OF that] by (metis list.set_sel(1))
  then show ?thesis using chars by (auto simp: slugify_def list_all_iff dest: in_set_takeD)
qed

lemma slug_base_shape:
  "1 \<le> length (slug_base name) \<and> length (slug_base name) \<le> 48 \<and> slug_char (hd (slug_base name)) \<and>
   list_all (\<lambda>c. slug_char c \<or> c = CHR ''-'') (slug_base name) \<and> (length (slug_base name) = 48 \<longleftrightarrow> length (slugify name) = 48)"
proof (cases "slugify name = []")
  case True
  then show ?thesis by (simp add: slug_base_def slug_char_def is_lower_def)
next
  case False
  with slugify_shape [of name] show ?thesis by (simp add: slug_base_def Suc_le_eq)
qed

lemma slug_attempts_shape: "slug_attempts env b a w n = Some s \<Longrightarrow> \<exists>k. s = b @ ''-'' @ we_suffix env k"
  by (induction n arbitrary: a) (auto simp: Let_def split: option.splits)

text \<open>C35: a generated slug is new, satisfies the contract's expression, and has 57 characters at most. It has all 57, one more than
  the name of the tunnel's Service has room for, exactly when the name folds to 48 characters or more.\<close>

theorem generated_slug_bounds:
  assumes "generate_unique_slug env name w = Inr s"
    and "\<And>k. length (we_suffix env k) = 8 \<and> list_all slug_char (we_suffix env k)"
  shows "slug_regex s \<and> length s \<le> 57 \<and> s \<notin> pw_slug ` set (ww_workers w) \<and>
    (63 < length (tunnel_name s) \<longleftrightarrow> length (slugify name) = 48)"
proof -
  have a: "slug_attempts env (slug_base name) 0 w 6 = Some s" using assms(1) by (auto simp: generate_unique_slug_def split: option.splits)
  obtain k where s: "s = slug_base name @ ''-'' @ we_suffix env k" using slug_attempts_shape [OF a] by blast
  note base = slug_base_shape [of name] and suf = assms(2) [of k]
  have ne: "slug_base name \<noteq> []" "we_suffix env k \<noteq> []" using base suf by auto
  have "slug_char (last (we_suffix env k))" using suf ne(2) by (metis last_in_set list_all_iff)
  moreover have "list_all (\<lambda>c. slug_char c \<or> c = CHR ''-'') (we_suffix env k)" using suf by (auto simp: list_all_iff)
  ultimately have "slug_regex s" using base suf ne by (simp add: slug_regex_def s hd_append)
  moreover have "length s \<le> 57" "63 < length (tunnel_name s) \<longleftrightarrow> length (slugify name) = 48"
    using base suf by (auto simp: s tunnel_name_def)
  moreover have "s \<notin> pw_slug ` set (ww_workers w)" using slug_attempts_free [OF a] by auto
  ultimately show ?thesis by blast
qed

theorem generated_slug_bounds_witness:
  "generate_unique_slug (demo_pw_env ''x'') (replicate 120 CHR ''a'') two_tenants = Inr (replicate 48 CHR ''a'' @ ''-0000000a'') \<and>
   63 < length (tunnel_name (replicate 48 CHR ''a'' @ ''-0000000a''))"
proof -
  have "slugify (replicate 120 CHR ''a'') = replicate 48 CHR ''a''" by code_simp
  then have l: "slugify (replicate 120 CHR ''a'') = replicate 48 CHR ''a''" "slug_base (replicate 120 CHR ''a'') = replicate 48 CHR ''a''"
    by (simp_all add: slug_base_def Let_def)
  have g: "generate_unique_slug (demo_pw_env ''x'') (replicate 120 CHR ''a'') two_tenants = Inr (replicate 48 CHR ''a'' @ ''-0000000a'')"
    using slug_attempts.simps(2) [of "demo_pw_env ''x''" "replicate 48 CHR ''a''" 0 two_tenants 5]
    by (simp add: generate_unique_slug_def l demo_pw_env_def two_tenants_def add_tenant_def no_workers_def first_def)
  from generated_slug_bounds [OF g] have "63 < length (tunnel_name (replicate 48 CHR ''a'' @ ''-0000000a''))"
    by (simp add: demo_pw_env_def l slug_char_def is_lower_def is_digit_def)
  with g show ?thesis by blast
qed

section \<open>Names that are too long\<close>

definition refuses_long :: "k_api \<Rightarrow> bool" where
  "refuses_long api = (\<forall>k. 63 < length (snd k) \<longrightarrow> (\<exists>m. ka_fault api KCreate KService k = Some (Refused m)))"

definition short_names :: "pw_cluster \<Rightarrow> bool" where
  "short_names c = (\<forall>k b. js_get k (pc_services c) = Some b \<longrightarrow> length (snd k) \<le> 63)"

definition keeps_short :: "k_op \<Rightarrow> bool" where
  "keeps_short f = (\<forall>c. short_names c \<longrightarrow> short_names (fst (f c)))"

lemma keeps_shortD: "keeps_short f \<Longrightarrow> short_names c \<Longrightarrow> short_names (fst (f c))"
  by (simp add: keeps_short_def)

lemma keeps_all_of: "(\<And>f. f \<in> set fs \<Longrightarrow> keeps_short f) \<Longrightarrow> keeps_short (all_of fs)"
proof (induction fs)
  case (Cons f fs)
  then have f: "keeps_short f" and fs: "keeps_short (all_of fs)" by simp_all
  show ?case unfolding keeps_short_def
  proof (intro allI impI)
    fix c assume "short_names c"
    with f have "short_names (fst (f c))" by (rule keeps_shortD)
    with fs show "short_names (fst (all_of (f # fs) c))" by (auto simp: keeps_short_def split: prod.split option.split)
  qed
qed (simp add: keeps_short_def)

lemma keeps_run_safe: "(\<And>sf. sf \<in> set fs \<Longrightarrow> keeps_short (snd sf)) \<Longrightarrow> short_names c \<Longrightarrow> short_names (fst (run_safe fs c))"
proof (induction fs arbitrary: c)
  case (Cons sf fs)
  from Cons.prems have "keeps_short (snd sf)" by simp
  from keeps_shortD [OF this Cons.prems(2)] have "short_names (fst (snd sf c))" .
  from Cons.IH [OF _ this] Cons.prems(1) have "short_names (fst (run_safe fs (fst (snd sf c))))" by simp
  then show ?case by (cases sf; cases "snd sf c"; cases "run_safe fs (fst (snd sf c))") simp
qed simp

lemma keeps_other:
  "keeps_short (on_configmaps f1)" "keeps_short (on_deployments f2)" "keeps_short (on_secrets f3)" "keeps_short (on_netpols f4)"
  "keeps_short (on_routes f5)" "keeps_short (on_middlewares f6)" "keeps_short (on_certificates f7)"
  by (simp_all add: keeps_short_def short_names_def on_configmaps_def on_deployments_def on_secrets_def on_netpols_def
    on_routes_def on_middlewares_def on_certificates_def split: prod.split)

lemma keeps_delete: "keeps_short (on_services (delete_if_exists api KService k))"
  by (auto simp: keeps_short_def short_names_def on_services_def delete_if_exists_def store_simps split: option.split k_fault.split if_splits)

lemma keeps_upsert:
  assumes "refuses_long api"
  shows "keeps_short (on_services (k_upsert api KService k body admit))"
  unfolding keeps_short_def
proof (intro allI impI)
  fix c assume c: "short_names c"
  have "length (snd k) \<le> 63 \<or> js_get k (pc_services c) = None \<and> (\<exists>m. ka_fault api KCreate KService k = Some (Refused m))"
    using assms c unfolding refuses_long_def short_names_def by (metis not_le option.exhaust)
  then show "short_names (fst (on_services (k_upsert api KService k body admit) c))"
    using c by (auto simp: short_names_def on_services_def k_upsert_def k_write_def store_simps
      split: option.split k_fault.split if_splits prod.split)
qed

lemma keeps_reap: "keeps_short (reap_stale_tunnels api ns slugs)" "keeps_short (reap_stale_per_worker_services api ns names)"
proof -
  have "keeps_short (warned f)" if "keeps_short f" for f using that by (simp add: keeps_short_def warned_def)
  then have "keeps_short (reap_one_tunnel api n)" for n
    unfolding reap_one_tunnel_def by (intro keeps_all_of) (auto simp: keeps_other)
  then have all: "keeps_short (all_of (map (reap_one_tunnel api) ns'))"
    "keeps_short (all_of (map (\<lambda>n. on_services (delete_if_exists api KService (f n))) ns'))" for ns' and f :: "string \<Rightarrow> k_key"
    by (auto intro!: keeps_all_of keeps_delete)
  have "keeps_short (reap_tunnel_routes api ns slugs)" "keeps_short (reap_tunnel_services api ns slugs)"
    unfolding keeps_short_def reap_tunnel_routes_def reap_tunnel_services_def
    by (auto split: sum.split intro!: keeps_shortD all)
  then show "keeps_short (reap_stale_tunnels api ns slugs)" unfolding reap_stale_tunnels_def by (auto intro: keeps_all_of)
  show "keeps_short (reap_stale_per_worker_services api ns names)"
    unfolding keeps_short_def reap_stale_per_worker_services_def
    by (auto split: sum.split intro!: keeps_shortD all)
qed

lemma keeps_tunnel: "keeps_short (upsert_tunnel_ingress cfg api slug ns issuer)"
proof -
  have "keeps_short (apply_tunnel_route cfg api slug ns)"
    using keeps_shortD [OF keeps_other(5)] by (auto simp: keeps_short_def apply_tunnel_route_def apply_ingress_route_def split: sum.split)
  then show ?thesis unfolding upsert_tunnel_ingress_def
    by (intro keeps_all_of) (auto simp: apply_middleware_def apply_certificate_def keeps_other)
qed

lemma reconcile_keeps_short:
  assumes "refuses_long api" "short_names c" "has_namespace t w"
  shows "short_names (fst (reconcile_private_workers_for_tenant cfg api t w c))"
  using assms(3)
proof (cases rule: reconcile_cases [where cfg = cfg and api = api and c = c])
  case teardown
  show ?thesis unfolding teardown(2) fst_conv
    by (rule keeps_run_safe [OF _ assms(2)]) (auto simp: tear_down_steps_def keeps_other keeps_reap)
next
  case applying
  show ?thesis unfolding applying(3) fst_conv
    by (rule keeps_run_safe [OF _ assms(2)]) (auto simp: apply_steps_def keeps_other keeps_reap keeps_tunnel keeps_upsert [OF assms(1)]
      upsert_frps_config_map_def upsert_control_plane_service_def upsert_per_worker_service_def upsert_frps_deployment_def
      upsert_frps_network_policy_def upsert_external_name_service_def)
qed (use assms(2) in simp)

text \<open>C36: while the API server refuses Services with names of more than 63 characters, as Kubernetes does, and holds none, a
  reconciliation with an active worker whose slug has more than 56 characters always reports an error, and the Service that
  its tunnel's route points at is never there.\<close>

theorem long_slug_has_no_tunnel:
  assumes "worker_reachable s" and "has_namespace t (ps_db s)" and "refuses_long api" and "short_names (ps_cluster s)"
    and "r \<in> set (active_workers t (ps_db s))" and "56 < length (pw_slug r)"
    and "reconcile_private_workers_for_tenant cfg api t (ps_db s) (ps_cluster s) = (c', out)"
  shows "ro_error out \<noteq> None \<and> js_get (PLATFORM_SYSTEM_NAMESPACE, tunnel_name (pw_slug r)) (pc_services c') = None"
proof -
  let ?tg = "reconcile_target cfg t (ps_db s)" and ?k = "(PLATFORM_SYSTEM_NAMESPACE, tunnel_name (pw_slug r))"
  have tok: "target_ok ?tg" by (rule target_ok_inv [OF reachable_db [OF assms(1)]])
  have "short_names c'" using reconcile_keeps_short [OF assms(3,4,2), of cfg] assms(7) by simp
  moreover have "63 < length (snd ?k)" using assms(6) by (simp add: tunnel_name_def)
  ultimately have none: "js_get ?k (pc_services c') = None" unfolding short_names_def by (metis not_le option.exhaust)
  have "ro_error out \<noteq> None"
  proof
    assume "ro_error out = None"
    then have "reconciled ?tg c'" using reconcile_reaches [OF assms(2) tok reachable_cluster [OF assms(1)], of api] assms(7) by simp
    then have "svc.met ?tg ?k (pc_services c')" by (simp add: reconciled_def)
    moreover have "r \<in> set (tg_workers ?tg)" using assms(5) by (simp add: reconcile_target_def)
    ultimately show False using wanted_worker(2) [OF tok] none by (simp add: svc.met_def)
  qed
  with none show ?thesis by blast
qed

text \<open>A tenant asks for a slug of 60 characters, which the contract allows.\<close>

definition long_world :: pw_world where
  "long_world = fst (create_private_worker demo_pw_config (demo_pw_env ''w1'') alone ''t1'' (demo_input ''box'' (replicate 60 CHR ''a''))
     None None two_tenants)"

definition dns_api :: k_api where
  "dns_api = \<lparr>ka_fault = (\<lambda>v kind k. if v = KCreate \<and> kind = KService \<and> 63 < length (snd k) then Some (Refused ''name too long'') else None),
     ka_alloc_ip = (\<lambda>_. ''10.43.0.1'')\<rparr>"

lemma long_world_eval:
  "ww_tenants long_world = [\<lparr>pt_id = ''t1'', pt_namespace = ''ns1'', pt_secret = Some ''s3cret''\<rparr>,
     \<lparr>pt_id = ''t2'', pt_namespace = ''ns2'', pt_secret = None\<rparr>] \<and>
   ww_workers long_world = [demo_worker ''w1'' ''box'' (replicate 60 CHR ''a'') 10000]"
proof -
  obtain c cs where slug: "replicate 60 CHR ''a'' = c # cs" by (cases "replicate 60 CHR ''a''") auto
  show ?thesis unfolding long_world_def slug
    by (simp add: two_tenants_def add_tenant_def no_workers_def create_eval demo_worker_def new_worker_def
      numeral_eq_Suc first_unused.simps [of "{}"] PORT_POOL_LOW_def PORT_POOL_HIGH_def)
qed

theorem long_slug_has_no_tunnel_witness:
  "slug_regex (replicate 60 CHR ''a'') \<and>
   ro_error (snd (reconcile_private_workers_for_tenant demo_pw_config dns_api ''t1'' long_world empty_cluster)) \<noteq> None"
proof
  show "slug_regex (replicate 60 CHR ''a'')" by (simp add: slug_regex_def slug_char_def is_lower_def list_all_iff)
  obtain c' out where e: "reconcile_private_workers_for_tenant demo_pw_config dns_api ''t1'' long_world empty_cluster = (c', out)" by fastforce
  have "worker_reachable \<lparr>ps_db = long_world, ps_cluster = empty_cluster\<rparr>"
    unfolding long_world_def by (intro create_reachable two_tenants_reachable)
  from long_slug_has_no_tunnel [OF this, of "''t1''" dns_api "demo_worker ''w1'' ''box'' (replicate 60 CHR ''a'') 10000" demo_pw_config c' out] e
  show "ro_error (snd (reconcile_private_workers_for_tenant demo_pw_config dns_api ''t1'' long_world empty_cluster)) \<noteq> None"
    using long_world_eval
    by (simp add: has_namespace_def get_tenant_namespace_def tenant_entry_def first_def refuses_long_def dns_api_def short_names_def
      empty_cluster_def active_workers_def js_get_def) (simp add: demo_worker_def new_worker_def)
qed

end
