(* ===== verification/TaskTracker.thy ===== *)
theory TaskTracker
  imports Tables
begin

text \<open>
  The task tracker (\<open>tasks/service.ts\<close>, its contract in \<open>api-contracts/task-center.ts\<close>): one row of \<open>tasks\<close> per
  long-running operation, shown to its initiator while it runs and for five minutes after. Starting, progress, finishing,
  clearing, the snapshot of a user, the periodic clean-up.

  A row is addressed by its id or by the natural key \<open>(kind, ref_id)\<close>, which is unique where \<open>ref_id\<close> is set
  (\<open>migrations/0007_tasks_unique_index.sql\<close>). Times are milliseconds; \<open>now\<close> is the time of the statement. JSON objects are
  lists of keys and values, a value being its JSON text. A result \<open>Inl\<close> is an exception; the
  offending number is left out of its message.
\<close>

section \<open>Rows\<close>

datatype task_status = TkQueued | TkRunning | TkSucceeded | TkFailed | TkCancelled

datatype task_scope = ScopeAdmin | ScopeTenant | ScopeSystem

datatype task_target = TargetModal string "(string \<times> string) list" | TargetRoute string

record task_row =
  tk_id :: string
  tk_kind :: string
  tk_ref :: "string option"
  tk_scope :: task_scope
  tk_user :: "string option"
  tk_tenant :: "string option"
  tk_label :: string
  tk_status :: task_status
  tk_pct :: "int option"
  tk_text :: "string option"
  tk_target :: task_target
  tk_error :: "string option"
  tk_details :: "(string \<times> string) list option"
  tk_started :: int
  tk_updated :: int
  tk_finished :: "int option"
  tk_cleared :: "int option"
  tk_parent :: "string option"

section \<open>Starting\<close>

record task_args =
  ta_kind :: string
  ta_ref :: "string option"
  ta_scope :: task_scope
  ta_user :: "string option"
  ta_tenant :: "string option"
  ta_label :: string
  ta_target :: task_target
  ta_pct :: "int option"
  ta_text :: "string option"
  ta_details :: "(string \<times> string) list option"
  ta_parent :: "string option"

definition new_task :: "int \<Rightarrow> string \<Rightarrow> task_args \<Rightarrow> task_row" where
  "new_task now i a = \<lparr> tk_id = i, tk_kind = ta_kind a, tk_ref = ta_ref a, tk_scope = ta_scope a, tk_user = ta_user a,
     tk_tenant = ta_tenant a, tk_label = ta_label a, tk_status = TkRunning, tk_pct = ta_pct a, tk_text = ta_text a,
     tk_target = ta_target a, tk_error = None, tk_details = ta_details a, tk_started = now, tk_updated = now,
     tk_finished = None, tk_cleared = None, tk_parent = ta_parent a \<rparr>"

text \<open>The \<open>SET\<close> clause of the conflict: everything else of the row stays.\<close>

definition restarted :: "int \<Rightarrow> task_args \<Rightarrow> task_row \<Rightarrow> task_row" where
  "restarted now a r = r\<lparr> tk_status := TkRunning, tk_label := ta_label a, tk_target := ta_target a, tk_pct := ta_pct a,
     tk_text := ta_text a, tk_finished := None, tk_error := None, tk_updated := now \<rparr>"

definition has_ref :: "string \<Rightarrow> string \<Rightarrow> task_row \<Rightarrow> bool" where
  "has_ref kind ref r = (tk_kind r = kind \<and> tk_ref r = Some ref)"

definition user_matches_scope :: "task_args \<Rightarrow> bool" where
  "user_matches_scope a = (if ta_scope a = ScopeSystem then ta_user a = None else ta_user a \<noteq> None \<and> ta_user a \<noteq> Some [])"

definition task_start :: "int \<Rightarrow> string \<Rightarrow> task_args \<Rightarrow> task_row list \<Rightarrow> string + ((string \<times> bool) \<times> task_row list)" where
  "task_start now i a ts =
     (if \<not> user_matches_scope a then Inl (if ta_scope a = ScopeSystem then ''tasks.start: scope=system requires user_id=null''
        else if ta_scope a = ScopeAdmin then ''tasks.start: scope=admin requires user_id'' else ''tasks.start: scope=tenant requires user_id'')
      else (case ta_ref a of
        Some ref \<Rightarrow> (case first (has_ref (ta_kind a) ref) ts of
            Some r \<Rightarrow> Inr ((tk_id r, tk_id r \<noteq> i), set_where (has_ref (ta_kind a) ref) (restarted now a) ts)
          | None \<Rightarrow> Inr ((i, False), ts @ [new_task now i a]))
      | None \<Rightarrow> Inr ((i, False), ts @ [new_task now i a])))"

section \<open>Progress and end\<close>

text \<open>An absent argument is the outer \<open>None\<close>, \<open>null\<close> the inner one.\<close>

record task_progress_args =
  tp_pct :: "js_num option option"
  tp_text :: "string option option"
  tp_patch :: "(string \<times> string) list option"

definition bad_pct :: "js_num \<Rightarrow> bool" where
  "bad_pct p = (case p of JNum q \<Rightarrow> q < 0 \<or> q > 100 | _ \<Rightarrow> True)"

text \<open>The operator \<open>||\<close> on objects.\<close>

definition merge_details :: "(string \<times> string) list option \<Rightarrow> (string \<times> string) list option \<Rightarrow> (string \<times> string) list option" where
  "merge_details patch old = (case patch of None \<Rightarrow> old
     | Some p \<Rightarrow> Some (fold (\<lambda>(k, v). AList.update k v) p (case old of None \<Rightarrow> [] | Some d \<Rightarrow> d)))"

text \<open>The column is an integer: the database refuses a fraction.\<close>

definition task_progress :: "int \<Rightarrow> string \<Rightarrow> task_progress_args \<Rightarrow> task_row list \<Rightarrow> string + task_row list" where
  "task_progress now i a ts = (case tp_pct a of
      Some (Some p) \<Rightarrow>
        (if bad_pct p then Inl ''tasks.progress: pct must be 0..100 or null''
         else case p of JNum q \<Rightarrow>
             (if of_int \<lfloor>q\<rfloor> \<noteq> q then Inl ''invalid input syntax for type integer''
              else Inr (set_where (\<lambda>r. tk_id r = i) (\<lambda>r. r\<lparr>tk_updated := now, tk_pct := Some \<lfloor>q\<rfloor>,
                 tk_text := (case tp_text a of None \<Rightarrow> tk_text r | Some t \<Rightarrow> t),
                 tk_details := merge_details (tp_patch a) (tk_details r)\<rparr>) ts))
           | _ \<Rightarrow> Inl ''tasks.progress: pct must be 0..100 or null'')
    | other \<Rightarrow> Inr (set_where (\<lambda>r. tk_id r = i) (\<lambda>r. r\<lparr>tk_updated := now,
         tk_pct := (case other of None \<Rightarrow> tk_pct r | Some _ \<Rightarrow> None),
         tk_text := (case tp_text a of None \<Rightarrow> tk_text r | Some t \<Rightarrow> t),
         tk_details := merge_details (tp_patch a) (tk_details r)\<rparr>) ts))"

datatype task_end = EndSucceeded | EndFailed | EndCancelled

fun end_status :: "task_end \<Rightarrow> task_status" where
  "end_status EndSucceeded = TkSucceeded"
| "end_status EndFailed = TkFailed"
| "end_status EndCancelled = TkCancelled"

record task_finish_args =
  tf_end :: task_end
  tf_error :: "string option"
  tf_patch :: "(string \<times> string) list option"
  tf_text :: "string option option"
  tf_clear :: bool

definition build_finish_update :: "int \<Rightarrow> task_finish_args \<Rightarrow> task_row \<Rightarrow> task_row" where
  "build_finish_update now a r = r\<lparr> tk_status := end_status (tf_end a), tk_finished := Some now, tk_updated := now,
     tk_error := tf_error a, tk_text := (case tf_text a of None \<Rightarrow> tk_text r | Some t \<Rightarrow> t),
     tk_pct := (if tf_end a = EndSucceeded then Some 100 else tk_pct r),
     tk_details := merge_details (tf_patch a) (tk_details r),
     tk_cleared := (if tf_clear a then Some now else tk_cleared r) \<rparr>"

definition task_finish_by_ref :: "int \<Rightarrow> string \<Rightarrow> string \<Rightarrow> task_finish_args \<Rightarrow> task_row list \<Rightarrow> task_row list" where
  "task_finish_by_ref now kind ref a = set_where (has_ref kind ref) (build_finish_update now a)"

definition task_finish :: "int \<Rightarrow> string \<Rightarrow> task_finish_args \<Rightarrow> task_row list \<Rightarrow> task_row list" where
  "task_finish now i a = set_where (\<lambda>r. tk_id r = i) (build_finish_update now a)"

text \<open>\<open>tracked\<close>: the operation \<open>f\<close> is given the id of its row; what it does to the table comes with its result.\<close>

definition finish_with :: "task_end \<Rightarrow> string option \<Rightarrow> task_finish_args" where
  "finish_with e msg = \<lparr> tf_end = e, tf_error = msg, tf_patch = None, tf_text = None, tf_clear = False \<rparr>"

definition task_tracked :: "int \<Rightarrow> int \<Rightarrow> string \<Rightarrow> task_args \<Rightarrow> (string \<Rightarrow> task_row list \<Rightarrow> (string + 'r) \<times> task_row list)
    \<Rightarrow> task_row list \<Rightarrow> (string + 'r) \<times> task_row list" where
  "task_tracked t0 t1 i a f ts = (case task_start t0 i a ts of
      Inl e \<Rightarrow> (Inl e, ts)
    | Inr ((j, _), ts1) \<Rightarrow> (case f j ts1 of
          (Inr x, ts2) \<Rightarrow> (Inr x, task_finish t1 j (finish_with EndSucceeded None) ts2)
        | (Inl e, ts2) \<Rightarrow> (Inl e, task_finish t1 j (finish_with EndFailed (Some (take 4096 e))) ts2)))"

section \<open>The snapshot of a user\<close>

definition RECENT_TERMINAL_WINDOW_MS :: int where
  "RECENT_TERMINAL_WINDOW_MS = 5 * 60 * 1000"

record snapshot_filter =
  sf_user :: string
  sf_limit :: "nat option"
  sf_since :: "int option"

fun terminal :: "task_status \<Rightarrow> bool" where
  "terminal TkSucceeded = True"
| "terminal TkFailed = True"
| "terminal TkCancelled = True"
| "terminal _ = False"

definition snapshot_where :: "int \<Rightarrow> snapshot_filter \<Rightarrow> task_row \<Rightarrow> bool" where
  "snapshot_where now f r = (tk_user r = Some (sf_user f) \<and>
     (tk_status r \<in> {TkQueued, TkRunning} \<or>
      (case tk_finished r of None \<Rightarrow> False | Some t \<Rightarrow> t > now - RECENT_TERMINAL_WINDOW_MS \<and> tk_cleared r = None)) \<and>
     (case sf_since f of None \<Rightarrow> True | Some s \<Rightarrow> tk_updated r > s))"

text \<open>\<open>taskRowSchema\<close>; the test for a UUID is zod's.\<close>

definition task_row_schema :: "(string \<Rightarrow> bool) \<Rightarrow> task_row \<Rightarrow> bool" where
  "task_row_schema is_uuid r = (is_uuid (tk_id r) \<and> 1 \<le> length (tk_kind r) \<and> length (tk_kind r) \<le> 64 \<and>
     (case tk_ref r of None \<Rightarrow> True | Some x \<Rightarrow> 1 \<le> length x \<and> length x \<le> 64) \<and>
     (case tk_user r of None \<Rightarrow> True | Some x \<Rightarrow> is_uuid x) \<and> (case tk_tenant r of None \<Rightarrow> True | Some x \<Rightarrow> is_uuid x) \<and>
     tk_label r \<noteq> [] \<and> (case tk_pct r of None \<Rightarrow> True | Some p \<Rightarrow> 0 \<le> p \<and> p \<le> 100) \<and>
     (case tk_target r of TargetModal m _ \<Rightarrow> 1 \<le> length m \<and> length m \<le> 64 | TargetRoute h \<Rightarrow> 1 \<le> length h \<and> length h \<le> 2000) \<and>
     (case tk_parent r of None \<Rightarrow> True | Some x \<Rightarrow> is_uuid x))"

definition fold_children :: "task_row list \<Rightarrow> task_row list" where
  "fold_children rs = filter (\<lambda>r. case tk_parent r of None \<Rightarrow> True | Some p \<Rightarrow> p = [] \<or> p \<notin> set (map tk_id rs)) rs"

text \<open>Rows with equal \<open>updated_at\<close> come in the order of the table here; the database leaves their order open.\<close>

definition task_snapshot :: "(string \<Rightarrow> bool) \<Rightarrow> int \<Rightarrow> snapshot_filter \<Rightarrow> task_row list \<Rightarrow> task_row list" where
  "task_snapshot is_uuid now f ts = fold_children (filter (task_row_schema is_uuid)
     (take (case sf_limit f of None \<Rightarrow> 100 | Some n \<Rightarrow> min n 100)
       (sort_key (\<lambda>r. - tk_updated r) (filter (snapshot_where now f) ts))))"

section \<open>Clearing and clean-up\<close>

definition task_clear :: "int \<Rightarrow> string \<Rightarrow> string list option \<Rightarrow> task_row list \<Rightarrow> nat \<times> task_row list" where
  "task_clear now user ids ts =
     (let p = (case ids of Some (i # is) \<Rightarrow> (\<lambda>r. tk_user r = Some user \<and> terminal (tk_status r) \<and> tk_id r \<in> set (i # is))
        | _ \<Rightarrow> (\<lambda>r. tk_user r = Some user \<and> terminal (tk_status r) \<and> tk_cleared r = None))
      in (length (filter p ts), set_where p (\<lambda>r. r\<lparr>tk_cleared := Some now\<rparr>) ts))"

definition TERMINAL_RETENTION_DAYS :: int where "TERMINAL_RETENTION_DAYS = 7"

definition ORPHAN_REAP_HOURS :: int where "ORPHAN_REAP_HOURS = 24"

definition task_orphan :: "int \<Rightarrow> task_row \<Rightarrow> bool" where
  "task_orphan now r = (tk_status r \<in> {TkQueued, TkRunning} \<and> tk_started r < now - ORPHAN_REAP_HOURS * 3600000)"

definition task_expired :: "int \<Rightarrow> task_row \<Rightarrow> bool" where
  "task_expired now r = (terminal (tk_status r) \<and>
     (case tk_finished r of None \<Rightarrow> False | Some t \<Rightarrow> t < now - TERMINAL_RETENTION_DAYS * 86400000))"

definition task_run_retention :: "int \<Rightarrow> task_row list \<Rightarrow> (nat \<times> nat) \<times> task_row list" where
  "task_run_retention now ts =
     (let ts1 = set_where (task_orphan now) (\<lambda>r. r\<lparr>tk_status := TkFailed, tk_finished := Some now, tk_updated := now,
        tk_error := Some ''Task reaped - no progress in over 24 hours''\<rparr>) ts
      in ((length (filter (task_expired now) ts1), length (filter (task_orphan now) ts)), filter (\<lambda>r. \<not> task_expired now r) ts1))"

end
