(* ===== verification/TaskLife.thy ===== *)
theory TaskLife
  imports TaskTracker
begin

text \<open>
  The task table under any sequence of the tracker's operations: what holds of every row, what a user is shown, and what
  happens to a row that is started again.
\<close>

section \<open>Runs of the tracker\<close>

datatype task_op =
    OpStart string task_args
  | OpProgress string task_progress_args
  | OpFinishByRef string string task_finish_args
  | OpFinish string task_finish_args
  | OpClear string "string list option"
  | OpRetention

fun task_apply :: "int \<Rightarrow> task_op \<Rightarrow> task_row list \<Rightarrow> task_row list" where
  "task_apply now (OpStart i a) ts = (case task_start now i a ts of Inl _ \<Rightarrow> ts | Inr (_, ts') \<Rightarrow> ts')"
| "task_apply now (OpProgress i a) ts = (case task_progress now i a ts of Inl _ \<Rightarrow> ts | Inr ts' \<Rightarrow> ts')"
| "task_apply now (OpFinishByRef k r a) ts = task_finish_by_ref now k r a ts"
| "task_apply now (OpFinish i a) ts = task_finish now i a ts"
| "task_apply now (OpClear u ids) ts = snd (task_clear now u ids ts)"
| "task_apply now OpRetention ts = snd (task_run_retention now ts)"

fun op_ids :: "task_op \<Rightarrow> string list" where
  "op_ids (OpStart i _) = [i]"
| "op_ids _ = []"

text \<open>A state: the time, the ids drawn so far, the table. \<open>randomUUID()\<close> never repeats an id.\<close>

inductive task_step :: "int \<times> string list \<times> task_row list \<Rightarrow> int \<times> string list \<times> task_row list \<Rightarrow> bool" where
  "t \<le> t' \<Longrightarrow> set (op_ids op) \<inter> set used = {} \<Longrightarrow> task_step (t, used, ts) (t', op_ids op @ used, task_apply t' op ts)"

inductive_cases task_stepE: "task_step s s'"

section \<open>The operations as updates of rows\<close>

text \<open>Every operation updates rows in place, appends one row or removes expired rows.\<close>

definition keeps_key :: "(task_row \<Rightarrow> task_row) \<Rightarrow> bool" where
  "keeps_key f = (\<forall>r. tk_id (f r) = tk_id r \<and> tk_kind (f r) = tk_kind r \<and> tk_ref (f r) = tk_ref r \<and> tk_scope (f r) = tk_scope r \<and>
     tk_user (f r) = tk_user r \<and> tk_started (f r) = tk_started r \<and> (tk_cleared r \<noteq> None \<longrightarrow> tk_cleared (f r) \<noteq> None))"

lemma keeps_key_simps:
  assumes "keeps_key f"
  shows "tk_id (f r) = tk_id r" "tk_kind (f r) = tk_kind r" "tk_ref (f r) = tk_ref r" "tk_scope (f r) = tk_scope r"
    "tk_user (f r) = tk_user r" "tk_started (f r) = tk_started r"
  using assms by (auto simp: keeps_key_def)

lemma keeps_keyI:
  assumes "\<And>r. tk_id (f r) = tk_id r" and "\<And>r. tk_kind (f r) = tk_kind r" and "\<And>r. tk_ref (f r) = tk_ref r"
    and "\<And>r. tk_scope (f r) = tk_scope r" and "\<And>r. tk_user (f r) = tk_user r" and "\<And>r. tk_started (f r) = tk_started r"
    and "\<And>r. tk_cleared r \<noteq> None \<Longrightarrow> tk_cleared (f r) \<noteq> None"
  shows "keeps_key f"
  using assms by (simp add: keeps_key_def)

lemma keeps_key_cleared: "keeps_key f \<Longrightarrow> tk_cleared r \<noteq> None \<Longrightarrow> tk_cleared (f r) \<noteq> None"
  by (simp add: keeps_key_def)

lemma keeps_key_restarted [intro]: "keeps_key (restarted now a)"
  by (rule keeps_keyI) (simp_all add: restarted_def)

lemma keeps_key_finished [intro]: "keeps_key (build_finish_update now b)"
  by (rule keeps_keyI) (simp_all add: build_finish_update_def)

definition task_row_ok :: "int \<Rightarrow> task_row \<Rightarrow> bool" where
  "task_row_ok now r = ((tk_scope r = ScopeSystem \<longleftrightarrow> tk_user r = None) \<and> (terminal (tk_status r) \<longleftrightarrow> tk_finished r \<noteq> None) \<and>
     tk_status r \<noteq> TkQueued \<and> tk_started r \<le> tk_updated r \<and> tk_updated r \<le> now \<and>
     (case tk_finished r of None \<Rightarrow> True | Some t \<Rightarrow> tk_started r \<le> t \<and> t \<le> tk_updated r) \<and>
     (case tk_cleared r of None \<Rightarrow> True | Some t \<Rightarrow> tk_started r \<le> t \<and> t \<le> now))"

lemma task_row_ok_later: "task_row_ok now r \<Longrightarrow> now \<le> now' \<Longrightarrow> task_row_ok now' r"
  by (auto simp: task_row_ok_def split: option.splits)

lemma terminal_end_status [simp]: "terminal (end_status e)" "end_status e \<noteq> TkQueued"
  by (cases e; simp)+

lemma task_row_ok_restarted: "task_row_ok now r \<Longrightarrow> now \<le> now' \<Longrightarrow> task_row_ok now' (restarted now' a r)"
  by (auto simp: task_row_ok_def restarted_def split: option.splits)

lemma task_row_ok_finished: "task_row_ok now r \<Longrightarrow> now \<le> now' \<Longrightarrow> task_row_ok now' (build_finish_update now' a r)"
  by (auto simp: task_row_ok_def build_finish_update_def split: option.splits)

lemma task_row_ok_cleared: "task_row_ok now r \<Longrightarrow> now \<le> now' \<Longrightarrow> task_row_ok now' (r\<lparr>tk_cleared := Some now'\<rparr>)"
  by (auto simp: task_row_ok_def split: option.splits)

lemma task_row_ok_new: "user_matches_scope a \<Longrightarrow> task_row_ok now (new_task now i a)"
  by (auto simp: task_row_ok_def new_task_def user_matches_scope_def split: if_splits)

text \<open>One step as a change of the table.\<close>

inductive task_change :: "int \<Rightarrow> string list \<Rightarrow> task_row list \<Rightarrow> task_row list \<Rightarrow> bool" for now ids ts where
  rows_set: "keeps_key f \<Longrightarrow> (\<And>r t. task_row_ok t r \<Longrightarrow> t \<le> now \<Longrightarrow> p r \<Longrightarrow> task_row_ok now (f r)) \<Longrightarrow> task_change now ids ts (set_where p f ts)"
| row_added: "i \<in> set ids \<Longrightarrow> user_matches_scope a \<Longrightarrow> (case ta_ref a of None \<Rightarrow> True | Some x \<Rightarrow> filter (has_ref (ta_kind a) x) ts = [])
    \<Longrightarrow> task_change now ids ts (ts @ [new_task now i a])"
| rows_reaped: "keeps_key f \<Longrightarrow> (\<And>r t. task_row_ok t r \<Longrightarrow> t \<le> now \<Longrightarrow> p r \<Longrightarrow> task_row_ok now (f r)) \<Longrightarrow>
    task_change now ids ts (filter q (set_where p f ts))"

lemma task_change_same: "task_change now ids ts ts"
  using rows_set [of id "now" "\<lambda>_. False" ids ts] by (simp add: keeps_keyI set_where_def)

lemma start_change: "task_change now [i] ts (task_apply now (OpStart i a) ts)"
proof (cases "task_start now i a ts")
  case Inl
  then show ?thesis by (simp add: task_change_same)
next
  case (Inr x)
  then have u: "user_matches_scope a" by (auto simp: task_start_def split: if_splits)
  show ?thesis
  proof (cases "ta_ref a")
    case None
    with u show ?thesis by (simp add: task_start_def row_added)
  next
    case (Some ref)
    show ?thesis
    proof (cases "first (has_ref (ta_kind a) ref) ts")
      case None
      then have "filter (has_ref (ta_kind a) ref) ts = []" by (simp add: first_None_iff filter_empty_conv)
      with u Some None show ?thesis by (simp add: task_start_def row_added)
    next
      case (Some r)
      with u \<open>ta_ref a = Some ref\<close> show ?thesis
        by (simp add: task_start_def rows_set keeps_key_restarted task_row_ok_restarted)
    qed
  qed
qed

lemma progress_change: "task_change now ids ts (task_apply now (OpProgress i a) ts)"
proof -
  have set: "task_change now ids ts (set_where (\<lambda>r. tk_id r = i) (\<lambda>r. r\<lparr>tk_updated := now, tk_pct := g r, tk_text := h r, tk_details := d r\<rparr>) ts)"
    for g h d
    by (rule rows_set) (simp add: keeps_keyI, simp add: task_row_ok_def split: option.splits)
  have set': "task_change now ids ts (set_where (\<lambda>r. tk_id r = i) (\<lambda>r. r\<lparr>tk_updated := now, tk_text := h r, tk_details := d r\<rparr>) ts)"
    for h d
    by (rule rows_set) (simp add: keeps_keyI, simp add: task_row_ok_def split: option.splits)
  show ?thesis
    using set set' by (simp add: task_progress_def task_change_same split: option.split js_num.split if_split)
qed

lemma clear_change: "task_change now ids ts (task_apply now (OpClear u xs) ts)"
proof -
  have "task_change now ids ts (set_where p (\<lambda>r. r\<lparr>tk_cleared := Some now\<rparr>) ts)" for p
    by (rule rows_set) (simp add: keeps_keyI, simp add: task_row_ok_cleared)
  then show ?thesis by (simp add: task_clear_def Let_def)
qed

lemma retention_change: "task_change now ids ts (task_apply now OpRetention ts)"
proof -
  have "task_row_ok now (r\<lparr>tk_status := TkFailed, tk_finished := Some now, tk_updated := now, tk_error := e\<rparr>)"
    if "task_row_ok t r" "t \<le> now" for t r e
    using that by (simp add: task_row_ok_def split: option.splits)
  then show ?thesis unfolding task_apply.simps task_run_retention_def Let_def snd_conv
    by (intro rows_reaped) (simp_all add: keeps_keyI)
qed

lemma task_apply_change: "task_change now (op_ids op) ts (task_apply now op ts)"
proof (cases op)
  case (OpFinishByRef k x a)
  then show ?thesis by (simp add: task_finish_by_ref_def rows_set keeps_key_finished task_row_ok_finished)
next
  case (OpFinish i a)
  then show ?thesis by (simp add: task_finish_def rows_set keeps_key_finished task_row_ok_finished)
qed (simp_all only: op_ids.simps start_change progress_change clear_change retention_change)

section \<open>The invariant of the table\<close>

definition task_table_inv :: "int \<Rightarrow> string list \<Rightarrow> task_row list \<Rightarrow> bool" where
  "task_table_inv now used ts = (distinct (map tk_id ts) \<and> tk_id ` set ts \<subseteq> set used \<and>
     (\<forall>k x. length (filter (has_ref k x) ts) \<le> 1) \<and> (\<forall>r \<in> set ts. task_row_ok now r))"

lemma has_ref_keeps: "keeps_key f \<Longrightarrow> has_ref k x (f r) = has_ref k x r"
  by (simp add: has_ref_def keeps_key_simps)

lemma filter_has_ref_set_where: "keeps_key f \<Longrightarrow> length (filter (has_ref k x) (set_where p f ts)) = length (filter (has_ref k x) ts)"
  by (induction ts) (auto simp: set_where_def has_ref_keeps)

lemma map_id_set_where: "keeps_key f \<Longrightarrow> map tk_id (set_where p f ts) = map tk_id ts"
  by (simp add: map_set_where keeps_key_simps)

lemma rows_ok_set_where:
  assumes "\<forall>r \<in> set ts. task_row_ok t r" and "t \<le> now" and "\<And>r. task_row_ok t r \<Longrightarrow> p r \<Longrightarrow> task_row_ok now (f r)"
  shows "\<forall>r \<in> set (set_where p f ts). task_row_ok now r"
  using assms by (auto simp: set_where_def intro: task_row_ok_later)

lemma filter_filter_le:
  assumes "length (filter p ts) \<le> n"
  shows "length (filter (\<lambda>x. q x \<and> p x) ts) \<le> n"
  using length_filter_mono [of ts "\<lambda>x. q x \<and> p x" p] assms by linarith

lemma inv_rows_set:
  assumes "task_table_inv t used ts" and "t \<le> now" and "keeps_key f" and "\<And>r. task_row_ok t r \<Longrightarrow> p r \<Longrightarrow> task_row_ok now (f r)"
  shows "task_table_inv now used (set_where p f ts)"
  using assms rows_ok_set_where [of ts t "now" p f] map_id_set_where [of f p ts]
  unfolding task_table_inv_def by (simp add: filter_has_ref_set_where flip: set_map)

lemma inv_change:
  assumes "task_change now ids ts ts'" and inv: "task_table_inv t used ts" and "t \<le> now" and "set ids \<inter> set used = {}"
  shows "task_table_inv now (ids @ used) ts'"
  using assms(1)
proof cases
  case (rows_set f p)
  then show ?thesis using inv_rows_set [OF inv assms(3), of f p] assms(3) unfolding task_table_inv_def by auto
next
  case (row_added i a)
  have "tk_id (new_task now i a) \<notin> tk_id ` set ts"
    using row_added(2) inv assms(4) unfolding task_table_inv_def new_task_def by auto
  moreover have "length (filter (has_ref k x) (ts @ [new_task now i a])) \<le> 1" for k x
    using row_added(4) inv unfolding task_table_inv_def by (auto simp: has_ref_def new_task_def split: option.splits)
  ultimately show ?thesis
    using inv row_added assms(3) task_row_ok_new [of a "now" i] unfolding task_table_inv_def
    by (auto simp: new_task_def intro: task_row_ok_later)
next
  case (rows_reaped f p q)
  then have "task_table_inv now used (set_where p f ts)" using inv_rows_set [OF inv assms(3), of f p] assms(3) by auto
  then show ?thesis unfolding rows_reaped(1) task_table_inv_def by (auto intro: distinct_map_filterI filter_filter_le)
qed

lemma inv_step: "task_step (t, used, ts) (t', used', ts') \<Longrightarrow> task_table_inv t used ts \<Longrightarrow> task_table_inv t' used' ts'"
  by (erule task_stepE) (simp add: inv_change [OF task_apply_change])

lemma inv_steps: "task_step\<^sup>*\<^sup>* (t, used, ts) (t', used', ts') \<Longrightarrow> task_table_inv t used ts \<Longrightarrow> task_table_inv t' used' ts'"
  by (induction "(t', used', ts')" arbitrary: t' used' ts' rule: rtranclp_induct) (auto intro: inv_step)

lemma inv_empty: "task_table_inv t used []"
  by (simp add: task_table_inv_def)

section \<open>Cleared rows\<close>

lemma cleared_change:
  assumes "task_change now ids ts ts'" and r': "r' \<in> set ts'" and "tk_id r' \<notin> set ids"
  shows "\<exists>r \<in> set ts. tk_id r = tk_id r' \<and> (tk_cleared r \<noteq> None \<longrightarrow> tk_cleared r' \<noteq> None)"
  using assms(1)
proof cases
  case (rows_set f p)
  with r' obtain r where "r \<in> set ts" "r' = (if p r then f r else r)" by (auto simp: set_where_def)
  with rows_set(2) show ?thesis by (intro bexI [of _ r]) (use keeps_key_cleared [of f r] in \<open>simp_all add: keeps_key_simps\<close>)
next
  case (row_added i a)
  with r' assms(3) show ?thesis by (auto simp: new_task_def)
next
  case (rows_reaped f p q)
  with r' obtain r where "r \<in> set ts" "r' = (if p r then f r else r)" by (auto simp: set_where_def)
  with rows_reaped(2) show ?thesis by (intro bexI [of _ r]) (use keeps_key_cleared [of f r] in \<open>simp_all add: keeps_key_simps\<close>)
qed

lemma step_uses: "task_step (t, used, ts) (t', used', ts') \<Longrightarrow> set used \<subseteq> set used'"
  by (auto elim!: task_stepE)

lemma cleared_step:
  assumes "task_step (t, used, ts) (t', used', ts')" and "i \<in> set used"
    and "\<forall>r \<in> set ts. tk_id r = i \<longrightarrow> tk_cleared r \<noteq> None"
  shows "\<forall>r \<in> set ts'. tk_id r = i \<longrightarrow> tk_cleared r \<noteq> None"
proof (intro ballI impI)
  fix r' assume r': "r' \<in> set ts'" "tk_id r' = i"
  from assms(1) obtain op where op: "ts' = task_apply t' op ts" "set (op_ids op) \<inter> set used = {}" by (auto elim!: task_stepE)
  with assms(2) r' obtain r where "r \<in> set ts" "tk_id r = tk_id r'" "tk_cleared r \<noteq> None \<longrightarrow> tk_cleared r' \<noteq> None"
    using cleared_change [OF task_apply_change, of r' t' op ts] by auto
  with assms(3) r' show "tk_cleared r' \<noteq> None" by auto
qed

lemma cleared_steps:
  assumes "task_step\<^sup>*\<^sup>* (t, used, ts) (t', used', ts')" and "i \<in> set used"
    and "\<forall>r \<in> set ts. tk_id r = i \<longrightarrow> tk_cleared r \<noteq> None"
  shows "i \<in> set used' \<and> (\<forall>r \<in> set ts'. tk_id r = i \<longrightarrow> tk_cleared r \<noteq> None)"
  using assms
proof (induction "(t', used', ts')" arbitrary: t' used' ts' rule: rtranclp_induct)
  case (step y)
  obtain ty uy ry where y: "y = (ty, uy, ry)" by (cases y)
  with step have "i \<in> set uy \<and> (\<forall>r \<in> set ry. tk_id r = i \<longrightarrow> tk_cleared r \<noteq> None)" by blast
  with step(2) y show ?case using step_uses cleared_step by blast
qed simp

section \<open>What the snapshot shows\<close>

lemma set_fold_children: "set (fold_children rs) \<subseteq> set rs"
  by (auto simp: fold_children_def)

lemma snapshot_sound:
  assumes "r \<in> set (task_snapshot ok now f ts)"
  shows "r \<in> set ts \<and> snapshot_where now f r \<and> task_row_schema ok r"
proof -
  from assms have "r \<in> set (filter (task_row_schema ok) (take (case sf_limit f of None \<Rightarrow> 100 | Some n \<Rightarrow> min n 100)
       (sort_key (\<lambda>r. - tk_updated r) (filter (snapshot_where now f) ts))))"
    unfolding task_snapshot_def using set_fold_children by blast
  then show ?thesis by (auto dest: in_set_takeD)
qed

section \<open>Properties\<close>

text \<open>C37: Whatever operations of the task tracker ran, in whatever order, the table is well formed: ids are unique, at
  most one row has a given kind and natural id, a row has no user exactly when its scope is system, it has an end time
  exactly when its status is terminal, and its times are ordered.\<close>

theorem task_rows_invariant:
  assumes "task_step\<^sup>*\<^sup>* (t0, [], []) (now, used, ts)"
  shows "distinct (map tk_id ts) \<and> (\<forall>k x. length (filter (has_ref k x) ts) \<le> 1) \<and>
    (\<forall>r \<in> set ts. (tk_scope r = ScopeSystem \<longleftrightarrow> tk_user r = None) \<and> (terminal (tk_status r) \<longleftrightarrow> tk_finished r \<noteq> None) \<and>
       tk_started r \<le> tk_updated r \<and> tk_updated r \<le> now)"
  using inv_steps [OF assms inv_empty] unfolding task_table_inv_def by (auto simp: task_row_ok_def)

definition sample_args :: task_args where
  "sample_args = \<lparr> ta_kind = ''dns.verify'', ta_ref = Some ''d1'', ta_scope = ScopeAdmin, ta_user = Some ''u1'', ta_tenant = None,
     ta_label = ''Verify'', ta_target = TargetRoute ''/dns'', ta_pct = None, ta_text = None, ta_details = None, ta_parent = None \<rparr>"

definition sample_end :: task_finish_args where
  "sample_end = \<lparr> tf_end = EndFailed, tf_error = Some ''timeout'', tf_patch = None, tf_text = None, tf_clear = True \<rparr>"

definition sample_row :: "int \<Rightarrow> task_row" where
  "sample_row t = task_finish t ''t1'' sample_end [new_task 0 ''t1'' sample_args] ! 0"

lemma sample_run: "task_step\<^sup>*\<^sup>* (0, [], []) (5, [''t1''], [sample_row 5])"
proof -
  have "task_step (0, [], []) (0, op_ids (OpStart ''t1'' sample_args) @ [], task_apply 0 (OpStart ''t1'' sample_args) [])"
    by (rule task_step.intros) simp_all
  then have a: "task_step (0, [], []) (0, [''t1''], [new_task 0 ''t1'' sample_args])"
    by (simp add: task_start_def sample_args_def user_matches_scope_def first_def)
  have "task_step (0, [''t1''], [new_task 0 ''t1'' sample_args])
     (5, op_ids (OpFinish ''t1'' sample_end) @ [''t1''], task_apply 5 (OpFinish ''t1'' sample_end) [new_task 0 ''t1'' sample_args])"
    by (rule task_step.intros) simp_all
  then have b: "task_step (0, [''t1''], [new_task 0 ''t1'' sample_args]) (5, [''t1''], [sample_row 5])"
    by (simp add: task_finish_def set_where_def sample_row_def)
  show ?thesis by (rule converse_rtranclp_into_rtranclp, rule a, rule r_into_rtranclp, rule b)
qed

theorem task_rows_invariant_witness:
  "distinct (map tk_id [sample_row 5]) \<and> terminal (tk_status (sample_row 5)) = (tk_finished (sample_row 5) \<noteq> None)"
  using task_rows_invariant [OF sample_run] by simp

text \<open>C38: A cleared row stays cleared. A surface that starts the operation again under the same natural id gets the old row
  back, shown while it runs, but whatever happens next, its result is never shown to the user: \<open>start\<close> resets the status,
  the end time and the error, not \<open>cleared_at\<close>.\<close>

theorem cleared_task_hides_reruns:
  assumes "task_step\<^sup>*\<^sup>* (t0, [], []) (t, used, ts)" and "r \<in> set ts" and "tk_cleared r \<noteq> None"
    and "task_step\<^sup>*\<^sup>* (t, used, ts) (t', used', ts')" and "r' \<in> set (task_snapshot ok now f ts')" and "tk_id r' = tk_id r"
  shows "tk_status r' \<in> {TkQueued, TkRunning}"
proof -
  have inv: "task_table_inv t used ts" using inv_steps [OF assms(1) inv_empty] .
  then have "\<forall>x \<in> set ts. tk_id x = tk_id r \<longrightarrow> x = r" and "tk_id r \<in> set used"
    using assms(2) unfolding task_table_inv_def by (auto simp: distinct_map inj_on_def)
  with assms(3) have "\<forall>x \<in> set ts'. tk_id x = tk_id r \<longrightarrow> tk_cleared x \<noteq> None"
    using cleared_steps [OF assms(4), of "tk_id r"] by auto
  with snapshot_sound [OF assms(5)] assms(6) show ?thesis by (auto simp: snapshot_where_def split: option.splits)
qed

definition sample_rerun :: task_row where
  "sample_rerun = restarted 9 sample_args (sample_row 5)"

lemma sample_row_fields:
  "tk_id (sample_row t) = ''t1''" "tk_kind (sample_row t) = ''dns.verify''" "tk_ref (sample_row t) = Some ''d1''"
  "tk_cleared (sample_row t) = Some t" "tk_user (sample_row t) = Some ''u1''" "tk_tenant (sample_row t) = None"
  "tk_parent (sample_row t) = None"
  by (simp_all add: sample_row_def task_finish_def set_where_def new_task_def build_finish_update_def sample_end_def sample_args_def)

lemma sample_args_fields:
  "ta_kind sample_args = ''dns.verify''" "ta_ref sample_args = Some ''d1''" "ta_scope sample_args = ScopeAdmin"
  "ta_user sample_args = Some ''u1''"
  by (simp_all add: sample_args_def)

lemma sample_rerun_step: "task_step\<^sup>*\<^sup>* (5, [''t1''], [sample_row 5]) (9, [''t2'', ''t1''], [sample_rerun])"
proof -
  have "task_step (5, [''t1''], [sample_row 5])
     (9, op_ids (OpStart ''t2'' sample_args) @ [''t1''], task_apply 9 (OpStart ''t2'' sample_args) [sample_row 5])"
    by (rule task_step.intros) simp_all
  moreover have "task_apply 9 (OpStart ''t2'' sample_args) [sample_row 5] = [sample_rerun]"
    by (simp add: task_start_def user_matches_scope_def first_def has_ref_def sample_row_fields set_where_def sample_rerun_def
        sample_args_fields)
  ultimately have "task_step (5, [''t1''], [sample_row 5]) (9, [''t2'', ''t1''], [sample_rerun])" by simp
  then show ?thesis by (rule r_into_rtranclp)
qed

lemma sample_rerun_shown:
  "task_snapshot (\<lambda>_. True) 9 \<lparr> sf_user = ''u1'', sf_limit = None, sf_since = None \<rparr> [sample_rerun] = [sample_rerun]"
  by (simp add: task_snapshot_def fold_children_def snapshot_where_def task_row_schema_def sample_rerun_def restarted_def
      sample_row_fields sample_args_def)

theorem cleared_task_hides_reruns_witness: "tk_status sample_rerun \<in> {TkQueued, TkRunning}"
  by (rule cleared_task_hides_reruns [OF sample_run, of "sample_row 5" 9 "[''t2'', ''t1'']" "[sample_rerun]" sample_rerun
        "\<lambda>_. True" 9 "\<lparr> sf_user = ''u1'', sf_limit = None, sf_since = None \<rparr>"])
     (simp_all add: sample_row_fields sample_rerun_step sample_rerun_shown, simp add: sample_rerun_def restarted_def sample_row_fields)

section \<open>Orphans\<close>

text \<open>The clean-up looks at the first start of a row: an operation started again on a row older than a day is marked failed
  by the next clean-up, however recent its last start or progress.\<close>

lemma rerun_reaped_while_running:
  assumes "task_start now i a ts = Inr (res, ts')" and "r \<in> set ts'" and "tk_status r = TkRunning"
    and "tk_started r < now - ORPHAN_REAP_HOURS * 3600000"
  shows "\<exists>r' \<in> set (snd (task_run_retention now ts')). tk_id r' = tk_id r \<and> tk_status r' = TkFailed"
proof -
  let ?g = "\<lambda>r. r\<lparr>tk_status := TkFailed, tk_finished := Some now, tk_updated := now,
    tk_error := Some ''Task reaped - no progress in over 24 hours''\<rparr>"
  have "task_orphan now r" using assms(3,4) by (simp add: task_orphan_def)
  then have "?g r \<in> set (set_where (task_orphan now) ?g ts')" using assms(2) by (force simp: set_where_def)
  moreover have "\<not> task_expired now (?g r)" by (simp add: task_expired_def TERMINAL_RETENTION_DAYS_def)
  ultimately show ?thesis unfolding task_run_retention_def Let_def by (intro bexI [of _ "?g r"]) simp_all
qed

end
