(* ===== verification/Spec2Isabelle.thy ===== *)
theory Spec2Isabelle
  imports LifecycleProps SqlSplitter ImageRef Semver AutobanScheduler WafScraper CustomDeployProps AccountProps StorageSystem StoragePolicy WorkerLife WorkerBounds TaskLife
begin

text \<open>
  The decision logic of the hosting platform's backend (\<open>src/backend/src/\<close>, TypeScript) and of the
  contracts it shares with its clients (\<open>src/packages/api-contracts/src/\<close>).

  \<^bold>\<open>The program.\<close> A multi-tenant platform on Kubernetes. Its backend keeps tables in PostgreSQL, talks to
  the cluster, to a mail server, to DNS and registry services, and runs periodic jobs. The parts modelled
  here are those whose own code decides something:

  \<^item> Tenant lifecycle (\<open>modules/tenant-lifecycle/\<close>): a transition of a tenant (suspend, delete, restore)
    runs the registered hooks in dependency order and records each in a table; a scheduler retries failed
    ones behind a circuit breaker per hook.
  \<^item> Custom deployments (\<open>modules/custom-deployments/\<close>): a tenant's own containers, given as a form or a
    compose file, become a specification, are validated, stored, and rendered into manifests.
  \<^item> Image references and version tags, used by custom deployments, the storage module and updates.
  \<^item> The WAF log scraper (\<open>ingress-routes/waf-log-scraper.ts\<close>) fills a table of firewall events, from
    which the auto-ban (\<open>modules/crowdsec-autoban/\<close>) decides which addresses to ban, and for how long.
  \<^item> The splitter of SQL migrations (\<open>db/sql-splitter.ts\<close>).
  \<^item> Accounts (\<open>modules/auth/\<close>, \<open>middleware/auth.ts\<close>, \<open>modules/admin-users/\<close>, the users of a tenant): login with
    password or passkey, refresh tokens, step-up, the guards of the routes, the administration of users.
  \<^item> Storage of tenants (\<open>modules/storage-lifecycle/\<close>, the storage policy of \<open>modules/tenants/service.ts\<close>): each
    operation (snapshot, resize, suspend, resume, archive, restore, rollback, file system check) writes a row and a
    lock on the tenant, and then runs a sequence of calls of the database, the cluster and the snapshot store, each
    of which can fail; periodic jobs expire snapshots and archive or delete tenants.
  \<^item> Private workers (\<open>modules/private-workers/\<close>, the lifecycle hook \<open>db-private-workers\<close>): agents outside the cluster that
    dial in through a tunnel server of their tenant. Requests change the rows of the workers; a reconciler makes the
    cluster agree with them, object by object, whatever calls fail.
  \<^item> The task tracker (\<open>modules/tasks/\<close>): a table of the long-running operations, written by the parts that run them, shown
    to the user who started them.

  \<^bold>\<open>Theories and sources.\<close>

  \<^item> \<^theory_text>\<open>Prelude\<close>: string methods, insertion-ordered maps, stable sorting; the interfaces of stores and
    comparators (locales) and the rewrite collections.
  \<^item> \<^theory_text>\<open>JsRegex\<close>: the backtracking matcher every regular expression of the source is run with, proved to
    accept the language of the expression. \<^theory_text>\<open>JsValue\<close>: dynamically typed values, \<open>String(v)\<close>, property lookup.
  \<^item> \<^theory_text>\<open>LifecycleRegistry\<close> (\<open>registry/registry.ts\<close>, \<open>types.ts\<close>, \<open>feature-flags.ts\<close>),
    \<^theory_text>\<open>LifecycleDispatcher\<close> (\<open>registry/dispatcher.ts\<close>), \<^theory_text>\<open>LifecycleScheduler\<close> (\<open>scheduler.ts\<close>,
    \<open>bulk-tag.ts\<close>). Their lemmas: \<^theory_text>\<open>LifecycleOrder\<close> (the sort), \<^theory_text>\<open>LifecycleRun\<close> (the abstract run and
    the refinement), \<^theory_text>\<open>LifecycleSystem\<close> (the tables as a state machine), \<^theory_text>\<open>LifecycleProps\<close> (properties).
  \<^item> \<^theory_text>\<open>CustomSpec\<close> (\<open>api-contracts/custom-deployments.ts\<close>), \<^theory_text>\<open>SpecValidator\<close> (\<open>validator.ts\<close>),
    \<^theory_text>\<open>ComposeParser\<close> and \<^theory_text>\<open>ComposeStack\<close> (\<open>compose-parser.ts\<close>: the field parsers; one service and the
    document), \<^theory_text>\<open>CustomDeployService\<close> (\<open>service.ts\<close>, \<open>pat-store.ts\<close>), \<^theory_text>\<open>CustomDeployer\<close>
    (\<open>k8s-deployer.ts\<close>). Their lemmas: \<^theory_text>\<open>ComposeProps\<close> (shape of a parsed stack), \<^theory_text>\<open>ComposeTotal\<close> (when
    the parser returns), \<^theory_text>\<open>CustomDeployInv\<close> (operations as a step relation, its invariant),
    \<^theory_text>\<open>CustomDeployProps\<close> (properties).
  \<^item> \<^theory_text>\<open>ImageRef\<close> (\<open>image-reference.ts\<close>, \<open>storage/image-ref-utils.ts\<close>), \<^theory_text>\<open>Semver\<close>
    (\<open>semver-compare.ts\<close>), \<^theory_text>\<open>SqlSplitter\<close> (\<open>db/sql-splitter.ts\<close>).
  \<^item> \<^theory_text>\<open>WafScraper\<close> (\<open>waf-log-scraper.ts\<close>), \<^theory_text>\<open>WafEvaluator\<close> (\<open>evaluator.ts\<close>), \<^theory_text>\<open>AutobanScheduler\<close>
    (\<open>scheduler.ts\<close>).
  \<^item> \<^theory_text>\<open>Tables\<close>: queries and updates of a table, shared by accounts and storage.
  \<^item> \<^theory_text>\<open>AuthState\<close> (tables, tokens, \<open>refresh-token-service.ts\<close>, \<open>auth/service.ts\<close>), \<^theory_text>\<open>AuthHooks\<close> (\<open>middleware/auth.ts\<close>),
    \<^theory_text>\<open>AuthRoutes\<close> (\<open>auth/routes.ts\<close>), \<^theory_text>\<open>Passkeys\<close> and \<^theory_text>\<open>AuthSecond\<close> (\<open>passkey-service.ts\<close>, \<open>passkey-routes.ts\<close>,
    \<open>step-up-service.ts\<close>, \<open>step-up-routes.ts\<close>), \<^theory_text>\<open>AccountAdmin\<close> (\<open>admin-users/routes.ts\<close>, \<open>sub-users-service.ts\<close>). Their
    lemmas: \<^theory_text>\<open>AuthLaws\<close>, \<^theory_text>\<open>AuthInv\<close> (all requests as a step relation, its invariant), \<^theory_text>\<open>AuthProps\<close>, \<^theory_text>\<open>AccountLaws\<close>,
    \<^theory_text>\<open>AccountProps\<close>.
  \<^item> \<^theory_text>\<open>StorageState\<close> (rows, the namespace of a tenant, archives, \<open>snapshot-quota.ts\<close>), \<^theory_text>\<open>StorageCluster\<close> (one call of the
    cluster or a store and the ways it fails: \<open>quiesce.ts\<close>, \<open>snapshot.ts\<close>, \<open>restore.ts\<close>, the volume claim),
    \<^theory_text>\<open>StorageRun\<close> (the orchestrators of \<open>service.ts\<close> as lists of calls with a handler, and threads that run them),
    \<^theory_text>\<open>StorageOps\<close> (what each operation checks and writes before it starts its thread), \<^theory_text>\<open>StorageTenant\<close> (\<open>updateTenant\<close>,
    \<open>deleteTenant\<close>, \<open>scheduler.ts\<close>). Their lemmas: \<^theory_text>\<open>StorageSafety\<close> (a static check of an orchestrator and its soundness:
    data survives every failure and crash), \<^theory_text>\<open>StorageLaws\<close> (reading the world after an update), \<^theory_text>\<open>StorageProps\<close> (shrink,
    archive, rollback), \<^theory_text>\<open>StorageSystem\<close> (threads of many tenants as a step relation, the lock), \<^theory_text>\<open>StoragePolicy\<close> (resize
    decision, quota, suspend and resume, expiry, deletion, patches).
  \<^item> \<^theory_text>\<open>WorkerState\<close> (tables, contracts, slugs, tokens), \<^theory_text>\<open>WorkerService\<close> (\<open>private-workers/service.ts\<close>,
    \<open>internal-routes.ts\<close>: every operation as a function of the tables and of what other requests do between its statements),
    \<^theory_text>\<open>WorkerCluster\<close> (stores of the API server, \<open>traefik-types.ts\<close>, \<open>traefik-apply.ts\<close>), \<^theory_text>\<open>WorkerReconcile\<close>
    (\<open>reconciler.ts\<close>, the hook). Their lemmas: \<^theory_text>\<open>WorkerConverge\<close> (the objects wanted and the objects to go, as a locale
    with an interpretation for each kind), \<^theory_text>\<open>WorkerSteps\<close> and \<^theory_text>\<open>WorkerReap\<close> (each call moves the cluster toward the goal
    or leaves it), \<^theory_text>\<open>WorkerRefine\<close> (a reconciliation refines that goal, and is apart from those of other tenants),
    \<^theory_text>\<open>WorkerLaws\<close> (the invariant of the rows), \<^theory_text>\<open>WorkerSystem\<close> (all requests, hooks and reconciliations as a step
    relation; the settings route of \<open>admin-routes.ts\<close>), \<^theory_text>\<open>WorkerProps\<close>, \<^theory_text>\<open>WorkerSecurity\<close> (revocation, rotation),
    \<^theory_text>\<open>WorkerBounds\<close> (length of slugs), \<^theory_text>\<open>WorkerLife\<close> (suspension and its end).
  \<^item> \<^theory_text>\<open>TaskTracker\<close> (\<open>tasks/service.ts\<close>, \<open>api-contracts/task-center.ts\<close>); \<^theory_text>\<open>TaskLife\<close>: its operations as a step relation.

  \<^bold>\<open>How the code is translated.\<close> A table is a list of records in insertion order and an operation a function
  from the state to the state it leaves and a result; an exception is a branch of the result, and the state
  at the moment of the exception is kept, because rows written before it stay written. A \<open>Map\<close> is an
  association list in insertion order. An object read from a document is the list of its own entries, and a
  lookup in an object also finds the members of \<open>Object.prototype\<close>, since the source indexes plain objects
  with strings a tenant chooses. Strings are lists of code units below 256. Numbers of a document are exact
  rationals with the infinities and \<open>NaN\<close>; doubles are rounded only where it decides something (the safety
  factor of a shrink). Volumes hold a map from paths to contents. Texts for display
  (messages, hints, log lines) are left out; codes and paths of issues are kept.

  \<^bold>\<open>Parameters.\<close> What is not in the repository is an argument: the hooks' effects, the clock, random ids, the
  Kubernetes API, the YAML library (a function from text to a value, or none when it throws), encryption, the
  banning service, signed tokens, password hashes and WebAuthn responses, the outcome of each storage call,
  of each call of the reconciler (\<open>ka_fault\<close>: refused, or done with its reply lost), the digest of secrets, the environment. Where a property needs a fact about one (a loaded document has no repeated keys, ids are
  fresh), the fact is a hypothesis with its own name, and an instance shows it can hold.

  \<^bold>\<open>Bounds.\<close> All loops are total functions: structural recursion, or a proved measure (the sort counts queued and
  unprocessed names; the cycle search counts services not yet on the path; the matcher goes down the
  expression and the input). A storage thread makes one call for each fault of a given list: the list is as long as
  the calls that are made, and a list that ends early is a process that died there; the number of calls that a
  complete run needs is in each property. The one bounded search is that of \<open>uniqueInitName\<close>, 98 suffixes as in the source.
  A generated slug is tried 6 times and an insert 8 times, as in the source; the pool of ports is 10000 to 19999.
  The parser is total up to the exceptions shown in \<^theory_text>\<open>ComposeTotal\<close>, which also gives the documents on which
  it never throws.

  \<^bold>\<open>What the lemmas show.\<close> Registry: the registered hooks keep their invariant, the sort is a permutation in
  dependency order or reports a cycle. Dispatcher: it refines the abstract run. Tables: the invariant holds in
  every reachable state, a retry touches only due rows. Custom deployments: the validator decides a
  contract stated without it; the parser's output is well formed; every stored deployment satisfies the contract
  after any operations of any tenants; tenants do not affect each other; mounts and volumes of a
  pod agree. Image references: printing and parsing are inverse. Splitter: it returns the statements of
  a grammar. WAF: exactly which addresses are banned, the spacing of bans, what is never evaluated.
  Accounts: which tokens are usable after which requests, one usable token for each family, nobody becomes a super
  administrator by a request, when the guards let a request pass. Storage: a shrink through a target never loses data,
  operations of a tenant exclude each other until one is cancelled, archive and restore, suspend and resume are
  inverse up to what the code drops, the decision of a resize, the quota, what expiry and deletion remove.
  Private workers: slugs, names and ports stay unique under any interleaving; a reconciliation without an error leaves exactly
  the objects of the active workers, does not touch other tenants, and succeeds from any state once nothing is refused.
  Task tracker: the table stays well formed; a cleared row stays cleared, which hides the result of a re-run.
  Where the code does not do what its comments say, a theorem states what it does.

  \<^bold>\<open>Not modelled.\<close> The web panels; HTTP routing; OIDC and the OAuth proxy, audit rows and rate limits; catalog
  deployments, tenant backups, mail, DNS, certificates, nodes, monitoring, whose code is calls of external services;
  of storage the progress texts, its rows in the task tracker, the manifests of the jobs, placement and tiers; the timers around
  the periodic jobs; concurrency between two requests on the same row, except for refresh tokens, storage threads
  and the changes of private workers (elsewhere an operation is one step); the rewriting of log lines for display;
  of private workers the agent, the tunnel server itself, the status report of the administrators, and conflicts of
  \<open>resourceVersion\<close> (an error like any other refused call); of the task tracker the routes and the event stream. The
  lifecycle dispatcher records its calls of the tracker as a trace of events.
\<close>

end
